(* ===== verification/Py.thy ===== *)
theory Py
  imports Main "HOL-Library.List_Lexorder" "HOL-Library.Char_ord"
begin

text \<open>
  The vocabulary of the source language that the components share: dynamic values as they
  arrive in JSON payloads, the string operations the code calls, exceptions as values,
  and generic facts on lists and association lists.

  Strings are sequences of code points below 256 (Latin-1), on which \<open>str.strip\<close>,
  \<open>str.lower\<close> and UTF-8 lengths are given exactly. A JSON float is represented by what
  the code observes of it: its \<open>repr\<close> text and its truncation by \<open>int()\<close>
  (\<open>None\<close> for nan and the infinities, where \<open>int()\<close> raises).
\<close>

named_theorems py_simps "unfolding rules for the operations of the source language"

section \<open>Dynamic values\<close>

datatype pyval =
    PNone
  | PBool bool
  | PInt int
  | PFloat string "int option"
  | PStr string
  | PList "pyval list"
  | PDict "(string \<times> pyval) list"

type_synonym pydict = "(string \<times> pyval) list"

text \<open>A JSON text: the value it parses to, or \<open>None\<close> where \<open>json.loads\<close> raises.\<close>

type_synonym json_text = "pyval option"

text \<open>Exceptions of the source and of the libraries it calls. Details are kept as a dict.\<close>

datatype exn =
    ValueError string
  | UnsafeSqlError string
  | QueryTimeoutError string
  | PolicyDeniedError string pydict
  | NotFoundError string pydict
  | DisabledIntegrationError string
  | StartupConfigurationError string
  | AuditSinkError string
  | OSError string
  | IntegrityError string
  | OverflowError
  | TypeError
  | TimeoutError
  | KeyError string
  | BackendUnavailable string
  | StrictIngestCompletenessError string nat "string option" "string option"
  | OtherError string

text \<open>
  \<open>UnsafeSqlError\<close>, \<open>QueryTimeoutError\<close> and \<open>StrictIngestCompletenessError\<close> (with its evidence, the
  number of failures, the proposal and the task) are subclasses of \<open>ValueError\<close>.
\<close>

fun is_value_error :: "exn \<Rightarrow> bool" where
  "is_value_error (ValueError _) = True"
| "is_value_error (UnsafeSqlError _) = True"
| "is_value_error (QueryTimeoutError _) = True"
| "is_value_error (StrictIngestCompletenessError _ _ _ _) = True"
| "is_value_error _ = False"

type_synonym 'a res = "exn + 'a"

definition rbind :: "'a res \<Rightarrow> ('a \<Rightarrow> 'b res) \<Rightarrow> 'b res" where
  "rbind r f = (case r of Inl e \<Rightarrow> Inl e | Inr x \<Rightarrow> f x)"

lemma rbind_Inl [simp]: "rbind (Inl e) f = Inl e"
  by (simp add: rbind_def)

lemma rbind_Inr [simp]: "rbind (Inr x) f = f x"
  by (simp add: rbind_def)

lemma rbind_InrD: "rbind r f = Inr y \<Longrightarrow> \<exists>x. r = Inr x \<and> f x = Inr y"
  by (cases r) auto

lemma rbind_eq_Inr_iff: "rbind r f = Inr y \<longleftrightarrow> (\<exists>x. r = Inr x \<and> f x = Inr y)"
  by (cases r) auto

text \<open>A loop that appends the result of each item and stops at the first exception.\<close>

fun rmap :: "('a \<Rightarrow> 'b res) \<Rightarrow> 'a list \<Rightarrow> 'b list res" where
  "rmap f [] = Inr []"
| "rmap f (x # xs) = rbind (f x) (\<lambda>y. rbind (rmap f xs) (\<lambda>ys. Inr (y # ys)))"

lemma rmap_Inr_set: "rmap f xs = Inr ys \<Longrightarrow> y \<in> set ys \<Longrightarrow> \<exists>x \<in> set xs. f x = Inr y"
  by (induction xs arbitrary: ys) (auto simp: rbind_eq_Inr_iff)

lemma rmap_all2: "rmap f xs = Inr ys \<Longrightarrow> list_all2 (\<lambda>x y. f x = Inr y) xs ys"
  by (induction xs arbitrary: ys) (auto simp: rbind_eq_Inr_iff)

lemma rmap_Inr_map:
  "(\<And>x. x \<in> set xs \<Longrightarrow> f x = Inr (g x)) \<Longrightarrow> rmap f xs = Inr (map g xs)"
  by (induction xs) auto

text \<open>Searches and folds over lists.\<close>

lemma find_in: "find P xs = Some x \<Longrightarrow> P x \<and> x \<in> set xs"
  by (auto simp: find_Some_iff)

lemma foldl_invariant: "P a \<Longrightarrow> (\<And>a x. P a \<Longrightarrow> x \<in> set xs \<Longrightarrow> P (f a x)) \<Longrightarrow> P (foldl f a xs)"
  by (induction xs arbitrary: a) auto

section \<open>Characters and strings\<close>

definition code :: "char \<Rightarrow> nat" where
  "code c = of_char c"

definition is_space :: "char \<Rightarrow> bool" where
  "is_space c = (let n = code c in
     (9 \<le> n \<and> n \<le> 13) \<or> (28 \<le> n \<and> n \<le> 32) \<or> n = 133 \<or> n = 160)"

definition is_alpha :: "char \<Rightarrow> bool" where
  "is_alpha c = (let n = code c in (65 \<le> n \<and> n \<le> 90) \<or> (97 \<le> n \<and> n \<le> 122))"

definition is_digit :: "char \<Rightarrow> bool" where
  "is_digit c = (let n = code c in 48 \<le> n \<and> n \<le> 57)"

definition lower_char :: "char \<Rightarrow> char" where
  "lower_char c = (let n = code c in
     if (65 \<le> n \<and> n \<le> 90) \<or> (192 \<le> n \<and> n \<le> 222 \<and> n \<noteq> 215)
     then char_of (n + 32) else c)"

definition lower :: "string \<Rightarrow> string" where
  "lower s = map lower_char s"

definition lstrip :: "string \<Rightarrow> string" where
  "lstrip s = dropWhile is_space s"

definition rstrip :: "string \<Rightarrow> string" where
  "rstrip s = rev (dropWhile is_space (rev s))"

definition strip :: "string \<Rightarrow> string" where
  "strip s = rstrip (lstrip s)"

definition startswith :: "string \<Rightarrow> string \<Rightarrow> bool" where
  "startswith s p = (take (length p) s = p)"

fun contains :: "string \<Rightarrow> string \<Rightarrow> bool" where
  "contains sub [] = (sub = [])"
| "contains sub (c # s) = (startswith (c # s) sub \<or> contains sub s)"

text \<open>\<open>s.split(sep, 1)\<close>: the text before the first separator and the text after it, if any.\<close>

fun split1 :: "char \<Rightarrow> string \<Rightarrow> string \<times> string option" where
  "split1 sep [] = ([], None)"
| "split1 sep (c # s) =
     (if c = sep then ([], Some s) else (let (a, b) = split1 sep s in (c # a, b)))"

fun join :: "string \<Rightarrow> string list \<Rightarrow> string" where
  "join sep [] = []"
| "join sep [x] = x"
| "join sep (x # y # xs) = x @ sep @ join sep (y # xs)"

text \<open>Length in bytes of the UTF-8 encoding of a Latin-1 string.\<close>

definition utf8_len :: "string \<Rightarrow> int" where
  "utf8_len s = sum_list (map (\<lambda>c. if code c < 128 then 1 else 2) s)"

lemma utf8_len_ge_length: "int (length s) \<le> utf8_len s"
  by (induction s) (auto simp: utf8_len_def)

section \<open>Integers and their decimal text\<close>

fun nat_digits :: "nat \<Rightarrow> string" where
  "nat_digits n = (if n < 10 then [char_of (48 + n)]
                   else nat_digits (n div 10) @ [char_of (48 + n mod 10)])"

declare nat_digits.simps [simp del]

definition int_str :: "int \<Rightarrow> string" where
  "int_str i = (if i < 0 then CHR ''-'' # nat_digits (nat (- i)) else nat_digits (nat i))"

text \<open>
  \<open>int(s)\<close> of a string: surrounding whitespace, one sign, decimal digits with single
  underscores between them; at most 4300 digits (the interpreter's limit). \<open>None\<close> is
  \<open>ValueError\<close>.
\<close>

fun digits_value :: "int \<Rightarrow> bool \<Rightarrow> string \<Rightarrow> int option" where
  "digits_value acc after_digit [] = (if after_digit then Some acc else None)"
| "digits_value acc after_digit (c # s) =
     (if is_digit c then digits_value (acc * 10 + (int (code c) - 48)) True s
      else if c = CHR ''_'' \<and> after_digit then digits_value acc False s
      else None)"

definition parse_int :: "string \<Rightarrow> int option" where
  "parse_int s0 = (let s = strip s0 in
     if length (filter is_digit s) > 4300 then None
     else case s of
       [] \<Rightarrow> None
     | c # r \<Rightarrow>
         if c = CHR ''-'' then map_option uminus (digits_value 0 False r)
         else if c = CHR ''+'' then digits_value 0 False r
         else digits_value 0 False s)"

section \<open>str(), repr() and truth values\<close>

definition hex_digit :: "nat \<Rightarrow> char" where
  "hex_digit n = (if n < 10 then char_of (48 + n) else char_of (87 + n))"

definition is_printable :: "char \<Rightarrow> bool" where
  "is_printable c = (let n = code c in
     (32 \<le> n \<and> n < 127) \<or> (161 \<le> n \<and> n \<noteq> 173))"

definition repr_char :: "char \<Rightarrow> char \<Rightarrow> string" where
  "repr_char q c =
     (if c = q \<or> code c = 92 then [CHR 0x5C, c]
      else if code c = 10 then [CHR 0x5C, CHR ''n'']
      else if code c = 13 then [CHR 0x5C, CHR ''r'']
      else if code c = 9 then [CHR 0x5C, CHR ''t'']
      else if is_printable c then [c]
      else [CHR 0x5C, CHR ''x'', hex_digit (code c div 16), hex_digit (code c mod 16)])"

definition str_repr :: "string \<Rightarrow> string" where
  "str_repr s =
     (let q = (if CHR 0x27 \<in> set s \<and> CHR 0x22 \<notin> set s
               then CHR 0x22 else CHR 0x27)
      in q # concat (map (repr_char q) s) @ [q])"

fun py_repr :: "pyval \<Rightarrow> string" where
  "py_repr PNone = ''None''"
| "py_repr (PBool b) = (if b then ''True'' else ''False'')"
| "py_repr (PInt i) = int_str i"
| "py_repr (PFloat t _) = t"
| "py_repr (PStr s) = str_repr s"
| "py_repr (PList xs) = ''['' @ join '', '' (map py_repr xs) @ '']''"
| "py_repr (PDict kvs) =
     ''{'' @ join '', '' (map (\<lambda>p. str_repr (fst p) @ '': '' @ py_repr (snd p)) kvs) @ ''}''"

fun py_str :: "pyval \<Rightarrow> string" where
  "py_str (PStr s) = s"
| "py_str v = py_repr v"

fun py_truth :: "pyval \<Rightarrow> bool" where
  "py_truth PNone = False"
| "py_truth (PBool b) = b"
| "py_truth (PInt i) = (i \<noteq> 0)"
| "py_truth (PFloat t _) = (t \<noteq> ''0.0'' \<and> t \<noteq> ''-0.0'')"
| "py_truth (PStr s) = (s \<noteq> [])"
| "py_truth (PList xs) = (xs \<noteq> [])"
| "py_truth (PDict kvs) = (kvs \<noteq> [])"

text \<open>\<open>x if isinstance(x, dict) else {}\<close> and the same for lists.\<close>

fun as_dict :: "pyval \<Rightarrow> pydict" where
  "as_dict (PDict d) = d"
| "as_dict _ = []"

fun as_list :: "pyval \<Rightarrow> pyval list" where
  "as_list (PList xs) = xs"
| "as_list _ = []"

fun is_dict :: "pyval \<Rightarrow> bool" where
  "is_dict (PDict _) = True"
| "is_dict _ = False"

fun is_list :: "pyval \<Rightarrow> bool" where
  "is_list (PList _) = True"
| "is_list _ = False"

fun is_str :: "pyval \<Rightarrow> bool" where
  "is_str (PStr _) = True"
| "is_str _ = False"

text \<open>
  \<open>int(v)\<close> where \<open>v\<close> is an int, a float or a string; a bool is an int.
\<close>

fun py_int :: "pyval \<Rightarrow> int res" where
  "py_int (PBool b) = Inr (if b then 1 else 0)"
| "py_int (PInt i) = Inr i"
| "py_int (PFloat t None) = Inl (if t = ''nan'' then ValueError ''int'' else OverflowError)"
| "py_int (PFloat t (Some i)) = Inr i"
| "py_int (PStr s) = (case parse_int s of None \<Rightarrow> Inl (ValueError ''int'') | Some i \<Rightarrow> Inr i)"
| "py_int _ = Inl TypeError"

section \<open>Dictionaries\<close>

definition dget :: "(string \<times> 'v) list \<Rightarrow> string \<Rightarrow> 'v option" where
  "dget d k = map_of d k"

definition dget_or :: "(string \<times> 'v) list \<Rightarrow> string \<Rightarrow> 'v \<Rightarrow> 'v" where
  "dget_or d k v = (case map_of d k of None \<Rightarrow> v | Some x \<Rightarrow> x)"

fun dset :: "(string \<times> 'v) list \<Rightarrow> string \<Rightarrow> 'v \<Rightarrow> (string \<times> 'v) list" where
  "dset [] k v = [(k, v)]"
| "dset ((k', w) # d) k v = (if k' = k then (k, v) # d else (k', w) # dset d k v)"

definition ddel :: "(string \<times> 'v) list \<Rightarrow> string \<Rightarrow> (string \<times> 'v) list" where
  "ddel d k = filter (\<lambda>p. fst p \<noteq> k) d"

definition dkeys :: "(string \<times> 'v) list \<Rightarrow> string list" where
  "dkeys d = map fst d"

abbreviation str_of :: "pydict \<Rightarrow> string \<Rightarrow> string \<Rightarrow> string" where
  "str_of d k dflt \<equiv> py_str (dget_or d k (PStr dflt))"

lemma map_of_dset [simp]: "map_of (dset d k v) = (map_of d)(k \<mapsto> v)"
  by (induction d k v rule: dset.induct) (auto simp: fun_eq_iff)

lemma map_of_ddel [simp]: "map_of (ddel d k) = (map_of d)(k := None)"
  by (induction d) (auto simp: ddel_def fun_eq_iff)

lemma dget_dset [simp]: "dget (dset d k v) k' = (if k' = k then Some v else dget d k')"
  by (simp add: dget_def)

lemma dget_ddel [simp]: "dget (ddel d k) k' = (if k' = k then None else dget d k')"
  by (simp add: dget_def)

lemma dget_or_dset [simp]: "dget_or (dset d k v) k' w = (if k' = k then v else dget_or d k' w)"
  by (simp add: dget_or_def)

lemma set_dkeys_dset [simp]: "set (dkeys (dset d k v)) = insert k (set (dkeys d))"
  by (induction d k v rule: dset.induct) (auto simp: dkeys_def)

lemma distinct_dkeys_dset [simp]:
  "distinct (dkeys d) \<Longrightarrow> distinct (dkeys (dset d k v))"
proof (induction d k v rule: dset.induct)
  case (2 k' w d k v)
  then show ?case using set_dkeys_dset [of d k v] by (auto simp: dkeys_def)
qed (simp add: dkeys_def)

lemma distinct_dkeys_ddel [simp]:
  "distinct (dkeys d) \<Longrightarrow> distinct (dkeys (ddel d k))"
  by (induction d) (auto simp: dkeys_def ddel_def)

lemma length_dset: "length (dset d k v) = (if k \<in> set (dkeys d) then length d else Suc (length d))"
  by (induction d k v rule: dset.induct) (auto simp: dkeys_def)

lemma ddel_notin: "k \<notin> set (dkeys d) \<Longrightarrow> ddel d k = d"
  by (induction d) (auto simp: dkeys_def ddel_def)

lemma length_ddel:
  "distinct (dkeys d) \<Longrightarrow> k \<in> set (dkeys d) \<Longrightarrow> Suc (length (ddel d k)) = length d"
proof (induction d)
  case (Cons p d)
  show ?case
  proof (cases "fst p = k")
    case True
    with Cons.prems have "k \<notin> set (dkeys d)" by (auto simp: dkeys_def)
    with True show ?thesis using ddel_notin [of k d] by (simp add: ddel_def)
  next
    case False
    with Cons show ?thesis by (auto simp: dkeys_def ddel_def)
  qed
qed (simp add: dkeys_def)

lemma dget_None_iff: "dget d k = None \<longleftrightarrow> k \<notin> set (dkeys d)"
  by (auto simp: dget_def dkeys_def map_of_eq_None_iff)

text \<open>Values built from optional texts, optional dictionaries and lists of texts.\<close>

definition str_py_list :: "string list \<Rightarrow> pyval" where
  "str_py_list xs = PList (map PStr xs)"

definition opt_str :: "string option \<Rightarrow> pyval" where
  "opt_str o' = (case o' of None \<Rightarrow> PNone | Some s \<Rightarrow> PStr s)"

definition opt_dict :: "pydict option \<Rightarrow> pyval" where
  "opt_dict o' = (case o' of None \<Rightarrow> PNone | Some d \<Rightarrow> PDict d)"

section \<open>Sorting and sets of strings\<close>

text \<open>\<open>sorted(set(xs))\<close>: by code point, without repetitions.\<close>

definition sorted_set :: "string list \<Rightarrow> string list" where
  "sorted_set xs = sort (remdups xs)"

lemma set_sorted_set [simp]: "set (sorted_set xs) = set xs"
  by (simp add: sorted_set_def)

lemma sorted_sorted_set [simp]: "sorted (sorted_set xs)"
  by (simp add: sorted_set_def)

lemma distinct_sorted_set [simp]: "distinct (sorted_set xs)"
  by (simp add: sorted_set_def)

lemma sorted_set_Nil_iff [simp]: "sorted_set xs = [] \<longleftrightarrow> xs = []"
  by (metis set_sorted_set set_empty)

section \<open>Paths\<close>

text \<open>
  \<open>pathlib\<close> paths on POSIX: a root and parts; empty and \<open>.\<close> components are dropped, and
  joining with an absolute path replaces the left operand.
\<close>

fun split_on :: "char \<Rightarrow> string \<Rightarrow> string list" where
  "split_on sep [] = [[]]"
| "split_on sep (c # s) =
     (if c = sep then [] # split_on sep s
      else case split_on sep s of [] \<Rightarrow> [[c]] | p # ps \<Rightarrow> (c # p) # ps)"

type_synonym py_path = "string \<times> string list"

definition path_of :: "string \<Rightarrow> py_path" where
  "path_of s =
     ((if startswith s ''//'' \<and> \<not> startswith s ''///'' then ''//''
       else if startswith s ''/'' then ''/'' else []),
      filter (\<lambda>p. p \<noteq> [] \<and> p \<noteq> ''.'') (split_on (CHR ''/'') s))"

definition path_join :: "py_path \<Rightarrow> string \<Rightarrow> py_path" where
  "path_join p s = (if fst (path_of s) \<noteq> [] then path_of s else (fst p, snd p @ snd (path_of s)))"

definition as_posix :: "py_path \<Rightarrow> string" where
  "as_posix p = (if fst p = [] \<and> snd p = [] then ''.'' else fst p @ join ''/'' (snd p))"

section \<open>The regular expressions of the source\<close>

definition ident_start :: "char \<Rightarrow> bool" where
  "ident_start c = (is_alpha c \<or> c = CHR ''_'')"

definition ident_char :: "char \<Rightarrow> bool" where
  "ident_char c = (is_alpha c \<or> is_digit c \<or> c = CHR ''_'')"

text \<open>The language of \<open>[A-Za-z_][A-Za-z0-9_]*\<close>.\<close>

fun is_ident :: "string \<Rightarrow> bool" where
  "is_ident [] = False"
| "is_ident (c # s) = (ident_start c \<and> list_all ident_char s)"

text \<open>
  \<open>re.compile(r"^[A-Za-z_][A-Za-z0-9_]*$").match(s)\<close>: without \<open>re.MULTILINE\<close>,
  \<open>$\<close> also matches just before one newline at the end of the text.
\<close>

definition ident_match :: "string \<Rightarrow> bool" where
  "ident_match s = (is_ident s \<or>
     (s \<noteq> [] \<and> code (last s) = 10 \<and> is_ident (butlast s)))"

text \<open>\<open>re.compile(r"[A-Za-z_][A-Za-z0-9_]*").findall(s)\<close>: leftmost, longest matches.\<close>

function find_idents :: "string \<Rightarrow> string list" where
  "find_idents [] = []"
| "find_idents (c # s) =
     (if ident_start c then (c # takeWhile ident_char s) # find_idents (dropWhile ident_char s)
      else find_idents s)"
  by pat_completeness auto
termination
  by (relation "measure length") (auto intro: le_imp_less_Suc length_dropWhile_le)

lemma find_idents_are_idents: "t \<in> set (find_idents s) \<Longrightarrow> is_ident t"
  by (induction s rule: find_idents.induct)
     (auto simp: list_all_iff dest: set_takeWhileD split: if_splits)

section \<open>Stripping\<close>

lemma hd_dropWhile_not: "dropWhile P xs \<noteq> [] \<Longrightarrow> \<not> P (hd (dropWhile P xs))"
  by (rule hd_dropWhile)

lemma dropWhile_id: "xs = [] \<or> \<not> P (hd xs) \<Longrightarrow> dropWhile P xs = xs"
  by (cases xs) auto

lemma lstrip_id: "s = [] \<or> \<not> is_space (hd s) \<Longrightarrow> lstrip s = s"
  by (simp add: lstrip_def dropWhile_id)

lemma rstrip_id: "s = [] \<or> \<not> is_space (last s) \<Longrightarrow> rstrip s = s"
  by (auto simp: rstrip_def dropWhile_id hd_rev)

lemma rstrip_last: "rstrip s \<noteq> [] \<Longrightarrow> \<not> is_space (last (rstrip s))"
  using hd_dropWhile_not [of is_space "rev s"] by (simp add: rstrip_def last_rev)

lemma rstrip_prefix: "\<exists>t. s = rstrip s @ t"
  by (metis rev_append rev_rev_ident rstrip_def takeWhile_dropWhile_id)

lemma rstrip_hd: "rstrip s \<noteq> [] \<Longrightarrow> hd (rstrip s) = hd s"
  using rstrip_prefix [of s] by (metis hd_append2)

lemma rstrip_Nil [simp]: "rstrip [] = []"
  by (simp add: rstrip_def)

lemma lstrip_hd: "lstrip s \<noteq> [] \<Longrightarrow> \<not> is_space (hd (lstrip s))"
  unfolding lstrip_def by (rule hd_dropWhile_not)

lemma strip_ends:
  "strip s \<noteq> [] \<Longrightarrow> \<not> is_space (hd (strip s)) \<and> \<not> is_space (last (strip s))"
proof -
  assume *: "strip s \<noteq> []"
  then have "lstrip s \<noteq> []" by (auto simp: strip_def)
  with * show ?thesis
    using rstrip_hd [of "lstrip s"] rstrip_last [of "lstrip s"] lstrip_hd [of s]
    by (simp add: strip_def)
qed

lemma strip_id: "s = [] \<or> (\<not> is_space (hd s) \<and> \<not> is_space (last s)) \<Longrightarrow> strip s = s"
  by (auto simp: strip_def lstrip_id rstrip_id)

lemma strip_strip [simp]: "strip (strip s) = strip s"
  using strip_ends [of s] by (intro strip_id) blast

lemma strip_no_space: "(\<And>c. c \<in> set s \<Longrightarrow> \<not> is_space c) \<Longrightarrow> strip s = s"
  by (rule strip_id) (cases s, auto)

end
