(* ===== verification/Ids.thy ===== *)
theory Ids
  imports Py
begin

text \<open>
  Identifier generation (\<open>backend/shared_domain/ids.py\<close>). The module keeps two
  globals, the millisecond of the last ULID and a counter within that millisecond; the
  model passes them as a state and takes each clock reading as an argument. The lemmas
  show the format of the identifiers, that the base-32 encoding is injective and
  order-preserving within its width, and under which clock readings the identifiers of one
  process increase.
\<close>

definition ULID_ALPHABET :: string where
  "ULID_ALPHABET = ''0123456789ABCDEFGHJKMNPQRSTVWXYZ''"

record ulid_state =
  last_millis :: int
  last_counter :: int

definition ulid_init :: ulid_state where
  "ulid_init = \<lparr>last_millis = 0, last_counter = -1\<rparr>"

text \<open>The \<open>while current > 0\<close> loop; digits are appended least significant first.\<close>

function b32_loop :: "int \<Rightarrow> string" where
  "b32_loop current =
     (if current > 0 then ULID_ALPHABET ! nat (current mod 32) # b32_loop (current div 32)
      else [])"
  by pat_completeness auto
termination
  by (relation "measure nat") auto

declare b32_loop.simps [simp del]

definition rjust :: "string \<Rightarrow> nat \<Rightarrow> char \<Rightarrow> string" where
  "rjust s n c = replicate (n - length s) c @ s"

definition encode_base32 :: "int \<Rightarrow> nat \<Rightarrow> string" where
  "encode_base32 v n =
     (let encoded = (if rev (b32_loop v) = [] then ''0'' else rev (b32_loop v))
      in take n (rjust encoded n (CHR ''0'')))"

definition new_ulid :: "int \<Rightarrow> ulid_state \<Rightarrow> string \<times> ulid_state" where
  "new_ulid millis st =
     (let st' = (if millis = last_millis st
                 then st\<lparr>last_counter := last_counter st + 1\<rparr>
                 else st\<lparr>last_millis := millis, last_counter := 0\<rparr>)
      in (encode_base32 millis 10 @ encode_base32 (last_counter st') 16, st'))"

fun issue_ulids :: "int list \<Rightarrow> ulid_state \<Rightarrow> string list \<times> ulid_state" where
  "issue_ulids [] st = ([], st)"
| "issue_ulids (t # ts) st =
     (let (u, st1) = new_ulid t st; (us, st2) = issue_ulids ts st1 in (u # us, st2))"

definition is_ulid :: "string \<Rightarrow> bool" where
  "is_ulid value =
     (length value = 26 \<and>
      list_all (\<lambda>c. (65 \<le> code c \<and> code c \<le> 90) \<or> (48 \<le> code c \<and> code c \<le> 57)) value)"

section \<open>The encoding as fixed-width digits\<close>

text \<open>The specification of the encoder: \<open>n\<close> base-32 digits, most significant first.\<close>

fun fixed32 :: "nat \<Rightarrow> int \<Rightarrow> string" where
  "fixed32 0 v = []"
| "fixed32 (Suc n) v = fixed32 n (v div 32) @ [ULID_ALPHABET ! nat (v mod 32)]"

lemma length_ULID_ALPHABET [simp]: "length ULID_ALPHABET = 32"
  by (simp add: ULID_ALPHABET_def)

lemma ULID_ALPHABET_0: "ULID_ALPHABET ! 0 = CHR ''0''"
  by (simp add: ULID_ALPHABET_def)

lemma ULID_ALPHABET_sorted: "sorted_wrt (<) ULID_ALPHABET"
  by code_simp

lemma ULID_ALPHABET_less: "i < j \<Longrightarrow> j < 32 \<Longrightarrow> ULID_ALPHABET ! i < ULID_ALPHABET ! j"
  using ULID_ALPHABET_sorted by (simp add: sorted_wrt_iff_nth_less)

lemma ULID_ALPHABET_chars:
  "list_all (\<lambda>c. (65 \<le> code c \<and> code c \<le> 90) \<or> (48 \<le> code c \<and> code c \<le> 57)) ULID_ALPHABET"
  by code_simp

lemma length_fixed32 [simp]: "length (fixed32 n v) = n"
  by (induction n arbitrary: v) auto

lemma fixed32_0: "fixed32 n 0 = replicate n (CHR ''0'')"
  by (induction n) (auto simp: ULID_ALPHABET_0 replicate_append_same)

lemma fixed32_in_alphabet: "c \<in> set (fixed32 n v) \<Longrightarrow> c \<in> set ULID_ALPHABET"
proof (induction n arbitrary: v)
  case (Suc n)
  have "nat (v mod 32) < length ULID_ALPHABET" by simp
  then have "ULID_ALPHABET ! nat (v mod 32) \<in> set ULID_ALPHABET" by (rule nth_mem)
  with Suc show ?case by auto
qed simp

lemma b32_loop_0 [simp]: "b32_loop 0 = []"
  by (simp add: b32_loop.simps)

lemma rev_b32_loop_fixed32:
  "0 \<le> v \<Longrightarrow> v < 32 ^ n \<Longrightarrow>
     length (b32_loop v) \<le> n \<and> rjust (rev (b32_loop v)) n (CHR ''0'') = fixed32 n v"
proof (induction n arbitrary: v)
  case 0
  then have "v = 0" by simp
  then show ?case by (simp add: rjust_def)
next
  case (Suc n)
  show ?case
  proof (cases "v = 0")
    case True
    then show ?thesis
      by (simp add: rjust_def fixed32_0 ULID_ALPHABET_0 replicate_append_same)
  next
    case False
    with Suc.prems have pos: "0 < v" by simp
    from Suc.prems have "0 \<le> v div 32" "v div 32 < 32 ^ n"
      by (simp_all add: div_less_iff_less_mult)
    from Suc.IH [OF this] pos show ?thesis
      by (auto simp: rjust_def b32_loop.simps [of v])
  qed
qed

lemma b32_loop_Nil_iff: "b32_loop v = [] \<longleftrightarrow> v \<le> 0"
  by (subst b32_loop.simps) auto

lemma encode_base32_fixed32:
  assumes "0 \<le> v" "v < 32 ^ n" "0 < n"
  shows "encode_base32 v n = fixed32 n v"
proof (cases "v = 0")
  case True
  from assms(3) obtain m where "n = Suc m" by (cases n) auto
  with True show ?thesis
    by (simp add: encode_base32_def rjust_def fixed32_0 ULID_ALPHABET_0 replicate_append_same)
next
  case False
  with assms rev_b32_loop_fixed32 [of v n] show ?thesis
    by (auto simp: encode_base32_def b32_loop_Nil_iff)
qed

lemma length_encode_base32 [simp]: "length (encode_base32 v n) = n"
  by (auto simp: encode_base32_def rjust_def Let_def)

section \<open>Decoding and order\<close>

lemma snoc_less_snoc:
  fixes xs ys :: string
  shows "length xs = length ys \<Longrightarrow>
    xs @ [a] < ys @ [b] \<longleftrightarrow> xs < ys \<or> (xs = ys \<and> a < b)"
  by (induction xs ys rule: list_induct2) auto

lemma append_less_append:
  fixes xs ys us vs :: string
  shows "length xs = length ys \<Longrightarrow>
    xs @ us < ys @ vs \<longleftrightarrow> xs < ys \<or> (xs = ys \<and> us < vs)"
  by (induction xs ys rule: list_induct2) auto

lemma fixed32_mono:
  "0 \<le> v \<Longrightarrow> v < w \<Longrightarrow> w < 32 ^ n \<Longrightarrow> fixed32 n v < fixed32 n w"
proof (induction n arbitrary: v w)
  case (Suc n)
  have bounds: "0 \<le> v div 32" "w div 32 < 32 ^ n"
    using Suc.prems by (simp_all add: div_less_iff_less_mult)
  have "v div 32 \<le> w div 32" using Suc.prems by (simp add: zdiv_mono1)
  then consider "v div 32 < w div 32" | "v div 32 = w div 32" by linarith
  then show ?case
  proof cases
    case 1
    then show ?thesis using Suc.IH bounds by (simp add: snoc_less_snoc)
  next
    case 2
    have "v mod 32 < w mod 32"
      using 2 Suc.prems(2) by (metis div_mult_mod_eq add_less_cancel_left)
    moreover have "0 \<le> v mod 32" "w mod 32 < 32" by simp_all
    ultimately have "nat (v mod 32) < nat (w mod 32)" "nat (w mod 32) < 32" by linarith+
    with 2 show ?thesis by (simp add: snoc_less_snoc ULID_ALPHABET_less)
  qed
qed simp

lemma encode_base32_mono:
  "0 \<le> v \<Longrightarrow> v < w \<Longrightarrow> w < 32 ^ n \<Longrightarrow> 0 < n \<Longrightarrow> encode_base32 v n < encode_base32 w n"
  using fixed32_mono [of v w n] encode_base32_fixed32 [of v n] encode_base32_fixed32 [of w n]
  by simp

section \<open>Sequences of identifiers\<close>

definition ulid_inv :: "ulid_state \<Rightarrow> bool" where
  "ulid_inv st \<longleftrightarrow> 0 \<le> last_millis st \<and> -1 \<le> last_counter st"

text \<open>The clock never steps back and stays in the 50 bits of the ten digits.\<close>

fun clock_ok :: "int \<Rightarrow> int list \<Rightarrow> bool" where
  "clock_ok t [] = True"
| "clock_ok t (u # us) = (t \<le> u \<and> u < 32 ^ 10 \<and> clock_ok u us)"

lemma new_ulid_inv: "ulid_inv st \<Longrightarrow> 0 \<le> t \<Longrightarrow> ulid_inv (snd (new_ulid t st))"
  by (auto simp: ulid_inv_def new_ulid_def Let_def)

definition ulid_text :: "ulid_state \<Rightarrow> string" where
  "ulid_text st = encode_base32 (last_millis st) 10 @ encode_base32 (last_counter st) 16"

lemma new_ulid_text: "fst (new_ulid t st) = ulid_text (snd (new_ulid t st))"
  by (auto simp: new_ulid_def ulid_text_def Let_def)

lemma new_ulid_increases:
  assumes "ulid_inv st" "last_millis st \<le> t" "t < 32 ^ 10"
    and "0 \<le> last_counter st" "last_counter st + 1 < 32 ^ 16"
  shows "ulid_text st < fst (new_ulid t st)"
proof (cases "t = last_millis st")
  case True
  with assms show ?thesis
    by (simp add: new_ulid_def ulid_text_def append_less_append encode_base32_mono)
next
  case False
  with assms have "encode_base32 (last_millis st) 10 < encode_base32 t 10"
    by (intro encode_base32_mono) (auto simp: ulid_inv_def)
  with False show ?thesis
    by (simp add: new_ulid_def ulid_text_def append_less_append)
qed

lemma new_ulid_counter: "last_counter (snd (new_ulid t st)) \<le> max 0 (last_counter st + 1)"
  by (auto simp: new_ulid_def Let_def)

lemma new_ulid_counter_nonneg: "-1 \<le> last_counter st \<Longrightarrow> 0 \<le> last_counter (snd (new_ulid t st))"
  by (auto simp: new_ulid_def Let_def)

lemma new_ulid_millis: "last_millis (snd (new_ulid t st)) = t"
  by (auto simp: new_ulid_def Let_def)

lemma issue_ulids_above:
  "ulid_inv st \<Longrightarrow> 0 \<le> last_counter st \<Longrightarrow> clock_ok (last_millis st) ts \<Longrightarrow>
   last_counter st + int (length ts) < 32 ^ 16 \<Longrightarrow>
   sorted_wrt (<) (ulid_text st # fst (issue_ulids ts st))"
proof (induction ts arbitrary: st)
  case (Cons t ts)
  let ?st = "snd (new_ulid t st)"
  have t: "last_millis st \<le> t" "t < 32 ^ 10" using Cons.prems(3) by auto
  have inv: "ulid_inv ?st"
    using Cons.prems(1) t by (intro new_ulid_inv) (auto simp: ulid_inv_def)
  have c: "0 \<le> last_counter ?st"
    using Cons.prems(1) by (intro new_ulid_counter_nonneg) (simp add: ulid_inv_def)
  have ih: "sorted_wrt (<) (ulid_text ?st # fst (issue_ulids ts ?st))"
  proof (rule Cons.IH [OF inv c])
    show "clock_ok (last_millis ?st) ts" using Cons.prems(3) by (simp add: new_ulid_millis)
    show "last_counter ?st + int (length ts) < 32 ^ 16"
      using new_ulid_counter [of t st] Cons.prems(2,4) by auto
  qed
  have "ulid_text st < fst (new_ulid t st)"
    using Cons.prems t by (intro new_ulid_increases) auto
  with ih show ?case
    by (auto simp: split_def Let_def new_ulid_text intro: less_trans)
qed simp

lemma issue_ulids_sorted:
  assumes "clock_ok 0 ts" "int (length ts) < 32 ^ 16"
  shows "sorted_wrt (<) (fst (issue_ulids ts ulid_init))"
proof (cases ts)
  case (Cons t us)
  let ?st = "snd (new_ulid t ulid_init)"
  have t: "0 \<le> t" using assms(1) Cons by simp
  have inv: "ulid_inv ?st" by (rule new_ulid_inv) (simp_all add: t ulid_inv_def ulid_init_def)
  have c: "0 \<le> last_counter ?st"
    by (rule new_ulid_counter_nonneg) (simp add: ulid_init_def)
  have "sorted_wrt (<) (ulid_text ?st # fst (issue_ulids us ?st))"
    by (rule issue_ulids_above [OF inv c])
       (use assms Cons new_ulid_counter [of t ulid_init] in
          \<open>auto simp: new_ulid_millis ulid_init_def\<close>)
  then show ?thesis using Cons by (simp add: split_def Let_def new_ulid_text)
qed simp

section \<open>Properties\<close>

text \<open>
  Identifier format: from any counter state and any non-negative clock reading below
  the width, \<open>new_ulid\<close> returns a text that \<open>is_ulid\<close> accepts.
\<close>

theorem new_ulid_is_ulid:
  assumes "0 \<le> t" "t < 32 ^ 10" "-1 \<le> last_counter st" "last_counter st + 1 < 32 ^ 16"
  shows "is_ulid (fst (new_ulid t st))"
proof -
  let ?c = "last_counter (snd (new_ulid t st))"
  have c: "0 \<le> ?c" "?c < 32 ^ 16"
    using assms new_ulid_counter [of t st] by (auto intro: new_ulid_counter_nonneg)
  have "fst (new_ulid t st) = fixed32 10 t @ fixed32 16 ?c"
    using assms c by (simp add: new_ulid_text ulid_text_def new_ulid_millis encode_base32_fixed32)
  then show ?thesis
    using ULID_ALPHABET_chars fixed32_in_alphabet by (fastforce simp: is_ulid_def list_all_iff)
qed

theorem new_ulid_is_ulid_witness: "is_ulid (fst (new_ulid 1700000000000 ulid_init))"
  by (rule new_ulid_is_ulid) (simp_all add: ulid_init_def)

text \<open>
  Monotone and unique: as long as the clock does not step back, the identifiers that one
  process issues are strictly increasing as strings, hence pairwise different.
\<close>

theorem ulids_strictly_increase:
  assumes "clock_ok 0 ts" "int (length ts) < 32 ^ 16"
  shows "sorted_wrt (<) (fst (issue_ulids ts ulid_init)) \<and>
         distinct (fst (issue_ulids ts ulid_init))"
  using issue_ulids_sorted [OF assms] strict_sorted_iff by blast

theorem ulids_strictly_increase_witness:
  "distinct (fst (issue_ulids [5, 5, 9] ulid_init))"
  using ulids_strictly_increase [of "[5, 5, 9]"] by simp

text \<open>
  The clock hypothesis is needed: when the wall clock steps back to a millisecond that
  already issued an identifier, the same identifier is issued again, for every pair of
  different readings.
\<close>

theorem ulid_repeats_after_clock_step_back:
  "t \<noteq> u \<Longrightarrow> 0 < t \<Longrightarrow>
   (let ids = fst (issue_ulids [t, u, t] ulid_init) in ids ! 2 = ids ! 0)"
  by (simp add: new_ulid_def Let_def ulid_init_def split_def)

theorem ulid_repeats_after_clock_step_back_witness:
  "let ids = fst (issue_ulids [7, 6, 7] ulid_init) in ids ! 2 = ids ! 0"
  using ulid_repeats_after_clock_step_back [of 7 6] by simp

end
