(* ===== verification/RateLimit.thy ===== *)
theory RateLimit
  imports Py
begin

text \<open>
  The per-actor limiter of the gateway (\<open>backend/shared_domain/rate_limit.py\<close>): a fixed
  one-minute window of request counts and a table of requests in flight. Its methods run
  under one lock, so each is one step of the state; the clock reading (seconds) is an
  argument. The interface that the gateway relies on is the locale \<open>admission\<close>.
\<close>

record limiter =
  max_requests_per_minute :: int
  max_concurrent_per_actor :: int
  window_epoch_minute :: int
  request_counts :: "string \<rightharpoonup> int"
  inflight_counts :: "string \<rightharpoonup> int"

record rate_limit_decision =
  rl_allowed :: bool
  rl_reason :: string

definition limiter_init :: "int \<Rightarrow> int \<Rightarrow> int \<Rightarrow> limiter" where
  "limiter_init rpm conc now =
     \<lparr>max_requests_per_minute = rpm, max_concurrent_per_actor = conc,
      window_epoch_minute = now div 60, request_counts = Map.empty,
      inflight_counts = Map.empty\<rparr>"

definition count_of :: "(string \<rightharpoonup> int) \<Rightarrow> string \<Rightarrow> int" where
  "count_of m k = (case m k of None \<Rightarrow> 0 | Some n \<Rightarrow> n)"

definition roll_window :: "int \<Rightarrow> limiter \<Rightarrow> limiter" where
  "roll_window now l =
     (if now div 60 \<noteq> window_epoch_minute l
      then l\<lparr>window_epoch_minute := now div 60, request_counts := Map.empty\<rparr> else l)"

definition try_acquire :: "int \<Rightarrow> string \<Rightarrow> limiter \<Rightarrow> rate_limit_decision \<times> limiter" where
  "try_acquire now actor l0 =
     (let l = roll_window now l0;
          inflight = count_of (inflight_counts l) actor;
          requests = count_of (request_counts l) actor
      in if max_concurrent_per_actor l \<le> 0
         then (\<lparr>rl_allowed = False, rl_reason = ''concurrency_limit_exceeded''\<rparr>, l)
         else if inflight \<ge> max_concurrent_per_actor l
         then (\<lparr>rl_allowed = False, rl_reason = ''concurrency_limit_exceeded''\<rparr>, l)
         else if max_requests_per_minute l \<le> 0
         then (\<lparr>rl_allowed = False, rl_reason = ''rate_limit_exceeded''\<rparr>, l)
         else if requests \<ge> max_requests_per_minute l
         then (\<lparr>rl_allowed = False, rl_reason = ''rate_limit_exceeded''\<rparr>, l)
         else (\<lparr>rl_allowed = True, rl_reason = ''allow''\<rparr>,
               l\<lparr>request_counts := (request_counts l)(actor \<mapsto> requests + 1),
                 inflight_counts := (inflight_counts l)(actor \<mapsto> inflight + 1)\<rparr>))"

definition release :: "string \<Rightarrow> limiter \<Rightarrow> limiter" where
  "release actor l =
     (let inflight = count_of (inflight_counts l) actor
      in if inflight \<le> 1
         then l\<lparr>inflight_counts := (inflight_counts l)(actor := None)\<rparr>
         else l\<lparr>inflight_counts := (inflight_counts l)(actor \<mapsto> inflight - 1)\<rparr>)"

section \<open>The interface\<close>

text \<open>
  What a client of the limiter relies on: an admission that is granted adds one request in
  flight for that actor, a refused one adds none, a release gives one back, and no actor
  touches another's count or the limit.
\<close>

locale admission =
  fixes admit :: "int \<Rightarrow> string \<Rightarrow> 's \<Rightarrow> rate_limit_decision \<times> 's"
    and give_back :: "string \<Rightarrow> 's \<Rightarrow> 's"
    and load :: "'s \<Rightarrow> string \<Rightarrow> int"
    and cap :: "'s \<Rightarrow> int"
    and ok :: "'s \<Rightarrow> bool"
  assumes try_granted: "ok s \<Longrightarrow> admit t a s = (d, s') \<Longrightarrow> rl_allowed d \<Longrightarrow>
      load s a < cap s \<and> load s' b = load s b + (if b = a then 1 else 0)"
    and try_refused: "ok s \<Longrightarrow> admit t a s = (d, s') \<Longrightarrow> \<not> rl_allowed d \<Longrightarrow> load s' b = load s b"
    and try_full: "ok s \<Longrightarrow> cap s \<le> load s a \<Longrightarrow>
      \<not> rl_allowed (fst (admit t a s)) \<and> rl_reason (fst (admit t a s)) = ''concurrency_limit_exceeded''"
    and try_ok: "ok s \<Longrightarrow> ok (snd (admit t a s))"
    and try_cap: "cap (snd (admit t a s)) = cap s"
    and give_back_load: "ok s \<Longrightarrow> load (give_back a s) b = max 0 (load s b - (if b = a then 1 else 0))"
    and give_back_ok: "ok s \<Longrightarrow> ok (give_back a s)"
    and give_back_cap: "cap (give_back a s) = cap s"
    and load_nonneg: "ok s \<Longrightarrow> 0 \<le> load s a"
begin

lemma granted_then_released:
  assumes "ok s" "admit t a s = (d, s')" "rl_allowed d"
  shows "load (give_back a s') b = load s b"
proof -
  have "ok s'" using try_ok [OF assms(1), of t a] assms(2) by simp
  then show ?thesis
    using try_granted [OF assms] load_nonneg [OF assms(1), of b] by (simp add: give_back_load)
qed

lemma load_le_cap:
  assumes "ok s" "admit t a s = (d, s')" "\<forall>b. load s b \<le> max 0 (cap s)"
  shows "load s' b \<le> max 0 (cap s')"
proof (cases "rl_allowed d")
  case True
  have "load s' b = load s b + (if b = a then 1 else 0)" "load s a < cap s"
    using try_granted [OF assms(1,2) True] by auto
  moreover have "cap s' = cap s" using try_cap [of t a s] assms(2) by simp
  ultimately show ?thesis using assms(3) by (cases "b = a") auto
next
  case False
  moreover have "cap s' = cap s" using try_cap [of t a s] assms(2) by simp
  ultimately show ?thesis using try_refused [OF assms(1,2) False] assms(3) by simp
qed

lemma load_mono_try: "ok s \<Longrightarrow> load s b \<le> load (snd (admit t a s)) b"
  by (cases "rl_allowed (fst (admit t a s))")
     (use try_granted [of s t a "fst (admit t a s)" "snd (admit t a s)" b]
          try_refused [of s t a "fst (admit t a s)" "snd (admit t a s)" b] in auto)

end

section \<open>The limiter implements it\<close>

definition inflight :: "limiter \<Rightarrow> string \<Rightarrow> int" where
  "inflight l a = count_of (inflight_counts l) a"

definition limiter_inv :: "limiter \<Rightarrow> bool" where
  "limiter_inv l \<longleftrightarrow>
     (\<forall>a n. inflight_counts l a = Some n \<longrightarrow> 1 \<le> n) \<and>
     (\<forall>a n. request_counts l a = Some n \<longrightarrow> 1 \<le> n \<and> n \<le> max_requests_per_minute l)"

lemma limiter_inv_init: "limiter_inv (limiter_init rpm conc now)"
  by (simp add: limiter_inv_def limiter_init_def)

lemma roll_window_simps [simp]:
  "inflight_counts (roll_window now l) = inflight_counts l"
  "max_concurrent_per_actor (roll_window now l) = max_concurrent_per_actor l"
  "max_requests_per_minute (roll_window now l) = max_requests_per_minute l"
  "window_epoch_minute (roll_window now l) = now div 60"
  by (auto simp: roll_window_def)

lemma roll_window_inv: "limiter_inv l \<Longrightarrow> limiter_inv (roll_window now l)"
  by (auto simp: limiter_inv_def roll_window_def)

lemma count_of_upd [simp]: "count_of (m(k \<mapsto> v)) k' = (if k' = k then v else count_of m k')"
  by (simp add: count_of_def)

lemma count_of_del [simp]: "count_of (m(k := None)) k' = (if k' = k then 0 else count_of m k')"
  by (simp add: count_of_def)

lemma count_of_empty [simp]: "count_of Map.empty k = 0"
  by (simp add: count_of_def)

lemma inflight_nonneg: "limiter_inv l \<Longrightarrow> 0 \<le> inflight l a"
  by (force simp: limiter_inv_def inflight_def count_of_def split: option.splits)

lemma requests_nonneg: "limiter_inv l \<Longrightarrow> 0 \<le> count_of (request_counts l) a"
  by (force simp: limiter_inv_def count_of_def split: option.splits)

lemma try_acquire_inv:
  assumes "limiter_inv l"
  shows "limiter_inv (snd (try_acquire now a l))"
proof -
  have r: "limiter_inv (roll_window now l)" using assms by (rule roll_window_inv)
  show ?thesis
    using r inflight_nonneg [OF r, of a] requests_nonneg [OF r, of a]
    by (auto simp: try_acquire_def Let_def limiter_inv_def inflight_def)
qed

lemma release_inv: "limiter_inv l \<Longrightarrow> limiter_inv (release a l)"
  by (auto simp: release_def Let_def limiter_inv_def)

interpretation limiter: admission try_acquire release inflight max_concurrent_per_actor limiter_inv
proof (unfold_locales, goal_cases)
  case (1 s t a d s' b)
  then show ?case
    by (auto simp: try_acquire_def Let_def inflight_def split: if_splits)
next
  case (2 s t a d s' b)
  then show ?case
    by (auto simp: try_acquire_def Let_def inflight_def split: if_splits)
next
  case (3 s a t)
  then show ?case
    by (auto simp: try_acquire_def Let_def inflight_def)
next
  case (4 s t a)
  then show ?case by (rule try_acquire_inv)
next
  case (5 t a s)
  then show ?case by (auto simp: try_acquire_def Let_def)
next
  case (6 s a b)
  then show ?case
    using inflight_nonneg [of s b] inflight_nonneg [of s a]
    by (auto simp: release_def Let_def inflight_def)
next
  case (7 s a)
  then show ?case by (rule release_inv)
next
  case (8 a s)
  then show ?case by (auto simp: release_def Let_def)
next
  case (9 s a)
  then show ?case by (rule inflight_nonneg)
qed

section \<open>Runs of the limiter\<close>

datatype limiter_op = Acquire int string | Release string

fun limiter_step :: "limiter \<Rightarrow> limiter_op \<Rightarrow> limiter" where
  "limiter_step l (Acquire now a) = snd (try_acquire now a l)"
| "limiter_step l (Release a) = release a l"

fun limiter_run :: "limiter \<Rightarrow> limiter_op list \<Rightarrow> limiter" where
  "limiter_run l [] = l"
| "limiter_run l (x # xs) = limiter_run (limiter_step l x) xs"

definition within_limits :: "limiter \<Rightarrow> bool" where
  "within_limits l \<longleftrightarrow> limiter_inv l \<and>
     (\<forall>a. inflight l a \<le> max 0 (max_concurrent_per_actor l)) \<and>
     (\<forall>a. count_of (request_counts l) a \<le> max 0 (max_requests_per_minute l))"

lemma try_acquire_requests:
  assumes "limiter_inv l"
  shows "count_of (request_counts (snd (try_acquire now a l))) b
           \<le> max 0 (max_requests_per_minute l)"
proof -
  have "limiter_inv (snd (try_acquire now a l))" using assms by (rule try_acquire_inv)
  moreover have "max_requests_per_minute (snd (try_acquire now a l)) = max_requests_per_minute l"
    by (auto simp: try_acquire_def Let_def)
  ultimately show ?thesis
    by (force simp: limiter_inv_def count_of_def split: option.splits)
qed

lemma limiter_step_within: "within_limits l \<Longrightarrow> within_limits (limiter_step l x)"
proof (cases x)
  case (Acquire now a)
  assume w: "within_limits l"
  let ?l = "snd (try_acquire now a l)"
  have "inflight ?l b \<le> max 0 (max_concurrent_per_actor ?l)" for b
    using w limiter.load_le_cap [of l now a "fst (try_acquire now a l)" ?l b]
    by (simp add: within_limits_def)
  moreover have "max_requests_per_minute ?l = max_requests_per_minute l"
    by (auto simp: try_acquire_def Let_def)
  ultimately show ?thesis
    using w Acquire try_acquire_inv try_acquire_requests by (simp add: within_limits_def)
next
  case (Release a)
  assume w: "within_limits l"
  have "inflight (release a l) b \<le> max 0 (max_concurrent_per_actor (release a l))" for b
    using w limiter.give_back_load [of l a b] limiter.give_back_cap [of a l]
      limiter.load_nonneg [of l b]
    by (auto simp: within_limits_def split: if_splits) (smt (verit, best))+
  then show ?thesis
    using w Release release_inv by (auto simp: within_limits_def release_def Let_def)
qed

lemma limiter_run_within: "within_limits l \<Longrightarrow> within_limits (limiter_run l xs)"
  by (induction xs arbitrary: l) (auto simp: limiter_step_within)

text \<open>
  Limits: after any sequence of admissions and releases, in any interleaving of actors
  and at any clock readings, no actor has more requests in flight than the concurrency cap
  nor more requests counted in the current window than the per-minute cap.
\<close>

theorem limiter_respects_limits:
  "inflight (limiter_run (limiter_init rpm conc now) xs) a \<le> max 0 conc \<and>
   count_of (request_counts (limiter_run (limiter_init rpm conc now) xs)) a \<le> max 0 rpm"
proof -
  have "within_limits (limiter_init rpm conc now)"
    by (simp add: within_limits_def limiter_inv_init) (simp add: limiter_init_def inflight_def)
  then have w: "within_limits (limiter_run (limiter_init rpm conc now) xs)"
    by (rule limiter_run_within)
  have caps: "max_concurrent_per_actor (limiter_run l xs) = max_concurrent_per_actor l \<and>
        max_requests_per_minute (limiter_run l xs) = max_requests_per_minute l" for l
  proof (induction xs arbitrary: l)
    case (Cons x xs)
    have "max_concurrent_per_actor (limiter_step l x) = max_concurrent_per_actor l \<and>
        max_requests_per_minute (limiter_step l x) = max_requests_per_minute l"
      by (cases x) (auto simp: try_acquire_def release_def Let_def)
    with Cons.IH show ?case by simp
  qed simp
  from w caps [of "limiter_init rpm conc now"] show ?thesis
    by (auto simp: within_limits_def limiter_init_def)
qed

end
