(* ===== verification/QueryCache.thy ===== *)
theory QueryCache
  imports Py
begin

text \<open>
  The gateway's in-memory response cache (\<open>backend/gateway/query_cache.py\<close>) and the cost
  helpers (\<open>backend/shared_domain/costing.py\<close>). The cache is a Python dict: entries in
  insertion order, a reassigned key keeps its place. Times are clock readings in integer
  ticks, \<open>ticks_per_second\<close> to the second; each method takes the reading it makes.
  The interface the gateway relies on is the locale \<open>response_cache\<close>.
\<close>

record 'v query_cache_hit =
  hit_value :: 'v
  expires_at :: int

record 'v query_cache =
  cache_enabled :: bool
  ttl_seconds :: int
  max_entries :: int
  entries :: "(string \<times> 'v query_cache_hit) list"

definition ticks_per_second :: int where
  "ticks_per_second = 1000000"

definition cache_init :: "bool \<Rightarrow> int \<Rightarrow> int \<Rightarrow> 'v query_cache" where
  "cache_init en ttl cap =
     \<lparr>cache_enabled = en, ttl_seconds = max ttl 1, max_entries = max cap 1, entries = []\<rparr>"

definition cache_get :: "int \<Rightarrow> string \<Rightarrow> 'v query_cache \<Rightarrow> 'v option \<times> 'v query_cache" where
  "cache_get now key c =
     (if \<not> cache_enabled c then (None, c)
      else case dget (entries c) key of
        None \<Rightarrow> (None, c)
      | Some hit \<Rightarrow>
          if expires_at hit \<le> now then (None, c\<lparr>entries := ddel (entries c) key\<rparr>)
          else (Some (hit_value hit), c))"

text \<open>\<open>min(entries, key=...)\<close>: the first key, in dict order, with the least expiry.\<close>

fun oldest_key :: "(string \<times> 'v query_cache_hit) list \<Rightarrow> (string \<times> int) option" where
  "oldest_key [] = None"
| "oldest_key ((k, h) # es) =
     (case oldest_key es of
        None \<Rightarrow> Some (k, expires_at h)
      | Some (k', t) \<Rightarrow> if expires_at h \<le> t then Some (k, expires_at h) else Some (k', t))"

definition evict_if_full :: "'v query_cache \<Rightarrow> 'v query_cache" where
  "evict_if_full c =
     (if int (length (entries c)) \<ge> max_entries c
      then (case oldest_key (entries c) of
              None \<Rightarrow> c
            | Some (k, _) \<Rightarrow> c\<lparr>entries := ddel (entries c) k\<rparr>)
      else c)"

definition cache_set :: "int \<Rightarrow> string \<Rightarrow> 'v \<Rightarrow> 'v query_cache \<Rightarrow> 'v query_cache" where
  "cache_set now key v c0 =
     (if \<not> cache_enabled c0 then c0
      else let c = evict_if_full c0 in
        c\<lparr>entries := dset (entries c) key
            \<lparr>hit_value = v, expires_at = now + ttl_seconds c0 * ticks_per_second\<rparr>\<rparr>)"

definition invalidate_prefix :: "string \<Rightarrow> 'v query_cache \<Rightarrow> 'v query_cache" where
  "invalidate_prefix prefix c =
     c\<lparr>entries := filter (\<lambda>p. \<not> startswith (fst p) prefix) (entries c)\<rparr>"

section \<open>Well-formedness\<close>

definition cache_inv :: "'v query_cache \<Rightarrow> bool" where
  "cache_inv c \<longleftrightarrow> distinct (dkeys (entries c)) \<and> 1 \<le> ttl_seconds c \<and> 1 \<le> max_entries c \<and>
     int (length (entries c)) \<le> max_entries c"

lemma cache_inv_init [simp]: "cache_inv (cache_init en ttl cap)"
  by (simp add: cache_inv_def cache_init_def dkeys_def)

lemma oldest_key_in:
  "oldest_key es = Some (k, t) \<Longrightarrow> \<exists>h. (k, h) \<in> set es \<and> expires_at h = t"
  by (induction es arbitrary: k t rule: oldest_key.induct)
     (fastforce split: option.splits if_splits prod.splits)+

lemma oldest_key_None: "oldest_key es = None \<longleftrightarrow> es = []"
  by (cases es rule: oldest_key.cases) (auto split: option.splits if_splits prod.splits)

lemma oldest_key_min:
  "oldest_key es = Some (k, t) \<Longrightarrow> (k', h) \<in> set es \<Longrightarrow> t \<le> expires_at h"
proof (induction es arbitrary: k t rule: oldest_key.induct)
  case (2 k0 h0 es)
  show ?case
  proof (cases "oldest_key es")
    case None
    then have "es = []" by (simp add: oldest_key_None)
    with 2 show ?thesis by auto
  next
    case (Some p)
    then obtain k1 t1 where p: "oldest_key es = Some (k1, t1)" by (cases p) auto
    show ?thesis using "2.prems" "2.IH" [OF p] p by (auto split: if_splits)
  qed
qed simp

lemma evict_if_full_simps [simp]:
  "cache_enabled (evict_if_full c) = cache_enabled c"
  "ttl_seconds (evict_if_full c) = ttl_seconds c"
  "max_entries (evict_if_full c) = max_entries c"
  by (auto simp: evict_if_full_def split: option.splits)

lemma evict_if_full_room:
  assumes "cache_inv c"
  shows "int (length (entries (evict_if_full c))) < max_entries c"
proof (cases "int (length (entries c)) \<ge> max_entries c")
  case True
  with assms have "entries c \<noteq> []" by (auto simp: cache_inv_def)
  then obtain k t where o: "oldest_key (entries c) = Some (k, t)"
    using oldest_key_None [of "entries c"] by (cases "oldest_key (entries c)") auto
  then have "k \<in> set (dkeys (entries c))"
    using oldest_key_in by (force simp: dkeys_def)
  then have "Suc (length (ddel (entries c) k)) = length (entries c)"
    using assms by (intro length_ddel) (auto simp: cache_inv_def)
  with True o assms show ?thesis by (auto simp: evict_if_full_def cache_inv_def)
qed (auto simp: evict_if_full_def)

lemma evict_if_full_distinct:
  "distinct (dkeys (entries c)) \<Longrightarrow> distinct (dkeys (entries (evict_if_full c)))"
  by (auto simp: evict_if_full_def split: option.splits)

lemma cache_set_inv: "cache_inv c \<Longrightarrow> cache_inv (cache_set now k v c)"
  using evict_if_full_room [of c] evict_if_full_distinct [of c]
  by (auto simp: cache_set_def Let_def cache_inv_def length_dset)

lemma length_ddel_le: "length (ddel d k) \<le> length d"
  by (simp add: ddel_def)

lemma cache_get_inv: "cache_inv c \<Longrightarrow> cache_inv (snd (cache_get now k c))"
  by (auto simp: cache_get_def cache_inv_def split: option.splits
        intro: order_trans [OF _ ] dest: order_trans [OF of_nat_mono [OF length_ddel_le]])

lemma invalidate_prefix_inv: "cache_inv c \<Longrightarrow> cache_inv (invalidate_prefix p c)"
  by (auto simp: cache_inv_def invalidate_prefix_def dkeys_def distinct_map_filter
      intro: order_trans [OF of_nat_mono [OF length_filter_le]])

section \<open>The interface\<close>

text \<open>
  A response cache never invents a response: what \<open>get\<close> returns is in the store under that
  key, \<open>put\<close> adds nothing but the pair it is given, and \<open>get\<close> adds nothing.
\<close>

locale response_cache =
  fixes get :: "int \<Rightarrow> string \<Rightarrow> 'c \<Rightarrow> 'v option \<times> 'c"
    and put :: "int \<Rightarrow> string \<Rightarrow> 'v \<Rightarrow> 'c \<Rightarrow> 'c"
    and stored :: "'c \<Rightarrow> (string \<times> 'v) set"
    and good :: "'c \<Rightarrow> bool"
  assumes get_stored: "get t k c = (Some v, c') \<Longrightarrow> (k, v) \<in> stored c"
    and get_stores: "stored (snd (get t k c)) \<subseteq> stored c"
    and put_stores: "stored (put t k v c) \<subseteq> insert (k, v) (stored c)"
    and get_good: "good c \<Longrightarrow> good (snd (get t k c))"
    and put_good: "good c \<Longrightarrow> good (put t k v c)"
begin

lemma sound_get:
  assumes "\<forall>(k, v) \<in> stored c. P k v" "get t k c = (Some v, c')"
  shows "P k v"
  using get_stored [OF assms(2)] assms(1) by auto

lemma sound_after_get:
  "\<forall>(k, v) \<in> stored c. P k v \<Longrightarrow> \<forall>(k, v) \<in> stored (snd (get t k' c)). P k v"
  using get_stores [of t k' c] by auto

lemma sound_after_put:
  "\<forall>(k, v) \<in> stored c. P k v \<Longrightarrow> P k' v' \<Longrightarrow> \<forall>(k, v) \<in> stored (put t k' v' c). P k v"
  using put_stores [of t k' v' c] by auto

end

definition cached_pairs :: "'v query_cache \<Rightarrow> (string \<times> 'v) set" where
  "cached_pairs c = (\<lambda>(k, h). (k, hit_value h)) ` set (entries c)"

lemma set_dset_subset: "set (dset d k v) \<subseteq> insert (k, v) (set d)"
  by (induction d k v rule: dset.induct) auto

lemma evict_entries_subset: "set (entries (evict_if_full c)) \<subseteq> set (entries c)"
  by (auto simp: evict_if_full_def ddel_def split: option.splits)

interpretation cache: response_cache cache_get cache_set cached_pairs cache_inv
proof (unfold_locales, goal_cases)
  case (1 t k c v c')
  then show ?case
    by (force simp: cache_get_def cached_pairs_def dget_def split: if_splits option.splits
        dest: map_of_SomeD)
next
  case (2 t k c)
  then show ?case
    by (auto simp: cache_get_def cached_pairs_def ddel_def split: option.splits)
next
  case (3 t k v c)
  show ?case
  proof (cases "cache_enabled c")
    case True
    have "set (entries (cache_set t k v c)) \<subseteq>
        insert (k, \<lparr>hit_value = v, expires_at = t + ttl_seconds c * ticks_per_second\<rparr>)
          (set (entries c))"
      using set_dset_subset evict_entries_subset [of c] True
      by (fastforce simp: cache_set_def Let_def)
    then show ?thesis by (force simp: cached_pairs_def)
  qed (auto simp: cache_set_def)
next
  case (4 c t k)
  then show ?case by (rule cache_get_inv)
next
  case (5 c t k v)
  then show ?case by (rule cache_set_inv)
qed

section \<open>Properties\<close>

datatype 'v cache_op = Get int string | Set int string 'v | Invalidate string

fun cache_step :: "'v query_cache \<Rightarrow> 'v cache_op \<Rightarrow> 'v query_cache" where
  "cache_step c (Get now k) = snd (cache_get now k c)"
| "cache_step c (Set now k v) = cache_set now k v c"
| "cache_step c (Invalidate p) = invalidate_prefix p c"

fun cache_run :: "'v query_cache \<Rightarrow> 'v cache_op list \<Rightarrow> 'v query_cache" where
  "cache_run c [] = c"
| "cache_run c (x # xs) = cache_run (cache_step c x) xs"

lemma cache_run_inv: "cache_inv c \<Longrightarrow> cache_inv (cache_run c xs)"
proof (induction xs arbitrary: c)
  case (Cons x xs)
  then show ?case
    by (cases x) (auto simp: cache_get_inv cache_set_inv invalidate_prefix_inv)
qed simp

lemma cache_run_max_entries: "max_entries (cache_run c xs) = max_entries c"
proof (induction xs arbitrary: c)
  case (Cons x xs)
  have "max_entries (cache_step c x) = max_entries c"
    by (cases x) (auto simp: cache_get_def cache_set_def invalidate_prefix_def Let_def
        split: option.splits)
  with Cons show ?case by simp
qed simp

text \<open>
  Bounded: whatever the sequence of lookups, stores and invalidations, the cache holds at
  most \<open>max(max_entries, 1)\<close> entries and never two entries under one key.
\<close>

theorem cache_bounded:
  "int (length (entries (cache_run (cache_init en ttl cap) xs))) \<le> max cap 1 \<and>
   distinct (dkeys (entries (cache_run (cache_init en ttl cap) xs)))"
proof -
  have "cache_inv (cache_run (cache_init en ttl cap) xs)"
    by (rule cache_run_inv) simp
  moreover have "max_entries (cache_run (cache_init en ttl cap) xs) = max cap 1"
    by (simp add: cache_run_max_entries) (simp add: cache_init_def)
  ultimately show ?thesis by (auto simp: cache_inv_def)
qed

text \<open>
  Freshness: after a store in an enabled cache, a lookup of that key before the time to
  live has passed returns the stored value, and one at or after that time returns nothing and
  drops the entry.
\<close>

theorem cache_get_after_set:
  assumes "cache_enabled c"
  shows "fst (cache_get now' k (cache_set now k v c)) =
           (if now' < now + ttl_seconds c * ticks_per_second then Some v else None) \<and>
         (now + ttl_seconds c * ticks_per_second \<le> now' \<longrightarrow>
           dget (entries (snd (cache_get now' k (cache_set now k v c)))) k = None)"
  using assms by (auto simp: cache_get_def cache_set_def Let_def)

theorem cache_get_after_set_witness:
  "fst (cache_get 1000005 ''k'' (cache_set 5 ''k'' (7::int) (cache_init True 1 4))) = None"
proof -
  have "cache_enabled (cache_init True 1 4 :: int query_cache)" by (simp add: cache_init_def)
  from cache_get_after_set [OF this, of 1000005 "''k''" 5 7] show ?thesis
    by (simp add: cache_init_def ticks_per_second_def)
qed

text \<open>
  Eviction: a store removes at most one entry under another key, only from a full cache,
  and the removed entry expires no later than any other entry that was in the cache.
\<close>

theorem cache_set_evicts_oldest:
  assumes "cache_inv c" "dget (entries c) k' = Some h" "k' \<noteq> k"
    and "dget (entries (cache_set now k v c)) k' = None"
  shows "int (length (entries c)) = max_entries c \<and>
         (\<forall>k'' h'. dget (entries c) k'' = Some h' \<longrightarrow> expires_at h \<le> expires_at h') \<and>
         (\<forall>k'' h'. k'' \<noteq> k' \<and> k'' \<noteq> k \<and> dget (entries c) k'' = Some h' \<longrightarrow>
            dget (entries (cache_set now k v c)) k'' = Some h')"
proof -
  have en: "cache_enabled c" using assms(2,4) by (auto simp: cache_set_def split: if_splits)
  have gone: "dget (entries (evict_if_full c)) k' = None"
    using assms(3,4) en by (simp add: cache_set_def Let_def)
  then obtain t where full: "int (length (entries c)) \<ge> max_entries c"
    and old: "oldest_key (entries c) = Some (k', t)"
    using assms(2) by (auto simp: evict_if_full_def split: if_splits option.splits)
  obtain h0 where "(k', h0) \<in> set (entries c)" "expires_at h0 = t"
    using oldest_key_in [OF old] by auto
  moreover have "h0 = h"
    using calculation(1) assms(1,2)
    by (auto simp: cache_inv_def dkeys_def dget_def)
  ultimately have t: "expires_at h = t" by simp
  have "expires_at h \<le> expires_at h'" if "dget (entries c) k'' = Some h'" for k'' h'
    using that oldest_key_min [OF old] t by (auto simp: dget_def dest: map_of_SomeD)
  moreover have "int (length (entries c)) = max_entries c"
    using full assms(1) by (simp add: cache_inv_def)
  moreover have "dget (entries (cache_set now k v c)) k'' = Some h'"
    if "k'' \<noteq> k'" "k'' \<noteq> k" "dget (entries c) k'' = Some h'" for k'' h'
    using that old full en by (simp add: cache_set_def Let_def evict_if_full_def)
  ultimately show ?thesis by blast
qed

definition full_cache :: "int query_cache" where
  "full_cache = cache_set 9 ''b'' 2 (cache_set 5 ''a'' 1 (cache_init True 1 2))"

theorem cache_set_evicts_oldest_witness:
  "int (length (entries full_cache)) = max_entries full_cache \<and>
   dget (entries (cache_set 12 ''c'' 3 full_cache)) ''b'' =
     Some \<lparr>hit_value = 2, expires_at = 1000009\<rparr>"
proof -
  let ?h = "\<lparr>hit_value = 1, expires_at = 1000005\<rparr> :: int query_cache_hit"
  have e: "entries full_cache = [(''a'', ?h), (''b'', \<lparr>hit_value = 2, expires_at = 1000009\<rparr>)]"
    "max_entries full_cache = 2" "cache_enabled full_cache" "cache_inv full_cache"
    by (simp_all add: full_cache_def cache_set_inv)
       (simp_all add: full_cache_def cache_set_def cache_init_def evict_if_full_def Let_def
          ticks_per_second_def)
  have a: "dget (entries full_cache) ''a'' = Some ?h"
    "dget (entries (cache_set 12 ''c'' 3 full_cache)) ''a'' = None"
    by (simp_all add: e cache_set_def evict_if_full_def Let_def) (simp add: dget_def)
  from cache_set_evicts_oldest [OF e(4) a(1) _ a(2)] show ?thesis
    by (simp add: e dget_def)
qed

section \<open>Costs\<close>

definition estimate_query_cost_bytes :: "string \<Rightarrow> int \<Rightarrow> int \<Rightarrow> int" where
  "estimate_query_cost_bytes query_text row_count column_count =
     max (utf8_len query_text) 1 + max row_count 0 * max column_count 1 * 32"

definition estimate_retrieval_cost_bytes :: "string \<Rightarrow> int \<Rightarrow> int" where
  "estimate_retrieval_cost_bytes query_text result_count =
     max (utf8_len query_text) 1 + max result_count 0 * 256"

definition enforce_budget :: "int \<Rightarrow> int \<Rightarrow> bool" where
  "enforce_budget estimated budget = (estimated \<le> max budget 0)"

lemma query_cost_positive: "1 \<le> estimate_query_cost_bytes q r c"
  by (simp add: estimate_query_cost_bytes_def add_increasing2)

lemma query_cost_mono:
  "r \<le> r' \<Longrightarrow> estimate_query_cost_bytes q r c \<le> estimate_query_cost_bytes q r' c"
  by (simp add: estimate_query_cost_bytes_def mult_right_mono)

lemma budget_bounds_rows:
  assumes "enforce_budget (estimate_query_cost_bytes q r c) b"
  shows "32 * r \<le> b"
proof -
  have "max r 0 * 1 \<le> max r 0 * max c 1" by (rule mult_left_mono) auto
  with assms show ?thesis
    by (auto simp: enforce_budget_def estimate_query_cost_bytes_def)
qed

lemma budget_bounds_results:
  "enforce_budget (estimate_retrieval_cost_bytes q n) b \<Longrightarrow> 256 * n \<le> b"
  by (auto simp: enforce_budget_def estimate_retrieval_cost_bytes_def)

end
