(* ===== verification/AccessPolicy.thy ===== *)
theory AccessPolicy
  imports Py
begin

text \<open>
  Policy evaluation of the gateway: role-based access (\<open>backend/gateway/policy.py\<close>),
  attribute-based access and column masks (\<open>backend/gateway/abac.py\<close>), and the e-mail
  masking of retrieval snippets (\<open>backend/gateway/app.py\<close>). An actor is the dict the
  authentication layer returns. SHA-256 is an argument of the masks.
\<close>

section \<open>Role-based access\<close>

record access_decision =
  ad_result :: string
  ad_reason :: string
  applied_filters :: "string list"
  applied_masks :: "string list"

definition decision :: "string \<Rightarrow> string \<Rightarrow> access_decision" where
  "decision r why = \<lparr>ad_result = r, ad_reason = why, applied_filters = [], applied_masks = []\<rparr>"

text \<open>\<open>[str(item) for item in raw] if isinstance(raw, list) else []\<close>\<close>

definition str_list :: "pyval \<Rightarrow> string list" where
  "str_list v = map py_str (as_list v)"

definition roles_of :: "pydict \<Rightarrow> string list" where
  "roles_of actor = str_list (dget_or actor ''roles'' (PList []))"

definition evaluate_access :: "pydict \<Rightarrow> bool \<Rightarrow> access_decision" where
  "evaluate_access actor allow_ai =
     (let actor_type = lower (str_of actor ''actor_type'' '''')
      in if actor_type = ''ai''
         then (if allow_ai then decision ''allow'' ''ai_allowlisted''
               else decision ''deny'' ''ai_tool_deny_by_default'')
         else let roles = roles_of actor in
           if roles = [] then decision ''deny'' ''missing_roles''
           else if ''analyst'' \<in> set roles \<or> ''data_steward'' \<in> set roles
                   \<or> ''platform_admin'' \<in> set roles
           then decision ''allow'' ''explicit_role_allow''
           else decision ''deny'' ''role_not_allowed'')"

definition privileged_roles :: "string set" where
  "privileged_roles = {''analyst'', ''data_steward'', ''platform_admin''}"

lemma decision_simps [simp]:
  "ad_result (decision r why) = r" "ad_reason (decision r why) = why"
  by (simp_all add: decision_def)

lemma evaluate_access_allow_iff:
  "ad_result (evaluate_access actor allow_ai) = ''allow'' \<longleftrightarrow>
     (if lower (str_of actor ''actor_type'' '''') = ''ai'' then allow_ai
      else set (roles_of actor) \<inter> privileged_roles \<noteq> {})"
  by (auto simp: evaluate_access_def Let_def privileged_roles_def)

section \<open>Attribute-based access\<close>

record abac_decision =
  abac_allow :: bool
  abac_reason :: string
  row_filter :: "(string \<times> string) option"
  abac_masks :: "(string \<times> string) list"

definition evaluate_internal_abac :: "pydict \<Rightarrow> pydict \<Rightarrow> abac_decision" where
  "evaluate_internal_abac actor resource_attributes =
     (let attributes = as_dict (dget_or actor ''attributes'' PNone);
          actor_region = str_of attributes ''region'' '''';
          resource_region = str_of resource_attributes ''region'' ''''
      in if resource_region \<noteq> [] \<and> actor_region \<noteq> [] \<and> actor_region \<noteq> resource_region
         then \<lparr>abac_allow = False, abac_reason = ''region_mismatch'', row_filter = None,
               abac_masks = []\<rparr>
         else let roles = as_list (dget_or actor ''roles'' (PList [])) in
           \<lparr>abac_allow = True, abac_reason = ''internal_abac_allow'',
            row_filter = (if actor_region \<noteq> [] then Some (''region'', actor_region) else None),
            abac_masks = (if PStr ''analyst'' \<in> set roles
                          then [(''email'', ''partial_reveal'')] else [])\<rparr>)"

text \<open>The bootstrap adapter raises \<open>DisabledIntegrationError\<close> on every evaluation.\<close>

definition opa_evaluate :: "pydict \<Rightarrow> abac_decision res" where
  "opa_evaluate payload =
     Inl (DisabledIntegrationError ''OPA ABAC integration is disabled by default.'')"

text \<open>
  The adapter is an argument (the handlers pass none, which is \<open>opa_evaluate\<close>); only
  \<open>DisabledIntegrationError\<close> is caught.
\<close>

definition evaluate_abac ::
  "(pydict \<Rightarrow> abac_decision res) \<Rightarrow> pydict \<Rightarrow> pydict \<Rightarrow> string \<Rightarrow> abac_decision res" where
  "evaluate_abac adapter actor resource_attributes mode =
     (if lower mode \<noteq> ''opa'' then Inr (evaluate_internal_abac actor resource_attributes)
      else case adapter [(''actor'', PDict actor),
                         (''resource_attributes'', PDict resource_attributes)] of
             Inl (DisabledIntegrationError _) \<Rightarrow>
               Inr \<lparr>abac_allow = False, abac_reason = ''opa_unavailable'', row_filter = None,
                    abac_masks = []\<rparr>
           | r \<Rightarrow> r)"

definition abac_default :: "pydict \<Rightarrow> pydict \<Rightarrow> string \<Rightarrow> abac_decision" where
  "abac_default actor attrs mode =
     (if lower mode \<noteq> ''opa'' then evaluate_internal_abac actor attrs
      else \<lparr>abac_allow = False, abac_reason = ''opa_unavailable'', row_filter = None,
            abac_masks = []\<rparr>)"

lemma evaluate_abac_default:
  "evaluate_abac opa_evaluate actor attrs mode = Inr (abac_default actor attrs mode)"
  by (simp add: evaluate_abac_def opa_evaluate_def abac_default_def)

lemma abac_denied_unfiltered:
  "\<not> abac_allow (abac_default actor attrs mode) \<Longrightarrow>
     row_filter (abac_default actor attrs mode) = None \<and>
     abac_masks (abac_default actor attrs mode) = []"
  by (auto simp: abac_default_def evaluate_internal_abac_def Let_def split: if_splits)

lemma abac_masks_cases:
  "abac_masks (abac_default actor attrs mode) \<in> {[], [(''email'', ''partial_reveal'')]}"
  by (auto simp: abac_default_def evaluate_internal_abac_def Let_def)

section \<open>Masks\<close>

definition partial_reveal :: "string \<Rightarrow> string" where
  "partial_reveal text =
     (if length text \<le> 2 then replicate (length text) (CHR ''*'')
      else take 1 text @ replicate (length text - 2) (CHR ''*'') @ drop (length text - 1) text)"

definition apply_mask :: "(string \<Rightarrow> string) \<Rightarrow> pyval \<Rightarrow> string \<Rightarrow> pyval" where
  "apply_mask sha v mode =
     (if mode = ''null'' then PNone
      else if mode = ''hash'' then PStr (sha (py_str v))
      else if mode = ''partial_reveal'' then PStr (partial_reveal (py_str v))
      else v)"

lemma length_partial_reveal [simp]: "length (partial_reveal s) = length s"
  by (auto simp: partial_reveal_def)

lemma partial_reveal_inner:
  "0 < i \<Longrightarrow> i + 1 < length s \<Longrightarrow> partial_reveal s ! i = CHR ''*''"
  by (auto simp: partial_reveal_def nth_append)

lemma partial_reveal_long:
  assumes "2 < length s"
  shows "partial_reveal s = hd s # replicate (length s - 2) (CHR ''*'') @ [last s]"
proof -
  have ne: "s \<noteq> []" using assms by auto
  then have "take 1 s = [hd s]" by (cases s) auto
  moreover have "drop (length s - 1) s = [last s]"
    using ne by (metis append_butlast_last_id append_eq_conv_conj length_butlast)
  ultimately show ?thesis using assms by (simp add: partial_reveal_def)
qed

lemma partial_reveal_depends:
  "length s = length t \<Longrightarrow> (2 < length s \<Longrightarrow> hd s = hd t \<and> last s = last t) \<Longrightarrow>
     partial_reveal s = partial_reveal t"
  using partial_reveal_long [of s] partial_reveal_long [of t]
  by (cases "2 < length s") (auto simp: partial_reveal_def)

section \<open>E-mail tokens in snippets\<close>

definition email_local :: "char \<Rightarrow> bool" where
  "email_local c = (is_alpha c \<or> is_digit c \<or> c \<in> set ''._%+-'')"

definition email_domain :: "char \<Rightarrow> bool" where
  "email_domain c = (is_alpha c \<or> is_digit c \<or> c \<in> set ''.-'')"

text \<open>
  The tail \<open>[A-Za-z0-9.-]+\.[A-Za-z]{2,}\<close> at the head of \<open>s\<close>: the length of the greedy
  match with backtracking, that is the last dot that is preceded by at least one domain
  character and followed by at least two letters, and then all the letters after it.
  \<open>i\<close> counts the domain characters consumed so far.
\<close>

fun match_domain :: "nat \<Rightarrow> string \<Rightarrow> nat option" where
  "match_domain i [] = None"
| "match_domain i (c # s) =
     (if \<not> email_domain c then None
      else case match_domain (Suc i) s of
        Some n \<Rightarrow> Some (Suc n)
      | None \<Rightarrow>
          let tld = takeWhile is_alpha s in
            if c = CHR ''.'' \<and> 0 < i \<and> 2 \<le> length tld then Some (Suc (length tld)) else None)"

definition match_email :: "string \<Rightarrow> nat option" where
  "match_email s =
     (let l = takeWhile email_local s; r = dropWhile email_local s in
        if l = [] then None
        else case r of
          [] \<Rightarrow> None
        | c # d \<Rightarrow>
            if c = CHR ''@'' then map_option (\<lambda>n. length l + 1 + n) (match_domain 0 d)
            else None)"

lemma match_email_pos: "match_email s = Some n \<Longrightarrow> 0 < n"
  by (auto simp: match_email_def Let_def split: if_splits list.splits)

text \<open>\<open>EMAIL_TOKEN_PATTERN.sub(lambda m: str(apply_mask(m.group(0), mode)), text)\<close>\<close>

function mask_email_tokens :: "(string \<Rightarrow> string) \<Rightarrow> string \<Rightarrow> string \<Rightarrow> string" where
  "mask_email_tokens sha mode [] = []"
| "mask_email_tokens sha mode (c # s) =
     (case match_email (c # s) of
        Some n \<Rightarrow> py_str (apply_mask sha (PStr (take n (c # s))) mode)
                    @ mask_email_tokens sha mode (drop n (c # s))
      | None \<Rightarrow> c # mask_email_tokens sha mode s)"
  by pat_completeness auto
termination
  by (relation "measure (\<lambda>(_, _, s). length s)") (auto dest: match_email_pos)

lemma mask_email_tokens_id:
  "(\<And>n. match_email (drop n s) = None) \<Longrightarrow> mask_email_tokens sha mode s = s"
proof (induction sha mode s rule: mask_email_tokens.induct)
  case (2 sha mode c s)
  have "match_email (c # s) = None" using "2.prems" [of 0] by simp
  moreover have "match_email (drop n s) = None" for n using "2.prems" [of "Suc n"] by simp
  ultimately show ?case using "2.IH" by simp
qed simp

lemma mask_email_length:
  "length (mask_email_tokens sha ''partial_reveal'' s) = length s"
proof (induction sha "''partial_reveal''" s rule: mask_email_tokens.induct)
  case (2 sha c s)
  then show ?case
    by (auto simp: apply_mask_def split: option.splits)
qed simp

section \<open>Properties\<close>

text \<open>
  Deny by default: the role check allows an actor only if it is an AI actor that is
  explicitly allowlisted, or a non-AI actor holding one of the three privileged roles; every
  other actor is denied.
\<close>

theorem access_deny_by_default:
  "evaluate_access actor allow_ai \<in>
     {decision ''allow'' ''ai_allowlisted'', decision ''allow'' ''explicit_role_allow'',
      decision ''deny'' ''ai_tool_deny_by_default'', decision ''deny'' ''missing_roles'',
      decision ''deny'' ''role_not_allowed''} \<and>
   (ad_result (evaluate_access actor allow_ai) = ''allow'' \<longleftrightarrow>
     (if lower (str_of actor ''actor_type'' '''') = ''ai'' then allow_ai
      else set (roles_of actor) \<inter> privileged_roles \<noteq> {}))"
proof
  show "evaluate_access actor allow_ai \<in>
     {decision ''allow'' ''ai_allowlisted'', decision ''allow'' ''explicit_role_allow'',
      decision ''deny'' ''ai_tool_deny_by_default'', decision ''deny'' ''missing_roles'',
      decision ''deny'' ''role_not_allowed''}"
    by (simp add: evaluate_access_def Let_def)
qed (rule evaluate_access_allow_iff)

text \<open>
  Attribute policy: the evaluation the handlers make never raises; it refuses exactly when
  OPA mode is requested (no adapter is configured) or both regions are given and differ; an
  actor with a region is always confined to that region by a row filter, and an analyst
  always gets the e-mail mask.
\<close>

theorem abac_decision_characterised:
  "\<exists>d. evaluate_abac opa_evaluate actor attrs mode = Inr d \<and>
    (let ar = str_of (as_dict (dget_or actor ''attributes'' PNone)) ''region'' '''';
         rr = str_of attrs ''region'' ''''
     in (abac_allow d \<longleftrightarrow> lower mode \<noteq> ''opa'' \<and> (rr = [] \<or> ar = [] \<or> ar = rr)) \<and>
        (abac_allow d \<longrightarrow> row_filter d = (if ar = [] then None else Some (''region'', ar))) \<and>
        (abac_allow d \<and> PStr ''analyst'' \<in> set (as_list (dget_or actor ''roles'' (PList [])))
           \<longrightarrow> dget (abac_masks d) ''email'' = Some ''partial_reveal''))"
  unfolding evaluate_abac_default
  by (auto simp: abac_default_def evaluate_internal_abac_def Let_def dget_def)

theorem abac_decision_characterised_witness:
  "\<exists>d. evaluate_abac opa_evaluate
        [(''roles'', PList [PStr ''analyst'']), (''attributes'', PDict [(''region'', PStr ''eu'')])]
        [] ''internal'' = Inr d \<and> abac_allow d \<and> row_filter d = Some (''region'', ''eu'')"
  using abac_decision_characterised
    [of "[(''roles'', PList [PStr ''analyst'']), (''attributes'', PDict [(''region'', PStr ''eu'')])]"
        "[]" "''internal''"]
  by (auto simp: Let_def dget_or_def lower_def lower_char_def code_def)

text \<open>
  Partial reveal hides the text: a masked value has the length of the original, every
  character but the first and last is a star, and two texts of one length that agree on their
  first and last character are masked to the same value, so nothing else can be learnt.
\<close>

theorem partial_reveal_hides:
  fixes s t :: string
  assumes "length s = length t"
    and "2 < length s \<Longrightarrow> hd s = hd t \<and> last s = last t"
  shows "apply_mask sha (PStr s) ''partial_reveal'' = apply_mask sha (PStr t) ''partial_reveal'' \<and>
    (\<forall>i. 0 < i \<and> i + 1 < length s \<longrightarrow> partial_reveal s ! i = CHR ''*'')"
  using assms partial_reveal_depends [of s t] partial_reveal_inner
  by (simp add: apply_mask_def)

theorem partial_reveal_hides_witness:
  "apply_mask sha (PStr ''ann@x.io'') ''partial_reveal'' =
   apply_mask sha (PStr ''abc-d.eo'') ''partial_reveal''"
  using partial_reveal_hides [of "''ann@x.io''" "''abc-d.eo''" sha] by simp

end
