(* ===== verification/GoldPointer.thy ===== *)
theory GoldPointer
  imports Py
begin

text \<open>
  Publication of gold snapshots (\<open>backend/shared_domain/gold_pointer.py\<close>): per workspace a
  file with the latest pointer and a file with the publication history. A file is absent, or
  holds a JSON text, which makes \<open>json.loads\<close> raise where it does not parse. The interface the query executor and the control plane rely on is
  the locale \<open>publication\<close>.
\<close>

record gold_store =
  latest_file :: "string \<rightharpoonup> json_text"
  history_file :: "string \<rightharpoonup> json_text"

definition gold_store_empty :: gold_store where
  "gold_store_empty = \<lparr>latest_file = Map.empty, history_file = Map.empty\<rparr>"

definition pointer_dict :: "string \<Rightarrow> string \<Rightarrow> string \<Rightarrow> string \<Rightarrow> pydict" where
  "pointer_dict ws build snapshot model =
     [(''workspace_id'', PStr ws), (''build_id'', PStr build),
      (''snapshot_id'', PStr snapshot), (''model_name'', PStr model)]"

fun normalize_pointer :: "pyval \<Rightarrow> pydict" where
  "normalize_pointer (PDict raw) =
     pointer_dict (str_of raw ''workspace_id'' '''') (str_of raw ''build_id'' '''')
                  (str_of raw ''snapshot_id'' '''') (str_of raw ''model_name'' '''')"
| "normalize_pointer _ = []"

definition load_latest_gold_pointer :: "gold_store \<Rightarrow> string \<Rightarrow> pydict option res" where
  "load_latest_gold_pointer st ws =
     (case latest_file st ws of
        None \<Rightarrow> Inr None
      | Some None \<Rightarrow> Inl (ValueError ''JSONDecodeError'')
      | Some (Some raw) \<Rightarrow> Inr (Some (normalize_pointer raw)))"

definition load_history :: "gold_store \<Rightarrow> string \<Rightarrow> pydict list res" where
  "load_history st ws =
     (case history_file st ws of
        None \<Rightarrow> Inr []
      | Some None \<Rightarrow> Inl (ValueError ''JSONDecodeError'')
      | Some (Some raw) \<Rightarrow> Inr (map normalize_pointer (as_list raw)))"

definition write_latest :: "string \<Rightarrow> pydict \<Rightarrow> gold_store \<Rightarrow> gold_store" where
  "write_latest ws p st = st\<lparr>latest_file := (latest_file st)(ws \<mapsto> Some (PDict p))\<rparr>"

definition write_history :: "string \<Rightarrow> pydict list \<Rightarrow> gold_store \<Rightarrow> gold_store" where
  "write_history ws h st =
     st\<lparr>history_file := (history_file st)(ws \<mapsto> Some (PList (map PDict h)))\<rparr>"

text \<open>The latest file is written before the history is read: an unreadable history raises late.\<close>

definition publish_gold_pointer ::
  "string \<Rightarrow> string \<Rightarrow> string \<Rightarrow> string \<Rightarrow> gold_store \<Rightarrow> pydict res \<times> gold_store" where
  "publish_gold_pointer ws build snapshot model st =
     (let pointer = pointer_dict ws build snapshot model;
          st1 = write_latest ws pointer st
      in case load_history st1 ws of
           Inl e \<Rightarrow> (Inl e, st1)
         | Inr h \<Rightarrow>
             if h = [] \<or> dget (last h) ''build_id'' \<noteq> Some (PStr build)
             then (Inr pointer, write_history ws (h @ [pointer]) st1)
             else (Inr pointer, st1))"

definition find_build :: "string \<Rightarrow> pydict list \<Rightarrow> pydict option" where
  "find_build build h = find (\<lambda>p. py_str (dget_or p ''build_id'' PNone) = build) (rev h)"

definition rollback_gold_pointer ::
  "string \<Rightarrow> string option \<Rightarrow> gold_store \<Rightarrow> (pydict \<times> pydict) res \<times> gold_store" where
  "rollback_gold_pointer ws build_id st =
     (case load_history st ws of
        Inl e \<Rightarrow> (Inl e, st)
      | Inr h \<Rightarrow>
          if h = [] then (Inl (ValueError ''No gold publish history available for rollback.''), st)
          else
            let current = last h;
                target = (case build_id of
                    Some b \<Rightarrow> if b = [] then Some (if length h \<ge> 2 then h ! (length h - 2) else last h)
                              else find_build b h
                  | None \<Rightarrow> Some (if length h \<ge> 2 then h ! (length h - 2) else last h))
            in case target of
                 None \<Rightarrow> (Inl (ValueError
                   ''Requested rollback target was not found in publish history.''), st)
               | Some t \<Rightarrow>
                   let st1 = write_latest ws t st
                   in if last h \<noteq> t
                      then (Inr (current, t), write_history ws (h @ [t]) st1)
                      else (Inr (current, t), st1))"

section \<open>Normalisation and frame lemmas\<close>

lemma pointer_fields [simp]:
  "dget (pointer_dict ws b s m) ''build_id'' = Some (PStr b)"
  "dget_or (pointer_dict ws b s m) ''workspace_id'' w = PStr ws"
  "dget_or (pointer_dict ws b s m) ''build_id'' w = PStr b"
  "dget_or (pointer_dict ws b s m) ''snapshot_id'' w = PStr s"
  "dget_or (pointer_dict ws b s m) ''model_name'' w = PStr m"
  by (simp_all add: pointer_dict_def dget_def dget_or_def)

lemma normalize_pointer_dict [simp]:
  "normalize_pointer (PDict (pointer_dict ws b s m)) = pointer_dict ws b s m"
  by simp

lemma normalize_idem [simp]:
  "normalize_pointer v \<noteq> [] \<Longrightarrow>
     normalize_pointer (PDict (normalize_pointer v)) = normalize_pointer v"
  by (cases v) simp_all

declare normalize_pointer.simps [simp del]

lemma write_simps [simp]:
  "latest_file (write_latest ws p st) ws' =
     (if ws' = ws then Some (Some (PDict p)) else latest_file st ws')"
  "history_file (write_latest ws p st) = history_file st"
  "latest_file (write_history ws h st) = latest_file st"
  "history_file (write_history ws h st) ws' =
     (if ws' = ws then Some (Some (PList (map PDict h))) else history_file st ws')"
  by (simp_all add: write_latest_def write_history_def)

lemma load_history_write_latest [simp]: "load_history (write_latest ws p st) ws' = load_history st ws'"
  by (simp add: load_history_def)

lemma load_history_write_history [simp]:
  "load_history (write_history ws h st) ws' =
     (if ws' = ws then Inr (map (\<lambda>p. normalize_pointer (PDict p)) h) else load_history st ws')"
  by (simp add: load_history_def comp_def)

lemma load_latest_write [simp]:
  "load_latest_gold_pointer (write_latest ws p st) ws =
     Inr (Some (normalize_pointer (PDict p)))"
  "load_latest_gold_pointer (write_history ws h st) ws' = load_latest_gold_pointer st ws'"
  by (simp_all add: load_latest_gold_pointer_def)

text \<open>What the two operations keep: the history file of a workspace is a list of pointers.\<close>

definition is_pointer :: "pydict \<Rightarrow> bool" where
  "is_pointer p \<longleftrightarrow> (\<exists>ws b s m. p = pointer_dict ws b s m)"

definition history_ok :: "gold_store \<Rightarrow> string \<Rightarrow> bool" where
  "history_ok st ws \<longleftrightarrow> (\<exists>h. load_history st ws = Inr h \<and> list_all is_pointer h)"

definition history_of :: "gold_store \<Rightarrow> string \<Rightarrow> pydict list" where
  "history_of st ws = (case load_history st ws of Inl _ \<Rightarrow> [] | Inr h \<Rightarrow> h)"

lemma is_pointer_dict [simp]: "is_pointer (pointer_dict ws b s m)"
  by (auto simp: is_pointer_def)

lemma is_pointer_normalize [simp]: "is_pointer p \<Longrightarrow> normalize_pointer (PDict p) = p"
  by (auto simp: is_pointer_def)

lemma list_all_is_pointer_normalize:
  "list_all is_pointer h \<Longrightarrow> map (\<lambda>p. normalize_pointer (PDict p)) h = h"
  by (induction h) auto

lemma history_ok_empty: "history_ok gold_store_empty ws"
  by (simp add: history_ok_def load_history_def gold_store_empty_def)

lemma publish_history:
  assumes "history_ok st ws"
  shows "history_ok (snd (publish_gold_pointer ws b s m st)) ws \<and>
    history_of (snd (publish_gold_pointer ws b s m st)) ws =
      (if history_of st ws = [] \<or> dget (last (history_of st ws)) ''build_id'' \<noteq> Some (PStr b)
       then history_of st ws @ [pointer_dict ws b s m] else history_of st ws)"
  using assms list_all_is_pointer_normalize
  by (auto simp: history_ok_def history_of_def publish_gold_pointer_def Let_def)

lemma publish_latest:
  "load_latest_gold_pointer (snd (publish_gold_pointer ws b s m st)) ws =
     Inr (Some (pointer_dict ws b s m))"
  by (auto simp: publish_gold_pointer_def Let_def split: sum.splits)

lemma publish_frame:
  "ws' \<noteq> ws \<Longrightarrow> load_history (snd (publish_gold_pointer ws b s m st)) ws' = load_history st ws' \<and>
     load_latest_gold_pointer (snd (publish_gold_pointer ws b s m st)) ws' =
       load_latest_gold_pointer st ws'"
  by (auto simp: publish_gold_pointer_def Let_def load_latest_gold_pointer_def split: sum.splits)

lemma find_build_in: "find_build b h = Some t \<Longrightarrow> t \<in> set h"
  by (auto simp: find_build_def find_Some_iff) (metis nth_mem length_rev set_rev)

lemma rollback_target:
  assumes "history_ok st ws" "fst (rollback_gold_pointer ws b st) = Inr (cur, t)"
  shows "cur = last (history_of st ws) \<and> t \<in> set (history_of st ws)"
  using assms
  by (auto simp: history_ok_def history_of_def rollback_gold_pointer_def Let_def
      split: if_splits option.splits dest: find_build_in)

lemma rollback_history:
  assumes ok: "history_ok st ws" and r: "fst (rollback_gold_pointer ws b st) = Inr (cur, t)"
  shows "history_ok (snd (rollback_gold_pointer ws b st)) ws \<and>
    history_of (snd (rollback_gold_pointer ws b st)) ws =
      (if last (history_of st ws) = t then history_of st ws else history_of st ws @ [t]) \<and>
    load_latest_gold_pointer (snd (rollback_gold_pointer ws b st)) ws = Inr (Some t)"
proof -
  obtain h where h: "load_history st ws = Inr h" "list_all is_pointer h"
    using ok by (auto simp: history_ok_def)
  have t: "t \<in> set h" using rollback_target [OF assms] h by (simp add: history_of_def)
  then have "is_pointer t" using h(2) by (auto simp: list_all_iff)
  with h r show ?thesis
    using list_all_is_pointer_normalize [OF h(2)]
    by (auto simp: rollback_gold_pointer_def history_of_def history_ok_def Let_def
        split: if_splits option.splits)
qed

lemma rollback_fails_unchanged:
  "fst (rollback_gold_pointer ws b st) = Inl e \<Longrightarrow> snd (rollback_gold_pointer ws b st) = st"
  by (auto simp: rollback_gold_pointer_def Let_def split: if_splits option.splits sum.splits)

section \<open>The interface\<close>

text \<open>
  What a reader of published snapshots relies on: publishing makes the pointer the latest one,
  a rollback makes an earlier pointer the latest one, and the recorded history only grows.
\<close>

locale publication =
  fixes publish :: "'w \<Rightarrow> 'p \<Rightarrow> 's \<Rightarrow> 's"
    and rollback :: "'w \<Rightarrow> 's \<Rightarrow> 'p option \<times> 's"
    and current :: "'s \<Rightarrow> 'w \<Rightarrow> 'p option"
    and published :: "'s \<Rightarrow> 'w \<Rightarrow> 'p list"
    and valid :: "'w \<Rightarrow> 'p \<Rightarrow> bool"
    and usable :: "'s \<Rightarrow> 'w \<Rightarrow> bool"
  assumes publish_current: "valid w p \<Longrightarrow> current (publish w p s) w = Some p"
    and publish_usable: "valid w p \<Longrightarrow> usable s w \<Longrightarrow> usable (publish w p s) w"
    and publish_grows: "valid w p \<Longrightarrow> usable s w \<Longrightarrow>
      \<exists>xs. published (publish w p s) w = published s w @ xs \<and> set xs \<subseteq> {p}"
    and rollback_current: "usable s w \<Longrightarrow> rollback w s = (Some p, s') \<Longrightarrow>
      current s' w = Some p \<and> p \<in> set (published s w)"
    and rollback_usable: "usable s w \<Longrightarrow> usable (snd (rollback w s)) w"
    and rollback_grows: "usable s w \<Longrightarrow> rollback w s = (Some p, s') \<Longrightarrow>
      \<exists>xs. published s' w = published s w @ xs \<and> set xs \<subseteq> {p}"
begin

text \<open>A rollback never serves a pointer that was not published before.\<close>

lemma rollback_published:
  assumes "valid w p" "usable s w" "rollback w (publish w p s) = (Some q, s')"
  shows "q = p \<or> q \<in> set (published s w)"
proof -
  have u: "usable (publish w p s) w" by (rule publish_usable [OF assms(1,2)])
  have "q \<in> set (published (publish w p s) w)"
    using rollback_current [OF u assms(3)] by simp
  then show ?thesis using publish_grows [OF assms(1,2)] by auto
qed

end

definition publish_step :: "string \<Rightarrow> pydict \<Rightarrow> gold_store \<Rightarrow> gold_store" where
  "publish_step ws p st = snd (publish_gold_pointer ws (str_of p ''build_id'' '''')
     (str_of p ''snapshot_id'' '''') (str_of p ''model_name'' '''') st)"

definition rollback_step :: "string \<Rightarrow> gold_store \<Rightarrow> pydict option \<times> gold_store" where
  "rollback_step ws st =
     (case rollback_gold_pointer ws None st of
        (Inl e, st') \<Rightarrow> (None, st') | (Inr (_, t), st') \<Rightarrow> (Some t, st'))"

definition current_pointer :: "gold_store \<Rightarrow> string \<Rightarrow> pydict option" where
  "current_pointer st ws =
     (case load_latest_gold_pointer st ws of Inl _ \<Rightarrow> None | Inr p \<Rightarrow> p)"

definition pointer_for :: "string \<Rightarrow> pydict \<Rightarrow> bool" where
  "pointer_for ws p \<longleftrightarrow> (\<exists>b s m. p = pointer_dict ws b s m)"

lemma publish_step_eq:
  "publish_step ws (pointer_dict ws b s m) st = snd (publish_gold_pointer ws b s m st)"
  by (simp add: publish_step_def)

interpretation gold: publication publish_step rollback_step current_pointer history_of
  pointer_for history_ok
proof (unfold_locales, goal_cases)
  case (1 w p s)
  then show ?case
    by (auto simp: pointer_for_def publish_step_eq current_pointer_def publish_latest)
next
  case (2 w p s)
  then show ?case by (auto simp: pointer_for_def publish_step_eq publish_history)
next
  case (3 w p s)
  then show ?case by (auto simp: pointer_for_def publish_step_eq publish_history)
next
  case (4 s w p s')
  then obtain cur where r: "fst (rollback_gold_pointer w None s) = Inr (cur, p)"
    and s': "s' = snd (rollback_gold_pointer w None s)"
    by (auto simp: rollback_step_def split: prod.splits sum.splits)
  then show ?case
    using rollback_target [OF 4(1) r] rollback_history [OF 4(1) r]
    by (simp add: current_pointer_def)
next
  case (5 s w)
  show ?case
  proof (cases "fst (rollback_gold_pointer w None s)")
    case (Inl e)
    then show ?thesis using 5 rollback_fails_unchanged [OF Inl]
      by (auto simp: rollback_step_def split: prod.splits)
  next
    case (Inr r)
    then obtain cur t where rr: "fst (rollback_gold_pointer w None s) = Inr (cur, t)"
      by (cases r) auto
    from rollback_history [OF 5 rr] rr show ?thesis
      by (auto simp: rollback_step_def split: prod.splits)
  qed
next
  case (6 s w p s')
  then obtain cur where r: "fst (rollback_gold_pointer w None s) = Inr (cur, p)"
    and s': "s' = snd (rollback_gold_pointer w None s)"
    by (auto simp: rollback_step_def split: prod.splits sum.splits)
  then show ?case using rollback_history [OF 6(1) r] by auto
qed

section \<open>Properties\<close>

text \<open>
  Publish, then roll back: after publishing a new build on top of a readable history, the
  latest pointer is the new one; a rollback without a build id then restores exactly the
  pointer that was published last before, makes it the latest one, and keeps both
  publications in the history.
\<close>

theorem publish_then_rollback:
  fixes b s m :: string
  assumes "history_ok st ws" "history_of st ws \<noteq> []"
    and "dget (last (history_of st ws)) ''build_id'' \<noteq> Some (PStr b)"
  defines "st1 \<equiv> snd (publish_gold_pointer ws b s m st)"
  shows "load_latest_gold_pointer st1 ws = Inr (Some (pointer_dict ws b s m)) \<and>
    (let (r, st2) = rollback_gold_pointer ws None st1; prev = last (history_of st ws)
     in r = Inr (pointer_dict ws b s m, prev) \<and>
        load_latest_gold_pointer st2 ws = Inr (Some prev) \<and>
        history_of st2 ws = history_of st ws @ [pointer_dict ws b s m, prev])"
proof -
  let ?p = "pointer_dict ws b s m" and ?h = "history_of st ws"
  have ok: "history_ok st1 ws" and h1: "history_of st1 ws = ?h @ [?p]"
    using publish_history [OF assms(1), of b s m] assms(3) by (simp_all add: st1_def)
  obtain h where lh: "load_history st1 ws = Inr h" "h = ?h @ [?p]"
    using ok h1 by (auto simp: history_ok_def history_of_def)
  have prev: "(?h @ [?p]) ! (length ?h - 1) = last ?h"
    using assms(2) by (simp add: nth_append last_conv_nth)
  have ne: "?p \<noteq> last ?h" using assms(3) pointer_fields(1) [of ws b s m] by metis
  have r: "fst (rollback_gold_pointer ws None st1) = Inr (?p, last ?h)"
    using lh assms(2) prev by (simp add: rollback_gold_pointer_def Let_def Suc_le_eq)
  show ?thesis
    using rollback_history [OF ok r] publish_latest [of ws b s m st] r h1 ne
    by (auto simp: st1_def split: prod.splits)
qed

definition store_one :: gold_store where
  "store_one = snd (publish_gold_pointer ''w'' ''b1'' ''s1'' ''m'' gold_store_empty)"

lemma store_one_history:
  "history_ok store_one ''w''" "history_of store_one ''w'' = [pointer_dict ''w'' ''b1'' ''s1'' ''m'']"
  using publish_history [OF history_ok_empty, of "''w''" "''b1''" "''s1''" "''m''"]
  by (simp_all add: store_one_def) (simp add: history_of_def load_history_def gold_store_empty_def)

theorem publish_then_rollback_witness:
  "load_latest_gold_pointer
     (snd (rollback_gold_pointer ''w'' None
        (snd (publish_gold_pointer ''w'' ''b2'' ''s2'' ''m'' store_one)))) ''w'' =
   Inr (Some (pointer_dict ''w'' ''b1'' ''s1'' ''m''))"
  using publish_then_rollback [of store_one "''w''" "''b2''" "''s2''" "''m''"]
  by (auto simp: store_one_history Let_def split: prod.splits)



text \<open>
  A second publication under the build id of the last history entry is not recorded: it
  becomes the latest pointer, but the history still ends with the first one, so the two files
  disagree and a rollback reports a pointer that is not being served as the current one.
\<close>

theorem republish_same_build_not_recorded:
  fixes b s s' m :: string
  assumes "history_ok st ws" "history_of st ws \<noteq> []"
    and "last (history_of st ws) = pointer_dict ws b s m" "s' \<noteq> s"
  defines "st1 \<equiv> snd (publish_gold_pointer ws b s' m st)"
  shows "load_latest_gold_pointer st1 ws = Inr (Some (pointer_dict ws b s' m)) \<and>
    history_of st1 ws = history_of st ws \<and>
    pointer_dict ws b s' m \<noteq> last (history_of st1 ws)"
  using publish_history [OF assms(1), of b s' m] publish_latest [of ws b s' m st] assms
  by (auto simp: pointer_dict_def dget_def)

theorem republish_same_build_not_recorded_witness:
  "history_of (snd (publish_gold_pointer ''w'' ''b1'' ''s2'' ''m'' store_one)) ''w'' =
     [pointer_dict ''w'' ''b1'' ''s1'' ''m'']"
  using republish_same_build_not_recorded [OF store_one_history(1), of "''b1''" "''s1''" "''m''" "''s2''"]
  by (simp add: store_one_history)

end
