(* ===== verification/SqlExecutor.thy ===== *)
theory SqlExecutor
  imports GoldPointer
begin

text \<open>
  SQL execution of the gateway (\<open>backend/gateway/executor.py\<close>): the read-only guard, the row
  cap, the ABAC row filter and the preparation of the published gold views. DuckDB and Trino
  are not under src/: they are functions of the environment. \<open>duck_run setup query\<close> is what a
  fresh in-memory connection answers after the setup statements; durations are microseconds.
\<close>

type_synonym column = "string \<times> string"
type_synonym row = "pyval list"

record query_result =
  columns :: "column list"
  rows :: "row list"
  row_count :: int
  execution_metadata :: pydict

record exec_env =
  duck_run :: "string list \<Rightarrow> string \<Rightarrow> ((string \<times> string option) list \<times> row list) res"
  trino_run :: "string \<Rightarrow> int \<Rightarrow> int \<Rightarrow> (column list \<times> row list \<times> pydict) res"
  elapsed_us :: int
  path_exists :: "string \<Rightarrow> bool"
  gold_files :: gold_store

section \<open>The read-only guard\<close>

definition UNSAFE_SQL_KEYWORDS :: "string list" where
  "UNSAFE_SQL_KEYWORDS =
     [''insert'', ''update'', ''delete'', ''drop'', ''alter'', ''attach'', ''detach'', ''copy'',
      ''export'', ''pragma'', ''vacuum'', ''create'', ''replace'', ''truncate'', ''read_csv'',
      ''read_csv_auto'', ''read_parquet'', ''read_json'', ''read_json_auto'', ''glob'', ''install'',
      ''load'', ''httpfs'']"

definition validate_filter_column :: "string \<Rightarrow> string res" where
  "validate_filter_column column =
     (let normalized = strip column
      in if ident_match normalized then Inr normalized
         else Inl (ValueError (''Invalid ABAC filter column: '' @ column)))"

definition normalized_max_rows :: "int \<Rightarrow> int" where
  "normalized_max_rows max_rows = (if max_rows \<le> 0 then 1 else min max_rows 5000)"

definition first_unsafe :: "string list \<Rightarrow> string option" where
  "first_unsafe tokens = find (\<lambda>t. t \<in> set UNSAFE_SQL_KEYWORDS) tokens"

definition normalized_query :: "string \<Rightarrow> string" where
  "normalized_query query = (if strip query = [] then ''select 1 as one'' else strip query)"

definition validate_read_only_query :: "string \<Rightarrow> string res" where
  "validate_read_only_query query =
     (let normalized = normalized_query query;
          lowered = lower normalized
      in if CHR '';'' \<in> set normalized
         then Inl (UnsafeSqlError ''multiple_sql_statements_denied'')
         else if \<not> (startswith lowered ''select'' \<or> startswith lowered ''with '')
         then Inl (UnsafeSqlError ''only_select_or_cte_queries_allowed'')
         else case first_unsafe (find_idents lowered) of
                Some t \<Rightarrow> Inl (UnsafeSqlError (''unsafe_sql_keyword_denied:'' @ t))
              | None \<Rightarrow> Inr normalized)"

section \<open>The row filter\<close>

fun index_of :: "string \<Rightarrow> string list \<Rightarrow> nat option" where
  "index_of x [] = None"
| "index_of x (y # ys) = (if y = x then Some 0 else map_option Suc (index_of x ys))"

text \<open>The loop over the rows; \<open>acc\<close> is \<open>filtered\<close>. A short row continues before the cap is tested.\<close>

fun filter_loop :: "nat \<Rightarrow> string \<Rightarrow> nat \<Rightarrow> row list \<Rightarrow> row list \<Rightarrow> row list" where
  "filter_loop idx val cap acc [] = acc"
| "filter_loop idx val cap acc (r # rs) =
     (if idx \<ge> length r then filter_loop idx val cap acc rs
      else let acc' = (if py_str (r ! idx) = val then acc @ [r] else acc)
           in if length acc' \<ge> cap then acc' else filter_loop idx val cap acc' rs)"

definition apply_optional_row_filter ::
  "column list \<Rightarrow> row list \<Rightarrow> (string \<times> string) option \<Rightarrow> int \<Rightarrow> row list res" where
  "apply_optional_row_filter cols rws rf capped_rows =
     (case rf of
        None \<Rightarrow> Inr (take (nat capped_rows) rws)
      | Some (filter_column, filter_value) \<Rightarrow>
          rbind (validate_filter_column filter_column) (\<lambda>column.
            case index_of column (map fst cols) of
              None \<Rightarrow> Inr []
            | Some idx \<Rightarrow> Inr (filter_loop idx filter_value (nat capped_rows) [] rws)))"

section \<open>Published gold views\<close>

definition safe_identifier :: "string \<Rightarrow> string" where
  "safe_identifier v =
     (let normalized = map (\<lambda>c. if ident_char c then c else CHR ''_'') v
      in case normalized of
           [] \<Rightarrow> ''model''
         | c # _ \<Rightarrow> if is_digit c then CHR ''_'' # normalized else normalized)"

text \<open>\<open>path.replace("'", "''")\<close>\<close>

definition quote :: char where
  "quote = CHR 0x27"

definition sql_escape :: "string \<Rightarrow> string" where
  "sql_escape s = concat (map (\<lambda>c. if c = quote then [quote, quote] else [c]) s)"

definition gold_data_path :: "string \<Rightarrow> string \<Rightarrow> string \<Rightarrow> string \<Rightarrow> string" where
  "gold_data_path storage_root ws model snapshot =
     as_posix (foldl path_join (path_of storage_root)
       [''gold'', ws, model, ''snapshots'', snapshot, ''metrics.json''])"

definition metrics_view :: "string \<Rightarrow> string" where
  "metrics_view path =
     ''create or replace view gold.fact_metrics as select * from read_json_auto(''
       @ [quote] @ sql_escape path @ [quote] @ '')''"

definition model_view :: "string \<Rightarrow> string" where
  "model_view model =
     ''create or replace view gold.'' @ safe_identifier model
       @ '' as select * from gold.fact_metrics''"

text \<open>The statements executed on the connection before the query.\<close>

definition prepare_published_gold_views ::
  "exec_env \<Rightarrow> string option \<Rightarrow> string \<Rightarrow> string list res" where
  "prepare_published_gold_views env workspace_id storage_root =
     (case workspace_id of
        None \<Rightarrow> Inr []
      | Some ws \<Rightarrow>
          if ws = [] then Inr []
          else rbind (load_latest_gold_pointer (gold_files env) ws) (\<lambda>p.
            case p of
              None \<Rightarrow> Inr []
            | Some pointer \<Rightarrow>
                let model_name = strip (str_of pointer ''model_name'' '''');
                    snapshot_id = strip (str_of pointer ''snapshot_id'' '''');
                    data_path = gold_data_path storage_root ws model_name snapshot_id
                in if model_name = [] \<or> snapshot_id = [] then Inr []
                   else if \<not> path_exists env data_path then Inr []
                   else Inr [''create schema if not exists gold'', metrics_view data_path,
                             model_view model_name]))"

section \<open>Execution\<close>

definition budget_ms :: "int \<Rightarrow> int" where
  "budget_ms timeout_ms = max 1 (min timeout_ms 60000)"

definition result_of ::
  "column list \<Rightarrow> pydict \<Rightarrow> row list \<Rightarrow> query_result" where
  "result_of cols meta rws =
     \<lparr>columns = cols, rows = rws, row_count = int (length rws), execution_metadata = meta\<rparr>"

definition describe :: "(string \<times> string option) list \<Rightarrow> column list" where
  "describe description =
     map (\<lambda>(n, t). (n, case t of None \<Rightarrow> ''unknown'' | Some x \<Rightarrow> x)) description"

definition execute_trino ::
  "exec_env \<Rightarrow> string \<Rightarrow> int \<Rightarrow> int \<Rightarrow> (string \<times> string) option \<Rightarrow> query_result res" where
  "execute_trino env query capped_rows budget rf =
     (case trino_run env query capped_rows budget of
        Inl TimeoutError \<Rightarrow> Inl (QueryTimeoutError ''query_timeout_exceeded'')
      | Inl e \<Rightarrow> Inl e
      | Inr (cols, trino_rows, metadata) \<Rightarrow>
          if elapsed_us env > budget * 1000
          then Inl (QueryTimeoutError ''query_timeout_exceeded'')
          else rbind (apply_optional_row_filter cols trino_rows rf capped_rows)
                 (\<lambda>rws. Inr (result_of cols metadata rws)))"

definition execute_duckdb ::
  "exec_env \<Rightarrow> string \<Rightarrow> int \<Rightarrow> int \<Rightarrow> (string \<times> string) option \<Rightarrow> string option \<Rightarrow> string \<Rightarrow>
     query_result res" where
  "execute_duckdb env query capped_rows budget rf workspace_id storage_root =
     rbind (prepare_published_gold_views env workspace_id storage_root) (\<lambda>setup.
       case duck_run env setup query of
         Inl e \<Rightarrow> Inl e
       | Inr (description, fetched) \<Rightarrow>
           if elapsed_us env > budget * 1000
           then Inl (QueryTimeoutError ''query_timeout_exceeded'')
           else let cols = describe description in
             case rf of
               None \<Rightarrow> Inr (result_of cols [] (take (nat capped_rows) fetched))
             | Some _ \<Rightarrow>
                 rbind (apply_optional_row_filter cols fetched rf capped_rows)
                   (\<lambda>rws. Inr (result_of cols [] rws)))"

definition execute_sql ::
  "exec_env \<Rightarrow> string \<Rightarrow> int \<Rightarrow> (string \<times> string) option \<Rightarrow> int \<Rightarrow> string option \<Rightarrow> string \<Rightarrow>
     string \<Rightarrow> query_result res" where
  "execute_sql env sql max_rows rf timeout_ms workspace_id storage_root query_engine =
     rbind (validate_read_only_query (if sql = [] then ''select 1 as one'' else sql)) (\<lambda>query.
       let capped_rows = normalized_max_rows max_rows; budget = budget_ms timeout_ms
       in if budget \<le> 1 then Inl (QueryTimeoutError ''query_timeout_exceeded'')
          else if query_engine = ''trino'' then execute_trino env query capped_rows budget rf
          else execute_duckdb env query capped_rows budget rf workspace_id storage_root)"

section \<open>Lemmas\<close>

definition read_only :: "string \<Rightarrow> bool" where
  "read_only q \<longleftrightarrow> CHR '';'' \<notin> set q \<and>
     (startswith (lower q) ''select'' \<or> startswith (lower q) ''with '') \<and>
     set (find_idents (lower q)) \<inter> set UNSAFE_SQL_KEYWORDS = {}"

lemma first_unsafe_None: "first_unsafe ts = None \<longleftrightarrow> set ts \<inter> set UNSAFE_SQL_KEYWORDS = {}"
  by (auto simp: first_unsafe_def find_None_iff)

lemma validate_accepts_iff:
  "validate_read_only_query q = Inr n \<longleftrightarrow>
     n = normalized_query q \<and> read_only n"
  by (auto simp: validate_read_only_query_def read_only_def Let_def
      first_unsafe_None [symmetric] split: option.splits)

lemma validate_rejects:
  "validate_read_only_query q = Inl e \<Longrightarrow> \<exists>m. e = UnsafeSqlError m"
  by (auto simp: validate_read_only_query_def Let_def split: if_splits option.splits)

lemma normalized_max_rows_bounds: "1 \<le> normalized_max_rows n \<and> normalized_max_rows n \<le> 5000"
  by (auto simp: normalized_max_rows_def)

text \<open>The abstract specification of the filter loop: the first \<open>cap\<close> rows that match.\<close>

definition row_matches :: "nat \<Rightarrow> string \<Rightarrow> row \<Rightarrow> bool" where
  "row_matches idx val r \<longleftrightarrow> idx < length r \<and> py_str (r ! idx) = val"

lemma filter_loop_spec:
  "length acc < cap \<Longrightarrow>
     filter_loop idx val cap acc rs = acc @ take (cap - length acc) (filter (row_matches idx val) rs)"
proof (induction rs arbitrary: acc)
  case (Cons r rs)
  show ?case
  proof (cases "row_matches idx val r")
    case True
    show ?thesis
    proof (cases "Suc (length acc) \<ge> cap")
      case True2: True
      then have "cap - length acc = 1" using Cons.prems by simp
      with True True2 show ?thesis by (simp add: row_matches_def Let_def)
    next
      case False
      then have "length (acc @ [r]) < cap" by simp
      from Cons.IH [OF this] True False show ?thesis
        by (auto simp: row_matches_def Let_def Suc_diff_Suc [symmetric])
    qed
  next
    case False
    with Cons show ?thesis by (auto simp: row_matches_def Let_def)
  qed
qed simp

lemma apply_filter_spec:
  assumes "1 \<le> cap" "apply_optional_row_filter cols rws (Some (c, v)) cap = Inr out"
  shows "(case index_of (strip c) (map fst cols) of
            None \<Rightarrow> out = []
          | Some idx \<Rightarrow> out = take (nat cap) (filter (row_matches idx v) rws))"
  using assms filter_loop_spec [of "[]" "nat cap"]
  by (auto simp: apply_optional_row_filter_def validate_filter_column_def Let_def
      split: if_splits option.splits)

lemma index_of_Some: "index_of x ys = Some i \<Longrightarrow> i < length ys \<and> ys ! i = x"
  by (induction ys arbitrary: i) (auto split: if_splits)

lemma apply_filter_length:
  assumes "1 \<le> cap" "apply_optional_row_filter cols rws rf cap = Inr out"
  shows "int (length out) \<le> cap"
proof (cases rf)
  case None
  with assms show ?thesis by (auto simp: apply_optional_row_filter_def)
next
  case (Some p)
  obtain c v where p: "p = (c, v)" by (cases p)
  with Some assms apply_filter_spec [of cap cols rws c v out] show ?thesis
    by (auto split: option.splits)
qed

text \<open>The rows of a result obey a filter.\<close>

definition obeys_filter :: "(string \<times> string) option \<Rightarrow> column list \<Rightarrow> row list \<Rightarrow> bool" where
  "obeys_filter rf cols rws \<longleftrightarrow>
     (case rf of None \<Rightarrow> True
      | Some (c, v) \<Rightarrow>
          (case index_of (strip c) (map fst cols) of
             None \<Rightarrow> rws = []
           | Some idx \<Rightarrow> \<forall>r \<in> set rws. row_matches idx v r))"

lemma apply_filter_obeys:
  assumes "1 \<le> cap" "apply_optional_row_filter cols rws rf cap = Inr out"
  shows "obeys_filter rf cols out"
proof (cases rf)
  case (Some p)
  obtain c v where p: "p = (c, v)" by (cases p)
  with Some assms apply_filter_spec [of cap cols rws c v out] show ?thesis
    by (auto simp: obeys_filter_def split: option.splits dest!: in_set_takeD)
qed (simp add: obeys_filter_def)

lemma execute_trino_ok:
  assumes "execute_trino env q cap b rf = Inr r" "1 \<le> cap"
  shows "obeys_filter rf (columns r) (rows r) \<and> int (length (rows r)) \<le> cap \<and>
     row_count r = int (length (rows r)) \<and> elapsed_us env \<le> b * 1000 \<and>
     (\<exists>cs rs m. trino_run env q cap b = Inr (cs, rs, m))"
  using assms apply_filter_obeys [OF assms(2)] apply_filter_length [OF assms(2)]
  by (auto simp: execute_trino_def result_of_def rbind_eq_Inr_iff
      split: sum.splits exn.splits if_splits)

lemma execute_duckdb_ok:
  assumes "execute_duckdb env q cap b rf ws root = Inr r" "1 \<le> cap"
  shows "obeys_filter rf (columns r) (rows r) \<and> int (length (rows r)) \<le> cap \<and>
     row_count r = int (length (rows r)) \<and> elapsed_us env \<le> b * 1000 \<and>
     (\<exists>setup ds rs. prepare_published_gold_views env ws root = Inr setup \<and>
        duck_run env setup q = Inr (ds, rs))"
proof -
  obtain stmts where p: "prepare_published_gold_views env ws root = Inr stmts"
    using assms(1) by (auto simp: execute_duckdb_def rbind_eq_Inr_iff)
  obtain ds rs where d: "duck_run env stmts q = Inr (ds, rs)"
    using assms(1) p by (cases "duck_run env stmts q") (auto simp: execute_duckdb_def)
  have "elapsed_us env \<le> b * 1000"
    using assms(1) p d by (auto simp: execute_duckdb_def split: if_split_asm)
  note s = p d this
  show ?thesis
  proof (cases rf)
    case None
    with s assms show ?thesis
      by (auto simp: execute_duckdb_def result_of_def obeys_filter_def)
  next
    case (Some p)
    with s assms(1) obtain out where
      o: "apply_optional_row_filter (describe ds) rs rf cap = Inr out"
        "r = result_of (describe ds) [] out"
      by (auto simp: execute_duckdb_def Let_def rbind_eq_Inr_iff)
    with s apply_filter_obeys [OF assms(2) o(1)] apply_filter_length [OF assms(2) o(1)]
    show ?thesis by (simp add: result_of_def)
  qed
qed

lemma execute_sql_obeys:
  assumes "execute_sql env sql max_rows rf timeout_ms ws root engine = Inr r"
  shows "obeys_filter rf (columns r) (rows r) \<and> int (length (rows r)) \<le> 5000"
proof -
  have cap: "1 \<le> normalized_max_rows max_rows" "normalized_max_rows max_rows \<le> 5000"
    using normalized_max_rows_bounds by auto
  obtain q where "(if engine = ''trino''
       then execute_trino env q (normalized_max_rows max_rows) (budget_ms timeout_ms) rf
       else execute_duckdb env q (normalized_max_rows max_rows) (budget_ms timeout_ms) rf ws root)
       = Inr r"
    using assms by (auto simp: execute_sql_def rbind_eq_Inr_iff Let_def split: if_splits)
  then show ?thesis
    using execute_trino_ok [OF _ cap(1)] execute_duckdb_ok [OF _ cap(1)] cap(2)
    by (cases "engine = ''trino''") force+
qed

section \<open>Quoting\<close>

text \<open>A SQL reader of a single-quoted literal: its value and the text after the closing quote.\<close>

fun read_literal :: "string \<Rightarrow> (string \<times> string) option" where
  "read_literal [] = None"
| "read_literal (c # s) =
     (if c = quote
      then (case s of
              d # s' \<Rightarrow> if d = quote then map_option (\<lambda>(v, r). (quote # v, r)) (read_literal s')
                       else Some ([], s)
            | [] \<Rightarrow> Some ([], []))
      else map_option (\<lambda>(v, r). (c # v, r)) (read_literal s))"

lemma sql_escape_simps [simp]:
  "sql_escape [] = []"
  "sql_escape (c # s) = (if c = quote then [quote, quote] else [c]) @ sql_escape s"
  by (simp_all add: sql_escape_def)

lemma read_literal_escape:
  "rest = [] \<or> hd rest \<noteq> quote \<Longrightarrow> read_literal (sql_escape s @ quote # rest) = Some (s, rest)"
  by (induction s) (auto split: list.splits)

lemma safe_identifier_is_ident: "is_ident (safe_identifier v)"
proof (cases v)
  case Nil
  then show ?thesis
    by (simp add: safe_identifier_def ident_start_def ident_char_def is_alpha_def code_def)
next
  case (Cons c s)
  then show ?thesis
    by (auto simp: safe_identifier_def Let_def list_all_iff ident_start_def ident_char_def)
qed

section \<open>Properties\<close>


definition read_text_query :: string where
  "read_text_query = ''select * from read_text('' @ [quote] @ ''/etc/passwd'' @ [quote] @ '')''"

text \<open>
  The deny list is not complete: DuckDB's \<open>read_text\<close> table function, which reads any file
  of the server, is no denied keyword, so a query that calls it is accepted unchanged.
\<close>

theorem guard_admits_file_read:
  "validate_read_only_query read_text_query = Inr read_text_query"
  by code_simp

text \<open>
  C25. What a caller gets: a successful execution returns at most 5000 rows and at most
  \<open>max(max_rows, 1)\<close>, the row count is the number of rows, every row carries the filter
  value in the filter column (no rows at all when the result has no such column), the
  engine ran within the time budget, and the executed text is the guarded one.
\<close>

theorem execute_sql_result:
  assumes "execute_sql env sql max_rows rf timeout_ms ws root engine = Inr r"
  shows "int (length (rows r)) \<le> min 5000 (max 1 max_rows) \<and>
    row_count r = int (length (rows r)) \<and>
    obeys_filter rf (columns r) (rows r) \<and>
    elapsed_us env \<le> budget_ms timeout_ms * 1000 \<and>
    (\<exists>q. validate_read_only_query (if sql = [] then ''select 1 as one'' else sql) = Inr q \<and>
         ((engine = ''trino'' \<and>
            (\<exists>cs rs m. trino_run env q (normalized_max_rows max_rows) (budget_ms timeout_ms)
                = Inr (cs, rs, m))) \<or>
          (engine \<noteq> ''trino'' \<and>
            (\<exists>setup ds rs. prepare_published_gold_views env ws root = Inr setup \<and>
               duck_run env setup q = Inr (ds, rs)))))"
proof -
  have cap: "1 \<le> normalized_max_rows max_rows"
    "normalized_max_rows max_rows \<le> min 5000 (max 1 max_rows)"
    by (auto simp: normalized_max_rows_def)
  obtain q where q: "validate_read_only_query (if sql = [] then ''select 1 as one'' else sql) = Inr q"
    and r: "(if engine = ''trino''
       then execute_trino env q (normalized_max_rows max_rows) (budget_ms timeout_ms) rf
       else execute_duckdb env q (normalized_max_rows max_rows) (budget_ms timeout_ms) rf ws root)
       = Inr r"
    using assms by (auto simp: execute_sql_def rbind_eq_Inr_iff Let_def split: if_splits)
  show ?thesis
  proof (cases "engine = ''trino''")
    case True
    with r q execute_trino_ok [OF _ cap(1)] cap(2) show ?thesis by force
  next
    case False
    with r q execute_duckdb_ok [OF _ cap(1)] cap(2) show ?thesis by force
  qed
qed

definition demo_env :: exec_env where
  "demo_env =
     \<lparr>duck_run = (\<lambda>_ _. Inr ([(''region'', None)], [[PStr ''eu''], [PStr ''us''], [PStr ''eu'']])),
      trino_run = (\<lambda>_ _ _. Inl TimeoutError), elapsed_us = 10, path_exists = (\<lambda>_. False),
      gold_files = gold_store_empty\<rparr>"

lemma demo_execute:
  "execute_sql demo_env ''select region from t'' 10 (Some (''region'', ''eu'')) 5000 None ''x'' ''duckdb''
     = Inr (result_of [(''region'', ''unknown'')] [] [[PStr ''eu''], [PStr ''eu'']])"
  by code_simp

theorem execute_sql_result_witness:
  "obeys_filter (Some (''region'', ''eu'')) [(''region'', ''unknown'')] [[PStr ''eu''], [PStr ''eu'']]"
  using execute_sql_result [OF demo_execute] by (simp add: result_of_def)

text \<open>
  The filter loop is the specification: with a positive cap it returns the first \<open>cap\<close> rows
  that carry the filter value in that column, in order; stopping early loses none of them.
\<close>

theorem filter_loop_is_take_filter:
  assumes "0 < cap"
  shows "filter_loop idx val cap [] rs = take cap (filter (row_matches idx val) rs)"
  using filter_loop_spec [of "[]" cap idx val rs] assms by simp

theorem filter_loop_is_take_filter_witness:
  "filter_loop 0 ''a'' 1 [] [[PStr ''b''], [], [PStr ''a''], [PStr ''a'']] =
     take 1 (filter (row_matches 0 ''a'') [[PStr ''b''], [], [PStr ''a''], [PStr ''a'']])"
  by (rule filter_loop_is_take_filter) simp

text \<open>
  No injection through the view statements: whatever characters the snapshot path
  contains, a SQL reader takes the literal of the metrics view to be exactly that path and
  sees nothing but the closing bracket after it, and the model view names an identifier.
\<close>

theorem view_statements_injection_free:
  "\<exists>prefix. metrics_view path = prefix @ [quote] @ sql_escape path @ [quote] @ '')'' \<and>
     quote \<notin> set prefix \<and>
     read_literal (sql_escape path @ [quote] @ '')'') = Some (path, '')'') \<and>
     is_ident (safe_identifier model)"
  using read_literal_escape [of "'')''" path] safe_identifier_is_ident
  by (intro exI [of _ "''create or replace view gold.fact_metrics as select * from read_json_auto(''"])
     (simp add: metrics_view_def quote_def)

end
