(* ===== verification/Tables.thy ===== *)
theory Tables
  imports Py
begin

text \<open>
  The metadata database (\<open>backend/shared_domain/metadata_models.py\<close>, \<open>audit_models.py\<close>):
  one record per mapped class, a table as the list of its rows in insertion order, and the
  session operations the repositories use: \<open>session.get\<close> by primary key, \<open>session.add\<close> with
  the integrity error a duplicate key raises at \<open>flush\<close>, and the update of a loaded row. The
  contract of a table is the locale \<open>row_store\<close>. JSON columns are kept as values; the text
  columns that hold JSON are \<open>json_text\<close>.
\<close>

section \<open>Rows\<close>

record workspace =
  ws_id :: string
  ws_name :: string
  ws_profile :: string
  ws_security_baseline :: string

record catalog_source =
  src_id :: string
  src_workspace :: string
  src_type :: string
  src_scope :: pydict
  src_credentials :: "string option"
  src_status :: string
  src_display_name :: string

record catalog_dataset =
  ds_id :: string
  ds_workspace :: string
  ds_source :: string
  ds_logical_name :: string
  ds_locator :: string
  ds_schema_version :: int
  ds_summary :: pyval

record run_record =
  run_id :: string
  run_workspace :: string
  run_type :: string
  run_status :: string
  run_input_refs :: pydict
  run_output_refs :: pydict

record run_step =
  st_id :: string
  st_run :: string
  st_workspace :: string
  st_run_type :: string
  st_key :: string
  st_order :: int
  st_depends_on :: "string list"
  st_status :: string
  st_started :: "int option"
  st_finished :: "int option"
  st_duration_ms :: "int option"
  st_attempts :: int
  st_error :: "string option"
  st_evidence :: "string option"
  st_details :: pydict

record review_proposal =
  pr_id :: string
  pr_workspace :: string
  pr_type :: string
  pr_evidence_uri :: string
  pr_confidence :: pyval
  pr_status :: string

record review_task =
  tk_id :: string
  tk_workspace :: string
  tk_priority :: string
  tk_subject :: string
  tk_status :: string
  tk_blocking :: bool

record review_approval =
  ap_id :: string
  ap_task :: string
  ap_actor :: string
  ap_decision :: string
  ap_reason :: string
  ap_changes_ref :: string
  ap_audit_event :: string

record governance_policy =
  gp_id :: string
  gp_workspace :: string
  gp_type :: string
  gp_definition :: json_text
  gp_status :: string

record retention_policy =
  rp_id :: string
  rp_workspace :: string
  rp_days :: int
  rp_enabled :: bool
  rp_purge_enabled :: bool
  rp_legal_hold :: bool
  rp_created_by :: string
  rp_status :: string

record purge_run =
  pg_id :: string
  pg_workspace :: string
  pg_policy :: string
  pg_dry_run :: bool
  pg_status :: string
  pg_deleted_count :: int
  pg_deleted_paths :: "string list"
  pg_evidence_uri :: string

record deletion_request =
  dr_id :: string
  dr_workspace :: string
  dr_requester :: string
  dr_status :: string
  dr_selector :: pydict
  dr_snapshots :: "string list"
  dr_indexes :: "string list"
  dr_legal_hold :: bool
  dr_approval_reason :: "string option"
  dr_evidence_uri :: "string option"

record deletion_approval =
  da_id :: string
  da_request :: string
  da_workspace :: string
  da_approver :: string
  da_decision :: string
  da_reason :: string

record audit_event =
  ae_id :: string
  ae_workspace :: "string option"
  ae_actor :: string
  ae_type :: string
  ae_json :: pydict
  ae_correlation :: string

record access_decision_row =
  ad_id :: string
  ad_workspace :: string
  ad_actor :: string
  ad_request_context :: pydict
  ad_resources :: pydict
  ad_row_result :: string
  ad_filters :: pydict
  ad_masks :: pydict
  ad_audit_event :: string

record outbox_event =
  ob_id :: string
  ob_service :: string
  ob_workspace :: "string option"
  ob_audit_event :: string
  ob_payload :: pydict
  ob_status :: string
  ob_attempts :: int
  ob_last_error :: "string option"

record db =
  workspaces :: "workspace list"
  sources :: "catalog_source list"
  datasets :: "catalog_dataset list"
  runs :: "run_record list"
  run_steps :: "run_step list"
  proposals :: "review_proposal list"
  tasks :: "review_task list"
  approvals :: "review_approval list"
  policies :: "governance_policy list"
  retention_policies :: "retention_policy list"
  purge_runs :: "purge_run list"
  deletion_requests :: "deletion_request list"
  deletion_approvals :: "deletion_approval list"
  audit_events :: "audit_event list"
  access_decisions :: "access_decision_row list"
  outbox :: "outbox_event list"

definition empty_db :: db where
  "empty_db = \<lparr>workspaces = [], sources = [], datasets = [], runs = [], run_steps = [],
     proposals = [], tasks = [], approvals = [], policies = [], retention_policies = [],
     purge_runs = [], deletion_requests = [], deletion_approvals = [], audit_events = [],
     access_decisions = [], outbox = []\<rparr>"

section \<open>Table operations\<close>

definition tbl_get :: "('r \<Rightarrow> string) \<Rightarrow> string \<Rightarrow> 'r list \<Rightarrow> 'r option" where
  "tbl_get key k t = find (\<lambda>r. key r = k) t"

definition tbl_add :: "('r \<Rightarrow> string) \<Rightarrow> 'r \<Rightarrow> 'r list \<Rightarrow> 'r list res" where
  "tbl_add key r t =
     (if key r \<in> set (map key t) then Inl (IntegrityError (key r)) else Inr (t @ [r]))"

definition tbl_put :: "('r \<Rightarrow> string) \<Rightarrow> 'r \<Rightarrow> 'r list \<Rightarrow> 'r list" where
  "tbl_put key r t = map (\<lambda>x. if key x = key r then r else x) t"

text \<open>\<open>session.execute(select(...).where(p)).scalars().first()\<close>\<close>

definition tbl_first :: "('r \<Rightarrow> bool) \<Rightarrow> 'r list \<Rightarrow> 'r option" where
  "tbl_first p t = find p t"

definition keys_distinct :: "('r \<Rightarrow> string) \<Rightarrow> 'r list \<Rightarrow> bool" where
  "keys_distinct key t \<longleftrightarrow> distinct (map key t)"

lemma find_append: "find p (xs @ ys) = (case find p xs of None \<Rightarrow> find p ys | Some x \<Rightarrow> Some x)"
  by (induction xs) auto

lemma tbl_get_SomeD: "tbl_get key k t = Some r \<Longrightarrow> r \<in> set t \<and> key r = k"
  by (auto simp: tbl_get_def find_Some_iff)

lemma tbl_first_SomeD: "tbl_first p t = Some r \<Longrightarrow> r \<in> set t \<and> p r"
  by (auto simp: tbl_first_def find_Some_iff)

lemma tbl_first_None: "tbl_first p t = None \<longleftrightarrow> (\<forall>r \<in> set t. \<not> p r)"
  by (auto simp: tbl_first_def find_None_iff)

lemma tbl_get_None: "tbl_get key k t = None \<longleftrightarrow> k \<notin> key ` set t"
  by (auto simp: tbl_get_def find_None_iff)

lemma tbl_get_Nil [simp]: "tbl_get key k [] = None"
  by (simp add: tbl_get_def)

lemma tbl_first_Nil [simp]: "tbl_first p [] = None"
  by (simp add: tbl_first_def)

lemma tbl_add_Inr_iff: "tbl_add key r t = Inr t' \<longleftrightarrow> key r \<notin> key ` set t \<and> t' = t @ [r]"
  by (auto simp: tbl_add_def)

lemma tbl_get_append:
  "tbl_get key k (t @ [r]) =
     (case tbl_get key k t of None \<Rightarrow> if key r = k then Some r else None | Some x \<Rightarrow> Some x)"
  by (simp add: tbl_get_def find_append split: option.split)

lemma tbl_get_put:
  "tbl_get key k (tbl_put key r t) =
     (if k = key r then (if k \<in> key ` set t then Some r else None) else tbl_get key k t)"
  by (induction t) (auto simp: tbl_get_def tbl_put_def)

lemma map_key_put [simp]: "map key (tbl_put key r t) = map key t"
  by (auto simp: tbl_put_def)

lemma set_tbl_put_subset: "set (tbl_put key r t) \<subseteq> insert r (set t)"
  by (auto simp: tbl_put_def)

lemma length_tbl_put [simp]: "length (tbl_put key r t) = length t"
  by (simp add: tbl_put_def)

lemma tbl_get_distinct:
  "keys_distinct key t \<Longrightarrow> r \<in> set t \<Longrightarrow> tbl_get key (key r) t = Some r"
  by (induction t) (auto simp: tbl_get_def keys_distinct_def)

text \<open>
  The contract of a table: a stored row is found under its key, adding a row with a fresh key
  succeeds and touches no other key, adding a taken key is refused, and updating a row
  replaces exactly the row of its key.
\<close>

locale row_store =
  fixes key :: "'r \<Rightarrow> string"
    and get :: "string \<Rightarrow> 't \<Rightarrow> 'r option"
    and add :: "'r \<Rightarrow> 't \<Rightarrow> 't res"
    and put :: "'r \<Rightarrow> 't \<Rightarrow> 't"
    and wf :: "'t \<Rightarrow> bool"
  assumes get_key: "get k t = Some r \<Longrightarrow> key r = k"
    and add_get: "add r t = Inr t' \<Longrightarrow> get k t' = (if k = key r then Some r else get k t)"
    and add_refused: "(\<exists>e. add r t = Inl e) \<longleftrightarrow> get (key r) t \<noteq> None"
    and put_get: "get k (put r t) =
      (if k = key r \<and> get k t \<noteq> None then Some r else get k t)"
    and add_wf: "wf t \<Longrightarrow> add r t = Inr t' \<Longrightarrow> wf t'"
    and put_wf: "wf t \<Longrightarrow> wf (put r t)"
begin

lemma add_then_get: "add r t = Inr t' \<Longrightarrow> get (key r) t' = Some r"
  by (simp add: add_get)

lemma add_frame: "add r t = Inr t' \<Longrightarrow> k \<noteq> key r \<Longrightarrow> get k t' = get k t"
  by (simp add: add_get)

lemma put_then_get: "get (key r) t = Some x \<Longrightarrow> get (key r) (put r t) = Some r"
  by (simp add: put_get)

lemma put_frame: "k \<noteq> key r \<Longrightarrow> get k (put r t) = get k t"
  by (simp add: put_get)

lemma put_same_key:
  "get k t = Some x \<Longrightarrow> key r = key x \<Longrightarrow> get k (put r t) = Some r"
  using get_key [of k t x] by (simp add: put_get)

lemma add_twice: "add r t = Inr t' \<Longrightarrow> key r' = key r \<Longrightarrow> \<exists>e. add r' t' = Inl e"
  by (simp add: add_refused add_get)

end

interpretation tbl: row_store key "tbl_get key" "tbl_add key" "tbl_put key" "keys_distinct key"
  for key :: "'r \<Rightarrow> string"
proof (unfold_locales, goal_cases)
  case (1 k t r)
  then show ?case using tbl_get_SomeD by fastforce
next
  case (2 r t t' k)
  then have "tbl_get key (key r) t = None" "t' = t @ [r]"
    by (simp_all add: tbl_add_Inr_iff tbl_get_None)
  then show ?case by (auto simp: tbl_get_append split: option.split)
next
  case (3 r t)
  then show ?case by (auto simp: tbl_add_def tbl_get_None)
next
  case (4 k r t)
  show ?case
  proof (cases "key r \<in> key ` set t")
    case True
    with tbl_get_None [of key "key r" t] show ?thesis by (simp add: tbl_get_put)
  next
    case False
    with tbl_get_None [of key "key r" t] show ?thesis by (simp add: tbl_get_put)
  qed
next
  case (5 t r t')
  then show ?case by (auto simp: tbl_add_Inr_iff keys_distinct_def)
next
  case (6 t r)
  then show ?case by (simp add: keys_distinct_def)
qed

end
