(* ===== verification/SemanticManifest.thy ===== *)
theory SemanticManifest
  imports Py
begin

text \<open>
  Validation and normalisation of semantic manifests (\<open>backend/shared_domain/semantic.py\<close>).
  The normalised manifest, a dict with fixed keys in the source, is a record here, and
  \<open>manifest_py\<close> is that dict as a JSON value, which is what the control plane stores. The
  lemmas show the well-formedness of what is accepted and that normalisation is idempotent
  through the stored form.
\<close>

record sem_entity =
  en_id :: string
  en_dataset :: string
  en_primary_key :: string
  en_attributes :: "string list"

record sem_metric =
  me_id :: string
  me_entity :: string
  me_aggregation :: string
  me_field :: string
  me_expression :: string

record sem_join =
  jo_id :: string
  jo_left :: string
  jo_right :: string
  jo_left_key :: string
  jo_right_key :: string
  jo_type :: string

record manifest =
  mf_workspace :: string
  mf_entities :: "sem_entity list"
  mf_metrics :: "sem_metric list"
  mf_joins :: "sem_join list"

definition JOIN_TYPES :: "string list" where
  "JOIN_TYPES = [''inner'', ''left'', ''right'', ''full'']"

definition AGGREGATIONS :: "string list" where
  "AGGREGATIONS = [''sum'', ''count'', ''avg'', ''min'', ''max'']"

section \<open>Validation\<close>

definition normalized_id :: "pyval \<Rightarrow> string \<Rightarrow> string res" where
  "normalized_id v field =
     (let text = strip (if py_truth v then py_str v else [])
      in if text = [] then Inl (ValueError (''missing_'' @ field))
         else if \<not> ident_match text then Inl (ValueError (''invalid_'' @ field))
         else Inr text)"

fun entity_rows :: "string list \<Rightarrow> pyval list \<Rightarrow> sem_entity list res" where
  "entity_rows seen [] = Inr []"
| "entity_rows seen (PDict row # rest) =
     rbind (normalized_id (dget_or row ''entity_id'' PNone) ''entity_id'') (\<lambda>eid.
     if eid \<in> set seen then Inl (ValueError ''duplicate_entity_id'')
     else let ds = strip (str_of row ''dataset_id'' '''')
       in if ds = [] then Inl (ValueError ''missing_entity_dataset_id'')
          else rbind (normalized_id (dget_or row ''primary_key'' PNone) ''primary_key'') (\<lambda>pk.
            let attributes_raw = dget_or row ''attributes'' (PList [])
            in if \<not> is_list attributes_raw then Inl (ValueError ''invalid_entity_attributes'')
               else rbind (rmap (\<lambda>item. normalized_id item ''attribute'') (as_list attributes_raw))
                 (\<lambda>attrs. rbind (entity_rows (eid # seen) rest)
                   (\<lambda>es. Inr (\<lparr>en_id = eid, en_dataset = ds, en_primary_key = pk,
                               en_attributes = sorted_set attrs\<rparr> # es)))))"
| "entity_rows seen (_ # rest) = Inl (ValueError ''invalid_entity_row'')"

definition normalize_entities :: "pyval list \<Rightarrow> sem_entity list res" where
  "normalize_entities raw = rbind (entity_rows [] raw) (\<lambda>es. Inr (sort_key en_id es))"

fun metric_rows :: "string list \<Rightarrow> string list \<Rightarrow> pyval list \<Rightarrow> sem_metric list res" where
  "metric_rows ids seen [] = Inr []"
| "metric_rows ids seen (PDict row # rest) =
     rbind (normalized_id (dget_or row ''metric_id'' PNone) ''metric_id'') (\<lambda>mid.
     if mid \<in> set seen then Inl (ValueError ''duplicate_metric_id'')
     else rbind (normalized_id (dget_or row ''entity_id'' PNone) ''metric_entity_id'') (\<lambda>eid.
     if eid \<notin> set ids then Inl (ValueError ''metric_entity_not_found'')
     else let agg = lower (strip (str_of row ''aggregation'' ''''))
       in if agg \<notin> set AGGREGATIONS then Inl (ValueError ''invalid_metric_aggregation'')
          else rbind (normalized_id (dget_or row ''field'' PNone) ''metric_field'') (\<lambda>field.
            let expression0 = strip (str_of row ''expression'' '''');
                expression = (if expression0 = [] then agg @ ''('' @ field @ '')'' else expression0)
            in rbind (metric_rows ids (mid # seen) rest)
                 (\<lambda>ms. Inr (\<lparr>me_id = mid, me_entity = eid, me_aggregation = agg, me_field = field,
                             me_expression = expression\<rparr> # ms)))))"
| "metric_rows ids seen (_ # rest) = Inl (ValueError ''invalid_metric_row'')"

definition normalize_metrics :: "string list \<Rightarrow> pyval list \<Rightarrow> sem_metric list res" where
  "normalize_metrics ids raw = rbind (metric_rows ids [] raw) (\<lambda>ms. Inr (sort_key me_id ms))"

text \<open>The argument \<open>index\<close> is the position of the row in the list, from 0.\<close>

fun join_rows :: "string list \<Rightarrow> nat \<Rightarrow> string list \<Rightarrow> pyval list \<Rightarrow> sem_join list res" where
  "join_rows ids index seen [] = Inr []"
| "join_rows ids index seen (PDict row # rest) =
     (let join_id0 = strip (str_of row ''join_id'' '''');
          join_id1 = (if join_id0 = [] then ''join_'' @ int_str (int index + 1) else join_id0)
      in rbind (normalized_id (PStr join_id1) ''join_id'') (\<lambda>jid.
      if jid \<in> set seen then Inl (ValueError ''duplicate_join_id'')
      else rbind (normalized_id (dget_or row ''left_entity_id'' PNone) ''left_entity_id'') (\<lambda>l.
      rbind (normalized_id (dget_or row ''right_entity_id'' PNone) ''right_entity_id'') (\<lambda>r.
      if l \<notin> set ids \<or> r \<notin> set ids then Inl (ValueError ''join_entity_not_found'')
      else rbind (normalized_id (dget_or row ''left_key'' PNone) ''left_key'') (\<lambda>lk.
      rbind (normalized_id (dget_or row ''right_key'' PNone) ''right_key'') (\<lambda>rk.
      let join_type = lower (strip (str_of row ''join_type'' ''inner''))
      in if join_type \<notin> set JOIN_TYPES then Inl (ValueError ''invalid_join_type'')
         else rbind (join_rows ids (Suc index) (jid # seen) rest)
                (\<lambda>js. Inr (\<lparr>jo_id = jid, jo_left = l, jo_right = r, jo_left_key = lk,
                            jo_right_key = rk, jo_type = join_type\<rparr> # js))))))))"
| "join_rows ids index seen (_ # rest) = Inl (ValueError ''invalid_join_row'')"

definition normalize_joins :: "string list \<Rightarrow> pyval list \<Rightarrow> sem_join list res" where
  "normalize_joins ids raw = rbind (join_rows ids 0 [] raw) (\<lambda>js. Inr (sort_key jo_id js))"

definition validate_semantic_manifest :: "pydict \<Rightarrow> string option \<Rightarrow> manifest res" where
  "validate_semantic_manifest manifest expected_workspace_id =
     (let version = strip (str_of manifest ''manifest_version'' '''');
          workspace_id = strip (str_of manifest ''workspace_id'' '''');
          entities_raw = dget_or manifest ''entities'' (PList []);
          metrics_raw = dget_or manifest ''metrics'' (PList []);
          joins_raw = dget_or manifest ''joins'' (PList [])
      in if version \<noteq> ''1'' then Inl (ValueError ''invalid_manifest_version'')
         else if workspace_id = [] then Inl (ValueError ''missing_workspace_id'')
         else if expected_workspace_id \<noteq> None \<and> Some workspace_id \<noteq> expected_workspace_id
         then Inl (ValueError ''workspace_mismatch'')
         else if \<not> is_list entities_raw then Inl (ValueError ''invalid_entities'')
         else if \<not> is_list metrics_raw then Inl (ValueError ''invalid_metrics'')
         else if \<not> is_list joins_raw then Inl (ValueError ''invalid_joins'')
         else rbind (normalize_entities (as_list entities_raw)) (\<lambda>es.
              rbind (normalize_metrics (map en_id es) (as_list metrics_raw)) (\<lambda>ms.
              rbind (normalize_joins (map en_id es) (as_list joins_raw)) (\<lambda>js.
              Inr \<lparr>mf_workspace = workspace_id, mf_entities = es, mf_metrics = ms,
                   mf_joins = js\<rparr>))))"

section \<open>The normalised manifest as a dict\<close>

definition entity_py :: "sem_entity \<Rightarrow> pyval" where
  "entity_py e = PDict [(''entity_id'', PStr (en_id e)), (''dataset_id'', PStr (en_dataset e)),
     (''primary_key'', PStr (en_primary_key e)),
     (''attributes'', PList (map PStr (en_attributes e)))]"

definition metric_py :: "sem_metric \<Rightarrow> pyval" where
  "metric_py m = PDict [(''metric_id'', PStr (me_id m)), (''entity_id'', PStr (me_entity m)),
     (''aggregation'', PStr (me_aggregation m)), (''field'', PStr (me_field m)),
     (''expression'', PStr (me_expression m))]"

definition join_py :: "sem_join \<Rightarrow> pyval" where
  "join_py j = PDict [(''join_id'', PStr (jo_id j)), (''left_entity_id'', PStr (jo_left j)),
     (''right_entity_id'', PStr (jo_right j)), (''left_key'', PStr (jo_left_key j)),
     (''right_key'', PStr (jo_right_key j)), (''join_type'', PStr (jo_type j))]"

definition manifest_py :: "manifest \<Rightarrow> pydict" where
  "manifest_py m = [(''manifest_version'', PStr ''1''), (''workspace_id'', PStr (mf_workspace m)),
     (''entities'', PList (map entity_py (mf_entities m))),
     (''metrics'', PList (map metric_py (mf_metrics m))),
     (''joins'', PList (map join_py (mf_joins m)))]"

section \<open>Well-formedness of accepted manifests\<close>

definition id_ok :: "string \<Rightarrow> bool" where
  "id_ok s \<longleftrightarrow> is_ident s"

definition stripped :: "string \<Rightarrow> bool" where
  "stripped s \<longleftrightarrow> strip s = s"

definition entity_ok :: "sem_entity \<Rightarrow> bool" where
  "entity_ok e \<longleftrightarrow> is_ident (en_id e) \<and> en_dataset e \<noteq> [] \<and> stripped (en_dataset e) \<and>
     is_ident (en_primary_key e) \<and> list_all is_ident (en_attributes e) \<and>
     sorted (en_attributes e) \<and> distinct (en_attributes e)"

definition metric_ok :: "string list \<Rightarrow> sem_metric \<Rightarrow> bool" where
  "metric_ok ids m \<longleftrightarrow> is_ident (me_id m) \<and> is_ident (me_entity m) \<and> me_entity m \<in> set ids \<and>
     me_aggregation m \<in> set AGGREGATIONS \<and> is_ident (me_field m) \<and> me_expression m \<noteq> [] \<and>
     stripped (me_expression m)"

definition join_ok :: "string list \<Rightarrow> sem_join \<Rightarrow> bool" where
  "join_ok ids j \<longleftrightarrow> is_ident (jo_id j) \<and> is_ident (jo_left j) \<and> is_ident (jo_right j) \<and>
     jo_left j \<in> set ids \<and> jo_right j \<in> set ids \<and> is_ident (jo_left_key j) \<and>
     is_ident (jo_right_key j) \<and> jo_type j \<in> set JOIN_TYPES"

definition manifest_ok :: "manifest \<Rightarrow> bool" where
  "manifest_ok m \<longleftrightarrow> mf_workspace m \<noteq> [] \<and> stripped (mf_workspace m) \<and>
     list_all entity_ok (mf_entities m) \<and> sorted (map en_id (mf_entities m)) \<and>
     distinct (map en_id (mf_entities m)) \<and>
     list_all (metric_ok (map en_id (mf_entities m))) (mf_metrics m) \<and>
     sorted (map me_id (mf_metrics m)) \<and> distinct (map me_id (mf_metrics m)) \<and>
     list_all (join_ok (map en_id (mf_entities m))) (mf_joins m) \<and>
     sorted (map jo_id (mf_joins m)) \<and> distinct (map jo_id (mf_joins m))"

lemma stripped_strip [simp]: "stripped (strip s)"
  by (simp add: stripped_def)

lemma ident_char_not_space: "ident_char c \<Longrightarrow> \<not> is_space c"
proof (cases "c = CHR ''_''")
  case True
  then show ?thesis by (simp add: is_space_def code_def)
next
  case False
  assume "ident_char c"
  with False show ?thesis
    by (auto simp: ident_char_def is_alpha_def is_digit_def is_space_def Let_def)
qed

lemma ident_start_ident_char: "ident_start c \<Longrightarrow> ident_char c"
  by (auto simp: ident_start_def ident_char_def)

lemma is_ident_chars: "is_ident s \<Longrightarrow> c \<in> set s \<Longrightarrow> ident_char c"
  by (cases s) (auto simp: list_all_iff ident_start_ident_char)

lemma is_ident_strip: "is_ident s \<Longrightarrow> strip s = s"
  by (intro strip_id) (metis hd_in_set last_in_set ident_char_not_space is_ident_chars)

lemma is_ident_nonempty: "is_ident s \<Longrightarrow> s \<noteq> []"
  by (cases s) auto

text \<open>On stripped text the match and the language agree: there is no newline left at the end.\<close>

lemma ident_match_strip: "ident_match (strip s) \<longleftrightarrow> is_ident (strip s)"
proof -
  have "code (last (strip s)) \<noteq> 10" if "strip s \<noteq> []"
    using strip_ends [OF that] by (auto simp: is_space_def Let_def)
  then show ?thesis by (auto simp: ident_match_def)
qed

lemma normalized_id_Inr: "normalized_id v f = Inr t \<Longrightarrow> is_ident t"
  by (auto simp: normalized_id_def Let_def ident_match_strip split: if_splits)

lemma normalized_id_ident [simp]: "is_ident s \<Longrightarrow> normalized_id (PStr s) f = Inr s"
  by (auto simp: normalized_id_def Let_def is_ident_strip ident_match_def is_ident_nonempty)

subsection \<open>The three loops\<close>

lemma not_not_in: "x \<in> A \<Longrightarrow> \<not> x \<notin> A"
  by simp

lemma entity_rows_ok:
  "entity_rows seen raw = Inr es \<Longrightarrow>
     list_all entity_ok es \<and> distinct (map en_id es) \<and> set (map en_id es) \<inter> set seen = {}"
proof (induction seen raw arbitrary: es rule: entity_rows.induct)
  case (2 seen row rest)
  from "2.prems" obtain eid pk attrs es' where
    *: "normalized_id (dget_or row ''entity_id'' PNone) ''entity_id'' = Inr eid" "eid \<notin> set seen"
      "strip (str_of row ''dataset_id'' '''') \<noteq> []"
      "normalized_id (dget_or row ''primary_key'' PNone) ''primary_key'' = Inr pk"
      "is_list (dget_or row ''attributes'' (PList []))"
      "rmap (\<lambda>item. normalized_id item ''attribute'')
         (as_list (dget_or row ''attributes'' (PList []))) = Inr attrs"
      "entity_rows (eid # seen) rest = Inr es'"
    and es: "es = \<lparr>en_id = eid, en_dataset = strip (str_of row ''dataset_id'' ''''),
        en_primary_key = pk, en_attributes = sorted_set attrs\<rparr> # es'"
    by (auto simp: rbind_eq_Inr_iff Let_def split: if_split_asm)
  have attrs: "\<forall>a \<in> set attrs. is_ident a"
    using rmap_Inr_set [OF *(6)] normalized_id_Inr by blast
  have "list_all entity_ok es' \<and> distinct (map en_id es') \<and>
      set (map en_id es') \<inter> set (eid # seen) = {}"
    by (rule "2.IH" [OF *(2) refl *(3) refl _ *(7)]) (simp add: *(5))
  with * attrs show ?case
    by (auto simp: es entity_ok_def list_all_iff normalized_id_Inr)
qed auto

lemma metric_rows_ok:
  "metric_rows ids seen raw = Inr ms \<Longrightarrow>
     list_all (metric_ok ids) ms \<and> distinct (map me_id ms) \<and> set (map me_id ms) \<inter> set seen = {}"
proof (induction ids seen raw arbitrary: ms rule: metric_rows.induct)
  case (2 ids seen row rest)
  let ?agg = "lower (strip (str_of row ''aggregation'' ''''))"
  let ?ex = "strip (str_of row ''expression'' '''')"
  from "2.prems" obtain mid eid field ms' where
    *: "normalized_id (dget_or row ''metric_id'' PNone) ''metric_id'' = Inr mid" "mid \<notin> set seen"
      "normalized_id (dget_or row ''entity_id'' PNone) ''metric_entity_id'' = Inr eid"
      "eid \<in> set ids" "?agg \<in> set AGGREGATIONS"
      "normalized_id (dget_or row ''field'' PNone) ''metric_field'' = Inr field"
      "metric_rows ids (mid # seen) rest = Inr ms'"
    and ms: "ms = \<lparr>me_id = mid, me_entity = eid, me_aggregation = ?agg, me_field = field,
        me_expression = (if ?ex = [] then ?agg @ ''('' @ field @ '')'' else ?ex)\<rparr> # ms'"
    by (auto simp: rbind_eq_Inr_iff Let_def split: if_split_asm)
  have agg: "?agg \<noteq> []" "\<not> is_space (hd ?agg)"
    using *(5) by (auto simp: AGGREGATIONS_def is_space_def code_def)
  have "\<not> is_space (CHR '')'')" by (simp add: is_space_def code_def)
  with agg have "stripped (?agg @ ''('' @ field @ '')'')"
    by (simp add: stripped_def strip_id)
  moreover have "list_all (metric_ok ids) ms' \<and> distinct (map me_id ms') \<and>
      set (map me_id ms') \<inter> set (mid # seen) = {}"
    by (rule "2.IH" [OF *(2) not_not_in [OF *(4)] refl not_not_in [OF *(5)] refl refl *(7)])
  ultimately show ?case
    using *
    by (auto simp: ms metric_ok_def [of _ "sem_metric.make _ _ _ _ _", unfolded sem_metric.defs]
        normalized_id_Inr)
qed auto

lemma join_rows_ok:
  "join_rows ids i seen raw = Inr js \<Longrightarrow>
     list_all (join_ok ids) js \<and> distinct (map jo_id js) \<and> set (map jo_id js) \<inter> set seen = {}"
proof (induction ids i seen raw arbitrary: js rule: join_rows.induct)
  case (2 ids i seen row rest)
  let ?j0 = "strip (str_of row ''join_id'' '''')"
  let ?j1 = "if ?j0 = [] then ''join_'' @ int_str (int i + 1) else ?j0"
  let ?jt = "lower (strip (str_of row ''join_type'' ''inner''))"
  from "2.prems" obtain jid l r lk rk js' where
    *: "normalized_id (PStr ?j1) ''join_id'' = Inr jid" "jid \<notin> set seen"
      "normalized_id (dget_or row ''left_entity_id'' PNone) ''left_entity_id'' = Inr l"
      "normalized_id (dget_or row ''right_entity_id'' PNone) ''right_entity_id'' = Inr r"
      "l \<in> set ids" "r \<in> set ids"
      "normalized_id (dget_or row ''left_key'' PNone) ''left_key'' = Inr lk"
      "normalized_id (dget_or row ''right_key'' PNone) ''right_key'' = Inr rk"
      "?jt \<in> set JOIN_TYPES" "join_rows ids (Suc i) (jid # seen) rest = Inr js'"
    and js: "js = \<lparr>jo_id = jid, jo_left = l, jo_right = r, jo_left_key = lk, jo_right_key = rk,
        jo_type = ?jt\<rparr> # js'"
    by (auto simp: rbind_eq_Inr_iff Let_def split: if_split_asm)
  have known: "\<not> (l \<notin> set ids \<or> r \<notin> set ids)" using *(5,6) by blast
  have "list_all (join_ok ids) js' \<and> distinct (map jo_id js') \<and>
      set (map jo_id js') \<inter> set (jid # seen) = {}"
    by (rule "2.IH" [OF refl refl *(2) known refl not_not_in [OF *(9)] *(10)])
  with * show ?case
    by (auto simp: js join_ok_def [of _ "sem_join.make _ _ _ _ _ _", unfolded sem_join.defs]
        normalized_id_Inr)
qed auto

lemma list_all_sort_key [simp]: "list_all P (sort_key f xs) = list_all P xs"
  by (simp add: list_all_iff)

lemma distinct_map_sort_key [simp]: "distinct (map f (sort_key g xs)) = distinct (map f xs)"
  by (simp add: distinct_map)

lemma validate_ok:
  assumes "validate_semantic_manifest d ws = Inr m"
  shows "manifest_ok m \<and> (ws \<noteq> None \<longrightarrow> ws = Some (mf_workspace m))"
proof -
  obtain es ms js where
    r: "entity_rows [] (as_list (dget_or d ''entities'' (PList []))) = Inr es"
      "metric_rows (map en_id (sort_key en_id es)) [] (as_list (dget_or d ''metrics'' (PList []))) = Inr ms"
      "join_rows (map en_id (sort_key en_id es)) 0 [] (as_list (dget_or d ''joins'' (PList []))) = Inr js"
    and m: "m = \<lparr>mf_workspace = strip (str_of d ''workspace_id'' ''''),
         mf_entities = sort_key en_id es, mf_metrics = sort_key me_id ms,
         mf_joins = sort_key jo_id js\<rparr>"
    and w: "strip (str_of d ''workspace_id'' '''') \<noteq> []"
      "ws \<noteq> None \<longrightarrow> Some (strip (str_of d ''workspace_id'' '''')) = ws"
    using assms
    by (auto simp: validate_semantic_manifest_def Let_def rbind_eq_Inr_iff normalize_entities_def
        normalize_metrics_def normalize_joins_def split: if_split_asm)
  show ?thesis
    using entity_rows_ok [OF r(1)] metric_rows_ok [OF r(2)] join_rows_ok [OF r(3)] w
    by (auto simp: m manifest_ok_def)
qed

section \<open>Normalisation of a stored manifest\<close>

lemma sorted_distinct_sorted_set: "sorted xs \<Longrightarrow> distinct xs \<Longrightarrow> sorted_set xs = xs"
  by (simp add: sorted_set_def distinct_remdups_id sorted_sort_id)

lemma rmap_idents:
  "list_all is_ident xs \<Longrightarrow> rmap (\<lambda>item. normalized_id item f) (map PStr xs) = Inr xs"
  by (induction xs) auto

lemma entity_rows_py:
  "list_all entity_ok es \<Longrightarrow> distinct (map en_id es) \<Longrightarrow> set (map en_id es) \<inter> set seen = {} \<Longrightarrow>
     entity_rows seen (map entity_py es) = Inr es"
proof (induction es arbitrary: seen)
  case (Cons e es)
  then have "entity_rows (en_id e # seen) (map entity_py es) = Inr es" by auto
  with Cons.prems show ?case
    by (simp add: entity_py_def [of e] entity_ok_def [of e] dget_or_def Let_def stripped_def
        rmap_idents sorted_distinct_sorted_set)
qed simp

lemma AGGREGATIONS_normal: "a \<in> set AGGREGATIONS \<Longrightarrow> lower (strip a) = a"
  by (auto simp: AGGREGATIONS_def) code_simp+

lemma JOIN_TYPES_normal: "a \<in> set JOIN_TYPES \<Longrightarrow> lower (strip a) = a"
  by (auto simp: JOIN_TYPES_def) code_simp+

lemma metric_rows_py:
  "list_all (metric_ok ids) ms \<Longrightarrow> distinct (map me_id ms) \<Longrightarrow> set (map me_id ms) \<inter> set seen = {} \<Longrightarrow>
     metric_rows ids seen (map metric_py ms) = Inr ms"
proof (induction ms arbitrary: seen)
  case (Cons m ms)
  then have "metric_rows ids (me_id m # seen) (map metric_py ms) = Inr ms" by auto
  with Cons.prems show ?case
    by (simp add: metric_py_def [of m] metric_ok_def [of _ m] dget_or_def Let_def stripped_def
        AGGREGATIONS_normal)
qed simp

lemma join_rows_py:
  "list_all (join_ok ids) js \<Longrightarrow> distinct (map jo_id js) \<Longrightarrow> set (map jo_id js) \<inter> set seen = {} \<Longrightarrow>
     join_rows ids i seen (map join_py js) = Inr js"
proof (induction js arbitrary: seen i)
  case (Cons j js)
  then have "join_rows ids (Suc i) (jo_id j # seen) (map join_py js) = Inr js" by auto
  with Cons.prems show ?case
    by (simp add: join_py_def [of j] join_ok_def [of _ j] dget_or_def Let_def is_ident_strip
        is_ident_nonempty JOIN_TYPES_normal)
qed simp

lemma validate_manifest_py:
  assumes "manifest_ok m" "ws = None \<or> ws = Some (mf_workspace m)"
  shows "validate_semantic_manifest (manifest_py m) ws = Inr m"
proof -
  have "strip ''1'' = ''1''" by code_simp
  with assms show ?thesis
    by (auto simp: validate_semantic_manifest_def manifest_py_def manifest_ok_def Let_def
        dget_or_def stripped_def normalize_entities_def normalize_metrics_def normalize_joins_def
        entity_rows_py metric_rows_py join_rows_py sorted_sort_id sort_key_id_if_sorted)
qed

section \<open>Properties\<close>

text \<open>
  C20. Accepted manifests are well-formed: the workspace is the expected one; entity, metric and
  join ids are identifiers, unique and sorted; every metric and every join refers to entities
  of the manifest; aggregations and join types are from the closed lists; attributes are
  sorted, unique identifiers.
\<close>

theorem validated_manifest_well_formed:
  assumes "validate_semantic_manifest d (Some ws) = Inr m"
  shows "manifest_ok m \<and> mf_workspace m = ws"
  using validate_ok [OF assms] by auto

definition demo_manifest :: pydict where
  "demo_manifest = [(''manifest_version'', PStr ''1''), (''workspace_id'', PStr ''w''),
     (''entities'', PList [PDict [(''entity_id'', PStr ''orders''), (''dataset_id'', PStr ''d1''),
        (''primary_key'', PStr ''id''), (''attributes'', PList [PStr ''b'', PStr ''a'', PStr ''b''])]]),
     (''metrics'', PList [PDict [(''metric_id'', PStr ''total''), (''entity_id'', PStr ''orders''),
        (''aggregation'', PStr '' SUM ''), (''field'', PStr ''amount'')]])]"

definition demo_normalized :: manifest where
  "demo_normalized = \<lparr>mf_workspace = ''w'',
     mf_entities = [\<lparr>en_id = ''orders'', en_dataset = ''d1'', en_primary_key = ''id'',
       en_attributes = [''a'', ''b'']\<rparr>],
     mf_metrics = [\<lparr>me_id = ''total'', me_entity = ''orders'', me_aggregation = ''sum'',
       me_field = ''amount'', me_expression = ''sum(amount)''\<rparr>], mf_joins = []\<rparr>"

lemma demo_validates: "validate_semantic_manifest demo_manifest (Some ''w'') = Inr demo_normalized"
  by code_simp

theorem validated_manifest_well_formed_witness: "manifest_ok demo_normalized"
  using validated_manifest_well_formed [OF demo_validates] by simp

text \<open>
  Normalisation is stable: validating the stored form of an accepted manifest again gives
  exactly that manifest, so what the control plane stores is what the gateway later binds.
\<close>

theorem validate_idempotent:
  assumes "validate_semantic_manifest d (Some ws) = Inr m"
  shows "validate_semantic_manifest (manifest_py m) (Some ws) = Inr m"
  using validate_ok [OF assms] by (intro validate_manifest_py) auto

theorem validate_idempotent_witness:
  "validate_semantic_manifest (manifest_py demo_normalized) (Some ''w'') = Inr demo_normalized"
  by (rule validate_idempotent [OF demo_validates])

text \<open>
  No accepted metric counts rows with \<open>*\<close>: the field of a metric must be an identifier,
  so the \<open>count(*)\<close> branch of the query builder is never reached through validation.
\<close>

theorem star_field_rejected:
  assumes "metric_rows ids seen (PDict row # rest) = Inr ms"
  shows "strip (str_of row ''field'' '''') \<noteq> ''*''"
proof
  assume star: "strip (str_of row ''field'' '''') = ''*''"
  obtain field where f: "normalized_id (dget_or row ''field'' PNone) ''metric_field'' = Inr field"
    using assms by (auto simp: rbind_eq_Inr_iff Let_def split: if_split_asm)
  have "\<not> is_ident ''*''" by (simp add: ident_start_def is_alpha_def code_def)
  with f star show False
    using ident_match_strip
    by (cases "map_of row ''field''")
       (auto simp: normalized_id_def Let_def dget_or_def strip_def lstrip_def
          split: if_split_asm)
qed

theorem star_field_rejected_witness:
  "strip (str_of [(''metric_id'', PStr ''m''), (''entity_id'', PStr ''e''),
      (''aggregation'', PStr ''count''), (''field'', PStr ''id'')] ''field'' '''') \<noteq> ''*''"
proof -
  have "metric_rows [''e''] [] [PDict [(''metric_id'', PStr ''m''), (''entity_id'', PStr ''e''),
      (''aggregation'', PStr ''count''), (''field'', PStr ''id'')]] =
    Inr [\<lparr>me_id = ''m'', me_entity = ''e'', me_aggregation = ''count'', me_field = ''id'',
      me_expression = ''count(id)''\<rparr>]" by code_simp
  then show ?thesis by (rule star_field_rejected)
qed

end
