(* ===== verification/SemanticBinding.thy ===== *)
theory SemanticBinding
  imports SemanticManifest Tables
begin

text \<open>
  Resolution of a semantic query into SQL (\<open>backend/gateway/semantic_binding.py\<close>): the active
  manifest is loaded from the policy table, validated again, and a metric with its group-by
  columns becomes one \<open>select\<close> over the gold tables of the entities involved. The checksum of
  a manifest (SHA-256 over its canonical JSON) is the parameter \<open>checksum\<close>.
\<close>

record semantic_binding =
  sb_sql :: string
  sb_datasets :: "string list"
  sb_metric :: string
  sb_group_by :: "string list"
  sb_checksum :: string

section \<open>The lookups\<close>

definition load_active_semantic_state :: "db \<Rightarrow> string \<Rightarrow> pydict option" where
  "load_active_semantic_state d workspace_id =
     (case tbl_first (\<lambda>r. gp_workspace r = workspace_id \<and> gp_type r = ''semantic_manifest'' \<and>
                          gp_status r = ''active'') (policies d) of
        None \<Rightarrow> None
      | Some row \<Rightarrow> (case gp_definition row of Some (PDict payload) \<Rightarrow> Some payload | _ \<Rightarrow> None))"

definition find_metric :: "sem_metric list \<Rightarrow> string \<Rightarrow> sem_metric option" where
  "find_metric metrics metric_id = find (\<lambda>m. me_id m = metric_id) metrics"

definition entity_by_id :: "sem_entity list \<Rightarrow> string \<Rightarrow> sem_entity option" where
  "entity_by_id entities entity_id = find (\<lambda>e. en_id e = entity_id) entities"

definition group_item :: "string \<Rightarrow> string \<Rightarrow> string \<times> string" where
  "group_item default_entity_id item =
     (case split1 (CHR ''.'') item of
        (a, Some b) \<Rightarrow> (strip a, strip b)
      | (a, None) \<Rightarrow> (default_entity_id, item))"

fun group_by_loop ::
  "string \<Rightarrow> sem_entity list \<Rightarrow> string list \<Rightarrow> pyval list \<Rightarrow> string list res" where
  "group_by_loop dflt entities normalized [] = Inr normalized"
| "group_by_loop dflt entities normalized (item_raw # rest) =
     (let item = strip (py_str item_raw)
      in if item = [] then group_by_loop dflt entities normalized rest
         else let (entity_id, column) = group_item dflt item
           in if \<not> ident_match entity_id \<or> \<not> ident_match column
              then Inl (ValueError ''semantic_group_by_invalid'')
              else case entity_by_id entities entity_id of
                  None \<Rightarrow> Inl (ValueError ''semantic_group_by_entity_not_found'')
                | Some e \<Rightarrow>
                    if column \<noteq> en_primary_key e \<and> column \<notin> set (en_attributes e)
                    then Inl (ValueError ''semantic_group_by_column_not_found'')
                    else let key = entity_id @ ''.'' @ column
                      in group_by_loop dflt entities
                           (if key \<in> set normalized then normalized else normalized @ [key]) rest)"

definition parse_group_by :: "pydict \<Rightarrow> string \<Rightarrow> sem_entity list \<Rightarrow> string list res" where
  "parse_group_by semantic_query dflt entities =
     (let raw = dget_or semantic_query ''group_by'' (PList [])
      in if \<not> is_list raw then Inl (ValueError ''semantic_group_by_invalid'')
         else group_by_loop dflt entities [] (as_list raw))"

section \<open>The SQL text\<close>

definition build_metric_expression :: "sem_metric \<Rightarrow> string \<Rightarrow> string res" where
  "build_metric_expression metric alias =
     (let aggregation = lower (strip (me_aggregation metric)); field = strip (me_field metric)
      in if aggregation \<notin> set [''count'', ''sum'', ''avg'', ''min'', ''max'']
         then Inl (ValueError ''semantic_metric_aggregation_not_supported'')
         else if field = ''*'' then
           (if aggregation \<noteq> ''count'' then Inl (ValueError ''semantic_metric_field_invalid'')
            else Inr ''count(*)'')
         else if \<not> ident_match field then Inl (ValueError ''semantic_metric_field_invalid'')
         else Inr (aggregation @ ''('' @ alias @ ''.'' @ field @ '')''))"

definition find_join_between :: "sem_join list \<Rightarrow> string \<Rightarrow> string \<Rightarrow> sem_join option" where
  "find_join_between joins l r =
     map_option (\<lambda>j. j\<lparr>jo_left := strip (jo_left j), jo_right := strip (jo_right j)\<rparr>)
       (find (\<lambda>j. set [strip (jo_left j), strip (jo_right j)] = set [l, r]) joins)"

definition join_keyword :: "string \<Rightarrow> string" where
  "join_keyword t =
     (if t = ''left'' then ''left join'' else if t = ''right'' then ''right join''
      else if t = ''full'' then ''full outer join'' else ''inner join'')"

definition alias_of :: "(string \<times> string) list \<Rightarrow> string \<Rightarrow> string res" where
  "alias_of aliases k = (case dget aliases k of None \<Rightarrow> Inl (KeyError k) | Some a \<Rightarrow> Inr a)"

definition build_join_clause ::
  "string \<Rightarrow> string \<Rightarrow> sem_join list \<Rightarrow> (string \<times> string) list \<Rightarrow> string res" where
  "build_join_clause base target joins aliases =
     (case find_join_between joins base target of
        None \<Rightarrow> Inl (ValueError ''semantic_join_path_missing'')
      | Some j \<Rightarrow>
          if \<not> ident_match (jo_left_key j) \<or> \<not> ident_match (jo_right_key j)
          then Inl (ValueError ''semantic_join_key_invalid'')
          else rbind (alias_of aliases target) (\<lambda>ta.
               rbind (alias_of aliases (jo_left j)) (\<lambda>la.
               rbind (alias_of aliases (jo_right j)) (\<lambda>ra.
               Inr (join_keyword (lower (strip (jo_type j))) @ '' gold.'' @ target @ '' as '' @ ta @
                    '' on '' @ la @ ''.'' @ jo_left_key j @ '' = '' @ ra @ ''.'' @
                    jo_right_key j)))))"

definition entity_part :: "string \<Rightarrow> string" where
  "entity_part v = fst (split1 (CHR ''.'') v)"

definition column_part :: "string \<Rightarrow> string" where
  "column_part v = (case snd (split1 (CHR ''.'') v) of None \<Rightarrow> [] | Some c \<Rightarrow> c)"

fun involve :: "string list \<Rightarrow> string list \<Rightarrow> string list" where
  "involve acc [] = acc"
| "involve acc (v # vs) =
     involve (if entity_part v \<in> set acc then acc else acc @ [entity_part v]) vs"

definition aliases_for :: "string list \<Rightarrow> (string \<times> string) list" where
  "aliases_for involved = zip involved (map (\<lambda>i. CHR ''t'' # int_str (int i)) [0..<length involved])"

definition select_part :: "(string \<times> string) list \<Rightarrow> string \<Rightarrow> (string \<times> string) res" where
  "select_part aliases v =
     rbind (alias_of aliases (entity_part v)) (\<lambda>a.
     Inr (a @ ''.'' @ column_part v @ '' as '' @ entity_part v @ ''__'' @ column_part v,
          a @ ''.'' @ column_part v))"

definition render_sql :: "sem_metric \<Rightarrow> sem_join list \<Rightarrow> string list \<Rightarrow> string res" where
  "render_sql metric joins group_by =
     (let base = me_entity metric;
          involved = involve [base] group_by;
          aliases = aliases_for involved
      in rbind (rmap (select_part aliases) group_by) (\<lambda>parts.
         rbind (alias_of aliases base) (\<lambda>a.
         rbind (build_metric_expression metric a) (\<lambda>msql.
         rbind (rmap (\<lambda>e. build_join_clause base e joins aliases)
                     (filter (\<lambda>e. e \<noteq> base) involved)) (\<lambda>jcs.
         Inr (''select '' @ join '', '' (map fst parts @ [msql @ '' as metric_value'']) @ '' '' @
              ''from gold.'' @ base @ '' as '' @ a @
              (if jcs = [] then [] else '' '' @ join '' '' jcs) @
              (if parts = [] then [] else '' group by '' @ join '', '' (map snd parts))))))))"

definition bound_datasets :: "sem_entity list \<Rightarrow> string list \<Rightarrow> string list" where
  "bound_datasets entities involved =
     sorted_set (concat (map (\<lambda>eid. case entity_by_id entities eid of
         None \<Rightarrow> []
       | Some e \<Rightarrow> if strip (en_dataset e) = [] then [] else [en_dataset e]) involved))"

section \<open>Binding\<close>

definition active_manifest :: "db \<Rightarrow> string \<Rightarrow> (pydict \<times> manifest) res" where
  "active_manifest d workspace_id =
     (case load_active_semantic_state d workspace_id of
        None \<Rightarrow> Inl (ValueError ''semantic_manifest_not_configured'')
      | Some state \<Rightarrow>
          (case dget state ''manifest'' of
             Some (PDict raw) \<Rightarrow>
               (case validate_semantic_manifest raw (Some workspace_id) of
                  Inl e \<Rightarrow> Inl (ValueError ''semantic_manifest_invalid'')
                | Inr m \<Rightarrow> Inr (state, m))
           | _ \<Rightarrow> Inl (ValueError ''semantic_manifest_not_configured'')))"

definition bind_semantic_query ::
  "(manifest \<Rightarrow> string) \<Rightarrow> db \<Rightarrow> string \<Rightarrow> pydict \<Rightarrow> semantic_binding res" where
  "bind_semantic_query checksum d workspace_id semantic_query =
     (let metric_id = strip (str_of semantic_query ''metric_id'' '''')
      in if metric_id = [] then Inl (ValueError ''semantic_metric_required'')
         else if \<not> ident_match metric_id then Inl (ValueError ''semantic_metric_invalid'')
         else rbind (active_manifest d workspace_id) (\<lambda>(state, m).
         case find_metric (mf_metrics m) metric_id of
           None \<Rightarrow> Inl (ValueError ''semantic_metric_not_found'')
         | Some metric \<Rightarrow>
             if entity_by_id (mf_entities m) (me_entity metric) = None
             then Inl (ValueError ''semantic_metric_entity_missing'')
             else rbind (parse_group_by semantic_query (me_entity metric) (mf_entities m)) (\<lambda>group_by.
                  rbind (render_sql metric (mf_joins m) group_by) (\<lambda>sql.
                  let dataset_ids = bound_datasets (mf_entities m) (involve [me_entity metric] group_by);
                      stored = strip (str_of state ''manifest_checksum'' '''')
                  in if dataset_ids = [] then Inl (ValueError ''semantic_dataset_binding_missing'')
                     else Inr \<lparr>sb_sql = sql, sb_datasets = dataset_ids, sb_metric = metric_id,
                               sb_group_by = group_by,
                               sb_checksum = (if stored = [] then checksum m else stored)\<rparr>))))"

section \<open>Group-by items\<close>

definition group_ok :: "sem_entity list \<Rightarrow> string \<Rightarrow> bool" where
  "group_ok entities v \<longleftrightarrow> is_ident (entity_part v) \<and> is_ident (column_part v) \<and>
     v = entity_part v @ ''.'' @ column_part v \<and>
     (case entity_by_id entities (entity_part v) of
        None \<Rightarrow> False
      | Some e \<Rightarrow> column_part v = en_primary_key e \<or> column_part v \<in> set (en_attributes e))"

lemma split1_append:
  "c \<notin> set a \<Longrightarrow> split1 c (a @ c # b) = (a, Some b)"
  by (induction a) auto

lemma ident_no_dot: "is_ident s \<Longrightarrow> CHR ''.'' \<notin> set s"
proof
  assume "is_ident s" "CHR ''.'' \<in> set s"
  then have "ident_char (CHR ''.'')" by (rule is_ident_chars)
  then show False by (simp add: ident_char_def is_alpha_def is_digit_def code_def)
qed

lemma parts_of_key:
  "is_ident e \<Longrightarrow> entity_part (e @ ''.'' @ c) = e \<and> column_part (e @ ''.'' @ c) = c"
  by (simp add: entity_part_def column_part_def split1_append ident_no_dot)

lemma group_item_ident:
  assumes "is_ident dflt" "item = strip item"
    and "ident_match (fst (group_item dflt item))" "ident_match (snd (group_item dflt item))"
  shows "is_ident (fst (group_item dflt item)) \<and> is_ident (snd (group_item dflt item))"
proof (cases "snd (split1 (CHR ''.'') item)")
  case None
  then have g: "group_item dflt item = (dflt, item)"
    by (auto simp: group_item_def split: prod.split)
  with assms show ?thesis using ident_match_strip [of item] by simp
next
  case (Some b)
  then have g: "group_item dflt item = (strip (fst (split1 (CHR ''.'') item)), strip b)"
    by (auto simp: group_item_def split: prod.split)
  show ?thesis using assms(3,4) unfolding g by (simp add: ident_match_strip)
qed

lemma group_by_step:
  assumes "is_ident dflt" "strip (py_str item_raw) \<noteq> []"
    and "group_by_loop dflt entities acc (item_raw # rest) = Inr gb"
  shows "\<exists>key. group_ok entities key \<and>
    group_by_loop dflt entities (if key \<in> set acc then acc else acc @ [key]) rest = Inr gb"
proof -
  let ?item = "strip (py_str item_raw)"
  let ?e = "fst (group_item dflt ?item)"
  let ?c = "snd (group_item dflt ?item)"
  let ?key = "?e @ ''.'' @ ?c"
  obtain e where m: "ident_match ?e" "ident_match ?c" and e: "entity_by_id entities ?e = Some e"
    and col: "?c = en_primary_key e \<or> ?c \<in> set (en_attributes e)"
    and rest: "group_by_loop dflt entities (if ?key \<in> set acc then acc else acc @ [?key]) rest = Inr gb"
    using assms(2,3)
    by (auto simp: Let_def case_prod_beta split: if_split_asm option.split_asm)
  have "is_ident ?e \<and> is_ident ?c"
    by (rule group_item_ident) (use assms(1) m in simp_all)
  then have "group_ok entities ?key"
    using e col parts_of_key [of ?e ?c] by (simp add: group_ok_def)
  with rest show ?thesis by blast
qed

lemma group_by_loop_ok:
  "group_by_loop dflt entities acc raw = Inr gb \<Longrightarrow> is_ident dflt \<Longrightarrow>
     list_all (group_ok entities) acc \<Longrightarrow> distinct acc \<Longrightarrow>
     list_all (group_ok entities) gb \<and> distinct gb"
proof (induction raw arbitrary: acc)
  case (Cons r rest)
  show ?case
  proof (cases "strip (py_str r) = []")
    case True
    with Cons show ?thesis by simp
  next
    case False
    from group_by_step [OF Cons.prems(2) False Cons.prems(1)] obtain key where
      key: "group_ok entities key"
      and rest: "group_by_loop dflt entities (if key \<in> set acc then acc else acc @ [key]) rest = Inr gb"
      by blast
    show ?thesis
      by (rule Cons.IH [OF rest]) (use key Cons.prems in simp_all)
  qed
qed simp

lemma parse_group_by_ok:
  "parse_group_by q dflt entities = Inr gb \<Longrightarrow> is_ident dflt \<Longrightarrow>
     list_all (group_ok entities) gb \<and> distinct gb"
  using group_by_loop_ok [of dflt entities "[]"]
  by (auto simp: parse_group_by_def Let_def split: if_split_asm)

section \<open>The entities involved\<close>

lemma set_involve: "set (involve acc vs) = set acc \<union> entity_part ` set vs"
  by (induction vs arbitrary: acc) auto

lemma distinct_involve: "distinct acc \<Longrightarrow> distinct (involve acc vs)"
  by (induction vs arbitrary: acc) auto

lemma dget_aliases: "k \<in> set involved \<Longrightarrow> \<exists>a. dget (aliases_for involved) k = Some a"
  using map_of_zip_is_Some [of involved "map (\<lambda>i. CHR ''t'' # int_str (int i)) [0..<length involved]"]
  by (simp add: dget_def aliases_for_def)

lemma dget_aliases_value:
  "dget (aliases_for involved) k = Some a \<Longrightarrow> \<exists>i. a = CHR ''t'' # int_str (int i)"
  by (auto simp: dget_def aliases_for_def dest!: map_of_SomeD set_zip_rightD)

lemma find_join_between_Some:
  assumes "find_join_between joins l r = Some j"
  shows "set [jo_left j, jo_right j] = set [l, r]"
    and "\<exists>j0 \<in> set joins. j = j0\<lparr>jo_left := strip (jo_left j0), jo_right := strip (jo_right j0)\<rparr>"
  using assms by (auto simp: find_join_between_def find_Some_iff)

section \<open>The errors\<close>

text \<open>
  Every failure of the binder is a \<open>ValueError\<close> whose message starts with \<open>semantic_\<close>. In
  particular every lookup of an alias succeeds: the two sides of a join found between two
  entities are those entities, so the rendering raises no \<open>KeyError\<close>.
\<close>

fun semantic_error :: "exn \<Rightarrow> bool" where
  "semantic_error (ValueError m) = startswith m ''semantic_''"
| "semantic_error _ = False"

definition fails_only :: "(exn \<Rightarrow> bool) \<Rightarrow> 'a res \<Rightarrow> bool" where
  "fails_only P r = (case r of Inl e \<Rightarrow> P e | Inr _ \<Rightarrow> True)"

lemma fails_only_Inr [simp]: "fails_only P (Inr x)"
  by (simp add: fails_only_def)

lemma fails_only_Inl [simp]: "fails_only P (Inl e) = P e"
  by (simp add: fails_only_def)

lemma fails_only_rbind:
  "fails_only P r \<Longrightarrow> (\<And>x. r = Inr x \<Longrightarrow> fails_only P (f x)) \<Longrightarrow> fails_only P (rbind r f)"
  by (cases r) auto

lemma fails_only_rmap:
  "(\<And>x. x \<in> set xs \<Longrightarrow> fails_only P (f x)) \<Longrightarrow> fails_only P (rmap f xs)"
  by (induction xs) (auto intro!: fails_only_rbind)

lemma alias_of_known: "k \<in> set involved \<Longrightarrow> \<exists>a. alias_of (aliases_for involved) k = Inr a"
  using dget_aliases [of k involved] by (auto simp: alias_of_def)

lemma build_join_fails:
  assumes "base \<in> set involved" "target \<in> set involved"
  shows "fails_only semantic_error (build_join_clause base target joins (aliases_for involved))"
proof (cases "find_join_between joins base target")
  case (Some j)
  then have "jo_left j \<in> set involved" "jo_right j \<in> set involved"
    using find_join_between_Some(1) [OF Some] assms by auto
  with Some assms show ?thesis
    using alias_of_known [of target involved] alias_of_known [of "jo_left j" involved]
      alias_of_known [of "jo_right j" involved]
    by (auto simp: build_join_clause_def startswith_def)
qed (simp add: build_join_clause_def startswith_def)

lemma build_metric_fails: "fails_only semantic_error (build_metric_expression metric a)"
  by (simp add: build_metric_expression_def Let_def startswith_def)

lemma select_part_fails:
  "entity_part v \<in> set involved \<Longrightarrow> fails_only semantic_error (select_part (aliases_for involved) v)"
  using alias_of_known [of "entity_part v" involved] by (auto simp: select_part_def)

lemma render_fails: "fails_only semantic_error (render_sql metric joins gb)"
proof -
  have "me_entity metric \<in> set (involve [me_entity metric] gb)"
    by (simp add: set_involve)
  moreover from alias_of_known [OF this] obtain a where
    "alias_of (aliases_for (involve [me_entity metric] gb)) (me_entity metric) = Inr a" by blast
  ultimately show ?thesis
    unfolding render_sql_def Let_def
    by (auto intro!: fails_only_rbind fails_only_rmap select_part_fails build_metric_fails
        build_join_fails simp: set_involve)
qed

lemma group_by_loop_fails: "fails_only semantic_error (group_by_loop dflt entities acc raw)"
  by (induction raw arbitrary: acc)
     (simp_all add: Let_def case_prod_beta startswith_def split: option.split)

lemma parse_group_by_fails: "fails_only semantic_error (parse_group_by q dflt entities)"
  by (simp add: parse_group_by_def Let_def group_by_loop_fails startswith_def)

lemma active_manifest_fails: "fails_only semantic_error (active_manifest d ws)"
  by (simp add: active_manifest_def startswith_def split: option.split pyval.split sum.split)

lemma bind_fails: "fails_only semantic_error (bind_semantic_query checksum d ws q)"
  unfolding bind_semantic_query_def Let_def
  by (auto intro!: fails_only_rbind active_manifest_fails parse_group_by_fails render_fails
      simp: startswith_def split: option.split)

section \<open>The alphabet of the SQL text\<close>

definition sql_char :: "char \<Rightarrow> bool" where
  "sql_char c \<longleftrightarrow> ident_char c \<or> c \<in> set '' .,()=*''"

lemma ident_sql: "is_ident s \<Longrightarrow> list_all sql_char s"
  by (auto simp: list_all_iff sql_char_def dest: is_ident_chars)

lemma join_sql: "list_all sql_char sep \<Longrightarrow> list_all (list_all sql_char) xs \<Longrightarrow> list_all sql_char (join sep xs)"
  by (induction sep xs rule: join.induct) auto

lemma digit_sql: "n < 10 \<Longrightarrow> sql_char (char_of (48 + n :: nat))"
  by (simp add: sql_char_def ident_char_def is_digit_def code_def Let_def)

lemma nat_digits_sql: "list_all sql_char (nat_digits n)"
proof (induction n rule: nat_digits.induct)
  case (1 n)
  then show ?case by (subst nat_digits.simps) (simp add: digit_sql)
qed

lemma letter_sql: "is_alpha c \<Longrightarrow> sql_char c"
  by (simp add: sql_char_def ident_char_def)

lemma alias_sql: "alias_of (aliases_for involved) k = Inr a \<Longrightarrow> list_all sql_char a"
proof -
  assume "alias_of (aliases_for involved) k = Inr a"
  then have "dget (aliases_for involved) k = Some a"
    by (auto simp: alias_of_def split: option.split_asm)
  then obtain i where "a = CHR ''t'' # int_str (int i)" using dget_aliases_value by blast
  then show ?thesis
    by (simp add: int_str_def nat_digits_sql letter_sql is_alpha_def code_def)
qed

lemma const_sql:
  "list_all sql_char ''select ''" "list_all sql_char '' as ''" "list_all sql_char '', ''"
  "list_all sql_char ''__''" "list_all sql_char ''from gold.''" "list_all sql_char '' gold.''"
  "list_all sql_char '' on ''" "list_all sql_char '' = ''" "list_all sql_char '' ''"
  "list_all sql_char ''.''" "list_all sql_char '' group by ''" "list_all sql_char ''count(*)''"
  "list_all sql_char ''(''" "list_all sql_char '')''" "list_all sql_char '' as metric_value''"
  "list_all sql_char (join_keyword t)"
  by (simp_all add: sql_char_def ident_char_def is_alpha_def code_def join_keyword_def)

lemma agg_sql: "a \<in> set [''count'', ''sum'', ''avg'', ''min'', ''max''] \<Longrightarrow> list_all sql_char a"
  by (auto simp: sql_char_def ident_char_def is_alpha_def code_def)

lemma ident_match_strip_sql: "ident_match (strip s) \<Longrightarrow> list_all sql_char (strip s)"
  by (simp add: ident_match_strip ident_sql)

lemma metric_expression_sql:
  "build_metric_expression m a = Inr s \<Longrightarrow> list_all sql_char a \<Longrightarrow> list_all sql_char s"
  using const_sql(10,12,13,14) agg_sql [of "lower (strip (me_aggregation m))"]
    ident_match_strip_sql [of "me_field m"]
  by (auto simp: build_metric_expression_def Let_def split: if_split_asm)

lemma join_clause_sql:
  assumes "build_join_clause base target joins (aliases_for involved) = Inr s"
    and "list_all (join_ok ids) joins" "is_ident target"
  shows "list_all sql_char s"
proof -
  obtain j where j: "find_join_between joins base target = Some j"
    using assms(1) by (auto simp: build_join_clause_def split: option.split_asm)
  then have "is_ident (jo_left_key j)" "is_ident (jo_right_key j)"
    using find_join_between_Some(2) [OF j] assms(2) by (auto simp: list_all_iff join_ok_def)
  moreover obtain ta la ra where
    "alias_of (aliases_for involved) target = Inr ta"
    "alias_of (aliases_for involved) (jo_left j) = Inr la"
    "alias_of (aliases_for involved) (jo_right j) = Inr ra"
    "s = join_keyword (lower (strip (jo_type j))) @ '' gold.'' @ target @ '' as '' @ ta @
       '' on '' @ la @ ''.'' @ jo_left_key j @ '' = '' @ ra @ ''.'' @ jo_right_key j"
    using assms(1) j by (auto simp: build_join_clause_def rbind_eq_Inr_iff split: if_split_asm)
  ultimately show ?thesis
    using alias_sql assms(3) const_sql by (simp add: ident_sql)
qed

lemma select_part_sql:
  assumes "select_part (aliases_for involved) v = Inr p" "group_ok entities v"
  shows "list_all sql_char (fst p) \<and> list_all sql_char (snd p)"
proof -
  from assms(1) obtain a where a: "alias_of (aliases_for involved) (entity_part v) = Inr a"
    and p: "p = (a @ ''.'' @ column_part v @ '' as '' @ entity_part v @ ''__'' @ column_part v,
          a @ ''.'' @ column_part v)"
    by (auto simp: select_part_def rbind_eq_Inr_iff)
  from assms(2) have "list_all sql_char (entity_part v)" "list_all sql_char (column_part v)"
    by (auto simp: group_ok_def ident_sql)
  with alias_sql [OF a] show ?thesis using const_sql by (simp add: p)
qed

lemma render_sql_alphabet:
  assumes "render_sql metric joins gb = Inr sql" "list_all (group_ok entities) gb"
    "list_all (join_ok ids) joins" "is_ident (me_entity metric)"
  shows "list_all sql_char sql \<and> startswith sql ''select ''"
proof -
  let ?inv = "involve [me_entity metric] gb"
  let ?al = "aliases_for ?inv"
  from assms(1) obtain parts a msql jcs where
    parts: "rmap (select_part ?al) gb = Inr parts" and a: "alias_of ?al (me_entity metric) = Inr a"
    and msql: "build_metric_expression metric a = Inr msql"
    and jcs: "rmap (\<lambda>e. build_join_clause (me_entity metric) e joins ?al)
        (filter (\<lambda>e. e \<noteq> me_entity metric) ?inv) = Inr jcs"
    and sql: "sql = ''select '' @ join '', '' (map fst parts @ [msql @ '' as metric_value'']) @ '' '' @
        ''from gold.'' @ me_entity metric @ '' as '' @ a @
        (if jcs = [] then [] else '' '' @ join '' '' jcs) @
        (if parts = [] then [] else '' group by '' @ join '', '' (map snd parts))"
    by (auto simp: render_sql_def Let_def rbind_eq_Inr_iff)
  have "\<forall>p \<in> set parts. list_all sql_char (fst p) \<and> list_all sql_char (snd p)"
    using rmap_Inr_set [OF parts] select_part_sql assms(2) by (fastforce simp: list_all_iff)
  then have ps: "list_all (list_all sql_char) (map fst parts)"
    "list_all (list_all sql_char) (map snd parts)" by (auto simp: list_all_iff)
  have inv: "\<forall>e \<in> set ?inv. is_ident e"
    using assms(2,4) by (auto simp: set_involve list_all_iff group_ok_def)
  have js: "list_all (list_all sql_char) jcs"
    unfolding list_all_iff [of "list_all sql_char"]
  proof
    fix s assume "s \<in> set jcs"
    from rmap_Inr_set [OF jcs this] obtain e where "e \<in> set ?inv"
      "build_join_clause (me_entity metric) e joins ?al = Inr s" by auto
    with inv join_clause_sql assms(3) show "list_all sql_char s" by blast
  qed
  have "list_all sql_char (msql @ '' as metric_value'')"
    using metric_expression_sql [OF msql alias_sql [OF a]] const_sql by simp
  with ps have "list_all sql_char (join '', '' (map fst parts @ [msql @ '' as metric_value'']))"
    by (intro join_sql const_sql) simp
  moreover have "list_all sql_char (join '' '' jcs)" "list_all sql_char (join '', '' (map snd parts))"
    using js ps by (auto intro!: join_sql const_sql)
  ultimately have "list_all sql_char sql"
    unfolding sql list_all_append
    using const_sql alias_sql [OF a] ident_sql [OF assms(4)] by simp
  then show ?thesis by (simp add: sql startswith_def)
qed

section \<open>What a binding is\<close>

text \<open>The parts of a successful binding.\<close>

lemma bind_parts:
  assumes "bind_semantic_query checksum d ws q = Inr b"
  obtains state m metric where
    "active_manifest d ws = Inr (state, m)" "manifest_ok m" "mf_workspace m = ws"
    "find_metric (mf_metrics m) (sb_metric b) = Some metric"
    "parse_group_by q (me_entity metric) (mf_entities m) = Inr (sb_group_by b)"
    "render_sql metric (mf_joins m) (sb_group_by b) = Inr (sb_sql b)"
    "sb_datasets b = bound_datasets (mf_entities m) (involve [me_entity metric] (sb_group_by b))"
    "sb_datasets b \<noteq> []"
proof -
  from assms obtain state m where am: "active_manifest d ws = Inr (state, m)"
    by (auto simp: bind_semantic_query_def Let_def rbind_eq_Inr_iff split: if_split_asm)
  then obtain raw where "validate_semantic_manifest raw (Some ws) = Inr m"
    by (auto simp: active_manifest_def split: option.split_asm pyval.split_asm sum.split_asm)
  from validate_ok [OF this] have ok: "manifest_ok m" "mf_workspace m = ws" by auto
  show thesis
    using assms am ok
    by (auto simp: bind_semantic_query_def Let_def rbind_eq_Inr_iff
        split: if_split_asm option.split_asm intro: that)
qed

lemma find_metric_ok:
  "manifest_ok m \<Longrightarrow> find_metric (mf_metrics m) k = Some metric \<Longrightarrow>
     metric_ok (map en_id (mf_entities m)) metric \<and> me_id metric = k \<and> metric \<in> set (mf_metrics m)"
  by (auto simp: find_metric_def find_Some_iff manifest_ok_def list_all_iff)

lemma entity_by_id_iff:
  "distinct (map en_id es) \<Longrightarrow> entity_by_id es k = Some e \<longleftrightarrow> e \<in> set es \<and> en_id e = k"
proof (induction es)
  case (Cons a es)
  then show ?case by (auto simp: entity_by_id_def)
qed (simp add: entity_by_id_def)

lemma set_bound_datasets:
  assumes "distinct (map en_id es)" "list_all entity_ok es"
  shows "set (bound_datasets es involved) =
    {en_dataset e | e. e \<in> set es \<and> en_id e \<in> set involved}"
proof -
  have ok: "strip (en_dataset e) \<noteq> []" if "e \<in> set es" for e
    using assms(2) that by (auto simp: list_all_iff entity_ok_def stripped_def)
  have one: "set (case entity_by_id es k of None \<Rightarrow> []
      | Some e \<Rightarrow> if strip (en_dataset e) = [] then [] else [en_dataset e]) =
      {en_dataset e | e. e \<in> set es \<and> en_id e = k}" for k
  proof (cases "entity_by_id es k")
    case None
    then have "\<And>e. \<not> (e \<in> set es \<and> en_id e = k)"
      using entity_by_id_iff [OF assms(1), of k] by auto
    with None show ?thesis by auto
  next
    case (Some e)
    then have "\<And>e'. (e' \<in> set es \<and> en_id e' = k) = (e' = e)"
      unfolding entity_by_id_iff [OF assms(1), symmetric] by auto
    moreover from this have "e \<in> set es" by blast
    ultimately show ?thesis using Some ok by simp
  qed
  show ?thesis unfolding bound_datasets_def set_sorted_set set_concat set_map image_image one by blast
qed

section \<open>Properties\<close>

text \<open>
  C17. A semantic query only reaches what the active manifest of its workspace names: the metric
  is one of the manifest's, every group-by column is the primary key or an attribute of an
  entity of the manifest, and the dataset ids, on which access is then decided, are exactly
  those of the metric's entity and of the entities of the group-by columns; there is at least
  one, and they are sorted and without repetitions.
\<close>

theorem binding_datasets_exact:
  assumes "bind_semantic_query checksum d ws q = Inr b"
  shows "\<exists>state m metric. active_manifest d ws = Inr (state, m) \<and> manifest_ok m \<and>
     mf_workspace m = ws \<and> metric \<in> set (mf_metrics m) \<and> me_id metric = sb_metric b \<and>
     list_all (group_ok (mf_entities m)) (sb_group_by b) \<and> distinct (sb_group_by b) \<and>
     set (sb_datasets b) = {en_dataset e | e. e \<in> set (mf_entities m) \<and>
        (en_id e = me_entity metric \<or> en_id e \<in> entity_part ` set (sb_group_by b))} \<and>
     sb_datasets b \<noteq> [] \<and> sorted (sb_datasets b) \<and> distinct (sb_datasets b)"
proof -
  from bind_parts [OF assms] obtain state m metric where
    *: "active_manifest d ws = Inr (state, m)" "manifest_ok m" "mf_workspace m = ws"
      "find_metric (mf_metrics m) (sb_metric b) = Some metric"
      "parse_group_by q (me_entity metric) (mf_entities m) = Inr (sb_group_by b)"
      "sb_datasets b = bound_datasets (mf_entities m) (involve [me_entity metric] (sb_group_by b))"
      "sb_datasets b \<noteq> []" by metis
  have met: "is_ident (me_entity metric)" "me_id metric = sb_metric b" "metric \<in> set (mf_metrics m)"
    using find_metric_ok [OF *(2,4)] by (auto simp: metric_ok_def)
  have "distinct (map en_id (mf_entities m))" "list_all entity_ok (mf_entities m)"
    using *(2) by (auto simp: manifest_ok_def)
  from set_bound_datasets [OF this] have
    "set (sb_datasets b) = {en_dataset e | e. e \<in> set (mf_entities m) \<and>
        (en_id e = me_entity metric \<or> en_id e \<in> entity_part ` set (sb_group_by b))}"
    by (simp add: *(6) set_involve)
  moreover have "sorted (sb_datasets b)" "distinct (sb_datasets b)"
    by (simp_all add: *(6) bound_datasets_def)
  ultimately show ?thesis
    using * met parse_group_by_ok [OF *(5) met(1)] by blast
qed

definition demo_policy_db :: db where
  "demo_policy_db = empty_db\<lparr>policies := [\<lparr>gp_id = ''p1'', gp_workspace = ''w'',
     gp_type = ''semantic_manifest'',
     gp_definition = Some (PDict [(''manifest'', PDict [(''manifest_version'', PStr ''1''),
       (''workspace_id'', PStr ''w''),
       (''entities'', PList
         [PDict [(''entity_id'', PStr ''orders''), (''dataset_id'', PStr ''d1''),
            (''primary_key'', PStr ''id''), (''attributes'', PList [PStr ''amount''])],
          PDict [(''entity_id'', PStr ''users''), (''dataset_id'', PStr ''d2''),
            (''primary_key'', PStr ''uid''), (''attributes'', PList [PStr ''country''])]]),
       (''metrics'', PList [PDict [(''metric_id'', PStr ''total''), (''entity_id'', PStr ''orders''),
          (''aggregation'', PStr ''sum''), (''field'', PStr ''amount'')]]),
       (''joins'', PList [PDict [(''join_id'', PStr ''j''), (''left_entity_id'', PStr ''orders''),
          (''right_entity_id'', PStr ''users''), (''left_key'', PStr ''user_id''),
          (''right_key'', PStr ''uid''), (''join_type'', PStr ''left'')]])])]),
     gp_status = ''active''\<rparr>]\<rparr>"

definition demo_binding :: semantic_binding where
  "demo_binding = \<lparr>sb_sql = ''select t1.country as users__country, sum(t0.amount) as '' @
       ''metric_value from gold.orders as t0 left join gold.users as t1 on t0.user_id = t1.uid'' @
       '' group by t1.country'',
     sb_datasets = [''d1'', ''d2''], sb_metric = ''total'', sb_group_by = [''users.country''],
     sb_checksum = ''c''\<rparr>"

lemma demo_bind:
  "bind_semantic_query (\<lambda>_. ''c'') demo_policy_db ''w''
     [(''metric_id'', PStr ''total''), (''group_by'', PList [PStr ''users.country''])] =
   Inr demo_binding"
  by code_simp

theorem binding_datasets_exact_witness: "sb_datasets demo_binding \<noteq> []"
  using binding_datasets_exact [OF demo_bind] by blast

text \<open>
  C18. The SQL a binding produces is one \<open>select\<close> over identifiers: it contains no quote, no
  semicolon, no comment and no other character through which a value of the request or of the
  manifest could change its structure.
\<close>

theorem binding_sql_injection_free:
  assumes "bind_semantic_query checksum d ws q = Inr b"
  shows "list_all sql_char (sb_sql b) \<and> startswith (sb_sql b) ''select '' \<and>
    CHR '';'' \<notin> set (sb_sql b) \<and> CHR 0x27 \<notin> set (sb_sql b) \<and> CHR ''-'' \<notin> set (sb_sql b)"
proof -
  from bind_parts [OF assms] obtain state m metric where
    *: "manifest_ok m" "find_metric (mf_metrics m) (sb_metric b) = Some metric"
      "parse_group_by q (me_entity metric) (mf_entities m) = Inr (sb_group_by b)"
      "render_sql metric (mf_joins m) (sb_group_by b) = Inr (sb_sql b)" by metis
  have met: "is_ident (me_entity metric)"
    using find_metric_ok [OF *(1,2)] by (auto simp: metric_ok_def)
  have js: "list_all (join_ok (map en_id (mf_entities m))) (mf_joins m)"
    using *(1) by (simp add: manifest_ok_def)
  have "list_all sql_char (sb_sql b) \<and> startswith (sb_sql b) ''select ''"
    using render_sql_alphabet [OF *(4) _ js met] parse_group_by_ok [OF *(3) met] by blast
  moreover have "\<not> sql_char (CHR '';'')" "\<not> sql_char (CHR 0x27)" "\<not> sql_char (CHR ''-'')"
    by (simp_all add: sql_char_def ident_char_def is_alpha_def is_digit_def code_def)
  ultimately show ?thesis by (auto simp: list_all_iff)
qed

theorem binding_sql_injection_free_witness: "CHR '';'' \<notin> set (sb_sql demo_binding)"
  using binding_sql_injection_free [OF demo_bind] by blast

text \<open>
  C19. Binding fails only with a \<open>ValueError\<close> whose message starts with \<open>semantic_\<close>, the form
  the gateway turns into the reason of the denial; in particular the rendering looks up only
  aliases it has assigned, so a missing key is never raised.
\<close>

theorem binding_errors_are_semantic:
  assumes "bind_semantic_query checksum d ws q = Inl e"
  shows "\<exists>reason. e = ValueError reason \<and> startswith reason ''semantic_''"
  using bind_fails [of checksum d ws q] assms by (cases e) auto

theorem binding_errors_are_semantic_witness:
  "\<exists>reason. ValueError ''semantic_metric_not_found'' = ValueError reason \<and>
     startswith reason ''semantic_''"
proof -
  have "bind_semantic_query (\<lambda>_. ''c'') demo_policy_db ''w'' [(''metric_id'', PStr ''other'')] =
    Inl (ValueError ''semantic_metric_not_found'')" by code_simp
  then show ?thesis by (rule binding_errors_are_semantic)
qed

text \<open>
  The direction of an outer join is not kept: when the metric's entity is the right side of
  a left join, the rendered clause still keeps every row of the metric's entity, as for the
  manifest with the two sides exchanged, which is a different query.
\<close>

theorem outer_join_direction_lost:
  "build_join_clause ''orders'' ''users''
     [\<lparr>jo_id = ''j'', jo_left = ''orders'', jo_right = ''users'', jo_left_key = ''k'',
       jo_right_key = ''k'', jo_type = ''left''\<rparr>] (aliases_for [''orders'', ''users'']) =
     Inr ''left join gold.users as t1 on t0.k = t1.k'' \<and>
   build_join_clause ''orders'' ''users''
     [\<lparr>jo_id = ''j'', jo_left = ''users'', jo_right = ''orders'', jo_left_key = ''k'',
       jo_right_key = ''k'', jo_type = ''left''\<rparr>] (aliases_for [''orders'', ''users'']) =
     Inr ''left join gold.users as t1 on t1.k = t0.k''"
  by code_simp

end
