(* ===== verification/AuditOutbox.thy ===== *)
theory AuditOutbox
  imports Tables
begin

text \<open>
  The durable audit outbox (\<open>backend/shared_domain/audit_outbox.py\<close>) and the sinks it delivers
  to (\<open>audit_sinks.py\<close>). The file system and the HTTP client are parameters; the state of a
  sink is the list of events it has taken. An exception that is not one of the delivery errors
  leaves the loop without a commit, so the table is unchanged while the sink is not.
\<close>

section \<open>Sinks\<close>

datatype audit_sink = DisabledAuditSink | JsonlAuditSink string | WebhookAuditSink string

definition load_audit_sink :: "string \<Rightarrow> string \<Rightarrow> audit_sink res" where
  "load_audit_sink audit_sink_type audit_sink_target =
     (let sink_type = lower (strip audit_sink_type)
      in if sink_type = ''disabled'' then Inr DisabledAuditSink
         else if sink_type = ''jsonl'' then
           (if audit_sink_target = []
            then Inl (StartupConfigurationError ''JSONL audit sink requires target file path.'')
            else Inr (JsonlAuditSink audit_sink_target))
         else if sink_type = ''webhook'' then
           (if audit_sink_target = []
            then Inl (StartupConfigurationError ''Webhook audit sink requires target URL.'')
            else Inr (WebhookAuditSink audit_sink_target))
         else Inl (StartupConfigurationError ''Unsupported audit sink type.''))"

text \<open>The errors of a delivery; \<open>TimeoutError\<close> and \<open>URLError\<close> are OS errors too.\<close>

fun is_delivery_error :: "exn \<Rightarrow> bool" where
  "is_delivery_error (AuditSinkError _) = True"
| "is_delivery_error (OSError _) = True"
| "is_delivery_error TimeoutError = True"
| "is_delivery_error _ = False"

fun is_os_error :: "exn \<Rightarrow> bool" where
  "is_os_error (OSError _) = True"
| "is_os_error TimeoutError = True"
| "is_os_error _ = False"

fun exn_str :: "exn \<Rightarrow> string" where
  "exn_str (AuditSinkError m) = m"
| "exn_str (OSError m) = m"
| "exn_str _ = []"

text \<open>
  \<open>write target e\<close> and \<open>post target e\<close> are the exception of appending to the file, of posting
  to the endpoint, if any.
\<close>

fun emit_audit ::
  "(string \<Rightarrow> pydict \<Rightarrow> exn option) \<Rightarrow> (string \<Rightarrow> pydict \<Rightarrow> exn option) \<Rightarrow> audit_sink \<Rightarrow>
   pydict list \<Rightarrow> pydict \<Rightarrow> unit res \<times> pydict list" where
  "emit_audit write post DisabledAuditSink taken e = (Inr (), taken)"
| "emit_audit write post (JsonlAuditSink path) taken e =
     (case write path e of None \<Rightarrow> (Inr (), taken @ [e]) | Some x \<Rightarrow> (Inl x, taken))"
| "emit_audit write post (WebhookAuditSink url) taken e =
     (case post url e of
        None \<Rightarrow> (Inr (), taken @ [e])
      | Some x \<Rightarrow>
          (Inl (if is_os_error x then AuditSinkError ''audit_sink_unavailable'' else x), taken))"

section \<open>The queue\<close>

definition enqueue_audit_outbox_event ::
  "string \<Rightarrow> string \<Rightarrow> string option \<Rightarrow> string \<Rightarrow> pydict \<Rightarrow> db \<Rightarrow> db res" where
  "enqueue_audit_outbox_event new_id service workspace_id audit_event_id payload d =
     rbind (tbl_add ob_id \<lparr>ob_id = new_id, ob_service = service, ob_workspace = workspace_id,
         ob_audit_event = audit_event_id, ob_payload = payload, ob_status = ''pending'',
         ob_attempts = 0, ob_last_error = None\<rparr> (outbox d))
       (\<lambda>t. Inr (d\<lparr>outbox := t\<rparr>))"

record dispatch_result =
  dr_attempted :: nat
  dr_sent :: nat
  dr_failed :: nat
  dr_pending :: nat

definition eligible :: "string \<Rightarrow> int \<Rightarrow> outbox_event \<Rightarrow> bool" where
  "eligible service max_attempts e \<longleftrightarrow>
     ob_service e = service \<and> ob_status e = ''pending'' \<and> ob_attempts e < max_attempts"

definition deliver ::
  "('s \<Rightarrow> pydict \<Rightarrow> unit res \<times> 's) \<Rightarrow> int \<Rightarrow> 's \<Rightarrow> outbox_event \<Rightarrow> (outbox_event \<times> bool) res \<times> 's" where
  "deliver emit max_attempts sink row =
     (case emit sink (ob_payload row) of
        (Inr _, sink') \<Rightarrow>
          (Inr (row\<lparr>ob_status := ''sent'', ob_attempts := ob_attempts row + 1,
                    ob_last_error := None\<rparr>, True), sink')
      | (Inl x, sink') \<Rightarrow>
          (if is_delivery_error x
           then (Inr (row\<lparr>ob_attempts := ob_attempts row + 1, ob_last_error := Some (exn_str x),
                   ob_status := (if ob_attempts row + 1 \<ge> max_attempts then ''failed''
                                 else ob_status row)\<rparr>, False), sink')
           else (Inl x, sink')))"

fun dispatch_rows ::
  "('s \<Rightarrow> pydict \<Rightarrow> unit res \<times> 's) \<Rightarrow> int \<Rightarrow> 's \<Rightarrow> outbox_event list \<Rightarrow> outbox_event list \<Rightarrow>
   nat \<Rightarrow> nat \<Rightarrow> (outbox_event list \<times> nat \<times> nat) res \<times> 's" where
  "dispatch_rows emit max_attempts sink t [] sent failed = (Inr (t, sent, failed), sink)"
| "dispatch_rows emit max_attempts sink t (row # rest) sent failed =
     (case deliver emit max_attempts sink row of
        (Inl x, sink') \<Rightarrow> (Inl x, sink')
      | (Inr (row', ok), sink') \<Rightarrow>
          dispatch_rows emit max_attempts sink' (tbl_put ob_id row' t) rest
            (if ok then Suc sent else sent) (if ok then failed else Suc failed))"

definition count_pending_outbox_rows :: "string \<Rightarrow> int \<Rightarrow> outbox_event list \<Rightarrow> nat" where
  "count_pending_outbox_rows service max_attempts t = length (filter (eligible service max_attempts) t)"

definition batch_rows :: "string \<Rightarrow> nat \<Rightarrow> int \<Rightarrow> outbox_event list \<Rightarrow> outbox_event list" where
  "batch_rows service max_batch max_attempts t =
     take max_batch (sort_key ob_id (filter (eligible service max_attempts) t))"

definition dispatch_audit_outbox_batch ::
  "('s \<Rightarrow> pydict \<Rightarrow> unit res \<times> 's) \<Rightarrow> string \<Rightarrow> nat \<Rightarrow> int \<Rightarrow> 's \<Rightarrow> db \<Rightarrow>
   dispatch_result res \<times> 's \<times> db" where
  "dispatch_audit_outbox_batch emit service max_batch max_attempts sink d =
     (let batch = batch_rows service max_batch max_attempts (outbox d)
      in case dispatch_rows emit max_attempts sink (outbox d) batch 0 0 of
           (Inl x, sink') \<Rightarrow> (Inl x, sink', d)
         | (Inr (t, sent, failed), sink') \<Rightarrow>
             (Inr \<lparr>dr_attempted = length batch, dr_sent = sent, dr_failed = failed,
                   dr_pending = count_pending_outbox_rows service max_attempts t\<rparr>,
              sink', d\<lparr>outbox := t\<rparr>))"

section \<open>What a delivery does to a row\<close>

text \<open>
  The specification of one attempt: the row keeps its identity and its payload, its count grows
  by one, and it is sent, failed with no attempt left, or still pending with one left.
\<close>

definition attempt_of :: "int \<Rightarrow> outbox_event \<Rightarrow> outbox_event \<Rightarrow> bool" where
  "attempt_of max_attempts row row' \<longleftrightarrow>
     ob_id row' = ob_id row \<and> ob_service row' = ob_service row \<and>
     ob_audit_event row' = ob_audit_event row \<and> ob_payload row' = ob_payload row \<and>
     ob_attempts row' = ob_attempts row + 1 \<and>
     (ob_status row' = ''sent'' \<or>
      ob_status row' = ''failed'' \<and> ob_attempts row' \<ge> max_attempts \<or>
      ob_status row' = ob_status row \<and> ob_attempts row' < max_attempts)"

lemma deliver_attempt:
  "deliver emit max_attempts sink row = (Inr (row', ok), sink') \<Longrightarrow> attempt_of max_attempts row row'"
  by (auto simp: deliver_def attempt_of_def split: prod.split_asm sum.split_asm if_split_asm)

lemma deliver_sent_iff:
  "deliver emit max_attempts sink row = (Inr (row', ok), sink') \<Longrightarrow> ob_status row = ''pending'' \<Longrightarrow>
     ok \<longleftrightarrow> ob_status row' = ''sent''"
  by (auto simp: deliver_def split: prod.split_asm sum.split_asm if_split_asm)

text \<open>The queue of work left: the attempts still allowed for the pending rows of a service.\<close>

definition row_work :: "string \<Rightarrow> int \<Rightarrow> outbox_event \<Rightarrow> nat" where
  "row_work service max_attempts e =
     (if eligible service max_attempts e then nat (max_attempts - ob_attempts e) else 0)"

definition outbox_work :: "string \<Rightarrow> int \<Rightarrow> outbox_event list \<Rightarrow> nat" where
  "outbox_work service max_attempts t = sum_list (map (row_work service max_attempts) t)"

lemma attempt_work:
  "attempt_of max_attempts row row' \<Longrightarrow> eligible service max_attempts row \<Longrightarrow>
     row_work service max_attempts row' < row_work service max_attempts row"
  by (auto simp: attempt_of_def row_work_def eligible_def)

lemma sum_list_tbl_put:
  fixes f :: "'r \<Rightarrow> nat"
  shows "keys_distinct key t \<Longrightarrow> r0 \<in> set t \<Longrightarrow> key r0 = key r \<Longrightarrow>
     sum_list (map f (tbl_put key r t)) + f r0 = sum_list (map f t) + f r"
proof (induction t)
  case (Cons a t)
  have tail: "tbl_put key r t = t" if "key r \<notin> key ` set t"
    using that by (induction t) (auto simp: tbl_put_def)
  show ?case
  proof (cases "key a = key r")
    case True
    with Cons.prems have "key r \<notin> key ` set t" "r0 = a"
      by (auto simp: keys_distinct_def image_iff)
    moreover from True have "tbl_put key r (a # t) = r # tbl_put key r t"
      by (simp add: tbl_put_def)
    ultimately show ?thesis using tail by simp
  next
    case False
    with Cons show ?thesis by (auto simp: keys_distinct_def tbl_put_def)
  qed
qed simp

lemma keys_distinct_put [simp]: "keys_distinct key (tbl_put key r t) = keys_distinct key t"
  by (simp add: keys_distinct_def)

lemma mem_put_other: "x \<in> set t \<Longrightarrow> key x \<noteq> key r \<Longrightarrow> x \<in> set (tbl_put key r t)"
  by (auto simp: tbl_put_def image_iff)

lemma dispatch_rows_work:
  assumes "dispatch_rows emit ma sink t rs sent failed = (Inr (t', sent', failed'), sink')"
    and "keys_distinct ob_id t" "keys_distinct ob_id rs" "set rs \<subseteq> set t"
    and "list_all (eligible service ma) rs"
  shows "outbox_work service ma t' + length rs \<le> outbox_work service ma t \<and>
    keys_distinct ob_id t' \<and> sent' + failed' = sent + failed + length rs"
  using assms
proof (induction emit ma sink t rs sent failed arbitrary: t' sent' failed' sink' rule: dispatch_rows.induct)
  case (2 emit ma sink t row rest sent failed)
  obtain row' ok s1 where dl: "deliver emit ma sink row = (Inr (row', ok), s1)"
    using "2.prems"(1) by (auto split: prod.split_asm sum.split_asm)
  let ?t = "tbl_put ob_id row' t"
  have a: "attempt_of ma row row'" by (rule deliver_attempt [OF dl])
  have id: "ob_id row = ob_id row'" using a by (simp add: attempt_of_def)
  have w: "row_work service ma row' < row_work service ma row"
    using attempt_work [OF a] "2.prems"(5) by simp
  have "outbox_work service ma ?t + row_work service ma row =
      outbox_work service ma t + row_work service ma row'"
    unfolding outbox_work_def
    by (rule sum_list_tbl_put) (use "2.prems" id in auto)
  with w have "outbox_work service ma ?t < outbox_work service ma t" by linarith
  moreover have "set rest \<subseteq> set ?t"
    using "2.prems"(3,4) id by (auto simp: keys_distinct_def image_iff intro!: mem_put_other)
  ultimately show ?case
    using "2.IH" [OF dl [symmetric] refl refl, of t' sent' failed' sink'] dl "2.prems"
    by (fastforce simp: keys_distinct_def)
qed simp

lemma batch_rows_ok:
  assumes "keys_distinct ob_id t"
  shows "keys_distinct ob_id (batch_rows service mb ma t)" "set (batch_rows service mb ma t) \<subseteq> set t"
    "list_all (eligible service ma) (batch_rows service mb ma t)"
proof -
  have sub: "set (batch_rows service mb ma t) \<subseteq> set (filter (eligible service ma) t)"
    unfolding batch_rows_def using set_take_subset by fastforce
  show "keys_distinct ob_id (batch_rows service mb ma t)"
    using assms
    by (auto simp: keys_distinct_def batch_rows_def distinct_map dest!: in_set_takeD
        intro!: inj_onI elim: inj_onD)
  show "set (batch_rows service mb ma t) \<subseteq> set t" using sub by auto
  show "list_all (eligible service ma) (batch_rows service mb ma t)"
    using sub by (auto simp: list_all_iff)
qed

lemma length_batch_pos:
  "mb \<ge> 1 \<Longrightarrow> count_pending_outbox_rows service ma t > 0 \<Longrightarrow> length (batch_rows service mb ma t) \<ge> 1"
  by (simp add: batch_rows_def count_pending_outbox_rows_def Suc_le_eq)

lemma row_work_zero: "row_work service ma e = 0 \<longleftrightarrow> \<not> eligible service ma e"
  by (auto simp: row_work_def eligible_def)

lemma pending_zero_iff_work:
  "count_pending_outbox_rows service ma t = 0 \<longleftrightarrow> outbox_work service ma t = 0"
  by (simp add: count_pending_outbox_rows_def outbox_work_def filter_empty_conv row_work_zero)

section \<open>What a batch does to the table\<close>

definition row_after :: "string \<Rightarrow> int \<Rightarrow> outbox_event \<Rightarrow> outbox_event \<Rightarrow> bool" where
  "row_after service max_attempts e e' \<longleftrightarrow>
     e' = e \<or> eligible service max_attempts e \<and> attempt_of max_attempts e e'"

lemma put_rel:
  "keys_distinct key t \<Longrightarrow> r0 \<in> set t \<Longrightarrow> key r0 = key r \<Longrightarrow>
     list_all2 (\<lambda>e e1. e = r0 \<and> e1 = r \<or> key e \<noteq> key r \<and> e1 = e) t (tbl_put key r t)"
proof -
  assume a: "keys_distinct key t" "r0 \<in> set t" "key r0 = key r"
  have "e = r0" if "e \<in> set t" "key e = key r" for e
    using a that unfolding keys_distinct_def distinct_map by (metis inj_onD)
  then show ?thesis
    unfolding tbl_put_def list_all2_map2 by (auto intro!: list.rel_refl_strong)
qed

lemma dispatch_rows_rel:
  assumes "dispatch_rows emit ma sink t rs sent failed = (Inr (t', sent', failed'), sink')"
    and "keys_distinct ob_id t" "keys_distinct ob_id rs" "set rs \<subseteq> set t"
    and "list_all (eligible service ma) rs"
  shows "list_all2 (\<lambda>e e'. e' = e \<or> e \<in> set rs \<and> attempt_of ma e e') t t'"
  using assms
proof (induction emit ma sink t rs sent failed arbitrary: t' sent' failed' sink' rule: dispatch_rows.induct)
  case (1 emit ma sink t sent failed)
  then show ?case by (simp add: list.rel_refl)
next
  case (2 emit ma sink t row rest sent failed)
  obtain row' ok s1 where dl: "deliver emit ma sink row = (Inr (row', ok), s1)"
    using "2.prems"(1) by (auto split: prod.split_asm sum.split_asm)
  let ?t = "tbl_put ob_id row' t"
  have a: "attempt_of ma row row'" by (rule deliver_attempt [OF dl])
  have id: "ob_id row = ob_id row'" using a by (simp add: attempt_of_def)
  have sub: "set rest \<subseteq> set ?t"
    using "2.prems"(3,4) id by (auto simp: keys_distinct_def image_iff intro!: mem_put_other)
  have fresh: "row' \<notin> set rest"
    using "2.prems"(3) id by (auto simp: keys_distinct_def)
  have step: "list_all2 (\<lambda>e e1. e = row \<and> e1 = row' \<or> ob_id e \<noteq> ob_id row' \<and> e1 = e) t ?t"
    by (rule put_rel) (use "2.prems" id in auto)
  have "list_all2 (\<lambda>e e'. e' = e \<or> e \<in> set rest \<and> attempt_of ma e e') ?t t'"
    using "2.IH" [OF dl [symmetric] refl refl, of t' sent' failed' sink'] dl "2.prems" sub
    by (simp add: keys_distinct_def)
  with step show ?case
    by (rule list_all2_trans [rotated 1]) (use a fresh in auto)
qed

lemma dispatch_rows_taken:
  assumes "dispatch_rows (emit_audit write post sink) ma taken t rs sent failed =
      (Inr (t', sent', failed'), taken')"
    and "sink \<noteq> DisabledAuditSink" "list_all (eligible service ma) rs"
  shows "set taken \<subseteq> set taken' \<and> (\<forall>e \<in> set t'. ob_status e = ''sent'' \<longrightarrow>
     e \<in> set t \<or> ob_payload e \<in> set taken')"
  using assms
proof (induction "emit_audit write post sink" ma taken t rs sent failed
    arbitrary: t' sent' failed' taken' rule: dispatch_rows.induct)
  case (2 ma taken t row rest sent failed)
  obtain row' ok s1 where dl: "deliver (emit_audit write post sink) ma taken row = (Inr (row', ok), s1)"
    using "2.prems"(1) by (auto split: prod.split_asm sum.split_asm)
  have pending: "ob_status row = ''pending''" using "2.prems"(3) by (simp add: eligible_def)
  have s1: "set taken \<subseteq> set s1 \<and> (ob_status row' = ''sent'' \<longrightarrow> ob_payload row' \<in> set s1)"
    using dl "2.prems"(2) pending
    by (cases sink)
      (auto simp: deliver_def split: option.split_asm if_split_asm)
  have "set s1 \<subseteq> set taken' \<and> (\<forall>e \<in> set t'. ob_status e = ''sent'' \<longrightarrow>
      e \<in> set (tbl_put ob_id row' t) \<or> ob_payload e \<in> set taken')"
    using "2.hyps" [OF dl [symmetric] refl refl, of t' sent' failed' taken'] dl "2.prems" by simp
  with s1 set_tbl_put_subset [of ob_id row' t] show ?case by blast
qed simp

text \<open>One batch, seen from the table of the database.\<close>

lemma dispatch_batch_Inr:
  assumes "dispatch_audit_outbox_batch emit service mb ma sink d = (Inr r, sink', d')"
  obtains t sent failed where
    "dispatch_rows emit ma sink (outbox d) (batch_rows service mb ma (outbox d)) 0 0 =
       (Inr (t, sent, failed), sink')" "d' = d\<lparr>outbox := t\<rparr>"
    "r = \<lparr>dr_attempted = length (batch_rows service mb ma (outbox d)), dr_sent = sent,
       dr_failed = failed, dr_pending = count_pending_outbox_rows service ma t\<rparr>"
  using assms
  by (auto simp: dispatch_audit_outbox_batch_def Let_def split: prod.split_asm sum.split_asm)

text \<open>A sink whose failures are all delivery errors, as the three of the source are.\<close>

definition only_delivery_errors :: "('s \<Rightarrow> pydict \<Rightarrow> unit res \<times> 's) \<Rightarrow> bool" where
  "only_delivery_errors emit \<longleftrightarrow> (\<forall>s p x s'. emit s p = (Inl x, s') \<longrightarrow> is_delivery_error x)"

lemma dispatch_rows_total:
  "only_delivery_errors emit \<Longrightarrow>
     \<exists>t' s f sink'. dispatch_rows emit ma sink t rs sent failed = (Inr (t', s, f), sink')"
proof (induction rs arbitrary: sink t sent failed)
  case (Cons row rest)
  obtain a s1 where e: "emit sink (ob_payload row) = (a, s1)" by fastforce
  have "\<exists>row' ok. deliver emit ma sink row = (Inr (row', ok), s1)"
    using Cons.prems e by (cases a) (auto simp: deliver_def only_delivery_errors_def)
  with Cons show ?case by auto
qed simp

fun dispatch_cycles ::
  "('s \<Rightarrow> pydict \<Rightarrow> unit res \<times> 's) \<Rightarrow> string \<Rightarrow> nat \<Rightarrow> int \<Rightarrow> nat \<Rightarrow> 's \<Rightarrow> db \<Rightarrow> 's \<times> db" where
  "dispatch_cycles emit service mb ma 0 sink d = (sink, d)"
| "dispatch_cycles emit service mb ma (Suc n) sink d =
     (case dispatch_audit_outbox_batch emit service mb ma sink d of
        (_, sink', d') \<Rightarrow> dispatch_cycles emit service mb ma n sink' d')"

lemma dispatch_cycles_work:
  "only_delivery_errors emit \<Longrightarrow> keys_distinct ob_id (outbox d) \<Longrightarrow> mb \<ge> 1 \<Longrightarrow>
     outbox_work service ma (outbox (snd (dispatch_cycles emit service mb ma n sink d))) \<le>
     outbox_work service ma (outbox d) - n"
proof (induction n arbitrary: sink d)
  case (Suc n)
  let ?b = "batch_rows service mb ma (outbox d)"
  obtain t s f sink' where dr: "dispatch_rows emit ma sink (outbox d) ?b 0 0 = (Inr (t, s, f), sink')"
    using dispatch_rows_total [OF Suc.prems(1)] by metis
  note w = dispatch_rows_work [OF dr Suc.prems(2) batch_rows_ok [OF Suc.prems(2)]]
  have "outbox_work service ma (outbox (snd (dispatch_cycles emit service mb ma (Suc n) sink d))) \<le>
      outbox_work service ma t - n"
    using Suc.IH [of "d\<lparr>outbox := t\<rparr>" sink'] Suc.prems w
    by (simp add: dispatch_audit_outbox_batch_def Let_def dr)
  moreover have "outbox_work service ma (outbox d) = 0 \<or> length ?b \<ge> 1"
    using length_batch_pos [OF Suc.prems(3)] pending_zero_iff_work by (metis neq0_conv)
  ultimately show ?case using w by auto
qed simp

section \<open>Properties\<close>

text \<open>
  C27. A dispatch loses nothing and delivers before it marks: every row of the table is left as
  it was or has had exactly one more attempt (sent; failed with no attempt left; still pending
  with one left), the rows of other services are untouched, the counters add up, and every row
  newly marked \<open>sent\<close> has its payload in the sink.
\<close>

theorem dispatch_delivers_or_keeps:
  assumes "dispatch_audit_outbox_batch (emit_audit write post sink) service mb ma taken d =
      (Inr r, taken', d')"
    and "sink \<noteq> DisabledAuditSink" "keys_distinct ob_id (outbox d)"
  shows "list_all2 (row_after service ma) (outbox d) (outbox d') \<and>
    dr_sent r + dr_failed r = dr_attempted r \<and> dr_attempted r \<le> mb \<and>
    (\<forall>e \<in> set (outbox d'). ob_status e = ''sent'' \<longrightarrow>
       e \<in> set (outbox d) \<or> ob_payload e \<in> set taken')"
proof -
  from dispatch_batch_Inr [OF assms(1)] obtain t sent failed where
    dr: "dispatch_rows (emit_audit write post sink) ma taken (outbox d)
        (batch_rows service mb ma (outbox d)) 0 0 = (Inr (t, sent, failed), taken')"
    and d': "d' = d\<lparr>outbox := t\<rparr>"
    and r: "r = \<lparr>dr_attempted = length (batch_rows service mb ma (outbox d)), dr_sent = sent,
       dr_failed = failed, dr_pending = count_pending_outbox_rows service ma t\<rparr>" by metis
  note b = batch_rows_ok [OF assms(3), where mb = mb and ma = ma and service = service]
  have "list_all2 (row_after service ma) (outbox d) t"
    by (rule list_all2_mono [OF dispatch_rows_rel [OF dr assms(3) b]])
      (use b(3) in \<open>auto simp: row_after_def list_all_iff\<close>)
  moreover have "length (batch_rows service mb ma (outbox d)) \<le> mb"
    by (simp add: batch_rows_def)
  ultimately show ?thesis
    using dispatch_rows_work [OF dr assms(3) b] dispatch_rows_taken [OF dr assms(2) b(3)]
    by (simp add: d' r)
qed

definition demo_event :: "string \<Rightarrow> outbox_event" where
  "demo_event k = \<lparr>ob_id = k, ob_service = ''gateway'', ob_workspace = None, ob_audit_event = k,
     ob_payload = [(''id'', PStr k)], ob_status = ''pending'', ob_attempts = 1,
     ob_last_error = None\<rparr>"

definition demo_outbox :: db where
  "demo_outbox = empty_db\<lparr>outbox := [demo_event ''b'', demo_event ''a'']\<rparr>"

definition flaky_post :: "string \<Rightarrow> pydict \<Rightarrow> exn option" where
  "flaky_post url e = (if dget e ''id'' = Some (PStr ''a'') then Some TimeoutError else None)"

theorem dispatch_delivers_or_keeps_witness:
  "list_all2 (row_after ''gateway'' 2) (outbox demo_outbox)
     [(demo_event ''b'')\<lparr>ob_status := ''sent'', ob_attempts := 2\<rparr>,
      (demo_event ''a'')\<lparr>ob_status := ''failed'', ob_attempts := 2,
         ob_last_error := Some ''audit_sink_unavailable''\<rparr>]"
proof -
  have run: "dispatch_audit_outbox_batch
      (emit_audit (\<lambda>_ _. None) flaky_post (WebhookAuditSink ''http://sink'')) ''gateway'' 5 2 []
      demo_outbox =
     (Inr \<lparr>dr_attempted = 2, dr_sent = 1, dr_failed = 1, dr_pending = 0\<rparr>,
      [[(''id'', PStr ''b'')]],
      demo_outbox\<lparr>outbox := [(demo_event ''b'')\<lparr>ob_status := ''sent'', ob_attempts := 2\<rparr>,
        (demo_event ''a'')\<lparr>ob_status := ''failed'', ob_attempts := 2,
         ob_last_error := Some ''audit_sink_unavailable''\<rparr>]\<rparr>)"
    by code_simp
  have "keys_distinct ob_id (outbox demo_outbox)" by code_simp
  from dispatch_delivers_or_keeps [OF run _ this] show ?thesis by simp
qed

text \<open>
  C28. The queue drains whatever the sink answers: with a batch of at least one row and a sink
  that fails only with delivery errors, after as many cycles as there are attempts left no row
  of the service is pending; each has been sent or has failed for good.
\<close>

theorem outbox_drains:
  assumes "only_delivery_errors emit" "keys_distinct ob_id (outbox d)" "mb \<ge> 1"
    and "n \<ge> outbox_work service ma (outbox d)"
  shows "count_pending_outbox_rows service ma
    (outbox (snd (dispatch_cycles emit service mb ma n sink d))) = 0"
  using dispatch_cycles_work [OF assms(1-3), where n = n and sink = sink and service = service and ma = ma] assms(4)
  by (simp add: pending_zero_iff_work)

lemma audit_sinks_delivery_errors:
  assumes "\<And>u e x. post u e = Some x \<Longrightarrow> is_os_error x" "\<And>p e x. write p e = Some x \<Longrightarrow> is_os_error x"
  shows "only_delivery_errors (emit_audit write post sink)"
proof -
  have os: "is_os_error x \<Longrightarrow> is_delivery_error x" for x by (cases x) auto
  show ?thesis
    unfolding only_delivery_errors_def
    using assms os by (cases sink) (fastforce split: option.split_asm if_split_asm)+
qed

theorem outbox_drains_witness:
  "count_pending_outbox_rows ''gateway'' 4 (outbox (snd (dispatch_cycles
     (emit_audit (\<lambda>_ _. None) flaky_post (WebhookAuditSink ''http://sink'')) ''gateway'' 1 4 6 []
     demo_outbox))) = 0"
proof (rule outbox_drains)
  show "only_delivery_errors
      (emit_audit (\<lambda>_ _. None) flaky_post (WebhookAuditSink ''http://sink''))"
    by (rule audit_sinks_delivery_errors) (auto simp: flaky_post_def split: if_split_asm)
qed code_simp+

end
