(* ===== verification/Provenance.thy ===== *)
theory Provenance
  imports AccessPolicy Tables
begin

text \<open>
  Versioned provenance payloads (\<open>backend/shared_domain/provenance.py\<close>) and document retrieval
  (\<open>backend/shared_domain/retrieval.py\<close>, and the row filter and masks the gateway applies to
  its results in \<open>backend/gateway/app.py\<close>). The extracted documents on disk are an argument:
  for every evidence file, in path order, its JSON text and that of its sibling \<open>text.json\<close>
  (\<open>None\<close> when that file does not exist).
\<close>

section \<open>Provenance\<close>

text \<open>\<open>sorted({str(item) for item in items if str(item)})\<close>\<close>

definition clean_set :: "string list \<Rightarrow> string list" where
  "clean_set items = sorted_set (filter (\<lambda>s. s \<noteq> []) items)"

definition coerce_int :: "pyval \<Rightarrow> int \<Rightarrow> int res" where
  "coerce_int v dflt =
     (case v of
        PBool b \<Rightarrow> Inr (if b then 1 else 0)
      | PInt i \<Rightarrow> Inr i
      | PFloat t i \<Rightarrow> py_int v
      | PStr s \<Rightarrow> Inr (case parse_int (strip s) of None \<Rightarrow> dflt | Some i \<Rightarrow> i)
      | _ \<Rightarrow> Inr dflt)"

fun snapshot_rows :: "pyval list \<Rightarrow> (string \<times> string) list" where
  "snapshot_rows [] = []"
| "snapshot_rows (PDict row # rest) =
     (let dataset_id = strip (str_of row ''dataset_id'' '''');
          snapshot_id = strip (str_of row ''snapshot_id'' '''')
      in if dataset_id = [] \<or> snapshot_id = [] then snapshot_rows rest
         else (dataset_id, snapshot_id) # snapshot_rows rest)"
| "snapshot_rows (_ # rest) = snapshot_rows rest"

definition normalize_snapshots :: "pyval list \<Rightarrow> pyval list" where
  "normalize_snapshots rws =
     map (\<lambda>p. PDict [(''dataset_id'', PStr (fst p)), (''snapshot_id'', PStr (snd p))])
       (sort_key fst (sort_key snd (snapshot_rows rws)))"

definition REQUIRED_PROVENANCE_FIELDS :: "string list" where
  "REQUIRED_PROVENANCE_FIELDS = [''provenance_version'', ''workspace_id'', ''policy_decision_id'',
     ''query_id'', ''build_id'', ''datasets_used'', ''snapshots'']"

fun validate_fields :: "pydict \<Rightarrow> string list \<Rightarrow> unit res" where
  "validate_fields payload [] = Inr ()"
| "validate_fields payload (field # todo) =
     (case dget payload field of
        None \<Rightarrow> Inl (ValueError (''missing_provenance_field:'' @ field))
      | Some v \<Rightarrow>
          if field \<in> set [''provenance_version'', ''workspace_id'', ''policy_decision_id'',
               ''query_id'', ''build_id''] \<and> (\<not> is_str v \<or> strip (py_str v) = [])
          then Inl (ValueError (''invalid_provenance_field:'' @ field))
          else if field \<in> set [''datasets_used'', ''snapshots''] \<and> \<not> is_list v
          then Inl (ValueError (''invalid_provenance_field:'' @ field))
          else validate_fields payload todo)"

definition validate_provenance_v1 :: "pydict \<Rightarrow> unit res" where
  "validate_provenance_v1 payload = validate_fields payload REQUIRED_PROVENANCE_FIELDS"

record provenance_args =
  pv_workspace :: string
  pv_decision_id :: string
  pv_datasets :: "string list"
  pv_build_id :: string
  pv_query_id :: string
  pv_snapshots :: "pyval list option"
  pv_reason :: string
  pv_filters :: pydict
  pv_masks :: pydict
  pv_citations :: "string list option"
  pv_allowed :: "string list option"
  pv_policy_pack :: "pydict option"

definition build_provenance_v1 :: "provenance_args \<Rightarrow> pydict res" where
  "build_provenance_v1 a =
     rbind (case pv_policy_pack a of
              None \<Rightarrow> Inr []
            | Some pack \<Rightarrow>
                rbind (coerce_int (dget_or pack ''version'' PNone) 0) (\<lambda>version.
                Inr [(''policy_pack'', PDict [(''pack_id'', PStr (str_of pack ''pack_id'' '''')),
                                             (''version'', PInt version)])]))
       (\<lambda>pack_field.
       let payload =
         [(''provenance_version'', PStr ''1''), (''workspace_id'', PStr (pv_workspace a)),
          (''policy_decision_id'', PStr (pv_decision_id a)), (''query_id'', PStr (pv_query_id a)),
          (''build_id'', PStr (pv_build_id a)),
          (''datasets_used'', PList (map PStr (clean_set (pv_datasets a)))),
          (''snapshots'', PList (case pv_snapshots a of None \<Rightarrow> [] | Some s \<Rightarrow> normalize_snapshots s)),
          (''decision_reason'', PStr (pv_reason a)), (''applied_filters'', PDict (pv_filters a)),
          (''applied_masks'', PDict (pv_masks a))]
         @ (case pv_citations a of None \<Rightarrow> []
            | Some cs \<Rightarrow> [(''citations'', PList (map PStr (clean_set cs)))])
         @ (case pv_allowed a of None \<Rightarrow> []
            | Some ds \<Rightarrow> [(''allowed_dataset_ids'', PList (map PStr (clean_set ds)))])
         @ pack_field
       in rbind (validate_provenance_v1 payload) (\<lambda>_. Inr payload))"

section \<open>Retrieval\<close>

fun json_get :: "pyval \<Rightarrow> string \<Rightarrow> pyval \<Rightarrow> pyval res" where
  "json_get (PDict d) k v = Inr (dget_or d k v)"
| "json_get _ k v = Inl (OtherError ''AttributeError'')"

fun load_retrieval_corpus :: "(json_text \<times> json_text option) list \<Rightarrow> pydict list res" where
  "load_retrieval_corpus [] = Inr []"
| "load_retrieval_corpus ((evidence_text, text_text) # files) =
     (case (evidence_text, text_text) of
        (Some evidence, Some (Some extracted)) \<Rightarrow>
          rbind (json_get evidence ''dataset_id'' (PStr '''')) (\<lambda>ds.
          rbind (json_get evidence ''artifact_id'' (PStr '''')) (\<lambda>art.
          rbind (json_get extracted ''text'' (PStr '''')) (\<lambda>txt.
          if py_str ds = [] \<or> py_str art = [] then load_retrieval_corpus files
          else rbind (json_get evidence ''citation'' (PStr (''artifact:'' @ py_str art))) (\<lambda>cit.
               rbind (load_retrieval_corpus files) (\<lambda>rest.
               Inr ([(''artifact_id'', PStr (py_str art)), (''dataset_id'', PStr (py_str ds)),
                     (''text'', PStr (py_str txt)), (''citation'', PStr (py_str cit))] # rest))))))
      | _ \<Rightarrow> load_retrieval_corpus files)"

definition retrieve_documents :: "string \<Rightarrow> pydict list \<Rightarrow> string list \<Rightarrow> pydict list" where
  "retrieve_documents query_text corpus allowed_dataset_ids =
     map (\<lambda>item. [(''artifact_id'', dget_or item ''artifact_id'' PNone),
                   (''dataset_id'', PStr (str_of item ''dataset_id'' '''')),
                   (''snippet'', PStr (take 180 (str_of item ''text'' ''''))),
                   (''citation'', dget_or item ''citation'' PNone)])
       (filter (\<lambda>item. str_of item ''dataset_id'' '''' \<in> set allowed_dataset_ids \<and>
                        contains (lower query_text) (lower (str_of item ''text'' ''''))) corpus)"

section \<open>The row filter and the masks of retrieval\<close>

text \<open>The rows of the workspace that have a dict as summary, as a map from the dataset id.\<close>

definition load_dataset_sensitivity_summaries ::
  "db \<Rightarrow> string \<Rightarrow> string list \<Rightarrow> (string \<times> pydict) list" where
  "load_dataset_sensitivity_summaries d workspace_id dataset_ids =
     map (\<lambda>r. (ds_id r, as_dict (ds_summary r)))
       (filter (\<lambda>r. ds_workspace r = workspace_id \<and> ds_id r \<in> set dataset_ids \<and>
                    is_dict (ds_summary r)) (datasets d))"

definition apply_retrieval_row_filter ::
  "pydict list \<Rightarrow> (string \<times> string) option \<Rightarrow> (string \<times> pydict) list \<Rightarrow> pydict list" where
  "apply_retrieval_row_filter results rf summaries =
     (case rf of
        None \<Rightarrow> results
      | Some (filter_key, filter_value) \<Rightarrow>
          filter (\<lambda>row.
            let summary = dget_or summaries (str_of row ''dataset_id'' '''') [];
                candidate = dget_or summary filter_key PNone
            in candidate \<noteq> PNone \<and> py_str candidate = filter_value) results)"

definition mask_mode :: "(string \<times> string) list \<Rightarrow> string \<Rightarrow> string" where
  "mask_mode masks k = dget_or masks k []"

definition mask_snippet :: "(string \<Rightarrow> string) \<Rightarrow> (string \<times> string) list \<Rightarrow> string \<Rightarrow> string" where
  "mask_snippet sha masks snippet0 =
     (let email_mode = mask_mode masks ''email''; snippet_mode = mask_mode masks ''snippet'';
          snippet = (if snippet0 \<noteq> [] \<and> email_mode \<noteq> []
                     then mask_email_tokens sha email_mode snippet0 else snippet0)
      in if snippet \<noteq> [] \<and> snippet_mode \<noteq> []
         then py_str (apply_mask sha (PStr snippet) snippet_mode) else snippet)"

definition apply_retrieval_masks ::
  "(string \<Rightarrow> string) \<Rightarrow> pydict list \<Rightarrow> (string \<times> string) list \<Rightarrow> pydict list" where
  "apply_retrieval_masks sha results masks =
     (if masks = [] then results
      else map (\<lambda>row. dset row ''snippet'' (PStr (mask_snippet sha masks (str_of row ''snippet'' ''''))))
             results)"

section \<open>Lemmas\<close>

lemma retrieve_documents_allowed:
  "r \<in> set (retrieve_documents q corpus allowed) \<Longrightarrow> str_of r ''dataset_id'' '''' \<in> set allowed"
  by (auto simp: retrieve_documents_def dget_or_def)

lemma apply_retrieval_masks_dataset:
  "r' \<in> set (apply_retrieval_masks sha results masks) \<Longrightarrow>
     \<exists>r \<in> set results. str_of r' ''dataset_id'' '''' = str_of r ''dataset_id'' ''''"
  by (auto simp: apply_retrieval_masks_def split: if_split_asm)

lemma apply_retrieval_row_filter_subset:
  "set (apply_retrieval_row_filter results rf summaries) \<subseteq> set results"
  by (auto simp: apply_retrieval_row_filter_def split: option.split)

lemma retrieval_row_filter_match:
  "r \<in> set (apply_retrieval_row_filter results (Some (k, v)) summaries) \<Longrightarrow>
     \<exists>summary c. dget summaries (str_of r ''dataset_id'' '''') = Some summary \<and>
       dget summary k = Some c \<and> py_str c = v"
  by (auto simp: apply_retrieval_row_filter_def Let_def dget_or_def dget_def split: option.split_asm)

lemma clean_set_ok [simp]:
  "set (clean_set xs) = set xs - {[]}" "sorted (clean_set xs)" "distinct (clean_set xs)"
  by (auto simp: clean_set_def)

lemma provenance_payload:
  assumes "build_provenance_v1 a = Inr p"
  shows "dget p ''workspace_id'' = Some (PStr (pv_workspace a)) \<and> strip (pv_workspace a) \<noteq> [] \<and>
    dget p ''policy_decision_id'' = Some (PStr (pv_decision_id a)) \<and> strip (pv_decision_id a) \<noteq> [] \<and>
    dget p ''query_id'' = Some (PStr (pv_query_id a)) \<and> strip (pv_query_id a) \<noteq> [] \<and>
    dget p ''build_id'' = Some (PStr (pv_build_id a)) \<and> strip (pv_build_id a) \<noteq> [] \<and>
    dget p ''datasets_used'' = Some (PList (map PStr (clean_set (pv_datasets a)))) \<and>
    dget p ''applied_filters'' = Some (PDict (pv_filters a)) \<and>
    dget p ''applied_masks'' = Some (PDict (pv_masks a)) \<and>
    dget p ''decision_reason'' = Some (PStr (pv_reason a))"
  using assms
  by (auto simp: build_provenance_v1_def Let_def rbind_eq_Inr_iff validate_provenance_v1_def
      REQUIRED_PROVENANCE_FIELDS_def dget_def split: if_split_asm)

lemma retrieval_snippet_bounded:
  "r \<in> set (retrieve_documents q corpus allowed) \<Longrightarrow> length (str_of r ''snippet'' '''') \<le> 180"
  by (auto simp: retrieve_documents_def dget_or_def)

end
