(* ===== verification/SearchBackends.thy ===== *)
theory SearchBackends
  imports Provenance
begin

text \<open>
  The search adapters of the gateway (\<open>backend/gateway/retrieval_opensearch.py\<close>,
  \<open>retrieval_qdrant.py\<close>). The HTTP exchange is the argument \<open>fetch\<close>: from the URL, the payload
  and the timeout to the JSON text of the response, or to the exception of the client. Whatever
  the index answers, only rows of allowed datasets leave the adapters.
\<close>

definition capped_results :: "int \<Rightarrow> int" where
  "capped_results max_results = max 1 (min max_results 200)"

text \<open>The row made of the payload or source of a hit, if it is kept.\<close>

fun search_row :: "string list \<Rightarrow> pyval \<Rightarrow> pydict option" where
  "search_row allowed (PDict source) =
     (let dataset_id = strip (str_of source ''dataset_id'' '''');
          artifact_id = strip (str_of source ''artifact_id'' '''')
      in if dataset_id \<notin> set allowed \<or> artifact_id = [] then None
         else Some [(''artifact_id'', PStr artifact_id), (''dataset_id'', PStr dataset_id),
                    (''snippet'', PStr (take 180 (str_of source ''text'' ''''))),
                    (''citation'', PStr (str_of source ''citation'' (''artifact:'' @ artifact_id)))])"
| "search_row allowed _ = None"

definition rstrip_slash :: "string \<Rightarrow> string" where
  "rstrip_slash s = rev (dropWhile (\<lambda>c. c = CHR ''/'') (rev s))"

fun request_search :: "string \<Rightarrow> exn + json_text \<Rightarrow> pydict res" where
  "request_search name (Inl (OSError _)) = Inl (BackendUnavailable (name @ ''_unavailable''))"
| "request_search name (Inl TimeoutError) = Inl (BackendUnavailable (name @ ''_unavailable''))"
| "request_search name (Inl e) = Inl e"
| "request_search name (Inr (Some (PDict d))) = Inr d"
| "request_search name (Inr _) = Inl (BackendUnavailable (name @ ''_invalid_response''))"

section \<open>OpenSearch\<close>

definition opensearch_payload :: "string \<Rightarrow> string \<Rightarrow> string list \<Rightarrow> int \<Rightarrow> pydict" where
  "opensearch_payload query_text workspace_id allowed max_results =
     [(''size'', PInt (capped_results max_results)),
      (''_source'', PList (map PStr [''artifact_id'', ''dataset_id'', ''text'', ''citation''])),
      (''query'', PDict [(''bool'', PDict
        [(''must'', PList [PDict [(''match'', PDict [(''text'', PDict [(''query'', PStr query_text)])])]]),
         (''filter'', PList
           [PDict [(''term'', PDict [(''workspace_id'', PStr workspace_id)])],
            PDict [(''terms'', PDict [(''dataset_id'', PList (map PStr (sorted_set allowed)))])]])])])]"

definition opensearch_url :: "string \<Rightarrow> string \<Rightarrow> string" where
  "opensearch_url base_url index_name = rstrip_slash base_url @ ''/'' @ strip index_name @ ''/_search''"

definition extract_hits :: "pydict \<Rightarrow> pydict list" where
  "extract_hits response =
     map as_dict (filter is_dict
       (as_list (dget_or (as_dict (dget_or response ''hits'' (PDict []))) ''hits'' (PList []))))"

definition search_opensearch_documents ::
  "(string \<Rightarrow> pydict \<Rightarrow> int \<Rightarrow> exn + json_text) \<Rightarrow> string \<Rightarrow> string \<Rightarrow> string list \<Rightarrow> string \<Rightarrow>
   string \<Rightarrow> int \<Rightarrow> int \<Rightarrow> pydict list res" where
  "search_opensearch_documents fetch query_text workspace_id allowed base_url index_name
       timeout_ms max_results =
     (if strip query_text = [] \<or> allowed = [] then Inr []
      else rbind (request_search ''opensearch''
               (fetch (opensearch_url base_url index_name)
                  (opensearch_payload query_text workspace_id allowed max_results) timeout_ms))
             (\<lambda>response. Inr (List.map_filter
                (\<lambda>hit. search_row allowed (dget_or hit ''_source'' (PDict [])))
                (extract_hits response))))"

section \<open>Qdrant\<close>

definition qdrant_payload :: "pyval list \<Rightarrow> string \<Rightarrow> string list \<Rightarrow> int \<Rightarrow> pydict" where
  "qdrant_payload query_vector workspace_id allowed max_results =
     [(''vector'', PList query_vector), (''limit'', PInt (capped_results max_results)),
      (''with_payload'', PBool True),
      (''filter'', PDict [(''must'', PList
        [PDict [(''key'', PStr ''workspace_id''), (''match'', PDict [(''value'', PStr workspace_id)])],
         PDict [(''key'', PStr ''dataset_id''),
                (''match'', PDict [(''any'', PList (map PStr (sorted_set allowed)))])]])])]"

definition qdrant_url :: "string \<Rightarrow> string \<Rightarrow> string" where
  "qdrant_url base_url collection_name =
     rstrip_slash base_url @ ''/collections/'' @ strip collection_name @ ''/points/search''"

definition extract_points :: "pydict \<Rightarrow> pydict list" where
  "extract_points response =
     map as_dict (filter is_dict (as_list (dget_or response ''result'' (PList []))))"

definition search_qdrant_documents ::
  "(string \<Rightarrow> pydict \<Rightarrow> int \<Rightarrow> exn + json_text) \<Rightarrow> pyval list \<Rightarrow> string \<Rightarrow> string list \<Rightarrow> string \<Rightarrow>
   string \<Rightarrow> int \<Rightarrow> int \<Rightarrow> pydict list res" where
  "search_qdrant_documents fetch query_vector workspace_id allowed base_url collection_name
       timeout_ms max_results =
     (if query_vector = [] \<or> allowed = [] then Inr []
      else rbind (request_search ''qdrant''
               (fetch (qdrant_url base_url collection_name)
                  (qdrant_payload query_vector workspace_id allowed max_results) timeout_ms))
             (\<lambda>response. Inr (List.map_filter
                (\<lambda>point. search_row allowed (dget_or point ''payload'' (PDict [])))
                (extract_points response))))"

section \<open>Only allowed datasets\<close>

definition rows_allowed :: "string list \<Rightarrow> pydict list \<Rightarrow> bool" where
  "rows_allowed allowed rs \<longleftrightarrow> (\<forall>r \<in> set rs. str_of r ''dataset_id'' '''' \<in> set allowed)"

lemma search_row_allowed:
  "search_row allowed v = Some r \<Longrightarrow> str_of r ''dataset_id'' '''' \<in> set allowed"
  by (cases v) (auto simp: Let_def dget_or_def split: if_split_asm)

lemma rows_allowed_Nil [simp]: "rows_allowed allowed []"
  by (simp add: rows_allowed_def)

lemma map_filter_rows_allowed:
  "rows_allowed allowed (List.map_filter (\<lambda>x. search_row allowed (f x)) xs)"
  by (auto simp: rows_allowed_def List.map_filter_def search_row_allowed)

lemma opensearch_rows_allowed:
  "search_opensearch_documents fetch q w allowed u i t n = Inr rs \<Longrightarrow> rows_allowed allowed rs"
  by (auto simp: search_opensearch_documents_def rbind_eq_Inr_iff map_filter_rows_allowed
      split: if_split_asm)

lemma qdrant_rows_allowed:
  "search_qdrant_documents fetch v w allowed u c t n = Inr rs \<Longrightarrow> rows_allowed allowed rs"
  by (auto simp: search_qdrant_documents_def rbind_eq_Inr_iff map_filter_rows_allowed
      split: if_split_asm)

lemma retrieve_rows_allowed: "rows_allowed allowed (retrieve_documents q corpus allowed)"
  by (simp add: rows_allowed_def retrieve_documents_allowed)

end
