(* ===== verification/Json.thy ===== *)
theory Json
  imports Py
begin

text \<open>
  The text of \<open>json.dumps(v, sort_keys=True, separators=(",", ":"))\<close>, which the gateway uses as
  a cache key, and the fact that makes it one: the text determines the parts it was made of.
  Non-ASCII and control characters are escaped (\<open>ensure_ascii\<close>).
\<close>

section \<open>Strings\<close>

definition json_char :: "char \<Rightarrow> string" where
  "json_char c =
     (let n = code c in
      if n = 34 \<or> n = 92 then [CHR 0x5C, c]
      else if n = 10 then [CHR 0x5C, CHR ''n'']
      else if n = 13 then [CHR 0x5C, CHR ''r'']
      else if n = 9 then [CHR 0x5C, CHR ''t'']
      else if n = 12 then [CHR 0x5C, CHR ''f'']
      else if n = 8 then [CHR 0x5C, CHR ''b'']
      else if 32 \<le> n \<and> n \<le> 126 then [c]
      else [CHR 0x5C, CHR ''u'', CHR ''0'', CHR ''0'', hex_digit (n div 16), hex_digit (n mod 16)])"

definition json_str :: "string \<Rightarrow> string" where
  "json_str s = CHR 0x22 # concat (map json_char s) @ [CHR 0x22]"

definition hex_value :: "char \<Rightarrow> nat" where
  "hex_value c = (if is_digit c then code c - 48 else code c - 87)"

text \<open>Reading the characters of a JSON string up to the closing quote.\<close>

fun read_json_str :: "string \<Rightarrow> string \<times> string" where
  "read_json_str [] = ([], [])"
| "read_json_str (c # s) =
     (if code c = 34 then ([], s)
      else if code c = 92 then
        (case s of
           [] \<Rightarrow> ([], [])
         | d # s1 \<Rightarrow>
             if d = CHR ''u'' then
               (case s1 of
                  _ # _ # a # b # s2 \<Rightarrow>
                    (let (x, r) = read_json_str s2
                     in (char_of (hex_value a * 16 + hex_value b) # x, r))
                | _ \<Rightarrow> ([], []))
             else
               (let e = (if d = CHR ''n'' then CHR 0x0A else if d = CHR ''r'' then CHR 0x0D
                    else if d = CHR ''t'' then CHR 0x09 else if d = CHR ''f'' then CHR 0x0C
                    else if d = CHR ''b'' then CHR 0x08 else d);
                  (x, r) = read_json_str s1
                in (e # x, r)))
      else (let (x, r) = read_json_str s in (c # x, r)))"

lemma code_less: "code c < 256"
  by (cases c) (simp add: code_def)

lemma code_eq_iff: "code c = code d \<longleftrightarrow> c = d"
  by (simp add: code_def)

lemma char_of_code [simp]: "char_of (code c) = c"
  by (simp add: code_def)

lemma hex_value_digit: "d < 16 \<Longrightarrow> hex_value (hex_digit d) = d"
  by (cases "d < 10") (simp_all add: hex_value_def hex_digit_def is_digit_def code_def Let_def)

lemma json_char_named:
  "json_char (CHR 0x0A) = [CHR 0x5C, CHR ''n'']" "json_char (CHR 0x0D) = [CHR 0x5C, CHR ''r'']"
  "json_char (CHR 0x09) = [CHR 0x5C, CHR ''t'']" "json_char (CHR 0x0C) = [CHR 0x5C, CHR ''f'']"
  "json_char (CHR 0x08) = [CHR 0x5C, CHR ''b'']"
  "json_char (CHR 0x22) = [CHR 0x5C, CHR 0x22]" "json_char (CHR 0x5C) = [CHR 0x5C, CHR 0x5C]"
  by (simp_all add: json_char_def code_def)

lemma code_named:
  "code (CHR 0x22) = 34" "code (CHR 0x5C) = 92" "code (CHR 0x0A) = 10" "code (CHR 0x0D) = 13"
  "code (CHR 0x09) = 9" "code (CHR 0x0C) = 12" "code (CHR 0x08) = 8"
  by (simp_all add: code_def)

lemma code_cases_named:
  "code c \<in> {34, 92, 10, 13, 9, 12, 8} \<Longrightarrow>
     c \<in> {CHR 0x22, CHR 0x5C, CHR 0x0A, CHR 0x0D, CHR 0x09, CHR 0x0C, CHR 0x08}"
  by (simp only: insert_iff empty_iff code_named code_eq_iff [symmetric])

lemma backslash_code [simp]: "code (CHR 0x5C) = 92" "code (CHR 0x22) = 34"
  by (simp_all add: code_def)

lemma read_json_named:
  assumes "c \<in> {CHR 0x22, CHR 0x5C, CHR 0x0A, CHR 0x0D, CHR 0x09, CHR 0x0C, CHR 0x08}"
  shows "read_json_str (json_char c @ s) = (case read_json_str s of (x, r) \<Rightarrow> (c # x, r))"
  using assms by (elim insertE emptyE) (simp_all add: json_char_named Let_def)

lemma read_json_char:
  "read_json_str (json_char c @ s) = (case read_json_str s of (x, r) \<Rightarrow> (c # x, r))"
proof (cases "code c \<in> {34, 92, 10, 13, 9, 12, 8}")
  case True
  then show ?thesis by (intro read_json_named code_cases_named)
next
  case False
  show ?thesis
  proof (cases "32 \<le> code c \<and> code c \<le> 126")
    case True
    with False have "json_char c = [c]" by (simp add: json_char_def Let_def)
    with False show ?thesis by (simp add: Let_def)
  next
    case esc: False
    define a b where "a = hex_digit (code c div 16)" and "b = hex_digit (code c mod 16)"
    have "hex_value a * 16 + hex_value b = code c"
      using code_less [of c] by (simp add: a_def b_def hex_value_digit)
    then have ab: "char_of (hex_value a * 16 + hex_value b) = c" by simp
    have "json_char c = [CHR 0x5C, CHR ''u'', CHR ''0'', CHR ''0'', a, b]"
      using False esc by (auto simp: json_char_def Let_def a_def b_def)
    then show ?thesis by (simp only: append_Cons append_Nil) (simp add: Let_def ab)
  qed
qed

lemma read_json_str_concat:
  "read_json_str (concat (map json_char s) @ CHR 0x22 # r) = (s, r)"
proof (induction s)
  case Nil
  show ?case by simp
next
  case (Cons c s)
  then show ?case by (simp only: list.map concat.simps append_assoc read_json_char) simp
qed

lemma json_str_split: "json_str s @ r = json_str s' @ r' \<Longrightarrow> s = s' \<and> r = r'"
proof -
  assume "json_str s @ r = json_str s' @ r'"
  then have "concat (map json_char s) @ CHR 0x22 # r = concat (map json_char s') @ CHR 0x22 # r'"
    by (simp add: json_str_def)
  then have "read_json_str (concat (map json_char s) @ CHR 0x22 # r) =
      read_json_str (concat (map json_char s') @ CHR 0x22 # r')" by (rule arg_cong)
  then show ?thesis by (simp add: read_json_str_concat)
qed

lemma json_str_inject [simp]: "json_str s = json_str s' \<longleftrightarrow> s = s'"
  using json_str_split [of s "[]" s' "[]"] by auto

section \<open>Values\<close>

fun json_dumps :: "pyval \<Rightarrow> string" where
  "json_dumps PNone = ''null''"
| "json_dumps (PBool b) = (if b then ''true'' else ''false'')"
| "json_dumps (PInt i) = int_str i"
| "json_dumps (PFloat t _) =
     (if t = ''nan'' then ''NaN'' else if t = ''inf'' then ''Infinity''
      else if t = ''-inf'' then ''-Infinity'' else t)"
| "json_dumps (PStr s) = json_str s"
| "json_dumps (PList xs) = CHR ''['' # join '','' (map json_dumps xs) @ '']''"
| "json_dumps (PDict kvs) =
     CHR ''{'' # join '',''
       (map (\<lambda>p. json_str (fst p) @ CHR '':'' # snd p)
            (sort_key fst (map (\<lambda>p. (fst p, json_dumps (snd p))) kvs))) @ ''}''"

text \<open>The values the parser yields: the text of a float has no delimiter in it.\<close>

definition plain_char :: "char \<Rightarrow> bool" where
  "plain_char c \<longleftrightarrow> c \<notin> {CHR '','', CHR '']'', CHR ''}'', CHR ''['', CHR ''{'', CHR 0x22, CHR '':''}"

fun wf_json :: "pyval \<Rightarrow> bool" where
  "wf_json (PFloat t _) = (t \<noteq> [] \<and> list_all plain_char t)"
| "wf_json (PList xs) = list_all wf_json xs"
| "wf_json (PDict kvs) = list_all (\<lambda>p. wf_json (snd p)) kvs"
| "wf_json _ = True"

definition delim :: "char \<Rightarrow> bool" where
  "delim c \<longleftrightarrow> c \<in> {CHR '','', CHR '']'', CHR ''}''}"

text \<open>Two texts in front of delimiters agree only if they are the same text.\<close>

definition split_pair :: "string \<Rightarrow> string \<Rightarrow> bool" where
  "split_pair t t' \<longleftrightarrow> (\<forall>c r c' r'. delim c \<longrightarrow> delim c' \<longrightarrow> t @ c # r = t' @ c' # r' \<longrightarrow>
     t = t' \<and> c # r = c' # r')"

lemma split_pairD:
  "split_pair t t' \<Longrightarrow> delim c \<Longrightarrow> delim c' \<Longrightarrow> t @ c # r = t' @ c' # r' \<Longrightarrow>
     t = t' \<and> c = c' \<and> r = r'"
  unfolding split_pair_def by blast

lemma split_pair_plain:
  assumes "list_all plain_char t" "list_all plain_char t'"
  shows "split_pair t t'"
  unfolding split_pair_def
proof (intro allI impI)
  fix c r c' r' assume d: "delim c" "delim c'" and e: "t @ c # r = t' @ c' # r'"
  have nc: "\<not> plain_char c" "\<not> plain_char c'" using d by (auto simp: delim_def plain_char_def)
  have "takeWhile plain_char (t @ c # r) = t" "takeWhile plain_char (t' @ c' # r') = t'"
    using assms nc by (simp_all add: list_all_iff takeWhile_append2)
  with e have "t = t'" by metis
  with e show "t = t' \<and> c # r = c' # r'" by simp
qed

lemma split_pair_str: "split_pair (json_str s) (json_str s')"
  unfolding split_pair_def using json_str_split by blast

lemma split_pair_entry:
  "split_pair t t' \<Longrightarrow> split_pair (json_str k @ CHR '':'' # t) (json_str k' @ CHR '':'' # t')"
  unfolding split_pair_def append_assoc append_Cons
proof (intro allI impI)
  fix c r c' r'
  assume sp: "\<forall>c r c' r'. delim c \<longrightarrow> delim c' \<longrightarrow> t @ c # r = t' @ c' # r' \<longrightarrow>
      t = t' \<and> c # r = c' # r'" and d: "delim c" "delim c'"
    and e: "json_str k @ CHR '':'' # t @ c # r = json_str k' @ CHR '':'' # t' @ c' # r'"
  from json_str_split [OF e] have "k = k'" "t @ c # r = t' @ c' # r'" by auto
  with sp d show "json_str k @ CHR '':'' # t = json_str k' @ CHR '':'' # t' \<and> c # r = c' # r'"
    by blast
qed

lemma split_pair_hd: "t \<noteq> [] \<Longrightarrow> t' \<noteq> [] \<Longrightarrow> hd t \<noteq> hd t' \<Longrightarrow> split_pair t t'"
  unfolding split_pair_def by (metis hd_append2)

lemma join_Cons: "join sep (x # xs) = x @ (if xs = [] then [] else sep @ join sep xs)"
  by (cases xs) auto

lemma hd_join: "t \<noteq> [] \<Longrightarrow> hd (join sep (t # ts) @ x) = hd t"
  by (simp add: join_Cons)

lemma join_not_closed:
  assumes "t \<noteq> []" "\<not> delim (hd t)" "delim e"
  shows "join sep (t # ts) @ x \<noteq> e # r"
proof
  assume "join sep (t # ts) @ x = e # r"
  then have "hd (join sep (t # ts) @ x) = e" by simp
  with assms hd_join show False by metis
qed

lemma join_split:
  assumes "\<forall>t \<in> set ts. \<forall>t' \<in> set ts'. split_pair t t'" "delim e" "e \<noteq> CHR '',''"
    and "\<forall>t \<in> set ts \<union> set ts'. t \<noteq> [] \<and> \<not> delim (hd t)"
    and "join '','' ts @ e # r = join '','' ts' @ e # r'"
  shows "ts = ts' \<and> r = r'"
  using assms
proof (induction ts arbitrary: ts')
  case Nil
  show ?case
  proof (cases ts')
    case (Cons t us)
    then have "join '','' (t # us) @ e # r' = e # r" using Nil.prems(5) by simp
    then show ?thesis using join_not_closed [of t e] Nil.prems(2,4) Cons by auto
  qed (use Nil.prems in simp)
next
  case (Cons t ts)
  show ?case
  proof (cases ts')
    case Nil
    then have "join '','' (t # ts) @ e # r = e # r'" using Cons.prems(5) by simp
    then show ?thesis using join_not_closed [of t e] Cons.prems(2,4) by auto
  next
    case ts': (Cons t' us)
    have sp: "split_pair t t'" using Cons.prems(1) ts' by simp
    have comma: "delim (CHR '','')" by (simp add: delim_def)
    have eq: "t @ (if ts = [] then e # r else CHR '','' # join '','' ts @ e # r) =
        t' @ (if us = [] then e # r' else CHR '','' # join '','' us @ e # r')"
      using Cons.prems(5) by (simp add: ts' join_Cons split: if_split_asm)
    consider (both) "ts = []" "us = []" | (left) "ts = []" "us \<noteq> []"
      | (right) "ts \<noteq> []" "us = []" | (more) "ts \<noteq> []" "us \<noteq> []" by blast
    then show ?thesis
    proof cases
      case both
      with eq split_pairD [OF sp Cons.prems(2,2)] show ?thesis by (simp add: ts')
    next
      case left
      with eq split_pairD [OF sp Cons.prems(2) comma] Cons.prems(3) show ?thesis by auto
    next
      case right
      with eq split_pairD [OF sp comma Cons.prems(2)] Cons.prems(3) show ?thesis by auto
    next
      case more
      with eq split_pairD [OF sp comma comma] have
        "t = t'" "join '','' ts @ e # r = join '','' us @ e # r'" by auto
      moreover from this have "ts = us \<and> r = r'"
        by (intro Cons.IH) (use Cons.prems ts' in auto)
      ultimately show ?thesis by (simp add: ts')
    qed
  qed
qed

lemma split_pair_bracket:
  assumes "\<forall>t \<in> set ts. \<forall>t' \<in> set ts'. split_pair t t'" "delim e" "e \<noteq> CHR '',''"
    and "\<forall>t \<in> set ts \<union> set ts'. t \<noteq> [] \<and> \<not> delim (hd t)"
  shows "split_pair (b # join '','' ts @ [e]) (b # join '','' ts' @ [e])"
  unfolding split_pair_def
proof (intro allI impI)
  fix c r c' r'
  assume "(b # join '','' ts @ [e]) @ c # r = (b # join '','' ts' @ [e]) @ c' # r'"
  then have "join '','' ts @ e # c # r = join '','' ts' @ e # c' # r'" by simp
  from join_split [OF assms this]
  show "b # join '','' ts @ [e] = b # join '','' ts' @ [e] \<and> c # r = c' # r'" by simp
qed

fun is_literal :: "pyval \<Rightarrow> bool" where
  "is_literal (PStr _) = False"
| "is_literal (PList _) = False"
| "is_literal (PDict _) = False"
| "is_literal _ = True"

lemma nat_digits_plain: "list_all plain_char (nat_digits n)"
proof (induction n rule: nat_digits.induct)
  case (1 n)
  have d: "plain_char (char_of (48 + k))" if "k < 10" for k :: nat
  proof -
    have "code (char_of (48 + k)) = 48 + k" using that by (simp add: code_def)
    moreover have "\<not> plain_char c \<Longrightarrow> code c \<in> {44, 93, 125, 91, 123, 34, 58}" for c
      by (auto simp: plain_char_def code_def)
    ultimately show ?thesis using that by fastforce
  qed
  show ?case using 1 d by (subst nat_digits.simps) simp
qed

lemma nat_digits_nonempty [simp]: "nat_digits n \<noteq> []"
  by (subst nat_digits.simps) simp

lemma literal_plain:
  "is_literal v \<Longrightarrow> wf_json v \<Longrightarrow> list_all plain_char (json_dumps v) \<and> json_dumps v \<noteq> []"
  by (cases v) (auto simp: int_str_def nat_digits_plain plain_char_def)

lemma json_hd:
  assumes "wf_json v"
  shows "json_dumps v \<noteq> [] \<and> (is_literal v \<longrightarrow> plain_char (hd (json_dumps v))) \<and>
    (is_str v \<longrightarrow> hd (json_dumps v) = CHR 0x22) \<and>
    (is_list v \<longrightarrow> hd (json_dumps v) = CHR ''['') \<and> (is_dict v \<longrightarrow> hd (json_dumps v) = CHR ''{'')"
proof (cases "is_literal v")
  case True
  from literal_plain [OF this assms] have "json_dumps v \<noteq> []" "plain_char (hd (json_dumps v))"
    by (auto simp: list_all_iff)
  with True show ?thesis by (cases v) auto
next
  case False
  then show ?thesis by (cases v) (auto simp: json_str_def)
qed

lemma json_hd_not_delim: "wf_json v \<Longrightarrow> \<not> delim (hd (json_dumps v))"
  using json_hd [of v] by (cases v) (auto simp: delim_def plain_char_def)

definition json_entries :: "pydict \<Rightarrow> (string \<times> string) list" where
  "json_entries kvs = sort_key fst (map (\<lambda>p. (fst p, json_dumps (snd p))) kvs)"

definition entry_text :: "string \<times> string \<Rightarrow> string" where
  "entry_text p = json_str (fst p) @ CHR '':'' # snd p"

lemma json_dumps_dict:
  "json_dumps (PDict kvs) = CHR ''{'' # join '','' (map entry_text (json_entries kvs)) @ ''}''"
  by (simp add: json_entries_def entry_text_def [abs_def])

lemma json_str_hd: "\<not> delim (hd (json_str k @ x))"
  by (simp add: json_str_def delim_def)

lemma entry_text_hd: "entry_text p \<noteq> [] \<and> \<not> delim (hd (entry_text p))"
  by (simp add: entry_text_def json_str_def delim_def)

lemma set_json_entries: "set (json_entries kvs) = (\<lambda>p. (fst p, json_dumps (snd p))) ` set kvs"
  by (simp add: json_entries_def)

lemma entry_text_inject: "split_pair (snd p) (snd q) \<Longrightarrow> entry_text p = entry_text q \<longleftrightarrow> p = q"
  using json_str_split [of "fst p" "CHR '':'' # snd p" "fst q" "CHR '':'' # snd q"]
  by (auto simp: entry_text_def prod_eq_iff)

lemma split_pair_literal:
  assumes "is_literal v" "wf_json v" "wf_json v'"
  shows "split_pair (json_dumps v) (json_dumps v')"
proof (cases "is_literal v'")
  case True
  with assms literal_plain show ?thesis by (intro split_pair_plain) blast+
next
  case False
  have "plain_char (hd (json_dumps v))" using assms(1) json_hd [OF assms(2)] by blast
  moreover have "\<not> plain_char (hd (json_dumps v'))"
    using False json_hd [OF assms(3)] by (cases v') (auto simp: plain_char_def)
  ultimately have "hd (json_dumps v) \<noteq> hd (json_dumps v')" by metis
  with json_hd [OF assms(2)] json_hd [OF assms(3)] show ?thesis by (intro split_pair_hd) blast+
qed

lemma wf_entry: "wf_json (PDict kvs) \<Longrightarrow> (k, v) \<in> set kvs \<Longrightarrow> wf_json v"
  by (auto simp: list_all_iff)

lemma json_split_pair_iff:
  "wf_json v \<Longrightarrow> wf_json v' \<Longrightarrow> split_pair (json_dumps v) (json_dumps v')"
proof (induction v arbitrary: v')
  case (PStr s)
  show ?case
  proof (cases "is_str v'")
    case True
    then show ?thesis by (cases v') (simp_all add: split_pair_str)
  next
    case False
    then have "hd (json_dumps v') \<noteq> CHR 0x22"
      using json_hd [OF PStr.prems(2)] by (cases v') (auto simp: plain_char_def)
    with json_hd [OF PStr.prems(1)] json_hd [OF PStr.prems(2)] show ?thesis
      by (intro split_pair_hd) auto
  qed
next
  case (PList xs)
  show ?case
  proof (cases "is_list v'")
    case True
    then obtain ys where v': "v' = PList ys" by (cases v') auto
    have "split_pair (CHR ''['' # join '','' (map json_dumps xs) @ [CHR '']''])
        (CHR ''['' # join '','' (map json_dumps ys) @ [CHR '']''])"
      by (rule split_pair_bracket)
        (use PList v' json_hd json_hd_not_delim in \<open>auto simp: delim_def [of "CHR '']''"] list_all_iff\<close>)
    then show ?thesis by (simp add: v')
  next
    case False
    then have "hd (json_dumps v') \<noteq> CHR ''[''"
      using json_hd [OF PList.prems(2)] by (cases v') (auto simp: plain_char_def)
    with json_hd [OF PList.prems(1)] json_hd [OF PList.prems(2)] show ?thesis
      by (intro split_pair_hd) auto
  qed
next
  case (PDict kvs)
  show ?case
  proof (cases "is_dict v'")
    case True
    then obtain kvs' where v': "v' = PDict kvs'" by (cases v') auto
    have el: "split_pair (json_dumps (snd p)) (json_dumps (snd q))"
      if "p \<in> set kvs" "q \<in> set kvs'" for p q
      using PDict.IH [of p "snd p" "snd q"] PDict.prems that v'
      by (cases p) (auto simp: list_all_iff)
    have "split_pair (CHR ''{'' # join '','' (map entry_text (json_entries kvs)) @ [CHR ''}''])
        (CHR ''{'' # join '','' (map entry_text (json_entries kvs')) @ [CHR ''}''])"
      by (rule split_pair_bracket)
        (auto simp: delim_def [of "CHR ''}''"] set_json_entries entry_text_def json_str_hd
          intro!: split_pair_entry el)
    then show ?thesis by (simp only: v' json_dumps_dict)
  next
    case False
    then have "hd (json_dumps v') \<noteq> CHR ''{''"
      using json_hd [OF PDict.prems(2)] by (cases v') (auto simp: plain_char_def)
    with json_hd [OF PDict.prems(1)] json_hd [OF PDict.prems(2)] show ?thesis
      by (intro split_pair_hd) auto
  qed
qed (intro split_pair_literal, simp, assumption, assumption)+

section \<open>What equal texts have in common\<close>

lemma json_entries_eq:
  assumes "wf_json (PDict kvs)" "wf_json (PDict kvs')"
    and "json_dumps (PDict kvs) = json_dumps (PDict kvs')"
  shows "json_entries kvs = json_entries kvs'"
proof -
  have sp: "split_pair (snd p) (snd q)" if "p \<in> set (json_entries kvs)" "q \<in> set (json_entries kvs')" for p q
    using that wf_entry [OF assms(1)] wf_entry [OF assms(2)]
    by (auto simp: set_json_entries intro!: json_split_pair_iff)
  have "join '','' (map entry_text (json_entries kvs)) @ CHR ''}'' # [] =
      join '','' (map entry_text (json_entries kvs')) @ CHR ''}'' # []"
    using assms(3) by (simp only: json_dumps_dict) simp
  then have "map entry_text (json_entries kvs) = map entry_text (json_entries kvs')"
    by (rule join_split [THEN conjunct1, rotated 4])
      (use sp in \<open>auto simp: delim_def [of "CHR ''}''"] entry_text_hd,
        auto simp: entry_text_def json_str_hd intro!: split_pair_entry dest: sp\<close>)
  then show ?thesis
    by (rule list.inj_map_strong [rotated]) (use sp entry_text_inject in blast)
qed

lemma json_dict_field:
  assumes "wf_json (PDict kvs)" "wf_json (PDict kvs')"
    and "json_dumps (PDict kvs) = json_dumps (PDict kvs')"
    and "distinct (dkeys kvs)" "distinct (dkeys kvs')"
    and "dget kvs k = Some v" "dget kvs' k = Some v'"
  shows "json_dumps v = json_dumps v'"
proof -
  have "(k, v) \<in> set kvs" "(k, v') \<in> set kvs'"
    using assms(6,7) by (auto simp: dget_def dest: map_of_SomeD)
  then have "(k, json_dumps v) \<in> set (json_entries kvs)" "(k, json_dumps v') \<in> set (json_entries kvs')"
    by (force simp: set_json_entries)+
  with json_entries_eq [OF assms(1-3)] have
    m: "(k, json_dumps v) \<in> set (json_entries kvs')" "(k, json_dumps v') \<in> set (json_entries kvs')"
    by simp_all
  have "inj_on fst (set kvs')" using assms(5) by (simp add: dkeys_def distinct_map)
  then have "inj_on fst (set (json_entries kvs'))"
    by (auto simp: set_json_entries inj_on_def)
  with m show ?thesis by (metis fst_conv inj_onD prod.inject)
qed

lemma nat_digits_value:
  "foldl (\<lambda>a c. a * 10 + (code c - 48)) 0 (nat_digits n) = n"
proof (induction n rule: nat_digits.induct)
  case (1 n)
  have c: "code (char_of (48 + k)) = 48 + k" if "k < 10" for k :: nat
    using that by (simp add: code_def)
  show ?case
    using 1 c [of n] c [of "n mod 10"] by (subst nat_digits.simps) (simp add: mod_less_divisor)
qed

lemma nat_digits_inject [simp]: "nat_digits n = nat_digits m \<longleftrightarrow> n = m"
  using nat_digits_value by metis

lemma nat_digits_no_minus: "nat_digits n \<noteq> CHR ''-'' # s"
proof
  assume e: "nat_digits n = CHR ''-'' # s"
  have "is_digit (hd (nat_digits n))"
  proof (induction n rule: nat_digits.induct)
    case (1 n)
    then show ?case
      by (subst nat_digits.simps) (simp add: is_digit_def code_def Let_def)
  qed
  with e show False by (simp add: is_digit_def code_def)
qed

lemma int_str_inject [simp]: "int_str i = int_str j \<longleftrightarrow> i = j"
  using nat_digits_no_minus by (auto simp: int_str_def) (metis nat_digits_no_minus)+

lemma json_str_list_inject [simp]:
  "json_dumps (PList (map PStr xs)) = json_dumps (PList (map PStr ys)) \<longleftrightarrow> xs = ys"
proof
  assume "json_dumps (PList (map PStr xs)) = json_dumps (PList (map PStr ys))"
  then have "join '','' (map json_str xs) @ CHR '']'' # [] = join '','' (map json_str ys) @ CHR '']'' # []"
    by (simp add: comp_def)
  then have "map json_str xs = map json_str ys"
    by (rule join_split [THEN conjunct1, rotated 4])
      (auto simp: delim_def [of "CHR '']''"] split_pair_str, auto simp: json_str_def delim_def)
  then show "xs = ys" by (rule list.inj_map_strong [rotated]) simp
qed simp

end
