(* ===== verification/Gateway.thy ===== *)
theory Gateway
  imports RateLimit QueryCache SqlExecutor SemanticBinding AuditOutbox SearchBackends Json
begin

text \<open>
  State and shared operations of the query gateway (\<open>backend/gateway/app.py\<close>): the settings,
  the environment (what is outside the program: databases of rows, engines, search indexes,
  clocks, hash functions), the mutable state, and the helpers every handler uses. The central
  one is \<open>record_access_decision\<close>: audit event, access decision and outbox row in one
  transaction, and a denial when that transaction fails.
\<close>

section \<open>Settings, environment, state\<close>

record gw_settings =
  set_storage_root :: string
  set_query_engine :: string
  set_query_max_bytes :: int
  set_retrieval_max_bytes :: int
  set_retrieval_backend :: string
  set_opensearch_enabled :: bool
  set_opensearch_url :: string
  set_opensearch_index :: string
  set_opensearch_timeout_ms :: int
  set_qdrant_enabled :: bool
  set_qdrant_url :: string
  set_qdrant_collection :: string
  set_qdrant_timeout_ms :: int
  set_sink_inline :: bool
  set_sink :: audit_sink

text \<open>
  What one request meets outside the program: \<open>fresh n\<close> is the \<open>n\<close>-th identifier issued,
  \<open>commit_fault\<close> the exception of the database at the commit of this request, if any.
\<close>

record gw_env =
  env_exec :: exec_env
  env_sha :: "string \<Rightarrow> string"
  env_checksum :: "manifest \<Rightarrow> string"
  fresh :: "nat \<Rightarrow> string"
  commit_fault :: "exn option"
  sink_write :: "string \<Rightarrow> pydict \<Rightarrow> exn option"
  sink_post :: "string \<Rightarrow> pydict \<Rightarrow> exn option"
  search_fetch :: "string \<Rightarrow> pydict \<Rightarrow> int \<Rightarrow> exn + json_text"
  embed :: "string \<Rightarrow> pyval list res"
  documents :: "string \<Rightarrow> (json_text \<times> json_text option) list"
  now_ticks :: int
  now_seconds :: int

datatype metric =
    PolicyDenial string string
  | QueryLatency string string string
  | CostBytesScanned string string int
  | QueryCacheMetric string string
  | AuditWriteFailure string string

record cached_rows =
  cr_columns :: "column list"
  cr_rows :: "row list"

record gateway =
  gw_db :: db
  gw_limiter :: limiter
  gw_cache :: "cached_rows query_cache"
  gw_metrics :: "metric list"
  gw_taken :: "pydict list"
  gw_next_id :: nat

type_synonym 'a action = "gateway \<Rightarrow> 'a res \<times> gateway"

definition abind :: "'a action \<Rightarrow> ('a \<Rightarrow> 'b action) \<Rightarrow> 'b action" where
  "abind m f g = (case m g of (Inl e, g') \<Rightarrow> (Inl e, g') | (Inr x, g') \<Rightarrow> f x g')"

definition raise :: "exn \<Rightarrow> 'a action" where
  "raise e g = (Inl e, g)"

definition pass :: "'a \<Rightarrow> 'a action" where
  "pass x g = (Inr x, g)"

definition new_id :: "gw_env \<Rightarrow> gateway \<Rightarrow> string \<times> gateway" where
  "new_id env g = (fresh env (gw_next_id g), g\<lparr>gw_next_id := Suc (gw_next_id g)\<rparr>)"

definition add_metrics :: "metric list \<Rightarrow> gateway \<Rightarrow> gateway" where
  "add_metrics ms g = g\<lparr>gw_metrics := gw_metrics g @ ms\<rparr>"

section \<open>Recording a decision\<close>

record decision_args =
  da_workspace_id :: string
  da_actor :: string
  da_result :: string
  da_why :: string
  da_context :: pydict
  da_resources :: pydict
  da_filters :: pydict
  da_masks :: "(string \<times> string) list"
  da_decision_id :: string
  da_event_type :: string
  da_correlation :: string

definition masks_dict :: "(string \<times> string) list \<Rightarrow> pydict" where
  "masks_dict masks = map (\<lambda>p. (fst p, PStr (snd p))) masks"

definition serialize_row_filter :: "(string \<times> string) option \<Rightarrow> pydict" where
  "serialize_row_filter rf =
     (case rf of None \<Rightarrow> []
      | Some (c, v) \<Rightarrow> [(''row_filter'', PDict [(''column'', PStr c), (''value'', PStr v)])])"

definition decision_event :: "decision_args \<Rightarrow> string \<Rightarrow> audit_event" where
  "decision_event a event_id =
     \<lparr>ae_id = event_id, ae_workspace = Some (da_workspace_id a), ae_actor = da_actor a,
      ae_type = da_event_type a, ae_json = [(''reason'', PStr (da_why a))],
      ae_correlation = da_correlation a\<rparr>"

definition decision_row :: "decision_args \<Rightarrow> string \<Rightarrow> access_decision_row" where
  "decision_row a event_id =
     \<lparr>ad_id = da_decision_id a, ad_workspace = da_workspace_id a, ad_actor = da_actor a,
      ad_request_context = da_context a, ad_resources = da_resources a,
      ad_row_result = da_result a, ad_filters = da_filters a,
      ad_masks = masks_dict (da_masks a), ad_audit_event = event_id\<rparr>"

definition decision_payload :: "decision_args \<Rightarrow> string \<Rightarrow> pydict" where
  "decision_payload a event_id =
     [(''audit_event_id'', PStr event_id), (''workspace_id'', PStr (da_workspace_id a)),
      (''actor_id'', PStr (da_actor a)), (''event_type'', PStr (da_event_type a)),
      (''event_json'', PDict [(''reason'', PStr (da_why a))]),
      (''correlation_id'', PStr (da_correlation a)), (''decision_id'', PStr (da_decision_id a)),
      (''result'', PStr (da_result a)), (''reason'', PStr (da_why a))]"

definition insert_decision :: "decision_args \<Rightarrow> string \<Rightarrow> db \<Rightarrow> db res" where
  "insert_decision a event_id d =
     rbind (tbl_add ae_id (decision_event a event_id) (audit_events d)) (\<lambda>events.
     rbind (tbl_add ad_id (decision_row a event_id) (access_decisions d)) (\<lambda>decisions.
     Inr (d\<lparr>audit_events := events, access_decisions := decisions\<rparr>)))"

definition commit :: "gw_env \<Rightarrow> db res \<Rightarrow> db res" where
  "commit env r = rbind r (\<lambda>d. case commit_fault env of None \<Rightarrow> Inr d | Some e \<Rightarrow> Inl e)"

definition audit_denied :: "decision_args \<Rightarrow> exn \<Rightarrow> unit action" where
  "audit_denied a e g =
     (case e of
        AuditSinkError _ \<Rightarrow>
          (Inl (PolicyDeniedError ''Access denied by policy''
              [(''reason'', PStr ''audit_sink_unavailable''), (''operation'', PStr (da_event_type a))]),
           add_metrics [AuditWriteFailure (da_workspace_id a) (da_event_type a @ '':audit_sink'')] g)
      | _ \<Rightarrow>
          (Inl (PolicyDeniedError ''Access denied by policy''
              [(''reason'', PStr ''audit_unavailable''), (''operation'', PStr (da_event_type a))]),
           add_metrics [AuditWriteFailure (da_workspace_id a) (da_event_type a)] g))"

text \<open>
  In inline mode the sink takes the event before the rows are flushed; in outbox mode the event
  becomes a row of the same transaction. Every failure rolls back and denies.
\<close>

definition record_access_decision :: "gw_settings \<Rightarrow> gw_env \<Rightarrow> decision_args \<Rightarrow> unit action" where
  "record_access_decision cfg env a g0 =
     (let (event_id, g1) = new_id env g0;
          payload = decision_payload a event_id
      in if set_sink_inline cfg then
           (case emit_audit (sink_write env) (sink_post env) (set_sink cfg) (gw_taken g1) payload of
              (Inl e, taken) \<Rightarrow> audit_denied a e (g1\<lparr>gw_taken := taken\<rparr>)
            | (Inr _, taken) \<Rightarrow>
                (case commit env (insert_decision a event_id (gw_db g1)) of
                   Inl e \<Rightarrow> audit_denied a e (g1\<lparr>gw_taken := taken\<rparr>)
                 | Inr d \<Rightarrow> (Inr (), g1\<lparr>gw_taken := taken, gw_db := d\<rparr>)))
         else
           (let (outbox_id, g2) = new_id env g1
            in case commit env (rbind (insert_decision a event_id (gw_db g2))
                      (enqueue_audit_outbox_event outbox_id ''gateway'' (Some (da_workspace_id a))
                         event_id payload)) of
                 Inl e \<Rightarrow> audit_denied a e g2
               | Inr d \<Rightarrow> (Inr (), g2\<lparr>gw_db := d\<rparr>)))"

text \<open>Record a denial, count it, raise: the block that every guard of the handlers ends in.\<close>

definition denial_error :: "string \<Rightarrow> decision_args \<Rightarrow> pydict \<Rightarrow> exn" where
  "denial_error message a extra =
     PolicyDeniedError message
       ([(''reason'', PStr (da_why a)), (''policy_decision_id'', PStr (da_decision_id a))] @ extra)"

definition deny ::
  "gw_settings \<Rightarrow> gw_env \<Rightarrow> metric list \<Rightarrow> string \<Rightarrow> pydict \<Rightarrow> decision_args \<Rightarrow> 'a action" where
  "deny cfg env latency message extra a =
     abind (record_access_decision cfg env a) (\<lambda>_ g.
       (Inl (denial_error message a extra),
        add_metrics (PolicyDenial (da_workspace_id a) (da_why a) # latency) g))"

section \<open>Lookups\<close>

definition request_context_of :: "pydict \<Rightarrow> pydict" where
  "request_context_of payload = filter (\<lambda>p. fst p \<notin> set [''actor'', ''corpus'']) payload"

definition dataset_belongs_to_other_workspace :: "db \<Rightarrow> string \<Rightarrow> string \<Rightarrow> bool" where
  "dataset_belongs_to_other_workspace d workspace_id dataset_id =
     (case tbl_get ds_id dataset_id (datasets d) of
        None \<Rightarrow> False
      | Some r \<Rightarrow> ds_workspace r \<noteq> workspace_id)"

text \<open>\<open>int(raw) if isinstance(raw, (int, float, str)) else default\<close>\<close>

fun int_or :: "pyval \<Rightarrow> int \<Rightarrow> int res" where
  "int_or PNone dflt = Inr dflt"
| "int_or (PList _) dflt = Inr dflt"
| "int_or (PDict _) dflt = Inr dflt"
| "int_or v dflt = py_int v"

definition load_effective_policy_pack :: "db \<Rightarrow> string \<Rightarrow> pydict option res" where
  "load_effective_policy_pack d workspace_id =
     (case tbl_first (\<lambda>r. gp_workspace r = workspace_id \<and> gp_type r = ''policy_pack'' \<and>
                          gp_status r = ''active'') (policies d) of
        None \<Rightarrow> Inr None
      | Some row \<Rightarrow>
          (case gp_definition row of
             Some (PDict payload) \<Rightarrow>
               rbind (int_or (dget_or payload ''version'' (PInt 0)) 0) (\<lambda>version.
               let pack_id = strip (str_of payload ''pack_id'' '''')
               in Inr (if pack_id = [] then None
                       else Some [(''pack_id'', PStr pack_id), (''version'', PInt version)]))
           | _ \<Rightarrow> Inr None))"

text \<open>The gold pointer enters the key, so a new publication is a new key.\<close>

definition build_query_cache_key ::
  "gold_store \<Rightarrow> string \<Rightarrow> string \<Rightarrow> pyval \<Rightarrow> pydict \<Rightarrow> string \<Rightarrow> string list \<Rightarrow>
   (string \<times> string) option \<Rightarrow> (string \<times> string) list \<Rightarrow> int \<Rightarrow> int \<Rightarrow> string \<Rightarrow> pydict option \<Rightarrow>
   string res" where
  "build_query_cache_key store workspace_id actor_id actor_roles actor_attributes query_text
       datasets_used rf masks max_rows timeout_ms query_engine policy_pack =
     rbind (load_latest_gold_pointer store workspace_id) (\<lambda>pointer_opt.
       let pointer = (case pointer_opt of None \<Rightarrow> [] | Some p \<Rightarrow> p)
       in Inr (json_dumps (PDict
         [(''workspace_id'', PStr workspace_id), (''actor_id'', PStr actor_id),
          (''actor_roles'', PList (as_list actor_roles)),
          (''actor_attributes'', PDict actor_attributes), (''query_text'', PStr query_text),
          (''datasets_used'', PList (map PStr (sort datasets_used))),
          (''row_filter'', PDict (serialize_row_filter rf)), (''masks'', PDict (masks_dict masks)),
          (''max_rows'', PInt max_rows), (''timeout_ms'', PInt timeout_ms),
          (''query_engine'', PStr query_engine),
          (''policy_pack'', PDict (case policy_pack of None \<Rightarrow> [] | Some p \<Rightarrow> p)),
          (''snapshot_id'', PStr (str_of pointer ''snapshot_id'' '''')),
          (''build_id'', PStr (str_of pointer ''build_id'' ''''))])))"

section \<open>What recording does\<close>

text \<open>
  The specification of a recorded decision: the audit event, the decision row that refers to it
  and, in outbox mode, the pending outbox row with the same payload are all there, nothing else
  of the database has changed, and in inline mode the sink has the payload.
\<close>

definition decided :: "gw_settings \<Rightarrow> decision_args \<Rightarrow> gateway \<Rightarrow> gateway \<Rightarrow> bool" where
  "decided cfg a g g' \<longleftrightarrow> (\<exists>event_id queued.
     gw_db g' = (gw_db g)\<lparr>audit_events := audit_events (gw_db g) @ [decision_event a event_id],
        access_decisions := access_decisions (gw_db g) @ [decision_row a event_id],
        outbox := outbox (gw_db g) @ queued\<rparr> \<and>
     (if set_sink_inline cfg
      then queued = [] \<and> (set_sink cfg \<noteq> DisabledAuditSink \<longrightarrow>
             decision_payload a event_id \<in> set (gw_taken g'))
      else \<exists>e. queued = [e] \<and> ob_status e = ''pending'' \<and> ob_service e = ''gateway'' \<and>
             ob_audit_event e = event_id \<and> ob_payload e = decision_payload a event_id))"

definition silent :: "gateway \<Rightarrow> gateway \<Rightarrow> bool" where
  "silent g g' \<longleftrightarrow> gw_db g' = gw_db g"

text \<open>The parts of the state a decision does not touch.\<close>

definition same_runtime :: "gateway \<Rightarrow> gateway \<Rightarrow> bool" where
  "same_runtime g g' \<longleftrightarrow> gw_limiter g' = gw_limiter g \<and> gw_cache g' = gw_cache g"

lemma silent_refl [simp]: "silent g g"
  by (simp add: silent_def)

lemma same_runtime_refl [simp]: "same_runtime g g"
  by (simp add: same_runtime_def)

lemma silent_trans: "silent g g1 \<Longrightarrow> silent g1 g2 \<Longrightarrow> silent g g2"
  by (simp add: silent_def)

lemma same_runtime_trans: "same_runtime g g1 \<Longrightarrow> same_runtime g1 g2 \<Longrightarrow> same_runtime g g2"
  by (simp add: same_runtime_def)

lemma silent_decided: "silent g g1 \<Longrightarrow> decided cfg a g1 g2 \<Longrightarrow> decided cfg a g g2"
  by (simp add: silent_def decided_def)

lemma decided_silent:
  "decided cfg a g g1 \<Longrightarrow> silent g1 g2 \<Longrightarrow> gw_taken g2 = gw_taken g1 \<Longrightarrow> decided cfg a g g2"
  by (simp only: silent_def decided_def)

definition audit_error :: "exn \<Rightarrow> bool" where
  "audit_error e \<longleftrightarrow> (\<exists>op. e = PolicyDeniedError ''Access denied by policy''
       [(''reason'', PStr ''audit_sink_unavailable''), (''operation'', PStr op)] \<or>
     e = PolicyDeniedError ''Access denied by policy''
       [(''reason'', PStr ''audit_unavailable''), (''operation'', PStr op)])"

lemma audit_denied_spec:
  "audit_denied a e g = (r, g') \<Longrightarrow>
     (\<exists>x. r = Inl x \<and> audit_error x) \<and> silent g g' \<and> same_runtime g g'"
  by (cases e) (auto simp: audit_denied_def audit_error_def silent_def same_runtime_def add_metrics_def)

lemma insert_decision_Inr:
  "insert_decision a event_id d = Inr d' \<Longrightarrow>
     d' = d\<lparr>audit_events := audit_events d @ [decision_event a event_id],
           access_decisions := access_decisions d @ [decision_row a event_id]\<rparr>"
  by (auto simp: insert_decision_def rbind_eq_Inr_iff tbl_add_Inr_iff)

lemma commit_Inr: "commit env r = Inr d \<Longrightarrow> r = Inr d"
  by (auto simp: commit_def rbind_eq_Inr_iff split: option.split_asm)

lemma emit_audit_taken:
  "emit_audit w p sink taken e = (Inr u, taken') \<Longrightarrow> sink \<noteq> DisabledAuditSink \<Longrightarrow> e \<in> set taken'"
  by (cases sink) (auto split: option.split_asm)

lemma record_inline:
  assumes "record_access_decision cfg env a g = (r, g')" "set_sink_inline cfg"
  shows "same_runtime g g' \<and>
    (case r of Inr _ \<Rightarrow> decided cfg a g g' | Inl e \<Rightarrow> audit_error e \<and> silent g g')"
proof -
  obtain event_id g1 where id: "new_id env g = (event_id, g1)" by fastforce
  then have g1: "silent g g1" "same_runtime g g1"
    by (auto simp: new_id_def silent_def same_runtime_def)
  obtain er taken where em: "emit_audit (sink_write env) (sink_post env) (set_sink cfg) (gw_taken g1)
      (decision_payload a event_id) = (er, taken)" by fastforce
  show ?thesis
  proof (cases er)
    case (Inl e)
    then have "audit_denied a e (g1\<lparr>gw_taken := taken\<rparr>) = (r, g')"
      using assms id em by (simp add: record_access_decision_def)
    from audit_denied_spec [OF this] g1 show ?thesis
      by (auto simp: silent_def same_runtime_def)
  next
    case (Inr u)
    show ?thesis
    proof (cases "commit env (insert_decision a event_id (gw_db g1))")
      case (Inl e)
      then have "audit_denied a e (g1\<lparr>gw_taken := taken\<rparr>) = (r, g')"
        using assms id em \<open>er = _\<close> by (simp add: record_access_decision_def)
      from audit_denied_spec [OF this] g1 show ?thesis
        by (auto simp: silent_def same_runtime_def)
    next
      case d: (Inr d)
      then have r: "r = Inr ()" "g' = g1\<lparr>gw_taken := taken, gw_db := d\<rparr>"
        using assms id em \<open>er = _\<close> by (auto simp: record_access_decision_def)
      have "decided cfg a g g'"
        unfolding decided_def
        by (rule exI [of _ event_id], rule exI [of _ "[]"])
          (use insert_decision_Inr [OF commit_Inr [OF d]] emit_audit_taken g1(1) em Inr assms(2) in
            \<open>auto simp: r silent_def\<close>)
      with r g1 show ?thesis by (simp add: same_runtime_def)
    qed
  qed
qed

lemma record_outbox:
  assumes "record_access_decision cfg env a g = (r, g')" "\<not> set_sink_inline cfg"
  shows "same_runtime g g' \<and>
    (case r of Inr _ \<Rightarrow> decided cfg a g g' | Inl e \<Rightarrow> audit_error e \<and> silent g g')"
proof -
  obtain event_id g1 outbox_id g2 where id: "new_id env g = (event_id, g1)"
    "new_id env g1 = (outbox_id, g2)" by fastforce
  then have g2: "silent g g2" "same_runtime g g2"
    by (auto simp: new_id_def silent_def same_runtime_def)
  define tx where "tx = rbind (insert_decision a event_id (gw_db g2))
     (enqueue_audit_outbox_event outbox_id ''gateway'' (Some (da_workspace_id a)) event_id
        (decision_payload a event_id))"
  show ?thesis
  proof (cases "commit env tx")
    case (Inl e)
    then have "audit_denied a e g2 = (r, g')"
      using assms id by (simp add: record_access_decision_def tx_def)
    from audit_denied_spec [OF this] g2 show ?thesis
      by (auto simp: silent_def same_runtime_def)
  next
    case d: (Inr d)
    then have r: "r = Inr ()" "g' = g2\<lparr>gw_db := d\<rparr>"
      using assms id by (auto simp: record_access_decision_def tx_def)
    from commit_Inr [OF d] obtain d1 where d1: "insert_decision a event_id (gw_db g2) = Inr d1"
      and q: "enqueue_audit_outbox_event outbox_id ''gateway'' (Some (da_workspace_id a)) event_id
        (decision_payload a event_id) d1 = Inr d"
      by (auto simp: tx_def rbind_eq_Inr_iff)
    from q obtain e where e: "d = d1\<lparr>outbox := outbox d1 @ [e]\<rparr>" "ob_status e = ''pending''"
      "ob_service e = ''gateway''" "ob_audit_event e = event_id" "ob_payload e = decision_payload a event_id"
      by (auto simp: enqueue_audit_outbox_event_def rbind_eq_Inr_iff tbl_add_Inr_iff)
    have "decided cfg a g g'"
      unfolding decided_def
      by (rule exI [of _ event_id], rule exI [of _ "[e]"])
        (use insert_decision_Inr [OF d1] e g2(1) assms(2) in \<open>auto simp: r silent_def\<close>)
    with r g2 show ?thesis by (simp add: same_runtime_def)
  qed
qed

lemma record_spec:
  "record_access_decision cfg env a g = (r, g') \<Longrightarrow> same_runtime g g' \<and>
    (case r of Inr _ \<Rightarrow> decided cfg a g g' | Inl e \<Rightarrow> audit_error e \<and> silent g g')"
  using record_inline record_outbox by (cases "set_sink_inline cfg") blast+

lemma deny_spec:
  assumes "deny cfg env latency message extra a g = (r, g')"
  shows "same_runtime g g' \<and> (r = Inl (denial_error message a extra) \<and> decided cfg a g g' \<or>
    (\<exists>e. r = Inl e \<and> audit_error e) \<and> silent g g')"
proof -
  obtain r1 g1 where rec: "record_access_decision cfg env a g = (r1, g1)" by fastforce
  show ?thesis
  proof (cases r1)
    case (Inl e)
    with assms rec record_spec [OF rec] show ?thesis by (auto simp: deny_def abind_def)
  next
    case (Inr u)
    then have g': "g' = add_metrics (PolicyDenial (da_workspace_id a) (da_why a) # latency) g1"
      "r = Inl (denial_error message a extra)"
      using assms rec by (auto simp: deny_def abind_def)
    have "decided cfg a g g1" "same_runtime g g1" using record_spec [OF rec] Inr by auto
    moreover have "silent g1 g'" "gw_taken g' = gw_taken g1" "same_runtime g1 g'"
      by (simp_all add: g' add_metrics_def silent_def same_runtime_def)
    ultimately have "decided cfg a g g'" "same_runtime g g'"
      using decided_silent same_runtime_trans by blast+
    with g' show ?thesis by blast
  qed
qed

end
