(* ===== verification/GatewayQuery.thy ===== *)
theory GatewayQuery
  imports Gateway
begin

text \<open>
  The query endpoint (\<open>query\<close> in \<open>backend/gateway/app.py\<close>), stage by stage in the order of the
  source: admission (authentication, role check, rate limit), scope (for AI actors the semantic
  binding and the dataset allowlist), attribute-based access, limits, cached or fresh rows,
  budget, provenance and the recorded allow decision. A stage that denies ends the request.
\<close>

section \<open>Requests\<close>

record gw_request =
  rq_payload :: pydict
  rq_actor :: "pydict option"
  rq_correlation :: string

text \<open>What the handler knows of an admitted request.\<close>

record gw_context =
  cx_workspace :: string
  cx_pack :: "pydict option"
  cx_context :: pydict
  cx_actor :: pydict
  cx_actor_id :: string
  cx_decision_id :: string
  cx_correlation :: string
  cx_endpoint :: string
  cx_engine :: string

definition endpoint_event :: "string \<Rightarrow> string" where
  "endpoint_event endpoint = ''gateway.'' @ endpoint"

definition args_for ::
  "gw_context \<Rightarrow> string \<Rightarrow> string \<Rightarrow> pydict \<Rightarrow> pydict \<Rightarrow> (string \<times> string) list \<Rightarrow> decision_args" where
  "args_for cx result why resources filters masks =
     \<lparr>da_workspace_id = cx_workspace cx, da_actor = cx_actor_id cx, da_result = result,
      da_why = why, da_context = cx_context cx,
      da_resources = (''endpoint'', PStr (cx_endpoint cx)) # resources, da_filters = filters,
      da_masks = masks, da_decision_id = cx_decision_id cx,
      da_event_type = endpoint_event (cx_endpoint cx), da_correlation = cx_correlation cx\<rparr>"

definition deny_latency :: "gw_context \<Rightarrow> metric list" where
  "deny_latency cx = [QueryLatency (cx_workspace cx) (cx_engine cx) ''deny'']"

definition refuse ::
  "gw_settings \<Rightarrow> gw_env \<Rightarrow> gw_context \<Rightarrow> string \<Rightarrow> pydict \<Rightarrow> pydict \<Rightarrow> 'a action" where
  "refuse cfg env cx why resources extra =
     deny cfg env (deny_latency cx) ''Access denied by policy'' extra
       (args_for cx ''deny'' why resources [] [])"

definition actor_attributes_of :: "pydict \<Rightarrow> pydict" where
  "actor_attributes_of actor = as_dict (dget_or actor ''attributes'' (PDict []))"

definition context_for :: "string \<Rightarrow> string \<Rightarrow> gw_request \<Rightarrow> pydict option \<Rightarrow> pydict \<Rightarrow> string \<Rightarrow> gw_context" where
  "context_for endpoint engine rq pack actor decision_id =
     \<lparr>cx_workspace = str_of (rq_payload rq) ''workspace_id'' ''unknown'', cx_pack = pack,
      cx_context = request_context_of (rq_payload rq), cx_actor = actor,
      cx_actor_id = str_of actor ''actor_id'' ''unknown'', cx_decision_id = decision_id,
      cx_correlation = rq_correlation rq, cx_endpoint = endpoint, cx_engine = engine\<rparr>"

text \<open>
  Authentication, role check and rate limit; the two data endpoints differ in the way an AI
  actor's allowlisting is read.
\<close>

definition admit_request ::
  "string \<Rightarrow> string \<Rightarrow> (pydict \<Rightarrow> bool) \<Rightarrow> gw_settings \<Rightarrow> gw_env \<Rightarrow> gw_request \<Rightarrow> gw_context action" where
  "admit_request endpoint engine allow_ai cfg env rq g0 =
     (case load_effective_policy_pack (gw_db g0) (str_of (rq_payload rq) ''workspace_id'' ''unknown'') of
        Inl e \<Rightarrow> (Inl e, g0)
      | Inr pack \<Rightarrow>
          (let (decision_id, g1) = new_id env g0
           in case rq_actor rq of
                None \<Rightarrow> refuse cfg env (context_for endpoint engine rq pack [] decision_id)
                          ''missing_or_invalid_auth_token'' [] [] g1
              | Some actor \<Rightarrow>
                  (let cx = context_for endpoint engine rq pack actor decision_id;
                       decision = evaluate_access actor (allow_ai actor)
                   in if ad_result decision \<noteq> ''allow''
                      then refuse cfg env cx (ad_reason decision) [] [] g1
                      else let (rl, l) = try_acquire (now_seconds env) (cx_actor_id cx) (gw_limiter g1);
                               g2 = g1\<lparr>gw_limiter := l\<rparr>
                        in if \<not> rl_allowed rl then refuse cfg env cx (rl_reason rl) [] [] g2
                           else (Inr cx, g2))))"

definition query_allow_ai :: "pydict \<Rightarrow> bool" where
  "query_allow_ai actor = py_truth (dget_or (actor_attributes_of actor) ''ai_allowlisted'' (PBool False))"

definition query_admission :: "gw_settings \<Rightarrow> gw_env \<Rightarrow> gw_request \<Rightarrow> gw_context action" where
  "query_admission = admit_request ''query'' ''sql'' query_allow_ai"

section \<open>Scope\<close>

record query_scope =
  sc_binding :: "semantic_binding option"
  sc_text :: string
  sc_datasets :: "string list"

fun exn_text :: "exn \<Rightarrow> string" where
  "exn_text (ValueError m) = m"
| "exn_text (UnsafeSqlError m) = m"
| "exn_text (QueryTimeoutError m) = m"
| "exn_text (PolicyDeniedError m _) = m"
| "exn_text (NotFoundError m _) = m"
| "exn_text (DisabledIntegrationError m) = m"
| "exn_text (StartupConfigurationError m) = m"
| "exn_text (AuditSinkError m) = m"
| "exn_text (OSError m) = m"
| "exn_text (IntegrityError m) = m"
| "exn_text (KeyError k) = str_repr k"
| "exn_text (BackendUnavailable m) = m"
| "exn_text (OtherError m) = m"
| "exn_text OverflowError = []"
| "exn_text TypeError = []"
| "exn_text TimeoutError = []"

definition allowed_dataset_ids_of :: "pydict \<Rightarrow> string list" where
  "allowed_dataset_ids_of actor =
     str_list (dget_or (actor_attributes_of actor) ''allowed_dataset_ids'' (PList []))"

text \<open>The branch of AI actors.\<close>

definition ai_scope :: "gw_settings \<Rightarrow> gw_env \<Rightarrow> gw_request \<Rightarrow> gw_context \<Rightarrow> query_scope action" where
  "ai_scope cfg env rq cx g =
     (let semantic = as_dict (dget_or (rq_payload rq) ''semantic_query'' PNone)
      in if semantic = [] then refuse cfg env cx ''semantic_query_required'' [] [] g
         else case bind_semantic_query (env_checksum env) (gw_db g) (cx_workspace cx) semantic of
           Inl e \<Rightarrow>
             if is_value_error e
             then refuse cfg env cx
                    (if startswith (exn_text e) ''semantic_'' then exn_text e
                     else ''semantic_query_invalid'')
                    [] [(''error'', PStr (exn_text e))] g
             else (Inl e, g)
         | Inr b \<Rightarrow>
             let used = sb_datasets b;
                 cross = sort (filter (dataset_belongs_to_other_workspace (gw_db g) (cx_workspace cx)) used);
                 denied = sort (filter (\<lambda>x. x \<notin> set (allowed_dataset_ids_of (cx_actor cx))) used)
             in if cross \<noteq> []
                then refuse cfg env cx ''dataset_workspace_mismatch''
                       [(''dataset_ids'', str_py_list used),
                        (''cross_workspace_dataset_ids'', str_py_list cross)] [] g
                else if denied \<noteq> []
                then refuse cfg env cx ''dataset_not_allowed''
                       [(''dataset_ids'', str_py_list used), (''denied_dataset_ids'', str_py_list denied)] [] g
                else (Inr \<lparr>sc_binding = Some b, sc_text = sb_sql b, sc_datasets = used\<rparr>, g))"

definition resource_attrs_of :: "gw_request \<Rightarrow> pydict" where
  "resource_attrs_of rq = as_dict (dget_or (rq_payload rq) ''resource_attributes'' (PDict []))"

definition is_ai_actor :: "pydict \<Rightarrow> bool" where
  "is_ai_actor actor = (lower (str_of actor ''actor_type'' ''human'') = ''ai'')"

definition query_scope_stage ::
  "gw_settings \<Rightarrow> gw_env \<Rightarrow> gw_request \<Rightarrow> gw_context \<Rightarrow> query_scope action" where
  "query_scope_stage cfg env rq cx =
     (if is_ai_actor (cx_actor cx) then ai_scope cfg env rq cx
      else let query = as_dict (dget_or (rq_payload rq) ''query'' (PDict []));
               dataset_ref = dget_or (resource_attrs_of rq) ''dataset_id'' PNone
        in pass \<lparr>sc_binding = None, sc_text = str_of query ''text'' '''',
                 sc_datasets = (if dataset_ref = PNone then [] else [py_str dataset_ref])\<rparr>)"

section \<open>Attributes and limits\<close>

definition abac_stage ::
  "gw_settings \<Rightarrow> gw_env \<Rightarrow> gw_request \<Rightarrow> gw_context \<Rightarrow> abac_decision action" where
  "abac_stage cfg env rq cx g =
     (case evaluate_abac opa_evaluate (cx_actor cx) (resource_attrs_of rq)
             (str_of (rq_payload rq) ''abac_mode'' ''internal'') of
        Inl e \<Rightarrow> (Inl e, g)
      | Inr abac \<Rightarrow>
          if \<not> abac_allow abac
          then deny cfg env (deny_latency cx) ''Access denied by ABAC'' []
                 (args_for cx ''deny'' (abac_reason abac) [] (serialize_row_filter (row_filter abac))
                    (abac_masks abac)) g
          else (Inr abac, g))"

definition limits_stage :: "gw_request \<Rightarrow> (int \<times> int) action" where
  "limits_stage rq g =
     (case dget_or (rq_payload rq) ''constraints'' (PDict []) of
        PDict constraints \<Rightarrow>
          (rbind (int_or (dget_or constraints ''max_rows'' (PInt 1000)) 1000) (\<lambda>max_rows.
           rbind (int_or (dget_or constraints ''timeout_ms'' (PInt 5000)) 5000) (\<lambda>timeout_ms.
           Inr (max_rows, timeout_ms))), g)
      | _ \<Rightarrow> (Inr (1000, 5000), g))"

section \<open>Rows\<close>

definition mask_row :: "(string \<Rightarrow> string) \<Rightarrow> string list \<Rightarrow> (string \<times> string) list \<Rightarrow> row \<Rightarrow> row" where
  "mask_row sha names masks r =
     map (\<lambda>(idx, v).
        let column_name = (if idx < length names then names ! idx else ''col_'' @ int_str (int idx));
            mode = mask_mode masks column_name
        in if mode \<noteq> [] then apply_mask sha v mode else v) (enumerate 0 r)"

definition release_slot :: "string \<Rightarrow> gateway \<Rightarrow> gateway" where
  "release_slot actor g = g\<lparr>gw_limiter := release actor (gw_limiter g)\<rparr>"

definition finally_release :: "string \<Rightarrow> 'a action \<Rightarrow> 'a action" where
  "finally_release actor m g = (case m g of (r, g') \<Rightarrow> (r, release_slot actor g'))"

text \<open>The three \<open>except\<close> clauses around the execution.\<close>

definition query_failed ::
  "gw_settings \<Rightarrow> gw_env \<Rightarrow> gw_context \<Rightarrow> abac_decision \<Rightarrow> string \<Rightarrow> exn \<Rightarrow> 'a action" where
  "query_failed cfg env cx abac query_text e =
     (let args = (\<lambda>why. args_for cx ''deny'' why [(''query_text'', PStr query_text)]
             (serialize_row_filter (row_filter abac)) (abac_masks abac));
          err = [(''error'', PStr (exn_text e))]
      in case e of
           UnsafeSqlError _ \<Rightarrow> deny cfg env (deny_latency cx) ''Access denied by policy'' err (args ''sql_unsafe'')
         | QueryTimeoutError _ \<Rightarrow> deny cfg env (deny_latency cx) ''Access denied by policy'' err (args ''query_timeout'')
         | _ \<Rightarrow>
             if row_filter abac \<noteq> None
             then deny cfg env (deny_latency cx) ''Access denied by ABAC'' err (args ''abac_filter_not_enforceable'')
             else abind (record_access_decision cfg env (args ''query_error'')) (\<lambda>_ g.
                    (Inl e, add_metrics (PolicyDenial (cx_workspace cx) ''query_error'' # deny_latency cx) g)))"

definition cost_metric :: "gw_context \<Rightarrow> string \<Rightarrow> metric" where
  "cost_metric cx query_text = CostBytesScanned (cx_workspace cx) (cx_engine cx) (max (utf8_len query_text) 1)"

definition fresh_rows ::
  "gw_settings \<Rightarrow> gw_env \<Rightarrow> gw_context \<Rightarrow> abac_decision \<Rightarrow> string \<Rightarrow> int \<Rightarrow> int \<Rightarrow> string \<Rightarrow>
   (cached_rows \<times> pydict) action" where
  "fresh_rows cfg env cx abac query_text max_rows timeout_ms key =
     abind (finally_release (cx_actor_id cx)
        (\<lambda>g. case execute_sql (env_exec env) (if query_text = [] then ''select 1 as one'' else query_text)
                 max_rows (row_filter abac) timeout_ms (Some (cx_workspace cx)) (set_storage_root cfg)
                 (set_query_engine cfg) of
           Inl e \<Rightarrow> query_failed cfg env cx abac query_text e g
         | Inr rs \<Rightarrow> (Inr rs, g)))
     (\<lambda>rs g.
        let out = \<lparr>cr_columns = columns rs,
                   cr_rows = map (mask_row (env_sha env) (map fst (columns rs)) (abac_masks abac)) (rows rs)\<rparr>
        in (Inr (out, execution_metadata rs),
            add_metrics [cost_metric cx query_text, QueryCacheMetric (cx_workspace cx) ''store'']
              (g\<lparr>gw_cache := cache_set (now_ticks env) key out (gw_cache g)\<rparr>)))"

definition rows_stage ::
  "gw_settings \<Rightarrow> gw_env \<Rightarrow> gw_context \<Rightarrow> abac_decision \<Rightarrow> query_scope \<Rightarrow> int \<times> int \<Rightarrow>
   (cached_rows \<times> pydict) action" where
  "rows_stage cfg env cx abac sc lim g0 =
     (case build_query_cache_key (gold_files (env_exec env)) (cx_workspace cx) (cx_actor_id cx)
             (dget_or (cx_actor cx) ''roles'' (PList [])) (actor_attributes_of (cx_actor cx)) (sc_text sc)
             (sc_datasets sc) (row_filter abac) (abac_masks abac) (fst lim) (snd lim)
             (set_query_engine cfg) (cx_pack cx) of
        Inl e \<Rightarrow> (Inl e, g0)
      | Inr key \<Rightarrow>
          (case cache_get (now_ticks env) key (gw_cache g0) of
             (Some out, c) \<Rightarrow>
               (Inr (out, []),
                release_slot (cx_actor_id cx)
                  (add_metrics [QueryCacheMetric (cx_workspace cx) ''hit'', cost_metric cx (sc_text sc)]
                    (g0\<lparr>gw_cache := c\<rparr>)))
           | (None, c) \<Rightarrow>
               fresh_rows cfg env cx abac (sc_text sc) (fst lim) (snd lim) key
                 (add_metrics [QueryCacheMetric (cx_workspace cx) ''miss''] (g0\<lparr>gw_cache := c\<rparr>))))"

section \<open>Budget, provenance, decision\<close>

definition budget_stage ::
  "gw_settings \<Rightarrow> gw_env \<Rightarrow> gw_context \<Rightarrow> abac_decision \<Rightarrow> string \<Rightarrow> cached_rows \<Rightarrow> unit action" where
  "budget_stage cfg env cx abac query_text out =
     (let estimated = estimate_query_cost_bytes query_text (int (length (cr_rows out)))
                        (int (length (cr_columns out)));
          sizes = [(''estimated_query_bytes'', PInt estimated),
                   (''query_budget_bytes'', PInt (set_query_max_bytes cfg))]
      in if \<not> enforce_budget estimated (set_query_max_bytes cfg)
         then deny cfg env (deny_latency cx) ''Access denied by policy'' sizes
                (args_for cx ''deny'' ''query_budget_exceeded'' sizes
                   (serialize_row_filter (row_filter abac)) (abac_masks abac))
         else pass ())"

definition provenance_stage ::
  "gw_settings \<Rightarrow> gw_env \<Rightarrow> gw_context \<Rightarrow> abac_decision \<Rightarrow> string list \<Rightarrow> pydict action" where
  "provenance_stage cfg env cx abac datasets_used g0 =
     (let (build_id, g1) = new_id env g0; (query_id, g2) = new_id env g1
      in case build_provenance_v1
             \<lparr>pv_workspace = cx_workspace cx, pv_decision_id = cx_decision_id cx,
              pv_datasets = datasets_used, pv_build_id = build_id, pv_query_id = query_id,
              pv_snapshots = Some [], pv_reason = ''allow'',
              pv_filters = serialize_row_filter (row_filter abac),
              pv_masks = masks_dict (abac_masks abac), pv_citations = None, pv_allowed = None,
              pv_policy_pack = cx_pack cx\<rparr> of
           Inl e \<Rightarrow>
             if is_value_error e
             then deny cfg env (deny_latency cx) ''Access denied by policy''
                    [(''error'', PStr (exn_text e))]
                    (args_for cx ''deny'' ''provenance_unavailable'' []
                       (serialize_row_filter (row_filter abac)) (abac_masks abac)) g2
             else (Inl e, g2)
         | Inr p \<Rightarrow> (Inr p, g2))"

definition allow_resources :: "gw_context \<Rightarrow> query_scope \<Rightarrow> pydict \<Rightarrow> pydict" where
  "allow_resources cx sc metadata =
     [(''query_text'', PStr (sc_text sc)), (''dataset_ids'', str_py_list (sc_datasets sc)),
      (''semantic_metric_id'', opt_str (map_option sb_metric (sc_binding sc))),
      (''semantic_group_by'', str_py_list (case sc_binding sc of None \<Rightarrow> [] | Some b \<Rightarrow> sb_group_by b)),
      (''semantic_manifest_checksum'', opt_str (map_option sb_checksum (sc_binding sc))),
      (''policy_pack'', opt_dict (cx_pack cx)), (''query_engine_metadata'', PDict metadata)]"

record query_response =
  resp_columns :: "column list"
  resp_rows :: "row list"
  resp_row_count :: int
  resp_provenance :: pydict
  resp_audit_event_id :: string
  resp_request_id :: string
  resp_semantic :: "(string \<times> string list \<times> string) option"

definition respond ::
  "gw_settings \<Rightarrow> gw_env \<Rightarrow> gw_context \<Rightarrow> abac_decision \<Rightarrow> query_scope \<Rightarrow> cached_rows \<Rightarrow> pydict \<Rightarrow>
   pydict \<Rightarrow> query_response action" where
  "respond cfg env cx abac sc out metadata provenance =
     abind (record_access_decision cfg env
              (args_for cx ''allow'' ''allow'' (allow_resources cx sc metadata)
                 (serialize_row_filter (row_filter abac)) (abac_masks abac)))
       (\<lambda>_ g. let (event_id, g') = new_id env g
              in (Inr \<lparr>resp_columns = cr_columns out, resp_rows = cr_rows out,
                       resp_row_count = int (length (cr_rows out)), resp_provenance = provenance,
                       resp_audit_event_id = event_id, resp_request_id = cx_correlation cx,
                       resp_semantic = map_option (\<lambda>b. (sb_metric b, sb_group_by b, sb_checksum b))
                         (sc_binding sc)\<rparr>,
                  add_metrics [QueryLatency (cx_workspace cx) (cx_engine cx) ''allow''] g'))"

definition answer_query ::
  "gw_settings \<Rightarrow> gw_env \<Rightarrow> gw_request \<Rightarrow> gw_context \<Rightarrow> query_scope \<Rightarrow> abac_decision \<Rightarrow> query_response action" where
  "answer_query cfg env rq cx sc abac =
     abind (limits_stage rq) (\<lambda>lim.
     abind (rows_stage cfg env cx abac sc lim) (\<lambda>(out, metadata).
     abind (budget_stage cfg env cx abac (sc_text sc) out) (\<lambda>_.
     abind (provenance_stage cfg env cx abac (sc_datasets sc)) (\<lambda>provenance.
     respond cfg env cx abac sc out metadata provenance))))"

definition gateway_query :: "gw_settings \<Rightarrow> gw_env \<Rightarrow> gw_request \<Rightarrow> query_response action" where
  "gateway_query cfg env rq =
     abind (query_admission cfg env rq) (\<lambda>cx.
     abind (query_scope_stage cfg env rq cx) (\<lambda>sc.
     abind (abac_stage cfg env rq cx) (\<lambda>abac.
     answer_query cfg env rq cx sc abac)))"

section \<open>Sequencing\<close>

lemma abind_Inr_iff:
  "abind m f g = (Inr y, g2) \<longleftrightarrow> (\<exists>x g1. m g = (Inr x, g1) \<and> f x g1 = (Inr y, g2))"
  by (auto simp: abind_def split: prod.split sum.split)

lemma abind_cases:
  assumes "abind m f g = (r, g2)"
  obtains (stop) e where "m g = (Inl e, g2)" "r = Inl e"
    | (next_stage) x g1 where "m g = (Inr x, g1)" "f x g1 = (r, g2)"
  using assms by (cases "m g"; cases "fst (m g)") (auto simp: abind_def)

lemma deny_never_succeeds [simp]: "fst (deny cfg env lat msg extra a g) \<noteq> Inr x"
  by (auto simp: deny_def abind_def split: prod.split sum.split)

lemma deny_not_Inr [simp]: "deny cfg env lat msg extra a g \<noteq> (Inr x, g')"
  using deny_never_succeeds [of cfg env lat msg extra a g x] by (metis fst_conv)

lemma refuse_not_Inr [simp]: "refuse cfg env cx why res extra g \<noteq> (Inr x, g')"
  by (simp add: refuse_def)

lemma query_failed_not_Inr [simp]: "query_failed cfg env cx abac q e g \<noteq> (Inr x, g')"
  by (auto simp: query_failed_def Let_def abind_Inr_iff split: exn.split)

section \<open>Every stage either passes silently or ends in a recorded denial\<close>

definition guarded :: "gw_settings \<Rightarrow> 'a action \<Rightarrow> bool" where
  "guarded cfg m \<longleftrightarrow> (\<forall>g r g'. m g = (r, g') \<longrightarrow>
     (case r of Inr _ \<Rightarrow> silent g g'
      | Inl _ \<Rightarrow> silent g g' \<or> (\<exists>a. da_result a = ''deny'' \<and> decided cfg a g g')))"

definition keeps_runtime :: "'a action \<Rightarrow> bool" where
  "keeps_runtime m \<longleftrightarrow> (\<forall>g r g'. m g = (r, g') \<longrightarrow> same_runtime g g')"

lemma guardedD:
  "guarded cfg m \<Longrightarrow> m g = (Inr x, g') \<Longrightarrow> silent g g'"
  "guarded cfg m \<Longrightarrow> m g = (Inl e, g') \<Longrightarrow>
     silent g g' \<or> (\<exists>a. da_result a = ''deny'' \<and> decided cfg a g g')"
  by (fastforce simp: guarded_def)+

lemma keeps_runtimeD: "keeps_runtime m \<Longrightarrow> m g = (r, g') \<Longrightarrow> same_runtime g g'"
  by (simp add: keeps_runtime_def)

lemma guardedI:
  "(\<And>g x g'. m g = (Inr x, g') \<Longrightarrow> silent g g') \<Longrightarrow>
   (\<And>g e g'. m g = (Inl e, g') \<Longrightarrow> silent g g' \<or> (\<exists>a. da_result a = ''deny'' \<and> decided cfg a g g')) \<Longrightarrow>
   guarded cfg m"
  by (auto simp: guarded_def split: sum.split)

lemma guarded_bind:
  assumes "guarded cfg m" "\<And>x. guarded cfg (f x)"
  shows "guarded cfg (abind m f)"
proof (rule guardedI)
  fix g x g' assume "abind m f g = (Inr x, g')"
  then show "silent g g'"
    using guardedD(1) [OF assms(1)] guardedD(1) [OF assms(2)] silent_trans
    by (fastforce simp: abind_Inr_iff)
next
  fix g e g' assume "abind m f g = (Inl e, g')"
  then show "silent g g' \<or> (\<exists>a. da_result a = ''deny'' \<and> decided cfg a g g')"
  proof (cases rule: abind_cases)
    case stop
    then show ?thesis using guardedD(2) [OF assms(1)] by blast
  next
    case (next_stage x g1)
    have "silent g g1" by (rule guardedD(1) [OF assms(1) next_stage(1)])
    then show ?thesis
      using guardedD(2) [OF assms(2) next_stage(2)] silent_trans silent_decided by blast
  qed
qed

lemma keeps_runtime_bind:
  "keeps_runtime m \<Longrightarrow> (\<And>x. keeps_runtime (f x)) \<Longrightarrow> keeps_runtime (abind m f)"
  unfolding keeps_runtime_def
proof (intro allI impI)
  fix g r g'
  assume m: "\<forall>g r g'. m g = (r, g') \<longrightarrow> same_runtime g g'"
    and f: "\<And>x. \<forall>g r g'. f x g = (r, g') \<longrightarrow> same_runtime g g'" and e: "abind m f g = (r, g')"
  from e show "same_runtime g g'"
    by (cases rule: abind_cases) (use m f same_runtime_trans in blast)+
qed

lemma guarded_deny: "da_result a = ''deny'' \<Longrightarrow> guarded cfg (deny cfg env lat msg extra a)"
  by (rule guardedI) (use deny_spec in blast)+

lemma keeps_runtime_deny: "keeps_runtime (deny cfg env lat msg extra a)"
  unfolding keeps_runtime_def using deny_spec by blast

lemma args_for_simps [simp]:
  "da_result (args_for cx res why rs fs ms) = res" "da_why (args_for cx res why rs fs ms) = why"
  "da_actor (args_for cx res why rs fs ms) = cx_actor_id cx"
  "da_workspace_id (args_for cx res why rs fs ms) = cx_workspace cx"
  "da_decision_id (args_for cx res why rs fs ms) = cx_decision_id cx"
  "da_filters (args_for cx res why rs fs ms) = fs" "da_masks (args_for cx res why rs fs ms) = ms"
  "da_resources (args_for cx res why rs fs ms) = (''endpoint'', PStr (cx_endpoint cx)) # rs"
  by (simp_all add: args_for_def)

lemma guarded_refuse: "guarded cfg (refuse cfg env cx why rs extra)"
  unfolding refuse_def by (rule guarded_deny) simp

lemma keeps_runtime_refuse: "keeps_runtime (refuse cfg env cx why rs extra)"
  unfolding refuse_def by (rule keeps_runtime_deny)

lemma guarded_pass: "guarded cfg (pass x)"
  by (simp add: guarded_def pass_def)

lemma keeps_runtime_pass: "keeps_runtime (pass x)"
  by (simp add: keeps_runtime_def pass_def)

lemmas guarded_intros = guarded_bind guarded_deny guarded_refuse guarded_pass
lemmas keeps_runtime_intros =
  keeps_runtime_bind keeps_runtime_deny keeps_runtime_refuse keeps_runtime_pass

text \<open>One run of a stage, for stages that test the state they start in.\<close>

definition settles :: "gw_settings \<Rightarrow> gateway \<Rightarrow> 'a res \<times> gateway \<Rightarrow> bool" where
  "settles cfg g out \<longleftrightarrow> same_runtime g (snd out) \<and>
     (case fst out of Inr _ \<Rightarrow> silent g (snd out)
      | Inl _ \<Rightarrow> silent g (snd out) \<or> (\<exists>a. da_result a = ''deny'' \<and> decided cfg a g (snd out)))"

lemma settles_guarded: "(\<And>g. settles cfg g (m g)) \<Longrightarrow> guarded cfg m"
  unfolding guarded_def
proof (intro allI impI)
  fix g r g' assume s: "\<And>g. settles cfg g (m g)" and m: "m g = (r, g')"
  from s [of g] show "case r of Inr _ \<Rightarrow> silent g g'
      | Inl _ \<Rightarrow> silent g g' \<or> (\<exists>a. da_result a = ''deny'' \<and> decided cfg a g g')"
    by (cases r) (simp_all add: m settles_def)
qed

lemma settles_keeps_runtime: "(\<And>g. settles cfg g (m g)) \<Longrightarrow> keeps_runtime m"
  unfolding keeps_runtime_def
proof (intro allI impI)
  fix g r g' assume s: "\<And>g. settles cfg g (m g)" and m: "m g = (r, g')"
  from s [of g] show "same_runtime g g'" by (simp add: m settles_def)
qed

lemma settles_here [simp]: "settles cfg g (r, g)"
  by (cases r) (simp_all add: settles_def)

lemma settles_deny:
  assumes "da_result a = ''deny''"
  shows "settles cfg g ((deny cfg env lat msg extra a :: 'a action) g)"
proof (cases "(deny cfg env lat msg extra a :: 'a action) g")
  case (Pair r g')
  from deny_spec [OF this] assms show ?thesis by (auto simp: settles_def Pair)
qed

lemma settles_refuse [simp]: "settles cfg g (refuse cfg env cx why rs extra g)"
  unfolding refuse_def by (rule settles_deny) simp

lemma ai_scope_settles: "settles cfg g (ai_scope cfg env rq cx g)"
  by (simp add: ai_scope_def Let_def split: sum.split)

lemma scope_ok:
  "guarded cfg (query_scope_stage cfg env rq cx)" "keeps_runtime (query_scope_stage cfg env rq cx)"
proof -
  have "guarded cfg (ai_scope cfg env rq cx)" by (rule settles_guarded) (rule ai_scope_settles)
  moreover have "keeps_runtime (ai_scope cfg env rq cx)"
    by (rule settles_keeps_runtime) (rule ai_scope_settles)
  ultimately show "guarded cfg (query_scope_stage cfg env rq cx)"
    "keeps_runtime (query_scope_stage cfg env rq cx)"
    by (auto simp: query_scope_stage_def Let_def guarded_pass keeps_runtime_pass)
qed

lemma abac_ok:
  "guarded cfg (abac_stage cfg env rq cx)" "keeps_runtime (abac_stage cfg env rq cx)"
proof -
  let ?ab = "abac_default (cx_actor cx) (resource_attrs_of rq)
      (str_of (rq_payload rq) ''abac_mode'' ''internal'')"
  have "abac_stage cfg env rq cx = (if \<not> abac_allow ?ab
      then deny cfg env (deny_latency cx) ''Access denied by ABAC'' []
         (args_for cx ''deny'' (abac_reason ?ab) [] (serialize_row_filter (row_filter ?ab)) (abac_masks ?ab))
      else pass ?ab)"
    by (auto simp: abac_stage_def evaluate_abac_default pass_def fun_eq_iff)
  then show "guarded cfg (abac_stage cfg env rq cx)" "keeps_runtime (abac_stage cfg env rq cx)"
    by (auto intro!: guarded_intros keeps_runtime_intros)
qed

lemma limits_ok: "guarded cfg (limits_stage rq)" "keeps_runtime (limits_stage rq)"
  by (auto simp: limits_stage_def guarded_def keeps_runtime_def silent_def same_runtime_def
      split: pyval.split_asm sum.split)

lemma budget_ok:
  "guarded cfg (budget_stage cfg env cx abac q out)" "keeps_runtime (budget_stage cfg env cx abac q out)"
  by (auto simp: budget_stage_def Let_def intro!: guarded_intros keeps_runtime_intros)

lemma new_id_frame:
  "new_id env g = (i, g') \<Longrightarrow> gw_db g' = gw_db g" "new_id env g = (i, g') \<Longrightarrow> gw_limiter g' = gw_limiter g"
  "new_id env g = (i, g') \<Longrightarrow> gw_cache g' = gw_cache g"
  by (auto simp: new_id_def)

lemma settles_trans:
  "silent g g1 \<Longrightarrow> same_runtime g g1 \<Longrightarrow> settles cfg g1 out \<Longrightarrow> settles cfg g out"
  by (auto simp: settles_def split: sum.splits
      intro: same_runtime_trans silent_trans silent_decided)

lemma provenance_settles: "settles cfg g (provenance_stage cfg env cx abac ds g)"
proof -
  obtain i1 g1 i2 g2 where id: "new_id env g = (i1, g1)" "new_id env g1 = (i2, g2)" by fastforce
  then have "silent g g2" "same_runtime g g2"
    by (auto simp: new_id_def silent_def same_runtime_def)
  then show ?thesis
    by (rule settles_trans)
      (simp add: provenance_stage_def id settles_deny split: sum.split)
qed

lemma provenance_ok:
  "guarded cfg (provenance_stage cfg env cx abac ds)"
  "keeps_runtime (provenance_stage cfg env cx abac ds)"
  by (rule settles_guarded, rule provenance_settles)
    (rule settles_keeps_runtime, rule provenance_settles)

lemma provenance_Inr:
  "provenance_stage cfg env cx abac ds g = (Inr p, g') \<Longrightarrow>
     dget p ''policy_decision_id'' = Some (PStr (cx_decision_id cx)) \<and>
     dget p ''workspace_id'' = Some (PStr (cx_workspace cx)) \<and>
     dget p ''datasets_used'' = Some (PList (map PStr (clean_set ds))) \<and>
     dget p ''applied_filters'' = Some (PDict (serialize_row_filter (row_filter abac))) \<and>
     dget p ''applied_masks'' = Some (PDict (masks_dict (abac_masks abac)))"
  by (auto simp: provenance_stage_def split: prod.split_asm sum.split_asm if_split_asm
      dest!: provenance_payload)

section \<open>The row stage\<close>

lemma release_slot_simps [simp]:
  "gw_db (release_slot a g) = gw_db g"
  "gw_limiter (release_slot a g) = release a (gw_limiter g)" "gw_cache (release_slot a g) = gw_cache g"
  by (simp_all add: release_slot_def)

lemma silent_release [simp]: "silent g (release_slot a g')= silent g g'"
  by (simp add: silent_def release_slot_def)

lemma decided_release [simp]: "decided cfg a g (release_slot x g') = decided cfg a g g'"
  by (simp only: decided_def release_slot_def) simp

lemma silent_add_metrics [simp]: "silent g (add_metrics ms g') = silent g g'"
  by (simp add: silent_def add_metrics_def)

lemma same_runtime_add_metrics [simp]: "same_runtime g (add_metrics ms g') = same_runtime g g'"
  by (simp add: same_runtime_def add_metrics_def)

lemma decided_add_metrics [simp]: "decided cfg a g (add_metrics ms g') = decided cfg a g g'"
  by (simp only: decided_def add_metrics_def) simp

lemma settles_record:
  assumes "da_result a = ''deny''"
  shows "settles cfg g (abind (record_access_decision cfg env a) (\<lambda>_ g. (Inl e, add_metrics ms g)) g)"
proof (cases "record_access_decision cfg env a g")
  case (Pair r g')
  from record_spec [OF this] assms show ?thesis
    by (cases r) (auto simp: settles_def abind_def Pair)
qed

lemma query_failed_settles:
  "settles cfg g ((query_failed cfg env cx abac q e :: 'a action) g)"
  by (cases e) (auto simp: query_failed_def Let_def settles_deny settles_record)

text \<open>What the execution yields, and that the slot is given back whatever happens.\<close>

definition row_env :: "gw_settings \<Rightarrow> gw_env \<Rightarrow> gw_context \<Rightarrow> abac_decision \<Rightarrow> string \<Rightarrow> int \<times> int \<Rightarrow>
    query_result res" where
  "row_env cfg env cx abac q lim =
     execute_sql (env_exec env) (if q = [] then ''select 1 as one'' else q) (fst lim) (row_filter abac)
       (snd lim) (Some (cx_workspace cx)) (set_storage_root cfg) (set_query_engine cfg)"

definition masked_rows :: "gw_env \<Rightarrow> abac_decision \<Rightarrow> query_result \<Rightarrow> cached_rows" where
  "masked_rows env abac rs =
     \<lparr>cr_columns = columns rs,
      cr_rows = map (mask_row (env_sha env) (map fst (columns rs)) (abac_masks abac)) (rows rs)\<rparr>"

lemma fresh_rows_cases:
  assumes "fresh_rows cfg env cx abac q mr to key g = (r, g')"
  shows "gw_limiter g' = release (cx_actor_id cx) (gw_limiter g) \<and>
    (case row_env cfg env cx abac q (mr, to) of
       Inl e \<Rightarrow> (\<exists>x. r = Inl x) \<and> gw_cache g' = gw_cache g \<and>
         (silent g g' \<or> (\<exists>a. da_result a = ''deny'' \<and> decided cfg a g g'))
     | Inr rs \<Rightarrow> r = Inr (masked_rows env abac rs, execution_metadata rs) \<and> silent g g' \<and>
         gw_cache g' = cache_set (now_ticks env) key (masked_rows env abac rs) (gw_cache g))"
proof (cases "row_env cfg env cx abac q (mr, to)")
  case (Inl e)
  obtain r1 g1 where qf: "(query_failed cfg env cx abac q e :: query_result action) g = (r1, g1)"
    by fastforce
  then obtain x where r1: "r1 = Inl x" using query_failed_not_Inr by (cases r1) fastforce+
  have "settles cfg g (r1, g1)"
    using query_failed_settles [of cfg g env cx abac q e] qf by metis
  moreover have "r = Inl x" "g' = release_slot (cx_actor_id cx) g1"
    using assms qf r1 Inl
    by (auto simp: fresh_rows_def abind_def finally_release_def row_env_def)
  ultimately show ?thesis
    using Inl r1 by (auto simp: settles_def same_runtime_def)
next
  case (Inr rs)
  then show ?thesis
    using assms
    by (auto simp: fresh_rows_def abind_def finally_release_def row_env_def masked_rows_def
        release_slot_def add_metrics_def silent_def Let_def)
qed

definition cache_key_of ::
  "gw_settings \<Rightarrow> gw_env \<Rightarrow> gw_context \<Rightarrow> abac_decision \<Rightarrow> query_scope \<Rightarrow> int \<times> int \<Rightarrow> string res" where
  "cache_key_of cfg env cx abac sc lim =
     build_query_cache_key (gold_files (env_exec env)) (cx_workspace cx) (cx_actor_id cx)
       (dget_or (cx_actor cx) ''roles'' (PList [])) (actor_attributes_of (cx_actor cx)) (sc_text sc)
       (sc_datasets sc) (row_filter abac) (abac_masks abac) (fst lim) (snd lim)
       (set_query_engine cfg) (cx_pack cx)"

text \<open>
  The row stage: an unreadable pointer file stops it with the slot still held; otherwise the
  slot is given back, and the rows are those of the cache under this request's key or the
  masked rows of an execution, which are then stored under that key.
\<close>

lemma rows_stage_cases:
  assumes "rows_stage cfg env cx abac sc lim g = (r, g')"
  obtains (no_key) e where "cache_key_of cfg env cx abac sc lim = Inl e" "r = Inl e" "g' = g"
  | (hit) key out c where "cache_key_of cfg env cx abac sc lim = Inr key"
      "cache_get (now_ticks env) key (gw_cache g) = (Some out, c)" "r = Inr (out, [])" "silent g g'"
      "gw_limiter g' = release (cx_actor_id cx) (gw_limiter g)" "gw_cache g' = c"
  | (failed) key c e x where "cache_key_of cfg env cx abac sc lim = Inr key"
      "cache_get (now_ticks env) key (gw_cache g) = (None, c)"
      "row_env cfg env cx abac (sc_text sc) lim = Inl e" "r = Inl x"
      "gw_limiter g' = release (cx_actor_id cx) (gw_limiter g)" "gw_cache g' = c"
      "silent g g' \<or> (\<exists>a. da_result a = ''deny'' \<and> decided cfg a g g')"
  | (ran) key c rs where "cache_key_of cfg env cx abac sc lim = Inr key"
      "cache_get (now_ticks env) key (gw_cache g) = (None, c)"
      "row_env cfg env cx abac (sc_text sc) lim = Inr rs"
      "r = Inr (masked_rows env abac rs, execution_metadata rs)" "silent g g'"
      "gw_limiter g' = release (cx_actor_id cx) (gw_limiter g)"
      "gw_cache g' = cache_set (now_ticks env) key (masked_rows env abac rs) c"
proof (cases "cache_key_of cfg env cx abac sc lim")
  case (Inl e)
  with assms that(1) show thesis by (simp add: rows_stage_def cache_key_of_def)
next
  case key: (Inr key)
  obtain o1 c where get: "cache_get (now_ticks env) key (gw_cache g) = (o1, c)" by fastforce
  show thesis
  proof (cases o1)
    case (Some out)
    then have "r = Inr (out, [])" "silent g g'"
      "gw_limiter g' = release (cx_actor_id cx) (gw_limiter g)" "gw_cache g' = c"
      using assms key get
      by (auto simp: rows_stage_def cache_key_of_def add_metrics_def silent_def)
    with key get Some that(2) show thesis by blast
  next
    case None
    let ?g1 = "add_metrics [QueryCacheMetric (cx_workspace cx) ''miss''] (g\<lparr>gw_cache := c\<rparr>)"
    have "fresh_rows cfg env cx abac (sc_text sc) (fst lim) (snd lim) key ?g1 = (r, g')"
      using assms key get None by (simp add: rows_stage_def cache_key_of_def)
    note fr = fresh_rows_cases [OF this]
    have g1: "gw_limiter ?g1 = gw_limiter g" "gw_cache ?g1 = c" "silent g ?g1"
      by (simp_all add: add_metrics_def silent_def)
    show thesis
    proof (cases "row_env cfg env cx abac (sc_text sc) lim")
      case (Inl e)
      with fr g1 obtain x where "r = Inl x" "gw_cache g' = c"
        "gw_limiter g' = release (cx_actor_id cx) (gw_limiter g)"
        "silent ?g1 g' \<or> (\<exists>a. da_result a = ''deny'' \<and> decided cfg a ?g1 g')" by auto
      moreover from this(4) g1(3) have "silent g g' \<or> (\<exists>a. da_result a = ''deny'' \<and> decided cfg a g g')"
        using silent_trans silent_decided by blast
      ultimately show thesis using key get None Inl that(3) by blast
    next
      case (Inr rs)
      with fr g1 have "r = Inr (masked_rows env abac rs, execution_metadata rs)"
        "gw_limiter g' = release (cx_actor_id cx) (gw_limiter g)"
        "gw_cache g' = cache_set (now_ticks env) key (masked_rows env abac rs) c" "silent ?g1 g'" by auto
      moreover from this(4) g1(3) have "silent g g'" by (rule silent_trans [rotated])
      ultimately show thesis using key get None Inr that(4) by blast
    qed
  qed
qed

lemma rows_guarded: "guarded cfg (rows_stage cfg env cx abac sc lim)"
  unfolding guarded_def
proof (intro allI impI)
  fix g r g' assume "rows_stage cfg env cx abac sc lim g = (r, g')"
  then show "case r of Inr _ \<Rightarrow> silent g g'
      | Inl _ \<Rightarrow> silent g g' \<or> (\<exists>a. da_result a = ''deny'' \<and> decided cfg a g g')"
    by (cases rule: rows_stage_cases) auto
qed

section \<open>Admission\<close>

text \<open>
  Admission succeeds for an authenticated actor the role check allows and the limiter grants a
  slot; in every other case the number of requests in flight is as before.
\<close>

lemma admit_cases:
  assumes "admit_request endpoint engine allow_ai cfg env rq g = (r, g')"
  obtains (no_pack) e where "r = Inl e" "g' = g"
  | (refused) e l where "r = Inl e" "gw_cache g' = gw_cache g"
      "silent g g' \<or> (\<exists>a. da_result a = ''deny'' \<and> decided cfg a g g')" "gw_limiter g' = l"
      "l = gw_limiter g \<or> (\<exists>actor_id d. try_acquire (now_seconds env) actor_id (gw_limiter g) = (d, l) \<and>
         \<not> rl_allowed d)"
  | (admitted) actor cx d where "rq_actor rq = Some actor" "r = Inr cx" "silent g g'"
      "gw_cache g' = gw_cache g" "cx_actor cx = actor" "cx_actor_id cx = str_of actor ''actor_id'' ''unknown''"
      "cx_workspace cx = str_of (rq_payload rq) ''workspace_id'' ''unknown''"
      "cx_correlation cx = rq_correlation rq" "cx_endpoint cx = endpoint" "cx_engine cx = engine"
      "load_effective_policy_pack (gw_db g) (cx_workspace cx) = Inr (cx_pack cx)"
      "ad_result (evaluate_access actor (allow_ai actor)) = ''allow''"
      "try_acquire (now_seconds env) (cx_actor_id cx) (gw_limiter g) = (d, gw_limiter g')" "rl_allowed d"
proof (cases "load_effective_policy_pack (gw_db g) (str_of (rq_payload rq) ''workspace_id'' ''unknown'')")
  case (Inl e)
  with assms have "r = Inl e" "g' = g" by (auto simp: admit_request_def)
  then show thesis by (rule that(1))
next
  case pack: (Inr pack)
  obtain did g1 where id: "new_id env g = (did, g1)" by fastforce
  note fr = new_id_frame [OF id]
  have lim: "g1\<lparr>gw_limiter := gw_limiter g\<rparr> = g1" using fr(2) by (cases g1) simp
  note elim = that
  have refusal: thesis
    if out: "refuse cfg env cx why rs ex (g1\<lparr>gw_limiter := l\<rparr>) = (r, g')"
      and l: "l = gw_limiter g \<or> (\<exists>actor_id d. try_acquire (now_seconds env) actor_id (gw_limiter g) = (d, l) \<and>
         \<not> rl_allowed d)" for cx why rs ex l
  proof -
    have st: "settles cfg (g1\<lparr>gw_limiter := l\<rparr>) (r, g')" using settles_refuse out by metis
    have sl: "silent g (g1\<lparr>gw_limiter := l\<rparr>)" using fr by (simp add: silent_def)
    obtain e where e: "r = Inl e" using out refuse_not_Inr by (cases r) fastforce+
    have "silent g g' \<or> (\<exists>a. da_result a = ''deny'' \<and> decided cfg a g g')"
      using st sl e silent_trans [OF sl] silent_decided [OF sl] by (auto simp: settles_def)
    moreover have "gw_cache g' = gw_cache g" "gw_limiter g' = l"
      using st fr by (auto simp: settles_def same_runtime_def)
    ultimately show thesis using e l by (intro elim(2))
  qed
  show thesis
  proof (cases "rq_actor rq")
    case None
    then have "refuse cfg env (context_for endpoint engine rq pack [] did)
        ''missing_or_invalid_auth_token'' [] [] (g1\<lparr>gw_limiter := gw_limiter g\<rparr>) = (r, g')"
      unfolding lim using assms pack id by (simp add: admit_request_def)
    then show thesis by (rule refusal) simp
  next
    case actor: (Some actor)
    let ?cx = "context_for endpoint engine rq pack actor did"
    show thesis
    proof (cases "ad_result (evaluate_access actor (allow_ai actor)) = ''allow''")
      case False
      then have "refuse cfg env ?cx (ad_reason (evaluate_access actor (allow_ai actor))) [] []
          (g1\<lparr>gw_limiter := gw_limiter g\<rparr>) = (r, g')"
        unfolding lim using assms pack id actor by (simp add: admit_request_def Let_def)
      then show thesis by (rule refusal) simp
    next
      case allow: True
      obtain d l where tr: "try_acquire (now_seconds env) (cx_actor_id ?cx) (gw_limiter g) = (d, l)"
        by fastforce
      show thesis
      proof (cases "rl_allowed d")
        case False
        then have "refuse cfg env ?cx (rl_reason d) [] [] (g1\<lparr>gw_limiter := l\<rparr>) = (r, g')"
          using assms pack id actor allow fr tr by (simp add: admit_request_def Let_def)
        then show thesis by (rule refusal) (use tr False in blast)
      next
        case True
        then have "r = Inr ?cx" "g' = g1\<lparr>gw_limiter := l\<rparr>"
          using assms pack id actor allow fr tr by (auto simp: admit_request_def Let_def)
        then show thesis
          using actor allow pack tr True fr
          by (intro that(3)) (auto simp: context_for_def silent_def)
      qed
    qed
  qed
qed

end
