(* ===== verification/GatewaySafety.thy ===== *)
theory GatewaySafety
  imports GatewayQuery
begin

text \<open>
  What the query endpoint guarantees: every outcome is audited, a response is only given to an
  authorised request, its rows are masked and filtered also when they come from the cache, and
  the slot of the rate limiter is given back exactly when the row stage is reached.
\<close>

section \<open>The cache key\<close>

definition key_dict ::
  "pydict \<Rightarrow> string \<Rightarrow> string \<Rightarrow> pyval \<Rightarrow> pydict \<Rightarrow> string \<Rightarrow> string list \<Rightarrow> (string \<times> string) option \<Rightarrow>
   (string \<times> string) list \<Rightarrow> int \<Rightarrow> int \<Rightarrow> string \<Rightarrow> pydict option \<Rightarrow> pydict" where
  "key_dict pointer workspace_id actor_id actor_roles actor_attributes query_text datasets_used rf
       masks max_rows timeout_ms query_engine policy_pack =
     [(''workspace_id'', PStr workspace_id), (''actor_id'', PStr actor_id),
      (''actor_roles'', PList (as_list actor_roles)),
      (''actor_attributes'', PDict actor_attributes), (''query_text'', PStr query_text),
      (''datasets_used'', PList (map PStr (sort datasets_used))),
      (''row_filter'', PDict (serialize_row_filter rf)), (''masks'', PDict (masks_dict masks)),
      (''max_rows'', PInt max_rows), (''timeout_ms'', PInt timeout_ms),
      (''query_engine'', PStr query_engine),
      (''policy_pack'', PDict (case policy_pack of None \<Rightarrow> [] | Some p \<Rightarrow> p)),
      (''snapshot_id'', PStr (str_of pointer ''snapshot_id'' '''')),
      (''build_id'', PStr (str_of pointer ''build_id'' ''''))]"

text \<open>What enters the key from outside as JSON: the roles, the attributes and the policy pack.\<close>

definition wf_key_inputs :: "pyval \<Rightarrow> pydict \<Rightarrow> pydict option \<Rightarrow> bool" where
  "wf_key_inputs roles attrs pack \<longleftrightarrow> wf_json (PList (as_list roles)) \<and> wf_json (PDict attrs) \<and>
     wf_json (PDict (case pack of None \<Rightarrow> [] | Some p \<Rightarrow> p))"

lemma build_key_Inr:
  "build_query_cache_key st ws aid roles attrs q ds rf masks mr tm eng pack = Inr k \<longleftrightarrow>
   (\<exists>p. load_latest_gold_pointer st ws = Inr p \<and>
     k = json_dumps (PDict (key_dict (case p of None \<Rightarrow> [] | Some p \<Rightarrow> p) ws aid roles attrs q ds rf
           masks mr tm eng pack)))"
proof -
  have "build_query_cache_key st ws aid roles attrs q ds rf masks mr tm eng pack =
    rbind (load_latest_gold_pointer st ws) (\<lambda>p. Inr (json_dumps (PDict (key_dict
      (case p of None \<Rightarrow> [] | Some p \<Rightarrow> p) ws aid roles attrs q ds rf masks mr tm eng pack))))"
    by (simp only: build_query_cache_key_def key_dict_def Let_def)
  then show ?thesis by (simp only: rbind_eq_Inr_iff) blast
qed

lemma wf_masks_dict: "wf_json (PDict (masks_dict masks))"
  by (auto simp: masks_dict_def list_all_iff)

lemma wf_row_filter: "wf_json (PDict (serialize_row_filter rf))"
  by (auto simp: serialize_row_filter_def split: option.split)

lemma wf_key_dict:
  "wf_key_inputs roles attrs pack \<Longrightarrow>
     wf_json (PDict (key_dict p ws aid roles attrs q ds rf masks mr tm eng pack))"
  using wf_masks_dict [of masks] wf_row_filter [of rf]
  by (simp add: wf_key_inputs_def key_dict_def list_all_iff)

lemma distinct_key_dict: "distinct (dkeys (key_dict p ws aid roles attrs q ds rf masks mr tm eng pack))"
  by (simp add: key_dict_def dkeys_def)

lemma serialize_row_filter_inject:
  assumes "json_dumps (PDict (serialize_row_filter rf)) = json_dumps (PDict (serialize_row_filter rf'))"
  shows "rf = rf'"
proof -
  have e: "json_entries (serialize_row_filter rf) = json_entries (serialize_row_filter rf')"
    by (rule json_entries_eq [OF wf_row_filter wf_row_filter assms])
  show ?thesis
  proof (cases rf; cases rf')
    fix p p' assume s: "rf = Some p" "rf' = Some p'"
    obtain c v c' v' where p: "p = (c, v)" "p' = (c', v')" by (metis surj_pair)
    let ?d = "\<lambda>c v. [(''column'', PStr c), (''value'', PStr v)]"
    have "json_dumps (PDict (?d c v)) = json_dumps (PDict (?d c' v'))"
      using e by (simp add: s p serialize_row_filter_def json_entries_def del: json_dumps.simps)
    then have "json_entries (?d c v) = json_entries (?d c' v')"
      by (intro json_entries_eq) simp_all
    then have "set (json_entries (?d c v)) = set (json_entries (?d c' v'))" by simp
    then show "rf = rf'" by (simp add: s p set_json_entries doubleton_eq_iff)
  qed (use e in \<open>auto simp: serialize_row_filter_def json_entries_def simp del: json_dumps.simps\<close>)
qed

lemma masks_inject:
  assumes "json_dumps (PDict (masks_dict masks)) = json_dumps (PDict (masks_dict masks'))"
  shows "set masks = set masks'"
proof -
  have "json_entries (masks_dict masks) = json_entries (masks_dict masks')"
    by (rule json_entries_eq [OF wf_masks_dict wf_masks_dict assms])
  then have "set (json_entries (masks_dict masks)) = set (json_entries (masks_dict masks'))" by simp
  then have "(\<lambda>p. (fst p, json_str (snd p))) ` set masks = (\<lambda>p. (fst p, json_str (snd p))) ` set masks'"
    by (simp add: set_json_entries masks_dict_def image_image)
  moreover have "inj (\<lambda>p :: string \<times> string. (fst p, json_str (snd p)))"
    by (auto simp: inj_on_def prod_eq_iff)
  ultimately show ?thesis by (simp add: inj_image_eq_iff)
qed

text \<open>The fields two key dicts with the same text have in common.\<close>

lemma key_dict_common:
  assumes "wf_key_inputs roles attrs pack" "wf_key_inputs roles' attrs' pack'"
    and "json_dumps (PDict (key_dict p ws aid roles attrs q ds rf masks mr tm eng pack)) =
      json_dumps (PDict (key_dict p' ws' aid' roles' attrs' q' ds' rf' masks' mr' tm' eng' pack'))"
  shows "ws = ws' \<and> aid = aid' \<and> q = q' \<and> sort ds = sort ds' \<and> rf = rf' \<and> set masks = set masks' \<and>
    mr = mr' \<and> tm = tm' \<and> eng = eng' \<and>
    str_of p ''snapshot_id'' '''' = str_of p' ''snapshot_id'' '''' \<and>
    str_of p ''build_id'' '''' = str_of p' ''build_id'' '''' \<and>
    json_dumps (PList (as_list roles)) = json_dumps (PList (as_list roles'))"
proof -
  note f = json_dict_field [OF wf_key_dict [OF assms(1)] wf_key_dict [OF assms(2)] assms(3)
      distinct_key_dict distinct_key_dict]
  note d = key_dict_def dget_def
  have "json_dumps (PStr ws) = json_dumps (PStr ws')" by (rule f [where k = "''workspace_id''"]) (simp_all add: d)
  moreover have "json_dumps (PStr aid) = json_dumps (PStr aid')" by (rule f [where k = "''actor_id''"]) (simp_all add: d)
  moreover have "json_dumps (PStr q) = json_dumps (PStr q')" by (rule f [where k = "''query_text''"]) (simp_all add: d)
  moreover have "json_dumps (PList (map PStr (sort ds))) = json_dumps (PList (map PStr (sort ds')))"
    by (rule f [where k = "''datasets_used''"]) (simp_all add: d)
  moreover have "json_dumps (PDict (serialize_row_filter rf)) = json_dumps (PDict (serialize_row_filter rf'))"
    by (rule f [where k = "''row_filter''"]) (simp_all add: d)
  moreover have "json_dumps (PDict (masks_dict masks)) = json_dumps (PDict (masks_dict masks'))"
    by (rule f [where k = "''masks''"]) (simp_all add: d)
  moreover have "json_dumps (PInt mr) = json_dumps (PInt mr')" by (rule f [where k = "''max_rows''"]) (simp_all add: d)
  moreover have "json_dumps (PInt tm) = json_dumps (PInt tm')" by (rule f [where k = "''timeout_ms''"]) (simp_all add: d)
  moreover have "json_dumps (PStr eng) = json_dumps (PStr eng')" by (rule f [where k = "''query_engine''"]) (simp_all add: d)
  moreover have "json_dumps (PStr (str_of p ''snapshot_id'' '''')) = json_dumps (PStr (str_of p' ''snapshot_id'' ''''))"
    by (rule f [where k = "''snapshot_id''"]) (simp_all add: d)
  moreover have "json_dumps (PStr (str_of p ''build_id'' '''')) = json_dumps (PStr (str_of p' ''build_id'' ''''))"
    by (rule f [where k = "''build_id''"]) (simp_all add: d)
  moreover have "json_dumps (PList (as_list roles)) = json_dumps (PList (as_list roles'))"
    by (rule f [where k = "''actor_roles''"]) (simp_all add: d)
  ultimately show ?thesis
    using serialize_row_filter_inject [of rf rf'] masks_inject [of masks masks']
    by (simp only: json_dumps.simps(3,5) json_str_inject int_str_inject json_str_list_inject simp_thms)
qed

section \<open>Protected rows\<close>

text \<open>
  Rows are protected by a filter and masks when every cell of a masked column is the image of
  some value under its mask and every row has the value the filter asks for.
\<close>

definition column_name :: "column list \<Rightarrow> nat \<Rightarrow> string" where
  "column_name cols i = (if i < length cols then fst (cols ! i) else ''col_'' @ int_str (int i))"

definition rows_protected ::
  "(string \<Rightarrow> string) \<Rightarrow> (string \<times> string) option \<Rightarrow> (string \<times> string) list \<Rightarrow> column list \<Rightarrow> row list \<Rightarrow> bool" where
  "rows_protected sha rf masks cols rws \<longleftrightarrow>
     (\<forall>r \<in> set rws. \<forall>i < length r. mask_mode masks (column_name cols i) \<noteq> [] \<longrightarrow>
        (\<exists>v. r ! i = apply_mask sha v (mask_mode masks (column_name cols i)))) \<and>
     obeys_filter rf cols rws"

lemma length_mask_row [simp]: "length (mask_row sha names masks r) = length r"
  by (simp add: mask_row_def)

lemma mask_row_nth:
  "i < length r \<Longrightarrow> mask_row sha (map fst cols) masks r ! i =
     (if mask_mode masks (column_name cols i) \<noteq> []
      then apply_mask sha (r ! i) (mask_mode masks (column_name cols i)) else r ! i)"
  by (simp add: mask_row_def nth_enumerate_eq column_name_def Let_def)

text \<open>A filter on a column that is not masked is still obeyed after masking.\<close>

lemma obeys_filter_masked:
  assumes "obeys_filter rf cols rws" "\<And>c v. rf = Some (c, v) \<Longrightarrow> mask_mode masks (strip c) = []"
  shows "obeys_filter rf cols (map (mask_row sha (map fst cols) masks) rws)"
proof (cases rf)
  case (Some p)
  obtain c v where p: "p = (c, v)" by (cases p)
  show ?thesis
  proof (cases "index_of (strip c) (map fst cols)")
    case (Some idx)
    then have i: "idx < length cols" "fst (cols ! idx) = strip c"
      using index_of_Some [OF Some] by auto
    have "row_matches idx v (mask_row sha (map fst cols) masks r)" if "row_matches idx v r" for r
      using that i assms(2) [of c v] \<open>rf = Some p\<close> p
      by (auto simp: row_matches_def mask_row_nth column_name_def)
    with Some assms(1) \<open>rf = Some p\<close> p show ?thesis by (auto simp: obeys_filter_def)
  qed (use Some p assms(1) in \<open>auto simp: obeys_filter_def\<close>)
qed (simp add: obeys_filter_def)

lemma masked_rows_protected:
  assumes "obeys_filter (row_filter abac) (columns rs) (rows rs)"
    and "\<And>c v. row_filter abac = Some (c, v) \<Longrightarrow> mask_mode (abac_masks abac) (strip c) = []"
  shows "rows_protected (env_sha env) (row_filter abac) (abac_masks abac)
    (cr_columns (masked_rows env abac rs)) (cr_rows (masked_rows env abac rs))"
  using obeys_filter_masked [OF assms] mask_row_nth
  by (auto simp: rows_protected_def masked_rows_def)

text \<open>The attribute decision filters on \<open>region\<close> only and masks \<open>email\<close> only.\<close>

lemma abac_filter_unmasked:
  "row_filter (abac_default actor attrs mode) = Some (c, v) \<Longrightarrow>
     mask_mode (abac_masks (abac_default actor attrs mode)) (strip c) = []"
proof -
  assume "row_filter (abac_default actor attrs mode) = Some (c, v)"
  then have "c = ''region''"
    by (auto simp: abac_default_def evaluate_internal_abac_def Let_def split: if_split_asm)
  moreover have "strip ''region'' = ''region''" by code_simp
  ultimately show ?thesis
    using abac_masks_cases [of actor attrs mode]
    by (auto simp: mask_mode_def dget_or_def)
qed

lemma protected_cong_masks:
  assumes "set masks = set masks'" "distinct (dkeys masks)" "distinct (dkeys masks')"
  shows "rows_protected sha rf masks cols rws = rows_protected sha rf masks' cols rws"
proof -
  have "map_of masks = map_of masks'"
    using assms map_of_inject_set [of masks masks'] by (simp add: dkeys_def)
  then show ?thesis by (simp add: rows_protected_def mask_mode_def dget_or_def)
qed

section \<open>The parts of an answered query\<close>

definition request_abac :: "gw_request \<Rightarrow> pydict \<Rightarrow> abac_decision" where
  "request_abac rq actor = abac_default actor (resource_attrs_of rq)
     (str_of (rq_payload rq) ''abac_mode'' ''internal'')"

lemma abac_stage_Inr:
  "abac_stage cfg env rq cx g = (Inr abac, g') \<longleftrightarrow>
     abac = request_abac rq (cx_actor cx) \<and> abac_allow abac \<and> g' = g"
  by (auto simp: abac_stage_def evaluate_abac_default request_abac_def split: if_split_asm)

lemma query_success:
  assumes "gateway_query cfg env rq g = (Inr resp, g')"
  obtains cx g1 sc g2 lim g4 out md g5 g6 p g7 where
    "query_admission cfg env rq g = (Inr cx, g1)"
    "query_scope_stage cfg env rq cx g1 = (Inr sc, g2)"
    "abac_allow (request_abac rq (cx_actor cx))"
    "limits_stage rq g2 = (Inr lim, g4)"
    "rows_stage cfg env cx (request_abac rq (cx_actor cx)) sc lim g4 = (Inr (out, md), g5)"
    "budget_stage cfg env cx (request_abac rq (cx_actor cx)) (sc_text sc) out g5 = (Inr (), g6)"
    "provenance_stage cfg env cx (request_abac rq (cx_actor cx)) (sc_datasets sc) g6 = (Inr p, g7)"
    "respond cfg env cx (request_abac rq (cx_actor cx)) sc out md p g7 = (Inr resp, g')"
  using assms unfolding gateway_query_def answer_query_def abind_Inr_iff abac_stage_Inr
  by (elim exE conjE) (auto simp: abind_Inr_iff intro: that)

lemma respond_Inr:
  assumes "respond cfg env cx abac sc out md p g = (Inr resp, g')"
  shows "resp_columns resp = cr_columns out \<and> resp_rows resp = cr_rows out \<and>
    resp_row_count resp = int (length (cr_rows out)) \<and> resp_provenance resp = p \<and>
    resp_semantic resp = map_option (\<lambda>b. (sb_metric b, sb_group_by b, sb_checksum b)) (sc_binding sc) \<and>
    same_runtime g g' \<and>
    decided cfg (args_for cx ''allow'' ''allow'' (allow_resources cx sc md)
      (serialize_row_filter (row_filter abac)) (abac_masks abac)) g g'"
proof -
  let ?a = "args_for cx ''allow'' ''allow'' (allow_resources cx sc md)
      (serialize_row_filter (row_filter abac)) (abac_masks abac)"
  from assms obtain g1 where rec: "record_access_decision cfg env ?a g = (Inr (), g1)"
    and rest: "(let (event_id, g') = new_id env g1
       in (Inr \<lparr>resp_columns = cr_columns out, resp_rows = cr_rows out,
                resp_row_count = int (length (cr_rows out)), resp_provenance = p,
                resp_audit_event_id = event_id, resp_request_id = cx_correlation cx,
                resp_semantic = map_option (\<lambda>b. (sb_metric b, sb_group_by b, sb_checksum b))
                  (sc_binding sc)\<rparr>,
           add_metrics [QueryLatency (cx_workspace cx) (cx_engine cx) ''allow''] g')) = (Inr resp :: query_response res, g')"
    by (auto simp: respond_def abind_Inr_iff)
  obtain i g2 where id: "new_id env g1 = (i, g2)" by fastforce
  with rest have g': "g' = add_metrics [QueryLatency (cx_workspace cx) (cx_engine cx) ''allow''] g2"
    by auto
  have "same_runtime g1 g'" "silent g1 g'" "gw_taken g' = gw_taken g1"
    using id by (auto simp: g' new_id_def same_runtime_def silent_def add_metrics_def)
  moreover from record_spec [OF rec] have "same_runtime g g1" "decided cfg ?a g g1" by auto
  ultimately have "same_runtime g g'" "decided cfg ?a g g'"
    using same_runtime_trans decided_silent by blast+
  then show ?thesis using rest id by auto
qed

lemma respond_Inl: "respond cfg env cx abac sc out md p g = (Inl e, g') \<Longrightarrow> silent g g' \<and> same_runtime g g'"
  using record_spec
  by (auto simp: respond_def abind_def split: prod.split_asm sum.split_asm) fastforce+

lemma respond_runtime: "keeps_runtime (respond cfg env cx abac sc out md p)"
  unfolding keeps_runtime_def
proof (intro allI impI)
  fix g r g' assume "respond cfg env cx abac sc out md p g = (r, g')"
  then show "same_runtime g g'" by (cases r) (auto dest: respond_Inr respond_Inl)
qed

lemma budget_Inr:
  "budget_stage cfg env cx abac q out g = (Inr u, g') \<Longrightarrow>
     32 * int (length (cr_rows out)) \<le> set_query_max_bytes cfg \<and> g' = g"
  using budget_bounds_rows
  by (auto simp: budget_stage_def Let_def pass_def split: if_split_asm)

section \<open>Every outcome is audited\<close>

lemma admission_guarded: "guarded cfg (query_admission cfg env rq)"
  unfolding guarded_def
proof (intro allI impI)
  fix g r g' assume "query_admission cfg env rq g = (r, g')"
  then show "case r of Inr _ \<Rightarrow> silent g g'
      | Inl _ \<Rightarrow> silent g g' \<or> (\<exists>a. da_result a = ''deny'' \<and> decided cfg a g g')"
    unfolding query_admission_def by (cases rule: admit_cases) auto
qed

definition before_response ::
  "gw_settings \<Rightarrow> gw_env \<Rightarrow> gw_request \<Rightarrow> (gw_context \<times> query_scope \<times> abac_decision \<times> cached_rows \<times> pydict \<times> pydict) action" where
  "before_response cfg env rq =
     abind (query_admission cfg env rq) (\<lambda>cx.
     abind (query_scope_stage cfg env rq cx) (\<lambda>sc.
     abind (abac_stage cfg env rq cx) (\<lambda>abac.
     abind (limits_stage rq) (\<lambda>lim.
     abind (rows_stage cfg env cx abac sc lim) (\<lambda>(out, metadata).
     abind (budget_stage cfg env cx abac (sc_text sc) out) (\<lambda>_.
     abind (provenance_stage cfg env cx abac (sc_datasets sc)) (\<lambda>provenance.
     pass (cx, sc, abac, out, metadata, provenance))))))))"

lemma abind_assoc: "abind (abind m f) h = abind m (\<lambda>x. abind (f x) h)"
  by (auto simp: abind_def fun_eq_iff split: prod.split sum.split)

lemma abind_pass: "abind (pass x) f = f x"
  by (simp add: abind_def pass_def fun_eq_iff)

lemma abind_prod: "abind ((\<lambda>(x, y). f x y) z) h = (\<lambda>(x, y). abind (f x y) h) z"
  by (cases z) simp

lemma gateway_query_split:
  "gateway_query cfg env rq =
     abind (before_response cfg env rq) (\<lambda>(cx, sc, abac, out, metadata, provenance).
       respond cfg env cx abac sc out metadata provenance)"
  by (simp add: gateway_query_def before_response_def answer_query_def abind_assoc abind_prod abind_pass
      case_prod_unfold)

lemma before_response_guarded: "guarded cfg (before_response cfg env rq)"
  unfolding before_response_def
  by (auto intro!: guarded_bind admission_guarded scope_ok abac_ok limits_ok rows_guarded budget_ok
      provenance_ok guarded_pass split: prod.split)

section \<open>The cache stays sound\<close>

text \<open>
  Every stored response was made under the filter and the masks that are in its key.
\<close>

definition entry_sound :: "(string \<Rightarrow> string) \<Rightarrow> string \<Rightarrow> cached_rows \<Rightarrow> bool" where
  "entry_sound sha key out \<longleftrightarrow> (\<exists>st ws aid roles attrs q ds rf masks mr tm eng pack.
     build_query_cache_key st ws aid roles attrs q ds rf masks mr tm eng pack = Inr key \<and>
     wf_key_inputs roles attrs pack \<and> distinct (dkeys masks) \<and>
     rows_protected sha rf masks (cr_columns out) (cr_rows out))"

definition cache_sound :: "(string \<Rightarrow> string) \<Rightarrow> gateway \<Rightarrow> bool" where
  "cache_sound sha g \<longleftrightarrow> (\<forall>(key, out) \<in> cached_pairs (gw_cache g). entry_sound sha key out)"

lemma key_protects:
  assumes "entry_sound sha key out"
    and "build_query_cache_key st ws aid roles attrs q ds rf masks mr tm eng pack = Inr key"
    and "wf_key_inputs roles attrs pack" "distinct (dkeys masks)"
  shows "rows_protected sha rf masks (cr_columns out) (cr_rows out)"
proof -
  from assms(1) obtain st' ws' aid' roles' attrs' q' ds' rf' masks' mr' tm' eng' pack' where
    k': "build_query_cache_key st' ws' aid' roles' attrs' q' ds' rf' masks' mr' tm' eng' pack' = Inr key"
    and wf': "wf_key_inputs roles' attrs' pack'" "distinct (dkeys masks')"
    and prot: "rows_protected sha rf' masks' (cr_columns out) (cr_rows out)"
    by (auto simp: entry_sound_def)
  from k' assms(2) obtain p p' where
    "json_dumps (PDict (key_dict p ws aid roles attrs q ds rf masks mr tm eng pack)) =
     json_dumps (PDict (key_dict p' ws' aid' roles' attrs' q' ds' rf' masks' mr' tm' eng' pack'))"
    unfolding build_key_Inr by metis
  from key_dict_common [OF assms(3) wf'(1) this] have "rf = rf'" "set masks = set masks'" by auto
  with prot protected_cong_masks [of masks masks'] assms(4) wf'(2) show ?thesis by simp
qed

lemma rows_stage_cache:
  assumes "rows_stage cfg env cx abac sc lim g = (r, g')" "cache_sound (env_sha env) g"
    and "wf_key_inputs (dget_or (cx_actor cx) ''roles'' (PList [])) (actor_attributes_of (cx_actor cx)) (cx_pack cx)"
    and "distinct (dkeys (abac_masks abac))"
    and "\<And>c v. row_filter abac = Some (c, v) \<Longrightarrow> mask_mode (abac_masks abac) (strip c) = []"
  shows "cache_sound (env_sha env) g' \<and> (\<forall>out md. r = Inr (out, md) \<longrightarrow>
    rows_protected (env_sha env) (row_filter abac) (abac_masks abac) (cr_columns out) (cr_rows out))"
  using assms(1)
proof (cases rule: rows_stage_cases)
  case no_key
  with assms(2) show ?thesis by simp
next
  case (hit key out c)
  have "entry_sound (env_sha env) key out"
    by (rule cache.sound_get [OF assms(2) [unfolded cache_sound_def] hit(2)])
  from key_protects [OF this hit(1) [unfolded cache_key_of_def] assms(3,4)]
  have "rows_protected (env_sha env) (row_filter abac) (abac_masks abac) (cr_columns out) (cr_rows out)" .
  moreover have "\<forall>(k, v) \<in> cached_pairs (snd (cache_get (now_ticks env) key (gw_cache g))).
      entry_sound (env_sha env) k v"
    by (rule cache.sound_after_get [OF assms(2) [unfolded cache_sound_def]])
  then have "cache_sound (env_sha env) g'" using hit by (simp add: cache_sound_def)
  ultimately show ?thesis using hit by simp
next
  case (failed key c e x)
  have "\<forall>(k, v) \<in> cached_pairs (snd (cache_get (now_ticks env) key (gw_cache g))).
      entry_sound (env_sha env) k v"
    by (rule cache.sound_after_get [OF assms(2) [unfolded cache_sound_def]])
  with failed show ?thesis by (simp add: cache_sound_def)
next
  case (ran key c rs)
  have "obeys_filter (row_filter abac) (columns rs) (rows rs)"
    using execute_sql_obeys ran(3) unfolding row_env_def by blast
  then have
    prot: "rows_protected (env_sha env) (row_filter abac) (abac_masks abac)
      (cr_columns (masked_rows env abac rs)) (cr_rows (masked_rows env abac rs))"
    by (rule masked_rows_protected) (rule assms(5))
  then have "entry_sound (env_sha env) key (masked_rows env abac rs)"
    using ran(1) assms(3,4) unfolding entry_sound_def cache_key_of_def by blast
  with cache.sound_after_put [OF cache.sound_after_get [OF assms(2) [unfolded cache_sound_def]]]
  have "\<forall>(k, v) \<in> cached_pairs (cache_set (now_ticks env) key (masked_rows env abac rs)
      (snd (cache_get (now_ticks env) key (gw_cache g)))). entry_sound (env_sha env) k v" by blast
  then have "cache_sound (env_sha env) g'" using ran by (simp add: cache_sound_def)
  with prot ran show ?thesis by simp
qed

section \<open>A whole request\<close>

lemma keeps_cache:
  "keeps_runtime m \<Longrightarrow> m g = (r, g') \<Longrightarrow> gw_cache g' = gw_cache g \<and> gw_limiter g' = gw_limiter g"
  using keeps_runtimeD [of m g r g'] by (simp add: same_runtime_def)

lemma admission_runtime:
  "query_admission cfg env rq g = (r, g') \<Longrightarrow> gw_cache g' = gw_cache g"
  unfolding query_admission_def by (cases rule: admit_cases [of _ _ _ cfg env rq g r g']) auto

lemma wf_pack: "load_effective_policy_pack d ws = Inr pack \<Longrightarrow>
    wf_json (PDict (case pack of None \<Rightarrow> [] | Some p \<Rightarrow> p))"
  by (auto simp: load_effective_policy_pack_def rbind_eq_Inr_iff Let_def
      split: option.split_asm pyval.split_asm if_split_asm)

text \<open>What the parser guarantees of an actor.\<close>

definition wf_actor :: "pydict \<Rightarrow> bool" where
  "wf_actor actor \<longleftrightarrow> wf_json (PDict actor)"

lemma wf_dget_or: "wf_json (PDict d) \<Longrightarrow> wf_json v \<Longrightarrow> wf_json (dget_or d k v)"
  by (auto simp: dget_or_def list_all_iff split: option.split dest!: map_of_SomeD)

lemma wf_actor_inputs:
  assumes "wf_actor actor" "wf_json (PDict (case pack of None \<Rightarrow> [] | Some p \<Rightarrow> p))"
  shows "wf_key_inputs (dget_or actor ''roles'' (PList [])) (actor_attributes_of actor) pack"
proof -
  have "wf_json (dget_or actor ''roles'' (PList []))" "wf_json (dget_or actor ''attributes'' (PDict []))"
    using assms(1) by (simp_all add: wf_actor_def wf_dget_or)
  then have "wf_json (PList (as_list (dget_or actor ''roles'' (PList []))))"
    "wf_json (PDict (actor_attributes_of actor))"
    by (cases "dget_or actor ''roles'' (PList [])"; simp)
      (use \<open>wf_json (dget_or actor ''attributes'' (PDict []))\<close> in
        \<open>cases "dget_or actor ''attributes'' (PDict [])"; simp add: actor_attributes_of_def\<close>)
  with assms(2) show ?thesis by (simp add: wf_key_inputs_def)
qed

lemma distinct_abac_masks: "distinct (dkeys (abac_masks (request_abac rq actor)))"
  using abac_masks_cases [of actor "resource_attrs_of rq"
      "str_of (rq_payload rq) ''abac_mode'' ''internal''"]
  by (auto simp: request_abac_def dkeys_def)

lemma rows_stage_cache_request:
  assumes "query_admission cfg env rq g0 = (Inr cx, g1)" "rq_actor rq = Some actor" "wf_actor actor"
    and "rows_stage cfg env cx (request_abac rq (cx_actor cx)) sc lim g = (r, g')"
    and "cache_sound (env_sha env) g"
  shows "cache_sound (env_sha env) g' \<and> (\<forall>out md. r = Inr (out, md) \<longrightarrow>
    rows_protected (env_sha env) (row_filter (request_abac rq actor)) (abac_masks (request_abac rq actor))
      (cr_columns out) (cr_rows out))"
proof -
  have cx: "cx_actor cx = actor" "load_effective_policy_pack (gw_db g0) (cx_workspace cx) = Inr (cx_pack cx)"
    using assms(1,2) unfolding query_admission_def by (auto elim: admit_cases)
  have "wf_key_inputs (dget_or actor ''roles'' (PList [])) (actor_attributes_of actor) (cx_pack cx)"
    by (rule wf_actor_inputs [OF assms(3) wf_pack [OF cx(2)]])
  then show ?thesis
    using rows_stage_cache [OF assms(4,5)] distinct_abac_masks abac_filter_unmasked
    by (simp add: cx request_abac_def)
qed

text \<open>The cache is sound after any request, answered or not.\<close>

lemma cache_sound_cong: "gw_cache g' = gw_cache g \<Longrightarrow> cache_sound sha g' = cache_sound sha g"
  by (simp add: cache_sound_def)

lemma answer_query_cache:
  assumes "query_admission cfg env rq g0 = (Inr cx, g1)" "rq_actor rq = Some actor" "wf_actor actor"
    and "answer_query cfg env rq cx sc (request_abac rq (cx_actor cx)) g = (r, g')"
    and "cache_sound (env_sha env) g"
  shows "cache_sound (env_sha env) g'"
  using assms(4) unfolding answer_query_def
proof (cases rule: abind_cases)
  case stop
  then show ?thesis using keeps_cache [OF limits_ok(2)] assms(5) cache_sound_cong by metis
next
  case (next_stage lim g2)
  have g2: "cache_sound (env_sha env) g2"
    using keeps_cache [OF limits_ok(2) next_stage(1)] assms(5) cache_sound_cong by metis
  from next_stage(2) show ?thesis
  proof (cases rule: abind_cases)
    case stop
    then show ?thesis using rows_stage_cache_request [OF assms(1-3) stop(1) g2] by blast
  next
    case (next_stage om g3)
    let ?rest = "(\<lambda>(out, metadata).
        abind (budget_stage cfg env cx (request_abac rq (cx_actor cx)) (sc_text sc) out) (\<lambda>_.
        abind (provenance_stage cfg env cx (request_abac rq (cx_actor cx)) (sc_datasets sc)) (\<lambda>p.
        respond cfg env cx (request_abac rq (cx_actor cx)) sc out metadata p))) om"
    have "keeps_runtime ?rest"
      by (cases om) (auto intro!: keeps_runtime_bind budget_ok provenance_ok respond_runtime)
    from keeps_cache [OF this next_stage(2)] have "gw_cache g' = gw_cache g3" ..
    moreover from rows_stage_cache_request [OF assms(1-3) next_stage(1) g2]
    have "cache_sound (env_sha env) g3" ..
    ultimately show ?thesis using cache_sound_cong by blast
  qed
qed

section \<open>Scope and slots\<close>

lemma sort_filter_Nil: "sort (filter P xs) = [] \<longleftrightarrow> (\<forall>x \<in> set xs. \<not> P x)"
  by (metis filter_False filter_empty_conv set_sort list.set(1) set_empty)

lemma ai_scope_Inr:
  assumes "ai_scope cfg env rq cx g = (Inr sc, g')"
  shows "\<exists>b. bind_semantic_query (env_checksum env) (gw_db g) (cx_workspace cx)
      (as_dict (dget_or (rq_payload rq) ''semantic_query'' PNone)) = Inr b \<and>
    sc = \<lparr>sc_binding = Some b, sc_text = sb_sql b, sc_datasets = sb_datasets b\<rparr> \<and>
    (\<forall>ds \<in> set (sb_datasets b). ds \<in> set (allowed_dataset_ids_of (cx_actor cx)) \<and>
       \<not> dataset_belongs_to_other_workspace (gw_db g) (cx_workspace cx) ds)"
  using assms
  by (auto simp: ai_scope_def Let_def sort_filter_Nil split: if_split_asm sum.split_asm)

lemma scope_Inr:
  assumes "query_scope_stage cfg env rq cx g = (Inr sc, g')" "is_ai_actor (cx_actor cx)"
  shows "\<exists>b. bind_semantic_query (env_checksum env) (gw_db g) (cx_workspace cx)
      (as_dict (dget_or (rq_payload rq) ''semantic_query'' PNone)) = Inr b \<and>
    sc = \<lparr>sc_binding = Some b, sc_text = sb_sql b, sc_datasets = sb_datasets b\<rparr> \<and>
    (\<forall>ds \<in> set (sb_datasets b). ds \<in> set (allowed_dataset_ids_of (cx_actor cx)) \<and>
       \<not> dataset_belongs_to_other_workspace (gw_db g) (cx_workspace cx) ds)"
  using assms ai_scope_Inr [of cfg env rq cx g sc g'] by (simp add: query_scope_stage_def)

lemma admission_Inr:
  assumes "query_admission cfg env rq g = (Inr cx, g')"
  obtains actor d where "rq_actor rq = Some actor" "silent g g'" "cx_actor cx = actor"
    "cx_actor_id cx = str_of actor ''actor_id'' ''unknown''"
    "cx_workspace cx = str_of (rq_payload rq) ''workspace_id'' ''unknown''"
    "ad_result (evaluate_access actor (query_allow_ai actor)) = ''allow''"
    "try_acquire (now_seconds env) (cx_actor_id cx) (gw_limiter g) = (d, gw_limiter g')" "rl_allowed d"
  using assms unfolding query_admission_def
  by (cases rule: admit_cases [of _ _ _ cfg env rq g "Inr cx" g']) (auto intro: that)

lemma rows_stage_limiter:
  "rows_stage cfg env cx abac sc lim g = (Inr x, g') \<Longrightarrow>
     gw_limiter g' = release (cx_actor_id cx) (gw_limiter g)"
  by (cases rule: rows_stage_cases [of cfg env cx abac sc lim g "Inr x" g']) auto

lemma success_limiter:
  assumes "gateway_query cfg env rq g = (Inr resp, g')"
  shows "\<exists>actor_id d l. try_acquire (now_seconds env) actor_id (gw_limiter g) = (d, l) \<and>
    rl_allowed d \<and> gw_limiter g' = release actor_id l"
proof -
  from query_success [OF assms] obtain cx g1 sc g2 lim g4 out md g5 g6 p g7 where
    q: "query_admission cfg env rq g = (Inr cx, g1)" "query_scope_stage cfg env rq cx g1 = (Inr sc, g2)"
      "limits_stage rq g2 = (Inr lim, g4)"
      "rows_stage cfg env cx (request_abac rq (cx_actor cx)) sc lim g4 = (Inr (out, md), g5)"
      "budget_stage cfg env cx (request_abac rq (cx_actor cx)) (sc_text sc) out g5 = (Inr (), g6)"
      "provenance_stage cfg env cx (request_abac rq (cx_actor cx)) (sc_datasets sc) g6 = (Inr p, g7)"
      "respond cfg env cx (request_abac rq (cx_actor cx)) sc out md p g7 = (Inr resp, g')" by metis
  have "gw_limiter g4 = gw_limiter g1"
    using keeps_cache [OF scope_ok(2) q(2)] keeps_cache [OF limits_ok(2) q(3)] by simp
  moreover have "gw_limiter g' = gw_limiter g5"
    using keeps_cache [OF budget_ok(2) q(5)] keeps_cache [OF provenance_ok(2) q(6)]
      keeps_cache [OF respond_runtime q(7)] by simp
  ultimately show ?thesis
    using admission_Inr [OF q(1)] rows_stage_limiter [OF q(4)] by metis
qed

section \<open>A concrete deployment\<close>

definition demo_settings :: gw_settings where
  "demo_settings = \<lparr>set_storage_root = ''data'', set_query_engine = ''duckdb'',
     set_query_max_bytes = 100000, set_retrieval_max_bytes = 100000,
     set_retrieval_backend = ''filesystem'', set_opensearch_enabled = False, set_opensearch_url = '''',
     set_opensearch_index = '''', set_opensearch_timeout_ms = 0, set_qdrant_enabled = False,
     set_qdrant_url = '''', set_qdrant_collection = '''', set_qdrant_timeout_ms = 0,
     set_sink_inline = False, set_sink = DisabledAuditSink\<rparr>"

definition demo_world :: gw_env where
  "demo_world = \<lparr>env_exec = \<lparr>duck_run = \<lambda>_ _. Inr ([(''region'', Some ''VARCHAR''), (''email'', None)],
         [[PStr ''eu'', PStr ''ann@x.io''], [PStr ''us'', PStr ''bob@x.io'']]),
       trino_run = \<lambda>_ _ _. Inl TimeoutError, elapsed_us = 10, path_exists = \<lambda>_. False,
       gold_files = gold_store_empty\<rparr>,
     env_sha = id, env_checksum = \<lambda>_. ''c'', fresh = \<lambda>n. CHR ''i'' # nat_digits n, commit_fault = None,
     sink_write = \<lambda>_ _. None, sink_post = \<lambda>_ _. None, search_fetch = \<lambda>_ _ _. Inl TimeoutError,
     embed = \<lambda>_. Inl (DisabledIntegrationError ''''), documents = \<lambda>_. [], now_ticks = 0,
     now_seconds = 0\<rparr>"

definition demo_gateway :: gateway where
  "demo_gateway = \<lparr>gw_db = demo_policy_db, gw_limiter = limiter_init 10 2 0,
     gw_cache = cache_init False 30 10, gw_metrics = [], gw_taken = [], gw_next_id = 0\<rparr>"

definition demo_actor :: pydict where
  "demo_actor = [(''actor_id'', PStr ''user:ann''), (''actor_type'', PStr ''human''),
     (''roles'', PList [PStr ''analyst'']), (''attributes'', PDict [(''region'', PStr ''eu'')])]"

definition demo_ai_actor :: pydict where
  "demo_ai_actor = [(''actor_id'', PStr ''agent:1''), (''actor_type'', PStr ''ai''),
     (''roles'', PList []), (''attributes'', PDict [(''ai_allowlisted'', PBool True),
       (''allowed_dataset_ids'', PList [PStr ''d1'', PStr ''d2''])])]"

definition demo_query :: "pydict \<Rightarrow> gw_request" where
  "demo_query actor = \<lparr>rq_payload = [(''workspace_id'', PStr ''w''),
       (''query'', PDict [(''text'', PStr ''select 1 as one'')]),
       (''semantic_query'', PDict [(''metric_id'', PStr ''total'')])],
     rq_actor = Some actor, rq_correlation = ''r''\<rparr>"

definition demo_response :: query_response where
  "demo_response = \<lparr>resp_columns = [(''region'', ''VARCHAR''), (''email'', ''unknown'')],
     resp_rows = [[PStr ''eu'', PStr ''a******o'']], resp_row_count = 1,
     resp_provenance = [(''provenance_version'', PStr ''1''), (''workspace_id'', PStr ''w''),
       (''policy_decision_id'', PStr ''i0''), (''query_id'', PStr ''i2''), (''build_id'', PStr ''i1''),
       (''datasets_used'', PList []), (''snapshots'', PList []), (''decision_reason'', PStr ''allow''),
       (''applied_filters'', PDict [(''row_filter'', PDict [(''column'', PStr ''region''), (''value'', PStr ''eu'')])]),
       (''applied_masks'', PDict [(''email'', PStr ''partial_reveal'')])],
     resp_audit_event_id = ''i5'', resp_request_id = ''r'', resp_semantic = None\<rparr>"

text \<open>
  With the cache disabled the handler is the same chain without it: the key is computed but
  neither read nor written.
\<close>

definition uncached_query :: "gw_settings \<Rightarrow> gw_env \<Rightarrow> gw_request \<Rightarrow> query_response action" where
  "uncached_query cfg env rq =
     abind (query_admission cfg env rq) (\<lambda>cx.
     abind (query_scope_stage cfg env rq cx) (\<lambda>sc.
     abind (abac_stage cfg env rq cx) (\<lambda>abac.
     abind (limits_stage rq) (\<lambda>lim.
     abind (\<lambda>g. fresh_rows cfg env cx abac (sc_text sc) (fst lim) (snd lim) []
         (add_metrics [QueryCacheMetric (cx_workspace cx) ''miss''] g))
       (\<lambda>(out, metadata).
     abind (budget_stage cfg env cx abac (sc_text sc) out) (\<lambda>_.
     abind (provenance_stage cfg env cx abac (sc_datasets sc)) (\<lambda>provenance.
     respond cfg env cx abac sc out metadata provenance)))))))"

lemma abind_cong_run:
  "(\<And>x g1. m g = (Inr x, g1) \<Longrightarrow> f x g1 = f' x g1) \<Longrightarrow> abind m f g = abind m f' g"
  by (auto simp: abind_def split: prod.split sum.split)

lemma abind_cong_first: "m g = m' g \<Longrightarrow> abind m f g = abind m' f g"
  by (simp add: abind_def)

lemma fresh_rows_disabled:
  "\<not> cache_enabled (gw_cache g) \<Longrightarrow>
     fresh_rows cfg env cx abac q mr tm key g = fresh_rows cfg env cx abac q mr tm key' g"
proof -
  assume off: "\<not> cache_enabled (gw_cache g)"
  have "\<not> cache_enabled (gw_cache g1)"
    if "finally_release (cx_actor_id cx) (\<lambda>g. case execute_sql (env_exec env)
          (if q = [] then ''select 1 as one'' else q) mr (row_filter abac) tm (Some (cx_workspace cx))
          (set_storage_root cfg) (set_query_engine cfg) of
        Inl e \<Rightarrow> query_failed cfg env cx abac q e g | Inr rs \<Rightarrow> (Inr rs, g)) g = (Inr rs, g1)" for rs g1
    using that off by (auto simp: finally_release_def split: sum.split_asm prod.split_asm)
  then show ?thesis
    unfolding fresh_rows_def by (intro abind_cong_run) (simp add: cache_set_def Let_def)
qed

lemma gateway_query_uncached:
  assumes off: "\<not> cache_enabled (gw_cache g)" and no_pointer: "\<forall>ws. latest_file (gold_files (env_exec env)) ws = None"
  shows "gateway_query cfg env rq g = uncached_query cfg env rq g"
  unfolding gateway_query_def uncached_query_def answer_query_def
proof (intro abind_cong_run)
  fix cx g1 sc g2 abac g3 lim g4
  assume r: "query_admission cfg env rq g = (Inr cx, g1)"
    "query_scope_stage cfg env rq cx g1 = (Inr sc, g2)" "abac_stage cfg env rq cx g2 = (Inr abac, g3)"
    "limits_stage rq g3 = (Inr lim, g4)"
  have "gw_cache g4 = gw_cache g"
    using admission_runtime [OF r(1)] keeps_cache [OF scope_ok(2) r(2)] keeps_cache [OF abac_ok(2) r(3)]
      keeps_cache [OF limits_ok(2) r(4)] by simp
  with off have off4: "\<not> cache_enabled (gw_cache g4)" by simp
  obtain key where key: "cache_key_of cfg env cx abac sc lim = Inr key"
    unfolding cache_key_of_def build_key_Inr using no_pointer by (auto simp: load_latest_gold_pointer_def)
  have "cache_get (now_ticks env) key (gw_cache g4) = (None, gw_cache g4)"
    using off4 by (simp add: cache_get_def)
  then have "rows_stage cfg env cx abac sc lim g4 = fresh_rows cfg env cx abac (sc_text sc) (fst lim)
      (snd lim) key (add_metrics [QueryCacheMetric (cx_workspace cx) ''miss''] g4)"
    using key by (simp add: rows_stage_def cache_key_of_def)
  also have "\<dots> = fresh_rows cfg env cx abac (sc_text sc) (fst lim)
      (snd lim) [] (add_metrics [QueryCacheMetric (cx_workspace cx) ''miss''] g4)"
    by (rule fresh_rows_disabled) (use off4 in \<open>simp add: add_metrics_def\<close>)
  finally show "abind (rows_stage cfg env cx abac sc lim)
      (\<lambda>(out, metadata). abind (budget_stage cfg env cx abac (sc_text sc) out)
        (\<lambda>_. abind (provenance_stage cfg env cx abac (sc_datasets sc))
          (\<lambda>provenance. respond cfg env cx abac sc out metadata provenance))) g4 =
    abind (\<lambda>g. fresh_rows cfg env cx abac (sc_text sc) (fst lim) (snd lim) []
        (add_metrics [QueryCacheMetric (cx_workspace cx) ''miss''] g))
      (\<lambda>(out, metadata). abind (budget_stage cfg env cx abac (sc_text sc) out)
        (\<lambda>_. abind (provenance_stage cfg env cx abac (sc_datasets sc))
          (\<lambda>provenance. respond cfg env cx abac sc out metadata provenance))) g4"
    by (rule abind_cong_first)
qed

lemma demo_answer: "fst (gateway_query demo_settings demo_world (demo_query demo_actor) demo_gateway) = Inr demo_response"
proof -
  have "gateway_query demo_settings demo_world (demo_query demo_actor) demo_gateway =
      uncached_query demo_settings demo_world (demo_query demo_actor) demo_gateway"
    by (rule gateway_query_uncached)
      (simp_all add: demo_gateway_def demo_world_def gold_store_empty_def cache_init_def)
  moreover have "fst (uncached_query demo_settings demo_world (demo_query demo_actor) demo_gateway) =
      Inr demo_response" by code_simp
  ultimately show ?thesis by simp
qed

section \<open>Properties\<close>



lemma demo_run: "\<exists>g'. gateway_query demo_settings demo_world (demo_query demo_actor) demo_gateway = (Inr demo_response, g')"
  using demo_answer by (metis prod.collapse)


text \<open>
  C4. Rows are masked and filtered, from the cache as well: while every stored response was
  made under the filter and the masks of its key, any request keeps it so, and the rows of a
  response carry the masks and the row filter of the request's own attribute decision.
\<close>

theorem query_rows_protected:
  assumes "gateway_query cfg env rq g = (r, g')" "cache_sound (env_sha env) g"
    and "rq_actor rq = Some actor" "wf_actor actor"
  shows "cache_sound (env_sha env) g' \<and> (\<forall>resp. r = Inr resp \<longrightarrow>
    rows_protected (env_sha env) (row_filter (request_abac rq actor))
      (abac_masks (request_abac rq actor)) (resp_columns resp) (resp_rows resp))"
proof
  show "cache_sound (env_sha env) g'"
    using assms(1) unfolding gateway_query_def
  proof (cases rule: abind_cases)
    case stop
    then show ?thesis using admission_runtime assms(2) cache_sound_cong by blast
  next
    case adm: (next_stage cx g1)
    have c1: "cache_sound (env_sha env) g1"
      using admission_runtime [OF adm(1)] assms(2) cache_sound_cong by blast
    from adm(2) show ?thesis
    proof (cases rule: abind_cases)
      case stop
      then show ?thesis using keeps_cache [OF scope_ok(2)] c1 cache_sound_cong by metis
    next
      case sc: (next_stage sc g2)
      have c2: "cache_sound (env_sha env) g2"
        using keeps_cache [OF scope_ok(2) sc(1)] c1 cache_sound_cong by metis
      from sc(2) show ?thesis
      proof (cases rule: abind_cases)
        case stop
        then show ?thesis using keeps_cache [OF abac_ok(2)] c2 cache_sound_cong by metis
      next
        case (next_stage abac g3)
        then have "abac = request_abac rq (cx_actor cx)" "g3 = g2" by (simp_all add: abac_stage_Inr)
        with next_stage(2) c2 show ?thesis
          using answer_query_cache [OF adm(1) assms(3,4)] by blast
      qed
    qed
  qed
  show "\<forall>resp. r = Inr resp \<longrightarrow> rows_protected (env_sha env) (row_filter (request_abac rq actor))
      (abac_masks (request_abac rq actor)) (resp_columns resp) (resp_rows resp)"
  proof (intro allI impI)
    fix resp assume "r = Inr resp"
    with assms(1) have "gateway_query cfg env rq g = (Inr resp, g')" by simp
    from query_success [OF this] obtain cx g1 sc g2 lim g4 out md g5 g6 p g7 where
      q: "query_admission cfg env rq g = (Inr cx, g1)" "query_scope_stage cfg env rq cx g1 = (Inr sc, g2)"
        "limits_stage rq g2 = (Inr lim, g4)"
        "rows_stage cfg env cx (request_abac rq (cx_actor cx)) sc lim g4 = (Inr (out, md), g5)"
        "respond cfg env cx (request_abac rq (cx_actor cx)) sc out md p g7 = (Inr resp, g')" by metis
    have "cache_sound (env_sha env) g4"
      using admission_runtime [OF q(1)] keeps_cache [OF scope_ok(2) q(2)] keeps_cache [OF limits_ok(2) q(3)]
        assms(2) cache_sound_cong by metis
    from rows_stage_cache_request [OF q(1) assms(3,4) q(4) this] respond_Inr [OF q(5)]
    show "rows_protected (env_sha env) (row_filter (request_abac rq actor))
        (abac_masks (request_abac rq actor)) (resp_columns resp) (resp_rows resp)" by simp
  qed
qed

theorem query_rows_protected_witness:
  "rows_protected id (row_filter (request_abac (demo_query demo_actor) demo_actor))
     (abac_masks (request_abac (demo_query demo_actor) demo_actor))
     (resp_columns demo_response) (resp_rows demo_response)"
proof -
  from demo_run obtain g' where run:
    "gateway_query demo_settings demo_world (demo_query demo_actor) demo_gateway = (Inr demo_response, g')" ..
  have "cache_sound (env_sha demo_world) demo_gateway"
    by (simp add: cache_sound_def cached_pairs_def demo_gateway_def cache_init_def)
  moreover have "rq_actor (demo_query demo_actor) = Some demo_actor" by (simp add: demo_query_def)
  moreover have "wf_actor demo_actor" by (simp add: wf_actor_def demo_actor_def)
  ultimately show ?thesis
    using query_rows_protected [OF run] by (simp add: demo_world_def)
qed

text \<open>
  An answered request gives its slot back: after a response every actor has as many
  requests in flight as before.
\<close>

theorem query_slot_returned:
  assumes "gateway_query cfg env rq g = (Inr resp, g')" "limiter_inv (gw_limiter g)"
  shows "inflight (gw_limiter g') b = inflight (gw_limiter g) b"
proof -
  from success_limiter [OF assms(1)] obtain actor_id d l where
    "try_acquire (now_seconds env) actor_id (gw_limiter g) = (d, l)" "rl_allowed d"
    "gw_limiter g' = release actor_id l" by blast
  then show ?thesis using limiter.granted_then_released [OF assms(2)] by metis
qed

theorem query_slot_returned_witness:
  "\<exists>g'. gateway_query demo_settings demo_world (demo_query demo_actor) demo_gateway = (Inr demo_response, g') \<and>
     inflight (gw_limiter g') ''user:ann'' = inflight (gw_limiter demo_gateway) ''user:ann''"
proof -
  from demo_run obtain g' where run:
    "gateway_query demo_settings demo_world (demo_query demo_actor) demo_gateway = (Inr demo_response, g')" ..
  have "limiter_inv (gw_limiter demo_gateway)" by (simp add: demo_gateway_def limiter_inv_init)
  from query_slot_returned [OF run this] run show ?thesis by blast
qed

definition lacks_semantic_query :: "gw_request \<Rightarrow> bool" where
  "lacks_semantic_query rq \<longleftrightarrow> as_dict (dget_or (rq_payload rq) ''semantic_query'' PNone) = []"

text \<open>
  A slot is lost on the early denials: an admitted AI request without a semantic query is
  denied with its slot still held, and an actor whose lost slots reach the limit is refused by
  every later request, in any environment, without end.
\<close>

theorem early_denial_loses_slot:
  assumes "rq_actor rq = Some actor" "is_ai_actor actor" "lacks_semantic_query rq"
    and "query_admission cfg env rq g = (Inr cx, g1)" "limiter_inv (gw_limiter g)"
    and "gateway_query cfg env rq g = (r, g')"
  shows "(\<exists>e. r = Inl e) \<and>
    inflight (gw_limiter g') (cx_actor_id cx) = inflight (gw_limiter g) (cx_actor_id cx) + 1 \<and>
    (inflight (gw_limiter g') (cx_actor_id cx) \<ge> max_concurrent_per_actor (gw_limiter g') \<longrightarrow>
      (\<forall>cfg2 env2 rq2 actor2. rq_actor rq2 = Some actor2 \<longrightarrow>
         str_of actor2 ''actor_id'' ''unknown'' = cx_actor_id cx \<longrightarrow>
         (\<exists>e. fst (gateway_query cfg2 env2 rq2 g') = Inl e)))"
proof -
  from admission_Inr [OF assms(4)] obtain a d where
    a: "rq_actor rq = Some a" "cx_actor cx = a"
      "try_acquire (now_seconds env) (cx_actor_id cx) (gw_limiter g) = (d, gw_limiter g1)" "rl_allowed d"
    by metis
  obtain e g2 where sc: "query_scope_stage cfg env rq cx g1 = (Inl e, g2)"
    using a assms(1-3)
    by (cases "query_scope_stage cfg env rq cx g1"; cases "fst (query_scope_stage cfg env rq cx g1)")
      (auto simp: query_scope_stage_def ai_scope_def lacks_semantic_query_def Let_def)
  have q: "r = Inl e" "g' = g2"
    using assms(4,6) sc by (auto simp: gateway_query_def abind_def)
  have l: "gw_limiter g' = gw_limiter g1" using keeps_cache [OF scope_ok(2) sc] q by simp
  have up: "inflight (gw_limiter g') (cx_actor_id cx) = inflight (gw_limiter g) (cx_actor_id cx) + 1"
    using limiter.try_granted [OF assms(5) a(3,4), of "cx_actor_id cx"] l by simp
  have inv: "limiter_inv (gw_limiter g')"
    using try_acquire_inv [OF assms(5), of "now_seconds env" "cx_actor_id cx"] a(3) l by simp
  have "\<exists>e. fst (gateway_query cfg2 env2 rq2 g') = Inl e"
    if full: "max_concurrent_per_actor (gw_limiter g') \<le> inflight (gw_limiter g') (cx_actor_id cx)"
      and rq2: "rq_actor rq2 = Some actor2" "str_of actor2 ''actor_id'' ''unknown'' = cx_actor_id cx"
    for cfg2 env2 rq2 actor2
  proof (rule ccontr)
    assume "\<nexists>e. fst (gateway_query cfg2 env2 rq2 g') = Inl e"
    then obtain resp g3 where "gateway_query cfg2 env2 rq2 g' = (Inr resp, g3)"
      by (cases "gateway_query cfg2 env2 rq2 g'"; cases "fst (gateway_query cfg2 env2 rq2 g')") auto
    from query_success [OF this] obtain cx2 g4 where "query_admission cfg2 env2 rq2 g' = (Inr cx2, g4)"
      by metis
    from admission_Inr [OF this] obtain d2 where
      "try_acquire (now_seconds env2) (cx_actor_id cx) (gw_limiter g') = (d2, gw_limiter g4)" "rl_allowed d2"
      using rq2 by (metis option.inject)
    then show False using limiter.try_full [OF inv full, of "now_seconds env2"] by simp
  qed
  with q up show ?thesis by blast
qed

theorem early_denial_loses_slot_witness:
  "inflight (gw_limiter (snd (gateway_query demo_settings demo_world
      \<lparr>rq_payload = [], rq_actor = Some demo_ai_actor, rq_correlation = []\<rparr> demo_gateway))) ''agent:1'' = 1"
proof -
  let ?rq = "\<lparr>rq_payload = [], rq_actor = Some demo_ai_actor, rq_correlation = []\<rparr>"
  have adm: "map_option cx_actor_id (case fst (query_admission demo_settings demo_world ?rq demo_gateway) of
      Inl e \<Rightarrow> None | Inr cx \<Rightarrow> Some cx) = Some ''agent:1''" by code_simp
  obtain r g1 where run: "query_admission demo_settings demo_world ?rq demo_gateway = (r, g1)" by fastforce
  with adm obtain cx where cx: "r = Inr cx" "cx_actor_id cx = ''agent:1''" by (cases r) auto
  obtain r2 g' where q: "gateway_query demo_settings demo_world ?rq demo_gateway = (r2, g')" by fastforce
  have "limiter_inv (gw_limiter demo_gateway)" by (simp add: demo_gateway_def limiter_inv_init)
  moreover have "inflight (gw_limiter demo_gateway) ''agent:1'' = 0"
    by (simp add: demo_gateway_def inflight_def limiter_init_def)
  moreover have "is_ai_actor demo_ai_actor" by code_simp
  moreover have "lacks_semantic_query ?rq" by (simp add: lacks_semantic_query_def dget_or_def)
  ultimately show ?thesis
    using early_denial_loses_slot [OF _ _ _ run [unfolded cx] _ q] by (simp add: cx q)
qed

text \<open>
  C16. The cache key separates requests: two requests with the same key are of the same
  workspace and actor, ask the same text over the same datasets under the same filter and
  masks, with the same limits and engine, and see the same published snapshot and build; so a
  response is never served to another actor, nor after a new publication.
\<close>

theorem cache_key_separates:
  assumes "build_query_cache_key st ws aid roles attrs q ds rf masks mr tm eng pack = Inr key"
    and "build_query_cache_key st' ws' aid' roles' attrs' q' ds' rf' masks' mr' tm' eng' pack' = Inr key"
    and "wf_key_inputs roles attrs pack" "wf_key_inputs roles' attrs' pack'"
  shows "ws = ws' \<and> aid = aid' \<and> q = q' \<and> sort ds = sort ds' \<and> rf = rf' \<and> set masks = set masks' \<and>
    mr = mr' \<and> tm = tm' \<and> eng = eng' \<and>
    json_dumps (PList (as_list roles)) = json_dumps (PList (as_list roles')) \<and>
    (\<forall>p p'. load_latest_gold_pointer st ws = Inr (Some p) \<longrightarrow>
       load_latest_gold_pointer st' ws' = Inr (Some p') \<longrightarrow>
       str_of p ''snapshot_id'' '''' = str_of p' ''snapshot_id'' '''' \<and>
       str_of p ''build_id'' '''' = str_of p' ''build_id'' '''')"
proof -
  from assms(1,2) obtain p p' where
    lp: "load_latest_gold_pointer st ws = Inr p" "load_latest_gold_pointer st' ws' = Inr p'"
    and k: "json_dumps (PDict (key_dict (case p of None \<Rightarrow> [] | Some p \<Rightarrow> p) ws aid roles attrs q ds rf masks mr tm eng pack)) =
      json_dumps (PDict (key_dict (case p' of None \<Rightarrow> [] | Some p \<Rightarrow> p) ws' aid' roles' attrs' q' ds' rf' masks' mr' tm' eng' pack'))"
    unfolding build_key_Inr by metis
  from key_dict_common [OF assms(3,4) k] lp show ?thesis by auto
qed

theorem cache_key_separates_witness:
  "\<exists>key. build_query_cache_key gold_store_empty ''w'' ''a'' (PList []) [] ''select 1'' [] None [] 1 1 ''duckdb'' None = Inr key \<and>
     (\<forall>aid. build_query_cache_key gold_store_empty ''w'' aid (PList []) [] ''select 1'' [] None [] 1 1 ''duckdb'' None = Inr key \<longrightarrow>
       aid = ''a'')"
proof -
  have wf: "wf_key_inputs (PList []) [] None" by (simp add: wf_key_inputs_def)
  obtain key where key: "build_query_cache_key gold_store_empty ''w'' ''a'' (PList []) [] ''select 1'' [] None [] 1 1 ''duckdb'' None = Inr key"
    unfolding build_key_Inr by (auto simp: load_latest_gold_pointer_def gold_store_empty_def)
  then show ?thesis using cache_key_separates [OF _ key wf wf] by blast
qed

text \<open>
  Masks follow the column name of the result: a query that renames a masked column gets its
  values in clear, since the mask is looked up under the new name.
\<close>

theorem mask_evaded_by_alias:
  "map (mask_row sha [''contact''] [(''email'', ''partial_reveal'')]) [[PStr ''ann@x.io'']] = [[PStr ''ann@x.io'']] \<and>
   map (mask_row sha [''email''] [(''email'', ''partial_reveal'')]) [[PStr ''ann@x.io'']] = [[PStr ''a******o'']] \<and>
   (\<exists>n. validate_read_only_query ''select email as contact from gold.users'' = Inr n)"
proof (intro conjI)
  show "map (mask_row sha [''contact''] [(''email'', ''partial_reveal'')]) [[PStr ''ann@x.io'']] = [[PStr ''ann@x.io'']]"
    by (simp add: mask_row_def mask_mode_def dget_or_def)
  show "map (mask_row sha [''email''] [(''email'', ''partial_reveal'')]) [[PStr ''ann@x.io'']] = [[PStr ''a******o'']]"
    by (simp add: mask_row_def mask_mode_def dget_or_def apply_mask_def partial_reveal_def)
  have "\<not> isl (validate_read_only_query ''select email as contact from gold.users'')" by code_simp
  then show "\<exists>n. validate_read_only_query ''select email as contact from gold.users'' = Inr n"
    by (cases "validate_read_only_query ''select email as contact from gold.users''") auto
qed

end
