(* ===== verification/GatewayRetrieve.thy ===== *)
theory GatewayRetrieve
  imports GatewaySafety
begin

text \<open>
  The other two endpoints of the gateway (\<open>policy_simulate\<close> and \<open>retrieve\<close> in
  \<open>backend/gateway/app.py\<close>). Retrieval runs the same admission and attribute check as the query
  endpoint, asks one of the three search backends between acquiring and giving back the slot,
  then filters, masks, checks the budget, builds the provenance and records the decision.
\<close>

section \<open>Retrieval, stage by stage\<close>

definition retrieve_allow_ai :: "pydict \<Rightarrow> bool" where
  "retrieve_allow_ai actor \<longleftrightarrow>
     lower (str_of actor ''actor_type'' '''') = ''ai'' \<and>
     py_truth (dget_or (actor_attributes_of actor) ''ai_allowlisted'' (PBool False))"

definition retrieve_admission :: "gw_settings \<Rightarrow> gw_env \<Rightarrow> gw_request \<Rightarrow> gw_context action" where
  "retrieve_admission = admit_request ''retrieve'' ''retrieve'' retrieve_allow_ai"

definition entitlement_stage :: "gw_settings \<Rightarrow> gw_env \<Rightarrow> gw_context \<Rightarrow> string list action" where
  "entitlement_stage cfg env cx g =
     (let allowed = sorted_set (allowed_dataset_ids_of (cx_actor cx));
          cross = filter (dataset_belongs_to_other_workspace (gw_db g) (cx_workspace cx)) allowed
      in if allowed = [] then refuse cfg env cx ''missing_dataset_entitlements'' [] [] g
         else if cross \<noteq> []
         then refuse cfg env cx ''dataset_workspace_mismatch''
                [(''cross_workspace_dataset_ids'', str_py_list cross)] [] g
         else (Inr allowed, g))"

definition backend_refused ::
  "gw_settings \<Rightarrow> gw_env \<Rightarrow> gw_context \<Rightarrow> string \<Rightarrow> pydict \<Rightarrow> 'a action" where
  "backend_refused cfg env cx why extra =
     refuse cfg env cx why [(''retrieval_backend'', PStr (set_retrieval_backend cfg))] extra"

definition unavailable_reason :: "string \<Rightarrow> string" where
  "unavailable_reason m = (if strip m = [] then ''retrieval_backend_unavailable'' else strip m)"

definition search_filesystem :: "gw_env \<Rightarrow> gw_context \<Rightarrow> string \<Rightarrow> string list \<Rightarrow> pydict list res" where
  "search_filesystem env cx query_text allowed =
     rbind (load_retrieval_corpus (documents env (cx_workspace cx)))
       (\<lambda>corpus. Inr (retrieve_documents query_text corpus allowed))"

definition search_opensearch ::
  "gw_settings \<Rightarrow> gw_env \<Rightarrow> gw_context \<Rightarrow> string \<Rightarrow> string list \<Rightarrow> pydict list res" where
  "search_opensearch cfg env cx query_text allowed =
     search_opensearch_documents (search_fetch env) query_text (cx_workspace cx) allowed
       (set_opensearch_url cfg) (set_opensearch_index cfg) (set_opensearch_timeout_ms cfg) 20"

definition search_qdrant ::
  "gw_settings \<Rightarrow> gw_env \<Rightarrow> gw_context \<Rightarrow> string \<Rightarrow> string list \<Rightarrow> pydict list res" where
  "search_qdrant cfg env cx query_text allowed =
     rbind (embed env query_text) (\<lambda>query_vector.
       search_qdrant_documents (search_fetch env) query_vector (cx_workspace cx) allowed
         (set_qdrant_url cfg) (set_qdrant_collection cfg) (set_qdrant_timeout_ms cfg) 20)"

definition search_stage ::
  "gw_settings \<Rightarrow> gw_env \<Rightarrow> gw_context \<Rightarrow> string \<Rightarrow> string list \<Rightarrow> pydict list action" where
  "search_stage cfg env cx query_text allowed g =
     (if set_retrieval_backend cfg = ''filesystem'' then (search_filesystem env cx query_text allowed, g)
      else if set_retrieval_backend cfg = ''opensearch'' then
        (if \<not> set_opensearch_enabled cfg then backend_refused cfg env cx ''module_disabled'' [] g
         else case search_opensearch cfg env cx query_text allowed of
                Inl (BackendUnavailable m) \<Rightarrow> backend_refused cfg env cx (unavailable_reason m) [] g
              | r \<Rightarrow> (r, g))
      else if set_retrieval_backend cfg = ''qdrant'' then
        (if \<not> set_qdrant_enabled cfg then backend_refused cfg env cx ''module_disabled'' [] g
         else case search_qdrant cfg env cx query_text allowed of
                Inl (DisabledIntegrationError m) \<Rightarrow>
                  backend_refused cfg env cx ''embedding_provider_disabled'' [(''error'', PStr m)] g
              | Inl (BackendUnavailable m) \<Rightarrow> backend_refused cfg env cx (unavailable_reason m) [] g
              | r \<Rightarrow> (r, g))
      else backend_refused cfg env cx ''retrieval_backend_unsupported'' [] g)"

definition protected_results ::
  "gw_env \<Rightarrow> gw_context \<Rightarrow> abac_decision \<Rightarrow> pydict list \<Rightarrow> db \<Rightarrow> pydict list" where
  "protected_results env cx abac results d =
     apply_retrieval_masks (env_sha env)
       (apply_retrieval_row_filter results (row_filter abac)
          (load_dataset_sensitivity_summaries d (cx_workspace cx)
             (map (\<lambda>r. str_of r ''dataset_id'' '''') results)))
       (abac_masks abac)"

definition retrieve_budget_stage ::
  "gw_settings \<Rightarrow> gw_env \<Rightarrow> gw_context \<Rightarrow> abac_decision \<Rightarrow> string \<Rightarrow> pydict list \<Rightarrow> unit action" where
  "retrieve_budget_stage cfg env cx abac query_text results =
     (let estimated = estimate_retrieval_cost_bytes query_text (int (length results));
          sizes = [(''estimated_retrieval_bytes'', PInt estimated),
                   (''retrieval_budget_bytes'', PInt (set_retrieval_max_bytes cfg))]
      in if \<not> enforce_budget estimated (set_retrieval_max_bytes cfg)
         then deny cfg env (deny_latency cx) ''Access denied by policy'' sizes
                (args_for cx ''deny'' ''retrieval_budget_exceeded'' sizes
                   (serialize_row_filter (row_filter abac)) (abac_masks abac))
         else (\<lambda>g. (Inr (), add_metrics [cost_metric cx query_text,
                 QueryLatency (cx_workspace cx) (cx_engine cx) ''allow''] g)))"

definition result_dataset_ids :: "pydict list \<Rightarrow> string list" where
  "result_dataset_ids results = sorted_set (map (\<lambda>r. str_of r ''dataset_id'' '''') results)"

definition retrieve_provenance_stage ::
  "gw_settings \<Rightarrow> gw_env \<Rightarrow> gw_context \<Rightarrow> abac_decision \<Rightarrow> string list \<Rightarrow> pydict list \<Rightarrow> pydict action" where
  "retrieve_provenance_stage cfg env cx abac allowed results g0 =
     (let (query_id, g1) = new_id env g0; (build_id, g2) = new_id env g1
      in case build_provenance_v1
             \<lparr>pv_workspace = cx_workspace cx, pv_decision_id = cx_decision_id cx,
              pv_datasets = result_dataset_ids results, pv_build_id = build_id, pv_query_id = query_id,
              pv_snapshots = Some [], pv_reason = ''allow'',
              pv_filters = serialize_row_filter (row_filter abac),
              pv_masks = masks_dict (abac_masks abac),
              pv_citations = Some (map (\<lambda>r. str_of r ''citation'' '''')
                (filter (\<lambda>r. py_truth (dget_or r ''citation'' PNone)) results)),
              pv_allowed = Some allowed, pv_policy_pack = cx_pack cx\<rparr> of
           Inl e \<Rightarrow>
             if is_value_error e
             then refuse cfg env cx ''provenance_unavailable'' [] [(''error'', PStr (exn_text e))] g2
             else (Inl e, g2)
         | Inr p \<Rightarrow> (Inr p, g2))"

record retrieve_response =
  rr_results :: "pydict list"
  rr_provenance :: pydict
  rr_audit_event_id :: string
  rr_request_id :: string

definition retrieve_resources :: "gw_settings \<Rightarrow> gw_context \<Rightarrow> string \<Rightarrow> string list \<Rightarrow> pydict list \<Rightarrow> pydict" where
  "retrieve_resources cfg cx query_text allowed results =
     [(''query_text'', PStr query_text), (''allowed_dataset_ids'', str_py_list allowed),
      (''datasets_used'', str_py_list (result_dataset_ids results)),
      (''retrieval_backend'', PStr (set_retrieval_backend cfg)), (''policy_pack'', opt_dict (cx_pack cx))]"

definition retrieve_respond ::
  "gw_settings \<Rightarrow> gw_env \<Rightarrow> gw_context \<Rightarrow> abac_decision \<Rightarrow> string \<Rightarrow> string list \<Rightarrow> pydict list \<Rightarrow>
   pydict \<Rightarrow> retrieve_response action" where
  "retrieve_respond cfg env cx abac query_text allowed results provenance =
     abind (record_access_decision cfg env
              (args_for cx ''allow'' ''allow'' (retrieve_resources cfg cx query_text allowed results)
                 (serialize_row_filter (row_filter abac)) (abac_masks abac)))
       (\<lambda>_ g. let (event_id, g') = new_id env g
              in (Inr \<lparr>rr_results = results, rr_provenance = provenance, rr_audit_event_id = event_id,
                       rr_request_id = cx_correlation cx\<rparr>, g'))"

definition query_text_of :: "gw_request \<Rightarrow> string" where
  "query_text_of rq = str_of (rq_payload rq) ''query_text'' ''''"

definition answer_retrieve ::
  "gw_settings \<Rightarrow> gw_env \<Rightarrow> gw_context \<Rightarrow> abac_decision \<Rightarrow> string \<Rightarrow> string list \<Rightarrow> pydict list \<Rightarrow>
   retrieve_response action" where
  "answer_retrieve cfg env cx abac query_text allowed found g =
     (let results = protected_results env cx abac found (gw_db g)
      in abind (retrieve_budget_stage cfg env cx abac query_text results) (\<lambda>_.
         abind (retrieve_provenance_stage cfg env cx abac allowed results) (\<lambda>provenance.
         retrieve_respond cfg env cx abac query_text allowed results provenance)) g)"

definition retrieve_gate ::
  "gw_settings \<Rightarrow> gw_env \<Rightarrow> gw_request \<Rightarrow> (gw_context \<times> string list \<times> abac_decision) action" where
  "retrieve_gate cfg env rq =
     abind (retrieve_admission cfg env rq) (\<lambda>cx.
     abind (entitlement_stage cfg env cx) (\<lambda>allowed.
     abind (abac_stage cfg env rq cx) (\<lambda>abac.
     pass (cx, allowed, abac))))"

definition gateway_retrieve :: "gw_settings \<Rightarrow> gw_env \<Rightarrow> gw_request \<Rightarrow> retrieve_response action" where
  "gateway_retrieve cfg env rq =
     abind (retrieve_gate cfg env rq) (\<lambda>(cx, allowed, abac).
     abind (finally_release (cx_actor_id cx) (search_stage cfg env cx (query_text_of rq) allowed))
       (answer_retrieve cfg env cx abac (query_text_of rq) allowed))"

section \<open>Simulation\<close>

record simulation_response =
  sim_workspace :: string
  sim_action :: string
  sim_result :: string
  sim_reason :: string
  sim_filters :: pydict
  sim_masks :: "(string \<times> string) list"
  sim_decision_id :: string
  sim_request_id :: string

definition actor_preview_of :: "gw_request \<Rightarrow> pydict \<Rightarrow> pydict" where
  "actor_preview_of rq actor =
     (case dget_or (rq_payload rq) ''actor'' (PDict actor) of PDict d \<Rightarrow> d | _ \<Rightarrow> actor)"

definition simulation_outcome :: "gw_request \<Rightarrow> pydict \<Rightarrow> abac_decision \<Rightarrow> string \<times> string" where
  "simulation_outcome rq preview abac =
     (let access = evaluate_access preview (query_allow_ai preview)
      in if ad_result access = ''allow'' \<and> abac_allow abac then (''allow'', ''allow'')
         else (''deny'', if ad_result access = ''allow'' then abac_reason abac else ad_reason access))"

definition simulation_resources :: "gw_request \<Rightarrow> pydict \<Rightarrow> pydict" where
  "simulation_resources rq preview =
     [(''action'', PStr (str_of (rq_payload rq) ''action'' ''query'')),
      (''actor_preview'', PDict [(''actor_type'', PStr (str_of preview ''actor_type'' ''human'')),
         (''roles'', dget_or preview ''roles'' (PList []))])]"

definition may_simulate :: "pydict \<Rightarrow> bool" where
  "may_simulate actor \<longleftrightarrow>
     ''data_steward'' \<in> set (roles_of actor) \<or> ''platform_admin'' \<in> set (roles_of actor)"

definition policy_simulate :: "gw_settings \<Rightarrow> gw_env \<Rightarrow> gw_request \<Rightarrow> simulation_response action" where
  "policy_simulate cfg env rq g0 =
     (let (decision_id, g1) = new_id env g0;
          cx0 = context_for ''policy_simulate'' ''policy'' rq None [] decision_id
      in case rq_actor rq of
           None \<Rightarrow> deny cfg env [] ''Access denied by policy'' []
                     (args_for cx0 ''deny'' ''missing_or_invalid_auth_token'' [] [] []) g1
         | Some actor \<Rightarrow>
             (let cx = context_for ''policy_simulate'' ''policy'' rq None actor decision_id
              in if \<not> may_simulate actor
                 then deny cfg env [] ''Access denied by policy'' []
                        (args_for cx ''deny'' ''simulation_forbidden'' [] [] []) g1
                 else let preview = actor_preview_of rq actor
                   in case evaluate_abac opa_evaluate preview (resource_attrs_of rq)
                             (str_of (rq_payload rq) ''abac_mode'' ''internal'') of
                        Inl e \<Rightarrow> (Inl e, g1)
                      | Inr abac \<Rightarrow>
                          (let (result, why) = simulation_outcome rq preview abac;
                               filters = serialize_row_filter (row_filter abac);
                               g2 = (if result = ''deny''
                                     then add_metrics [PolicyDenial (cx_workspace cx) why] g1 else g1)
                           in abind (record_access_decision cfg env
                                (args_for cx result why (simulation_resources rq preview) filters
                                   (abac_masks abac)))
                              (\<lambda>_ g. (Inr \<lparr>sim_workspace = cx_workspace cx,
                                 sim_action = str_of (rq_payload rq) ''action'' ''query'',
                                 sim_result = result, sim_reason = why, sim_filters = filters,
                                 sim_masks = abac_masks abac, sim_decision_id = decision_id,
                                 sim_request_id = cx_correlation cx\<rparr>,
                               add_metrics [QueryLatency (cx_workspace cx) (cx_engine cx) result] g)) g2)))"

section \<open>The stages of retrieval\<close>

lemma retrieve_admission_guarded: "guarded cfg (retrieve_admission cfg env rq)"
  unfolding guarded_def
proof (intro allI impI)
  fix g r g' assume "retrieve_admission cfg env rq g = (r, g')"
  then show "case r of Inr _ \<Rightarrow> silent g g'
      | Inl _ \<Rightarrow> silent g g' \<or> (\<exists>a. da_result a = ''deny'' \<and> decided cfg a g g')"
    unfolding retrieve_admission_def by (cases rule: admit_cases) auto
qed

lemma entitlement_settles: "settles cfg g (entitlement_stage cfg env cx g)"
  by (simp add: entitlement_stage_def Let_def)

lemma entitlement_ok:
  "guarded cfg (entitlement_stage cfg env cx)" "keeps_runtime (entitlement_stage cfg env cx)"
  by (rule settles_guarded, rule entitlement_settles)
    (rule settles_keeps_runtime, rule entitlement_settles)

lemma entitlement_Inr:
  assumes "entitlement_stage cfg env cx g = (Inr allowed, g')"
  shows "allowed = sorted_set (allowed_dataset_ids_of (cx_actor cx)) \<and> allowed \<noteq> [] \<and> g' = g \<and>
    (\<forall>ds \<in> set allowed. \<not> dataset_belongs_to_other_workspace (gw_db g) (cx_workspace cx) ds)"
  using assms by (auto simp: entitlement_stage_def Let_def filter_empty_conv split: if_split_asm)

lemma settles_backend [simp]: "settles cfg g (backend_refused cfg env cx why extra g)"
  by (simp add: backend_refused_def)

lemma backend_refused_not_Inr [simp]: "backend_refused cfg env cx why extra g \<noteq> (Inr x, g')"
  by (simp add: backend_refused_def)

lemma search_settles: "settles cfg g (search_stage cfg env cx q allowed g)"
  by (simp add: search_stage_def split: sum.split exn.split)

lemma search_Inr:
  assumes "search_stage cfg env cx q allowed g = (Inr rs, g')"
  shows "rows_allowed allowed rs \<and> g' = g"
  using assms opensearch_rows_allowed qdrant_rows_allowed retrieve_rows_allowed
  by (fastforce simp: search_stage_def search_filesystem_def search_opensearch_def search_qdrant_def
      rbind_eq_Inr_iff split: if_split_asm sum.split_asm exn.split_asm)

text \<open>The search gives the slot back on every path.\<close>

lemma search_slot:
  assumes "finally_release (cx_actor_id cx) (search_stage cfg env cx q allowed) g = (r, g')"
  shows "gw_limiter g' = release (cx_actor_id cx) (gw_limiter g) \<and> gw_cache g' = gw_cache g \<and>
    (case r of Inr rs \<Rightarrow> silent g g' \<and> rows_allowed allowed rs
     | Inl _ \<Rightarrow> silent g g' \<or> (\<exists>a. da_result a = ''deny'' \<and> decided cfg a g g'))"
proof -
  obtain r1 g1 where s: "search_stage cfg env cx q allowed g = (r1, g1)" by fastforce
  then have "r = r1" "g' = release_slot (cx_actor_id cx) g1"
    using assms by (simp_all add: finally_release_def)
  moreover have "settles cfg g (r1, g1)" using search_settles s by metis
  ultimately show ?thesis
    using search_Inr s by (cases r) (auto simp: settles_def same_runtime_def)
qed

lemma search_guarded: "guarded cfg (finally_release (cx_actor_id cx) (search_stage cfg env cx q allowed))"
  unfolding guarded_def
proof (intro allI impI)
  fix g r g' assume "finally_release (cx_actor_id cx) (search_stage cfg env cx q allowed) g = (r, g')"
  from search_slot [OF this] show "case r of Inr _ \<Rightarrow> silent g g'
      | Inl _ \<Rightarrow> silent g g' \<or> (\<exists>a. da_result a = ''deny'' \<and> decided cfg a g g')"
    by (cases r) auto
qed

lemma settles_add_metrics [simp]: "settles cfg g (r, add_metrics ms g') = settles cfg g (r, g')"
  by (cases r) (simp_all add: settles_def)

lemma retrieve_budget_settles: "settles cfg g (retrieve_budget_stage cfg env cx abac q results g)"
  by (simp add: retrieve_budget_stage_def Let_def settles_deny)

lemma retrieve_budget_Inr:
  "retrieve_budget_stage cfg env cx abac q results g = (Inr u, g') \<Longrightarrow>
     256 * int (length results) \<le> set_retrieval_max_bytes cfg"
  using budget_bounds_results
  by (auto simp: retrieve_budget_stage_def Let_def split: if_split_asm)

lemma retrieve_provenance_settles:
  "settles cfg g (retrieve_provenance_stage cfg env cx abac allowed results g)"
proof -
  obtain i1 g1 i2 g2 where id: "new_id env g = (i1, g1)" "new_id env g1 = (i2, g2)" by fastforce
  then have "silent g g2" "same_runtime g g2"
    by (auto simp: new_id_def silent_def same_runtime_def)
  then show ?thesis
    by (rule settles_trans)
      (simp add: retrieve_provenance_stage_def id split: sum.split)
qed

lemma retrieve_provenance_Inr:
  "retrieve_provenance_stage cfg env cx abac allowed results g = (Inr p, g') \<Longrightarrow>
     dget p ''policy_decision_id'' = Some (PStr (cx_decision_id cx)) \<and>
     dget p ''workspace_id'' = Some (PStr (cx_workspace cx)) \<and>
     dget p ''datasets_used'' = Some (PList (map PStr (clean_set (result_dataset_ids results)))) \<and>
     dget p ''applied_filters'' = Some (PDict (serialize_row_filter (row_filter abac))) \<and>
     dget p ''applied_masks'' = Some (PDict (masks_dict (abac_masks abac)))"
  by (auto simp: retrieve_provenance_stage_def split: prod.split_asm sum.split_asm if_split_asm
      dest!: provenance_payload)

lemmas retrieve_stage_ok =
  settles_guarded [OF retrieve_budget_settles] settles_keeps_runtime [OF retrieve_budget_settles]
  settles_guarded [OF retrieve_provenance_settles] settles_keeps_runtime [OF retrieve_provenance_settles]

lemma retrieve_respond_spec:
  assumes "retrieve_respond cfg env cx abac q allowed results p g = (r, g')"
  shows "same_runtime g g' \<and> (case r of Inl _ \<Rightarrow> silent g g'
    | Inr resp \<Rightarrow> rr_results resp = results \<and> rr_provenance resp = p \<and>
        decided cfg (args_for cx ''allow'' ''allow'' (retrieve_resources cfg cx q allowed results)
          (serialize_row_filter (row_filter abac)) (abac_masks abac)) g g')"
proof -
  let ?a = "args_for cx ''allow'' ''allow'' (retrieve_resources cfg cx q allowed results)
      (serialize_row_filter (row_filter abac)) (abac_masks abac)"
  obtain r1 g1 where rec: "record_access_decision cfg env ?a g = (r1, g1)" by fastforce
  show ?thesis
  proof (cases r1)
    case (Inl e)
    with assms rec record_spec [OF rec] show ?thesis by (auto simp: retrieve_respond_def abind_def)
  next
    case (Inr u)
    obtain i g2 where id: "new_id env g1 = (i, g2)" by fastforce
    have d: "decided cfg ?a g g1" "same_runtime g g1" using record_spec [OF rec] Inr by auto
    have "silent g1 g2" "gw_taken g2 = gw_taken g1" "same_runtime g1 g2"
      using id by (auto simp: new_id_def silent_def same_runtime_def)
    with d have "decided cfg ?a g g2" "same_runtime g g2"
      using decided_silent same_runtime_trans by blast+
    with assms rec Inr id show ?thesis by (auto simp: retrieve_respond_def abind_def)
  qed
qed

lemma retrieve_gate_Inr:
  assumes "retrieve_gate cfg env rq g = (Inr (cx, allowed, abac), g')"
  obtains actor d where "rq_actor rq = Some actor" "silent g g'" "cx_actor cx = actor"
    "cx_actor_id cx = str_of actor ''actor_id'' ''unknown''"
    "cx_workspace cx = str_of (rq_payload rq) ''workspace_id'' ''unknown''"
    "ad_result (evaluate_access actor (retrieve_allow_ai actor)) = ''allow''"
    "try_acquire (now_seconds env) (cx_actor_id cx) (gw_limiter g) = (d, gw_limiter g')" "rl_allowed d"
    "allowed = sorted_set (allowed_dataset_ids_of actor)" "allowed \<noteq> []"
    "\<forall>ds \<in> set allowed. \<not> dataset_belongs_to_other_workspace (gw_db g) (cx_workspace cx) ds"
    "abac = request_abac rq actor" "abac_allow abac"
proof -
  from assms obtain g1 g2 where
    adm: "retrieve_admission cfg env rq g = (Inr cx, g1)"
    and ent: "entitlement_stage cfg env cx g1 = (Inr allowed, g2)"
    and ab: "abac = request_abac rq (cx_actor cx)" "abac_allow abac" "g' = g2"
    by (auto simp: retrieve_gate_def abind_Inr_iff abac_stage_Inr pass_def)
  from adm obtain actor d where
    "rq_actor rq = Some actor" "silent g g1" "cx_actor cx = actor"
    "cx_actor_id cx = str_of actor ''actor_id'' ''unknown''"
    "cx_workspace cx = str_of (rq_payload rq) ''workspace_id'' ''unknown''"
    "ad_result (evaluate_access actor (retrieve_allow_ai actor)) = ''allow''"
    "try_acquire (now_seconds env) (cx_actor_id cx) (gw_limiter g) = (d, gw_limiter g1)" "rl_allowed d"
    unfolding retrieve_admission_def
    by (cases rule: admit_cases [of _ _ _ cfg env rq g "Inr cx" g1]) auto
  then show thesis
    using that entitlement_Inr [OF ent] ab by (auto simp: silent_def)
qed

lemma retrieve_gate_guarded: "guarded cfg (retrieve_gate cfg env rq)"
  unfolding retrieve_gate_def
  by (intro guarded_bind guarded_pass retrieve_admission_guarded entitlement_ok abac_ok)

lemma answer_retrieve_spec:
  assumes "answer_retrieve cfg env cx abac q allowed found g = (r, g')"
  shows "same_runtime g g' \<and> (case r of
      Inl _ \<Rightarrow> silent g g' \<or> (\<exists>a. da_result a = ''deny'' \<and> decided cfg a g g')
    | Inr resp \<Rightarrow> rr_results resp = protected_results env cx abac found (gw_db g) \<and>
        256 * int (length (rr_results resp)) \<le> set_retrieval_max_bytes cfg \<and>
        (\<exists>a. decided cfg a g g' \<and> da_result a = ''allow'' \<and>
          dget (rr_provenance resp) ''policy_decision_id'' = Some (PStr (da_decision_id a)) \<and>
          dget (rr_provenance resp) ''workspace_id'' = Some (PStr (da_workspace_id a)) \<and>
          dget (rr_provenance resp) ''datasets_used'' =
            Some (PList (map PStr (clean_set (result_dataset_ids (rr_results resp))))) \<and>
          dget (rr_provenance resp) ''applied_filters'' = Some (PDict (da_filters a)) \<and>
          dget (rr_provenance resp) ''applied_masks'' = Some (PDict (masks_dict (da_masks a)))))"
proof -
  let ?rs = "protected_results env cx abac found (gw_db g)"
  let ?before = "abind (retrieve_budget_stage cfg env cx abac q ?rs) (\<lambda>_.
      retrieve_provenance_stage cfg env cx abac allowed ?rs)"
  have run: "abind ?before (retrieve_respond cfg env cx abac q allowed ?rs) g = (r, g')"
    using assms by (simp add: answer_retrieve_def abind_assoc Let_def)
  have ok: "guarded cfg ?before" "keeps_runtime ?before"
    by (intro guarded_bind keeps_runtime_bind retrieve_stage_ok)+
  from run show ?thesis
  proof (cases rule: abind_cases)
    case (stop e)
    then show ?thesis using guardedD(2) [OF ok(1)] keeps_runtimeD [OF ok(2)] by simp
  next
    case (next_stage p g1)
    note sl = guardedD(1) [OF ok(1) next_stage(1)] keeps_runtimeD [OF ok(2) next_stage(1)]
    note rsp = retrieve_respond_spec [OF next_stage(2)]
    have rt: "same_runtime g g'" using same_runtime_trans [OF sl(2)] rsp by blast
    show ?thesis
    proof (cases r)
      case (Inl e)
      with rsp rt show ?thesis using silent_trans [OF sl(1)] by auto
    next
      case (Inr resp)
      from next_stage(1) obtain g2 where b: "retrieve_budget_stage cfg env cx abac q ?rs g = (Inr (), g2)"
        "retrieve_provenance_stage cfg env cx abac allowed ?rs g2 = (Inr p, g1)"
        by (auto simp: abind_Inr_iff)
      let ?a = "args_for cx ''allow'' ''allow'' (retrieve_resources cfg cx q allowed ?rs)
          (serialize_row_filter (row_filter abac)) (abac_masks abac)"
      have "decided cfg ?a g g'" using rsp Inr silent_decided [OF sl(1)] by auto
      then have "\<exists>a. decided cfg a g g' \<and> da_result a = ''allow'' \<and>
          dget p ''policy_decision_id'' = Some (PStr (da_decision_id a)) \<and>
          dget p ''workspace_id'' = Some (PStr (da_workspace_id a)) \<and>
          dget p ''datasets_used'' = Some (PList (map PStr (clean_set (result_dataset_ids ?rs)))) \<and>
          dget p ''applied_filters'' = Some (PDict (da_filters a)) \<and>
          dget p ''applied_masks'' = Some (PDict (masks_dict (da_masks a)))"
        using retrieve_provenance_Inr [OF b(2)] by (intro exI [of _ ?a]) simp
      then show ?thesis using rsp Inr rt retrieve_budget_Inr [OF b(1)] by simp
    qed
  qed
qed

lemma protected_results_ok:
  assumes "rows_allowed allowed found" "res \<in> set (protected_results env cx abac found d)"
  shows "str_of res ''dataset_id'' '''' \<in> set allowed \<and>
    (abac_masks abac \<noteq> [] \<longrightarrow>
      (\<exists>s. dget res ''snippet'' = Some (PStr (mask_snippet (env_sha env) (abac_masks abac) s)))) \<and>
    (\<forall>k v. row_filter abac = Some (k, v) \<longrightarrow> (\<exists>row summary c. row \<in> set (datasets d) \<and>
       ds_workspace row = cx_workspace cx \<and> ds_id row = str_of res ''dataset_id'' '''' \<and>
       ds_summary row = PDict summary \<and> dget summary k = Some c \<and> py_str c = v))"
proof -
  let ?sums = "load_dataset_sensitivity_summaries d (cx_workspace cx) (map (\<lambda>r. str_of r ''dataset_id'' '''') found)"
  let ?kept = "apply_retrieval_row_filter found (row_filter abac) ?sums"
  from assms(2) obtain r0 where r0: "r0 \<in> set ?kept" "str_of res ''dataset_id'' '''' = str_of r0 ''dataset_id'' ''''"
    unfolding protected_results_def using apply_retrieval_masks_dataset by blast
  have "r0 \<in> set found" using r0(1) apply_retrieval_row_filter_subset by blast
  with assms(1) r0(2) have "str_of res ''dataset_id'' '''' \<in> set allowed" by (simp add: rows_allowed_def)
  moreover have "\<exists>s. dget res ''snippet'' = Some (PStr (mask_snippet (env_sha env) (abac_masks abac) s))"
    if "abac_masks abac \<noteq> []"
    using assms(2) that by (auto simp: protected_results_def apply_retrieval_masks_def)
  moreover have "\<exists>row summary c. row \<in> set (datasets d) \<and>
       ds_workspace row = cx_workspace cx \<and> ds_id row = str_of res ''dataset_id'' '''' \<and>
       ds_summary row = PDict summary \<and> dget summary k = Some c \<and> py_str c = v"
    if rf: "row_filter abac = Some (k, v)" for k v
  proof -
    from retrieval_row_filter_match r0(1) [unfolded rf] obtain summary c where
      s: "dget ?sums (str_of r0 ''dataset_id'' '''') = Some summary" "dget summary k = Some c" "py_str c = v"
      by blast
    from s(1) have "(str_of r0 ''dataset_id'' '''', summary) \<in> set ?sums"
      unfolding dget_def by (rule map_of_SomeD)
    then obtain row where "row \<in> set (datasets d)" "ds_workspace row = cx_workspace cx"
      "ds_id row = str_of r0 ''dataset_id'' ''''" "summary = as_dict (ds_summary row)"
      "is_dict (ds_summary row)"
      by (auto simp: load_dataset_sensitivity_summaries_def)
    with s(2,3) r0(2) show ?thesis by (cases "ds_summary row") auto
  qed
  ultimately show ?thesis by blast
qed

section \<open>Properties\<close>

lemma gateway_retrieve_cases:
  assumes "gateway_retrieve cfg env rq g = (r, g')"
  obtains (refused) e where "retrieve_gate cfg env rq g = (Inl e, g')" "r = Inl e"
  | (not_found) cx allowed abac g1 e where "retrieve_gate cfg env rq g = (Inr (cx, allowed, abac), g1)"
      "finally_release (cx_actor_id cx) (search_stage cfg env cx (query_text_of rq) allowed) g1 = (Inl e, g')"
      "r = Inl e"
  | (found) cx allowed abac g1 rs g2 where "retrieve_gate cfg env rq g = (Inr (cx, allowed, abac), g1)"
      "finally_release (cx_actor_id cx) (search_stage cfg env cx (query_text_of rq) allowed) g1 = (Inr rs, g2)"
      "answer_retrieve cfg env cx abac (query_text_of rq) allowed rs g2 = (r, g')"
  using assms unfolding gateway_retrieve_def
proof (cases rule: abind_cases)
  case (next_stage x g1)
  obtain cx allowed abac where x: "x = (cx, allowed, abac)" by (cases x)
  from next_stage(2) [unfolded x prod.case] show thesis
    by (cases rule: abind_cases) (use next_stage(1) x that(2,3) in blast)+
qed (rule that(1))

text \<open>
  Every outcome of a retrieval is audited: a response comes with an allow decision in the
  database, under the decision id, workspace, filters and masks its provenance shows, and the
  provenance names the datasets of the results; a refusal has recorded exactly one deny decision
  or has left the database as it was.
\<close>

theorem retrieve_audited:
  "case gateway_retrieve cfg env rq g of
     (Inr resp, g') \<Rightarrow> (\<exists>a. decided cfg a g g' \<and> da_result a = ''allow'' \<and>
        dget (rr_provenance resp) ''policy_decision_id'' = Some (PStr (da_decision_id a)) \<and>
        dget (rr_provenance resp) ''workspace_id'' = Some (PStr (da_workspace_id a)) \<and>
        dget (rr_provenance resp) ''datasets_used'' =
          Some (PList (map PStr (clean_set (result_dataset_ids (rr_results resp))))) \<and>
        dget (rr_provenance resp) ''applied_filters'' = Some (PDict (da_filters a)) \<and>
        dget (rr_provenance resp) ''applied_masks'' = Some (PDict (masks_dict (da_masks a))))
   | (Inl e, g') \<Rightarrow> silent g g' \<or> (\<exists>a. da_result a = ''deny'' \<and> decided cfg a g g')"
proof (cases "gateway_retrieve cfg env rq g")
  case (Pair r g')
  then show ?thesis
  proof (cases rule: gateway_retrieve_cases)
    case (refused e)
    then show ?thesis using guardedD(2) [OF retrieve_gate_guarded] Pair by auto
  next
    case (not_found cx allowed abac g1 e)
    have "silent g g1" by (rule guardedD(1) [OF retrieve_gate_guarded not_found(1)])
    then show ?thesis
      using guardedD(2) [OF search_guarded not_found(2)] Pair not_found(3) silent_trans silent_decided
      by (auto split: prod.split)
  next
    case (found cx allowed abac g1 rs g2)
    have sl: "silent g g2"
      using guardedD(1) [OF retrieve_gate_guarded found(1)] guardedD(1) [OF search_guarded found(2)]
        silent_trans by blast
    note sp = answer_retrieve_spec [OF found(3)]
    show ?thesis
    proof (cases r)
      case (Inl e)
      with sp Pair show ?thesis using silent_trans [OF sl] silent_decided [OF sl] by auto
    next
      case (Inr resp)
      with sp Pair show ?thesis using silent_decided [OF sl] by fastforce
    qed
  qed
qed

text \<open>
  C8. Retrieval is confined: a response goes to an authenticated, allowed and rate-limited actor
  only; all its results are of datasets the actor is entitled to, none of which belongs to
  another workspace; with a row filter, the dataset's own summary in this workspace has the
  value asked for; with masks, every snippet is the masked form of some text; and the number of
  results is within the byte budget.
\<close>

theorem retrieve_confined:
  assumes "gateway_retrieve cfg env rq g = (Inr resp, g')"
  shows "\<exists>actor d l abac ws. rq_actor rq = Some actor \<and> abac = request_abac rq actor \<and> abac_allow abac \<and>
    ws = str_of (rq_payload rq) ''workspace_id'' ''unknown'' \<and>
    ad_result (evaluate_access actor (retrieve_allow_ai actor)) = ''allow'' \<and>
    try_acquire (now_seconds env) (str_of actor ''actor_id'' ''unknown'') (gw_limiter g) = (d, l) \<and>
    rl_allowed d \<and> 256 * int (length (rr_results resp)) \<le> set_retrieval_max_bytes cfg \<and>
    (\<forall>res \<in> set (rr_results resp).
       str_of res ''dataset_id'' '''' \<in> set (allowed_dataset_ids_of actor) \<and>
       \<not> dataset_belongs_to_other_workspace (gw_db g) ws (str_of res ''dataset_id'' '''') \<and>
       (abac_masks abac \<noteq> [] \<longrightarrow>
         (\<exists>s. dget res ''snippet'' = Some (PStr (mask_snippet (env_sha env) (abac_masks abac) s)))) \<and>
       (\<forall>k v. row_filter abac = Some (k, v) \<longrightarrow> (\<exists>row summary c. row \<in> set (datasets (gw_db g)) \<and>
          ds_workspace row = ws \<and> ds_id row = str_of res ''dataset_id'' '''' \<and>
          ds_summary row = PDict summary \<and> dget summary k = Some c \<and> py_str c = v)))"
  using assms
proof (cases rule: gateway_retrieve_cases)
  case (found cx allowed abac g1 rs g2)
  obtain actor d where
    a: "rq_actor rq = Some actor" "silent g g1" "cx_actor cx = actor"
      "cx_actor_id cx = str_of actor ''actor_id'' ''unknown''"
      "cx_workspace cx = str_of (rq_payload rq) ''workspace_id'' ''unknown''"
      "ad_result (evaluate_access actor (retrieve_allow_ai actor)) = ''allow''"
      "try_acquire (now_seconds env) (cx_actor_id cx) (gw_limiter g) = (d, gw_limiter g1)" "rl_allowed d"
      "allowed = sorted_set (allowed_dataset_ids_of actor)"
      "\<forall>ds \<in> set allowed. \<not> dataset_belongs_to_other_workspace (gw_db g) (cx_workspace cx) ds"
      "abac = request_abac rq actor" "abac_allow abac"
    by (rule retrieve_gate_Inr [OF found(1)]) (rule that; assumption)
  have s: "silent g1 g2" "rows_allowed allowed rs" using search_slot [OF found(2)] by auto
  have db: "gw_db g2 = gw_db g" using a(2) s(1) by (simp add: silent_def)
  note sp = answer_retrieve_spec [OF found(3)]
  have "str_of res ''dataset_id'' '''' \<in> set (allowed_dataset_ids_of actor) \<and>
       \<not> dataset_belongs_to_other_workspace (gw_db g) (cx_workspace cx) (str_of res ''dataset_id'' '''') \<and>
       (abac_masks abac \<noteq> [] \<longrightarrow>
         (\<exists>s. dget res ''snippet'' = Some (PStr (mask_snippet (env_sha env) (abac_masks abac) s)))) \<and>
       (\<forall>k v. row_filter abac = Some (k, v) \<longrightarrow> (\<exists>row summary c. row \<in> set (datasets (gw_db g)) \<and>
          ds_workspace row = cx_workspace cx \<and> ds_id row = str_of res ''dataset_id'' '''' \<and>
          ds_summary row = PDict summary \<and> dget summary k = Some c \<and> py_str c = v))"
    if "res \<in> set (rr_results resp)" for res
    using protected_results_ok [OF s(2), of res env cx abac "gw_db g"] that sp a(9,10) db by simp
  with a sp show ?thesis by auto
qed simp_all

text \<open>
  Retrieval never loses a slot once it is past the entitlement and attribute checks: whatever the
  search backend, the budget or the audit store do, every actor has afterwards as many requests
  in flight as before.
\<close>

theorem retrieve_slot_returned:
  assumes "retrieve_gate cfg env rq g = (Inr x, g1)" "gateway_retrieve cfg env rq g = (r, g')"
    and "limiter_inv (gw_limiter g)"
  shows "inflight (gw_limiter g') b = inflight (gw_limiter g) b"
proof -
  obtain cx allowed abac where x: "x = (cx, allowed, abac)" by (cases x)
  obtain d where
    t: "try_acquire (now_seconds env) (cx_actor_id cx) (gw_limiter g) = (d, gw_limiter g1)" "rl_allowed d"
    by (rule retrieve_gate_Inr [OF assms(1) [unfolded x]])
  have "gw_limiter g' = release (cx_actor_id cx) (gw_limiter g1)"
    using assms(2)
  proof (cases rule: gateway_retrieve_cases)
    case (not_found cx' allowed' abac' g1' e)
    then show ?thesis using assms(1) x search_slot by fastforce
  next
    case (found cx' allowed' abac' g1' rs g2)
    then have "same_runtime g2 g'" using answer_retrieve_spec by blast
    moreover have "gw_limiter g2 = release (cx_actor_id cx) (gw_limiter g1)"
      using found assms(1) x search_slot by fastforce
    ultimately show ?thesis by (simp add: same_runtime_def)
  qed (use assms(1) in simp)
  then show ?thesis using limiter.granted_then_released [OF assms(3) t] by simp
qed

text \<open>
  Every simulation is audited and changes nothing but the audit trail: an answer goes only to a
  data steward or platform administrator and comes with a recorded decision under the caller's
  own identity, with the result, reason, filters and masks that were answered; a refusal has
  recorded one deny decision or left the database as it was; slots and cache are untouched.
\<close>

theorem simulation_audited:
  "case policy_simulate cfg env rq g of
     (Inr sim, g') \<Rightarrow> same_runtime g g' \<and> (\<exists>caller a. rq_actor rq = Some caller \<and> may_simulate caller \<and>
        decided cfg a g g' \<and> da_actor a = str_of caller ''actor_id'' ''unknown'' \<and>
        da_result a = sim_result sim \<and> da_why a = sim_reason sim \<and> da_filters a = sim_filters sim \<and>
        da_masks a = sim_masks sim \<and> da_decision_id a = sim_decision_id sim)
   | (Inl e, g') \<Rightarrow> same_runtime g g' \<and>
        (silent g g' \<or> (\<exists>a. da_result a = ''deny'' \<and> decided cfg a g g'))"
proof -
  obtain did g1 where id: "new_id env g = (did, g1)" by fastforce
  then have g1: "silent g g1" "same_runtime g g1"
    by (auto simp: new_id_def silent_def same_runtime_def)
  have refusal: ?thesis
    if "policy_simulate cfg env rq g = deny cfg env [] msg extra (args_for cx ''deny'' why [] [] []) g1"
    for msg extra why cx
  proof (cases "policy_simulate cfg env rq g")
    case (Pair r g')
    with that have d: "deny cfg env [] msg extra (args_for cx ''deny'' why [] [] []) g1 = (r, g')" by simp
    then obtain e where "r = Inl e" by (cases r) auto
    moreover have "same_runtime g g'" using deny_spec [OF d] same_runtime_trans [OF g1(2)] by blast
    moreover have "silent g g' \<or> (\<exists>a. da_result a = ''deny'' \<and> decided cfg a g g')"
      using deny_spec [OF d] silent_trans [OF g1(1)] silent_decided [OF g1(1)] args_for_simps(1) by metis
    ultimately show ?thesis by (simp add: Pair)
  qed
  show ?thesis
  proof (cases "rq_actor rq")
    case None
    then show ?thesis by (intro refusal) (simp add: policy_simulate_def id)
  next
    case (Some caller)
    show ?thesis
    proof (cases "may_simulate caller")
      case False
      with Some show ?thesis by (intro refusal) (simp add: policy_simulate_def id)
    next
      case True
      let ?p = "actor_preview_of rq caller"
      let ?abac = "request_abac rq ?p"
      obtain res why where out: "simulation_outcome rq ?p ?abac = (res, why)" by fastforce
      define cx where "cx = context_for ''policy_simulate'' ''policy'' rq None caller did"
      define a where "a = args_for cx res why (simulation_resources rq ?p)
         (serialize_row_filter (row_filter ?abac)) (abac_masks ?abac)"
      define g2 where "g2 = (if res = ''deny'' then add_metrics [PolicyDenial (cx_workspace cx) why] g1 else g1)"
      have g2: "silent g g2" "same_runtime g g2" using g1 by (simp_all add: g2_def)
      obtain r1 g3 where rec: "record_access_decision cfg env a g2 = (r1, g3)" by fastforce
      note spec = record_spec [OF rec]
      have "policy_simulate cfg env rq g = abind (record_access_decision cfg env a)
          (\<lambda>_ g. (Inr \<lparr>sim_workspace = cx_workspace cx,
              sim_action = str_of (rq_payload rq) ''action'' ''query'', sim_result = res, sim_reason = why,
              sim_filters = serialize_row_filter (row_filter ?abac), sim_masks = abac_masks ?abac,
              sim_decision_id = did, sim_request_id = cx_correlation cx\<rparr>,
             add_metrics [QueryLatency (cx_workspace cx) (cx_engine cx) res] g)) g2"
        unfolding policy_simulate_def id prod.case Some option.case evaluate_abac_default
          request_abac_def [symmetric] sum.case Let_def out
        using True by (simp add: cx_def a_def g2_def)
      then have run: "policy_simulate cfg env rq g = (case r1 of Inl e \<Rightarrow> (Inl e, g3)
          | Inr _ \<Rightarrow> (Inr \<lparr>sim_workspace = cx_workspace cx,
              sim_action = str_of (rq_payload rq) ''action'' ''query'', sim_result = res, sim_reason = why,
              sim_filters = serialize_row_filter (row_filter ?abac), sim_masks = abac_masks ?abac,
              sim_decision_id = did, sim_request_id = cx_correlation cx\<rparr>,
             add_metrics [QueryLatency (cx_workspace cx) (cx_engine cx) res] g3))"
        by (simp add: abind_def rec)
      show ?thesis
      proof (cases r1)
        case (Inl e)
        with spec run g2 show ?thesis using same_runtime_trans silent_trans by fastforce
      next
        case (Inr u)
        have dec: "decided cfg a g g3" "same_runtime g g3"
          using spec Inr silent_decided [OF g2(1)] same_runtime_trans [OF g2(2)] by auto
        have "da_actor a = str_of caller ''actor_id'' ''unknown''" "da_result a = res" "da_why a = why"
          "da_filters a = serialize_row_filter (row_filter ?abac)" "da_masks a = abac_masks ?abac"
          "da_decision_id a = did"
          by (simp_all add: a_def cx_def context_for_def)
        with dec Some True show ?thesis by (auto simp: run Inr)
      qed
    qed
  qed
qed

text \<open>
  A simulation predicts the data endpoints: when it answers \<open>deny\<close> for an actor preview, every
  query and every retrieval of an actor with that preview's claims, under the same resource
  attributes and mode, is refused, in any state and whatever engine or index stands behind.
\<close>

theorem simulated_denial_is_denied:
  assumes "policy_simulate cfg env rq g = (Inr sim, g')" "sim_result sim = ''deny''"
    and "rq_actor rq = Some caller" "rq_actor rq2 = Some (actor_preview_of rq caller)"
    and "resource_attrs_of rq2 = resource_attrs_of rq"
    and "str_of (rq_payload rq2) ''abac_mode'' ''internal'' = str_of (rq_payload rq) ''abac_mode'' ''internal''"
  shows "(\<exists>e. fst (gateway_query cfg2 env2 rq2 g2) = Inl e) \<and>
    (\<exists>e. fst (gateway_retrieve cfg2 env2 rq2 g2) = Inl e)"
proof -
  let ?p = "actor_preview_of rq caller"
  have abac: "request_abac rq2 ?p = request_abac rq ?p" using assms(5,6) by (simp add: request_abac_def)
  have denied: "ad_result (evaluate_access ?p (query_allow_ai ?p)) \<noteq> ''allow'' \<or> \<not> abac_allow (request_abac rq ?p)"
  proof -
    have "fst (simulation_outcome rq ?p (request_abac rq ?p)) = ''deny''"
      using assms(1,2,3)
      by (auto simp: policy_simulate_def evaluate_abac_default request_abac_def abind_Inr_iff Let_def
          split: prod.split_asm if_split_asm)
    then show ?thesis by (auto simp: simulation_outcome_def Let_def split: if_split_asm)
  qed
  have "fst (gateway_query cfg2 env2 rq2 g2) \<noteq> Inr resp" for resp
  proof
    assume "fst (gateway_query cfg2 env2 rq2 g2) = Inr resp"
    then obtain g3 where "gateway_query cfg2 env2 rq2 g2 = (Inr resp, g3)" by (metis prod.collapse)
    then obtain cx g4 where
      q: "query_admission cfg2 env2 rq2 g2 = (Inr cx, g4)" "abac_allow (request_abac rq2 (cx_actor cx))"
      by (rule query_success)
    obtain actor where "rq_actor rq2 = Some actor" "cx_actor cx = actor"
      "ad_result (evaluate_access actor (query_allow_ai actor)) = ''allow''"
      by (rule admission_Inr [OF q(1)])
    with assms(4) have "cx_actor cx = ?p"
      "ad_result (evaluate_access ?p (query_allow_ai ?p)) = ''allow''" by simp_all
    with q(2) denied abac show False by simp
  qed
  moreover have "fst (gateway_retrieve cfg2 env2 rq2 g2) \<noteq> Inr resp" for resp
  proof
    assume "fst (gateway_retrieve cfg2 env2 rq2 g2) = Inr resp"
    then obtain g3 where "gateway_retrieve cfg2 env2 rq2 g2 = (Inr resp, g3)" by (metis prod.collapse)
    then obtain cx allowed ab g4 where "retrieve_gate cfg2 env2 rq2 g2 = (Inr (cx, allowed, ab), g4)"
      by (cases rule: gateway_retrieve_cases) auto
    then obtain actor where "rq_actor rq2 = Some actor" "ab = request_abac rq2 actor" "abac_allow ab"
      "ad_result (evaluate_access actor (retrieve_allow_ai actor)) = ''allow''"
      by (rule retrieve_gate_Inr)
    with assms(4) have "abac_allow (request_abac rq2 ?p)"
      "ad_result (evaluate_access ?p (retrieve_allow_ai ?p)) = ''allow''" by simp_all
    moreover have "ad_result (evaluate_access ?p (retrieve_allow_ai ?p)) = ''allow'' \<Longrightarrow>
        ad_result (evaluate_access ?p (query_allow_ai ?p)) = ''allow''"
      by (auto simp: evaluate_access_allow_iff retrieve_allow_ai_def query_allow_ai_def split: if_split_asm)
    ultimately show False using denied abac by simp
  qed
  ultimately show ?thesis by (metis old.sum.exhaust)
qed

section \<open>A concrete retrieval\<close>

definition demo_documents :: "(json_text \<times> json_text option) list" where
  "demo_documents = [(Some (PDict [(''dataset_id'', PStr ''d1''), (''artifact_id'', PStr ''a1'')]),
       Some (Some (PDict [(''text'', PStr ''write to ann@x.io'')]))),
     (Some (PDict [(''dataset_id'', PStr ''d9''), (''artifact_id'', PStr ''a2'')]),
       Some (Some (PDict [(''text'', PStr ''write to bob@x.io'')])))]"

definition retrieve_world :: gw_env where
  "retrieve_world = demo_world\<lparr>documents := \<lambda>_. demo_documents\<rparr>"

definition retrieve_gateway_state :: gateway where
  "retrieve_gateway_state = demo_gateway\<lparr>gw_db := empty_db\<lparr>datasets :=
     [\<lparr>ds_id = ''d1'', ds_workspace = ''w'', ds_source = ''s'', ds_logical_name = ''n'', ds_locator = ''l'',
       ds_schema_version = 1, ds_summary = PDict [(''region'', PStr ''eu'')]\<rparr>]\<rparr>\<rparr>"

definition retrieve_actor :: pydict where
  "retrieve_actor = [(''actor_id'', PStr ''user:ann''), (''actor_type'', PStr ''human''),
     (''roles'', PList [PStr ''analyst'']), (''attributes'', PDict [(''region'', PStr ''eu''),
       (''allowed_dataset_ids'', PList [PStr ''d1''])])]"

definition demo_retrieve :: gw_request where
  "demo_retrieve = \<lparr>rq_payload = [(''workspace_id'', PStr ''w''), (''query_text'', PStr ''write'')],
     rq_actor = Some retrieve_actor, rq_correlation = ''r''\<rparr>"

definition run_result :: "'a res \<times> gateway \<Rightarrow> 'a option" where
  "run_result out = (case fst out of Inl _ \<Rightarrow> None | Inr x \<Rightarrow> Some x)"

lemma run_resultD: "run_result out = Some x \<Longrightarrow> \<exists>g'. out = (Inr x, g')"
  by (cases out) (auto simp: run_result_def split: sum.split_asm)

definition demo_results :: "pydict list" where
  "demo_results = [[(''artifact_id'', PStr ''a1''), (''dataset_id'', PStr ''d1''),
     (''snippet'', PStr ''write to a******o''), (''citation'', PStr ''artifact:a1'')]]"

lemma demo_retrieve_run:
  "map_option rr_results (run_result (gateway_retrieve demo_settings retrieve_world demo_retrieve
     retrieve_gateway_state)) = Some demo_results"
  by code_simp

theorem retrieve_confined_witness:
  "str_of (hd demo_results) ''dataset_id'' '''' \<in> set (allowed_dataset_ids_of retrieve_actor) \<and>
     (\<exists>s. dget (hd demo_results) ''snippet'' = Some (PStr (mask_snippet id [(''email'', ''partial_reveal'')] s)))"
proof -
  from demo_retrieve_run obtain resp where
    r: "run_result (gateway_retrieve demo_settings retrieve_world demo_retrieve retrieve_gateway_state) = Some resp"
      "rr_results resp = demo_results" by auto
  from run_resultD [OF r(1)] obtain g' where
    "gateway_retrieve demo_settings retrieve_world demo_retrieve retrieve_gateway_state = (Inr resp, g')" ..
  note c = retrieve_confined [OF this]
  have "rq_actor demo_retrieve = Some retrieve_actor" by (simp add: demo_retrieve_def)
  moreover have "abac_masks (request_abac demo_retrieve retrieve_actor) = [(''email'', ''partial_reveal'')]"
    by code_simp
  moreover have "env_sha retrieve_world = id" by (simp add: retrieve_world_def demo_world_def)
  moreover have "hd demo_results \<in> set demo_results" by (simp add: demo_results_def)
  ultimately show ?thesis using c r(2) by auto
qed

theorem retrieve_slot_returned_witness:
  "\<exists>r g'. gateway_retrieve (demo_settings\<lparr>set_retrieval_backend := ''qdrant''\<rparr>) retrieve_world
      demo_retrieve retrieve_gateway_state = (r, g') \<and> inflight (gw_limiter g') ''user:ann'' = 0"
proof -
  let ?cfg = "demo_settings\<lparr>set_retrieval_backend := ''qdrant''\<rparr>"
  have "run_result (retrieve_gate ?cfg retrieve_world demo_retrieve retrieve_gateway_state) \<noteq> None"
    by code_simp
  then obtain x where "run_result (retrieve_gate ?cfg retrieve_world demo_retrieve retrieve_gateway_state) = Some x"
    by blast
  from run_resultD [OF this] obtain g1 where
    gate: "retrieve_gate ?cfg retrieve_world demo_retrieve retrieve_gateway_state = (Inr x, g1)" ..
  obtain r g' where run: "gateway_retrieve ?cfg retrieve_world demo_retrieve retrieve_gateway_state = (r, g')"
    by fastforce
  have "limiter_inv (gw_limiter retrieve_gateway_state)"
    by (simp add: retrieve_gateway_state_def demo_gateway_def limiter_inv_init)
  moreover have "inflight (gw_limiter retrieve_gateway_state) ''user:ann'' = 0"
    by (simp add: retrieve_gateway_state_def demo_gateway_def inflight_def limiter_init_def)
  ultimately show ?thesis using retrieve_slot_returned [OF gate run] run by metis
qed

definition demo_simulation :: gw_request where
  "demo_simulation = \<lparr>rq_payload = [(''workspace_id'', PStr ''w''), (''actor'', PDict demo_ai_actor),
       (''resource_attributes'', PDict []), (''abac_mode'', PStr ''OPA'')],
     rq_actor = Some [(''actor_id'', PStr ''user:root''), (''roles'', PList [PStr ''platform_admin''])],
     rq_correlation = ''r''\<rparr>"

theorem simulated_denial_is_denied_witness:
  "\<exists>e. fst (gateway_query demo_settings demo_world (demo_simulation\<lparr>rq_actor := Some demo_ai_actor\<rparr>)
     demo_gateway) = Inl e"
proof -
  have "map_option sim_result (run_result (policy_simulate demo_settings demo_world demo_simulation demo_gateway)) =
      Some ''deny''" by code_simp
  then obtain sim where
    s: "run_result (policy_simulate demo_settings demo_world demo_simulation demo_gateway) = Some sim"
      "sim_result sim = ''deny''" by auto
  from run_resultD [OF s(1)] obtain g' where
    run: "policy_simulate demo_settings demo_world demo_simulation demo_gateway = (Inr sim, g')" ..
  show ?thesis
    by (rule simulated_denial_is_denied [THEN conjunct1, OF run s(2)])
      (simp_all add: demo_simulation_def actor_preview_of_def dget_or_def resource_attrs_of_def)
qed

end
