(* ===== verification/Base64.thy ===== *)
theory Base64
  imports Py
begin

text \<open>
  Base64 in the URL-safe alphabet as the interpreter's \<open>base64\<close> module decodes it
  (\<open>_decode_base64url\<close> in \<open>backend/shared_domain/auth.py\<close>, \<open>_encrypt\<close> and \<open>_decrypt\<close> in
  \<open>artifact_crypto.py\<close>), and the proof that decoding inverts encoding.
\<close>

section \<open>Decoding\<close>

definition b64_value :: "char \<Rightarrow> nat option" where
  "b64_value c =
     (let n = code c in
      if 65 \<le> n \<and> n \<le> 90 then Some (n - 65)
      else if 97 \<le> n \<and> n \<le> 122 then Some (n - 71)
      else if 48 \<le> n \<and> n \<le> 57 then Some (n + 4)
      else if c = CHR ''+'' \<or> c = CHR ''-'' then Some 62
      else if c = CHR ''/'' \<or> c = CHR ''_'' then Some 63
      else None)"

text \<open>
  \<open>base64.urlsafe_b64decode\<close>: both alphabets are read, other characters are skipped, decoding
  ends at a complete padding, and a quantum left open is an error. \<open>q\<close> is the position in the
  quantum, \<open>l\<close> the bits carried over, \<open>p\<close> the number of padding characters seen.
\<close>

fun b64_loop :: "nat \<Rightarrow> nat \<Rightarrow> nat \<Rightarrow> string \<Rightarrow> string option" where
  "b64_loop q l p [] = (if q = 0 then Some [] else None)"
| "b64_loop q l p (c # s) =
     (if c = CHR ''='' then
        (if 2 \<le> q then (if 4 \<le> q + (p + 1) then Some [] else b64_loop q l (p + 1) s)
         else b64_loop q l p s)
      else case b64_value c of
        None \<Rightarrow> b64_loop q l p s
      | Some v \<Rightarrow>
          (if q = 0 then b64_loop 1 v 0 s
           else if q = 1 then map_option (Cons (char_of (l * 4 + v div 16))) (b64_loop 2 (v mod 16) 0 s)
           else if q = 2 then map_option (Cons (char_of (l * 16 + v div 4))) (b64_loop 3 (v mod 4) 0 s)
           else map_option (Cons (char_of (l * 64 + v))) (b64_loop 0 0 0 s)))"

definition is_ascii :: "string \<Rightarrow> bool" where
  "is_ascii s \<longleftrightarrow> list_all (\<lambda>c. code c < 128) s"

definition decode_base64url :: "string \<Rightarrow> string option" where
  "decode_base64url value =
     (if value = [] then Some []
      else if \<not> is_ascii value then None
      else b64_loop 0 0 0 (value @ replicate ((4 - length value mod 4) mod 4) (CHR ''='')))"

section \<open>Decoding inverts encoding\<close>

text \<open>The encoding of RFC 4648 without padding, as issuers write the segments of a token.\<close>

definition b64_char :: "nat \<Rightarrow> char" where
  "b64_char v = (if v < 26 then char_of (v + 65) else if v < 52 then char_of (v + 71)
     else if v < 62 then char_of (v - 4) else if v = 62 then CHR ''-'' else CHR ''_'')"

fun encode_base64url :: "string \<Rightarrow> string" where
  "encode_base64url [] = []"
| "encode_base64url [a] = [b64_char (code a div 4), b64_char (code a mod 4 * 16)]"
| "encode_base64url [a, b] =
     [b64_char (code a div 4), b64_char (code a mod 4 * 16 + code b div 16), b64_char (code b mod 16 * 4)]"
| "encode_base64url (a # b # c # s) =
     b64_char (code a div 4) # b64_char (code a mod 4 * 16 + code b div 16)
       # b64_char (code b mod 16 * 4 + code c div 64) # b64_char (code c mod 64) # encode_base64url s"

lemma code_char_of: "n < 256 \<Longrightarrow> code (char_of n) = n"
  by (simp add: code_def)

lemma b64_char_cases:
  assumes "v < 64"
  obtains "v < 26" "code (b64_char v) = v + 65" | "26 \<le> v" "v < 52" "code (b64_char v) = v + 71"
  | "48 \<le> v - 4" "v - 4 \<le> 57" "52 \<le> v" "code (b64_char v) = v - 4" | "v = 62" "b64_char v = CHR ''-''"
  | "v = 63" "b64_char v = CHR ''_''"
proof -
  consider "v < 26" | "26 \<le> v" "v < 52" | "52 \<le> v" "v < 62" | "v = 62" | "v = 63"
    using assms by linarith
  then show thesis
    by cases (use that in \<open>simp_all add: b64_char_def code_char_of\<close>)
qed

lemma b64_char_value [simp]: "v < 64 \<Longrightarrow> b64_value (b64_char v) = Some v"
  by (erule b64_char_cases) (simp_all add: b64_value_def Let_def, simp_all add: code_def)

lemma b64_char_code: "v < 64 \<Longrightarrow> code (b64_char v) < 128 \<and> code (b64_char v) \<noteq> 61"
  by (erule b64_char_cases) (simp_all, simp_all add: code_def)

lemma b64_char_simps [simp]:
  assumes "v < 64" shows "b64_char v \<noteq> CHR ''=''" "code (b64_char v) < 128"
proof -
  have "code (CHR ''='') = 61" by (simp add: code_def)
  with b64_char_code [OF assms] show "b64_char v \<noteq> CHR ''=''" by auto
qed (use b64_char_code [OF assms] in simp)

lemma byte_char_of_code [simp]: "char_of (code c) = c"
  by (simp add: code_def)

lemma code_256: "code c < 256"
  by (cases c) (simp add: code_def)

text \<open>The sextets of a quantum, as numbers.\<close>

lemma quantum:
  fixes a b c :: nat
  assumes "a < 256" "b < 256" "c < 256"
  shows "a div 4 < 64" "a mod 4 * 16 + b div 16 < 64" "b mod 16 * 4 + c div 64 < 64"
    "a mod 4 * 16 < 64" "b mod 16 * 4 < 64" "c mod 64 < 64"
    "a div 4 * 4 + (a mod 4 * 16 + b div 16) div 16 = a"
    "(a mod 4 * 16 + b div 16) mod 16 * 16 + (b mod 16 * 4 + c div 64) div 4 = b"
    "(b mod 16 * 4 + c div 64) mod 4 * 64 + c mod 64 = c"
    "a div 4 * 4 + a mod 4 * 16 div 16 = a" "(a mod 4 * 16 + b div 16) mod 16 * 16 + b mod 16 * 4 div 4 = b"
proof -
  have d: "a div 4 < 64" "b div 16 < 16" "c div 64 < 4" using assms by linarith+
  have m: "a mod 4 < 4" "b mod 16 < 16" "c mod 64 < 64" by simp_all
  show "a div 4 < 64" "a mod 4 * 16 + b div 16 < 64" "b mod 16 * 4 + c div 64 < 64"
    "a mod 4 * 16 < 64" "b mod 16 * 4 < 64" "c mod 64 < 64"
    using d m by linarith+
  have "(a mod 4 * 16 + b div 16) div 16 = a mod 4" "(a mod 4 * 16 + b div 16) mod 16 = b div 16"
    "(b mod 16 * 4 + c div 64) div 4 = b mod 16" "(b mod 16 * 4 + c div 64) mod 4 = c div 64"
    using d by simp_all
  then show "a div 4 * 4 + (a mod 4 * 16 + b div 16) div 16 = a"
    "(a mod 4 * 16 + b div 16) mod 16 * 16 + (b mod 16 * 4 + c div 64) div 4 = b"
    "(b mod 16 * 4 + c div 64) mod 4 * 64 + c mod 64 = c"
    "a div 4 * 4 + a mod 4 * 16 div 16 = a" "(a mod 4 * 16 + b div 16) mod 16 * 16 + b mod 16 * 4 div 4 = b"
    by simp_all
qed

lemmas quantum_codes = quantum [OF code_256 code_256 code_256]

lemma encode_ascii: "is_ascii (encode_base64url s)"
  by (induction s rule: encode_base64url.induct) (simp_all add: is_ascii_def quantum_codes)

lemma b64_loop_quantum:
  "v1 < 64 \<Longrightarrow> v2 < 64 \<Longrightarrow> b64_loop 0 l p (b64_char v1 # b64_char v2 # s) =
     map_option (Cons (char_of (v1 * 4 + v2 div 16))) (b64_loop 2 (v2 mod 16) 0 s)"
  "v3 < 64 \<Longrightarrow> b64_loop 2 l p (b64_char v3 # s) =
     map_option (Cons (char_of (l * 16 + v3 div 4))) (b64_loop 3 (v3 mod 4) 0 s)"
  "v4 < 64 \<Longrightarrow> b64_loop 3 l p (b64_char v4 # s) = map_option (Cons (char_of (l * 64 + v4))) (b64_loop 0 0 0 s)"
  by (simp_all only: b64_loop.simps b64_char_simps b64_char_value) simp_all

lemma b64_padding:
  "b64_loop 2 l 0 [CHR ''='', CHR ''=''] = Some []" "b64_loop 3 l 0 [CHR ''=''] = Some []"
  by simp_all

definition b64_pad :: "string \<Rightarrow> string" where
  "b64_pad s = s @ replicate ((4 - length s mod 4) mod 4) (CHR ''='')"

lemma mod4_step: "Suc (Suc (Suc (Suc n))) mod 4 = n mod 4"
  by presburger

lemma b64_pad_simps:
  "b64_pad [] = []" "b64_pad [x, y] = [x, y, CHR ''='', CHR ''='']" "b64_pad [x, y, z] = [x, y, z, CHR ''='']"
  "b64_pad (x # y # z # w # s) = x # y # z # w # b64_pad s"
  by (code_simp, code_simp, code_simp) (simp add: b64_pad_def mod4_step)

lemma b64_full_quantum:
  "b64_loop 0 0 0 (b64_char (code a div 4) # b64_char (code a mod 4 * 16 + code b div 16)
     # b64_char (code b mod 16 * 4 + code c div 64) # b64_char (code c mod 64) # s) =
   map_option (\<lambda>r. a # b # c # r) (b64_loop 0 0 0 s)"
  unfolding b64_loop_quantum(1) [OF quantum_codes(1,2)] b64_loop_quantum(2) [OF quantum_codes(3)]
    b64_loop_quantum(3) [OF quantum_codes(6)] quantum_codes(7) quantum_codes(8) quantum_codes(9) byte_char_of_code
  by (simp add: option.map_comp comp_def)

lemma b64_loop_encode: "b64_loop 0 0 0 (b64_pad (encode_base64url s)) = Some s"
proof (induction s rule: encode_base64url.induct)
  case (2 a)
  then show ?case
    unfolding encode_base64url.simps b64_pad_simps b64_loop_quantum(1) [OF quantum_codes(1,4)]
      quantum_codes(10) byte_char_of_code by simp
next
  case (3 a b)
  then show ?case
    unfolding encode_base64url.simps b64_pad_simps b64_loop_quantum(1) [OF quantum_codes(1,2)]
      b64_loop_quantum(2) [OF quantum_codes(5)] quantum_codes(7) quantum_codes(11) byte_char_of_code by simp
next
  case (4 a b c s)
  then show ?case
    unfolding encode_base64url.simps b64_pad_simps b64_full_quantum by simp
qed (simp add: b64_pad_simps)

lemma decode_encode: "decode_base64url (encode_base64url s) = Some s"
proof (cases "s = []")
  case False
  then have "encode_base64url s \<noteq> []" by (cases s rule: encode_base64url.cases) auto
  then show ?thesis
    using encode_ascii [of s] b64_loop_encode [of s] by (simp add: decode_base64url_def b64_pad_def)
qed (simp add: decode_base64url_def)

text \<open>\<open>base64.urlsafe_b64encode\<close>, with padding, and its inverse on byte strings.\<close>

definition urlsafe_b64encode :: "string \<Rightarrow> string" where
  "urlsafe_b64encode s = b64_pad (encode_base64url s)"

definition urlsafe_b64decode :: "string \<Rightarrow> string option" where
  "urlsafe_b64decode s = b64_loop 0 0 0 s"

lemma b64decode_encode: "urlsafe_b64decode (urlsafe_b64encode s) = Some s"
  by (simp add: urlsafe_b64decode_def urlsafe_b64encode_def b64_loop_encode)

lemma b64_char_image: "v < 64 \<Longrightarrow> b64_char v \<in> b64_char ` {..<64}"
  by simp

lemma encode_chars: "set (encode_base64url s) \<subseteq> b64_char ` {..<64}"
  by (induction s rule: encode_base64url.induct)
    (simp_all only: encode_base64url.simps list.set insert_subset empty_subsetI simp_thms
      b64_char_image [OF quantum_codes(1)] b64_char_image [OF quantum_codes(2)]
      b64_char_image [OF quantum_codes(3)] b64_char_image [OF quantum_codes(4)]
      b64_char_image [OF quantum_codes(5)] b64_char_image [OF quantum_codes(6)])

lemma b64_chars: "c \<in> set (encode_base64url s) \<Longrightarrow> \<exists>v < 64. c = b64_char v"
  using encode_chars [of s] by auto

lemma b64_no_space: "v < 64 \<Longrightarrow> \<not> is_space (b64_char v)"
proof -
  assume "v < 64"
  then have "b64_value (b64_char v) \<noteq> None" by simp
  moreover have "b64_value c = None" if "is_space c" for c
    using that by (auto simp: is_space_def b64_value_def Let_def code_def)
  ultimately show ?thesis by auto
qed

lemma urlsafe_b64encode_no_space: "c \<in> set (urlsafe_b64encode s) \<Longrightarrow> \<not> is_space c"
proof -
  assume "c \<in> set (urlsafe_b64encode s)"
  then have "c \<in> set (encode_base64url s) \<or> c = CHR ''=''"
    by (auto simp: urlsafe_b64encode_def b64_pad_def)
  moreover have "\<not> is_space (CHR ''='')" by code_simp
  ultimately show ?thesis using b64_chars b64_no_space by blast
qed

lemma urlsafe_b64encode_ascii: "is_ascii (urlsafe_b64encode s)"
proof -
  have "code (CHR ''='') < 128" by code_simp
  then show ?thesis
    using encode_ascii [of s] by (auto simp: is_ascii_def urlsafe_b64encode_def b64_pad_def list_all_iff)
qed

end
