(* ===== verification/Auth.thy ===== *)
theory Auth
  imports AccessPolicy Base64
begin

text \<open>
  Authentication (\<open>backend/shared_domain/auth.py\<close>, with the policy pack templates of
  \<open>policy_packs.py\<close>): local bearer tokens, claims from a trusted proxy, and signed OIDC tokens
  with a cache of the issuer's keys. HMAC, JSON parsing and the HTTP exchange are arguments;
  base64 decoding is given as the interpreter does it. Byte strings are strings of characters
  below 256; time is in microseconds.
\<close>

section \<open>Settings and environment\<close>

record auth_settings =
  as_mode :: string
  as_claims_header :: string
  as_required_issuer :: "string option"
  as_required_audience :: "string option"
  as_actor_id_claim :: string
  as_roles_claim :: string
  as_attributes_claim :: string
  as_allowed_algs :: "string list"
  as_clock_skew_seconds :: int
  as_jwks_url :: "string option"
  as_jwks_cache_ttl_seconds :: int

record auth_env =
  ae_headers :: "string \<Rightarrow> string option"
  ae_loads :: "string \<Rightarrow> json_text"
  ae_hmac :: "string \<Rightarrow> string \<Rightarrow> string \<Rightarrow> string"
  ae_fetch :: "string \<Rightarrow> json_text option"
  ae_now_us :: int

text \<open>A setting that is \<open>None\<close> or empty counts as not given.\<close>

definition given :: "string option \<Rightarrow> string option" where
  "given o' = (case o' of Some (c # s) \<Rightarrow> Some (c # s) | _ \<Rightarrow> None)"

section \<open>Actors\<close>

definition string_roles :: "pyval \<Rightarrow> pyval" where
  "string_roles v = PList (map PStr (str_list v))"

definition sanitize_actor_payload :: "pydict \<Rightarrow> string \<Rightarrow> pydict" where
  "sanitize_actor_payload actor fallback_actor_id =
     [(''actor_id'', PStr (str_of actor ''actor_id'' fallback_actor_id)),
      (''actor_type'', PStr (str_of actor ''actor_type'' ''human'')),
      (''roles'', string_roles (dget_or actor ''roles'' (PList []))),
      (''attributes'', PDict (as_dict (dget_or actor ''attributes'' (PDict []))))]"

definition actor_has_any_role :: "pydict \<Rightarrow> string list \<Rightarrow> bool" where
  "actor_has_any_role actor required \<longleftrightarrow> list_ex (\<lambda>r. r \<in> set required) (roles_of actor)"

definition actor_from_claims :: "auth_settings \<Rightarrow> pydict \<Rightarrow> pydict option" where
  "actor_from_claims cfg claims =
     (let actor_id = strip (str_of claims (as_actor_id_claim cfg) '''');
          roles_raw = dget_or claims (as_roles_claim cfg) (PList []);
          listed = str_list roles_raw;
          roles = (if listed \<noteq> [] then listed
                   else if py_truth roles_raw \<and> py_str roles_raw \<noteq> [] then [py_str roles_raw] else [])
      in if actor_id = [] then None
         else Some [(''actor_id'', PStr actor_id),
           (''actor_type'', PStr (str_of claims ''actor_type'' ''human'')),
           (''roles'', PList (map PStr roles)),
           (''attributes'', PDict (as_dict (dget_or claims (as_attributes_claim cfg) (PDict []))))])"

section \<open>Local tokens\<close>

type_synonym token_table = "(string \<times> pydict) list"

definition local_actor :: "string \<Rightarrow> string \<Rightarrow> string \<Rightarrow> pydict \<Rightarrow> pydict" where
  "local_actor actor_id actor_type role attributes =
     [(''actor_id'', PStr actor_id), (''actor_type'', PStr actor_type),
      (''roles'', PList [PStr role]), (''attributes'', PDict attributes)]"

definition DEFAULT_LOCAL_AUTH_TOKENS :: token_table where
  "DEFAULT_LOCAL_AUTH_TOKENS =
     [(''local-analyst-token'', local_actor ''user:local_analyst'' ''human'' ''analyst'' []),
      (''local-region-analyst-token'',
         local_actor ''user:regional_analyst'' ''human'' ''analyst'' [(''region'', PStr ''eu'')]),
      (''local-data-steward-token'', local_actor ''user:local_steward'' ''human'' ''data_steward'' []),
      (''local-platform-admin-token'', local_actor ''user:local_admin'' ''human'' ''platform_admin'' []),
      (''local-ai-token'', local_actor ''agent:local_ai'' ''ai'' ''ai_agent''
         [(''ai_allowlisted'', PBool False), (''allowed_dataset_ids'', PList [])]),
      (''local-ai-reader-token'', local_actor ''agent:local_ai_reader'' ''ai'' ''ai_agent''
         [(''ai_allowlisted'', PBool True), (''allowed_dataset_ids'', PList [PStr ''dataset-1''])])]"

definition user_fallback :: "string \<Rightarrow> string" where
  "user_fallback token = ''user:'' @ token"

definition load_policy_packs :: "pyval \<Rightarrow> pydict list" where
  "load_policy_packs raw = map as_dict (filter is_dict (as_list raw))"

definition list_policy_pack_summaries :: "pyval \<Rightarrow> (string \<times> string \<times> string) list" where
  "list_policy_pack_summaries raw =
     map (\<lambda>item. (str_of item ''id'' [], str_of item ''name'' [], str_of item ''description'' []))
       (load_policy_packs raw)"

definition find_policy_pack_template :: "pyval \<Rightarrow> string \<Rightarrow> pydict option" where
  "find_policy_pack_template raw pack_id =
     (case find (\<lambda>item. str_of item ''id'' [] = pack_id) (load_policy_packs raw) of
        None \<Rightarrow> None
      | Some item \<Rightarrow> (case dget_or item ''template_actor'' PNone of PDict t \<Rightarrow> Some t | _ \<Rightarrow> None))"

definition apply_template :: "pydict \<Rightarrow> pydict \<Rightarrow> pydict" where
  "apply_template current template =
     dset (dset (dset current ''actor_type''
       (PStr (py_str (dget_or template ''actor_type'' (dget_or current ''actor_type'' (PStr ''human''))))))
       ''roles'' (string_roles (dget_or template ''roles'' (PList []))))
       ''attributes'' (PDict (as_dict (dget_or template ''attributes'' (PDict []))))"

fun override_loop :: "pyval \<Rightarrow> (string \<times> pyval) list \<Rightarrow> token_table \<Rightarrow> token_table" where
  "override_loop packs [] tokens = tokens"
| "override_loop packs ((token, v) # items) tokens =
     (case v of
        PStr pack_id \<Rightarrow>
          (case find_policy_pack_template packs pack_id of
             None \<Rightarrow> override_loop packs items tokens
           | Some template \<Rightarrow>
               override_loop packs items
                 (dset tokens token
                   (apply_template
                      (dget_or tokens token [(''actor_id'', PStr (user_fallback token))]) template)))
      | _ \<Rightarrow> override_loop packs items tokens)"

text \<open>
  The environment variables: \<open>None\<close> when unset, \<open>Some None\<close> when not JSON.
\<close>

definition apply_policy_pack_overrides ::
  "pyval \<Rightarrow> json_text option \<Rightarrow> token_table \<Rightarrow> token_table" where
  "apply_policy_pack_overrides packs raw tokens =
     (case raw of
        Some (Some (PDict parsed)) \<Rightarrow> override_loop packs parsed tokens
      | _ \<Rightarrow> tokens)"

definition sanitized_tokens :: "(string \<times> pydict) list \<Rightarrow> token_table" where
  "sanitized_tokens entries =
     foldl (\<lambda>t p. dset t (fst p) (sanitize_actor_payload (snd p) (user_fallback (fst p)))) [] entries"

definition token_overrides :: "pydict \<Rightarrow> token_table" where
  "token_overrides parsed =
     sanitized_tokens (map (\<lambda>p. (fst p, as_dict (snd p))) (filter (\<lambda>p. is_dict (snd p)) parsed))"

definition load_local_auth_tokens ::
  "pyval \<Rightarrow> token_table option \<Rightarrow> json_text option \<Rightarrow> json_text option \<Rightarrow> token_table" where
  "load_local_auth_tokens packs defaults tokens_raw packs_raw =
     (let base = sanitized_tokens
            (case defaults of Some (d # ds) \<Rightarrow> d # ds | _ \<Rightarrow> DEFAULT_LOCAL_AUTH_TOKENS);
          tokens = (case tokens_raw of
              Some (Some (PDict parsed)) \<Rightarrow>
                (if token_overrides parsed \<noteq> [] then token_overrides parsed else base)
            | _ \<Rightarrow> base)
      in apply_policy_pack_overrides packs packs_raw tokens)"

section \<open>Bearer tokens and claims\<close>

definition header_of :: "auth_env \<Rightarrow> string \<Rightarrow> string" where
  "header_of env name = (case ae_headers env name of None \<Rightarrow> [] | Some v \<Rightarrow> v)"

definition bearer_token :: "auth_env \<Rightarrow> string option" where
  "bearer_token env =
     (let authorization = strip (header_of env ''authorization'')
      in if \<not> startswith (lower authorization) ''bearer '' then None
         else case snd (split1 (CHR '' '') authorization) of
           None \<Rightarrow> None
         | Some rest \<Rightarrow> if strip rest = [] then None else Some (strip rest))"

definition claims_match_issuer_and_audience :: "auth_settings \<Rightarrow> pydict \<Rightarrow> bool" where
  "claims_match_issuer_and_audience cfg claims =
     (if (case given (as_required_issuer cfg) of None \<Rightarrow> False
          | Some issuer \<Rightarrow> str_of claims ''iss'' [] \<noteq> issuer) then False
      else case given (as_required_audience cfg) of
        None \<Rightarrow> True
      | Some audience \<Rightarrow>
          (case dget_or claims ''aud'' PNone of
             PStr a \<Rightarrow> a = audience
           | PList items \<Rightarrow> audience \<in> set (map py_str items)
           | _ \<Rightarrow> False))"

definition as_int :: "pyval \<Rightarrow> int option res" where
  "as_int v =
     (case v of
        PBool b \<Rightarrow> Inr (Some (if b then 1 else 0))
      | PInt i \<Rightarrow> Inr (Some i)
      | PFloat t i \<Rightarrow> rbind (py_int v) (\<lambda>n. Inr (Some n))
      | PStr s \<Rightarrow> Inr (parse_int (strip s))
      | _ \<Rightarrow> Inr None)"

definition claims_within_time_window :: "auth_settings \<Rightarrow> auth_env \<Rightarrow> pydict \<Rightarrow> bool res" where
  "claims_within_time_window cfg env claims =
     (let now = ae_now_us env div 1000000; skew = max 0 (as_clock_skew_seconds cfg)
      in rbind (as_int (dget_or claims ''exp'' PNone)) (\<lambda>exp.
         if (case exp of None \<Rightarrow> False | Some e \<Rightarrow> now > e + skew) then Inr False
         else rbind (as_int (dget_or claims ''nbf'' PNone)) (\<lambda>nbf.
         if (case nbf of None \<Rightarrow> False | Some b \<Rightarrow> now + skew < b) then Inr False
         else rbind (as_int (dget_or claims ''iat'' PNone)) (\<lambda>iat.
         Inr (case iat of None \<Rightarrow> True | Some i \<Rightarrow> \<not> now + skew < i)))))"

definition authenticated_actor_from_oidc_claims :: "auth_settings \<Rightarrow> auth_env \<Rightarrow> pydict option" where
  "authenticated_actor_from_oidc_claims cfg env =
     (let header = header_of env (as_claims_header cfg)
      in if header = [] then None
         else case ae_loads env header of
           Some (PDict claims) \<Rightarrow>
             if claims_match_issuer_and_audience cfg claims then actor_from_claims cfg claims else None
         | _ \<Rightarrow> None)"

section \<open>Signed tokens\<close>

definition decode_jwt_segment :: "auth_env \<Rightarrow> string \<Rightarrow> pydict option" where
  "decode_jwt_segment env encoded =
     (case decode_base64url encoded of
        None \<Rightarrow> None
      | Some bytes \<Rightarrow> (case ae_loads env bytes of Some (PDict payload) \<Rightarrow> Some payload | _ \<Rightarrow> None))"

definition rstrip_slashes :: "string \<Rightarrow> string" where
  "rstrip_slashes s = rev (dropWhile (\<lambda>c. c = CHR ''/'') (rev s))"

definition resolve_jwks_url :: "auth_settings \<Rightarrow> string option" where
  "resolve_jwks_url cfg =
     (let stripped = (\<lambda>o'. case o' of None \<Rightarrow> [] | Some s \<Rightarrow> strip s)
      in if stripped (as_jwks_url cfg) \<noteq> [] then Some (stripped (as_jwks_url cfg))
         else case as_required_issuer cfg of
           Some issuer \<Rightarrow> if strip issuer \<noteq> []
                          then Some (rstrip_slashes issuer @ ''/.well-known/jwks.json'') else None
         | None \<Rightarrow> None)"

definition fetch_jwks_keys :: "auth_env \<Rightarrow> string \<Rightarrow> pydict list" where
  "fetch_jwks_keys env url =
     (case ae_fetch env url of
        Some (Some parsed) \<Rightarrow>
          map as_dict (filter is_dict (as_list
            (case parsed of PDict d \<Rightarrow> dget_or d ''keys'' (PList []) | v \<Rightarrow> v)))
      | _ \<Rightarrow> [])"

type_synonym jwks_cache = "(string \<times> int \<times> pydict list) list"

definition load_jwks_keys ::
  "auth_settings \<Rightarrow> auth_env \<Rightarrow> jwks_cache \<Rightarrow> pydict list \<times> jwks_cache" where
  "load_jwks_keys cfg env cache =
     (case resolve_jwks_url cfg of
        None \<Rightarrow> ([], cache)
      | Some url \<Rightarrow>
          let fetched = fetch_jwks_keys env url;
              refreshed = (if fetched = [] then ([], cache)
                else (fetched, dset cache url
                  (ae_now_us env + max 1 (as_jwks_cache_ttl_seconds cfg) * 1000000, fetched)))
          in case dget cache url of
               Some (expires_at, keys) \<Rightarrow> if ae_now_us env < expires_at then (keys, cache) else refreshed
             | None \<Rightarrow> refreshed)"

definition jwks_candidate :: "string option \<Rightarrow> string \<Rightarrow> pydict \<Rightarrow> bool" where
  "jwks_candidate kid alg key \<longleftrightarrow>
     (let key_kid = strip (str_of key ''kid'' []); key_alg = strip (str_of key ''alg'' []);
          key_use = lower (strip (str_of key ''use'' []))
      in (kid = None \<or> kid = Some key_kid) \<and> (key_alg = [] \<or> key_alg = alg) \<and>
         (key_use = [] \<or> key_use = ''sig''))"

definition select_jwks_candidates :: "pydict list \<Rightarrow> string option \<Rightarrow> string \<Rightarrow> pydict list" where
  "select_jwks_candidates keys kid alg = filter (jwks_candidate kid alg) keys"

definition verify_jwt_signature :: "auth_env \<Rightarrow> string \<Rightarrow> string \<Rightarrow> string \<Rightarrow> pydict \<Rightarrow> bool" where
  "verify_jwt_signature env signing_input signature alg jwk =
     (alg \<in> set [''HS256'', ''HS384'', ''HS512''] \<and> lower (str_of jwk ''kty'' []) = ''oct'' \<and>
      (case dget_or jwk ''k'' PNone of
         PStr raw \<Rightarrow>
           (case decode_base64url raw of
              None \<Rightarrow> False
            | Some material \<Rightarrow> ae_hmac env alg material signing_input = signature)
       | _ \<Rightarrow> False))"

definition header_kid :: "pydict \<Rightarrow> string option" where
  "header_kid header =
     (case dget_or header ''kid'' PNone of
        PStr s \<Rightarrow> if strip s = [] then None else Some (strip s)
      | _ \<Rightarrow> None)"

definition allowed_algs :: "auth_settings \<Rightarrow> string list" where
  "allowed_algs cfg = filter (\<lambda>a. a \<noteq> []) (map strip (as_allowed_algs cfg))"

definition verified_oidc_jwt_claims ::
  "auth_settings \<Rightarrow> auth_env \<Rightarrow> string \<Rightarrow> jwks_cache \<Rightarrow> pydict option res \<times> jwks_cache" where
  "verified_oidc_jwt_claims cfg env token cache =
     (case split_on (CHR ''.'') token of
        [p0, p1, p2] \<Rightarrow>
          (case (decode_jwt_segment env p0, decode_jwt_segment env p1) of
             (Some header, Some claims) \<Rightarrow>
               (let alg = strip (str_of header ''alg'' [])
                in if alg = [] \<or> lower alg = ''none'' then (Inr None, cache)
                   else if alg \<notin> set (allowed_algs cfg) then (Inr None, cache)
                   else case decode_base64url p2 of
                     None \<Rightarrow> (Inr None, cache)
                   | Some signature \<Rightarrow>
                       (let (keys, cache') = load_jwks_keys cfg env cache;
                            candidates = select_jwks_candidates keys (header_kid header) alg
                        in if \<not> list_ex (verify_jwt_signature env (p0 @ CHR ''.'' # p1) signature alg) candidates
                           then (Inr None, cache')
                           else if \<not> claims_match_issuer_and_audience cfg claims then (Inr None, cache')
                           else (rbind (claims_within_time_window cfg env claims)
                                   (\<lambda>inside. Inr (if inside then Some claims else None)), cache')))
           | _ \<Rightarrow> (Inr None, cache))
      | _ \<Rightarrow> (Inr None, cache))"

definition authenticated_actor_from_oidc_jwt ::
  "auth_settings \<Rightarrow> auth_env \<Rightarrow> jwks_cache \<Rightarrow> pydict option res \<times> jwks_cache" where
  "authenticated_actor_from_oidc_jwt cfg env cache =
     (case bearer_token env of
        None \<Rightarrow> (Inr None, cache)
      | Some token \<Rightarrow>
          (case verified_oidc_jwt_claims cfg env token cache of
             (r, cache') \<Rightarrow>
               (rbind r (\<lambda>claims_opt. Inr (case claims_opt of
                  None \<Rightarrow> None | Some claims \<Rightarrow> actor_from_claims cfg claims)), cache')))"

definition normalized_auth_mode :: "string \<Rightarrow> string" where
  "normalized_auth_mode mode =
     (let normalized = lower (strip mode) in if normalized = ''oidc'' then ''oidc_trusted_proxy'' else normalized)"

definition authenticated_actor_from_request ::
  "auth_settings \<Rightarrow> auth_env \<Rightarrow> token_table \<Rightarrow> jwks_cache \<Rightarrow> pydict option res \<times> jwks_cache" where
  "authenticated_actor_from_request cfg env auth_tokens cache =
     (let auth_mode = normalized_auth_mode (as_mode cfg)
      in if auth_mode = ''oidc_trusted_proxy''
         then (Inr (authenticated_actor_from_oidc_claims cfg env), cache)
         else if auth_mode = ''oidc_jwt'' then authenticated_actor_from_oidc_jwt cfg env cache
         else (Inr (case bearer_token env of
                None \<Rightarrow> None
              | Some token \<Rightarrow> map_option (\<lambda>actor. sanitize_actor_payload actor (user_fallback token))
                               (dget auth_tokens token)), cache))"

section \<open>What an authenticated actor is\<close>

lemma split_on_no_sep: "c \<notin> set s \<Longrightarrow> split_on c (s @ c # t) = s # split_on c t"
  by (induction s) auto

lemma split_on_last: "c \<notin> set s \<Longrightarrow> split_on c s = [s]"
  by (induction s) auto

lemma encode_no_dot: "CHR ''.'' \<notin> set (encode_base64url s)"
proof -
  have dot: "v < 64 \<Longrightarrow> b64_char v \<noteq> CHR ''.''" for v
  proof -
    assume "v < 64"
    then have "b64_value (b64_char v) = Some v" by simp
    moreover have "b64_value (CHR ''.'') = None" by code_simp
    ultimately show ?thesis by auto
  qed
  then show ?thesis
    by (induction s rule: encode_base64url.induct) (use dot [symmetric] quantum_codes in auto)
qed

lemma verified_claims_cases:
  assumes "verified_oidc_jwt_claims cfg env token cache = (Inr (Some claims), cache')"
  obtains p0 p1 p2 header signature key material where
    "split_on (CHR ''.'') token = [p0, p1, p2]" "decode_jwt_segment env p0 = Some header"
    "decode_jwt_segment env p1 = Some claims" "decode_base64url p2 = Some signature"
    "strip (str_of header ''alg'' []) \<in> set (allowed_algs cfg)"
    "strip (str_of header ''alg'' []) \<in> set [''HS256'', ''HS384'', ''HS512'']"
    "key \<in> set (fst (load_jwks_keys cfg env cache))"
    "jwks_candidate (header_kid header) (strip (str_of header ''alg'' [])) key"
    "\<exists>raw. dget_or key ''k'' PNone = PStr raw \<and> decode_base64url raw = Some material"
    "ae_hmac env (strip (str_of header ''alg'' [])) material (p0 @ CHR ''.'' # p1) = signature"
    "claims_match_issuer_and_audience cfg claims" "claims_within_time_window cfg env claims = Inr True"
proof -
  from assms obtain p0 p1 p2 header where s: "split_on (CHR ''.'') token = [p0, p1, p2]"
    "decode_jwt_segment env p0 = Some header"
    unfolding verified_oidc_jwt_claims_def
    by (auto split: list.split_asm option.split_asm)
  let ?alg = "strip (str_of header ''alg'' [])"
  from assms s obtain signature where d: "decode_base64url p2 = Some signature"
    "decode_jwt_segment env p1 = Some claims" "?alg \<in> set (allowed_algs cfg)"
    "list_ex (verify_jwt_signature env (p0 @ CHR ''.'' # p1) signature ?alg)
       (select_jwks_candidates (fst (load_jwks_keys cfg env cache)) (header_kid header) ?alg)"
    "claims_match_issuer_and_audience cfg claims" "claims_within_time_window cfg env claims = Inr True"
    unfolding verified_oidc_jwt_claims_def
    by (auto simp: Let_def rbind_eq_Inr_iff split: option.split_asm prod.split_asm if_split_asm)
  from d(4) obtain key where k: "key \<in> set (fst (load_jwks_keys cfg env cache))"
    "jwks_candidate (header_kid header) ?alg key"
    "verify_jwt_signature env (p0 @ CHR ''.'' # p1) signature ?alg key"
    by (auto simp: list_ex_iff select_jwks_candidates_def)
  from k(3) obtain raw material where "dget_or key ''k'' PNone = PStr raw" "decode_base64url raw = Some material"
    "ae_hmac env ?alg material (p0 @ CHR ''.'' # p1) = signature" "?alg \<in> set [''HS256'', ''HS384'', ''HS512'']"
    unfolding verify_jwt_signature_def by (auto split: pyval.split_asm option.split_asm)
  with s d k show thesis by (intro that) blast+
qed

definition actor_shape :: "pydict \<Rightarrow> bool" where
  "actor_shape actor \<longleftrightarrow> (\<exists>actor_id actor_type roles attributes.
     actor = [(''actor_id'', PStr actor_id), (''actor_type'', PStr actor_type),
       (''roles'', PList (map PStr roles)), (''attributes'', PDict attributes)])"

lemma sanitize_shape: "actor_shape (sanitize_actor_payload actor f)"
  unfolding actor_shape_def sanitize_actor_payload_def string_roles_def by blast

lemma single_role: "\<exists>roles. [PStr s] = map PStr roles"
  by (rule exI [of _ "[s]"]) simp

lemma claims_shape: "actor_from_claims cfg claims = Some actor \<Longrightarrow> actor_shape actor"
  unfolding actor_shape_def actor_from_claims_def Let_def
  by (auto simp: single_role split: if_split_asm)

section \<open>Properties\<close>

text \<open>
  The shape of an actor: whatever the mode, the tokens, the claims and the headers, an
  authenticated actor is a dict of exactly the four fields the policies read, with a string
  identity and type, a list of strings as roles and a dict as attributes.
\<close>

theorem authenticated_actor_shape:
  assumes "authenticated_actor_from_request cfg env tokens cache = (Inr (Some actor), cache')"
  shows "actor_shape actor"
  using assms sanitize_shape claims_shape
  by (auto simp: authenticated_actor_from_request_def authenticated_actor_from_oidc_claims_def
      authenticated_actor_from_oidc_jwt_def Let_def rbind_eq_Inr_iff
      split: if_split_asm option.split_asm prod.split_asm pyval.split_asm)

text \<open>
  C36. Only signed claims are believed: in JWT mode an actor is authenticated only from a bearer token
  of three segments whose signature is the HMAC of the first two under a key of the issuer's key
  set that fits the token's key id, with an algorithm that is both configured and one of the
  three supported (never \<open>none\<close>), whose issuer and audience match and whose times are valid now;
  and the actor is read from those claims with a non-empty identity.
\<close>

theorem jwt_actor_verified:
  assumes "authenticated_actor_from_request cfg env tokens cache = (Inr (Some actor), cache')"
    and "normalized_auth_mode (as_mode cfg) = ''oidc_jwt''"
  shows "\<exists>token p0 p1 p2 header claims signature key raw material alg.
    bearer_token env = Some token \<and> split_on (CHR ''.'') token = [p0, p1, p2] \<and>
    decode_jwt_segment env p0 = Some header \<and> decode_jwt_segment env p1 = Some claims \<and>
    decode_base64url p2 = Some signature \<and> alg = strip (str_of header ''alg'' []) \<and>
    alg \<in> set (allowed_algs cfg) \<inter> {''HS256'', ''HS384'', ''HS512''} \<and>
    key \<in> set (fst (load_jwks_keys cfg env cache)) \<and> jwks_candidate (header_kid header) alg key \<and>
    dget_or key ''k'' PNone = PStr raw \<and> decode_base64url raw = Some material \<and>
    ae_hmac env alg material (p0 @ CHR ''.'' # p1) = signature \<and>
    claims_match_issuer_and_audience cfg claims \<and> claims_within_time_window cfg env claims = Inr True \<and>
    actor_from_claims cfg claims = Some actor \<and> str_of actor ''actor_id'' [] \<noteq> []"
proof -
  from assms obtain token claims where t: "bearer_token env = Some token"
    "verified_oidc_jwt_claims cfg env token cache = (Inr (Some claims), cache')"
    "actor_from_claims cfg claims = Some actor"
    by (auto simp: authenticated_actor_from_request_def authenticated_actor_from_oidc_jwt_def Let_def
        rbind_eq_Inr_iff split: option.split_asm prod.split_asm)
  moreover from t(3) have "str_of actor ''actor_id'' [] \<noteq> []"
    by (auto simp: actor_from_claims_def Let_def dget_or_def split: if_split_asm)
  ultimately show ?thesis
    by (elim verified_claims_cases) (simp, blast)
qed

text \<open>
  A token an issuer writes is read back: if header, claims and signature are encoded in base64url
  and joined by dots, the signature is the HMAC under a key the issuer publishes (matching the key
  id), the algorithm is configured, and the claims are for this service and this time, then the
  request is authenticated as the actor of the claims.
\<close>

theorem issued_token_accepted:
  assumes "normalized_auth_mode (as_mode cfg) = ''oidc_jwt''"
    and "bearer_token env = Some (encode_base64url h @ CHR ''.'' # encode_base64url c @ CHR ''.'' # encode_base64url sg)"
    and "ae_loads env h = Some (PDict header)" "ae_loads env c = Some (PDict claims)"
    and "alg = strip (str_of header ''alg'' [])" "alg \<in> {''HS256'', ''HS384'', ''HS512''}" "alg \<in> set (allowed_algs cfg)"
    and "key \<in> set (fst (load_jwks_keys cfg env cache))" "jwks_candidate (header_kid header) alg key"
    and "lower (str_of key ''kty'' []) = ''oct''" "dget_or key ''k'' PNone = PStr (encode_base64url secret)"
    and "sg = ae_hmac env alg secret (encode_base64url h @ CHR ''.'' # encode_base64url c)"
    and "claims_match_issuer_and_audience cfg claims" "claims_within_time_window cfg env claims = Inr True"
  shows "fst (authenticated_actor_from_request cfg env tokens cache) = Inr (actor_from_claims cfg claims)"
proof -
  have segs: "decode_jwt_segment env (encode_base64url h) = Some header"
    "decode_jwt_segment env (encode_base64url c) = Some claims"
    using assms(3,4) by (simp_all add: decode_jwt_segment_def decode_encode)
  have split: "split_on (CHR ''.'') (encode_base64url h @ CHR ''.'' # encode_base64url c @ CHR ''.'' # encode_base64url sg) =
      [encode_base64url h, encode_base64url c, encode_base64url sg]"
    by (simp add: split_on_no_sep split_on_last encode_no_dot)
  have "verify_jwt_signature env (encode_base64url h @ CHR ''.'' # encode_base64url c) sg alg key"
    using assms(6,10-12) by (auto simp: verify_jwt_signature_def decode_encode)
  then have ver: "list_ex (verify_jwt_signature env (encode_base64url h @ CHR ''.'' # encode_base64url c) sg alg)
      (select_jwks_candidates (fst (load_jwks_keys cfg env cache)) (header_kid header) alg)"
    using assms(8,9) by (auto simp: list_ex_iff select_jwks_candidates_def)
  have alg: "alg \<noteq> []" "lower alg \<noteq> ''none''"
    using assms(6) by (auto simp: lower_def lower_char_def code_def)
  have "fst (verified_oidc_jwt_claims cfg env
      (encode_base64url h @ CHR ''.'' # encode_base64url c @ CHR ''.'' # encode_base64url sg) cache) = Inr (Some claims)"
    unfolding verified_oidc_jwt_claims_def split list.case segs prod.case option.case Let_def
      decode_encode assms(5) [symmetric]
    using alg assms(7,13,14) ver by (simp add: case_prod_unfold)
  then show ?thesis
    using assms(1,2) by (simp add: authenticated_actor_from_request_def
        authenticated_actor_from_oidc_jwt_def Let_def case_prod_unfold)
qed

text \<open>
  A token without an expiry never expires: once its claims are accepted, they are accepted at
  every later time.
\<close>

theorem token_without_exp_never_expires:
  assumes "dget claims ''exp'' = None" "claims_within_time_window cfg env claims = Inr True"
    and "ae_now_us env \<le> t"
  shows "claims_within_time_window cfg (env\<lparr>ae_now_us := t\<rparr>) claims = Inr True"
proof -
  have le: "ae_now_us env div 1000000 \<le> t div 1000000" using assms(3) by (rule zdiv_mono1) simp
  have exp: "as_int (dget_or claims ''exp'' PNone) = Inr None"
    using assms(1) by (simp add: dget_def dget_or_def as_int_def)
  from assms(2) exp obtain nbf iat where
    o: "as_int (dget_or claims ''nbf'' PNone) = Inr nbf" "as_int (dget_or claims ''iat'' PNone) = Inr iat"
    by (auto simp: claims_within_time_window_def Let_def rbind_eq_Inr_iff split: if_split_asm)
  with assms(2) exp le show ?thesis
    by (cases nbf; cases iat) (auto simp: claims_within_time_window_def Let_def split: if_split_asm)
qed

text \<open>
  A token configuration that is not JSON is ignored: the well-known default tokens stay valid,
  the administrator's among them.
\<close>

theorem malformed_tokens_keep_defaults:
  "dget (load_local_auth_tokens packs None (Some None) None) ''local-platform-admin-token'' =
     Some (local_actor ''user:local_admin'' ''human'' ''platform_admin'' [])"
  by (simp add: load_local_auth_tokens_def apply_policy_pack_overrides_def) code_simp

section \<open>A concrete issuer\<close>

definition demo_auth_settings :: auth_settings where
  "demo_auth_settings = \<lparr>as_mode = '' OIDC_JWT '', as_claims_header = ''x-claims'',
     as_required_issuer = Some ''iss'', as_required_audience = None, as_actor_id_claim = ''sub'',
     as_roles_claim = ''roles'', as_attributes_claim = ''attributes'', as_allowed_algs = [''HS256''],
     as_clock_skew_seconds = 30, as_jwks_url = Some ''https://keys'', as_jwks_cache_ttl_seconds = 60\<rparr>"

definition demo_claims :: pydict where
  "demo_claims = [(''iss'', PStr ''iss''), (''sub'', PStr ''user:ann''), (''roles'', PStr ''analyst''),
     (''nbf'', PInt 5)]"

definition demo_mac :: "string \<Rightarrow> string \<Rightarrow> string \<Rightarrow> string" where
  "demo_mac alg k m = take 4 (rev m) @ k"

definition demo_input :: string where
  "demo_input = encode_base64url ''h'' @ CHR ''.'' # encode_base64url ''c''"

definition demo_token :: string where
  "demo_token = demo_input @ CHR ''.'' # encode_base64url (demo_mac ''HS256'' ''key'' demo_input)"

definition demo_jwk :: pydict where
  "demo_jwk = [(''kty'', PStr ''oct''), (''k'', PStr (encode_base64url ''key''))]"

definition demo_auth_env :: auth_env where
  "demo_auth_env = \<lparr>ae_headers = \<lambda>n. if n = ''authorization'' then Some (''Bearer '' @ demo_token) else None,
     ae_loads = \<lambda>s. if s = ''h'' then Some (PDict [(''alg'', PStr ''HS256'')])
       else if s = ''c'' then Some (PDict demo_claims) else None,
     ae_hmac = demo_mac, ae_fetch = \<lambda>_. Some (Some (PDict [(''keys'', PList [PDict demo_jwk])])),
     ae_now_us = 20000000\<rparr>"

definition demo_jwt_actor :: pydict where
  "demo_jwt_actor = local_actor ''user:ann'' ''human'' ''analyst'' []"

lemma demo_mode: "normalized_auth_mode (as_mode demo_auth_settings) = ''oidc_jwt''"
  by code_simp

lemma demo_authenticated:
  "fst (authenticated_actor_from_request demo_auth_settings demo_auth_env [] []) = Inr (Some demo_jwt_actor)"
  by code_simp

lemma demo_auth_run:
  "\<exists>cache'. authenticated_actor_from_request demo_auth_settings demo_auth_env [] [] = (Inr (Some demo_jwt_actor), cache')"
  using demo_authenticated by (metis prod.collapse)

theorem authenticated_actor_shape_witness: "actor_shape demo_jwt_actor"
  using demo_auth_run authenticated_actor_shape by blast

theorem jwt_actor_verified_witness:
  "\<exists>key \<in> set (fst (load_jwks_keys demo_auth_settings demo_auth_env [])). dget key ''k'' \<noteq> None"
proof -
  from demo_auth_run obtain cache' where
    "authenticated_actor_from_request demo_auth_settings demo_auth_env [] [] = (Inr (Some demo_jwt_actor), cache')" ..
  from jwt_actor_verified [OF this demo_mode] obtain key raw where
    "key \<in> set (fst (load_jwks_keys demo_auth_settings demo_auth_env []))" "dget_or key ''k'' PNone = PStr raw"
    by blast
  then show ?thesis by (intro bexI [of _ key]) (auto simp: dget_or_def dget_def split: option.split_asm)
qed

theorem issued_token_accepted_witness:
  "fst (authenticated_actor_from_request demo_auth_settings demo_auth_env [] []) =
     Inr (actor_from_claims demo_auth_settings demo_claims)"
proof (rule issued_token_accepted)
  show "normalized_auth_mode (as_mode demo_auth_settings) = ''oidc_jwt''" by (rule demo_mode)
  show "bearer_token demo_auth_env = Some (encode_base64url ''h'' @ CHR ''.'' # encode_base64url ''c'' @
      CHR ''.'' # encode_base64url (demo_mac ''HS256'' ''key'' demo_input))" by code_simp
  show "demo_mac ''HS256'' ''key'' demo_input =
      ae_hmac demo_auth_env ''HS256'' ''key'' (encode_base64url ''h'' @ CHR ''.'' # encode_base64url ''c'')"
    by (simp add: demo_auth_env_def demo_input_def)
  show "demo_jwk \<in> set (fst (load_jwks_keys demo_auth_settings demo_auth_env []))" by code_simp
  show "ae_loads demo_auth_env ''h'' = Some (PDict [(''alg'', PStr ''HS256'')])"
    "ae_loads demo_auth_env ''c'' = Some (PDict demo_claims)" by (simp_all add: demo_auth_env_def)
  show "dget_or demo_jwk ''k'' PNone = PStr (encode_base64url ''key'')" by code_simp
qed code_simp+

theorem token_without_exp_never_expires_witness:
  "claims_within_time_window demo_auth_settings (demo_auth_env\<lparr>ae_now_us := 9999999999000000\<rparr>) demo_claims = Inr True"
proof (rule token_without_exp_never_expires)
  show "dget demo_claims ''exp'' = None" by code_simp
  show "claims_within_time_window demo_auth_settings demo_auth_env demo_claims = Inr True" by code_simp
  show "ae_now_us demo_auth_env \<le> 9999999999000000" by (simp add: demo_auth_env_def)
qed

end
