(* ===== verification/Evidence.thy ===== *)
theory Evidence
  imports Base64 Json
begin

text \<open>
  Artifact encryption (\<open>backend/shared_domain/artifact_crypto.py\<close>) and the immutable evidence
  store (\<open>evidence_store.py\<close>). SHA-256 and the JSON reader are arguments. The store is a map
  from the relative path of a bundle to its envelope; the text of a file is the sorted JSON of its
  envelope, so two texts are equal when the compact sorted forms are.
\<close>

section \<open>Encryption\<close>

record crypto_config =
  cc_enabled :: bool
  cc_key_id :: string
  cc_key_material :: string

definition load_artifact_crypto_config ::
  "string option \<Rightarrow> string option \<Rightarrow> string option \<Rightarrow> crypto_config" where
  "load_artifact_crypto_config enabled key_id key_material =
     \<lparr>cc_enabled = lower (strip (case enabled of None \<Rightarrow> ''false'' | Some s \<Rightarrow> s)) \<in>
        set [''1'', ''true'', ''yes'', ''on''],
      cc_key_id = (let k = strip (case key_id of None \<Rightarrow> ''v1'' | Some s \<Rightarrow> s) in if k = [] then ''v1'' else k),
      cc_key_material = (case key_material of None \<Rightarrow> ''schemapilot-artifact-key'' | Some s \<Rightarrow> s)\<rparr>"

text \<open>The key repeats over the payload; \<open>digest\<close> is the 32 byte SHA-256 of the key material.\<close>

definition xor_char :: "char \<Rightarrow> char \<Rightarrow> char" where
  "xor_char a b = char_of (xor (code a) (code b) :: nat)"

definition xor_key :: "string \<Rightarrow> string \<Rightarrow> string" where
  "xor_key key payload = map (\<lambda>(idx, b). xor_char b (key ! (idx mod length key))) (enumerate 0 payload)"

definition encrypt_text :: "(string \<Rightarrow> string) \<Rightarrow> string \<Rightarrow> string \<Rightarrow> string" where
  "encrypt_text digest plaintext key_material =
     urlsafe_b64encode (xor_key (digest key_material) plaintext)"

definition decrypt_text :: "(string \<Rightarrow> string) \<Rightarrow> string \<Rightarrow> string \<Rightarrow> string res" where
  "decrypt_text digest ciphertext key_material =
     (if \<not> is_ascii ciphertext then Inl (ValueError ''ascii'')
      else case urlsafe_b64decode ciphertext of
        None \<Rightarrow> Inl (ValueError ''Incorrect padding'')
      | Some decoded \<Rightarrow> Inr (xor_key (digest key_material) decoded))"

definition encrypt_payload :: "(string \<Rightarrow> string) \<Rightarrow> pydict \<Rightarrow> crypto_config \<Rightarrow> pydict" where
  "encrypt_payload digest payload config =
     (if \<not> cc_enabled config then [(''encrypted'', PBool False), (''payload'', PDict payload)]
      else [(''encrypted'', PBool True), (''key_id'', PStr (cc_key_id config)),
            (''ciphertext'', PStr (encrypt_text digest (json_dumps (PDict payload)) (cc_key_material config)))])"

definition decrypt_payload ::
  "(string \<Rightarrow> string) \<Rightarrow> (string \<Rightarrow> json_text) \<Rightarrow> pydict \<Rightarrow> crypto_config \<Rightarrow> pydict res" where
  "decrypt_payload digest loads envelope config =
     (if \<not> py_truth (dget_or envelope ''encrypted'' (PBool False))
      then Inr (as_dict (dget_or envelope ''payload'' (PDict [])))
      else let ciphertext = strip (str_of envelope ''ciphertext'' [])
        in if ciphertext = [] then Inl (ValueError ''artifact_payload_invalid'')
           else rbind (decrypt_text digest ciphertext (cc_key_material config)) (\<lambda>plaintext.
             case loads plaintext of
               None \<Rightarrow> Inl (ValueError ''json'')
             | Some (PDict parsed) \<Rightarrow> Inr parsed
             | Some _ \<Rightarrow> Inl (ValueError ''artifact_payload_invalid'')))"

section \<open>The evidence store\<close>

record evidence_env =
  ee_digest :: "string \<Rightarrow> string"
  ee_hexdigest :: "string \<Rightarrow> string"
  ee_loads :: "string \<Rightarrow> json_text"
  ee_crypto :: crypto_config

type_synonym evidence_files = "(string \<times> pydict) list"

record stored_bundle =
  sb_evidence_id :: string
  sb_workspace :: string
  sb_uri :: string
  sb_content_hash :: string
  sb_path :: string

definition EVIDENCE_URI_PREFIX :: string where
  "EVIDENCE_URI_PREFIX = ''evidence://''"

definition build_evidence_uri :: "string \<Rightarrow> string \<Rightarrow> string" where
  "build_evidence_uri workspace_id evidence_id = EVIDENCE_URI_PREFIX @ workspace_id @ CHR ''/'' # evidence_id"

definition strip_slashes :: "string \<Rightarrow> string" where
  "strip_slashes s = rev (dropWhile (\<lambda>c. c = CHR ''/'') (rev (dropWhile (\<lambda>c. c = CHR ''/'') s)))"

definition parse_evidence_uri :: "string \<Rightarrow> (string \<times> string) res" where
  "parse_evidence_uri uri =
     (if \<not> startswith uri EVIDENCE_URI_PREFIX
      then Inl (ValueError ''Evidence URI must start with evidence://.'')
      else case split_on (CHR ''/'') (strip_slashes (drop (length EVIDENCE_URI_PREFIX) uri)) of
        [a, b] \<Rightarrow> if a = [] \<or> b = []
                  then Inl (ValueError ''Evidence URI must be evidence://<workspace_id>/<evidence_id>.'')
                  else Inr (a, b)
      | _ \<Rightarrow> Inl (ValueError ''Evidence URI must be evidence://<workspace_id>/<evidence_id>.''))"

text \<open>The path of a bundle below \<open>evidence_store\<close> of the storage root.\<close>

definition bundle_path :: "string \<Rightarrow> string \<Rightarrow> string" where
  "bundle_path workspace_id evidence_id = workspace_id @ CHR ''/'' # evidence_id @ ''.json''"

definition safe_bundle_type :: "string \<Rightarrow> string" where
  "safe_bundle_type bundle_type =
     (let s = map (\<lambda>c. if c = CHR '' '' then CHR ''_'' else c) (lower (strip bundle_type))
      in if s = [] then ''generic'' else s)"

definition store_evidence_bundle ::
  "evidence_env \<Rightarrow> string \<Rightarrow> string \<Rightarrow> pydict \<Rightarrow> string option \<Rightarrow> evidence_files \<Rightarrow>
   stored_bundle res \<times> evidence_files" where
  "store_evidence_bundle env workspace_id bundle_type payload evidence_id fs =
     (let content_hash = ee_hexdigest env (json_dumps (PDict payload));
          safe = safe_bundle_type bundle_type;
          bundle_id = (case evidence_id of
              Some (c # s) \<Rightarrow> c # s | _ \<Rightarrow> safe @ CHR ''_'' # take 24 content_hash);
          path = bundle_path workspace_id bundle_id;
          envelope = [(''evidence_id'', PStr bundle_id), (''workspace_id'', PStr workspace_id),
                      (''bundle_type'', PStr safe), (''content_hash'', PStr content_hash)]
                     @ encrypt_payload (ee_digest env) payload (ee_crypto env);
          stored = \<lparr>sb_evidence_id = bundle_id, sb_workspace = workspace_id,
                    sb_uri = build_evidence_uri workspace_id bundle_id,
                    sb_content_hash = content_hash, sb_path = path\<rparr>
      in case dget fs path of
           None \<Rightarrow> (Inr stored, dset fs path envelope)
         | Some existing \<Rightarrow>
             if json_dumps (PDict existing) \<noteq> json_dumps (PDict envelope)
             then (Inl (ValueError ''Evidence bundle immutability violation: existing bundle content differs.''), fs)
             else (Inr stored, fs))"

definition load_evidence_bundle ::
  "evidence_env \<Rightarrow> string \<Rightarrow> string \<Rightarrow> evidence_files \<Rightarrow> pydict res" where
  "load_evidence_bundle env workspace_id evidence_id fs =
     (case dget fs (bundle_path workspace_id evidence_id) of
        None \<Rightarrow> Inl (NotFoundError ''Evidence bundle not found.''
                  [(''workspace_id'', PStr workspace_id), (''evidence_id'', PStr evidence_id)])
      | Some raw \<Rightarrow>
          rbind (decrypt_payload (ee_digest env) (ee_loads env) raw (ee_crypto env)) (\<lambda>payload.
          Inr (dset (ddel raw ''payload'') ''payload'' (PDict payload))))"

definition resolve_evidence_uri :: "string \<Rightarrow> (string \<times> string \<times> string) res" where
  "resolve_evidence_uri uri =
     rbind (parse_evidence_uri uri) (\<lambda>(workspace_id, evidence_id).
       Inr (workspace_id, evidence_id, bundle_path workspace_id evidence_id))"

section \<open>Lemmas\<close>

lemma take_bit_code [simp]: "take_bit 8 (code c) = code c"
  using code_256 [of c] by (simp add: take_bit_eq_mod)

lemma code_char_of_take_bit: "code (char_of n) = take_bit 8 (n :: nat)"
  by (simp add: code_def take_bit_eq_mod)

lemma xor_char_twice: "xor_char (xor_char a k) k = a"
  by (simp add: xor_char_def code_char_of_take_bit take_bit_xor xor.assoc)

lemma xor_key_twice: "xor_key key (xor_key key s) = s"
  by (rule nth_equalityI) (simp_all add: xor_key_def nth_enumerate_eq xor_char_twice)

lemma length_xor_key [simp]: "length (xor_key key s) = length s"
  by (simp add: xor_key_def)

lemma decrypt_encrypt: "decrypt_text digest (encrypt_text digest s k) k = Inr s"
  by (simp add: decrypt_text_def encrypt_text_def urlsafe_b64encode_ascii b64decode_encode xor_key_twice)

lemma urlsafe_b64encode_Nil_iff [simp]: "urlsafe_b64encode s = [] \<longleftrightarrow> s = []"
proof
  assume "urlsafe_b64encode s = []"
  then show "s = []" using b64decode_encode [of s] by (simp add: urlsafe_b64decode_def)
qed (simp add: urlsafe_b64encode_def b64_pad_simps)

lemma strip_ciphertext: "strip (encrypt_text digest s k) = encrypt_text digest s k"
  unfolding encrypt_text_def by (rule strip_no_space) (rule urlsafe_b64encode_no_space)

lemma json_dumps_dict_not_Nil: "json_dumps (PDict d) \<noteq> []"
  by simp

lemma decrypt_encrypt_payload:
  assumes "loads (json_dumps (PDict payload)) = Some (PDict payload)"
    and "\<forall>k \<in> {''encrypted'', ''payload'', ''ciphertext''}. k \<notin> fst ` set pre"
  shows "decrypt_payload digest loads (pre @ encrypt_payload digest payload cfg) cfg = Inr payload"
proof -
  have pre: "map_of pre ''encrypted'' = None" "map_of pre ''payload'' = None" "map_of pre ''ciphertext'' = None"
    using assms(2) by (simp_all add: map_of_eq_None_iff)
  have ne: "encrypt_text digest (json_dumps (PDict payload)) (cc_key_material cfg) \<noteq> []"
  proof
    assume "encrypt_text digest (json_dumps (PDict payload)) (cc_key_material cfg) = []"
    then have "length (json_dumps (PDict payload)) = 0"
      using length_xor_key [of "digest (cc_key_material cfg)" "json_dumps (PDict payload)"]
      by (simp add: encrypt_text_def del: json_dumps.simps length_xor_key)
    then show False by simp
  qed
  show ?thesis
  proof (cases "cc_enabled cfg")
    case True
    then show ?thesis
      using pre ne assms
      by (simp add: decrypt_payload_def encrypt_payload_def dget_or_def map_add_def strip_ciphertext decrypt_encrypt
          Let_def del: json_dumps.simps)
  next
    case False
    then show ?thesis
      using pre by (simp add: decrypt_payload_def encrypt_payload_def dget_or_def map_add_def)
  qed
qed

lemma store_Inr:
  assumes "store_evidence_bundle env ws ty payload eid fs = (Inr b, fs')"
  shows "sb_workspace b = ws \<and> sb_uri b = build_evidence_uri ws (sb_evidence_id b) \<and>
    sb_path b = bundle_path ws (sb_evidence_id b) \<and>
    sb_content_hash b = ee_hexdigest env (json_dumps (PDict payload)) \<and>
    dget fs' (sb_path b) \<noteq> None \<and> (dget fs (sb_path b) = None \<longrightarrow> fs' = dset fs (sb_path b)
      ([(''evidence_id'', PStr (sb_evidence_id b)), (''workspace_id'', PStr ws),
        (''bundle_type'', PStr (safe_bundle_type ty)), (''content_hash'', PStr (sb_content_hash b))]
       @ encrypt_payload (ee_digest env) payload (ee_crypto env)))"
  using assms
  by (auto simp: store_evidence_bundle_def Let_def split: option.split_asm if_split_asm simp del: json_dumps.simps)

lemma store_keeps:
  "dget fs p = Some e \<Longrightarrow> dget (snd (store_evidence_bundle env ws ty payload eid fs)) p = Some e"
  by (auto simp: store_evidence_bundle_def Let_def split: option.split simp del: json_dumps.simps)

lemma split_on_unique: "c \<notin> set a \<Longrightarrow> c \<notin> set b \<Longrightarrow> split_on c (a @ c # b) = [a, b]"
proof (induction a)
  case Nil
  moreover have "split_on c b = [b]" using Nil(2) by (induction b) auto
  ultimately show ?case by simp
qed auto

lemma strip_slashes_id:
  assumes "s \<noteq> []" "hd s \<noteq> CHR ''/''" "last s \<noteq> CHR ''/''"
  shows "strip_slashes s = s"
proof -
  have "dropWhile (\<lambda>c. c = CHR ''/'') s = s" using assms by (cases s) auto
  moreover have "dropWhile (\<lambda>c. c = CHR ''/'') (rev s) = rev s"
    using assms by (cases s rule: rev_cases) auto
  ultimately show ?thesis by (simp add: strip_slashes_def)
qed

section \<open>Properties\<close>

text \<open>
  C37. A stored bundle reads back: when a new bundle has been stored, encrypted or not, loading it
  under its identifier gives the payload and its content hash, and the URI that was handed out
  resolves to the workspace and identifier (for names without slashes).
\<close>

theorem evidence_roundtrip:
  assumes "store_evidence_bundle env ws ty payload eid fs = (Inr b, fs')"
    and "dget fs (sb_path b) = None"
    and "ee_loads env (json_dumps (PDict payload)) = Some (PDict payload)"
    and "CHR ''/'' \<notin> set ws" "CHR ''/'' \<notin> set (sb_evidence_id b)" "ws \<noteq> []" "sb_evidence_id b \<noteq> []"
  shows "(\<exists>bundle. load_evidence_bundle env ws (sb_evidence_id b) fs' = Inr bundle \<and>
      dget bundle ''payload'' = Some (PDict payload) \<and>
      dget bundle ''content_hash'' = Some (PStr (sb_content_hash b))) \<and>
    parse_evidence_uri (sb_uri b) = Inr (ws, sb_evidence_id b)"
proof
  let ?pre = "[(''evidence_id'', PStr (sb_evidence_id b)), (''workspace_id'', PStr ws),
        (''bundle_type'', PStr (safe_bundle_type ty)), (''content_hash'', PStr (sb_content_hash b))]"
  let ?env = "?pre @ encrypt_payload (ee_digest env) payload (ee_crypto env)"
  note st = store_Inr [OF assms(1)]
  have f: "dget fs' (bundle_path ws (sb_evidence_id b)) = Some ?env" using st assms(2) by simp
  have d: "decrypt_payload (ee_digest env) (ee_loads env) ?env (ee_crypto env) = Inr payload"
    by (rule decrypt_encrypt_payload [where loads = "ee_loads env", OF assms(3)]) simp
  have "load_evidence_bundle env ws (sb_evidence_id b) fs' =
      Inr (dset (ddel ?env ''payload'') ''payload'' (PDict payload))"
    using f d by (simp add: load_evidence_bundle_def)
  moreover have "dget ?env ''content_hash'' = Some (PStr (sb_content_hash b))" by (simp add: dget_def)
  ultimately show "\<exists>bundle. load_evidence_bundle env ws (sb_evidence_id b) fs' = Inr bundle \<and>
      dget bundle ''payload'' = Some (PDict payload) \<and>
      dget bundle ''content_hash'' = Some (PStr (sb_content_hash b))" by auto
  let ?r = "ws @ CHR ''/'' # sb_evidence_id b"
  have "hd ?r \<noteq> CHR ''/''" "last ?r \<noteq> CHR ''/''"
    using assms(4-7) by (metis hd_append2 hd_in_set) (use assms(5,7) in \<open>auto dest: last_in_set\<close>)
  then have "strip_slashes ?r = ?r" by (intro strip_slashes_id) auto
  then show "parse_evidence_uri (sb_uri b) = Inr (ws, sb_evidence_id b)"
    using st assms(4-7) split_on_unique [OF assms(4,5)]
    by (simp add: parse_evidence_uri_def build_evidence_uri_def startswith_def)
qed

text \<open>
  Evidence is immutable: whatever is stored later, under any identifier, type and payload, a
  bundle already in the store keeps its content; and storing other content under a taken
  identifier fails.
\<close>

theorem evidence_immutable:
  assumes "dget fs p = Some e"
  shows "dget (snd (store_evidence_bundle env ws ty payload eid fs)) p = Some e \<and>
    (\<forall>b fs'. store_evidence_bundle env ws ty payload eid fs = (Inr b, fs') \<and> sb_path b = p \<longrightarrow>
       json_dumps (PDict e) = json_dumps (PDict
         ([(''evidence_id'', PStr (sb_evidence_id b)), (''workspace_id'', PStr ws),
           (''bundle_type'', PStr (safe_bundle_type ty)), (''content_hash'', PStr (sb_content_hash b))]
          @ encrypt_payload (ee_digest env) payload (ee_crypto env))))"
  using store_keeps [OF assms] assms
  by (auto simp: store_evidence_bundle_def Let_def split: option.split_asm if_split_asm simp del: json_dumps.simps)

definition demo_evidence_env :: evidence_env where
  "demo_evidence_env = \<lparr>ee_digest = \<lambda>k. rev k, ee_hexdigest = \<lambda>s. take 6 s,
     ee_loads = \<lambda>s. if s = json_dumps (PDict [(''a'', PInt 1)]) then Some (PDict [(''a'', PInt 1)]) else None,
     ee_crypto = \<lparr>cc_enabled = True, cc_key_id = ''v1'', cc_key_material = ''secret''\<rparr>\<rparr>"

definition demo_bundle :: stored_bundle where
  "demo_bundle = \<lparr>sb_evidence_id = ''ev1'', sb_workspace = ''w'', sb_uri = ''evidence://w/ev1'',
     sb_content_hash = take 6 (json_dumps (PDict [(''a'', PInt 1)])), sb_path = ''w/ev1.json''\<rparr>"

lemma demo_store:
  "\<exists>fs'. store_evidence_bundle demo_evidence_env ''w'' ''Gold Build'' [(''a'', PInt 1)] (Some ''ev1'') [] =
     (Inr demo_bundle, fs')"
  by (simp add: store_evidence_bundle_def demo_evidence_env_def demo_bundle_def Let_def dget_def
      build_evidence_uri_def EVIDENCE_URI_PREFIX_def bundle_path_def del: json_dumps.simps)

theorem evidence_roundtrip_witness:
  "parse_evidence_uri (sb_uri demo_bundle) = Inr (''w'', ''ev1'') \<and>
   (\<exists>fs' bundle. load_evidence_bundle demo_evidence_env ''w'' ''ev1'' fs' = Inr bundle \<and>
      dget bundle ''payload'' = Some (PDict [(''a'', PInt 1)]))"
proof -
  from demo_store obtain fs' where
    s: "store_evidence_bundle demo_evidence_env ''w'' ''Gold Build'' [(''a'', PInt 1)] (Some ''ev1'') [] =
     (Inr demo_bundle, fs')" ..
  have "dget ([] :: evidence_files) (sb_path demo_bundle) = None" by (simp add: dget_def)
  note r = evidence_roundtrip [OF s this]
  have l: "ee_loads demo_evidence_env (json_dumps (PDict [(''a'', PInt 1)])) = Some (PDict [(''a'', PInt 1)])"
    by (simp add: demo_evidence_env_def del: json_dumps.simps)
  have "sb_evidence_id demo_bundle = ''ev1''" by (simp add: demo_bundle_def)
  with r [OF l] show ?thesis by auto
qed

theorem evidence_immutable_witness:
  "dget (snd (store_evidence_bundle demo_evidence_env ''w'' ''gold'' [(''a'', PInt 2)] (Some ''ev1'')
     [(''w/ev1.json'', [(''a'', PInt 1)])])) ''w/ev1.json'' = Some [(''a'', PInt 1)]"
  using evidence_immutable [of "[(''w/ev1.json'', [(''a'', PInt 1)])]" "''w/ev1.json''" "[(''a'', PInt 1)]"]
  by (simp add: dget_def)

end
