(* ===== verification/Sessions.thy ===== *)
theory Sessions
  imports Tables Evidence GoldPointer
begin

text \<open>
  Database sessions of the control plane and the workers: a service function reads and changes
  the metadata database, issues identifiers and writes evidence bundles, and may raise. A
  transaction (\<open>get_session\<close> in \<open>backend/control_plane/app.py\<close>) keeps the changes to the
  database when the function returns and drops them when it raises; files and identifiers stay.
\<close>

text \<open>
  A session: the database, the number of identifiers issued, and the files: evidence bundles, the
  artifacts of the data zones under each purge root (path below the root and modification time),
  the deletion reports by path, the gold pointers, the contract reports by path with their
  text, the events that the audit sink took, the secret files by path, other files by path, the
  JSON files of the workers by path, and the number of readings of the clock by the workers.
\<close>

record cp_session =
  se_db :: db
  se_next :: nat
  se_evidence :: evidence_files
  se_artifacts :: "((string \<times> string list) \<times> int) list"
  se_reports :: "(string \<times> pydict) list"
  se_gold :: gold_store
  se_contracts :: "(string \<times> json_text) list"
  se_emitted :: "pydict list"
  se_secrets :: "(string \<times> json_text) list"
  se_files :: "(string \<times> string) list"
  se_json :: "(string \<times> json_text) list"
  se_ticks :: nat

text \<open>
  The environment: \<open>ce_fresh n\<close> is the \<open>n\<close>-th identifier issued, \<open>ce_packs\<close> the parsed policy
  pack file, \<open>ce_now\<close> the time in seconds, \<open>ce_dir\<close> what a path names and \<open>ce_sign\<close> the
  HMAC-SHA256 under the attestation key.
\<close>

datatype dir_state = Missing | NotDirectory | Directory

record cp_env =
  ce_fresh :: "nat \<Rightarrow> string"
  ce_evidence :: evidence_env
  ce_packs :: pyval
  ce_now :: int
  ce_dir :: "string \<Rightarrow> dir_state"
  ce_sign :: "string \<Rightarrow> string"

type_synonym 'a tx = "cp_session \<Rightarrow> 'a res \<times> cp_session"

definition tbind :: "'a tx \<Rightarrow> ('a \<Rightarrow> 'b tx) \<Rightarrow> 'b tx" where
  "tbind m f s = (case m s of (Inl e, s') \<Rightarrow> (Inl e, s') | (Inr x, s') \<Rightarrow> f x s')"

definition tpure :: "'a \<Rightarrow> 'a tx" where
  "tpure x s = (Inr x, s)"

definition traise :: "exn \<Rightarrow> 'a tx" where
  "traise e s = (Inl e, s)"

definition tres :: "'a res \<Rightarrow> 'a tx" where
  "tres r s = (r, s)"

definition tread :: "(db \<Rightarrow> 'a) \<Rightarrow> 'a tx" where
  "tread f s = (Inr (f (se_db s)), s)"

definition tmodify :: "(db \<Rightarrow> db) \<Rightarrow> unit tx" where
  "tmodify f s = (Inr (), s\<lparr>se_db := f (se_db s)\<rparr>)"

definition tchange :: "(db \<Rightarrow> db res) \<Rightarrow> unit tx" where
  "tchange f s = (case f (se_db s) of Inl e \<Rightarrow> (Inl e, s) | Inr d \<Rightarrow> (Inr (), s\<lparr>se_db := d\<rparr>))"

definition issue_id :: "cp_env \<Rightarrow> string tx" where
  "issue_id env s = (Inr (ce_fresh env (se_next s)), s\<lparr>se_next := Suc (se_next s)\<rparr>)"

definition store_bundle :: "cp_env \<Rightarrow> string \<Rightarrow> string \<Rightarrow> pydict \<Rightarrow> stored_bundle tx" where
  "store_bundle env workspace_id bundle_type payload s =
     (case store_evidence_bundle (ce_evidence env) workspace_id bundle_type payload None (se_evidence s) of
        (r, fs) \<Rightarrow> (r, s\<lparr>se_evidence := fs\<rparr>))"

text \<open>A request's transaction: commit on return, roll back on an exception.\<close>

definition in_transaction :: "'a tx \<Rightarrow> 'a tx" where
  "in_transaction m s = (case m s of
     (Inl e, s') \<Rightarrow> (Inl e, s'\<lparr>se_db := se_db s\<rparr>) | (Inr x, s') \<Rightarrow> (Inr x, s'))"

section \<open>Rules\<close>

lemma tbind_Inr_iff: "tbind m f s = (Inr y, s2) \<longleftrightarrow> (\<exists>x s1. m s = (Inr x, s1) \<and> f x s1 = (Inr y, s2))"
  by (auto simp: tbind_def split: prod.split sum.split)

lemma tbind_cases:
  assumes "tbind m f s = (r, s2)"
  obtains (stop) e where "m s = (Inl e, s2)" "r = Inl e"
    | (next_step) x s1 where "m s = (Inr x, s1)" "f x s1 = (r, s2)"
  using assms by (cases "m s"; cases "fst (m s)") (auto simp: tbind_def)

lemma tpure_Inr_iff [simp]: "tpure x s = (r, s') \<longleftrightarrow> r = Inr x \<and> s' = s"
  by (auto simp: tpure_def)

lemma traise_iff [simp]: "traise e s = (r, s') \<longleftrightarrow> r = Inl e \<and> s' = s"
  by (auto simp: traise_def)

lemma tres_iff [simp]: "tres x s = (r, s') \<longleftrightarrow> x = r \<and> s' = s"
  by (auto simp: tres_def)

lemma tread_iff [simp]: "tread f s = (r, s') \<longleftrightarrow> r = Inr (f (se_db s)) \<and> s' = s"
  by (auto simp: tread_def)

lemma tmodify_iff [simp]: "tmodify f s = (r, s') \<longleftrightarrow> r = Inr () \<and> s' = s\<lparr>se_db := f (se_db s)\<rparr>"
  by (auto simp: tmodify_def)

lemma tchange_Inr_iff [simp]:
  "tchange f s = (Inr u, s') \<longleftrightarrow> (\<exists>d. f (se_db s) = Inr d \<and> s' = s\<lparr>se_db := d\<rparr>)"
  by (auto simp: tchange_def split: sum.split)

lemma issue_id_iff [simp]:
  "issue_id env s = (r, s') \<longleftrightarrow> r = Inr (ce_fresh env (se_next s)) \<and> s' = s\<lparr>se_next := Suc (se_next s)\<rparr>"
  by (auto simp: issue_id_def)

lemma store_bundle_Inr:
  "store_bundle env ws ty p s = (Inr b, s') \<Longrightarrow> \<exists>fs. s' = s\<lparr>se_evidence := fs\<rparr> \<and>
     store_evidence_bundle (ce_evidence env) ws ty p None (se_evidence s) = (Inr b, fs)"
  by (auto simp: store_bundle_def split: prod.split_asm)

lemma store_bundle_db: "store_bundle env ws ty p s = (r, s') \<Longrightarrow> se_db s' = se_db s \<and> se_next s' = se_next s"
  by (auto simp: store_bundle_def split: prod.split_asm)

lemma in_transaction_Inr [simp]: "in_transaction m s = (Inr x, s') \<longleftrightarrow> m s = (Inr x, s')"
  by (auto simp: in_transaction_def split: prod.split sum.split)

lemma in_transaction_Inl: "in_transaction m s = (Inl e, s') \<Longrightarrow> se_db s' = se_db s"
  by (auto simp: in_transaction_def split: prod.split_asm sum.split_asm)

text \<open>
  A property of the database that every step of a transaction keeps, whether it returns or
  raises; the services are proved to keep their invariants through these rules.
\<close>

definition tkeeps :: "(db \<Rightarrow> bool) \<Rightarrow> 'a tx \<Rightarrow> bool" where
  "tkeeps P m \<longleftrightarrow> (\<forall>s r s'. m s = (r, s') \<longrightarrow> P (se_db s) \<longrightarrow> P (se_db s'))"

lemma tkeepsD: "tkeeps P m \<Longrightarrow> m s = (r, s') \<Longrightarrow> P (se_db s) \<Longrightarrow> P (se_db s')"
  by (auto simp: tkeeps_def)

lemma tkeeps_bind: "tkeeps P m \<Longrightarrow> (\<And>x. tkeeps P (f x)) \<Longrightarrow> tkeeps P (tbind m f)"
  unfolding tkeeps_def by (auto simp: tbind_def split: prod.split_asm sum.split_asm)

lemma tkeeps_pure: "tkeeps P (tpure x)"
  by (simp add: tkeeps_def)

lemma tkeeps_raise: "tkeeps P (traise e)"
  by (simp add: tkeeps_def)

lemma tkeeps_res: "tkeeps P (tres r)"
  by (simp add: tkeeps_def)

lemma tkeeps_read: "tkeeps P (tread f)"
  by (simp add: tkeeps_def)

lemma tkeeps_issue: "tkeeps P (issue_id env)"
  by (simp add: tkeeps_def)

lemma tkeeps_store: "tkeeps P (store_bundle env ws ty p)"
  unfolding tkeeps_def using store_bundle_db by fastforce

lemma tkeeps_modify: "(\<And>d. P d \<Longrightarrow> P (f d)) \<Longrightarrow> tkeeps P (tmodify f)"
  by (simp add: tkeeps_def)

lemma tkeeps_change: "(\<And>d d'. P d \<Longrightarrow> f d = Inr d' \<Longrightarrow> P d') \<Longrightarrow> tkeeps P (tchange f)"
  by (auto simp: tkeeps_def tchange_def split: sum.split_asm)

lemma tkeeps_transaction: "tkeeps P m \<Longrightarrow> tkeeps P (in_transaction m)"
  unfolding tkeeps_def by (auto simp: in_transaction_def split: prod.split_asm sum.split_asm)

lemmas tkeeps_intros =
  tkeeps_bind tkeeps_pure tkeeps_raise tkeeps_res tkeeps_read tkeeps_issue tkeeps_store tkeeps_transaction

text \<open>With what is known of the value read, or of the result that did not raise.\<close>

lemma tkeeps_read_bind:
  "(\<And>d. P d \<Longrightarrow> tkeeps P (f (g d))) \<Longrightarrow> tkeeps P (tbind (tread g) f)"
  unfolding tkeeps_def by (auto simp: tbind_def tread_def)

lemma tkeeps_res_bind: "(\<And>x. r = Inr x \<Longrightarrow> tkeeps P (f x)) \<Longrightarrow> tkeeps P (tbind (tres r) f)"
  unfolding tkeeps_def by (cases r) (auto simp: tbind_def tres_def)

text \<open>A step that leaves a part of the database as it was.\<close>

definition tsame :: "(db \<Rightarrow> 'v) \<Rightarrow> 'a tx \<Rightarrow> bool" where
  "tsame f m \<longleftrightarrow> (\<forall>v. tkeeps (\<lambda>d. f d = v) m)"

lemma tsameD: "tsame f m \<Longrightarrow> m s = (r, s') \<Longrightarrow> f (se_db s') = f (se_db s)"
  by (auto simp: tsame_def tkeeps_def)

lemma tsame_bind: "tsame f m \<Longrightarrow> (\<And>x. tsame f (g x)) \<Longrightarrow> tsame f (tbind m g)"
  by (auto simp: tsame_def intro: tkeeps_bind)

lemma tsame_simple [simp]:
  "tsame f (tpure x)" "tsame f (traise e)" "tsame f (tres r)" "tsame f (tread h)" "tsame f (issue_id env)"
  "tsame f (store_bundle env ws ty p)"
  by (simp_all add: tsame_def tkeeps_pure tkeeps_raise tkeeps_res tkeeps_read tkeeps_issue tkeeps_store)

end
