(* ===== verification/Review.thy ===== *)
theory Review
  imports Sessions
begin

text \<open>
  The review queue (\<open>backend/control_plane/review_repository.py\<close>): proposals, tasks, decisions,
  the count of unresolved blocking tasks that gates publication (\<open>gating.py\<close>), and the summary
  of the queue.
\<close>

section \<open>Operations\<close>

definition proposal_dict :: "review_proposal \<Rightarrow> pydict" where
  "proposal_dict p = [(''proposal_id'', PStr (pr_id p)), (''workspace_id'', PStr (pr_workspace p)),
     (''proposal_type'', PStr (pr_type p)), (''evidence_bundle_uri'', PStr (pr_evidence_uri p)),
     (''confidence'', pr_confidence p), (''status'', PStr (pr_status p))]"

definition create_proposal ::
  "cp_env \<Rightarrow> string \<Rightarrow> string \<Rightarrow> string \<Rightarrow> pyval \<Rightarrow> review_proposal tx" where
  "create_proposal env workspace_id proposal_type evidence_bundle_uri confidence =
     tbind (issue_id env) (\<lambda>proposal_id.
     let proposal = \<lparr>pr_id = proposal_id, pr_workspace = workspace_id, pr_type = proposal_type,
           pr_evidence_uri = evidence_bundle_uri, pr_confidence = confidence, pr_status = ''open''\<rparr>
     in tbind (tchange (\<lambda>d. rbind (tbl_add pr_id proposal (proposals d)) (\<lambda>t. Inr (d\<lparr>proposals := t\<rparr>))))
          (\<lambda>_. tpure proposal))"

definition task_dict :: "review_task \<Rightarrow> pydict" where
  "task_dict t = [(''task_id'', PStr (tk_id t)), (''workspace_id'', PStr (tk_workspace t)),
     (''priority'', PStr (tk_priority t)), (''subject_ref'', PStr (tk_subject t)),
     (''status'', PStr (tk_status t)), (''blocking'', PBool (tk_blocking t))]"

definition create_review_task ::
  "cp_env \<Rightarrow> string \<Rightarrow> string \<Rightarrow> string \<Rightarrow> bool \<Rightarrow> review_task tx" where
  "create_review_task env workspace_id subject_ref priority blocking =
     tbind (issue_id env) (\<lambda>task_id.
     let task = \<lparr>tk_id = task_id, tk_workspace = workspace_id, tk_priority = priority,
           tk_subject = subject_ref, tk_status = ''open'', tk_blocking = blocking\<rparr>
     in tbind (tchange (\<lambda>d. rbind (tbl_add tk_id task (tasks d)) (\<lambda>t. Inr (d\<lparr>tasks := t\<rparr>))))
          (\<lambda>_. tpure task))"

definition list_review_tasks :: "db \<Rightarrow> string \<Rightarrow> pydict list" where
  "list_review_tasks d workspace_id =
     map (\<lambda>row. let proposal = tbl_get pr_id (tk_subject row) (proposals d)
        in task_dict row @
           [(''evidence_bundle_uri'', case proposal of None \<Rightarrow> PNone | Some p \<Rightarrow> PStr (pr_evidence_uri p)),
            (''confidence'', case proposal of None \<Rightarrow> PNone | Some p \<Rightarrow> pr_confidence p),
            (''proposal_type'', case proposal of None \<Rightarrow> PNone | Some p \<Rightarrow> PStr (pr_type p))])
       (filter (\<lambda>row. tk_workspace row = workspace_id) (tasks d))"

definition decision_status :: "string \<Rightarrow> string" where
  "decision_status decision = (if decision = ''approve'' then ''approved''
     else if decision = ''reject'' then ''rejected'' else ''deferred'')"

definition decide_review_task ::
  "cp_env \<Rightarrow> string \<Rightarrow> string \<Rightarrow> string \<Rightarrow> string \<Rightarrow> string \<Rightarrow> review_approval option tx" where
  "decide_review_task env workspace_id task_id actor_id decision reason =
     tbind (tread (\<lambda>d. tbl_get tk_id task_id (tasks d))) (\<lambda>found.
     case found of
       None \<Rightarrow> tpure None
     | Some task \<Rightarrow>
         if tk_workspace task \<noteq> workspace_id then tpure None
         else tbind (tmodify (\<lambda>d. d\<lparr>tasks := tbl_put tk_id (task\<lparr>tk_status := decision_status decision\<rparr>) (tasks d)\<rparr>)) (\<lambda>_.
              tbind (issue_id env) (\<lambda>approval_id.
              tbind (issue_id env) (\<lambda>audit_event_id.
              let approval = \<lparr>ap_id = approval_id, ap_task = task_id, ap_actor = actor_id,
                    ap_decision = decision, ap_reason = reason, ap_changes_ref = ''review_queue'',
                    ap_audit_event = audit_event_id\<rparr>
              in tbind (tchange (\<lambda>d. rbind (tbl_add ap_id approval (approvals d)) (\<lambda>t. Inr (d\<lparr>approvals := t\<rparr>))))
                   (\<lambda>_. tpure (Some approval))))))"

definition is_unresolved :: "review_task \<Rightarrow> bool" where
  "is_unresolved t \<longleftrightarrow> tk_status t \<in> set [''open'', ''in_review'']"

definition unresolved_blocking_task_count :: "db \<Rightarrow> string \<Rightarrow> nat" where
  "unresolved_blocking_task_count d workspace_id =
     length (filter (\<lambda>t. tk_workspace t = workspace_id \<and> tk_blocking t \<and> is_unresolved t) (tasks d))"

record review_summary =
  rs_total :: nat
  rs_blocking_open :: nat
  rs_by_status :: "(string \<times> nat) list"
  rs_by_priority :: "(string \<times> nat) list"

definition count_up :: "(string \<times> nat) list \<Rightarrow> string \<Rightarrow> (string \<times> nat) list" where
  "count_up m k = dset m k (dget_or m k 0 + 1)"

definition summary_step :: "review_summary \<Rightarrow> review_task \<Rightarrow> review_summary" where
  "summary_step a row =
     \<lparr>rs_total = rs_total a + 1,
      rs_blocking_open = rs_blocking_open a + (if tk_blocking row \<and> is_unresolved row then 1 else 0),
      rs_by_status = count_up (rs_by_status a) (tk_status row),
      rs_by_priority = count_up (rs_by_priority a) (tk_priority row)\<rparr>"

definition get_review_queue_summary :: "db \<Rightarrow> string \<Rightarrow> review_summary" where
  "get_review_queue_summary d workspace_id =
     foldl summary_step \<lparr>rs_total = 0, rs_blocking_open = 0, rs_by_status = [], rs_by_priority = []\<rparr>
       (filter (\<lambda>t. tk_workspace t = workspace_id) (tasks d))"

text \<open>The gate of a gold publication.\<close>

definition evaluate_gold_publish_gate :: "bool \<Rightarrow> nat \<Rightarrow> bool \<times> string" where
  "evaluate_gold_publish_gate contracts_passed unresolved_blocking_tasks =
     (if \<not> contracts_passed then (False, ''contract_failure'')
      else if unresolved_blocking_tasks > 0 then (False, ''blocking_review_tasks'')
      else (True, ''all_gates_passed''))"

section \<open>Lemmas\<close>

lemma create_proposal_Inr:
  "create_proposal env ws ty uri c s = (Inr p, s') \<Longrightarrow>
     p = \<lparr>pr_id = ce_fresh env (se_next s), pr_workspace = ws, pr_type = ty, pr_evidence_uri = uri,
          pr_confidence = c, pr_status = ''open''\<rparr> \<and>
     se_db s' = (se_db s)\<lparr>proposals := proposals (se_db s) @ [p]\<rparr>"
  by (auto simp: create_proposal_def tbind_Inr_iff Let_def rbind_eq_Inr_iff tbl_add_Inr_iff)

lemma create_review_task_Inr:
  "create_review_task env ws sub pri b s = (Inr t, s') \<Longrightarrow>
     t = \<lparr>tk_id = ce_fresh env (se_next s), tk_workspace = ws, tk_priority = pri, tk_subject = sub,
          tk_status = ''open'', tk_blocking = b\<rparr> \<and>
     se_db s' = (se_db s)\<lparr>tasks := tasks (se_db s) @ [t]\<rparr>"
  by (auto simp: create_review_task_def tbind_Inr_iff Let_def rbind_eq_Inr_iff tbl_add_Inr_iff)

text \<open>The review operations touch proposals, tasks and approvals only.\<close>

definition same_but_reviews :: "db \<Rightarrow> db \<Rightarrow> bool" where
  "same_but_reviews d d' \<longleftrightarrow> (\<exists>ps ts aps. d' = d\<lparr>proposals := ps, tasks := ts, approvals := aps\<rparr>)"

lemma same_but_reviews_refl [simp]: "same_but_reviews d d"
  unfolding same_but_reviews_def by (intro exI [of _ "proposals d"] exI [of _ "tasks d"] exI [of _ "approvals d"]) simp

lemma review_keeps:
  assumes "\<And>d ps ts aps. P d \<Longrightarrow> P (d\<lparr>proposals := ps, tasks := ts, approvals := aps\<rparr>)"
  shows "tkeeps P (create_proposal env ws ty uri c)" "tkeeps P (create_review_task env ws sub pri b)"
    "tkeeps P (decide_review_task env ws tid actor dec why)"
proof -
  have p: "P d \<Longrightarrow> P (d\<lparr>proposals := ps\<rparr>)" for d ps
    using assms [where d = d and ps = ps and ts = "tasks d" and aps = "approvals d"] by simp
  have t: "P d \<Longrightarrow> P (d\<lparr>tasks := ts\<rparr>)" for d ts
    using assms [where d = d and ps = "proposals d" and ts = ts and aps = "approvals d"] by simp
  have a: "P d \<Longrightarrow> P (d\<lparr>approvals := aps\<rparr>)" for d aps
    using assms [where d = d and ps = "proposals d" and ts = "tasks d" and aps = aps] by simp
  show "tkeeps P (create_proposal env ws ty uri c)"
    unfolding create_proposal_def Let_def
    by (intro tkeeps_intros tkeeps_change) (auto simp: rbind_eq_Inr_iff p)
  show "tkeeps P (create_review_task env ws sub pri b)"
    unfolding create_review_task_def Let_def
    by (intro tkeeps_intros tkeeps_change) (auto simp: rbind_eq_Inr_iff t)
  show "tkeeps P (decide_review_task env ws tid actor dec why)"
    unfolding decide_review_task_def Let_def
    by (auto intro!: tkeeps_intros tkeeps_change tkeeps_modify simp: rbind_eq_Inr_iff t a split: option.split)
qed

lemma review_same:
  assumes "\<And>d ps ts aps. f (d\<lparr>proposals := ps, tasks := ts, approvals := aps\<rparr>) = f d"
  shows "tsame f (create_proposal env ws ty uri c)" "tsame f (create_review_task env ws sub pri b)"
    "tsame f (decide_review_task env ws tid actor dec why)"
  unfolding tsame_def by (intro allI review_keeps; simp add: assms)+

definition counts :: "(string \<times> nat) list \<Rightarrow> nat" where
  "counts m = sum_list (map snd m)"

lemma counts_dset:
  "distinct (dkeys m) \<Longrightarrow> counts (dset m k v) + dget_or m k 0 = counts m + v"
proof (induction m k v rule: dset.induct)
  case (2 k' w d k v)
  then have "distinct (dkeys d)" "k' \<notin> set (dkeys d)" by (auto simp: dkeys_def)
  with 2 show ?case
    by (auto simp: counts_def dget_or_def dkeys_def map_of_eq_None_iff split: option.split)
qed (simp add: counts_def dget_or_def)

lemma counts_count_up: "distinct (dkeys m) \<Longrightarrow> counts (count_up m k) = counts m + 1"
  using counts_dset [of m k "dget_or m k 0 + 1"] by (simp add: count_up_def)

lemma distinct_count_up: "distinct (dkeys m) \<Longrightarrow> distinct (dkeys (count_up m k))"
  by (simp add: count_up_def)

lemma summary_fold:
  assumes "distinct (dkeys (rs_by_status a))" "distinct (dkeys (rs_by_priority a))"
  shows "let s = foldl summary_step a rows in
    rs_total s = rs_total a + length rows \<and>
    rs_blocking_open s = rs_blocking_open a + length (filter (\<lambda>t. tk_blocking t \<and> is_unresolved t) rows) \<and>
    counts (rs_by_status s) = counts (rs_by_status a) + length rows \<and>
    counts (rs_by_priority s) = counts (rs_by_priority a) + length rows"
  using assms
proof (induction rows arbitrary: a)
  case (Cons r rows)
  show ?case
    using Cons.IH [of "summary_step a r"] Cons.prems
    by (simp add: summary_step_def counts_count_up distinct_count_up Let_def)
qed (simp add: Let_def)

section \<open>Properties\<close>

text \<open>
  The dashboard agrees with the gate: the summary of the queue reports as open blocking tasks
  exactly the number that holds publication back, and its counts by status and by priority each
  add up to the total; publication is allowed exactly when the contracts passed and that number
  is zero.
\<close>

theorem review_summary_agrees:
  "let summary = get_review_queue_summary d ws in
     rs_blocking_open summary = unresolved_blocking_task_count d ws \<and>
     counts (rs_by_status summary) = rs_total summary \<and> counts (rs_by_priority summary) = rs_total summary \<and>
     (fst (evaluate_gold_publish_gate passed (unresolved_blocking_task_count d ws)) \<longleftrightarrow>
        passed \<and> rs_blocking_open summary = 0)"
proof -
  let ?a = "\<lparr>rs_total = 0, rs_blocking_open = 0, rs_by_status = [], rs_by_priority = []\<rparr>"
  have "distinct (dkeys (rs_by_status ?a))" "distinct (dkeys (rs_by_priority ?a))" by (simp_all add: dkeys_def)
  from summary_fold [OF this, of "filter (\<lambda>t. tk_workspace t = ws) (tasks d)"] show ?thesis
    by (simp add: get_review_queue_summary_def unresolved_blocking_task_count_def Let_def counts_def
        evaluate_gold_publish_gate_def conj_commute conj_left_commute)
qed

end
