(* ===== verification/PolicyPacks.thy ===== *)
theory PolicyPacks
  imports Review Provenance Auth
begin

text \<open>
  The life cycle of policy packs (\<open>backend/control_plane/policy_pack_service.py\<close>, with the
  checks of \<open>backend/shared_domain/policy_pack_tests.py\<close>): staged change requests, their review,
  the canary, the effective pack and its rollback. All are rows of the governance policies; the
  JSON text of a row is kept as its value.
\<close>

section \<open>Rows of the governance policies\<close>

definition load_definition :: "json_text \<Rightarrow> pydict" where
  "load_definition text = (case text of Some (PDict d) \<Rightarrow> d | _ \<Rightarrow> [])"

definition active_policy :: "string \<Rightarrow> string \<Rightarrow> db \<Rightarrow> governance_policy option" where
  "active_policy policy_type workspace_id d =
     tbl_first (\<lambda>r. gp_workspace r = workspace_id \<and> gp_type r = policy_type \<and> gp_status r = ''active'')
       (policies d)"

definition change_request_row :: "string \<Rightarrow> string \<Rightarrow> string \<Rightarrow> db \<Rightarrow> governance_policy option" where
  "change_request_row policy_type workspace_id change_request_id d =
     (case tbl_get gp_id change_request_id (policies d) of
        None \<Rightarrow> None
      | Some row \<Rightarrow>
          if gp_workspace row \<noteq> workspace_id then None
          else if gp_type row \<noteq> policy_type then None else Some row)"

definition add_policy :: "governance_policy \<Rightarrow> unit tx" where
  "add_policy row = tchange (\<lambda>d. rbind (tbl_add gp_id row (policies d)) (\<lambda>t. Inr (d\<lparr>policies := t\<rparr>)))"

definition put_policy :: "governance_policy \<Rightarrow> unit tx" where
  "put_policy row = tmodify (\<lambda>d. d\<lparr>policies := tbl_put gp_id row (policies d)\<rparr>)"

definition policy_row :: "string \<Rightarrow> string \<Rightarrow> string \<Rightarrow> pydict \<Rightarrow> string \<Rightarrow> governance_policy" where
  "policy_row policy_id workspace_id policy_type definition_ref status =
     \<lparr>gp_id = policy_id, gp_workspace = workspace_id, gp_type = policy_type,
      gp_definition = Some (PDict definition_ref), gp_status = status\<rparr>"

definition rewrite_policy :: "governance_policy \<Rightarrow> pydict \<Rightarrow> string \<Rightarrow> unit tx" where
  "rewrite_policy row definition_ref status =
     put_policy (row\<lparr>gp_definition := Some (PDict definition_ref), gp_status := status\<rparr>)"

text \<open>
  Write the active row of a kind, or add it with a new identifier when there is none.
\<close>

definition upsert_active :: "cp_env \<Rightarrow> string \<Rightarrow> string \<Rightarrow> pydict \<Rightarrow> unit tx" where
  "upsert_active env policy_type workspace_id payload =
     tbind (tread (active_policy policy_type workspace_id)) (\<lambda>existing.
     case existing of
       None \<Rightarrow> tbind (issue_id env) (\<lambda>policy_id.
                 add_policy (policy_row policy_id workspace_id policy_type payload ''active''))
     | Some row \<Rightarrow> rewrite_policy row payload ''active'')"

definition require_workspace :: "string \<Rightarrow> unit tx" where
  "require_workspace workspace_id =
     tbind (tread (\<lambda>d. tbl_get ws_id workspace_id (workspaces d))) (\<lambda>found.
     if found = None then traise (NotFoundError ''Workspace not found.'' [(''workspace_id'', PStr workspace_id)])
     else tpure ())"

definition denied :: "pydict \<Rightarrow> exn" where
  "denied details = PolicyDeniedError ''Access denied by policy'' details"

section \<open>Checks of a pack\<close>

definition evaluate_policy_pack_invariants :: "pydict \<Rightarrow> string list" where
  "evaluate_policy_pack_invariants pack =
     (let missing_id = (if strip (str_of pack ''id'' []) = [] then [''pack_id_missing''] else [])
      in case dget_or pack ''template_actor'' (PDict []) of
           PDict template_actor \<Rightarrow>
             (let actor_type = lower (strip (str_of template_actor ''actor_type'' []));
                  type_failures = (if actor_type \<notin> set [''human'', ''ai''] then [''template_actor_type_invalid''] else []);
                  roles = dget_or template_actor ''roles'' (PList []);
                  role_failures =
                    (if \<not> is_list roles \<or> as_list roles = [] then [''template_roles_missing'']
                     else if actor_type = ''ai'' \<and> ''ai_agent'' \<notin> set (str_list roles)
                     then [''template_ai_role_missing''] else []);
                  attribute_failures =
                    (if is_dict (dget_or template_actor ''attributes'' (PDict [])) then []
                     else [''template_attributes_invalid''])
              in missing_id @ type_failures @ role_failures @ attribute_failures)
         | _ \<Rightarrow> missing_id @ [''template_actor_missing''])"

definition load_policy_pack :: "cp_env \<Rightarrow> string \<Rightarrow> pydict res" where
  "load_policy_pack env pack_id =
     (case find (\<lambda>pack. str_of pack ''id'' [] = pack_id) (load_policy_packs (ce_packs env)) of
        None \<Rightarrow> Inl (NotFoundError ''Policy pack not found.'' [(''pack_id'', PStr pack_id)])
      | Some pack \<Rightarrow> Inr pack)"

definition pack_checksum :: "cp_env \<Rightarrow> pydict \<Rightarrow> string" where
  "pack_checksum env pack = ee_hexdigest (ce_evidence env) (json_dumps (PDict pack))"

section \<open>Operations\<close>

definition get_effective_policy_pack :: "string \<Rightarrow> db \<Rightarrow> pydict option res" where
  "get_effective_policy_pack workspace_id d =
     (case active_policy ''policy_pack'' workspace_id d of
        None \<Rightarrow> Inr None
      | Some row \<Rightarrow>
          (let definition_ref = load_definition (gp_definition row)
           in rbind (coerce_int (dget_or definition_ref ''version'' PNone) 0) (\<lambda>version.
              Inr (Some [(''workspace_id'', PStr workspace_id),
                (''pack_id'', PStr (str_of definition_ref ''pack_id'' [])),
                (''pack_checksum'', PStr (str_of definition_ref ''pack_checksum'' [])),
                (''version'', PInt version),
                (''previous_pack_id'', PStr (str_of definition_ref ''previous_pack_id'' [])),
                (''previous_pack_checksum'', PStr (str_of definition_ref ''previous_pack_checksum'' []))]))))"

definition request_policy_pack_change :: "cp_env \<Rightarrow> string \<Rightarrow> string \<Rightarrow> string \<Rightarrow> pydict tx" where
  "request_policy_pack_change env workspace_id requester_actor_id requested_pack_id =
     tbind (require_workspace workspace_id) (\<lambda>_.
     tbind (tres (load_policy_pack env requested_pack_id)) (\<lambda>requested_pack.
     tbind (tread (get_effective_policy_pack workspace_id)) (\<lambda>current_res.
     tbind (tres current_res) (\<lambda>current.
     if (case current of None \<Rightarrow> False | Some c \<Rightarrow> py_str (dget_or c ''pack_id'' PNone) = requested_pack_id)
     then traise (denied [(''reason'', PStr ''policy_pack_already_active''), (''pack_id'', PStr requested_pack_id)])
     else let requested_checksum = pack_checksum env requested_pack
     in tbind (store_bundle env workspace_id ''policy_pack_change''
           [(''workspace_id'', PStr workspace_id), (''requested_pack_id'', PStr requested_pack_id),
            (''requested_pack_checksum'', PStr requested_checksum), (''current_pack'', opt_dict current)])
        (\<lambda>stored.
     tbind (create_proposal env workspace_id ''policy_pack_change_proposal'' (sb_uri stored) (PFloat ''1.0'' (Some 1)))
        (\<lambda>proposal.
     tbind (create_review_task env workspace_id (pr_id proposal) ''security_critical'' True) (\<lambda>review_task.
     tbind (issue_id env) (\<lambda>change_request_id.
     let change_request =
        [(''change_request_id'', PStr change_request_id), (''workspace_id'', PStr workspace_id),
         (''requested_pack_id'', PStr requested_pack_id), (''requested_pack_checksum'', PStr requested_checksum),
         (''requester_actor_id'', PStr requester_actor_id), (''proposal_id'', PStr (pr_id proposal)),
         (''review_task_id'', PStr (tk_id review_task)), (''status'', PStr ''staged'')]
     in tbind (add_policy (policy_row change_request_id workspace_id ''policy_pack_change_request''
                 change_request ''staged''))
          (\<lambda>_. tpure change_request)))))))))"

definition normalized_decision :: "string \<Rightarrow> string" where
  "normalized_decision text =
     (let d = lower (strip text) in if d \<in> set [''approve'', ''reject'', ''defer''] then d else ''defer'')"

text \<open>The review task of a staged request is decided along with it.\<close>

definition decide_linked_task :: "cp_env \<Rightarrow> string \<Rightarrow> string \<Rightarrow> string \<Rightarrow> string \<Rightarrow> string \<Rightarrow> unit tx" where
  "decide_linked_task env workspace_id review_task_id actor_id verdict reason =
     (if review_task_id = [] then tpure ()
      else tbind (decide_review_task env workspace_id review_task_id actor_id verdict reason) (\<lambda>_. tpure ()))"

definition close_staged :: "pydict \<Rightarrow> string \<Rightarrow> string \<Rightarrow> string \<Rightarrow> pydict" where
  "close_staged staged status approver reason =
     dset (dset (dset staged ''status'' (PStr status)) ''approved_by'' (PStr approver))
       ''decision_reason'' (PStr reason)"

definition next_pack_state :: "string \<Rightarrow> string \<Rightarrow> string \<Rightarrow> int \<Rightarrow> pydict \<Rightarrow> pydict" where
  "next_pack_state workspace_id pack_id checksum version active =
     [(''workspace_id'', PStr workspace_id), (''pack_id'', PStr pack_id), (''pack_checksum'', PStr checksum),
      (''version'', PInt version), (''previous_pack_id'', PStr (str_of active ''pack_id'' [])),
      (''previous_pack_checksum'', PStr (str_of active ''pack_checksum'' []))]"

definition active_definition :: "string \<Rightarrow> string \<Rightarrow> db \<Rightarrow> pydict" where
  "active_definition policy_type workspace_id d =
     (case active_policy policy_type workspace_id d of None \<Rightarrow> [] | Some row \<Rightarrow> load_definition (gp_definition row))"

definition upsert_policy_pack_canary ::
  "cp_env \<Rightarrow> string \<Rightarrow> string \<Rightarrow> string \<Rightarrow> string \<Rightarrow> string \<Rightarrow> string \<Rightarrow> pydict tx" where
  "upsert_policy_pack_canary env workspace_id pack_id checksum requested_by approved_by change_request_id =
     (let payload = [(''workspace_id'', PStr workspace_id), (''pack_id'', PStr pack_id),
            (''pack_checksum'', PStr checksum), (''requested_by'', PStr requested_by),
            (''approved_by'', PStr approved_by), (''change_request_id'', PStr change_request_id),
            (''status'', PStr ''canary_active'')]
      in tbind (upsert_active env ''policy_pack_canary'' workspace_id payload) (\<lambda>_. tpure payload))"

definition apply_policy_pack ::
  "cp_env \<Rightarrow> string \<Rightarrow> governance_policy \<Rightarrow> pydict \<Rightarrow> string \<Rightarrow> string \<Rightarrow> string \<Rightarrow> bool \<Rightarrow> pydict tx" where
  "apply_policy_pack env workspace_id staged_row staged change_request_id approver reason canary_enabled =
     tbind (tread (active_definition ''policy_pack'' workspace_id)) (\<lambda>active.
     let requested_pack_id = strip (str_of staged ''requested_pack_id'' [])
     in tbind (tres (load_policy_pack env requested_pack_id)) (\<lambda>requested_pack.
     if evaluate_policy_pack_invariants requested_pack \<noteq> []
     then traise (denied [(''reason'', PStr ''policy_pack_test_failed''), (''pack_id'', PStr requested_pack_id),
            (''failures'', PList (map PStr (evaluate_policy_pack_invariants requested_pack)))])
     else if canary_enabled
     then tbind (upsert_policy_pack_canary env workspace_id requested_pack_id
              (str_of staged ''requested_pack_checksum'' []) (str_of staged ''requester_actor_id'' [])
              approver change_request_id) (\<lambda>canary_state.
          tbind (rewrite_policy staged_row (close_staged staged ''canary_active'' approver reason) ''canary_active'') (\<lambda>_.
          tpure [(''change_request_id'', PStr change_request_id), (''status'', PStr ''canary_active''),
                 (''canary'', PDict canary_state)]))
     else tbind (tres (py_int (dget_or active ''version'' (PInt 0)))) (\<lambda>current_version.
          let next_state = next_pack_state workspace_id requested_pack_id
                (str_of staged ''requested_pack_checksum'' []) (current_version + 1) active
          in tbind (upsert_active env ''policy_pack'' workspace_id next_state) (\<lambda>_.
             tbind (rewrite_policy staged_row (close_staged staged ''applied'' approver reason) ''applied'') (\<lambda>_.
             tpure [(''change_request_id'', PStr change_request_id), (''status'', PStr ''applied''),
                    (''effective_policy_pack'', PDict next_state)])))))"

definition decide_policy_pack_change ::
  "cp_env \<Rightarrow> string \<Rightarrow> string \<Rightarrow> string \<Rightarrow> string \<Rightarrow> string \<Rightarrow> bool \<Rightarrow> pydict option tx" where
  "decide_policy_pack_change env workspace_id change_request_id approver verdict_text reason canary_enabled =
     tbind (tread (change_request_row ''policy_pack_change_request'' workspace_id change_request_id)) (\<lambda>found.
     case found of
       None \<Rightarrow> tpure None
     | Some staged_row \<Rightarrow>
         (let staged = load_definition (gp_definition staged_row); verdict = normalized_decision verdict_text
          in tbind (decide_linked_task env workspace_id (str_of staged ''review_task_id'' []) approver verdict reason) (\<lambda>_.
             if verdict \<noteq> ''approve''
             then let status = (if verdict = ''reject'' then ''rejected'' else ''deferred'');
                      closed = close_staged staged status approver reason
                  in tbind (rewrite_policy staged_row closed status) (\<lambda>_. tpure (Some closed))
             else tbind (apply_policy_pack env workspace_id staged_row staged change_request_id approver reason canary_enabled)
                    (\<lambda>result. tpure (Some result)))))"

definition rollback_policy_pack :: "string \<Rightarrow> pydict tx" where
  "rollback_policy_pack workspace_id =
     tbind (tread (active_policy ''policy_pack'' workspace_id)) (\<lambda>found.
     case found of
       None \<Rightarrow> traise (denied [(''reason'', PStr ''policy_pack_not_configured'')])
     | Some active_row \<Rightarrow>
         (let active = load_definition (gp_definition active_row);
              previous_pack_id = strip (str_of active ''previous_pack_id'' []);
              previous_checksum = strip (str_of active ''previous_pack_checksum'' [])
          in if previous_pack_id = [] \<or> previous_checksum = []
             then traise (denied [(''reason'', PStr ''policy_pack_rollback_unavailable'')])
             else tbind (tres (py_int (dget_or active ''version'' (PInt 0)))) (\<lambda>version.
               let rollback_state = next_pack_state workspace_id previous_pack_id previous_checksum (version + 1) active
               in tbind (put_policy (active_row\<lparr>gp_definition := Some (PDict rollback_state)\<rparr>)) (\<lambda>_.
                  tpure [(''status'', PStr ''rolled_back''), (''effective_policy_pack'', PDict rollback_state)]))))"

definition get_policy_pack_canary :: "string \<Rightarrow> db \<Rightarrow> pydict option" where
  "get_policy_pack_canary workspace_id d =
     map_option (\<lambda>row. let definition_ref = load_definition (gp_definition row)
        in [(''workspace_id'', PStr workspace_id), (''pack_id'', PStr (str_of definition_ref ''pack_id'' [])),
            (''pack_checksum'', PStr (str_of definition_ref ''pack_checksum'' [])),
            (''requested_by'', PStr (str_of definition_ref ''requested_by'' [])),
            (''approved_by'', PStr (str_of definition_ref ''approved_by'' [])),
            (''change_request_id'', PStr (str_of definition_ref ''change_request_id'' [])),
            (''status'', PStr (str_of definition_ref ''status'' ''canary_active''))])
       (active_policy ''policy_pack_canary'' workspace_id d)"

definition close_canary :: "string \<Rightarrow> string \<Rightarrow> unit tx" where
  "close_canary workspace_id actor_id =
     tbind (tread (active_policy ''policy_pack_canary'' workspace_id)) (\<lambda>found.
     case found of
       None \<Rightarrow> tpure ()
     | Some row \<Rightarrow> rewrite_policy row
         (dset (dset (load_definition (gp_definition row)) ''status'' (PStr ''promoted''))
            ''promoted_by'' (PStr actor_id)) ''promoted'')"

definition promote_policy_pack_canary :: "cp_env \<Rightarrow> string \<Rightarrow> string \<Rightarrow> pydict tx" where
  "promote_policy_pack_canary env workspace_id actor_id =
     tbind (tread (get_policy_pack_canary workspace_id)) (\<lambda>canary_opt.
     case canary_opt of
       None \<Rightarrow> traise (denied [(''reason'', PStr ''policy_pack_canary_not_found'')])
     | Some canary \<Rightarrow>
         tbind (tread (get_effective_policy_pack workspace_id)) (\<lambda>active_res.
         tbind (tres active_res) (\<lambda>active_opt.
         let active = (case active_opt of None \<Rightarrow> [] | Some a \<Rightarrow> a)
         in tbind (tres (coerce_int (dget_or active ''version'' PNone) 0)) (\<lambda>version.
            let next_state = next_pack_state workspace_id (str_of canary ''pack_id'' [])
                  (str_of canary ''pack_checksum'' []) (version + 1) active
            in tbind (upsert_active env ''policy_pack'' workspace_id next_state) (\<lambda>_.
               tbind (close_canary workspace_id actor_id) (\<lambda>_.
               tpure [(''status'', PStr ''promoted''), (''effective_policy_pack'', PDict next_state),
                      (''canary_change_request_id'', dget_or canary ''change_request_id'' PNone)]))))))"

section \<open>Only tested packs are kept\<close>

definition tested :: "cp_env \<Rightarrow> string \<Rightarrow> bool" where
  "tested env pack_id \<longleftrightarrow> strip pack_id = pack_id \<and>
     (\<exists>pack. load_policy_pack env pack_id = Inr pack \<and> evaluate_policy_pack_invariants pack = [])"

definition pack_row_ok :: "cp_env \<Rightarrow> governance_policy \<Rightarrow> bool" where
  "pack_row_ok env row \<longleftrightarrow>
     (let definition_ref = load_definition (gp_definition row)
      in (gp_type row = ''policy_pack'' \<longrightarrow> tested env (str_of definition_ref ''pack_id'' []) \<and>
            (str_of definition_ref ''previous_pack_id'' [] = [] \<or>
             tested env (str_of definition_ref ''previous_pack_id'' []))) \<and>
         (gp_type row = ''policy_pack_canary'' \<longrightarrow> tested env (str_of definition_ref ''pack_id'' [])))"

definition packs_ok :: "cp_env \<Rightarrow> db \<Rightarrow> bool" where
  "packs_ok env d \<longleftrightarrow> (\<forall>row \<in> set (policies d). pack_row_ok env row)"

lemma active_policy_Some:
  "active_policy ty ws d = Some row \<Longrightarrow>
     row \<in> set (policies d) \<and> gp_type row = ty \<and> gp_workspace row = ws \<and> gp_status row = ''active''"
  unfolding active_policy_def by (auto dest: tbl_first_SomeD)

lemma change_request_Some:
  "change_request_row ty ws k d = Some row \<Longrightarrow>
     row \<in> set (policies d) \<and> gp_type row = ty \<and> gp_workspace row = ws \<and> gp_id row = k \<and>
     tbl_get gp_id k (policies d) = Some row"
  by (auto simp: change_request_row_def dest: tbl_get_SomeD split: option.split_asm if_split_asm)

lemma packs_ok_policies: "policies d' = policies d \<Longrightarrow> packs_ok env d' = packs_ok env d"
  by (simp add: packs_ok_def)

lemma packs_ok_review: "packs_ok env d \<Longrightarrow> packs_ok env (d\<lparr>proposals := ps, tasks := ts, approvals := aps\<rparr>)"
  by (simp add: packs_ok_def)

lemma add_policy_ok: "pack_row_ok env row \<Longrightarrow> tkeeps (packs_ok env) (add_policy row)"
  unfolding add_policy_def
  by (rule tkeeps_change) (auto simp: packs_ok_def rbind_eq_Inr_iff tbl_add_Inr_iff)

lemma put_policy_ok: "pack_row_ok env row \<Longrightarrow> tkeeps (packs_ok env) (put_policy row)"
  unfolding put_policy_def
  by (rule tkeeps_modify) (use set_tbl_put_subset in \<open>fastforce simp: packs_ok_def\<close>)

lemma other_row_ok: "gp_type row \<notin> {''policy_pack'', ''policy_pack_canary''} \<Longrightarrow> pack_row_ok env row"
  by (simp add: pack_row_ok_def Let_def)

lemma policy_row_simps [simp]:
  "gp_id (policy_row k ws ty v st) = k" "gp_workspace (policy_row k ws ty v st) = ws"
  "gp_type (policy_row k ws ty v st) = ty" "gp_status (policy_row k ws ty v st) = st"
  "gp_definition (policy_row k ws ty v st) = Some (PDict v)"
  by (simp_all add: policy_row_def)

lemma load_definition_dict [simp]: "load_definition (Some (PDict d)) = d"
  by (simp add: load_definition_def)

text \<open>Writing the active row of a kind keeps the invariant when the new content is tested.\<close>

lemma upsert_active_ok:
  assumes "pack_row_ok env (policy_row [] ws ty payload ''active'')"
  shows "tkeeps (packs_ok env) (upsert_active cp ty ws payload)"
  unfolding upsert_active_def rewrite_policy_def
proof (rule tkeeps_read_bind, goal_cases)
  case (1 d)
  have ok: "pack_row_ok env row" if "gp_type row = ty" "gp_definition row = Some (PDict payload)" for row
    using assms that by (simp add: pack_row_ok_def Let_def)
  show ?case
    using ok active_policy_Some [of ty ws d]
    by (auto intro!: tkeeps_bind tkeeps_issue add_policy_ok put_policy_ok split: option.split)
qed

lemma next_state_ok:
  assumes "tested env pack_id" "str_of active ''pack_id'' [] = [] \<or> tested env (str_of active ''pack_id'' [])"
  shows "pack_row_ok env (policy_row k ws ''policy_pack'' (next_pack_state ws pack_id cs v active) st)"
  using assms by (simp add: pack_row_ok_def next_pack_state_def Let_def dget_or_def)

lemma active_pack_ok:
  "packs_ok env d \<Longrightarrow> str_of (active_definition ''policy_pack'' ws d) ''pack_id'' [] = [] \<or>
     tested env (str_of (active_definition ''policy_pack'' ws d) ''pack_id'' [])"
  by (auto simp: active_definition_def packs_ok_def pack_row_ok_def Let_def dget_or_def
      dest!: active_policy_Some split: option.split)

lemma rewrite_other_ok:
  "gp_type row \<notin> {''policy_pack'', ''policy_pack_canary''} \<Longrightarrow> tkeeps (packs_ok env) (rewrite_policy row v st)"
  unfolding rewrite_policy_def by (rule put_policy_ok) (simp add: other_row_ok)

lemma decide_linked_ok: "tkeeps (packs_ok env) (decide_linked_task cp ws tid actor v why)"
  unfolding decide_linked_task_def
  by (auto intro!: tkeeps_intros review_keeps packs_ok_review)

lemma require_workspace_ok: "tkeeps P (require_workspace ws)"
  unfolding require_workspace_def by (auto intro!: tkeeps_intros)

lemma request_pack_ok: "tkeeps (packs_ok env) (request_policy_pack_change env ws actor pid)"
  unfolding request_policy_pack_change_def Let_def
  by (auto intro!: tkeeps_intros require_workspace_ok review_keeps packs_ok_review add_policy_ok other_row_ok)

lemma apply_pack_ok:
  assumes "gp_type row \<notin> {''policy_pack'', ''policy_pack_canary''}"
  shows "tkeeps (packs_ok env) (apply_policy_pack env ws row staged cid approver why canary)"
  unfolding apply_policy_pack_def upsert_policy_pack_canary_def Let_def
proof (rule tkeeps_read_bind, rule tkeeps_res_bind, goal_cases)
  case (1 d pack)
  let ?pid = "strip (str_of staged ''requested_pack_id'' [])"
  let ?active = "active_definition ''policy_pack'' ws d"
  note d = 1(1) and pack = 1(2)
  have canary: "pack_row_ok env (policy_row [] ws ''policy_pack_canary''
      [(''workspace_id'', PStr ws), (''pack_id'', PStr ?pid), (''pack_checksum'', PStr a),
       (''requested_by'', PStr b), (''approved_by'', PStr c), (''change_request_id'', PStr e),
       (''status'', PStr ''canary_active'')] ''active'')" if "tested env ?pid" for a b c e
    using that by (simp add: pack_row_ok_def Let_def dget_or_def)
  have "tested env ?pid" if "evaluate_policy_pack_invariants pack = []"
    using pack that by (simp add: tested_def)
  then show ?case
    using canary assms next_state_ok [OF _ active_pack_ok [OF d]]
    by (auto intro!: tkeeps_intros upsert_active_ok rewrite_other_ok)
qed

lemma decide_pack_ok: "tkeeps (packs_ok env) (decide_policy_pack_change env ws cid approver v why canary)"
  unfolding decide_policy_pack_change_def Let_def
proof (rule tkeeps_read_bind, goal_cases)
  case (1 d)
  show ?case
    using change_request_Some [of "''policy_pack_change_request''" ws cid d]
    by (auto intro!: tkeeps_intros decide_linked_ok rewrite_other_ok apply_pack_ok split: option.split)
qed

lemma get_pack_row: "active_policy ty ws d = Some row \<Longrightarrow> packs_ok env d \<Longrightarrow> pack_row_ok env row"
  by (auto simp: packs_ok_def dest: active_policy_Some)

lemma strip_empty: "strip [] = []"
  by (simp add: strip_def lstrip_def rstrip_def)

lemma tested_strip: "tested env k \<Longrightarrow> strip k = k"
  by (simp add: tested_def)

lemma rollback_ok: "tkeeps (packs_ok env) (rollback_policy_pack ws)"
  unfolding rollback_policy_pack_def Let_def
proof (rule tkeeps_read_bind, goal_cases)
  case d: (1 d)
  have "tkeeps (packs_ok env) (put_policy (row\<lparr>gp_definition := Some (PDict (next_pack_state ws
      (strip (str_of (load_definition (gp_definition row)) ''previous_pack_id'' [])) cs v
      (load_definition (gp_definition row))))\<rparr>))"
    if row: "active_policy ''policy_pack'' ws d = Some row"
      and p: "strip (str_of (load_definition (gp_definition row)) ''previous_pack_id'' []) \<noteq> []" for row cs v
  proof (rule put_policy_ok)
    have "gp_type row = ''policy_pack''" using active_policy_Some [OF row] by simp
    then show "pack_row_ok env (row\<lparr>gp_definition := Some (PDict (next_pack_state ws
      (strip (str_of (load_definition (gp_definition row)) ''previous_pack_id'' [])) cs v
      (load_definition (gp_definition row))))\<rparr>)"
      using get_pack_row [OF row d] p tested_strip
      by (auto simp: pack_row_ok_def next_pack_state_def Let_def dget_or_def strip_empty)
  qed
  then show ?case
    by (auto intro!: tkeeps_intros split: option.split)
qed

lemma close_canary_ok: "tkeeps (packs_ok env) (close_canary ws actor)"
  unfolding close_canary_def rewrite_policy_def
proof (rule tkeeps_read_bind, goal_cases)
  case d: (1 d)
  have "pack_row_ok env (row\<lparr>gp_definition := Some (PDict (dset (dset (load_definition (gp_definition row)) ''status''
      (PStr ''promoted'')) ''promoted_by'' (PStr actor))), gp_status := ''promoted''\<rparr>)"
    if row: "active_policy ''policy_pack_canary'' ws d = Some row" for row
    using get_pack_row [OF row d] active_policy_Some [OF row]
    by (simp add: pack_row_ok_def Let_def dget_or_dset)
  then show ?case
    by (auto intro!: tkeeps_pure put_policy_ok split: option.split)
qed

lemma promote_ok: "tkeeps (packs_ok env) (promote_policy_pack_canary cp ws actor)"
  unfolding promote_policy_pack_canary_def Let_def
proof (rule tkeeps_read_bind, goal_cases)
  case d: (1 d)
  have canary: "tested env (str_of c ''pack_id'' [])" if g: "get_policy_pack_canary ws d = Some c" for c
  proof -
    obtain row where row: "active_policy ''policy_pack_canary'' ws d = Some row"
      and c: "str_of c ''pack_id'' [] = str_of (load_definition (gp_definition row)) ''pack_id'' []"
      using g by (auto simp: get_policy_pack_canary_def Let_def dget_or_def)
    show ?thesis
      using get_pack_row [OF row d] active_policy_Some [OF row] c by (simp add: pack_row_ok_def Let_def)
  qed
  have none: "str_of [] ''pack_id'' [] = []" by (simp add: dget_or_def)
  have active: "str_of a ''pack_id'' [] = [] \<or> tested env (str_of a ''pack_id'' [])"
    if "packs_ok env d'" "get_effective_policy_pack ws d' = Inr (Some a)" for d' a
    using that active_pack_ok [OF that(1), of ws]
    by (auto simp: get_effective_policy_pack_def active_definition_def Let_def dget_or_def rbind_eq_Inr_iff
        split: option.split_asm)
  have nxt: "pack_row_ok env (policy_row [] ws ''policy_pack''
      (next_pack_state ws (str_of c ''pack_id'' []) cs v (case x of None \<Rightarrow> [] | Some a \<Rightarrow> a)) ''active'')"
    if "get_policy_pack_canary ws d = Some c" "packs_ok env d'" "get_effective_policy_pack ws d' = Inr x" for c d' x cs v
    using next_state_ok [OF canary [OF that(1)], of "case x of None \<Rightarrow> [] | Some a \<Rightarrow> a"] none active that(2,3)
    by (cases x) auto
  show ?case
  proof (cases "get_policy_pack_canary ws d")
    case (Some c)
    then show ?thesis
      by (simp only: option.simps) (intro tkeeps_bind tkeeps_read_bind tkeeps_res_bind tkeeps_pure close_canary_ok
        upsert_active_ok nxt; assumption)
  qed (simp add: tkeeps_raise)
qed

section \<open>Any sequence of operations\<close>

text \<open>
  A step of the life cycle in a transaction of its own: an operation of this service, or any
  transaction that leaves the governance policies alone (the rest of the control plane).
\<close>

inductive pack_step :: "cp_env \<Rightarrow> cp_session \<Rightarrow> cp_session \<Rightarrow> bool" for env where
  requested: "in_transaction (request_policy_pack_change env ws actor pack_id) s = (r, s') \<Longrightarrow> pack_step env s s'"
| decided: "in_transaction (decide_policy_pack_change env ws cid approver verdict reason canary) s = (r, s') \<Longrightarrow>
    pack_step env s s'"
| rolled_back: "in_transaction (rollback_policy_pack ws) s = (r, s') \<Longrightarrow> pack_step env s s'"
| promoted: "in_transaction (promote_policy_pack_canary env ws actor) s = (r, s') \<Longrightarrow> pack_step env s s'"
| elsewhere: "policies (se_db s') = policies (se_db s) \<Longrightarrow> pack_step env s s'"

lemma pack_step_ok: "pack_step env s s' \<Longrightarrow> packs_ok env (se_db s) \<Longrightarrow> packs_ok env (se_db s')"
proof (induction rule: pack_step.induct)
  case (elsewhere s' s)
  then show ?case using packs_ok_policies by blast
qed (rule tkeepsD [OF tkeeps_transaction [OF request_pack_ok]] tkeepsD [OF tkeeps_transaction [OF decide_pack_ok]]
    tkeepsD [OF tkeeps_transaction [OF rollback_ok]] tkeepsD [OF tkeeps_transaction [OF promote_ok]]; assumption)+

lemma pack_steps_ok: "(pack_step env)\<^sup>*\<^sup>* s s' \<Longrightarrow> packs_ok env (se_db s) \<Longrightarrow> packs_ok env (se_db s')"
  by (induction rule: rtranclp_induct) (auto intro: pack_step_ok)

end
