(* ===== verification/PackEffects.thy ===== *)
theory PackEffects
  imports PolicyPacks
begin

text \<open>
  What the operations on governance policies do to the active rows: the row of the workspace
  and kind they write is the active one afterwards, every other active row stays. On this rest
  the effect of an approved policy pack change and its undoing by a rollback.
\<close>

section \<open>Active rows\<close>

lemma find_map_skip: "(\<And>x. x \<in> set xs \<Longrightarrow> f x = x \<or> \<not> P x \<and> \<not> P (f x)) \<Longrightarrow> find P (map f xs) = find P xs"
  by (induction xs) (force split: if_split)+

lemma find_map_put:
  "find P xs = Some r \<Longrightarrow> k r' = k r \<Longrightarrow> P r' \<Longrightarrow>
     find P (map (\<lambda>x. if k x = k r then r' else x) xs) = Some r'"
  by (induction xs) (auto split: if_split_asm)

lemma active_policy_put:
  assumes "active_policy ty ws d = Some row" "gp_id row' = gp_id row"
    and "gp_type row' = ty" "gp_workspace row' = ws" "gp_status row' = ''active''"
  shows "active_policy ty ws (d\<lparr>policies := tbl_put gp_id row' (policies d)\<rparr>) = Some row'"
  using assms unfolding active_policy_def tbl_first_def tbl_put_def by (auto intro!: find_map_put [where k = gp_id])

lemma active_policy_put_other:
  assumes "keys_distinct gp_id (policies d)" "row \<in> set (policies d)" "gp_id row' = gp_id row"
    and "\<not> (gp_type row = ty \<and> gp_workspace row = ws \<and> gp_status row = ''active'')"
    and "\<not> (gp_type row' = ty \<and> gp_workspace row' = ws \<and> gp_status row' = ''active'')"
  shows "active_policy ty ws (d\<lparr>policies := tbl_put gp_id row' (policies d)\<rparr>) = active_policy ty ws d"
proof -
  have one: "x = row" if "x \<in> set (policies d)" "gp_id x = gp_id row" for x
    using that assms(1,2) by (auto simp: keys_distinct_def distinct_map inj_on_def)
  show ?thesis
    unfolding active_policy_def tbl_first_def tbl_put_def
  proof (simp, rule find_map_skip)
    fix x assume "x \<in> set (policies d)"
    then show "(if gp_id x = gp_id row' then row' else x) = x \<or>
        \<not> (gp_workspace x = ws \<and> gp_type x = ty \<and> gp_status x = ''active'') \<and>
        \<not> (gp_workspace (if gp_id x = gp_id row' then row' else x) = ws \<and>
           gp_type (if gp_id x = gp_id row' then row' else x) = ty \<and>
           gp_status (if gp_id x = gp_id row' then row' else x) = ''active'')"
      using one [of x] assms(3-5) by (cases "gp_id x = gp_id row'") auto
  qed
qed

lemma active_policy_add:
  "active_policy ty ws (d\<lparr>policies := policies d @ [row]\<rparr>) =
     (case active_policy ty ws d of Some r \<Rightarrow> Some r
      | None \<Rightarrow> if gp_type row = ty \<and> gp_workspace row = ws \<and> gp_status row = ''active'' then Some row else None)"
  by (auto simp: active_policy_def tbl_first_def find_append split: option.split)

lemma active_policy_cong: "policies d' = policies d \<Longrightarrow> active_policy ty ws d' = active_policy ty ws d"
  by (simp add: active_policy_def)

text \<open>Writing the active row of a kind.\<close>

lemma upsert_active_effect:
  assumes "upsert_active env ty ws payload s = (Inr u, s')" "keys_distinct gp_id (policies (se_db s))"
  shows "\<exists>row. active_policy ty ws (se_db s') = Some row \<and> gp_definition row = Some (PDict payload)"
    and "(ty', ws') \<noteq> (ty, ws) \<Longrightarrow> active_policy ty' ws' (se_db s') = active_policy ty' ws' (se_db s)"
    and "keys_distinct gp_id (policies (se_db s'))"
    and "tbl_get gp_id k (policies (se_db s)) = Some r \<Longrightarrow> gp_type r \<noteq> ty \<Longrightarrow>
      tbl_get gp_id k (policies (se_db s')) = Some r"
proof -
  note up = assms(1)[unfolded upsert_active_def rewrite_policy_def put_policy_def add_policy_def tbind_Inr_iff]
  have "(\<exists>row. active_policy ty ws (se_db s') = Some row \<and> gp_definition row = Some (PDict payload)) \<and>
    ((ty', ws') \<noteq> (ty, ws) \<longrightarrow> active_policy ty' ws' (se_db s') = active_policy ty' ws' (se_db s)) \<and>
    keys_distinct gp_id (policies (se_db s')) \<and>
    (tbl_get gp_id k (policies (se_db s)) = Some r \<longrightarrow> gp_type r \<noteq> ty \<longrightarrow>
      tbl_get gp_id k (policies (se_db s')) = Some r)"
  proof (cases "active_policy ty ws (se_db s)")
    case None
    with up have d: "\<exists>pid d. pid \<notin> gp_id ` set (policies (se_db s)) \<and>
        se_db s' = (se_db s)\<lparr>policies := policies (se_db s) @ [policy_row pid ws ty payload ''active'']\<rparr>"
      by (auto simp: tbind_Inr_iff rbind_eq_Inr_iff tbl_add_Inr_iff)
    then obtain pid where pid: "pid \<notin> gp_id ` set (policies (se_db s))"
      "se_db s' = (se_db s)\<lparr>policies := policies (se_db s) @ [policy_row pid ws ty payload ''active'']\<rparr>" by auto
    then show ?thesis
      using None assms(2)
      by (auto simp: active_policy_add tbl_get_append keys_distinct_def split: option.split)
  next
    case (Some row)
    let ?row = "row\<lparr>gp_definition := Some (PDict payload), gp_status := ''active''\<rparr>"
    from Some up have d: "se_db s' = (se_db s)\<lparr>policies := tbl_put gp_id ?row (policies (se_db s))\<rparr>"
      by (auto simp: tbind_Inr_iff)
    note row = active_policy_Some [OF Some]
    have k: "tbl_get gp_id k (policies (se_db s)) = Some r \<Longrightarrow> gp_type r \<noteq> ty \<Longrightarrow> k \<noteq> gp_id row"
      using row assms(2) by (auto simp: keys_distinct_def distinct_map inj_on_def dest!: tbl_get_SomeD)
    show ?thesis
      unfolding d
      using active_policy_put [OF Some, of ?row] row k assms(2)
        active_policy_put_other [of "se_db s" row ?row ty' ws']
      by (auto simp: tbl_get_put keys_distinct_def)
  qed
  then show "\<exists>row. active_policy ty ws (se_db s') = Some row \<and> gp_definition row = Some (PDict payload)"
    and "(ty', ws') \<noteq> (ty, ws) \<Longrightarrow> active_policy ty' ws' (se_db s') = active_policy ty' ws' (se_db s)"
    and "keys_distinct gp_id (policies (se_db s'))"
    and "tbl_get gp_id k (policies (se_db s)) = Some r \<Longrightarrow> gp_type r \<noteq> ty \<Longrightarrow>
      tbl_get gp_id k (policies (se_db s')) = Some r" by auto
qed

lemma decide_linked_policies:
  assumes "decide_linked_task env ws tid actor v why s = (r, s')"
  shows "policies (se_db s') = policies (se_db s)"
proof -
  have "tsame policies (decide_linked_task env ws tid actor v why)"
    by (auto simp: decide_linked_task_def intro!: tsame_bind review_same)
  then show ?thesis using assms by (rule tsameD)
qed

text \<open>Rewriting a row that is not an active one of a kind leaves that kind.\<close>

lemma rewrite_policy_effect:
  assumes "rewrite_policy row v st s = (Inr u, s')" "keys_distinct gp_id (policies (se_db s))"
    and "tbl_get gp_id k (policies (se_db s)) = Some row"
  shows "gp_type row \<noteq> ty \<Longrightarrow> active_policy ty ws (se_db s') = active_policy ty ws (se_db s)"
    and "keys_distinct gp_id (policies (se_db s'))"
    and "tbl_get gp_id k (policies (se_db s')) = Some (row\<lparr>gp_definition := Some (PDict v), gp_status := st\<rparr>)"
proof -
  have d: "se_db s' = (se_db s)\<lparr>policies := tbl_put gp_id
      (row\<lparr>gp_definition := Some (PDict v), gp_status := st\<rparr>) (policies (se_db s))\<rparr>"
    using assms(1) by (auto simp: rewrite_policy_def put_policy_def)
  have row: "row \<in> set (policies (se_db s))" "gp_id row = k"
    using tbl_get_SomeD [OF assms(3)] by auto
  show "gp_type row \<noteq> ty \<Longrightarrow> active_policy ty ws (se_db s') = active_policy ty ws (se_db s)"
    unfolding d using assms(2) row by (intro active_policy_put_other) auto
  show "keys_distinct gp_id (policies (se_db s'))"
    using assms(2) by (simp add: d keys_distinct_def)
  show "tbl_get gp_id k (policies (se_db s')) = Some (row\<lparr>gp_definition := Some (PDict v), gp_status := st\<rparr>)"
    using row by (auto simp: d tbl_get_put)
qed

section \<open>The effect of an approval\<close>

text \<open>What an approved request does to the effective packs, when the canary is off.\<close>

definition pack_applied :: "cp_env \<Rightarrow> string \<Rightarrow> pydict \<Rightarrow> int \<Rightarrow> db \<Rightarrow> db \<Rightarrow> bool" where
  "pack_applied env ws staged version d d' \<longleftrightarrow>
     (let pack_id = strip (str_of staged ''requested_pack_id'' []); old = active_definition ''policy_pack'' ws d
      in tested env pack_id \<and> py_int (dget_or old ''version'' (PInt 0)) = Inr version \<and>
         (\<exists>row. active_policy ''policy_pack'' ws d' = Some row \<and> gp_definition row = Some (PDict
            (next_pack_state ws pack_id (str_of staged ''requested_pack_checksum'' []) (version + 1) old))) \<and>
         (\<forall>ws'. ws' \<noteq> ws \<longrightarrow> active_policy ''policy_pack'' ws' d' = active_policy ''policy_pack'' ws' d) \<and>
         (\<forall>ws'. active_policy ''policy_pack_canary'' ws' d' = active_policy ''policy_pack_canary'' ws' d))"

lemma active_definition_cong: "policies d' = policies d \<Longrightarrow> active_definition ty ws d' = active_definition ty ws d"
  by (simp add: active_definition_def active_policy_def)

lemma apply_pack_effect:
  assumes run: "apply_policy_pack env ws row staged cid approver why False s = (Inr res, s')"
    and keys: "keys_distinct gp_id (policies (se_db s))"
    and row: "tbl_get gp_id cid (policies (se_db s)) = Some row" "gp_type row = ''policy_pack_change_request''"
  shows "(\<exists>version. pack_applied env ws staged version (se_db s) (se_db s')) \<and>
    keys_distinct gp_id (policies (se_db s')) \<and>
    map_option gp_status (tbl_get gp_id cid (policies (se_db s'))) = Some ''applied''"
proof -
  let ?pid = "strip (str_of staged ''requested_pack_id'' [])"
  let ?old = "active_definition ''policy_pack'' ws (se_db s)"
  from run obtain pack version s1 where
    pack: "load_policy_pack env ?pid = Inr pack" "evaluate_policy_pack_invariants pack = []"
    and version: "py_int (dget_or ?old ''version'' (PInt 0)) = Inr version"
    and up: "upsert_active env ''policy_pack'' ws (next_pack_state ws ?pid
          (str_of staged ''requested_pack_checksum'' []) (version + 1) ?old) s = (Inr (), s1)"
    and rw: "rewrite_policy row (close_staged staged ''applied'' approver why) ''applied'' s1 = (Inr (), s')"
    unfolding apply_policy_pack_def Let_def
    by (auto simp: tbind_Inr_iff split: if_split_asm)
  note u = upsert_active_effect [OF up keys]
  have row1: "tbl_get gp_id cid (policies (se_db s1)) = Some row" using u(4) [OF row(1)] row(2) by simp
  note w = rewrite_policy_effect [OF rw u(3) row1]
  have "tested env ?pid" using pack by (simp add: tested_def)
  then show ?thesis
    using version u(1,2) w row(2) by (auto simp: pack_applied_def Let_def)
qed

lemma change_request_get:
  "change_request_row ty ws k d = Some row \<Longrightarrow> tbl_get gp_id k (policies d) = Some row \<and> gp_type row = ty"
  using change_request_Some by blast

text \<open>A decision that is no approval, or starts a canary, leaves every effective pack.\<close>

lemma decide_pack_cases:
  assumes "decide_policy_pack_change env ws cid approver v why canary s = (Inr x, s')"
  obtains (missing) "se_db s' = se_db s" "x = None"
  | (closed) row staged st s1 where "policies (se_db s1) = policies (se_db s)"
      "tbl_get gp_id cid (policies (se_db s)) = Some row" "gp_type row = ''policy_pack_change_request''"
      "rewrite_policy row staged st s1 = (Inr (), s')"
  | (applied) row res s1 where "normalized_decision v = ''approve''"
      "change_request_row ''policy_pack_change_request'' ws cid (se_db s) = Some row"
      "policies (se_db s1) = policies (se_db s)" "x = Some res"
      "apply_policy_pack env ws row (load_definition (gp_definition row)) cid approver why canary s1 = (Inr res, s')"
proof (cases "change_request_row ''policy_pack_change_request'' ws cid (se_db s)")
  case None
  with assms show ?thesis by (intro missing) (auto simp: decide_policy_pack_change_def tbind_Inr_iff)
next
  case (Some row)
  let ?staged = "load_definition (gp_definition row)"
  from Some assms obtain s1 where
    linked: "decide_linked_task env ws (str_of ?staged ''review_task_id'' []) approver (normalized_decision v) why s = (Inr (), s1)"
    and rest: "(if normalized_decision v \<noteq> ''approve''
        then let status = (if normalized_decision v = ''reject'' then ''rejected'' else ''deferred'');
                 closed = close_staged ?staged status approver why
             in tbind (rewrite_policy row closed status) (\<lambda>_. tpure (Some closed))
        else tbind (apply_policy_pack env ws row ?staged cid approver why canary) (\<lambda>result. tpure (Some result))) s1
      = (Inr x, s')"
    by (auto simp: decide_policy_pack_change_def tbind_Inr_iff Let_def)
  note p = decide_linked_policies [OF linked]
  show ?thesis
  proof (cases "normalized_decision v = ''approve''")
    case True
    with rest obtain res where "x = Some res"
      "apply_policy_pack env ws row ?staged cid approver why canary s1 = (Inr res, s')"
      by (auto simp: tbind_Inr_iff)
    with True Some p show ?thesis by (intro applied)
  next
    case False
    with rest obtain staged st where "rewrite_policy row staged st s1 = (Inr (), s')"
      by (auto simp: tbind_Inr_iff Let_def)
    with p change_request_get [OF Some] show ?thesis by (intro closed) auto
  qed
qed

lemma canary_leaves_packs:
  assumes run: "apply_policy_pack env ws row staged cid approver why True s = (Inr res, s')"
    and keys: "keys_distinct gp_id (policies (se_db s))"
    and row: "tbl_get gp_id cid (policies (se_db s)) = Some row" "gp_type row = ''policy_pack_change_request''"
  shows "active_policy ''policy_pack'' ws' (se_db s') = active_policy ''policy_pack'' ws' (se_db s)"
proof -
  from run obtain payload st v s1 where
    up: "upsert_active env ''policy_pack_canary'' ws payload s = (Inr (), s1)"
    and rw: "rewrite_policy row v st s1 = (Inr (), s')"
    unfolding apply_policy_pack_def upsert_policy_pack_canary_def Let_def
    by (auto simp: tbind_Inr_iff split: if_split_asm)
  note u = upsert_active_effect [OF up keys]
  have row1: "tbl_get gp_id cid (policies (se_db s1)) = Some row" using u(4) [OF row(1)] row(2) by simp
  show ?thesis using rewrite_policy_effect(1) [OF rw u(3) row1] u(2) row(2) by simp
qed

lemma decision_effect:
  assumes run: "decide_policy_pack_change env ws cid approver v why canary s = (Inr x, s')"
    and keys: "keys_distinct gp_id (policies (se_db s))"
  shows "(\<forall>ws'. active_policy ''policy_pack'' ws' (se_db s') = active_policy ''policy_pack'' ws' (se_db s)) \<or>
    (\<exists>row version. normalized_decision v = ''approve'' \<and> \<not> canary \<and>
      change_request_row ''policy_pack_change_request'' ws cid (se_db s) = Some row \<and>
      pack_applied env ws (load_definition (gp_definition row)) version (se_db s) (se_db s') \<and>
      map_option gp_status (tbl_get gp_id cid (policies (se_db s'))) = Some ''applied'')"
  using run
proof (cases rule: decide_pack_cases)
  case (closed row staged st s1)
  then show ?thesis
    using rewrite_policy_effect(1) [OF closed(4), of cid] keys active_policy_cong [OF closed(1)] by simp
next
  case (applied row res s1)
  note row = change_request_get [OF applied(2)]
  have keys1: "keys_distinct gp_id (policies (se_db s1))" using keys applied(3) by simp
  show ?thesis
  proof (cases canary)
    case True
    have run1: "apply_policy_pack env ws row (load_definition (gp_definition row)) cid approver why True s1 = (Inr res, s')"
      using applied(5) True by simp
    show ?thesis
      using canary_leaves_packs [OF run1 keys1] row applied(3) active_policy_cong [OF applied(3)]
      by simp
  next
    case False
    then show ?thesis
      using apply_pack_effect [OF _ keys1, of env ws row "load_definition (gp_definition row)" cid approver why res s']
        applied row active_definition_cong [OF applied(3)] active_policy_cong [OF applied(3)]
      by (auto simp: pack_applied_def)
  qed
qed simp

section \<open>Properties\<close>

text \<open>
  C22. No untested pack ever takes effect: whatever sequence of requests, decisions, canaries,
  promotions and rollbacks runs, interleaved with other transactions and including those that
  fail half way, the effective pack of every workspace is a pack of the catalogue that passes
  all checks, and so is its canary.
\<close>

theorem effective_pack_always_tested:
  assumes "(pack_step env)\<^sup>*\<^sup>* s s'" "packs_ok env (se_db s)"
    and "get_effective_policy_pack ws (se_db s') = Inr (Some state)"
  shows "tested env (str_of state ''pack_id'' []) \<and>
    (\<forall>canary. get_policy_pack_canary ws (se_db s') = Some canary \<longrightarrow> tested env (str_of canary ''pack_id'' []))"
proof -
  have ok: "packs_ok env (se_db s')" by (rule pack_steps_ok [OF assms(1,2)])
  obtain row where row: "active_policy ''policy_pack'' ws (se_db s') = Some row"
    "str_of state ''pack_id'' [] = str_of (load_definition (gp_definition row)) ''pack_id'' []"
    using assms(3) by (auto simp: get_effective_policy_pack_def Let_def dget_or_def rbind_eq_Inr_iff split: option.split_asm)
  have "tested env (str_of canary ''pack_id'' [])" if c: "get_policy_pack_canary ws (se_db s') = Some canary" for canary
  proof -
    obtain crow where "active_policy ''policy_pack_canary'' ws (se_db s') = Some crow"
      "str_of canary ''pack_id'' [] = str_of (load_definition (gp_definition crow)) ''pack_id'' []"
      using c by (auto simp: get_policy_pack_canary_def Let_def dget_or_def)
    then show ?thesis using get_pack_row [OF _ ok] active_policy_Some by (fastforce simp: pack_row_ok_def Let_def)
  qed
  then show ?thesis
    using get_pack_row [OF row(1) ok] active_policy_Some [OF row(1)] row(2) by (simp add: pack_row_ok_def Let_def)
qed

text \<open>
  A review decision, in its transaction, changes an effective pack only by approving a staged
  request of that very workspace, and then sets exactly the requested pack with the next version
  number and the replaced pack as its predecessor, leaves every other workspace and every canary
  alone and marks the request applied.
\<close>

theorem decision_changes_pack_by_approval:
  assumes "in_transaction (decide_policy_pack_change env ws cid approver v why canary) s = (r, s')"
    and "keys_distinct gp_id (policies (se_db s))"
    and "active_policy ''policy_pack'' ws' (se_db s') \<noteq> active_policy ''policy_pack'' ws' (se_db s)"
  shows "ws' = ws \<and> \<not> canary \<and> lower (strip v) = ''approve'' \<and> (\<exists>row version.
    change_request_row ''policy_pack_change_request'' ws cid (se_db s) = Some row \<and>
    pack_applied env ws (load_definition (gp_definition row)) version (se_db s) (se_db s') \<and>
    map_option gp_status (tbl_get gp_id cid (policies (se_db s'))) = Some ''applied'')"
proof (cases r)
  case (Inl e)
  with assms show ?thesis using in_transaction_Inl by metis
next
  case (Inr x)
  have ap: "normalized_decision v = ''approve'' \<Longrightarrow> lower (strip v) = ''approve''"
    by (auto simp: normalized_decision_def Let_def split: if_split_asm)
  show ?thesis
    using decision_effect [OF assms(1)[unfolded Inr in_transaction_Inr] assms(2)] assms(3) ap
    by (auto simp: pack_applied_def Let_def)
qed

text \<open>
  A rollback undoes an approval: after a pack was applied over an earlier effective one, a
  rollback of the workspace succeeds and makes the earlier pack, with its checksum, effective
  again, under the version number after the next, with the undone pack as predecessor.
\<close>

theorem rollback_undoes_approval:
  assumes "pack_applied env ws staged version d (se_db s)" "packs_ok env d"
    and "active_definition ''policy_pack'' ws d = old"
    and "str_of old ''pack_id'' [] \<noteq> []"
    and "strip (str_of old ''pack_checksum'' []) = str_of old ''pack_checksum'' []" "str_of old ''pack_checksum'' [] \<noteq> []"
  shows "\<exists>out s'. rollback_policy_pack ws s = (Inr out, s') \<and>
    active_definition ''policy_pack'' ws (se_db s') =
      next_pack_state ws (str_of old ''pack_id'' []) (str_of old ''pack_checksum'' []) (version + 2)
        (active_definition ''policy_pack'' ws (se_db s))"
proof -
  let ?new = "next_pack_state ws (strip (str_of staged ''requested_pack_id'' []))
     (str_of staged ''requested_pack_checksum'' []) (version + 1) old"
  obtain row where row: "active_policy ''policy_pack'' ws (se_db s) = Some row"
    "gp_definition row = Some (PDict ?new)"
    using assms(1,3) by (auto simp: pack_applied_def Let_def)
  have "strip (str_of old ''pack_id'' []) = str_of old ''pack_id'' []"
    using active_pack_ok [OF assms(2), of ws] assms(3,4) tested_strip by auto
  moreover have "str_of ?new ''previous_pack_id'' [] = str_of old ''pack_id'' []"
    "str_of ?new ''previous_pack_checksum'' [] = str_of old ''pack_checksum'' []"
    "dget_or ?new ''version'' (PInt 0) = PInt (version + 1)"
    by (simp_all add: next_pack_state_def dget_or_def)
  moreover have "py_int (PInt (version + 1)) = Inr (version + 1)" by simp
  ultimately have "rollback_policy_pack ws s = (Inr [(''status'', PStr ''rolled_back''), (''effective_policy_pack'',
      PDict (next_pack_state ws (str_of old ''pack_id'' []) (str_of old ''pack_checksum'' []) (version + 2) ?new))],
     s\<lparr>se_db := (se_db s)\<lparr>policies := tbl_put gp_id (row\<lparr>gp_definition := Some (PDict
      (next_pack_state ws (str_of old ''pack_id'' []) (str_of old ''pack_checksum'' []) (version + 2) ?new))\<rparr>)
      (policies (se_db s))\<rparr>\<rparr>)"
    using row assms(4-6) by (simp add: rollback_policy_pack_def tbind_def tread_def tres_def tpure_def put_policy_def tmodify_def Let_def
        add.commute add.left_commute)
  moreover have "active_definition ''policy_pack'' ws ((se_db s)\<lparr>policies := tbl_put gp_id (row\<lparr>gp_definition := Some (PDict
      (next_pack_state ws (str_of old ''pack_id'' []) (str_of old ''pack_checksum'' []) (version + 2) ?new))\<rparr>)
      (policies (se_db s))\<rparr>) = next_pack_state ws (str_of old ''pack_id'' []) (str_of old ''pack_checksum'' []) (version + 2) ?new"
    unfolding active_definition_def
    by (subst active_policy_put [OF row(1)]) (use active_policy_Some [OF row(1)] in simp_all)
  moreover have "active_definition ''policy_pack'' ws (se_db s) = ?new"
    using row by (simp add: active_definition_def)
  ultimately show ?thesis by auto
qed

section \<open>A concrete run\<close>

lemma run_of_fst: "fst p = x \<Longrightarrow> p = (x, snd p)"
  by (cases p) simp

definition demo_pack :: "string \<Rightarrow> pyval" where
  "demo_pack pack_id = PDict [(''id'', PStr pack_id),
     (''template_actor'', PDict [(''actor_type'', PStr ''human''), (''roles'', PList [PStr ''analyst''])])]"

definition demo_cp_env :: cp_env where
  "demo_cp_env = \<lparr>ce_fresh = (\<lambda>n. ''id'' @ replicate n (CHR ''x'')),
     ce_evidence = \<lparr>ee_digest = id, ee_hexdigest = rev, ee_loads = (\<lambda>_. None),
       ee_crypto = \<lparr>cc_enabled = False, cc_key_id = ''v1'', cc_key_material = ''secret''\<rparr>\<rparr>,
     ce_packs = PList [demo_pack ''p1'', demo_pack ''p2''], ce_now = 1000,
     ce_dir = (\<lambda>_. Directory), ce_sign = (\<lambda>_. ''sig'')\<rparr>"

definition demo_workspace :: workspace where
  "demo_workspace = \<lparr>ws_id = ''w'', ws_name = ''demo'', ws_profile = ''local'', ws_security_baseline = ''standard''\<rparr>"

definition demo_session :: cp_session where
  "demo_session = \<lparr>se_db = empty_db\<lparr>workspaces := [demo_workspace]\<rparr>, se_next = 0, se_evidence = [], se_artifacts = [], se_reports = [],
     se_gold = gold_store_empty, se_contracts = [], se_emitted = [], se_secrets = [], se_files = [], se_json = [], se_ticks = 0\<rparr>"

definition requested_session :: cp_session where
  "requested_session = snd (in_transaction (request_policy_pack_change demo_cp_env ''w'' ''user:ann'' ''p1'') demo_session)"

definition approved_session :: cp_session where
  "approved_session = snd (in_transaction
     (decide_policy_pack_change demo_cp_env ''w'' ''idxx'' ''user:bob'' ''Approve '' ''fine'' False) requested_session)"

lemma demo_request_id: "map gp_id (policies (se_db requested_session)) = [''idxx''] \<and>
    map gp_type (policies (se_db requested_session)) = [''policy_pack_change_request'']"
  by code_simp

lemma demo_approved:
  "map_option (\<lambda>r. gp_definition r) (active_policy ''policy_pack'' ''w'' (se_db approved_session)) =
     Some (Some (PDict (next_pack_state ''w'' ''p1'' (pack_checksum demo_cp_env (as_dict (demo_pack ''p1''))) 1 [])))"
  by code_simp

lemma demo_steps: "(pack_step demo_cp_env)\<^sup>*\<^sup>* demo_session approved_session"
proof -
  have "pack_step demo_cp_env demo_session requested_session"
    unfolding requested_session_def
    by (rule requested [OF prod.collapse [symmetric]])
  moreover have "pack_step demo_cp_env requested_session approved_session"
    unfolding approved_session_def
    by (rule decided [OF prod.collapse [symmetric]])
  ultimately show ?thesis by (rule converse_rtranclp_into_rtranclp [OF _ r_into_rtranclp])
qed

theorem effective_pack_always_tested_witness: "tested demo_cp_env ''p1''"
proof -
  obtain row where row: "active_policy ''policy_pack'' ''w'' (se_db approved_session) = Some row"
    "gp_definition row = Some (PDict (next_pack_state ''w'' ''p1'' (pack_checksum demo_cp_env (as_dict (demo_pack ''p1''))) 1 []))"
    using demo_approved by auto
  obtain state where "get_effective_policy_pack ''w'' (se_db approved_session) = Inr (Some state)"
    "str_of state ''pack_id'' [] = ''p1''"
    using row by (simp add: get_effective_policy_pack_def next_pack_state_def dget_or_def Let_def coerce_int_def)
  moreover have "packs_ok demo_cp_env (se_db demo_session)"
    by (simp add: packs_ok_def demo_session_def empty_db_def)
  ultimately show ?thesis using effective_pack_always_tested [OF demo_steps] by metis
qed

theorem decision_changes_pack_by_approval_witness:
  "\<exists>row version. change_request_row ''policy_pack_change_request'' ''w'' ''idxx'' (se_db requested_session) = Some row \<and>
    pack_applied demo_cp_env ''w'' (load_definition (gp_definition row)) version (se_db requested_session) (se_db approved_session)"
proof -
  have "in_transaction (decide_policy_pack_change demo_cp_env ''w'' ''idxx'' ''user:bob'' ''Approve '' ''fine'' False)
      requested_session = (fst (in_transaction (decide_policy_pack_change demo_cp_env ''w'' ''idxx'' ''user:bob''
        ''Approve '' ''fine'' False) requested_session), approved_session)"
    by (simp add: approved_session_def)
  moreover have "keys_distinct gp_id (policies (se_db requested_session))"
    using demo_request_id by (simp add: keys_distinct_def)
  moreover have "active_policy ''policy_pack'' ''w'' (se_db requested_session) = None"
    using demo_request_id by (auto simp: active_policy_def tbl_first_None)
  then have "active_policy ''policy_pack'' ''w'' (se_db approved_session) \<noteq>
      active_policy ''policy_pack'' ''w'' (se_db requested_session)"
    using demo_approved by auto
  ultimately show ?thesis using decision_changes_pack_by_approval by blast
qed

text \<open>A workspace on its first pack, and the same after the second was applied.\<close>

definition first_pack :: pydict where
  "first_pack = next_pack_state ''w'' ''p1'' ''c1'' 1 []"

definition with_pack :: "pydict \<Rightarrow> db" where
  "with_pack v = empty_db\<lparr>policies := [policy_row ''k'' ''w'' ''policy_pack'' v ''active'']\<rparr>"

definition demo_staged :: pydict where
  "demo_staged = [(''requested_pack_id'', PStr ''p2''), (''requested_pack_checksum'', PStr ''c2'')]"

definition second_pack :: pydict where
  "second_pack = next_pack_state ''w'' ''p2'' ''c2'' 2 first_pack"

lemma active_with_pack:
  "active_policy ty ws (with_pack v) =
     (if ty = ''policy_pack'' \<and> ws = ''w'' then Some (policy_row ''k'' ''w'' ''policy_pack'' v ''active'') else None)"
  by (auto simp: with_pack_def active_policy_def tbl_first_def)

lemma demo_tested: "tested demo_cp_env ''p1'' \<and> tested demo_cp_env ''p2''"
proof -
  have "strip ''p1'' = ''p1'' \<and> strip ''p2'' = ''p2'' \<and>
    load_policy_pack demo_cp_env ''p1'' = Inr (as_dict (demo_pack ''p1'')) \<and>
    load_policy_pack demo_cp_env ''p2'' = Inr (as_dict (demo_pack ''p2'')) \<and>
    evaluate_policy_pack_invariants (as_dict (demo_pack ''p1'')) = [] \<and>
    evaluate_policy_pack_invariants (as_dict (demo_pack ''p2'')) = []"
    by code_simp
  then show ?thesis by (simp add: tested_def)
qed

theorem rollback_undoes_approval_witness:
  "\<exists>out s'. rollback_policy_pack ''w'' \<lparr>se_db = with_pack second_pack, se_next = 0, se_evidence = [], se_artifacts = [], se_reports = [],
     se_gold = gold_store_empty, se_contracts = [], se_emitted = [], se_secrets = [], se_files = [], se_json = [], se_ticks = 0\<rparr> = (Inr out, s') \<and>
    active_definition ''policy_pack'' ''w'' (se_db s') = next_pack_state ''w'' ''p1'' ''c1'' 3 second_pack"
proof -
  let ?s = "\<lparr>se_db = with_pack second_pack, se_next = 0, se_evidence = [], se_artifacts = [], se_reports = [],
     se_gold = gold_store_empty, se_contracts = [], se_emitted = [], se_secrets = [], se_files = [], se_json = [], se_ticks = 0\<rparr> :: cp_session"
  have old: "active_definition ''policy_pack'' ''w'' (with_pack first_pack) = first_pack"
    and new: "active_definition ''policy_pack'' ''w'' (se_db ?s) = second_pack"
    by (simp_all add: active_definition_def active_with_pack)
  have stripped: "strip ''p2'' = ''p2''" "strip ''c1'' = ''c1''" by code_simp+
  have f: "str_of first_pack ''pack_id'' [] = ''p1''" "str_of first_pack ''pack_checksum'' [] = ''c1''"
    "str_of first_pack ''previous_pack_id'' [] = []" "dget_or first_pack ''version'' (PInt 0) = PInt 1"
    "str_of demo_staged ''requested_pack_id'' [] = ''p2''" "str_of demo_staged ''requested_pack_checksum'' [] = ''c2''"
    by (simp_all add: first_pack_def demo_staged_def next_pack_state_def dget_or_def)
  have "pack_applied demo_cp_env ''w'' demo_staged 1 (with_pack first_pack) (se_db ?s)"
    using demo_tested old f stripped by (simp add: pack_applied_def active_with_pack second_pack_def Let_def)
  moreover have "packs_ok demo_cp_env (with_pack first_pack)"
    using demo_tested f by (simp add: packs_ok_def with_pack_def pack_row_ok_def Let_def)
  ultimately show ?thesis
    using rollback_undoes_approval [OF _ _ old, of demo_cp_env demo_staged 1 ?s] f stripped new by simp
qed

end
