(* ===== verification/SemanticService.thy ===== *)
theory SemanticService
  imports PackEffects SemanticBinding
begin

text \<open>
  The life cycle of semantic manifests (\<open>backend/control_plane/semantic_manifest_service.py\<close>):
  requests, their review, the effective manifest and its rollback, on the governance policies;
  and its composition with the gateway, which binds queries against the active manifest.
\<close>

section \<open>Operations\<close>

definition semantic_manifest_checksum :: "cp_env \<Rightarrow> manifest \<Rightarrow> string" where
  "semantic_manifest_checksum env m = ee_hexdigest (ce_evidence env) (json_dumps (PDict (manifest_py m)))"

definition validated_manifest :: "pydict \<Rightarrow> string \<Rightarrow> manifest res" where
  "validated_manifest raw workspace_id =
     (case validate_semantic_manifest raw (Some workspace_id) of
        Inl (ValueError m) \<Rightarrow> Inl (denied [(''reason'', PStr ''invalid_semantic_manifest''), (''error'', PStr m)])
      | r \<Rightarrow> r)"

definition get_effective_semantic_manifest :: "cp_env \<Rightarrow> string \<Rightarrow> db \<Rightarrow> pydict option res" where
  "get_effective_semantic_manifest env workspace_id d =
     (case active_policy ''semantic_manifest'' workspace_id d of
        None \<Rightarrow> Inr None
      | Some active_row \<Rightarrow>
          (let state = load_definition (gp_definition active_row)
           in case dget_or state ''manifest'' PNone of
                PDict raw \<Rightarrow>
                  rbind (validated_manifest raw workspace_id) (\<lambda>m.
                  let checksum = strip (str_of state ''manifest_checksum'' [])
                  in rbind (coerce_int (dget_or state ''version'' PNone) 1) (\<lambda>version.
                     Inr (Some [(''workspace_id'', PStr workspace_id), (''manifest'', PDict (manifest_py m)),
                       (''manifest_checksum'', PStr (if checksum = [] then semantic_manifest_checksum env m else checksum)),
                       (''version'', PInt version),
                       (''previous_manifest_checksum'', PStr (str_of state ''previous_manifest_checksum'' []))])))
              | _ \<Rightarrow> Inr None))"

definition request_semantic_manifest_change :: "cp_env \<Rightarrow> string \<Rightarrow> string \<Rightarrow> pydict \<Rightarrow> pydict tx" where
  "request_semantic_manifest_change env workspace_id requester_actor_id semantic_manifest =
     tbind (require_workspace workspace_id) (\<lambda>_.
     tbind (tres (validated_manifest semantic_manifest workspace_id)) (\<lambda>m.
     tbind (tread (get_effective_semantic_manifest env workspace_id)) (\<lambda>current_res.
     tbind (tres current_res) (\<lambda>current.
     let checksum = semantic_manifest_checksum env m
     in if (case current of None \<Rightarrow> False | Some c \<Rightarrow> py_str (dget_or c ''manifest_checksum'' PNone) = checksum)
        then traise (denied [(''reason'', PStr ''semantic_manifest_already_active'')])
        else tbind (store_bundle env workspace_id ''semantic_manifest_change''
           [(''workspace_id'', PStr workspace_id), (''requested_manifest'', PDict (manifest_py m)),
            (''requested_manifest_checksum'', PStr checksum), (''current_manifest'', opt_dict current)])
        (\<lambda>stored.
     tbind (create_proposal env workspace_id ''semantic_manifest_change_proposal'' (sb_uri stored) (PFloat ''1.0'' (Some 1)))
        (\<lambda>proposal.
     tbind (create_review_task env workspace_id (pr_id proposal) ''quality_critical'' True) (\<lambda>review_task.
     tbind (issue_id env) (\<lambda>change_request_id.
     let change_request =
        [(''change_request_id'', PStr change_request_id), (''workspace_id'', PStr workspace_id),
         (''manifest_checksum'', PStr checksum), (''requester_actor_id'', PStr requester_actor_id),
         (''proposal_id'', PStr (pr_id proposal)), (''review_task_id'', PStr (tk_id review_task)),
         (''semantic_manifest'', PDict (manifest_py m)), (''status'', PStr ''staged'')]
     in tbind (add_policy (policy_row change_request_id workspace_id ''semantic_manifest_change_request''
                 change_request ''staged''))
          (\<lambda>_. tpure change_request)))))))))"

definition next_manifest_state :: "cp_env \<Rightarrow> string \<Rightarrow> manifest \<Rightarrow> int \<Rightarrow> pydict \<Rightarrow> pydict" where
  "next_manifest_state env workspace_id m version active =
     [(''workspace_id'', PStr workspace_id), (''manifest'', PDict (manifest_py m)),
      (''manifest_checksum'', PStr (semantic_manifest_checksum env m)), (''version'', PInt version),
      (''previous_manifest'', dget_or active ''manifest'' PNone),
      (''previous_manifest_checksum'', dget_or active ''manifest_checksum'' PNone)]"

definition apply_semantic_manifest ::
  "cp_env \<Rightarrow> string \<Rightarrow> governance_policy \<Rightarrow> pydict \<Rightarrow> string \<Rightarrow> string \<Rightarrow> string \<Rightarrow> pydict tx" where
  "apply_semantic_manifest env workspace_id staged_row staged change_request_id approver reason =
     (case dget_or staged ''semantic_manifest'' (PDict []) of
        PDict raw \<Rightarrow>
          tbind (tres (validated_manifest raw workspace_id)) (\<lambda>m.
          tbind (tread (active_definition ''semantic_manifest'' workspace_id)) (\<lambda>active.
          tbind (tres (coerce_int (dget_or active ''version'' PNone) 0)) (\<lambda>version.
          let next_state = next_manifest_state env workspace_id m (version + 1) active
          in tbind (upsert_active env ''semantic_manifest'' workspace_id next_state) (\<lambda>_.
             tbind (rewrite_policy staged_row (close_staged staged ''applied'' approver reason) ''applied'') (\<lambda>_.
             tpure [(''change_request_id'', PStr change_request_id), (''status'', PStr ''applied''),
                    (''effective_semantic_manifest'', PDict next_state)])))))
      | _ \<Rightarrow> traise (denied [(''reason'', PStr ''invalid_semantic_manifest_request'')]))"

definition decide_semantic_manifest_change ::
  "cp_env \<Rightarrow> string \<Rightarrow> string \<Rightarrow> string \<Rightarrow> string \<Rightarrow> string \<Rightarrow> pydict option tx" where
  "decide_semantic_manifest_change env workspace_id change_request_id approver verdict_text reason =
     tbind (tread (change_request_row ''semantic_manifest_change_request'' workspace_id change_request_id)) (\<lambda>found.
     case found of
       None \<Rightarrow> tpure None
     | Some staged_row \<Rightarrow>
         (let staged = load_definition (gp_definition staged_row); verdict = normalized_decision verdict_text
          in tbind (decide_linked_task env workspace_id (str_of staged ''review_task_id'' []) approver verdict reason) (\<lambda>_.
             if verdict \<noteq> ''approve''
             then let status = (if verdict = ''reject'' then ''rejected'' else ''deferred'');
                      closed = close_staged staged status approver reason
                  in tbind (rewrite_policy staged_row closed status) (\<lambda>_. tpure (Some closed))
             else tbind (apply_semantic_manifest env workspace_id staged_row staged change_request_id approver reason)
                    (\<lambda>result. tpure (Some result)))))"

definition rollback_semantic_manifest :: "cp_env \<Rightarrow> string \<Rightarrow> pydict tx" where
  "rollback_semantic_manifest env workspace_id =
     tbind (tread (active_policy ''semantic_manifest'' workspace_id)) (\<lambda>found.
     case found of
       None \<Rightarrow> traise (denied [(''reason'', PStr ''semantic_manifest_not_configured'')])
     | Some active_row \<Rightarrow>
         (let active = load_definition (gp_definition active_row)
          in case dget_or active ''previous_manifest'' PNone of
               PDict raw \<Rightarrow>
                 tbind (tres (validated_manifest raw workspace_id)) (\<lambda>m.
                 tbind (tres (coerce_int (dget_or active ''version'' PNone) 0)) (\<lambda>version.
                 let rollback_state = next_manifest_state env workspace_id m (version + 1) active
                 in tbind (put_policy (active_row\<lparr>gp_definition := Some (PDict rollback_state)\<rparr>)) (\<lambda>_.
                    tpure [(''status'', PStr ''rolled_back''), (''effective_semantic_manifest'', PDict rollback_state)])))
             | _ \<Rightarrow> traise (denied [(''reason'', PStr ''semantic_manifest_rollback_unavailable'')])))"

section \<open>Only valid manifests are kept\<close>

definition stored_manifest :: "string \<Rightarrow> pyval \<Rightarrow> bool" where
  "stored_manifest ws v \<longleftrightarrow> (\<exists>m. v = PDict (manifest_py m) \<and> manifest_ok m \<and> mf_workspace m = ws)"

definition manifest_row_ok :: "governance_policy \<Rightarrow> bool" where
  "manifest_row_ok row \<longleftrightarrow> (gp_type row = ''semantic_manifest'' \<longrightarrow>
     (\<exists>state. gp_definition row = Some (PDict state) \<and>
        stored_manifest (gp_workspace row) (dget_or state ''manifest'' PNone)))"

definition manifests_ok :: "db \<Rightarrow> bool" where
  "manifests_ok d \<longleftrightarrow> (\<forall>row \<in> set (policies d). manifest_row_ok row)"

lemma validated_Inr: "validated_manifest raw ws = Inr m \<Longrightarrow> validate_semantic_manifest raw (Some ws) = Inr m"
  by (auto simp: validated_manifest_def split: sum.split_asm exn.split_asm)

lemma next_manifest_ok:
  assumes "validated_manifest raw ws = Inr m"
  shows "manifest_row_ok (policy_row k ws ''semantic_manifest'' (next_manifest_state env ws m v active) st)"
proof -
  have "manifest_ok m \<and> mf_workspace m = ws" using validate_ok [OF validated_Inr [OF assms]] by auto
  then show ?thesis
    by (auto simp: manifest_row_ok_def stored_manifest_def next_manifest_state_def dget_or_def)
qed

lemma manifests_ok_cong: "policies d' = policies d \<Longrightarrow> manifests_ok d' = manifests_ok d"
  by (simp add: manifests_ok_def)

lemma add_manifest_ok: "manifest_row_ok row \<Longrightarrow> tkeeps manifests_ok (add_policy row)"
  unfolding add_policy_def
  by (rule tkeeps_change) (auto simp: manifests_ok_def rbind_eq_Inr_iff tbl_add_Inr_iff)

lemma put_manifest_ok: "manifest_row_ok row \<Longrightarrow> tkeeps manifests_ok (put_policy row)"
  unfolding put_policy_def
  by (rule tkeeps_modify) (use set_tbl_put_subset in \<open>fastforce simp: manifests_ok_def\<close>)

lemma other_manifest_ok: "gp_type row \<noteq> ''semantic_manifest'' \<Longrightarrow> manifest_row_ok row"
  by (simp add: manifest_row_ok_def)

lemma upsert_manifest_ok:
  assumes "manifest_row_ok (policy_row [] ws ''semantic_manifest'' payload ''active'')"
  shows "tkeeps manifests_ok (upsert_active env ''semantic_manifest'' ws payload)"
  unfolding upsert_active_def rewrite_policy_def
proof (rule tkeeps_read_bind, goal_cases)
  case (1 d)
  have "manifest_row_ok row" if "gp_type row = ''semantic_manifest''" "gp_workspace row = ws" "gp_definition row = Some (PDict payload)" for row
    using assms that by (simp add: manifest_row_ok_def)
  then show ?case
    using active_policy_Some [of "''semantic_manifest''" ws d]
    by (auto intro!: tkeeps_bind tkeeps_issue add_manifest_ok put_manifest_ok split: option.split)
qed

lemma manifests_ok_review: "manifests_ok d \<Longrightarrow> manifests_ok (d\<lparr>proposals := ps, tasks := ts, approvals := aps\<rparr>)"
  by (simp add: manifests_ok_def)

lemma rewrite_other_manifest_ok:
  "gp_type row \<noteq> ''semantic_manifest'' \<Longrightarrow> tkeeps manifests_ok (rewrite_policy row v st)"
  unfolding rewrite_policy_def by (rule put_manifest_ok) (simp add: other_manifest_ok)

lemma decide_linked_manifest_ok: "tkeeps manifests_ok (decide_linked_task env ws tid actor v why)"
  unfolding decide_linked_task_def
  by (auto intro!: tkeeps_intros review_keeps manifests_ok_review)

lemma request_manifest_ok: "tkeeps manifests_ok (request_semantic_manifest_change env ws actor raw)"
  unfolding request_semantic_manifest_change_def Let_def
  by (auto intro!: tkeeps_intros require_workspace_ok review_keeps manifests_ok_review add_manifest_ok other_manifest_ok)

lemma apply_manifest_ok:
  assumes "gp_type row \<noteq> ''semantic_manifest''"
  shows "tkeeps manifests_ok (apply_semantic_manifest env ws row staged cid approver why)"
proof (cases "dget_or staged ''semantic_manifest'' (PDict [])")
  case (PDict raw)
  then show ?thesis
    unfolding apply_semantic_manifest_def Let_def
    by simp (rule tkeeps_res_bind, intro tkeeps_bind tkeeps_read tkeeps_res tkeeps_pure upsert_manifest_ok
        rewrite_other_manifest_ok next_manifest_ok assms)
qed (simp_all add: apply_semantic_manifest_def tkeeps_raise)

lemma decide_manifest_ok: "tkeeps manifests_ok (decide_semantic_manifest_change env ws cid approver v why)"
  unfolding decide_semantic_manifest_change_def Let_def
proof (rule tkeeps_read_bind, goal_cases)
  case (1 d)
  show ?case
    using change_request_Some [of "''semantic_manifest_change_request''" ws cid d]
    by (auto intro!: tkeeps_intros decide_linked_manifest_ok rewrite_other_manifest_ok apply_manifest_ok split: option.split)
qed

lemma rollback_manifest_ok: "tkeeps manifests_ok (rollback_semantic_manifest env ws)"
  unfolding rollback_semantic_manifest_def Let_def
proof (rule tkeeps_read_bind, goal_cases)
  case (1 d)
  have put: "tkeeps manifests_ok (put_policy (row\<lparr>gp_definition := Some (PDict (next_manifest_state env ws m v active))\<rparr>))"
    if "active_policy ''semantic_manifest'' ws d = Some row" "validated_manifest raw ws = Inr m" for row raw m v active
    using next_manifest_ok [OF that(2), of "[]" env v active "[]"] active_policy_Some [OF that(1)]
    by (intro put_manifest_ok) (simp add: manifest_row_ok_def)
  show ?case
  proof (cases "active_policy ''semantic_manifest'' ws d")
    case (Some row)
    show ?thesis
    proof (cases "dget_or (load_definition (gp_definition row)) ''previous_manifest'' PNone")
      case (PDict raw)
      then show ?thesis
        using Some by simp (rule tkeeps_res_bind, intro tkeeps_bind tkeeps_res tkeeps_pure put)
    qed (use Some in \<open>simp_all add: tkeeps_raise\<close>)
  qed (simp add: tkeeps_raise)
qed

inductive manifest_step :: "cp_env \<Rightarrow> cp_session \<Rightarrow> cp_session \<Rightarrow> bool" for env where
  manifest_requested: "in_transaction (request_semantic_manifest_change env ws actor raw) s = (r, s') \<Longrightarrow>
    manifest_step env s s'"
| manifest_decided: "in_transaction (decide_semantic_manifest_change env ws cid approver verdict reason) s = (r, s') \<Longrightarrow>
    manifest_step env s s'"
| manifest_rolled_back: "in_transaction (rollback_semantic_manifest env ws) s = (r, s') \<Longrightarrow> manifest_step env s s'"
| manifest_untouched: "policies (se_db s') = policies (se_db s) \<Longrightarrow> manifest_step env s s'"

lemma manifest_step_ok: "manifest_step env s s' \<Longrightarrow> manifests_ok (se_db s) \<Longrightarrow> manifests_ok (se_db s')"
proof (induction rule: manifest_step.induct)
  case (manifest_untouched s' s)
  then show ?case using manifests_ok_cong by blast
qed (rule tkeepsD [OF tkeeps_transaction [OF request_manifest_ok]] tkeepsD [OF tkeeps_transaction [OF decide_manifest_ok]]
    tkeepsD [OF tkeeps_transaction [OF rollback_manifest_ok]]; assumption)+

lemma manifest_steps_ok: "(manifest_step env)\<^sup>*\<^sup>* s s' \<Longrightarrow> manifests_ok (se_db s) \<Longrightarrow> manifests_ok (se_db s')"
  by (induction rule: rtranclp_induct) (auto intro: manifest_step_ok)

section \<open>What the gateway binds\<close>

lemma load_state_active:
  "load_active_semantic_state d ws = (case active_policy ''semantic_manifest'' ws d of None \<Rightarrow> None
     | Some row \<Rightarrow> (case gp_definition row of Some (PDict payload) \<Rightarrow> Some payload | _ \<Rightarrow> None))"
  by (simp add: load_active_semantic_state_def active_policy_def)

lemma active_manifest_stored:
  assumes "active_policy ''semantic_manifest'' ws d = Some row" "gp_definition row = Some (PDict state)"
    and "dget_or state ''manifest'' PNone = PDict (manifest_py m)" "manifest_ok m" "mf_workspace m = ws"
  shows "active_manifest d ws = Inr (state, m)"
proof -
  have "dget state ''manifest'' = Some (PDict (manifest_py m))"
    using assms(3) by (auto simp: dget_or_def dget_def split: option.split_asm)
  moreover have "validate_semantic_manifest (manifest_py m) (Some ws) = Inr m"
    using assms(4,5) by (intro validate_manifest_py) auto
  ultimately show ?thesis using assms(1,2) by (simp add: active_manifest_def load_state_active)
qed

lemma active_manifest_cong:
  "active_policy ''semantic_manifest'' ws d' = active_policy ''semantic_manifest'' ws d \<Longrightarrow>
     active_manifest d' ws = active_manifest d ws"
  by (simp add: active_manifest_def load_state_active)

lemma apply_manifest_effect:
  assumes run: "apply_semantic_manifest env ws row staged cid approver why s = (Inr res, s')"
    and keys: "keys_distinct gp_id (policies (se_db s))"
    and row: "tbl_get gp_id cid (policies (se_db s)) = Some row" "gp_type row = ''semantic_manifest_change_request''"
  shows "\<exists>raw m version. dget_or staged ''semantic_manifest'' (PDict []) = PDict raw \<and>
    validate_semantic_manifest raw (Some ws) = Inr m \<and>
    active_manifest (se_db s') ws =
      Inr (next_manifest_state env ws m (version + 1) (active_definition ''semantic_manifest'' ws (se_db s)), m) \<and>
    coerce_int (dget_or (active_definition ''semantic_manifest'' ws (se_db s)) ''version'' PNone) 0 = Inr version \<and>
    (\<forall>ws'. ws' \<noteq> ws \<longrightarrow> active_manifest (se_db s') ws' = active_manifest (se_db s) ws') \<and>
    map_option gp_status (tbl_get gp_id cid (policies (se_db s'))) = Some ''applied''"
proof -
  let ?old = "active_definition ''semantic_manifest'' ws (se_db s)"
  from run obtain raw m version s1 where
    raw: "dget_or staged ''semantic_manifest'' (PDict []) = PDict raw"
    and m: "validated_manifest raw ws = Inr m"
    and version: "coerce_int (dget_or ?old ''version'' PNone) 0 = Inr version"
    and up: "upsert_active env ''semantic_manifest'' ws (next_manifest_state env ws m (version + 1) ?old) s = (Inr (), s1)"
    and rw: "rewrite_policy row (close_staged staged ''applied'' approver why) ''applied'' s1 = (Inr (), s')"
    unfolding apply_semantic_manifest_def Let_def
    by (auto simp: tbind_Inr_iff split: pyval.split_asm)
  note u = upsert_active_effect [OF up keys]
  have row1: "tbl_get gp_id cid (policies (se_db s1)) = Some row" using u(4) [OF row(1)] row(2) by simp
  note w = rewrite_policy_effect [OF rw u(3) row1]
  have ok: "manifest_ok m" "mf_workspace m = ws" using validate_ok [OF validated_Inr [OF m]] by auto
  obtain arow where arow: "active_policy ''semantic_manifest'' ws (se_db s1) = Some arow"
    "gp_definition arow = Some (PDict (next_manifest_state env ws m (version + 1) ?old))" using u(1) by blast
  have "active_manifest (se_db s1) ws = Inr (next_manifest_state env ws m (version + 1) ?old, m)"
    by (rule active_manifest_stored [OF arow _ ok]) (simp add: next_manifest_state_def dget_or_def)
  moreover have "active_manifest (se_db s') ws' = active_manifest (se_db s1) ws'" for ws'
    using w(1) row(2) by (intro active_manifest_cong) simp
  moreover have "active_manifest (se_db s1) ws' = active_manifest (se_db s) ws'" if "ws' \<noteq> ws" for ws'
    using that u(2) by (intro active_manifest_cong) simp
  ultimately show ?thesis using raw validated_Inr [OF m] version w(3) by auto
qed

lemma decide_manifest_approved:
  assumes "decide_semantic_manifest_change env ws cid approver v why s = (Inr (Some res), s')"
    and "normalized_decision v = ''approve''"
  obtains row s1 where "change_request_row ''semantic_manifest_change_request'' ws cid (se_db s) = Some row"
    "policies (se_db s1) = policies (se_db s)"
    "apply_semantic_manifest env ws row (load_definition (gp_definition row)) cid approver why s1 = (Inr res, s')"
proof (cases "change_request_row ''semantic_manifest_change_request'' ws cid (se_db s)")
  case None
  with assms show ?thesis by (auto simp: decide_semantic_manifest_change_def tbind_Inr_iff)
next
  case (Some row)
  with assms obtain s1 where
    "decide_linked_task env ws (str_of (load_definition (gp_definition row)) ''review_task_id'' []) approver
       (normalized_decision v) why s = (Inr (), s1)"
    "apply_semantic_manifest env ws row (load_definition (gp_definition row)) cid approver why s1 = (Inr res, s')"
    by (auto simp: decide_semantic_manifest_change_def tbind_Inr_iff Let_def)
  with Some decide_linked_policies show ?thesis by (intro that)
qed

lemma active_manifest_Inr:
  assumes "active_manifest d ws = Inr (state, m)"
  obtains row raw where "active_policy ''semantic_manifest'' ws d = Some row" "gp_definition row = Some (PDict state)"
    "dget_or state ''manifest'' PNone = PDict raw" "validate_semantic_manifest raw (Some ws) = Inr m"
  using assms
  by (auto simp: active_manifest_def load_state_active dget_or_def dget_def
      split: option.split_asm pyval.split_asm sum.split_asm)

lemma rollback_binds_again:
  assumes "active_manifest (se_db s) ws = Inr (next_manifest_state env ws m version (active_definition ''semantic_manifest'' ws d), m)"
    and "active_manifest d ws = Inr (old, m0)"
  shows "\<exists>out s'' state'. rollback_semantic_manifest env ws s = (Inr out, s'') \<and>
    active_manifest (se_db s'') ws = Inr (state', m0)"
proof -
  obtain row0 raw0 where old: "active_policy ''semantic_manifest'' ws d = Some row0" "gp_definition row0 = Some (PDict old)"
    "dget_or old ''manifest'' PNone = PDict raw0" "validate_semantic_manifest raw0 (Some ws) = Inr m0"
    by (rule active_manifest_Inr [OF assms(2)])
  let ?new = "next_manifest_state env ws m version old"
  have "active_definition ''semantic_manifest'' ws d = old" using old(1,2) by (simp add: active_definition_def)
  then obtain row where row: "active_policy ''semantic_manifest'' ws (se_db s) = Some row"
    "gp_definition row = Some (PDict ?new)"
    using active_manifest_Inr [OF assms(1)] by metis
  let ?state = "next_manifest_state env ws m0 (version + 1) ?new"
  let ?row = "row\<lparr>gp_definition := Some (PDict ?state)\<rparr>"
  have f: "dget_or ?new ''previous_manifest'' PNone = PDict raw0" "dget_or ?new ''version'' PNone = PInt version"
    "dget_or ?state ''manifest'' PNone = PDict (manifest_py m0)"
    using old(3) by (simp_all add: next_manifest_state_def dget_or_def)
  have ok: "manifest_ok m0" "mf_workspace m0 = ws" using validate_ok [OF old(4)] by auto
  have run: "rollback_semantic_manifest env ws s = (Inr [(''status'', PStr ''rolled_back''),
      (''effective_semantic_manifest'', PDict ?state)],
      s\<lparr>se_db := (se_db s)\<lparr>policies := tbl_put gp_id ?row (policies (se_db s))\<rparr>\<rparr>)"
    using row f old(4)
    by (simp add: rollback_semantic_manifest_def validated_manifest_def tbind_def tread_def tres_def tpure_def
        put_policy_def tmodify_def Let_def coerce_int_def)
  have "active_policy ''semantic_manifest'' ws ((se_db s)\<lparr>policies := tbl_put gp_id ?row (policies (se_db s))\<rparr>) = Some ?row"
    by (rule active_policy_put [OF row(1)]) (use active_policy_Some [OF row(1)] in simp_all)
  from active_manifest_stored [OF this _ f(3) ok] run show ?thesis by auto
qed

section \<open>Properties\<close>

text \<open>
  C23. The control plane never leaves the gateway with an invalid manifest: after any sequence of
  manifest requests, decisions and rollbacks, completed or failed, the active manifest of every
  workspace that has one is accepted by the gateway, is well formed and is of that workspace.
\<close>

theorem active_manifest_always_binds:
  assumes "(manifest_step env)\<^sup>*\<^sup>* s s'" "manifests_ok (se_db s)"
    and "active_policy ''semantic_manifest'' ws (se_db s') = Some row"
  shows "\<exists>state m. active_manifest (se_db s') ws = Inr (state, m) \<and> manifest_ok m \<and> mf_workspace m = ws"
proof -
  have "manifests_ok (se_db s')" by (rule manifest_steps_ok [OF assms(1,2)])
  then obtain state m where "gp_definition row = Some (PDict state)"
    "dget_or state ''manifest'' PNone = PDict (manifest_py m)" "manifest_ok m" "mf_workspace m = ws"
    using active_policy_Some [OF assms(3)] by (auto simp: manifests_ok_def manifest_row_ok_def stored_manifest_def)
  with active_manifest_stored [OF assms(3)] show ?thesis by blast
qed

text \<open>
  An approved manifest is what the gateway binds: after an approval the gateway's active manifest
  of the workspace is the normal form of the manifest that was staged, every other workspace
  still binds what it bound, and the request is marked applied. A rollback right after it, when
  the workspace had a valid manifest before, makes the gateway bind that earlier manifest again.
\<close>

theorem approved_manifest_is_bound:
  assumes "decide_semantic_manifest_change env ws cid approver v why s = (Inr (Some res), s')"
    and "normalized_decision v = ''approve''" "keys_distinct gp_id (policies (se_db s))"
  shows "\<exists>row raw m state. change_request_row ''semantic_manifest_change_request'' ws cid (se_db s) = Some row \<and>
    dget_or (load_definition (gp_definition row)) ''semantic_manifest'' (PDict []) = PDict raw \<and>
    validate_semantic_manifest raw (Some ws) = Inr m \<and> active_manifest (se_db s') ws = Inr (state, m) \<and>
    map_option gp_status (tbl_get gp_id cid (policies (se_db s'))) = Some ''applied'' \<and>
    (\<forall>ws'. ws' \<noteq> ws \<longrightarrow> active_manifest (se_db s') ws' = active_manifest (se_db s) ws') \<and>
    (\<forall>old m0. active_manifest (se_db s) ws = Inr (old, m0) \<longrightarrow>
       (\<exists>out s'' state'. rollback_semantic_manifest env ws s' = (Inr out, s'') \<and>
          active_manifest (se_db s'') ws = Inr (state', m0)))"
proof -
  obtain row s1 where row: "change_request_row ''semantic_manifest_change_request'' ws cid (se_db s) = Some row"
    and s1: "policies (se_db s1) = policies (se_db s)"
    and ap: "apply_semantic_manifest env ws row (load_definition (gp_definition row)) cid approver why s1 = (Inr res, s')"
    by (rule decide_manifest_approved [OF assms(1,2)]) (rule that; assumption)
  have same: "active_manifest (se_db s1) x = active_manifest (se_db s) x" for x
    by (intro active_manifest_cong active_policy_cong s1)
  note eff = apply_manifest_effect [OF ap]
  from eff row s1 assms(3) change_request_get [OF row] obtain raw m version where
    e: "dget_or (load_definition (gp_definition row)) ''semantic_manifest'' (PDict []) = PDict raw"
      "validate_semantic_manifest raw (Some ws) = Inr m"
      "active_manifest (se_db s') ws = Inr (next_manifest_state env ws m (version + 1)
         (active_definition ''semantic_manifest'' ws (se_db s1)), m)"
      "\<forall>ws'. ws' \<noteq> ws \<longrightarrow> active_manifest (se_db s') ws' = active_manifest (se_db s1) ws'"
      "map_option gp_status (tbl_get gp_id cid (policies (se_db s'))) = Some ''applied''"
    by auto
  have "\<exists>out s'' state'. rollback_semantic_manifest env ws s' = (Inr out, s'') \<and>
      active_manifest (se_db s'') ws = Inr (state', m0)" if old: "active_manifest (se_db s1) ws = Inr (old, m0)" for old m0
    using rollback_binds_again [OF e(3) old] by blast
  then show ?thesis using row e same by auto
qed

section \<open>A concrete run\<close>

definition manifest_requested_session :: cp_session where
  "manifest_requested_session =
     snd (in_transaction (request_semantic_manifest_change demo_cp_env ''w'' ''user:ann'' demo_manifest) demo_session)"

definition demo_approval :: "pydict option res \<times> cp_session" where
  "demo_approval = decide_semantic_manifest_change demo_cp_env ''w'' ''idxx'' ''user:bob'' ''approve'' ''fine''
     manifest_requested_session"

definition granted :: "'a option res \<times> 's \<Rightarrow> bool" where
  "granted out = (case fst out of Inr (Some _) \<Rightarrow> True | _ \<Rightarrow> False)"

lemma grantedD: "granted out \<Longrightarrow> \<exists>x. out = (Inr (Some x), snd out)"
  by (cases out) (auto simp: granted_def split: sum.split_asm option.split_asm)

lemma demo_manifest_request: "map gp_id (policies (se_db manifest_requested_session)) = [''idxx'']"
  by code_simp

lemma demo_manifest_granted: "granted demo_approval"
  by code_simp

lemma demo_manifest_normalized: "normalized_decision ''approve'' = ''approve''"
  by code_simp

lemma demo_approval_run:
  "\<exists>res. decide_semantic_manifest_change demo_cp_env ''w'' ''idxx'' ''user:bob'' ''approve'' ''fine''
     manifest_requested_session = (Inr (Some res), snd demo_approval)"
  using grantedD [OF demo_manifest_granted] unfolding demo_approval_def .

theorem approved_manifest_is_bound_witness:
  "\<exists>row raw m state. change_request_row ''semantic_manifest_change_request'' ''w'' ''idxx''
      (se_db manifest_requested_session) = Some row \<and>
    dget_or (load_definition (gp_definition row)) ''semantic_manifest'' (PDict []) = PDict raw \<and>
    validate_semantic_manifest raw (Some ''w'') = Inr m \<and>
    active_manifest (se_db (snd demo_approval)) ''w'' = Inr (state, m)"
proof -
  obtain res where run: "decide_semantic_manifest_change demo_cp_env ''w'' ''idxx'' ''user:bob'' ''approve'' ''fine''
     manifest_requested_session = (Inr (Some res), snd demo_approval)"
    using demo_approval_run by (rule exE)
  have "keys_distinct gp_id (policies (se_db manifest_requested_session))"
    unfolding keys_distinct_def demo_manifest_request by simp
  from approved_manifest_is_bound [OF run demo_manifest_normalized this] show ?thesis
    by (elim exE conjE) (intro exI conjI; assumption)
qed

theorem active_manifest_always_binds_witness:
  "\<exists>state m. active_manifest (se_db (snd demo_approval)) ''w'' = Inr (state, m) \<and> manifest_ok m"
proof -
  obtain res where run: "decide_semantic_manifest_change demo_cp_env ''w'' ''idxx'' ''user:bob'' ''approve'' ''fine''
     manifest_requested_session = (Inr (Some res), snd demo_approval)"
    using demo_approval_run by (rule exE)
  have "manifest_step demo_cp_env demo_session manifest_requested_session"
    unfolding manifest_requested_session_def by (rule manifest_requested [OF prod.collapse [symmetric]])
  moreover have "manifest_step demo_cp_env manifest_requested_session (snd demo_approval)"
    by (rule manifest_decided) (subst in_transaction_Inr, rule run)
  ultimately have steps: "(manifest_step demo_cp_env)\<^sup>*\<^sup>* demo_session (snd demo_approval)"
    by (rule converse_rtranclp_into_rtranclp [OF _ r_into_rtranclp])
  have start: "manifests_ok (se_db demo_session)"
    by (simp add: manifests_ok_def demo_session_def empty_db_def)
  obtain row s1 where "policies (se_db s1) = policies (se_db manifest_requested_session)"
    "change_request_row ''semantic_manifest_change_request'' ''w'' ''idxx'' (se_db manifest_requested_session) = Some row"
    "apply_semantic_manifest demo_cp_env ''w'' row (load_definition (gp_definition row)) ''idxx'' ''user:bob'' ''fine'' s1 =
       (Inr res, snd demo_approval)"
    by (rule decide_manifest_approved [OF run demo_manifest_normalized]) (rule that; assumption)
  then obtain m state where "active_manifest (se_db (snd demo_approval)) ''w'' = Inr (state, m)"
    using apply_manifest_effect [of demo_cp_env "''w''" row "load_definition (gp_definition row)" "''idxx''" "''user:bob''" "''fine''" s1 res "snd demo_approval"]
      change_request_get demo_manifest_request by (auto simp: keys_distinct_def)
  then obtain arow where "active_policy ''semantic_manifest'' ''w'' (se_db (snd demo_approval)) = Some arow"
    by (rule active_manifest_Inr)
  from active_manifest_always_binds [OF steps start this] show ?thesis
    by (elim exE conjE) (intro exI conjI; assumption)
qed

end
