(* ===== verification/Retention.thy ===== *)
theory Retention
  imports PackEffects
begin

text \<open>
  Retention policies and the purge of old artifacts (\<open>backend/control_plane/retention.py\<close> and
  \<open>backend/shared_domain/purge.py\<close>). Files are kept by their path below the purge root, split
  into components, with their modification time in seconds; directories are not kept, so the
  removal of empty ones has no counterpart.
\<close>

section \<open>Retention policies\<close>

definition latest_retention_policy :: "string \<Rightarrow> db \<Rightarrow> retention_policy option" where
  "latest_retention_policy workspace_id d =
     (case rev (sort_key rp_id (filter (\<lambda>r. rp_workspace r = workspace_id) (retention_policies d))) of
        [] \<Rightarrow> None | row # _ \<Rightarrow> Some row)"

definition serialize_retention_policy :: "retention_policy \<Rightarrow> pydict" where
  "serialize_retention_policy p =
     [(''retention_policy_id'', PStr (rp_id p)), (''workspace_id'', PStr (rp_workspace p)),
      (''retention_days'', PInt (rp_days p)), (''enabled'', PBool (rp_enabled p)),
      (''purge_enabled'', PBool (rp_purge_enabled p)), (''legal_hold_active'', PBool (rp_legal_hold p)),
      (''created_by'', PStr (rp_created_by p)), (''status'', PStr (rp_status p))]"

definition retention_row :: "string \<Rightarrow> string \<Rightarrow> string \<Rightarrow> int \<Rightarrow> bool \<Rightarrow> bool \<Rightarrow> bool \<Rightarrow> retention_policy" where
  "retention_row policy_id workspace_id actor_id retention_days enabled purge_enabled legal_hold_active =
     \<lparr>rp_id = policy_id, rp_workspace = workspace_id, rp_days = retention_days, rp_enabled = enabled,
      rp_purge_enabled = purge_enabled, rp_legal_hold = legal_hold_active, rp_created_by = actor_id,
      rp_status = ''active''\<rparr>"

definition configure_retention_policy ::
  "cp_env \<Rightarrow> string \<Rightarrow> string \<Rightarrow> int \<Rightarrow> bool \<Rightarrow> bool \<Rightarrow> bool \<Rightarrow> pydict tx" where
  "configure_retention_policy env workspace_id actor_id retention_days enabled purge_enabled legal_hold_active =
     tbind (require_workspace workspace_id) (\<lambda>_.
     if enabled \<and> retention_days \<le> 0
     then traise (denied [(''reason'', PStr ''invalid_retention_days''), (''retention_days'', PInt retention_days)])
     else tbind (tread (latest_retention_policy workspace_id)) (\<lambda>found.
       case found of
         None \<Rightarrow>
           tbind (issue_id env) (\<lambda>policy_id.
           let policy = retention_row policy_id workspace_id actor_id retention_days enabled purge_enabled legal_hold_active
           in tbind (tchange (\<lambda>d. rbind (tbl_add rp_id policy (retention_policies d)) (\<lambda>t. Inr (d\<lparr>retention_policies := t\<rparr>))))
                (\<lambda>_. tpure (serialize_retention_policy policy)))
       | Some old \<Rightarrow>
           (let policy = retention_row (rp_id old) (rp_workspace old) actor_id retention_days enabled purge_enabled
                  legal_hold_active
            in tbind (tmodify (\<lambda>d. d\<lparr>retention_policies := tbl_put rp_id policy (retention_policies d)\<rparr>))
                 (\<lambda>_. tpure (serialize_retention_policy policy)))))"

definition get_retention_policy :: "string \<Rightarrow> db \<Rightarrow> pydict option" where
  "get_retention_policy workspace_id d =
     map_option serialize_retention_policy (latest_retention_policy workspace_id d)"

section \<open>Purging\<close>

record purge_execution =
  pe_scanned :: nat
  pe_deleted_count :: nat
  pe_deleted_paths :: "string list"
  pe_cutoff :: int
  pe_dry_run :: bool

type_synonym artifact_files = "((string \<times> string list) \<times> int) list"

definition PURGED_ZONES :: "string list" where
  "PURGED_ZONES = [''bronze'', ''silver'', ''gold'', ''documents'']"

text \<open>The files below one zone of a workspace, in the order of their paths.\<close>

definition zone_files :: "string \<Rightarrow> string \<Rightarrow> string \<Rightarrow> artifact_files \<Rightarrow> artifact_files" where
  "zone_files root workspace_id zone files =
     sort_key (\<lambda>f. snd (fst f))
       (filter (\<lambda>((r, path), _). r = root \<and> take 2 path = [zone, workspace_id] \<and> length path > 2) files)"

definition scan_zones :: "string \<Rightarrow> string \<Rightarrow> artifact_files \<Rightarrow> artifact_files" where
  "scan_zones root workspace_id files = concat (map (\<lambda>zone. zone_files root workspace_id zone files) PURGED_ZONES)"

definition purge_workspace_artifacts ::
  "cp_env \<Rightarrow> string \<Rightarrow> string \<Rightarrow> int \<Rightarrow> bool \<Rightarrow> artifact_files \<Rightarrow> purge_execution res \<times> artifact_files" where
  "purge_workspace_artifacts env workspace_id purge_root retention_days dry_run files =
     (if retention_days \<le> 0 then (Inl (ValueError ''retention_days_must_be_positive''), files)
      else if ce_dir env purge_root = Missing then (Inl (ValueError ''purge_root_missing''), files)
      else if ce_dir env purge_root \<noteq> Directory then (Inl (ValueError ''purge_root_not_directory''), files)
      else
        (let cutoff_epoch = ce_now env - retention_days * 86400;
             scanned = scan_zones purge_root workspace_id files;
             to_delete = filter (\<lambda>f. snd f \<le> cutoff_epoch) scanned;
             deleted_paths = sort (map (\<lambda>f. join ''/'' (snd (fst f))) to_delete);
             remaining = (if dry_run then files else filter (\<lambda>f. fst f \<notin> set (map fst to_delete)) files)
         in (Inr \<lparr>pe_scanned = length scanned, pe_deleted_count = length deleted_paths,
                  pe_deleted_paths = deleted_paths, pe_cutoff = cutoff_epoch, pe_dry_run = dry_run\<rparr>, remaining)))"

text \<open>A purge inside a session; an argument error is reported as a denial.\<close>

definition run_purge :: "cp_env \<Rightarrow> string \<Rightarrow> string \<Rightarrow> int \<Rightarrow> bool \<Rightarrow> purge_execution tx" where
  "run_purge env workspace_id purge_root retention_days dry_run s =
     (case purge_workspace_artifacts env workspace_id purge_root retention_days dry_run (se_artifacts s) of
        (Inl (ValueError m), files) \<Rightarrow> (Inl (denied [(''reason'', PStr m)]), s\<lparr>se_artifacts := files\<rparr>)
      | (r, files) \<Rightarrow> (r, s\<lparr>se_artifacts := files\<rparr>))"

definition purge_evidence :: "string \<Rightarrow> string \<Rightarrow> retention_policy \<Rightarrow> bool \<Rightarrow> purge_execution \<Rightarrow> pydict" where
  "purge_evidence workspace_id actor_id policy dry_run execution =
     [(''workspace_id'', PStr workspace_id), (''actor_id'', PStr actor_id),
      (''retention_policy_id'', PStr (rp_id policy)), (''retention_days'', PInt (rp_days policy)),
      (''dry_run'', PBool dry_run), (''scanned_count'', PInt (int (pe_scanned execution))),
      (''deleted_count'', PInt (int (pe_deleted_count execution))),
      (''deleted_paths'', str_py_list (pe_deleted_paths execution)),
      (''cutoff_epoch'', PInt (pe_cutoff execution))]"

definition execute_retention_purge ::
  "cp_env \<Rightarrow> string \<Rightarrow> string \<Rightarrow> string option \<Rightarrow> bool \<Rightarrow> purge_run tx" where
  "execute_retention_purge env workspace_id actor_id purge_root dry_run =
     tbind (tread (latest_retention_policy workspace_id)) (\<lambda>found.
     case found of
       None \<Rightarrow> traise (denied [(''reason'', PStr ''retention_disabled'')])
     | Some policy \<Rightarrow>
         if \<not> rp_enabled policy then traise (denied [(''reason'', PStr ''retention_disabled'')])
         else if \<not> rp_purge_enabled policy then traise (denied [(''reason'', PStr ''purge_not_enabled'')])
         else if rp_legal_hold policy then traise (denied [(''reason'', PStr ''legal_hold_active'')])
         else case purge_root of
           None \<Rightarrow> traise (denied [(''reason'', PStr ''missing_purge_path_config'')])
         | Some root \<Rightarrow>
             if strip root = [] then traise (denied [(''reason'', PStr ''missing_purge_path_config'')])
             else tbind (run_purge env workspace_id root (rp_days policy) dry_run) (\<lambda>execution.
               tbind (store_bundle env workspace_id ''retention_purge''
                   (purge_evidence workspace_id actor_id policy dry_run execution)) (\<lambda>stored.
               tbind (issue_id env) (\<lambda>purge_run_id.
               let run = \<lparr>pg_id = purge_run_id, pg_workspace = workspace_id, pg_policy = rp_id policy,
                     pg_dry_run = dry_run, pg_status = ''succeeded'',
                     pg_deleted_count = int (pe_deleted_count execution),
                     pg_deleted_paths = pe_deleted_paths execution, pg_evidence_uri = sb_uri stored\<rparr>
               in tbind (tchange (\<lambda>d. rbind (tbl_add pg_id run (purge_runs d)) (\<lambda>t. Inr (d\<lparr>purge_runs := t\<rparr>))))
                    (\<lambda>_. tpure run)))))"

section \<open>What a purge deletes\<close>

definition purgeable :: "cp_env \<Rightarrow> string \<Rightarrow> string \<Rightarrow> int \<Rightarrow> (string \<times> string list) \<times> int \<Rightarrow> bool" where
  "purgeable env root workspace_id retention_days f \<longleftrightarrow>
     fst (fst f) = root \<and> (\<exists>zone \<in> set PURGED_ZONES. take 2 (snd (fst f)) = [zone, workspace_id]) \<and>
     length (snd (fst f)) > 2 \<and> snd f \<le> ce_now env - retention_days * 86400"

lemma set_scan_zones:
  "set (scan_zones root ws files) =
     {f \<in> set files. fst (fst f) = root \<and> (\<exists>zone \<in> set PURGED_ZONES. take 2 (snd (fst f)) = [zone, ws]) \<and>
        length (snd (fst f)) > 2}"
  by (auto simp: scan_zones_def zone_files_def split: prod.split_asm)

lemma purge_Inr:
  assumes "purge_workspace_artifacts env ws root days dry files = (Inr ex, files')"
    and "distinct (map fst files)"
  shows "days > 0" "pe_deleted_count ex = length (pe_deleted_paths ex)"
    and "set (pe_deleted_paths ex) = (\<lambda>f. join ''/'' (snd (fst f))) ` {f \<in> set files. purgeable env root ws days f}"
    and "f \<in> set files' \<longleftrightarrow> f \<in> set files \<and> (dry \<or> \<not> purgeable env root ws days f)"
proof -
  have key: "g = f" if "fst g = fst f" "f \<in> set files" "g \<in> set files" for f g
    using that assms(2) by (auto simp: distinct_map inj_on_def)
  let ?del = "filter (\<lambda>f. snd f \<le> ce_now env - days * 86400) (scan_zones root ws files)"
  have ex: "days > 0" "pe_deleted_paths ex = sort (map (\<lambda>f. join ''/'' (snd (fst f))) ?del)"
    "pe_deleted_count ex = length (pe_deleted_paths ex)"
    "files' = (if dry then files else filter (\<lambda>f. fst f \<notin> set (map fst ?del)) files)"
    using assms(1) by (auto simp: purge_workspace_artifacts_def Let_def split: if_split_asm)
  have del: "set ?del = {f \<in> set files. purgeable env root ws days f}"
    by (auto simp: set_scan_zones purgeable_def)
  show "days > 0" "pe_deleted_count ex = length (pe_deleted_paths ex)" by (rule ex)+
  show "set (pe_deleted_paths ex) = (\<lambda>f. join ''/'' (snd (fst f))) ` {f \<in> set files. purgeable env root ws days f}"
    by (simp only: ex(2) set_sort set_map del)
  have "f \<in> set files' \<longleftrightarrow> f \<in> set files \<and> (dry \<or> fst f \<notin> fst ` {f \<in> set files. purgeable env root ws days f})"
    unfolding ex(4) set_map del by auto
  then show "f \<in> set files' \<longleftrightarrow> f \<in> set files \<and> (dry \<or> \<not> purgeable env root ws days f)"
    using key by blast
qed

lemma run_purge_Inr:
  "run_purge env ws root days dry s = (Inr ex, s') \<Longrightarrow>
     \<exists>files. purge_workspace_artifacts env ws root days dry (se_artifacts s) = (Inr ex, files) \<and>
       s' = s\<lparr>se_artifacts := files\<rparr>"
  by (auto simp: run_purge_def split: prod.split_asm sum.split_asm exn.split_asm)

lemma run_purge_Inl: "run_purge env ws root days dry s = (Inl e, s') \<Longrightarrow> s' = s"
  by (auto simp: run_purge_def purge_workspace_artifacts_def Let_def split: if_split_asm)

text \<open>What holds of the policy under which a purge ran.\<close>

definition purge_allowed :: "retention_policy \<Rightarrow> bool" where
  "purge_allowed policy \<longleftrightarrow> rp_enabled policy \<and> rp_purge_enabled policy \<and> \<not> rp_legal_hold policy"

lemma execute_purge_Inr:
  assumes "execute_retention_purge env ws actor root dry s = (Inr run, s')"
  obtains policy r ex s1 where "latest_retention_policy ws (se_db s) = Some policy" "purge_allowed policy"
    "root = Some r" "run_purge env ws r (rp_days policy) dry s = (Inr ex, s1)"
    "se_artifacts s' = se_artifacts s1" "se_db s' = (se_db s)\<lparr>purge_runs := purge_runs (se_db s) @ [run]\<rparr>"
    "pg_workspace run = ws" "pg_policy run = rp_id policy" "pg_dry_run run = dry"
    "pg_deleted_count run = int (pe_deleted_count ex)" "pg_deleted_paths run = pe_deleted_paths ex"
proof (cases "latest_retention_policy ws (se_db s)")
  case None
  with assms show ?thesis by (simp add: execute_retention_purge_def tbind_Inr_iff)
next
  case (Some policy)
  from Some assms obtain r ex s1 stored s2 s3 d where
    a: "purge_allowed policy" "root = Some r" "run_purge env ws r (rp_days policy) dry s = (Inr ex, s1)"
    and st: "store_bundle env ws ''retention_purge'' (purge_evidence ws actor policy dry ex) s1 = (Inr stored, s2)"
    and run: "run = \<lparr>pg_id = ce_fresh env (se_next s2), pg_workspace = ws, pg_policy = rp_id policy,
        pg_dry_run = dry, pg_status = ''succeeded'', pg_deleted_count = int (pe_deleted_count ex),
        pg_deleted_paths = pe_deleted_paths ex, pg_evidence_uri = sb_uri stored\<rparr>"
    and d: "se_db s' = (se_db s2)\<lparr>purge_runs := purge_runs (se_db s2) @ [run]\<rparr>" "se_artifacts s' = se_artifacts s2"
    by (auto simp: execute_retention_purge_def tbind_Inr_iff purge_allowed_def Let_def rbind_eq_Inr_iff tbl_add_Inr_iff
        split: if_split_asm option.split_asm)
  obtain files where f: "s1 = s\<lparr>se_artifacts := files\<rparr>" using run_purge_Inr [OF a(3)] by auto
  obtain fs where g: "s2 = s1\<lparr>se_evidence := fs\<rparr>" using store_bundle_Inr [OF st] by auto
  show ?thesis by (rule that [OF Some a]) (use run d f g in simp_all)
qed

section \<open>Properties\<close>

text \<open>
  C33. A purge is confined: it runs only under an enabled policy that allows purging and has no legal
  hold, deletes exactly the files of this workspace's four data zones under the configured root
  that are older than the retention period, every other file and every other table stays as it
  was, a dry run deletes nothing, and the stored run lists exactly the paths of these files.
\<close>

theorem purge_confined:
  assumes "execute_retention_purge env ws actor root dry s = (Inr run, s')"
    and "distinct (map fst (se_artifacts s))"
  shows "\<exists>policy r. latest_retention_policy ws (se_db s) = Some policy \<and> purge_allowed policy \<and>
    root = Some r \<and> rp_days policy > 0 \<and>
    (\<forall>f. f \<in> set (se_artifacts s') \<longleftrightarrow>
       f \<in> set (se_artifacts s) \<and> (dry \<or> \<not> purgeable env r ws (rp_days policy) f)) \<and>
    se_db s' = (se_db s)\<lparr>purge_runs := purge_runs (se_db s) @ [run]\<rparr> \<and> pg_workspace run = ws \<and>
    pg_policy run = rp_id policy \<and> pg_deleted_count run = int (length (pg_deleted_paths run)) \<and>
    set (pg_deleted_paths run) =
      (\<lambda>f. join ''/'' (snd (fst f))) ` {f \<in> set (se_artifacts s). purgeable env r ws (rp_days policy) f}"
proof -
  obtain policy r ex s1 where
    a: "latest_retention_policy ws (se_db s) = Some policy" "purge_allowed policy" "root = Some r"
      "run_purge env ws r (rp_days policy) dry s = (Inr ex, s1)" "se_artifacts s' = se_artifacts s1"
      "se_db s' = (se_db s)\<lparr>purge_runs := purge_runs (se_db s) @ [run]\<rparr>" "pg_workspace run = ws"
      "pg_policy run = rp_id policy" "pg_dry_run run = dry" "pg_deleted_count run = int (pe_deleted_count ex)"
      "pg_deleted_paths run = pe_deleted_paths ex"
    by (rule execute_purge_Inr [OF assms(1)]) (rule that; assumption)
  obtain files where f: "purge_workspace_artifacts env ws r (rp_days policy) dry (se_artifacts s) = (Inr ex, files)"
    "se_artifacts s1 = files" using run_purge_Inr [OF a(4)] by auto
  note p = purge_Inr [OF f(1) assms(2)]
  show ?thesis
    using a f(2) p by (intro exI [of _ policy] exI [of _ r]) simp
qed

text \<open>
  A refused purge deletes nothing: whenever the purge is denied, because there is no enabled
  policy, purging is off, a legal hold is active or the path is missing or no directory, the
  session is exactly as before; and under a legal hold it is always denied.
\<close>

theorem denied_purge_deletes_nothing:
  assumes "execute_retention_purge env ws actor root dry s = (r, s')"
    and "(\<exists>m details. r = Inl (PolicyDeniedError m details)) \<or>
      (\<exists>policy. latest_retention_policy ws (se_db s) = Some policy \<and> rp_legal_hold policy)"
  shows "s' = s \<and> (\<exists>details. r = Inl (PolicyDeniedError ''Access denied by policy'' details))"
proof (cases "latest_retention_policy ws (se_db s)")
  case None
  with assms(1) show ?thesis by (auto simp: execute_retention_purge_def tbind_def tread_def traise_def denied_def)
next
  case (Some policy)
  show ?thesis
  proof (cases "purge_allowed policy \<and> root \<noteq> None \<and> strip (the root) \<noteq> []")
    case False
    with Some assms(1) show ?thesis
      by (auto simp: execute_retention_purge_def tbind_def tread_def traise_def denied_def purge_allowed_def
          split: if_split_asm option.split_asm)
  next
    case True
    then obtain rt where rt: "root = Some rt" "strip rt \<noteq> []" by auto
    let ?rest = "\<lambda>execution. tbind (store_bundle env ws ''retention_purge''
        (purge_evidence ws actor policy dry execution)) (\<lambda>stored.
      tbind (issue_id env) (\<lambda>purge_run_id.
        let run = \<lparr>pg_id = purge_run_id, pg_workspace = ws, pg_policy = rp_id policy,
              pg_dry_run = dry, pg_status = ''succeeded'', pg_deleted_count = int (pe_deleted_count execution),
              pg_deleted_paths = pe_deleted_paths execution, pg_evidence_uri = sb_uri stored\<rparr>
        in tbind (tchange (\<lambda>d. rbind (tbl_add pg_id run (purge_runs d)) (\<lambda>t. Inr (d\<lparr>purge_runs := t\<rparr>))))
             (\<lambda>_. tpure run)))"
    have run: "tbind (run_purge env ws rt (rp_days policy) dry) ?rest s = (r, s')"
      using assms(1) Some True rt by (simp add: execute_retention_purge_def tbind_def tread_def purge_allowed_def)
    from True Some assms(2) obtain m det where r: "r = Inl (PolicyDeniedError m det)"
      by (auto simp: purge_allowed_def)
    from run show ?thesis
    proof (cases rule: tbind_cases)
      case (stop e)
      then show ?thesis
        by (auto simp: run_purge_def purge_workspace_artifacts_def denied_def Let_def split: if_split_asm)
    next
      case (next_step x s1)
      then have False
        unfolding r
        by (auto simp: tbind_def store_bundle_def store_evidence_bundle_def issue_id_def tchange_def tpure_def Let_def
            rbind_def tbl_add_def split: prod.split_asm sum.split_asm option.split_asm if_split_asm)
      then show ?thesis ..
    qed
  qed
qed

section \<open>A concrete purge\<close>

definition demo_retention :: retention_policy where
  "demo_retention = retention_row ''rp1'' ''w'' ''user:bob'' 1 True True False"

definition demo_artifacts :: artifact_files where
  "demo_artifacts = [((''/data'', [''bronze'', ''w'', ''old.json'']), 0),
     ((''/data'', [''bronze'', ''w2'', ''old.json'']), 0), ((''/data'', [''silver'', ''w'', ''new.json'']), 86000)]"

definition purge_env :: cp_env where
  "purge_env = demo_cp_env\<lparr>ce_now := 86410\<rparr>"

definition purge_session :: "retention_policy \<Rightarrow> cp_session" where
  "purge_session policy = demo_session\<lparr>se_db := empty_db\<lparr>workspaces := [demo_workspace], retention_policies := [policy]\<rparr>,
     se_artifacts := demo_artifacts\<rparr>"

definition demo_purge :: "purge_run res \<times> cp_session" where
  "demo_purge = execute_retention_purge purge_env ''w'' ''user:bob'' (Some ''/data'') False (purge_session demo_retention)"

lemma demo_purge_run:
  "\<exists>run. fst demo_purge = Inr run \<and> pg_deleted_paths run = [''bronze/w/old.json'']"
proof -
  have "(case fst demo_purge of Inr run \<Rightarrow> pg_deleted_paths run = [''bronze/w/old.json''] | _ \<Rightarrow> False)"
    by code_simp
  then show ?thesis by (auto split: sum.split_asm)
qed

theorem purge_confined_witness:
  "((''/data'', [''bronze'', ''w2'', ''old.json'']), 0) \<in> set (se_artifacts (snd demo_purge)) \<and>
   ((''/data'', [''bronze'', ''w'', ''old.json'']), 0) \<notin> set (se_artifacts (snd demo_purge))"
proof -
  obtain run where "fst demo_purge = Inr run" using demo_purge_run by (elim exE conjE)
  then have "demo_purge = (Inr run, snd demo_purge)" by (rule run_of_fst)
  then have run: "execute_retention_purge purge_env ''w'' ''user:bob'' (Some ''/data'') False (purge_session demo_retention)
      = (Inr run, snd demo_purge)"
    unfolding demo_purge_def .
  have art: "se_artifacts (purge_session demo_retention) = demo_artifacts" by (simp add: purge_session_def)
  have "distinct (map fst (se_artifacts (purge_session demo_retention)))"
    unfolding art by (simp add: demo_artifacts_def)
  from purge_confined [OF run this] obtain policy r where
    p: "latest_retention_policy ''w'' (se_db (purge_session demo_retention)) = Some policy" "Some ''/data'' = Some r"
      "\<forall>f. f \<in> set (se_artifacts (snd demo_purge)) \<longleftrightarrow> f \<in> set demo_artifacts \<and>
         \<not> purgeable purge_env r ''w'' (rp_days policy) f"
    unfolding art by auto
  have "policy = demo_retention"
    using p(1) by (simp add: latest_retention_policy_def purge_session_def demo_retention_def retention_row_def)
  moreover have "purgeable purge_env ''/data'' ''w'' 1 ((''/data'', [''bronze'', ''w'', ''old.json'']), 0)"
    "\<not> purgeable purge_env ''/data'' ''w'' 1 ((''/data'', [''bronze'', ''w2'', ''old.json'']), 0)"
    by (simp_all add: purgeable_def purge_env_def PURGED_ZONES_def)
  ultimately show ?thesis
    using p(2,3) by (simp add: demo_artifacts_def demo_retention_def retention_row_def)
qed

theorem denied_purge_deletes_nothing_witness:
  "snd (execute_retention_purge purge_env ''w'' ''user:bob'' (Some ''/data'') False
     (purge_session (demo_retention\<lparr>rp_legal_hold := True\<rparr>))) = purge_session (demo_retention\<lparr>rp_legal_hold := True\<rparr>)"
proof -
  let ?s = "purge_session (demo_retention\<lparr>rp_legal_hold := True\<rparr>)"
  have "latest_retention_policy ''w'' (se_db ?s) = Some (demo_retention\<lparr>rp_legal_hold := True\<rparr>)"
    by (simp add: latest_retention_policy_def purge_session_def demo_retention_def retention_row_def)
  then show ?thesis
    using denied_purge_deletes_nothing [OF prod.collapse [symmetric], of purge_env "''w''" "''user:bob''" "Some ''/data''" False ?s]
    by simp
qed

end
