(* ===== verification/Deletion.thy ===== *)
theory Deletion
  imports Retention
begin

text \<open>
  The deletion workflow (\<open>backend/control_plane/deletion.py\<close>): requests, decisions with
  separation of duties, legal holds, execution with a report, evidence and a signed attestation.
  A report is kept under its path as the dictionary that is written and read back as JSON.
\<close>

section \<open>Rows and messages\<close>

definition legal_hold_active :: "string \<Rightarrow> db \<Rightarrow> bool" where
  "legal_hold_active workspace_id d =
     (case latest_retention_policy workspace_id d of None \<Rightarrow> False | Some row \<Rightarrow> rp_legal_hold row)"

definition serialize_deletion_request :: "deletion_request \<Rightarrow> pydict" where
  "serialize_deletion_request row =
     [(''deletion_request_id'', PStr (dr_id row)), (''workspace_id'', PStr (dr_workspace row)),
      (''requester_actor_id'', PStr (dr_requester row)), (''status'', PStr (dr_status row)),
      (''subject_selector'', PDict (dr_selector row)), (''affected_snapshots'', str_py_list (dr_snapshots row)),
      (''affected_indexes'', str_py_list (dr_indexes row)), (''legal_hold_active'', PBool (dr_legal_hold row)),
      (''approval_reason'', opt_str (dr_approval_reason row)),
      (''evidence_bundle_uri'', opt_str (dr_evidence_uri row))]"

definition put_deletion :: "deletion_request \<Rightarrow> unit tx" where
  "put_deletion row = tmodify (\<lambda>d. d\<lparr>deletion_requests := tbl_put dr_id row (deletion_requests d)\<rparr>)"

definition deletion_row :: "string \<Rightarrow> string \<Rightarrow> db \<Rightarrow> deletion_request option" where
  "deletion_row workspace_id deletion_request_id d =
     (case tbl_get dr_id deletion_request_id (deletion_requests d) of
        None \<Rightarrow> None
      | Some row \<Rightarrow> if dr_workspace row \<noteq> workspace_id then None else Some row)"

section \<open>Requests and decisions\<close>

definition submit_deletion_request ::
  "cp_env \<Rightarrow> string \<Rightarrow> string \<Rightarrow> pydict \<Rightarrow> string list \<Rightarrow> string list \<Rightarrow> pydict tx" where
  "submit_deletion_request env workspace_id requester_actor_id subject_selector affected_snapshots affected_indexes =
     tbind (tread (legal_hold_active workspace_id)) (\<lambda>hold.
     tbind (issue_id env) (\<lambda>deletion_request_id.
     let row = \<lparr>dr_id = deletion_request_id, dr_workspace = workspace_id, dr_requester = requester_actor_id,
           dr_status = ''requested'', dr_selector = subject_selector, dr_snapshots = sort affected_snapshots,
           dr_indexes = sort affected_indexes, dr_legal_hold = hold, dr_approval_reason = None,
           dr_evidence_uri = None\<rparr>
     in tbind (tchange (\<lambda>d. rbind (tbl_add dr_id row (deletion_requests d)) (\<lambda>t. Inr (d\<lparr>deletion_requests := t\<rparr>))))
          (\<lambda>_. tpure (serialize_deletion_request row))))"

definition decided_row :: "deletion_request \<Rightarrow> string \<Rightarrow> string \<Rightarrow> bool \<Rightarrow> deletion_request" where
  "decided_row row normalized reason hold =
     (if normalized = ''approve'' \<and> hold
      then row\<lparr>dr_legal_hold := True, dr_status := ''blocked'', dr_approval_reason := Some ''legal_hold_active''\<rparr>
      else if normalized = ''approve'' then row\<lparr>dr_status := ''approved'', dr_approval_reason := Some reason\<rparr>
      else if normalized = ''reject'' then row\<lparr>dr_status := ''rejected'', dr_approval_reason := Some reason\<rparr>
      else row\<lparr>dr_status := ''deferred'', dr_approval_reason := Some reason\<rparr>)"

definition approve_deletion_request ::
  "cp_env \<Rightarrow> string \<Rightarrow> string \<Rightarrow> string \<Rightarrow> string \<Rightarrow> string \<Rightarrow> pydict option tx" where
  "approve_deletion_request env workspace_id deletion_request_id approver verdict reason =
     tbind (tread (deletion_row workspace_id deletion_request_id)) (\<lambda>found.
     case found of
       None \<Rightarrow> tpure None
     | Some row0 \<Rightarrow>
         (let normalized = normalized_decision verdict
          in if normalized = ''approve'' \<and> dr_requester row0 = approver
             then traise (denied [(''reason'', PStr ''requester_cannot_self_approve''),
                    (''deletion_request_id'', PStr deletion_request_id)])
             else tbind (tread (legal_hold_active workspace_id)) (\<lambda>hold.
               let row = decided_row row0 normalized reason hold
               in tbind (put_deletion row) (\<lambda>_.
               tbind (issue_id env) (\<lambda>approval_id.
               let approval = \<lparr>da_id = approval_id, da_request = dr_id row, da_workspace = dr_workspace row,
                     da_approver = approver, da_decision = normalized, da_reason = reason\<rparr>
               in tbind (tchange (\<lambda>d. rbind (tbl_add da_id approval (deletion_approvals d))
                        (\<lambda>t. Inr (d\<lparr>deletion_approvals := t\<rparr>)))) (\<lambda>_.
                  tpure (Some (serialize_deletion_request row @
                    [(''approval'', PDict [(''deletion_approval_id'', PStr approval_id),
                        (''decision'', PStr normalized), (''decision_reason'', PStr reason),
                        (''approver_actor_id'', PStr approver)])]))))))))"

section \<open>Execution\<close>

record deletion_order =
  do_workspace :: string
  do_selector :: pydict
  do_legal_hold :: bool
  do_approved :: bool
  do_snapshots :: "string list"
  do_indexes :: "string list"
  do_backup :: "string option"

definition impact_preview_of :: "deletion_order \<Rightarrow> pydict" where
  "impact_preview_of request =
     [(''subject_selector'', PDict (do_selector request)),
      (''affected_snapshots'', str_py_list (sort (do_snapshots request))),
      (''affected_indexes'', str_py_list (sort (do_indexes request)))]"

definition deletion_report :: "deletion_order \<Rightarrow> string \<Rightarrow> pydict" where
  "deletion_report request deletion_id =
     [(''deletion_id'', PStr deletion_id), (''workspace_id'', PStr (do_workspace request)),
      (''subject_selector'', PDict (do_selector request)),
      (''impact_preview'', PDict (impact_preview_of request)),
      (''approval'', PDict [(''approved'', PBool True), (''mode'', PStr ''explicit_workflow'')]),
      (''execution'', PDict [(''status'', PStr ''executed_stub''),
         (''snapshots_updated'', str_py_list (sort (do_snapshots request))),
         (''indexes_updated'', str_py_list (sort (do_indexes request))),
         (''records_deleted_estimate'', PInt (int (length (do_snapshots request) + length (do_indexes request)))),
         (''backup_reference'', opt_str (do_backup request))])]"

definition blocked_workflow :: "deletion_order \<Rightarrow> string \<Rightarrow> pydict" where
  "blocked_workflow request reason =
     [(''status'', PStr ''blocked''), (''reason'', PStr reason), (''evidence_report_path'', PNone),
      (''impact_preview'', PDict (impact_preview_of request))]"

definition report_path :: "string \<Rightarrow> string \<Rightarrow> string \<Rightarrow> string" where
  "report_path output_root workspace_id deletion_id =
     as_posix (path_join (path_join (path_join (path_of output_root) ''deletions'') workspace_id)
       (deletion_id @ ''.json''))"

lemma path_parts_given: "[] \<notin> set (snd (path_of t))"
  by (simp add: path_of_def)

lemma path_join_given: "[] \<notin> set (snd p) \<Longrightarrow> [] \<notin> set (snd (path_join p t))"
  using path_parts_given by (fastforce simp: path_join_def split: if_splits)

lemma as_posix_given:
  assumes "[] \<notin> set (snd p)"
  shows "as_posix p \<noteq> []"
proof (cases "snd p")
  case Nil
  then show ?thesis by (simp add: as_posix_def)
next
  case (Cons x xs)
  with assms have "x \<noteq> []" by auto
  with Cons show ?thesis by (cases xs) (simp_all add: as_posix_def)
qed

lemma report_path_given: "report_path output_root workspace_id deletion_id \<noteq> []"
  unfolding report_path_def by (intro as_posix_given path_join_given path_parts_given)

definition execute_deletion_workflow :: "cp_env \<Rightarrow> deletion_order \<Rightarrow> string \<Rightarrow> pydict tx" where
  "execute_deletion_workflow env request output_root =
     (if do_legal_hold request then tpure (blocked_workflow request ''legal_hold_active'')
      else if \<not> do_approved request then tpure (blocked_workflow request ''missing_approval'')
      else tbind (issue_id env) (\<lambda>deletion_id.
        let path = report_path output_root (do_workspace request) deletion_id
        in (\<lambda>s. (Inr [(''status'', PStr ''executed''), (''reason'', PStr ''approved''),
                      (''evidence_report_path'', PStr path)],
                 s\<lparr>se_reports := dset (se_reports s) path (deletion_report request deletion_id)\<rparr>))))"

definition attestation_body :: "cp_env \<Rightarrow> string \<Rightarrow> string \<Rightarrow> pydict \<Rightarrow> pydict \<Rightarrow> pydict" where
  "attestation_body env workspace_id deletion_request_id report_payload workflow_result =
     (let execution = (case dget_or report_payload ''execution'' (PDict []) of PDict e \<Rightarrow> e | _ \<Rightarrow> [])
      in [(''workspace_id'', PStr workspace_id), (''deletion_request_id'', PStr deletion_request_id),
          (''status'', PStr (str_of workflow_result ''status'' [])),
          (''reason'', PStr (str_of workflow_result ''reason'' [])),
          (''execution_epoch'', PInt (ce_now env)),
          (''report_summary'', PDict [(''snapshots_updated'', dget_or execution ''snapshots_updated'' (PList [])),
             (''indexes_updated'', dget_or execution ''indexes_updated'' (PList []))])])"

definition build_deletion_attestation :: "cp_env \<Rightarrow> string \<Rightarrow> string \<Rightarrow> pydict \<Rightarrow> pydict \<Rightarrow> pydict" where
  "build_deletion_attestation env workspace_id deletion_request_id report_payload workflow_result =
     (let payload = attestation_body env workspace_id deletion_request_id report_payload workflow_result
      in payload @ [(''signature'', PStr (ce_sign env (json_dumps (PDict payload)))),
           (''algorithm'', PStr ''HMAC-SHA256''), (''key_id'', PStr ''deletion-attestation-v1'')])"

definition read_report :: "string \<Rightarrow> pydict tx" where
  "read_report path s =
     (if path = [] then (Inr [], s)
      else case dget (se_reports s) path of
        None \<Rightarrow> (Inl (OSError path), s)
      | Some report \<Rightarrow> (Inr report, s))"

definition execution_message :: "deletion_request \<Rightarrow> string \<Rightarrow> string \<Rightarrow> pydict" where
  "execution_message row status reason =
     [(''deletion_request_id'', PStr (dr_id row)), (''workspace_id'', PStr (dr_workspace row)),
      (''status'', PStr status), (''reason'', PStr reason)]"

definition finish_deletion :: "cp_env \<Rightarrow> deletion_request \<Rightarrow> pydict \<Rightarrow> pydict option tx" where
  "finish_deletion env row workflow_result =
     (let path = str_of workflow_result ''evidence_report_path'' []; workspace_id = dr_workspace row
      in tbind (read_report path) (\<lambda>report_payload.
         tbind (store_bundle env workspace_id ''deletion_execution''
             [(''deletion_request_id'', PStr (dr_id row)), (''workflow_result'', PDict workflow_result),
              (''report'', PDict report_payload)]) (\<lambda>stored.
         let attestation = build_deletion_attestation env workspace_id (dr_id row) report_payload workflow_result
         in tbind (store_bundle env workspace_id ''deletion_attestation'' attestation) (\<lambda>_.
            tbind (put_deletion (row\<lparr>dr_status := ''executed'', dr_evidence_uri := Some (sb_uri stored)\<rparr>)) (\<lambda>_.
            tpure (Some (execution_message row ''executed'' ''approved'' @
              [(''evidence_report_path'', PStr path), (''evidence_bundle_uri'', PStr (sb_uri stored)),
               (''attestation'', PDict attestation)])))))))"

definition execute_deletion_request ::
  "cp_env \<Rightarrow> string \<Rightarrow> string \<Rightarrow> string \<Rightarrow> string option \<Rightarrow> pydict option tx" where
  "execute_deletion_request env workspace_id deletion_request_id output_root backup_reference =
     tbind (tread (deletion_row workspace_id deletion_request_id)) (\<lambda>found.
     case found of
       None \<Rightarrow> tpure None
     | Some row0 \<Rightarrow>
         tbind (tread (legal_hold_active workspace_id)) (\<lambda>hold.
         let row = row0\<lparr>dr_legal_hold := hold\<rparr>
         in if hold
            then tbind (put_deletion (row\<lparr>dr_status := ''blocked'', dr_approval_reason := Some ''legal_hold_active''\<rparr>))
                   (\<lambda>_. tpure (Some (execution_message row ''blocked'' ''legal_hold_active'')))
            else if dr_status row \<noteq> ''approved''
            then traise (denied [(''reason'', PStr ''deletion_not_approved''),
                   (''deletion_request_id'', PStr deletion_request_id), (''status'', PStr (dr_status row))])
            else tbind (execute_deletion_workflow env
                   \<lparr>do_workspace = workspace_id, do_selector = dr_selector row, do_legal_hold = False,
                    do_approved = True, do_snapshots = dr_snapshots row, do_indexes = dr_indexes row,
                    do_backup = backup_reference\<rparr> output_root) (\<lambda>workflow_result.
              if py_str (dget_or workflow_result ''status'' PNone) \<noteq> ''executed''
              then let why = str_of workflow_result ''reason'' ''execution_blocked''
                   in tbind (put_deletion (row\<lparr>dr_status := ''blocked'', dr_approval_reason := Some why\<rparr>))
                        (\<lambda>_. tpure (Some (execution_message row ''blocked'' why)))
              else finish_deletion env row workflow_result)))"

definition get_deletion_request :: "string \<Rightarrow> string \<Rightarrow> db \<Rightarrow> pydict option" where
  "get_deletion_request workspace_id deletion_request_id d =
     map_option serialize_deletion_request (deletion_row workspace_id deletion_request_id d)"

section \<open>Separation of duties\<close>

definition approved_by_other :: "db \<Rightarrow> deletion_request \<Rightarrow> bool" where
  "approved_by_other d row \<longleftrightarrow> (\<exists>a \<in> set (deletion_approvals d). da_request a = dr_id row \<and>
     da_workspace a = dr_workspace row \<and> da_decision a = ''approve'' \<and> da_approver a \<noteq> dr_requester row)"

definition deletion_ok :: "db \<Rightarrow> deletion_request \<Rightarrow> bool" where
  "deletion_ok d row \<longleftrightarrow>
     (dr_status row \<in> {''approved'', ''executed''} \<longrightarrow> approved_by_other d row) \<and>
     (dr_status row = ''executed'' \<longrightarrow> dr_evidence_uri row \<noteq> None)"

definition deletions_ok :: "db \<Rightarrow> bool" where
  "deletions_ok d \<longleftrightarrow> (\<forall>row \<in> set (deletion_requests d). deletion_ok d row)"

lemma deletion_row_Some:
  "deletion_row ws k d = Some row \<Longrightarrow> row \<in> set (deletion_requests d) \<and> dr_id row = k \<and> dr_workspace row = ws \<and>
     tbl_get dr_id k (deletion_requests d) = Some row"
  by (auto simp: deletion_row_def dest: tbl_get_SomeD split: option.split_asm if_split_asm)

lemma deletions_ok_put:
  assumes "deletions_ok d" "deletion_ok d' row"
    and "set (deletion_approvals d) \<subseteq> set (deletion_approvals d')"
    and "deletion_requests d' = tbl_put dr_id row (deletion_requests d)"
  shows "deletions_ok d'"
proof -
  have "deletion_ok d r \<Longrightarrow> deletion_ok d' r" for r
    using assms(3) by (auto simp: deletion_ok_def approved_by_other_def)
  then show ?thesis
    using assms set_tbl_put_subset [of dr_id row "deletion_requests d"] by (auto simp: deletions_ok_def)
qed

lemma submit_ok:
  "submit_deletion_request env ws actor sel snaps idxs s = (Inr out, s') \<Longrightarrow> deletions_ok (se_db s) \<Longrightarrow> deletions_ok (se_db s')"
  by (auto simp: submit_deletion_request_def tbind_Inr_iff Let_def rbind_eq_Inr_iff tbl_add_Inr_iff deletions_ok_def
      deletion_ok_def approved_by_other_def)

lemma decided_row_simps [simp]:
  "dr_id (decided_row row v why hold) = dr_id row" "dr_workspace (decided_row row v why hold) = dr_workspace row"
  "dr_requester (decided_row row v why hold) = dr_requester row"
  "dr_status (decided_row row v why hold) =
     (if v = ''approve'' then if hold then ''blocked'' else ''approved'' else if v = ''reject'' then ''rejected'' else ''deferred'')"
  by (simp_all add: decided_row_def)

lemma approve_Inr:
  assumes "approve_deletion_request env ws k approver v why s = (Inr (Some out), s')"
  obtains row a where "deletion_row ws k (se_db s) = Some row"
    "normalized_decision v = ''approve'' \<Longrightarrow> dr_requester row \<noteq> approver"
    "da_request a = k" "da_workspace a = ws" "da_approver a = approver" "da_decision a = normalized_decision v"
    "se_db s' = (se_db s)\<lparr>deletion_requests := tbl_put dr_id (decided_row row (normalized_decision v) why
        (legal_hold_active ws (se_db s))) (deletion_requests (se_db s)),
      deletion_approvals := deletion_approvals (se_db s) @ [a]\<rparr>"
    "se_reports s' = se_reports s" "se_evidence s' = se_evidence s"
proof (cases "deletion_row ws k (se_db s)")
  case None
  with assms show ?thesis by (simp add: approve_deletion_request_def tbind_Inr_iff)
next
  case (Some row)
  note r = deletion_row_Some [OF Some]
  let ?new = "decided_row row (normalized_decision v) why (legal_hold_active ws (se_db s))"
  let ?a = "\<lparr>da_id = ce_fresh env (se_next s), da_request = dr_id ?new, da_workspace = dr_workspace ?new,
      da_approver = approver, da_decision = normalized_decision v, da_reason = why\<rparr>"
  from Some assms have n: "normalized_decision v = ''approve'' \<Longrightarrow> dr_requester row \<noteq> approver"
    and d: "se_db s' = (se_db s)\<lparr>deletion_requests := tbl_put dr_id ?new (deletion_requests (se_db s)),
      deletion_approvals := deletion_approvals (se_db s) @ [?a]\<rparr>"
      "se_reports s' = se_reports s" "se_evidence s' = se_evidence s"
    by (auto simp: approve_deletion_request_def tbind_Inr_iff Let_def put_deletion_def rbind_eq_Inr_iff tbl_add_Inr_iff
        split: if_split_asm)
  show ?thesis by (rule that [OF Some n _ _ _ _ d(1)]) (use r d in simp_all)
qed

lemma approve_None: "approve_deletion_request env ws k approver v why s = (Inr None, s') \<Longrightarrow> s' = s"
  by (cases "deletion_row ws k (se_db s)")
    (auto simp: approve_deletion_request_def tbind_Inr_iff Let_def split: if_split_asm)

lemma approve_ok:
  assumes "approve_deletion_request env ws k approver v why s = (Inr out, s')" "deletions_ok (se_db s)"
  shows "deletions_ok (se_db s')"
proof (cases out)
  case None
  with assms approve_None show ?thesis by blast
next
  case (Some x)
  obtain row a where a: "deletion_row ws k (se_db s) = Some row"
    "normalized_decision v = ''approve'' \<Longrightarrow> dr_requester row \<noteq> approver"
    "da_request a = k" "da_workspace a = ws" "da_approver a = approver" "da_decision a = normalized_decision v"
    "se_db s' = (se_db s)\<lparr>deletion_requests := tbl_put dr_id (decided_row row (normalized_decision v) why
        (legal_hold_active ws (se_db s))) (deletion_requests (se_db s)),
      deletion_approvals := deletion_approvals (se_db s) @ [a]\<rparr>"
    by (rule approve_Inr [OF assms(1)[unfolded Some]]) (rule that; assumption)
  show ?thesis
    by (rule deletions_ok_put [OF assms(2)])
      (use a deletion_row_Some [OF a(1)] in \<open>auto simp: deletion_ok_def approved_by_other_def\<close>)
qed

definition order_of :: "string \<Rightarrow> deletion_request \<Rightarrow> string option \<Rightarrow> deletion_order" where
  "order_of workspace_id row backup =
     \<lparr>do_workspace = workspace_id, do_selector = dr_selector row, do_legal_hold = False, do_approved = True,
      do_snapshots = dr_snapshots row, do_indexes = dr_indexes row, do_backup = backup\<rparr>"

definition executed_result :: "string \<Rightarrow> pydict" where
  "executed_result path =
     [(''status'', PStr ''executed''), (''reason'', PStr ''approved''), (''evidence_report_path'', PStr path)]"

lemma workflow_executes:
  "execute_deletion_workflow env (order_of ws row backup) root s =
     (let k = ce_fresh env (se_next s); path = report_path root ws k
      in (Inr (executed_result path),
          s\<lparr>se_next := Suc (se_next s),
            se_reports := dset (se_reports s) path (deletion_report (order_of ws row backup) k)\<rparr>))"
  by (simp add: execute_deletion_workflow_def order_of_def executed_result_def tbind_def issue_id_def Let_def)

lemma finish_Inr:
  assumes "finish_deletion env row (executed_result path) s = (Inr out, s')"
    and "path \<noteq> []" "dget (se_reports s) path = Some report"
  obtains stored fs fs' where
    "store_evidence_bundle (ce_evidence env) (dr_workspace row) ''deletion_execution''
       [(''deletion_request_id'', PStr (dr_id row)), (''workflow_result'', PDict (executed_result path)),
        (''report'', PDict report)] None (se_evidence s) = (Inr stored, fs)"
    "store_evidence_bundle (ce_evidence env) (dr_workspace row) ''deletion_attestation''
       (build_deletion_attestation env (dr_workspace row) (dr_id row) report (executed_result path)) None fs = (Inr fs', se_evidence s')"
    "se_db s' = (se_db s)\<lparr>deletion_requests := tbl_put dr_id
       (row\<lparr>dr_status := ''executed'', dr_evidence_uri := Some (sb_uri stored)\<rparr>) (deletion_requests (se_db s))\<rparr>"
    "se_reports s' = se_reports s"
    "out = Some (execution_message row ''executed'' ''approved'' @
       [(''evidence_report_path'', PStr path), (''evidence_bundle_uri'', PStr (sb_uri stored)),
        (''attestation'', PDict (build_deletion_attestation env (dr_workspace row) (dr_id row) report (executed_result path)))])"
proof -
  have path: "str_of (executed_result path) ''evidence_report_path'' [] = path"
    by (simp add: executed_result_def dget_or_def)
  have read: "read_report path s = (Inr report, s)" using assms(2,3) by (simp add: read_report_def)
  from assms(1) obtain stored s1 att s2 where
    st1: "store_bundle env (dr_workspace row) ''deletion_execution''
       [(''deletion_request_id'', PStr (dr_id row)), (''workflow_result'', PDict (executed_result path)),
        (''report'', PDict report)] s = (Inr stored, s1)"
    and st2: "store_bundle env (dr_workspace row) ''deletion_attestation''
       (build_deletion_attestation env (dr_workspace row) (dr_id row) report (executed_result path)) s1 = (Inr att, s2)"
    and fin: "put_deletion (row\<lparr>dr_status := ''executed'', dr_evidence_uri := Some (sb_uri stored)\<rparr>) s2 = (Inr (), s')"
      "out = Some (execution_message row ''executed'' ''approved'' @
       [(''evidence_report_path'', PStr path), (''evidence_bundle_uri'', PStr (sb_uri stored)),
        (''attestation'', PDict (build_deletion_attestation env (dr_workspace row) (dr_id row) report (executed_result path)))])"
    unfolding finish_deletion_def Let_def path by (auto simp: tbind_Inr_iff read)
  obtain fs where s1: "s1 = s\<lparr>se_evidence := fs\<rparr>"
    "store_evidence_bundle (ce_evidence env) (dr_workspace row) ''deletion_execution''
       [(''deletion_request_id'', PStr (dr_id row)), (''workflow_result'', PDict (executed_result path)),
        (''report'', PDict report)] None (se_evidence s) = (Inr stored, fs)"
    using store_bundle_Inr [OF st1] by auto
  obtain fs2 where s2: "s2 = s1\<lparr>se_evidence := fs2\<rparr>"
    "store_evidence_bundle (ce_evidence env) (dr_workspace row) ''deletion_attestation''
       (build_deletion_attestation env (dr_workspace row) (dr_id row) report (executed_result path)) None (se_evidence s1) = (Inr att, fs2)"
    using store_bundle_Inr [OF st2] by auto
  show ?thesis by (rule that [OF s1(2)]) (use s1 s2 fin in \<open>auto simp: put_deletion_def\<close>)
qed

lemma execute_cases:
  assumes "execute_deletion_request env ws k root backup s = (Inr out, s')"
  obtains (missing) "s' = s" "out = None"
  | (held) row where "deletion_row ws k (se_db s) = Some row" "legal_hold_active ws (se_db s)"
      "s' = s\<lparr>se_db := (se_db s)\<lparr>deletion_requests := tbl_put dr_id (row\<lparr>dr_legal_hold := True, dr_status := ''blocked'',
         dr_approval_reason := Some ''legal_hold_active''\<rparr>) (deletion_requests (se_db s))\<rparr>\<rparr>"
      "out = Some (execution_message row ''blocked'' ''legal_hold_active'')"
  | (executed) row path s1 where "deletion_row ws k (se_db s) = Some row" "\<not> legal_hold_active ws (se_db s)"
      "dr_status row = ''approved''" "path = report_path root ws (ce_fresh env (se_next s))"
      "s1 = s\<lparr>se_next := Suc (se_next s), se_reports := dset (se_reports s) path
         (deletion_report (order_of ws row backup) (ce_fresh env (se_next s)))\<rparr>"
      "finish_deletion env (row\<lparr>dr_legal_hold := False\<rparr>) (executed_result path) s1 = (Inr out, s')"
proof (cases "deletion_row ws k (se_db s)")
  case None
  with assms show ?thesis by (intro missing) (simp_all add: execute_deletion_request_def tbind_Inr_iff)
next
  case (Some row)
  show ?thesis
  proof (cases "legal_hold_active ws (se_db s)")
    case True
    with Some assms show ?thesis
      by (intro held [of row]) (auto simp: execute_deletion_request_def tbind_Inr_iff put_deletion_def execution_message_def Let_def)
  next
    case False
    let ?path = "report_path root ws (ce_fresh env (se_next s))"
    have ord: "\<lparr>do_workspace = ws, do_selector = dr_selector row, do_legal_hold = False, do_approved = True,
        do_snapshots = dr_snapshots row, do_indexes = dr_indexes row, do_backup = backup\<rparr> = order_of ws row backup"
      by (simp add: order_of_def)
    have st: "py_str (dget_or (executed_result p) ''status'' PNone) = ''executed''" for p
      by (simp add: executed_result_def dget_or_def)
    have a: "dr_status row = ''approved'' \<and> finish_deletion env (row\<lparr>dr_legal_hold := False\<rparr>) (executed_result ?path)
        (s\<lparr>se_next := Suc (se_next s), se_reports := dset (se_reports s) ?path
         (deletion_report (order_of ws row backup) (ce_fresh env (se_next s)))\<rparr>) = (Inr out, s')"
      using assms Some False
      unfolding execute_deletion_request_def Let_def
      by (auto simp: tbind_Inr_iff ord workflow_executes st Let_def split: if_split_asm)
    then show ?thesis using executed [OF Some False _ refl refl] by simp
  qed
qed

lemma execute_ok:
  assumes "execute_deletion_request env ws k root backup s = (Inr out, s')" "deletions_ok (se_db s)"
  shows "deletions_ok (se_db s')"
  using assms(1)
proof (cases rule: execute_cases)
  case (held row)
  then show ?thesis
    by (intro deletions_ok_put [OF assms(2)]) (auto simp: deletion_ok_def)
next
  case (executed row path s1)
  note row = deletion_row_Some [OF executed(1)]
  have ok: "deletion_ok (se_db s) row" using assms(2) row by (auto simp: deletions_ok_def)
  have path: "path \<noteq> []" using executed(4) by (simp add: report_path_given)
  have rep: "dget (se_reports s1) path = Some (deletion_report (order_of ws row backup) (ce_fresh env (se_next s)))"
    using executed(5) by simp
  show ?thesis
  proof (rule finish_Inr [OF executed(6) path rep])
    fix stored :: stored_bundle
    let ?row = "row\<lparr>dr_legal_hold := False\<rparr>\<lparr>dr_status := ''executed'', dr_evidence_uri := Some (sb_uri stored)\<rparr>"
    assume d: "se_db s' = (se_db s1)\<lparr>deletion_requests := tbl_put dr_id ?row (deletion_requests (se_db s1))\<rparr>"
    have "deletion_ok (se_db s') ?row"
      using ok executed(3) d executed(5) by (simp add: deletion_ok_def approved_by_other_def)
    then show "deletions_ok (se_db s')"
      by (rule deletions_ok_put [OF assms(2)]) (use d executed(5) in auto)
  qed
qed (use assms(2) in simp)

section \<open>Any sequence of operations\<close>

text \<open>
  A step of the deletion workflow in a transaction of its own, or any transaction that leaves
  the deletion requests and their approvals alone.
\<close>

inductive deletion_step :: "cp_env \<Rightarrow> cp_session \<Rightarrow> cp_session \<Rightarrow> bool" for env where
  submitted: "in_transaction (submit_deletion_request env ws actor sel snaps idxs) s = (r, s') \<Longrightarrow> deletion_step env s s'"
| judged: "in_transaction (approve_deletion_request env ws k approver v why) s = (r', s') \<Longrightarrow> deletion_step env s s'"
| carried_out: "in_transaction (execute_deletion_request env ws k root backup) s = (r', s') \<Longrightarrow> deletion_step env s s'"
| untouched: "deletion_requests (se_db s') = deletion_requests (se_db s) \<Longrightarrow>
    deletion_approvals (se_db s') = deletion_approvals (se_db s) \<Longrightarrow> deletion_step env s s'"

lemma transaction_ok:
  assumes "in_transaction m s = (r, s')" "P (se_db s)"
    and "\<And>x. m s = (Inr x, s') \<Longrightarrow> P (se_db s')"
  shows "P (se_db s')"
proof (cases r)
  case (Inl e)
  then show ?thesis using assms(1,2) in_transaction_Inl by metis
qed (use assms in auto)

lemma deletion_step_ok: "deletion_step env s s' \<Longrightarrow> deletions_ok (se_db s) \<Longrightarrow> deletions_ok (se_db s')"
proof (induction rule: deletion_step.induct)
  case (untouched s' s)
  then show ?case by (simp add: deletions_ok_def deletion_ok_def approved_by_other_def)
qed (rule transaction_ok, assumption, assumption, erule submit_ok approve_ok execute_ok, assumption)+

lemma deletion_steps_ok: "(deletion_step env)\<^sup>*\<^sup>* s s' \<Longrightarrow> deletions_ok (se_db s) \<Longrightarrow> deletions_ok (se_db s')"
  by (induction rule: rtranclp_induct) (auto intro: deletion_step_ok)

section \<open>Properties\<close>

text \<open>
  C32. Separation of duties: in every state reached by any sequence of requests, decisions and
  executions, each request that is approved or executed has an approval on record by someone
  other than its requester, and each executed one names its evidence.
\<close>

theorem deletion_needs_second_person:
  assumes "(deletion_step env)\<^sup>*\<^sup>* s s'" "deletions_ok (se_db s)"
    and "row \<in> set (deletion_requests (se_db s'))" "dr_status row = ''approved'' \<or> dr_status row = ''executed''"
  shows "(\<exists>a \<in> set (deletion_approvals (se_db s')). da_request a = dr_id row \<and> da_workspace a = dr_workspace row \<and>
      da_decision a = ''approve'' \<and> da_approver a \<noteq> dr_requester row) \<and>
    (dr_status row = ''executed'' \<longrightarrow> dr_evidence_uri row \<noteq> None)"
  using deletion_steps_ok [OF assms(1,2)] assms(3,4)
  by (auto simp: deletions_ok_def deletion_ok_def approved_by_other_def)

text \<open>
  A legal hold stops a deletion: while the workspace is under one, an execution writes no
  report, no evidence and no attestation and answers that it is blocked, and no decision makes
  a request approved; both leave the request blocked when it would have gone ahead.
\<close>

theorem legal_hold_stops_deletion:
  assumes "legal_hold_active ws (se_db s)" "deletion_row ws k (se_db s) = Some row"
  shows "(\<forall>r s'. execute_deletion_request env ws k root backup s = (r, s') \<longrightarrow>
      r = Inr (Some (execution_message row ''blocked'' ''legal_hold_active'')) \<and>
      se_reports s' = se_reports s \<and> se_evidence s' = se_evidence s \<and> se_artifacts s' = se_artifacts s \<and>
      map_option dr_status (deletion_row ws k (se_db s')) = Some ''blocked'') \<and>
    (\<forall>out s'. approve_deletion_request env ws k approver v why s = (Inr (Some out), s') \<longrightarrow>
      (\<forall>row'. deletion_row ws k (se_db s') = Some row' \<longrightarrow> dr_status row' \<noteq> ''approved''))"
proof (intro conjI allI impI)
  fix r s' assume run: "execute_deletion_request env ws k root backup s = (r, s')"
  note row = deletion_row_Some [OF assms(2)]
  let ?new = "row\<lparr>dr_legal_hold := True, dr_status := ''blocked'', dr_approval_reason := Some ''legal_hold_active''\<rparr>"
  have "execute_deletion_request env ws k root backup s =
      (Inr (Some (execution_message row ''blocked'' ''legal_hold_active'')),
       s\<lparr>se_db := (se_db s)\<lparr>deletion_requests := tbl_put dr_id ?new (deletion_requests (se_db s))\<rparr>\<rparr>)"
    using assms
    by (simp add: execute_deletion_request_def tbind_def tread_def tpure_def put_deletion_def tmodify_def
        execution_message_def Let_def)
  with run have e: "r = Inr (Some (execution_message row ''blocked'' ''legal_hold_active''))"
    "s' = s\<lparr>se_db := (se_db s)\<lparr>deletion_requests := tbl_put dr_id ?new (deletion_requests (se_db s))\<rparr>\<rparr>"
    by (simp_all only: prod.inject)
  then show "r = Inr (Some (execution_message row ''blocked'' ''legal_hold_active''))"
    "se_reports s' = se_reports s" "se_evidence s' = se_evidence s" "se_artifacts s' = se_artifacts s" by simp_all
  show "map_option dr_status (deletion_row ws k (se_db s')) = Some ''blocked''"
    using e(2) row by (auto simp: deletion_row_def tbl_get_put)
next
  fix out s' row'
  assume run: "approve_deletion_request env ws k approver v why s = (Inr (Some out), s')"
    and row': "deletion_row ws k (se_db s') = Some row'"
  show "dr_status row' \<noteq> ''approved''"
  proof (rule approve_Inr [OF run])
    fix r a
    assume r: "deletion_row ws k (se_db s) = Some r"
      and d: "se_db s' = (se_db s)\<lparr>deletion_requests := tbl_put dr_id (decided_row r (normalized_decision v) why
        (legal_hold_active ws (se_db s))) (deletion_requests (se_db s)),
        deletion_approvals := deletion_approvals (se_db s) @ [a]\<rparr>"
    have "deletion_row ws k (se_db s') = Some (decided_row r (normalized_decision v) why True)"
      using deletion_row_Some [OF r] assms(1) by (auto simp: d deletion_row_def tbl_get_put)
    then show "dr_status row' \<noteq> ''approved''" using row' by auto
  qed
qed

text \<open>
  An executed deletion is attested: an execution that answers ``executed'' was of an approved
  request without a legal hold; its report, the attestation and the evidence agree on the
  affected snapshots and indexes, and the attestation carries the signature of exactly what it
  says.
\<close>

theorem executed_deletion_attested:
  assumes "execute_deletion_request env ws k root backup s = (Inr (Some out), s')"
    and "dget out ''status'' = Some (PStr ''executed'')"
  shows "\<exists>row path report body stored fs. deletion_row ws k (se_db s) = Some row \<and> dr_status row = ''approved'' \<and>
    \<not> legal_hold_active ws (se_db s) \<and> dget (se_reports s') path = Some report \<and>
    dget out ''evidence_report_path'' = Some (PStr path) \<and>
    body = attestation_body env ws k report (executed_result path) \<and>
    dget body ''report_summary'' = Some (PDict [(''snapshots_updated'', str_py_list (sort (dr_snapshots row))),
      (''indexes_updated'', str_py_list (sort (dr_indexes row)))]) \<and>
    dget out ''attestation'' = Some (PDict (body @ [(''signature'', PStr (ce_sign env (json_dumps (PDict body)))),
      (''algorithm'', PStr ''HMAC-SHA256''), (''key_id'', PStr ''deletion-attestation-v1'')])) \<and>
    store_evidence_bundle (ce_evidence env) ws ''deletion_execution''
       [(''deletion_request_id'', PStr k), (''workflow_result'', PDict (executed_result path)),
        (''report'', PDict report)] None (se_evidence s) = (Inr stored, fs) \<and>
    dget out ''evidence_bundle_uri'' = Some (PStr (sb_uri stored)) \<and>
    map_option dr_status (deletion_row ws k (se_db s')) = Some ''executed''"
  using assms(1)
proof (cases rule: execute_cases)
  case (held row)
  with assms(2) show ?thesis by (simp add: execution_message_def dget_def)
next
  case (executed row path s1)
  note row = deletion_row_Some [OF executed(1)]
  let ?rep = "deletion_report (order_of ws row backup) (ce_fresh env (se_next s))"
  have path: "path \<noteq> []" using executed(4) by (simp add: report_path_given)
  have rep: "dget (se_reports s1) path = Some ?rep" using executed(5) by simp
  show ?thesis
  proof (rule finish_Inr [OF executed(6) path rep])
    fix stored :: stored_bundle and fs
    let ?row = "row\<lparr>dr_legal_hold := False\<rparr>\<lparr>dr_status := ''executed'', dr_evidence_uri := Some (sb_uri stored)\<rparr>"
    assume st: "store_evidence_bundle (ce_evidence env) (dr_workspace (row\<lparr>dr_legal_hold := False\<rparr>)) ''deletion_execution''
       [(''deletion_request_id'', PStr (dr_id (row\<lparr>dr_legal_hold := False\<rparr>))), (''workflow_result'', PDict (executed_result path)),
        (''report'', PDict ?rep)] None (se_evidence s1) = (Inr stored, fs)"
      and d: "se_db s' = (se_db s1)\<lparr>deletion_requests := tbl_put dr_id ?row (deletion_requests (se_db s1))\<rparr>"
      and reps: "se_reports s' = se_reports s1"
      and out: "Some out = Some (execution_message (row\<lparr>dr_legal_hold := False\<rparr>) ''executed'' ''approved'' @
       [(''evidence_report_path'', PStr path), (''evidence_bundle_uri'', PStr (sb_uri stored)),
        (''attestation'', PDict (build_deletion_attestation env (dr_workspace (row\<lparr>dr_legal_hold := False\<rparr>))
           (dr_id (row\<lparr>dr_legal_hold := False\<rparr>)) ?rep (executed_result path)))])"
    let ?body = "attestation_body env ws k ?rep (executed_result path)"
    have "dget ?body ''report_summary'' = Some (PDict [(''snapshots_updated'', str_py_list (sort (dr_snapshots row))),
      (''indexes_updated'', str_py_list (sort (dr_indexes row)))])"
      by (simp add: attestation_body_def deletion_report_def order_of_def dget_def dget_or_def)
    moreover have "dget out ''attestation'' = Some (PDict (?body @ [(''signature'', PStr (ce_sign env (json_dumps (PDict ?body)))),
      (''algorithm'', PStr ''HMAC-SHA256''), (''key_id'', PStr ''deletion-attestation-v1'')]))"
      "dget out ''evidence_report_path'' = Some (PStr path)" "dget out ''evidence_bundle_uri'' = Some (PStr (sb_uri stored))"
      using out row by (simp_all add: build_deletion_attestation_def execution_message_def dget_def Let_def del: json_dumps.simps)
    moreover have "map_option dr_status (deletion_row ws k (se_db s')) = Some ''executed''"
      using d row executed(5) by (auto simp: deletion_row_def tbl_get_put)
    ultimately show ?thesis
      using executed(1-3,5) reps rep st row
      by (intro exI [of _ row] exI [of _ path] exI [of _ ?rep] exI [of _ ?body] exI [of _ stored] exI [of _ fs]) simp
  qed
qed simp

section \<open>A concrete deletion\<close>

definition submitted_session :: cp_session where
  "submitted_session = snd (in_transaction (submit_deletion_request demo_cp_env ''w'' ''user:ann''
     [(''subject'', PStr ''a@b'')] [''s2'', ''s1''] [''i1'']) demo_session)"

definition judged_session :: cp_session where
  "judged_session = snd (in_transaction (approve_deletion_request demo_cp_env ''w'' ''id'' ''user:bob'' ''approve'' ''ok'')
     submitted_session)"

definition demo_execution :: "pydict option res \<times> cp_session" where
  "demo_execution = execute_deletion_request (demo_cp_env\<lparr>ce_now := 7\<rparr>) ''w'' ''id'' ''/out'' None judged_session"

definition executed_now :: "pydict option res \<times> cp_session \<Rightarrow> bool" where
  "executed_now result = (case fst result of
     Inr (Some out) \<Rightarrow> dget out ''status'' = Some (PStr ''executed'') | _ \<Rightarrow> False)"

lemma demo_executed: "executed_now demo_execution"
  by code_simp

lemma executed_nowD:
  "executed_now result \<Longrightarrow> \<exists>out. result = (Inr (Some out), snd result) \<and> dget out ''status'' = Some (PStr ''executed'')"
  by (cases result) (auto simp: executed_now_def split: sum.split_asm option.split_asm)

lemma demo_judged: "map dr_status (deletion_requests (se_db judged_session)) = [''approved'']"
  by code_simp

theorem executed_deletion_attested_witness:
  "\<exists>row path report. deletion_row ''w'' ''id'' (se_db judged_session) = Some row \<and> dr_status row = ''approved'' \<and>
     dget (se_reports (snd demo_execution)) path = Some report"
proof -
  obtain out where run: "demo_execution = (Inr (Some out), snd demo_execution)"
    and out: "dget out ''status'' = Some (PStr ''executed'')"
    using executed_nowD [OF demo_executed] by (elim exE conjE)
  from run have "execute_deletion_request (demo_cp_env\<lparr>ce_now := 7\<rparr>) ''w'' ''id'' ''/out'' None judged_session =
      (Inr (Some out), snd demo_execution)"
    unfolding demo_execution_def .
  from executed_deletion_attested [OF this out] show ?thesis
    by (elim exE conjE) (intro exI conjI; assumption)
qed

theorem deletion_needs_second_person_witness:
  "\<exists>a \<in> set (deletion_approvals (se_db judged_session)). da_decision a = ''approve'' \<and> da_approver a \<noteq> ''user:ann''"
proof -
  have "deletion_step demo_cp_env demo_session submitted_session"
    unfolding submitted_session_def by (rule submitted [OF prod.collapse [symmetric]])
  moreover have "deletion_step demo_cp_env submitted_session judged_session"
    unfolding judged_session_def by (rule judged [OF prod.collapse [symmetric]])
  ultimately have steps: "(deletion_step demo_cp_env)\<^sup>*\<^sup>* demo_session judged_session"
    by (rule converse_rtranclp_into_rtranclp [OF _ r_into_rtranclp])
  have start: "deletions_ok (se_db demo_session)"
    by (simp add: deletions_ok_def demo_session_def empty_db_def)
  have row: "hd (deletion_requests (se_db judged_session)) \<in> set (deletion_requests (se_db judged_session))"
    "dr_status (hd (deletion_requests (se_db judged_session))) = ''approved''"
    using demo_judged by auto
  have "dr_requester (hd (deletion_requests (se_db judged_session))) = ''user:ann''" by code_simp
  then show ?thesis
    using deletion_needs_second_person [OF steps start row(1) disjI1 [OF row(2)]] by auto
qed

theorem legal_hold_stops_deletion_witness:
  "fst (execute_deletion_request demo_cp_env ''w'' ''id'' ''/out'' None
     (judged_session\<lparr>se_db := (se_db judged_session)\<lparr>retention_policies :=
        [demo_retention\<lparr>rp_legal_hold := True\<rparr>]\<rparr>\<rparr>)) =
   Inr (Some (execution_message (hd (deletion_requests (se_db judged_session))) ''blocked'' ''legal_hold_active''))"
proof -
  let ?s = "judged_session\<lparr>se_db := (se_db judged_session)\<lparr>retention_policies := [demo_retention\<lparr>rp_legal_hold := True\<rparr>]\<rparr>\<rparr>"
  have hold: "legal_hold_active ''w'' (se_db ?s)"
    by (simp add: legal_hold_active_def latest_retention_policy_def demo_retention_def retention_row_def)
  have "map_option dr_status (deletion_row ''w'' ''id'' (se_db judged_session)) = Some ''approved'' \<and>
      deletion_row ''w'' ''id'' (se_db judged_session) = Some (hd (deletion_requests (se_db judged_session)))"
    by code_simp
  then have "deletion_row ''w'' ''id'' (se_db ?s) = Some (hd (deletion_requests (se_db judged_session)))"
    by (simp add: deletion_row_def)
  from legal_hold_stops_deletion [OF hold this] show ?thesis by (metis prod.collapse)
qed

end
