(* ===== verification/Scheduling.thy ===== *)
theory Scheduling
  imports PackEffects
begin

text \<open>
  Run schedules (\<open>backend/shared_domain/scheduling.py\<close>): the accepted expressions and their
  intervals, schedules as governance policies, and the queueing of the runs that are due.
\<close>

section \<open>Expressions\<close>

definition digits_number :: "string \<Rightarrow> int" where
  "digits_number s = foldl (\<lambda>a c. a * 10 + int (code c - 48)) 0 s"

text \<open>\<open>^\*/(\d{1,4}) \* \* \* \*$\<close> against the whole text.\<close>

fun minute_cron :: "string \<Rightarrow> string option" where
  "minute_cron (c # d # rest) =
     (let digits = takeWhile is_digit rest
      in if c = CHR ''*'' \<and> d = CHR ''/'' \<and> digits \<noteq> [] \<and> length digits \<le> 4 \<and>
            dropWhile is_digit rest = '' * * * *''
         then Some digits else None)"
| "minute_cron _ = None"

definition validate_schedule_expression :: "string \<Rightarrow> int res" where
  "validate_schedule_expression expression =
     (let normalized = lower (strip expression)
      in if normalized = ''@hourly'' then Inr 3600
         else if normalized = ''@daily'' then Inr 86400
         else case minute_cron normalized of
           None \<Rightarrow> Inl (ValueError ''invalid_schedule_expression'')
         | Some digits \<Rightarrow>
             (let minutes = digits_number digits
              in if minutes \<le> 0 \<or> minutes > 1440 then Inl (ValueError ''invalid_schedule_expression'')
                 else Inr (minutes * 60)))"

section \<open>Schedules\<close>

definition create_run_schedule ::
  "cp_env \<Rightarrow> string \<Rightarrow> string \<Rightarrow> string \<Rightarrow> bool \<Rightarrow> string \<Rightarrow> pydict tx" where
  "create_run_schedule env workspace_id kind schedule_expression enabled actor_id =
     tbind (tres (validate_schedule_expression schedule_expression)) (\<lambda>interval_seconds.
     tbind (issue_id env) (\<lambda>schedule_id.
     let payload = [(''schedule_id'', PStr schedule_id), (''workspace_id'', PStr workspace_id),
           (''run_type'', PStr kind), (''schedule_expression'', PStr schedule_expression),
           (''interval_seconds'', PInt interval_seconds), (''enabled'', PBool enabled),
           (''next_run_epoch'', if enabled then PInt (ce_now env + interval_seconds) else PNone),
           (''created_by'', PStr actor_id)]
     in tbind (add_policy (policy_row schedule_id workspace_id ''run_schedule'' payload ''active''))
          (\<lambda>_. tpure payload)))"

definition parse_schedule_payload :: "json_text \<Rightarrow> string \<Rightarrow> pydict" where
  "parse_schedule_payload definition_ref fallback_id =
     (let payload = load_definition definition_ref
      in if dget payload ''schedule_id'' = None then dset payload ''schedule_id'' (PStr fallback_id) else payload)"

definition list_run_schedules :: "string \<Rightarrow> db \<Rightarrow> pydict list" where
  "list_run_schedules workspace_id d =
     map (\<lambda>row. parse_schedule_payload (gp_definition row) (gp_id row))
       (sort_key gp_id (filter (\<lambda>r. gp_workspace r = workspace_id \<and> gp_type r = ''run_schedule'' \<and>
                                    gp_status r = ''active'') (policies d)))"

section \<open>Queueing due runs\<close>

text \<open>\<open>isinstance(value, int)\<close>, which holds of booleans too.\<close>

fun int_instance :: "pyval \<Rightarrow> int option" where
  "int_instance (PInt n) = Some n"
| "int_instance (PBool b) = Some (if b then 1 else 0)"
| "int_instance _ = None"

definition schedule_of :: "governance_policy \<Rightarrow> pydict" where
  "schedule_of row = parse_schedule_payload (gp_definition row) (gp_id row)"

definition schedule_due :: "int \<Rightarrow> governance_policy \<Rightarrow> bool" where
  "schedule_due now row \<longleftrightarrow> py_truth (dget_or (schedule_of row) ''enabled'' (PBool False)) \<and>
     (case int_instance (dget_or (schedule_of row) ''next_run_epoch'' PNone) of
        None \<Rightarrow> False | Some next_run \<Rightarrow> next_run \<le> now)"

definition scheduled_run :: "string \<Rightarrow> governance_policy \<Rightarrow> run_record" where
  "scheduled_run new_run_id row =
     \<lparr>run_id = new_run_id, run_workspace = str_of (schedule_of row) ''workspace_id'' (gp_workspace row),
      run_type = str_of (schedule_of row) ''run_type'' ''discover'', run_status = ''queued'',
      run_input_refs = [(''source'', PStr ''scheduler''),
        (''schedule_id'', PStr (str_of (schedule_of row) ''schedule_id'' (gp_id row)))],
      run_output_refs = []\<rparr>"

definition advanced :: "int \<Rightarrow> int \<Rightarrow> governance_policy \<Rightarrow> governance_policy" where
  "advanced now interval_seconds row =
     row\<lparr>gp_definition := Some (PDict (dset (schedule_of row) ''next_run_epoch'' (PInt (now + max interval_seconds 60))))\<rparr>"

definition created_summary :: "run_record \<Rightarrow> governance_policy \<Rightarrow> pydict" where
  "created_summary run row =
     [(''run_id'', PStr (run_id run)), (''workspace_id'', PStr (run_workspace run)),
      (''run_type'', PStr (run_type run)),
      (''schedule_id'', PStr (str_of (schedule_of row) ''schedule_id'' (gp_id row)))]"

definition add_run :: "run_record \<Rightarrow> unit tx" where
  "add_run run = tchange (\<lambda>d. rbind (tbl_add run_id run (runs d)) (\<lambda>t. Inr (d\<lparr>runs := t\<rparr>)))"

fun enqueue_loop :: "cp_env \<Rightarrow> int \<Rightarrow> governance_policy list \<Rightarrow> pydict list tx" where
  "enqueue_loop env now [] = tpure []"
| "enqueue_loop env now (row # rows) =
     (if \<not> schedule_due now row then enqueue_loop env now rows
      else tbind (issue_id env) (\<lambda>new_run_id.
        let run = scheduled_run new_run_id row
        in tbind (add_run run) (\<lambda>_.
           tbind (tres (py_int (dget_or (schedule_of row) ''interval_seconds'' (PInt 60)))) (\<lambda>interval_seconds.
           tbind (put_policy (advanced now interval_seconds row)) (\<lambda>_.
           tbind (enqueue_loop env now rows) (\<lambda>created. tpure (created_summary run row # created)))))))"

definition active_schedules :: "db \<Rightarrow> governance_policy list" where
  "active_schedules d = filter (\<lambda>r. gp_type r = ''run_schedule'' \<and> gp_status r = ''active'') (policies d)"

definition enqueue_due_scheduled_runs :: "cp_env \<Rightarrow> int option \<Rightarrow> pydict list tx" where
  "enqueue_due_scheduled_runs env now_epoch =
     (let now = (case now_epoch of None \<Rightarrow> ce_now env | Some n \<Rightarrow> n)
      in tbind (tread active_schedules) (\<lambda>rows. enqueue_loop env now rows))"

section \<open>Lemmas on expressions\<close>

lemma minute_cron_Some:
  "minute_cron s = Some digits \<longleftrightarrow>
     (s = ''*/'' @ digits @ '' * * * *'' \<and> digits \<noteq> [] \<and> length digits \<le> 4 \<and> list_all is_digit digits)"
proof (cases s rule: minute_cron.cases)
  case (1 c d rest)
  have tw: "takeWhile is_digit (ds @ '' * * * *'') = ds \<and> dropWhile is_digit (ds @ '' * * * *'') = '' * * * *''"
    if "list_all is_digit ds" for ds
    using that by (simp add: takeWhile_append2 dropWhile_append2 list_all_iff) (simp add: is_digit_def code_def)
  have sp: "rest = takeWhile is_digit rest @ dropWhile is_digit rest" by simp
  have ta: "list_all is_digit (takeWhile is_digit rest)" by (simp add: list_all_iff) (meson set_takeWhileD)
  show ?thesis
  proof
    assume "minute_cron s = Some digits"
    then have m: "c = CHR ''*''" "d = CHR ''/''" "digits = takeWhile is_digit rest" "digits \<noteq> []" "length digits \<le> 4"
      "dropWhile is_digit rest = '' * * * *''"
      using 1 by (auto simp: Let_def split: if_split_asm)
    then show "s = ''*/'' @ digits @ '' * * * *'' \<and> digits \<noteq> [] \<and> length digits \<le> 4 \<and> list_all is_digit digits"
      using 1 ta sp by simp
  next
    assume a: "s = ''*/'' @ digits @ '' * * * *'' \<and> digits \<noteq> [] \<and> length digits \<le> 4 \<and> list_all is_digit digits"
    then have "c = CHR ''*''" "d = CHR ''/''" "rest = digits @ '' * * * *''" using 1 by auto
    then show "minute_cron s = Some digits" using 1 a tw [of digits] by (simp add: Let_def)
  qed
qed auto

lemma nat_digits_digits: "list_all is_digit (nat_digits n)"
proof (induction n rule: nat_digits.induct)
  case (1 n)
  have d: "is_digit (char_of (48 + m :: nat))" if "m < 10" for m
    using that by (simp add: is_digit_def code_def)
  show ?case
  proof (cases "n < 10")
    case True
    then show ?thesis using d [of n] by (subst nat_digits.simps) simp
  next
    case False
    then show ?thesis using 1 d [of "n mod 10"] by (subst nat_digits.simps) simp
  qed
qed

lemma length_nat_digits: "n < 10 ^ k \<Longrightarrow> 0 < k \<Longrightarrow> length (nat_digits n) \<le> k"
proof (induction k arbitrary: n)
  case (Suc k)
  show ?case
  proof (cases "n < 10")
    case True
    then show ?thesis by (subst nat_digits.simps) simp
  next
    case False
    then have "k \<noteq> 0" using Suc.prems(1) by (cases k) auto
    moreover have "n div 10 < 10 ^ k" using Suc.prems(1) by (simp add: less_mult_imp_div_less mult.commute)
    ultimately have "length (nat_digits (n div 10)) \<le> k" using Suc.IH by simp
    with False show ?thesis by (subst nat_digits.simps) simp
  qed
qed simp

lemma digits_number_nat: "digits_number (nat_digits n) = int n"
proof -
  have "foldl (\<lambda>a c. a * 10 + int (code c - 48)) (int b) s = int (foldl (\<lambda>a c. a * 10 + (code c - 48)) b s)" for s b
    by (induction s arbitrary: b) (simp, metis (no_types, lifting) foldl_Cons of_nat_add of_nat_mult of_nat_numeral)
  from this [of 0 "nat_digits n"] show ?thesis using nat_digits_value [of n] by (simp add: digits_number_def)
qed

text \<open>An accepted text of the minute form is fixed by stripping and lower-casing.\<close>

lemma cron_normal:
  assumes "list_all is_digit ds"
  shows "lower (strip (''*/'' @ ds @ '' * * * *'')) = ''*/'' @ ds @ '' * * * *''"
proof -
  have "strip (''*/'' @ ds @ '' * * * *'') = ''*/'' @ ds @ '' * * * *''"
    by (rule strip_id) (simp_all add: is_space_def code_def)
  moreover have "lower ds = ds"
    using assms by (induction ds) (auto simp: lower_def lower_char_def is_digit_def Let_def)
  moreover have "lower ''*/'' = ''*/''" "lower '' * * * *'' = '' * * * *''" by (simp_all add: lower_def lower_char_def code_def)
  ultimately show ?thesis by (simp add: lower_def)
qed

section \<open>Lemmas on queueing\<close>

definition interval_of :: "governance_policy \<Rightarrow> int" where
  "interval_of row = (case py_int (dget_or (schedule_of row) ''interval_seconds'' (PInt 60)) of Inr n \<Rightarrow> n | Inl _ \<Rightarrow> 60)"

definition after_queueing :: "int \<Rightarrow> governance_policy list \<Rightarrow> governance_policy \<Rightarrow> governance_policy" where
  "after_queueing now rows r =
     (case find (\<lambda>row. schedule_due now row \<and> gp_id row = gp_id r) rows of
        None \<Rightarrow> r | Some row \<Rightarrow> advanced now (interval_of row) row)"

lemma advanced_simps [simp]:
  "gp_id (advanced now n row) = gp_id row" "gp_type (advanced now n row) = gp_type row"
  "gp_status (advanced now n row) = gp_status row" "gp_workspace (advanced now n row) = gp_workspace row"
  by (simp_all add: advanced_def)

lemma enqueue_loop_due:
  assumes "enqueue_loop env now (row # rows) s = (Inr created, s')" "schedule_due now row"
  obtains rest s2 where "enqueue_loop env now rows s2 = (Inr rest, s')"
    "created = created_summary (scheduled_run (ce_fresh env (se_next s)) row) row # rest"
    "runs (se_db s2) = runs (se_db s) @ [scheduled_run (ce_fresh env (se_next s)) row]"
    "policies (se_db s2) = tbl_put gp_id (advanced now (interval_of row) row) (policies (se_db s))"
proof -
  from assms obtain rest n s2 d where
    "enqueue_loop env now rows s2 = (Inr rest, s')"
    "created = created_summary (scheduled_run (ce_fresh env (se_next s)) row) row # rest"
    "py_int (dget_or (schedule_of row) ''interval_seconds'' (PInt 60)) = Inr n"
    "runs (se_db s2) = runs (se_db s) @ [scheduled_run (ce_fresh env (se_next s)) row]"
    "policies (se_db s2) = tbl_put gp_id (advanced now n row) (policies (se_db s))"
    by (auto simp: tbind_Inr_iff Let_def add_run_def rbind_eq_Inr_iff tbl_add_Inr_iff put_policy_def)
  moreover from this have "interval_of row = n" by (simp add: interval_of_def)
  ultimately show ?thesis by (intro that) auto
qed

lemma enqueue_loop_spec:
  "enqueue_loop env now rows s = (Inr created, s') \<Longrightarrow> distinct (map gp_id rows) \<Longrightarrow>
     policies (se_db s') = map (after_queueing now rows) (policies (se_db s)) \<and>
     (\<exists>new. runs (se_db s') = runs (se_db s) @ new \<and>
        map (\<lambda>r. r\<lparr>run_id := []\<rparr>) new = map (scheduled_run []) (filter (schedule_due now) rows)) \<and>
     length created = length (filter (schedule_due now) rows)"
proof (induction rows arbitrary: s created)
  case Nil
  then show ?case by (simp add: after_queueing_def)
next
  case (Cons row rows)
  show ?case
  proof (cases "schedule_due now row")
    case False
    then have "after_queueing now (row # rows) = after_queueing now rows"
      by (auto simp: after_queueing_def fun_eq_iff)
    then show ?thesis using Cons False by simp
  next
    case True
    obtain rest s2 where e: "enqueue_loop env now rows s2 = (Inr rest, s')"
      "created = created_summary (scheduled_run (ce_fresh env (se_next s)) row) row # rest"
      "runs (se_db s2) = runs (se_db s) @ [scheduled_run (ce_fresh env (se_next s)) row]"
      "policies (se_db s2) = tbl_put gp_id (advanced now (interval_of row) row) (policies (se_db s))"
      by (rule enqueue_loop_due [OF Cons.prems(1) True]) (rule that; assumption)
    have nf: "find (\<lambda>r. schedule_due now r \<and> gp_id r = gp_id row) rows = None"
      using Cons.prems(2) unfolding find_None_iff list.map distinct.simps set_map by (metis imageI)
    have "after_queueing now rows (if gp_id x = gp_id row then advanced now (interval_of row) row else x) =
        after_queueing now (row # rows) x" for x
      using nf True by (auto simp: after_queueing_def)
    then have "map (after_queueing now rows) (policies (se_db s2)) = map (after_queueing now (row # rows)) (policies (se_db s))"
      by (simp add: e(4) tbl_put_def)
    moreover have "(scheduled_run k row)\<lparr>run_id := []\<rparr> = scheduled_run [] row" for k
      by (simp add: scheduled_run_def)
    ultimately show ?thesis
      using Cons.IH [OF e(1)] Cons.prems(2) e(2,3) True by auto
  qed
qed

lemma schedule_not_due_after: "\<not> schedule_due now (advanced now n row)"
proof -
  have id: "dget (schedule_of row) ''schedule_id'' \<noteq> None"
    by (simp add: schedule_of_def parse_schedule_payload_def Let_def)
  have "schedule_of (advanced now n row) = dset (schedule_of row) ''next_run_epoch'' (PInt (now + max n 60))"
    unfolding schedule_of_def [of "advanced now n row"] parse_schedule_payload_def Let_def
    using id by (auto simp: advanced_def)
  then show ?thesis by (simp add: schedule_due_def)
qed

lemma enqueue_loop_none: "\<forall>row \<in> set rows. \<not> schedule_due now row \<Longrightarrow> enqueue_loop env now rows s = (Inr [], s)"
  by (induction rows) (auto simp: tpure_def)

section \<open>Properties\<close>

text \<open>
  The interval of an accepted expression is a whole number of minutes between one minute and one
  day, and every such number of minutes can be expressed.
\<close>

theorem schedule_interval_bounds:
  "(validate_schedule_expression e = Inr n \<longrightarrow> 60 \<le> n \<and> n \<le> 86400 \<and> n mod 60 = 0) \<and>
   (1 \<le> m \<and> m \<le> 1440 \<longrightarrow>
      validate_schedule_expression (''*/'' @ nat_digits m @ '' * * * *'') = Inr (60 * int m))"
proof (intro conjI impI)
  assume "validate_schedule_expression e = Inr n"
  then show "60 \<le> n" "n \<le> 86400" "n mod 60 = 0"
    by (auto simp: validate_schedule_expression_def Let_def split: if_split_asm option.split_asm)
next
  assume m: "1 \<le> m \<and> m \<le> 1440"
  let ?e = "''*/'' @ nat_digits m @ '' * * * *''"
  have d: "list_all is_digit (nat_digits m)" by (rule nat_digits_digits)
  have "length (nat_digits m) \<le> 4" using m by (intro length_nat_digits) auto
  then have "minute_cron ?e = Some (nat_digits m)" using d by (subst minute_cron_Some) simp
  moreover have "?e \<noteq> ''@hourly''" "?e \<noteq> ''@daily''" by simp_all
  ultimately show "validate_schedule_expression ?e = Inr (60 * int m)"
    unfolding validate_schedule_expression_def Let_def cron_normal [OF d] using m by (simp add: digits_number_nat)
qed

text \<open>
  Queueing runs exactly the due schedules once: every active, enabled schedule whose time has
  come yields one queued run of its type and workspace, no other run is created, and asking
  again at the same time creates nothing.
\<close>

theorem due_schedules_run_once:
  assumes "enqueue_due_scheduled_runs env (Some now) s = (Inr created, s')"
    and "keys_distinct gp_id (policies (se_db s))"
  shows "(\<exists>new. runs (se_db s') = runs (se_db s) @ new \<and>
      map (\<lambda>r. r\<lparr>run_id := []\<rparr>) new = map (scheduled_run []) (filter (schedule_due now) (active_schedules (se_db s)))) \<and>
    length created = length (filter (schedule_due now) (active_schedules (se_db s))) \<and>
    enqueue_due_scheduled_runs env (Some now) s' = (Inr [], s')"
proof -
  let ?rows = "active_schedules (se_db s)"
  have run: "enqueue_loop env now ?rows s = (Inr created, s')"
    using assms(1) by (simp add: enqueue_due_scheduled_runs_def tbind_def tread_def)
  have dist: "distinct (map gp_id ?rows)"
    using assms(2) by (simp add: active_schedules_def keys_distinct_def distinct_map_filter)
  note spec = enqueue_loop_spec [OF run dist]
  have same: "gp_type (after_queueing now ?rows r) = gp_type r \<and> gp_status (after_queueing now ?rows r) = gp_status r \<and>
      (r \<in> set ?rows \<longrightarrow> \<not> schedule_due now (after_queueing now ?rows r))"
    if r: "r \<in> set (policies (se_db s))" for r
  proof (cases "find (\<lambda>row. schedule_due now row \<and> gp_id row = gp_id r) ?rows")
    case None
    then have "after_queueing now ?rows r = r" by (simp add: after_queueing_def)
    moreover have "r \<in> set ?rows \<Longrightarrow> \<not> schedule_due now r" using None by (auto simp: find_None_iff)
    ultimately show ?thesis by simp
  next
    case (Some row)
    then have "row \<in> set ?rows" "gp_id row = gp_id r" by (auto simp: find_Some_iff)
    then have "row = r"
      using r assms(2) by (auto simp: active_schedules_def keys_distinct_def distinct_map inj_on_def)
    then show ?thesis using Some schedule_not_due_after by (simp add: after_queueing_def)
  qed
  have "\<forall>row \<in> set (active_schedules (se_db s')). \<not> schedule_due now row"
    using same spec by (auto simp: active_schedules_def)
  then have "enqueue_due_scheduled_runs env (Some now) s' = (Inr [], s')"
    by (simp add: enqueue_due_scheduled_runs_def tbind_def tread_def enqueue_loop_none)
  with spec show ?thesis by blast
qed

section \<open>A concrete schedule\<close>

theorem schedule_interval_bounds_witness:
  "validate_schedule_expression (''*/'' @ nat_digits 15 @ '' * * * *'') = Inr 900 \<and> 60 \<le> (900 :: int)"
  using schedule_interval_bounds [of _ _ 15] schedule_interval_bounds [of "''*/'' @ nat_digits 15 @ '' * * * *''" 900] by simp

definition demo_schedule :: governance_policy where
  "demo_schedule = policy_row ''s1'' ''w'' ''run_schedule''
     [(''schedule_id'', PStr ''s1''), (''workspace_id'', PStr ''w''), (''run_type'', PStr ''build_gold''),
      (''interval_seconds'', PInt 600), (''enabled'', PBool True), (''next_run_epoch'', PInt 50)] ''active''"

definition schedule_session :: cp_session where
  "schedule_session = demo_session\<lparr>se_db := empty_db\<lparr>policies := [demo_schedule]\<rparr>\<rparr>"

definition demo_queueing :: "pydict list res \<times> cp_session" where
  "demo_queueing = enqueue_due_scheduled_runs demo_cp_env (Some 70) schedule_session"

lemma demo_queued: "(case fst demo_queueing of Inr created \<Rightarrow> length created = 1 | Inl _ \<Rightarrow> False)"
  by code_simp

theorem due_schedules_run_once_witness:
  "enqueue_due_scheduled_runs demo_cp_env (Some 70) (snd demo_queueing) = (Inr [], snd demo_queueing) \<and>
   length (runs (se_db (snd demo_queueing))) = 1"
proof -
  obtain created where c: "fst demo_queueing = Inr created" "length created = 1"
    using demo_queued by (auto split: sum.split_asm)
  have "enqueue_due_scheduled_runs demo_cp_env (Some 70) schedule_session = (Inr created, snd demo_queueing)"
    using run_of_fst [OF c(1)] unfolding demo_queueing_def .
  moreover have "keys_distinct gp_id (policies (se_db schedule_session))"
    by (simp add: schedule_session_def keys_distinct_def)
  moreover have "runs (se_db schedule_session) = []"
    by (simp add: schedule_session_def empty_db_def)
  ultimately show ?thesis
    using due_schedules_run_once [of demo_cp_env 70 schedule_session created "snd demo_queueing"] c(2)
    by (metis append_Nil length_map)
qed

end
