(* ===== verification/SourceHealth.thy ===== *)
theory SourceHealth
  imports PackEffects
begin

text \<open>
  Freshness agreements of sources (\<open>backend/control_plane/source_health.py\<close>): their
  configuration, and the evaluation that turns each violation into evidence, a proposal and a
  blocking review task.
\<close>

section \<open>Operations\<close>

definition sla_rows :: "string \<Rightarrow> db \<Rightarrow> governance_policy list" where
  "sla_rows workspace_id d =
     filter (\<lambda>r. gp_workspace r = workspace_id \<and> gp_type r = ''source_sla'' \<and> gp_status r = ''active'') (policies d)"

definition configure_source_sla ::
  "cp_env \<Rightarrow> string \<Rightarrow> string \<Rightarrow> int \<Rightarrow> bool \<Rightarrow> string \<Rightarrow> pydict tx" where
  "configure_source_sla env workspace_id dataset_id freshness_seconds enabled actor_id =
     (if freshness_seconds \<le> 0 then traise (ValueError ''invalid_freshness_seconds'')
      else tbind (tread (\<lambda>d. find (\<lambda>row. str_of (load_definition (gp_definition row)) ''dataset_id'' [] = dataset_id)
               (sla_rows workspace_id d))) (\<lambda>found.
        case found of
          Some row \<Rightarrow>
            (let payload = dset (dset (dset (load_definition (gp_definition row))
                     ''freshness_seconds'' (PInt freshness_seconds)) ''enabled'' (PBool enabled))
                     ''updated_by'' (PStr actor_id)
             in tbind (put_policy (row\<lparr>gp_definition := Some (PDict payload)\<rparr>)) (\<lambda>_. tpure payload))
        | None \<Rightarrow>
            tbind (issue_id env) (\<lambda>policy_id.
            let payload = [(''sla_id'', PStr policy_id), (''workspace_id'', PStr workspace_id),
                  (''dataset_id'', PStr dataset_id), (''freshness_seconds'', PInt freshness_seconds),
                  (''enabled'', PBool enabled), (''created_by'', PStr actor_id)]
            in tbind (add_policy (policy_row policy_id workspace_id ''source_sla'' payload ''active''))
                 (\<lambda>_. tpure payload))))"

definition list_source_slas :: "string \<Rightarrow> db \<Rightarrow> pydict list" where
  "list_source_slas workspace_id d =
     map (\<lambda>row. load_definition (gp_definition row)) (sort_key gp_id (sla_rows workspace_id d))"

definition profile_of :: "catalog_dataset \<Rightarrow> pydict" where
  "profile_of dataset =
     (case ds_summary dataset of
        PDict summary \<Rightarrow> (case dget_or summary ''profile'' (PDict []) of PDict profile \<Rightarrow> profile | _ \<Rightarrow> [])
      | _ \<Rightarrow> [])"

definition violation_dict :: "string \<Rightarrow> int \<Rightarrow> int \<Rightarrow> int \<Rightarrow> pydict" where
  "violation_dict dataset_id freshness_seconds last_profile_epoch age_seconds =
     [(''dataset_id'', PStr dataset_id), (''freshness_seconds'', PInt freshness_seconds),
      (''last_profile_epoch'', PInt last_profile_epoch), (''age_seconds'', PInt age_seconds)]"

text \<open>The violation of one agreement, if it is enabled, its dataset exists and is stale.\<close>

definition sla_violation :: "int \<Rightarrow> db \<Rightarrow> pydict \<Rightarrow> pydict option res" where
  "sla_violation now d sla =
     (if \<not> py_truth (dget_or sla ''enabled'' (PBool False)) then Inr None
      else let dataset_id = strip (str_of sla ''dataset_id'' [])
      in rbind (coerce_int (dget_or sla ''freshness_seconds'' PNone) 0) (\<lambda>freshness_seconds.
         case tbl_get ds_id dataset_id (datasets d) of
           None \<Rightarrow> Inr None
         | Some dataset \<Rightarrow>
             rbind (coerce_int (dget_or (profile_of dataset) ''last_profile_epoch'' PNone) 0) (\<lambda>last_profile_epoch.
             let age_seconds = max (now - last_profile_epoch) 0
             in Inr (if last_profile_epoch = 0 \<or> age_seconds > freshness_seconds
                     then Some (violation_dict dataset_id freshness_seconds last_profile_epoch age_seconds)
                     else None))))"

definition has_open_quality_task :: "string \<Rightarrow> string \<Rightarrow> db \<Rightarrow> bool" where
  "has_open_quality_task workspace_id proposal_id d \<longleftrightarrow>
     list_ex (\<lambda>t. tk_workspace t = workspace_id \<and> tk_subject t = proposal_id \<and>
       tk_priority t = ''quality_critical'' \<and> is_unresolved t) (tasks d)"

definition report_violation :: "cp_env \<Rightarrow> string \<Rightarrow> pydict \<Rightarrow> string list tx" where
  "report_violation env workspace_id violation =
     tbind (store_bundle env workspace_id ''source_sla_violation'' violation) (\<lambda>stored.
     tbind (create_proposal env workspace_id ''source_freshness_violation'' (sb_uri stored) (PFloat ''1.0'' (Some 1)))
       (\<lambda>proposal.
     tbind (tread (has_open_quality_task workspace_id (pr_id proposal))) (\<lambda>known.
     if known then tpure []
     else tbind (create_review_task env workspace_id (pr_id proposal) ''quality_critical'' True)
            (\<lambda>task. tpure [tk_id task]))))"

fun evaluate_loop :: "cp_env \<Rightarrow> string \<Rightarrow> int \<Rightarrow> pydict list \<Rightarrow> (pydict list \<times> string list) tx" where
  "evaluate_loop env workspace_id now [] = tpure ([], [])"
| "evaluate_loop env workspace_id now (sla # slas) =
     tbind (tread (\<lambda>d. sla_violation now d sla)) (\<lambda>checked.
     tbind (tres checked) (\<lambda>violation.
     case violation of
       None \<Rightarrow> evaluate_loop env workspace_id now slas
     | Some v \<Rightarrow>
         tbind (report_violation env workspace_id v) (\<lambda>new_tasks.
         tbind (evaluate_loop env workspace_id now slas) (\<lambda>(violations, created).
         tpure (v # violations, new_tasks @ created)))))"

definition evaluate_source_slas :: "cp_env \<Rightarrow> string \<Rightarrow> int option \<Rightarrow> pydict tx" where
  "evaluate_source_slas env workspace_id now_epoch =
     (let now = (case now_epoch of None \<Rightarrow> ce_now env | Some n \<Rightarrow> n)
      in tbind (tread (list_source_slas workspace_id)) (\<lambda>slas.
         tbind (evaluate_loop env workspace_id now slas) (\<lambda>(violations, created_task_ids).
         tbind (tread (list_source_slas workspace_id)) (\<lambda>after.
         tpure [(''workspace_id'', PStr workspace_id), (''evaluated_slas'', PInt (int (length after))),
                (''violation_count'', PInt (int (length violations))),
                (''violations'', PList (map PDict violations)),
                (''created_task_ids'', str_py_list created_task_ids)]))))"

section \<open>Lemmas\<close>

text \<open>
  Since each violation gets a new proposal, no task is ever known for it: one blocking task is
  created per violation and evaluation.
\<close>

definition subjects_known :: "db \<Rightarrow> bool" where
  "subjects_known d \<longleftrightarrow> tk_subject ` set (tasks d) \<subseteq> pr_id ` set (proposals d)"

lemma report_violation_Inr:
  assumes "report_violation env ws v s = (Inr new, s')" "subjects_known (se_db s)"
  shows "(\<exists>t p. tasks (se_db s') = tasks (se_db s) @ [t] \<and> proposals (se_db s') = proposals (se_db s) @ [p] \<and>
      tk_subject t = pr_id p \<and> tk_workspace t = ws \<and> tk_blocking t \<and> is_unresolved t \<and> new = [tk_id t]) \<and>
    policies (se_db s') = policies (se_db s) \<and> datasets (se_db s') = datasets (se_db s)"
proof -
  from assms(1) obtain b s1 p s2 where
    st: "store_bundle env ws ''source_sla_violation'' v s = (Inr b, s1)"
    and p: "create_proposal env ws ''source_freshness_violation'' (sb_uri b) (PFloat ''1.0'' (Some 1)) s1 = (Inr p, s2)"
    and rest: "(if has_open_quality_task ws (pr_id p) (se_db s2) then tpure []
       else tbind (create_review_task env ws (pr_id p) ''quality_critical'' True) (\<lambda>task. tpure [tk_id task])) s2 = (Inr new, s')"
    by (auto simp: report_violation_def tbind_Inr_iff)
  have d1: "se_db s1 = se_db s" using store_bundle_db [OF st] by simp
  from p have fresh: "pr_id p \<notin> pr_id ` set (proposals (se_db s1))"
    and d2: "se_db s2 = (se_db s1)\<lparr>proposals := proposals (se_db s1) @ [p]\<rparr>"
    by (auto simp: create_proposal_def tbind_Inr_iff Let_def rbind_eq_Inr_iff tbl_add_Inr_iff)
  have "\<not> has_open_quality_task ws (pr_id p) (se_db s2)"
    using fresh subsetD [OF assms(2)[unfolded subjects_known_def]] d1 d2
    by (auto simp: has_open_quality_task_def list_ex_iff) (metis imageI)
  with rest obtain t where t: "create_review_task env ws (pr_id p) ''quality_critical'' True s2 = (Inr t, s')" "new = [tk_id t]"
    by (auto simp: tbind_Inr_iff)
  note c = create_review_task_Inr [OF t(1)]
  have "tasks (se_db s') = tasks (se_db s) @ [t]" "proposals (se_db s') = proposals (se_db s) @ [p]"
    "policies (se_db s') = policies (se_db s)" "datasets (se_db s') = datasets (se_db s)"
    using c d1 d2 by simp_all
  moreover have "tk_subject t = pr_id p" "tk_workspace t = ws" "tk_blocking t" "is_unresolved t"
    using c by (auto simp: is_unresolved_def)
  ultimately show ?thesis using t(2) by blast
qed

lemma sla_violation_cong: "datasets d' = datasets d \<Longrightarrow> sla_violation now d' sla = sla_violation now d sla"
  by (simp add: sla_violation_def Let_def)

lemma evaluate_loop_Inr:
  "evaluate_loop env ws now slas s = (Inr (vs, ids), s') \<Longrightarrow> subjects_known (se_db s) \<Longrightarrow>
     (\<exists>new. tasks (se_db s') = tasks (se_db s) @ new \<and> map tk_id new = ids \<and> length new = length vs \<and>
        list_all (\<lambda>t. tk_workspace t = ws \<and> tk_blocking t \<and> is_unresolved t) new) \<and>
     (\<exists>checked. rmap (sla_violation now (se_db s)) slas = Inr checked \<and> vs = map the (filter (\<lambda>v. v \<noteq> None) checked)) \<and>
     subjects_known (se_db s') \<and> policies (se_db s') = policies (se_db s) \<and> datasets (se_db s') = datasets (se_db s)"
proof (induction slas arbitrary: s vs ids)
  case Nil
  then show ?case by simp
next
  case (Cons sla slas)
  from Cons.prems(1) obtain vo where vo: "sla_violation now (se_db s) sla = Inr vo"
    and rest: "(case vo of None \<Rightarrow> evaluate_loop env ws now slas
     | Some v \<Rightarrow> tbind (report_violation env ws v) (\<lambda>new_tasks.
         tbind (evaluate_loop env ws now slas) (\<lambda>(violations, created).
         tpure (v # violations, new_tasks @ created)))) s = (Inr (vs, ids), s')"
    by (auto simp: tbind_Inr_iff)
  show ?case
  proof (cases vo)
    case None
    then show ?thesis using Cons.IH [of s vs ids] rest vo Cons.prems(2) by auto
  next
    case (Some v)
    with rest obtain new_tasks s1 vs1 ids1 where
      r: "report_violation env ws v s = (Inr new_tasks, s1)"
      and l: "evaluate_loop env ws now slas s1 = (Inr (vs1, ids1), s')"
      and e: "vs = v # vs1" "ids = new_tasks @ ids1"
      by (auto simp: tbind_Inr_iff)
    obtain t p where t: "tasks (se_db s1) = tasks (se_db s) @ [t]" "proposals (se_db s1) = proposals (se_db s) @ [p]"
      "tk_subject t = pr_id p" "tk_workspace t = ws \<and> tk_blocking t \<and> is_unresolved t" "new_tasks = [tk_id t]"
      "policies (se_db s1) = policies (se_db s)" "datasets (se_db s1) = datasets (se_db s)"
      using report_violation_Inr [OF r Cons.prems(2)] by blast
    have k: "subjects_known (se_db s1)" using Cons.prems(2) t by (auto simp: subjects_known_def)
    have c: "sla_violation now (se_db s1) = sla_violation now (se_db s)"
      using t(7) by (intro ext sla_violation_cong)
    obtain new checked where i: "tasks (se_db s') = tasks (se_db s1) @ new" "map tk_id new = ids1" "length new = length vs1"
      "list_all (\<lambda>t. tk_workspace t = ws \<and> tk_blocking t \<and> is_unresolved t) new"
      "rmap (sla_violation now (se_db s)) slas = Inr checked" "vs1 = map the (filter (\<lambda>v. v \<noteq> None) checked)"
      "subjects_known (se_db s')" "policies (se_db s') = policies (se_db s1)" "datasets (se_db s') = datasets (se_db s1)"
      using Cons.IH [OF l k] unfolding c by blast
    show ?thesis
    proof (intro conjI)
      show "\<exists>new. tasks (se_db s') = tasks (se_db s) @ new \<and> map tk_id new = ids \<and> length new = length vs \<and>
          list_all (\<lambda>t. tk_workspace t = ws \<and> tk_blocking t \<and> is_unresolved t) new"
        using t i e by (intro exI [of _ "t # new"]) simp
      show "\<exists>checked. rmap (sla_violation now (se_db s)) (sla # slas) = Inr checked \<and>
          vs = map the (filter (\<lambda>v. v \<noteq> None) checked)"
        using vo Some i e by (intro exI [of _ "Some v # checked"]) simp
    qed (use i t in simp_all)
  qed
qed

section \<open>Properties\<close>

text \<open>
  A stale source stops publication: an evaluation reports exactly the enabled agreements whose
  dataset is stale, in order, and creates one unresolved blocking task for each; so with at least
  one violation the publication gate of the workspace is closed, whatever the contracts say.
\<close>

theorem stale_source_blocks_publication:
  assumes "evaluate_source_slas env ws (Some now) s = (Inr out, s')" "subjects_known (se_db s)"
  shows "\<exists>checked violations. rmap (sla_violation now (se_db s)) (list_source_slas ws (se_db s)) = Inr checked \<and>
    violations = map the (filter (\<lambda>v. v \<noteq> None) checked) \<and>
    dget out ''violations'' = Some (PList (map PDict violations)) \<and>
    unresolved_blocking_task_count (se_db s') ws = unresolved_blocking_task_count (se_db s) ws + length violations \<and>
    (violations \<noteq> [] \<longrightarrow> \<not> fst (evaluate_gold_publish_gate passed (unresolved_blocking_task_count (se_db s') ws)))"
proof -
  from assms(1) obtain vs ids where
    l: "evaluate_loop env ws now (list_source_slas ws (se_db s)) s = (Inr (vs, ids), s')"
    and out: "dget out ''violations'' = Some (PList (map PDict vs))"
    by (auto simp: evaluate_source_slas_def tbind_Inr_iff dget_def)
  obtain new checked where i: "tasks (se_db s') = tasks (se_db s) @ new" "length new = length vs"
      "list_all (\<lambda>t. tk_workspace t = ws \<and> tk_blocking t \<and> is_unresolved t) new"
      "rmap (sla_violation now (se_db s)) (list_source_slas ws (se_db s)) = Inr checked"
      "vs = map the (filter (\<lambda>v. v \<noteq> None) checked)"
    using evaluate_loop_Inr [OF l assms(2)] by blast
  have "filter (\<lambda>t. tk_workspace t = ws \<and> tk_blocking t \<and> is_unresolved t) new = new"
    using i(3) by (simp add: list_all_iff)
  then have n: "unresolved_blocking_task_count (se_db s') ws = unresolved_blocking_task_count (se_db s) ws + length vs"
    using i(1,2) by (simp add: unresolved_blocking_task_count_def)
  have "vs \<noteq> [] \<Longrightarrow> \<not> fst (evaluate_gold_publish_gate passed (unresolved_blocking_task_count (se_db s') ws))"
    by (simp add: n evaluate_gold_publish_gate_def)
  with i out n show ?thesis by blast
qed

text \<open>
  The check for an open task never finds one, since it looks for the proposal just created: the
  same violation, evaluated twice, leaves two blocking tasks.
\<close>

theorem repeated_evaluation_duplicates_tasks:
  assumes "report_violation env ws v s = (Inr ids, s1)" "report_violation env ws v s1 = (Inr ids', s2)"
    and "subjects_known (se_db s)"
  shows "length (tasks (se_db s2)) = length (tasks (se_db s)) + 2"
proof -
  obtain t p where 1: "tasks (se_db s1) = tasks (se_db s) @ [t]" "proposals (se_db s1) = proposals (se_db s) @ [p]"
    "tk_subject t = pr_id p"
    using report_violation_Inr [OF assms(1,3)] by blast
  have "subjects_known (se_db s1)" using assms(3) 1 by (auto simp: subjects_known_def)
  from report_violation_Inr [OF assms(2) this] 1 show ?thesis by auto
qed

section \<open>A concrete evaluation\<close>

definition stale_session :: cp_session where
  "stale_session = demo_session\<lparr>se_db := empty_db\<lparr>
     datasets := [\<lparr>ds_id = ''d1'', ds_workspace = ''w'', ds_source = ''s'', ds_logical_name = ''orders'',
        ds_locator = ''x'', ds_schema_version = 1,
        ds_summary = PDict [(''profile'', PDict [(''last_profile_epoch'', PInt 10)])]\<rparr>],
     policies := [policy_row ''a1'' ''w'' ''source_sla''
        [(''dataset_id'', PStr ''d1''), (''freshness_seconds'', PInt 5), (''enabled'', PBool True)] ''active'']\<rparr>\<rparr>"

definition demo_evaluation :: "pydict res \<times> cp_session" where
  "demo_evaluation = evaluate_source_slas demo_cp_env ''w'' (Some 20) stale_session"

definition demo_violation :: pydict where
  "demo_violation = violation_dict ''d1'' 5 10 10"

lemma demo_evaluated: "(case fst demo_evaluation of
    Inr out \<Rightarrow> dget out ''violations'' = Some (PList [PDict demo_violation]) | Inl _ \<Rightarrow> False)"
  by code_simp

theorem stale_source_blocks_publication_witness:
  "\<not> fst (evaluate_gold_publish_gate True (unresolved_blocking_task_count (se_db (snd demo_evaluation)) ''w''))"
proof -
  obtain out where c: "fst demo_evaluation = Inr out" "dget out ''violations'' = Some (PList [PDict demo_violation])"
    using demo_evaluated by (auto split: sum.split_asm)
  have run: "evaluate_source_slas demo_cp_env ''w'' (Some 20) stale_session = (Inr out, snd demo_evaluation)"
    using run_of_fst [OF c(1)] unfolding demo_evaluation_def .
  have known: "subjects_known (se_db stale_session)"
    by (simp add: stale_session_def empty_db_def subjects_known_def)
  obtain vs :: "pydict list" where "dget out ''violations'' = Some (PList (map PDict vs))"
    "vs \<noteq> [] \<longrightarrow> \<not> fst (evaluate_gold_publish_gate True (unresolved_blocking_task_count (se_db (snd demo_evaluation)) ''w''))"
    using stale_source_blocks_publication [OF run known, of True] by (elim exE conjE)
  with c(2) show ?thesis by auto
qed

end
