(* ===== verification/Repository.thy ===== *)
theory Repository
  imports PolicyPacks
begin

text \<open>
  The repository of workspaces, sources, datasets, runs and audit events
  (\<open>backend/control_plane/repository.py\<close>). Rows are returned as the dictionaries that the
  endpoints answer with.
\<close>

section \<open>Workspaces and sources\<close>

definition workspace_dict :: "workspace \<Rightarrow> pydict" where
  "workspace_dict w = [(''workspace_id'', PStr (ws_id w)), (''name'', PStr (ws_name w)),
     (''profile'', PStr (ws_profile w)), (''security_baseline'', PStr (ws_security_baseline w))]"

definition create_workspace :: "cp_env \<Rightarrow> string \<Rightarrow> string \<Rightarrow> string \<Rightarrow> workspace tx" where
  "create_workspace env name profile security_baseline =
     tbind (issue_id env) (\<lambda>workspace_id.
     let row = \<lparr>ws_id = workspace_id, ws_name = name, ws_profile = profile, ws_security_baseline = security_baseline\<rparr>
     in tbind (tchange (\<lambda>d. rbind (tbl_add ws_id row (workspaces d)) (\<lambda>t. Inr (d\<lparr>workspaces := t\<rparr>))))
          (\<lambda>_. tpure row))"

definition list_workspaces :: "db \<Rightarrow> pydict list" where
  "list_workspaces d = map workspace_dict (workspaces d)"

definition get_workspace :: "string \<Rightarrow> db \<Rightarrow> pydict option" where
  "get_workspace workspace_id d = map_option workspace_dict (tbl_get ws_id workspace_id (workspaces d))"

definition source_dict :: "catalog_source \<Rightarrow> pydict" where
  "source_dict s = [(''source_id'', PStr (src_id s)), (''workspace_id'', PStr (src_workspace s)),
     (''source_type'', PStr (src_type s)), (''scope'', PDict (src_scope s)),
     (''display_name'', PStr (src_display_name s)), (''status'', PStr (src_status s)),
     (''credentials_ref'', opt_str (src_credentials s))]"

definition create_source ::
  "cp_env \<Rightarrow> string \<Rightarrow> string \<Rightarrow> pydict \<Rightarrow> string \<Rightarrow> string option \<Rightarrow> catalog_source tx" where
  "create_source env workspace_id source_type scope display_name credentials_ref =
     tbind (require_workspace workspace_id) (\<lambda>_.
     tbind (issue_id env) (\<lambda>source_id.
     let row = \<lparr>src_id = source_id, src_workspace = workspace_id, src_type = source_type, src_scope = scope,
           src_credentials = credentials_ref, src_status = ''active'', src_display_name = display_name\<rparr>
     in tbind (tchange (\<lambda>d. rbind (tbl_add src_id row (sources d)) (\<lambda>t. Inr (d\<lparr>sources := t\<rparr>))))
          (\<lambda>_. tpure row)))"

definition list_sources :: "string \<Rightarrow> db \<Rightarrow> pydict list" where
  "list_sources workspace_id d = map source_dict (filter (\<lambda>s. src_workspace s = workspace_id) (sources d))"

definition patched_source :: "pydict \<Rightarrow> catalog_source \<Rightarrow> catalog_source" where
  "patched_source patch s =
     \<lparr>src_id = src_id s, src_workspace = src_workspace s, src_type = src_type s,
      src_scope = (case dget patch ''scope'' of Some (PDict scope) \<Rightarrow> scope | _ \<Rightarrow> src_scope s),
      src_credentials = (case dget patch ''credentials_ref'' of
          None \<Rightarrow> src_credentials s | Some PNone \<Rightarrow> None | Some v \<Rightarrow> Some (py_str v)),
      src_status = (case dget patch ''status'' of None \<Rightarrow> src_status s | Some v \<Rightarrow> py_str v),
      src_display_name = (case dget patch ''display_name'' of None \<Rightarrow> src_display_name s | Some v \<Rightarrow> py_str v)\<rparr>"

definition update_source :: "string \<Rightarrow> string \<Rightarrow> pydict \<Rightarrow> catalog_source option tx" where
  "update_source workspace_id source_id patch =
     tbind (tread (\<lambda>d. tbl_get src_id source_id (sources d))) (\<lambda>found.
     case found of
       None \<Rightarrow> tpure None
     | Some s \<Rightarrow>
         if src_workspace s \<noteq> workspace_id then tpure None
         else let row = patched_source patch s
              in tbind (tmodify (\<lambda>d. d\<lparr>sources := tbl_put src_id row (sources d)\<rparr>)) (\<lambda>_. tpure (Some row)))"

section \<open>Datasets and runs\<close>

definition dataset_dict :: "catalog_dataset \<Rightarrow> pydict" where
  "dataset_dict r = [(''dataset_id'', PStr (ds_id r)), (''workspace_id'', PStr (ds_workspace r)),
     (''source_id'', PStr (ds_source r)), (''logical_name'', PStr (ds_logical_name r)),
     (''physical_locator'', PStr (ds_locator r)), (''schema_version'', PInt (ds_schema_version r)),
     (''sensitivity_summary'', ds_summary r)]"

definition list_datasets :: "string \<Rightarrow> db \<Rightarrow> pydict list" where
  "list_datasets workspace_id d =
     map dataset_dict (sort_key ds_id (filter (\<lambda>r. ds_workspace r = workspace_id) (datasets d)))"

definition get_dataset :: "string \<Rightarrow> string \<Rightarrow> db \<Rightarrow> pydict option" where
  "get_dataset workspace_id dataset_id d =
     (case tbl_get ds_id dataset_id (datasets d) of
        None \<Rightarrow> None
      | Some r \<Rightarrow> if ds_workspace r \<noteq> workspace_id then None else Some (dataset_dict r))"

definition run_dict :: "run_record \<Rightarrow> pydict" where
  "run_dict r = [(''run_id'', PStr (run_id r)), (''workspace_id'', PStr (run_workspace r)),
     (''run_type'', PStr (run_type r)), (''status'', PStr (run_status r)),
     (''input_refs'', PDict (run_input_refs r)), (''output_refs'', PDict (run_output_refs r))]"

definition create_run :: "cp_env \<Rightarrow> string \<Rightarrow> string \<Rightarrow> run_record tx" where
  "create_run env workspace_id kind =
     tbind (require_workspace workspace_id) (\<lambda>_.
     tbind (issue_id env) (\<lambda>new_run_id.
     let row = \<lparr>run_id = new_run_id, run_workspace = workspace_id, run_type = kind, run_status = ''queued'',
           run_input_refs = [], run_output_refs = []\<rparr>
     in tbind (tchange (\<lambda>d. rbind (tbl_add run_id row (runs d)) (\<lambda>t. Inr (d\<lparr>runs := t\<rparr>)))) (\<lambda>_. tpure row)))"

definition opt_int :: "int option \<Rightarrow> pyval" where
  "opt_int o' = (case o' of None \<Rightarrow> PNone | Some n \<Rightarrow> PInt n)"

definition step_dict :: "run_step \<Rightarrow> pydict" where
  "step_dict r = [(''run_step_id'', PStr (st_id r)), (''run_id'', PStr (st_run r)),
     (''workspace_id'', PStr (st_workspace r)), (''run_type'', PStr (st_run_type r)),
     (''step_key'', PStr (st_key r)), (''step_order'', PInt (st_order r)),
     (''depends_on'', str_py_list (st_depends_on r)), (''status'', PStr (st_status r)),
     (''started_epoch'', opt_int (st_started r)), (''finished_epoch'', opt_int (st_finished r)),
     (''duration_ms'', opt_int (st_duration_ms r)), (''attempt_count'', PInt (st_attempts r)),
     (''error_code'', opt_str (st_error r)), (''evidence_bundle_uri'', opt_str (st_evidence r)),
     (''details'', PDict (st_details r))]"

definition list_run_steps :: "string \<Rightarrow> string \<Rightarrow> db \<Rightarrow> pydict list" where
  "list_run_steps workspace_id wanted d =
     map step_dict (sort_key st_order (sort_key st_id
       (filter (\<lambda>r. st_workspace r = workspace_id \<and> st_run r = wanted) (run_steps d))))"

definition get_run :: "string \<Rightarrow> string \<Rightarrow> db \<Rightarrow> pydict option" where
  "get_run workspace_id wanted d =
     (case tbl_get run_id wanted (runs d) of
        None \<Rightarrow> None
      | Some r \<Rightarrow> if run_workspace r \<noteq> workspace_id then None
                  else Some (run_dict r @
                    [(''run_steps'', PList (map PDict (list_run_steps workspace_id wanted d)))]))"

section \<open>Audit events\<close>

definition audit_event_dict :: "audit_event \<Rightarrow> pydict" where
  "audit_event_dict e = [(''audit_event_id'', PStr (ae_id e)), (''workspace_id'', opt_str (ae_workspace e)),
     (''actor_id'', PStr (ae_actor e)), (''event_type'', PStr (ae_type e)),
     (''event_json'', PDict (ae_json e)), (''correlation_id'', PStr (ae_correlation e))]"

definition insert_audit_event ::
  "cp_env \<Rightarrow> string option \<Rightarrow> string \<Rightarrow> string \<Rightarrow> pydict \<Rightarrow> string \<Rightarrow> audit_event tx" where
  "insert_audit_event env workspace_id actor_id event_type event_json correlation_id =
     tbind (issue_id env) (\<lambda>audit_event_id.
     let event = \<lparr>ae_id = audit_event_id, ae_workspace = workspace_id, ae_actor = actor_id, ae_type = event_type,
           ae_json = event_json, ae_correlation = correlation_id\<rparr>
     in tbind (tchange (\<lambda>d. rbind (tbl_add ae_id event (audit_events d)) (\<lambda>t. Inr (d\<lparr>audit_events := t\<rparr>))))
          (\<lambda>_. tpure event))"

end
