(* ===== verification/Catalog.thy ===== *)
theory Catalog
  imports Repository PackEffects
begin

text \<open>
  Portable catalog snapshots (\<open>backend/control_plane/catalog_snapshot.py\<close>): the export of a
  workspace's sources and datasets without their credentials, and the import of a snapshot.
\<close>

section \<open>Export\<close>

definition exported_source :: "catalog_source \<Rightarrow> pydict" where
  "exported_source row = [(''source_id'', PStr (src_id row)), (''source_type'', PStr (src_type row)),
     (''scope'', PDict (src_scope row)), (''display_name'', PStr (src_display_name row)),
     (''status'', PStr (src_status row)),
     (''credentials_redacted'',
        PBool (case src_credentials row of None \<Rightarrow> False | Some c \<Rightarrow> c \<noteq> []))]"

definition exported_dataset :: "catalog_dataset \<Rightarrow> pydict" where
  "exported_dataset row = [(''dataset_id'', PStr (ds_id row)), (''source_id'', PStr (ds_source row)),
     (''logical_name'', PStr (ds_logical_name row)), (''physical_locator'', PStr (ds_locator row)),
     (''schema_version'', PInt (ds_schema_version row)), (''sensitivity_summary'', ds_summary row)]"

definition sources_of :: "string \<Rightarrow> db \<Rightarrow> catalog_source list" where
  "sources_of workspace_id d = sort_key src_id (filter (\<lambda>r. src_workspace r = workspace_id) (sources d))"

definition datasets_of :: "string \<Rightarrow> db \<Rightarrow> catalog_dataset list" where
  "datasets_of workspace_id d = sort_key ds_id (filter (\<lambda>r. ds_workspace r = workspace_id) (datasets d))"

definition export_catalog_snapshot :: "string \<Rightarrow> db \<Rightarrow> pydict res" where
  "export_catalog_snapshot workspace_id d =
     (case tbl_get ws_id workspace_id (workspaces d) of
        None \<Rightarrow> Inl (ValueError ''workspace_not_found'')
      | Some w \<Rightarrow> Inr [(''snapshot_version'', PStr ''v1''), (''workspace'', PDict (workspace_dict w)),
          (''sources'', PList (map (PDict \<circ> exported_source) (sources_of workspace_id d))),
          (''datasets'', PList (map (PDict \<circ> exported_dataset) (datasets_of workspace_id d)))])"

section \<open>Import\<close>

text \<open>A loop over the items of a list that threads an accumulator and stops at an exception.\<close>

fun tfold :: "('a \<Rightarrow> 'b \<Rightarrow> 'a tx) \<Rightarrow> 'a \<Rightarrow> 'b list \<Rightarrow> 'a tx" where
  "tfold f a [] = tpure a"
| "tfold f a (x # xs) = tbind (f a x) (\<lambda>a'. tfold f a' xs)"

definition add_source :: "catalog_source \<Rightarrow> unit tx" where
  "add_source row = tchange (\<lambda>d. rbind (tbl_add src_id row (sources d)) (\<lambda>t. Inr (d\<lparr>sources := t\<rparr>)))"

definition add_dataset :: "catalog_dataset \<Rightarrow> unit tx" where
  "add_dataset row = tchange (\<lambda>d. rbind (tbl_add ds_id row (datasets d)) (\<lambda>t. Inr (d\<lparr>datasets := t\<rparr>)))"

definition imported_source :: "string \<Rightarrow> string \<Rightarrow> pydict \<Rightarrow> catalog_source" where
  "imported_source workspace_id source_id item =
     \<lparr>src_id = source_id, src_workspace = workspace_id, src_type = str_of item ''source_type'' ''filesystem'',
      src_scope = as_dict (dget_or item ''scope'' PNone), src_credentials = None,
      src_status = str_of item ''status'' ''active'',
      src_display_name = str_of item ''display_name'' source_id\<rparr>"

type_synonym source_import = "(string \<times> string) list \<times> nat"

definition import_source :: "cp_env \<Rightarrow> string \<Rightarrow> source_import \<Rightarrow> pyval \<Rightarrow> source_import tx" where
  "import_source env workspace_id acc raw =
     (case raw of
        PDict item \<Rightarrow>
          let original = strip (str_of item ''source_id'' '''') in
          if original = [] then tpure acc
          else tbind (tread (\<lambda>d. tbl_get src_id original (sources d))) (\<lambda>found.
               case found of
                 Some row \<Rightarrow>
                   if src_workspace row = workspace_id then tpure (dset (fst acc) original original, snd acc)
                   else tbind (issue_id env) (\<lambda>source_id.
                        tbind (add_source (imported_source workspace_id source_id item)) (\<lambda>_.
                        tpure (dset (fst acc) original source_id, Suc (snd acc))))
               | None \<Rightarrow>
                   tbind (add_source (imported_source workspace_id original item)) (\<lambda>_.
                   tpure (dset (fst acc) original original, Suc (snd acc))))
      | _ \<Rightarrow> tpure acc)"

definition imported_dataset :: "string \<Rightarrow> string \<Rightarrow> string \<Rightarrow> pydict \<Rightarrow> catalog_dataset res" where
  "imported_dataset workspace_id dataset_id source_id item =
     rbind (py_int (dget_or item ''schema_version'' (PInt 1))) (\<lambda>version.
     Inr \<lparr>ds_id = dataset_id, ds_workspace = workspace_id, ds_source = source_id,
          ds_logical_name = str_of item ''logical_name'' dataset_id,
          ds_locator = str_of item ''physical_locator'' dataset_id, ds_schema_version = version,
          ds_summary = PDict (as_dict (dget_or item ''sensitivity_summary'' PNone))\<rparr>)"

definition import_dataset ::
  "cp_env \<Rightarrow> string \<Rightarrow> (string \<times> string) list \<Rightarrow> nat \<Rightarrow> pyval \<Rightarrow> nat tx" where
  "import_dataset env workspace_id source_id_map n raw =
     (case raw of
        PDict item \<Rightarrow>
          let original = strip (str_of item ''dataset_id'' '''');
              source_original = strip (str_of item ''source_id'' '''')
          in if original = [] \<or> source_original = [] then tpure n
             else let source_id = dget_or source_id_map source_original source_original;
                      add = (\<lambda>dataset_id.
                        tbind (tres (imported_dataset workspace_id dataset_id source_id item)) (\<lambda>row.
                        tbind (add_dataset row) (\<lambda>_. tpure (Suc n))))
                  in tbind (tread (\<lambda>d. tbl_get ds_id original (datasets d))) (\<lambda>found.
                     case found of
                       Some row \<Rightarrow> if ds_workspace row = workspace_id then tpure n
                                   else tbind (issue_id env) add
                     | None \<Rightarrow> add original)
      | _ \<Rightarrow> tpure n)"

definition workspace_matches :: "string \<Rightarrow> pydict \<Rightarrow> bool" where
  "workspace_matches workspace_id snapshot =
     (case dget_or snapshot ''workspace'' (PDict []) of
        PDict w \<Rightarrow> (let named = str_of w ''workspace_id'' workspace_id in named = [] \<or> named = workspace_id)
      | _ \<Rightarrow> True)"

definition import_catalog_snapshot :: "cp_env \<Rightarrow> string \<Rightarrow> pydict \<Rightarrow> (nat \<times> nat) tx" where
  "import_catalog_snapshot env workspace_id snapshot =
     tbind (tread (\<lambda>d. tbl_get ws_id workspace_id (workspaces d))) (\<lambda>workspace.
     if workspace = None then traise (ValueError ''workspace_not_found'')
     else if \<not> workspace_matches workspace_id snapshot then traise (ValueError ''workspace_mismatch'')
     else tbind (tfold (import_source env workspace_id) ([], 0) (as_list (dget_or snapshot ''sources'' PNone)))
            (\<lambda>(source_id_map, imported_sources).
          tbind (tfold (import_dataset env workspace_id source_id_map) 0
                   (as_list (dget_or snapshot ''datasets'' PNone))) (\<lambda>imported_datasets.
          tpure (imported_sources, imported_datasets))))"

section \<open>Lemmas\<close>

lemma tfold_inv:
  assumes "tfold f a xs s = (Inr b, s')" "I a s"
    and "\<And>a x s a' s'. x \<in> set xs \<Longrightarrow> I a s \<Longrightarrow> f a x s = (Inr a', s') \<Longrightarrow> I a' s'"
  shows "I b s'"
  using assms
proof (induction xs arbitrary: a s)
  case (Cons x xs)
  from Cons.prems(1) obtain a1 s1 where f: "f a x s = (Inr a1, s1)" and rest: "tfold f a1 xs s1 = (Inr b, s')"
    by (auto simp: tbind_Inr_iff)
  have "I a1 s1" by (rule Cons.prems(3) [OF _ Cons.prems(2) f]) simp
  with rest show ?case by (rule Cons.IH) (rule Cons.prems(3), simp_all)
qed simp

lemma add_source_Inr:
  "add_source row s = (Inr u, s') \<longleftrightarrow> src_id row \<notin> src_id ` set (sources (se_db s)) \<and>
     s' = s\<lparr>se_db := (se_db s)\<lparr>sources := sources (se_db s) @ [row]\<rparr>\<rparr>"
  by (auto simp: add_source_def rbind_eq_Inr_iff tbl_add_Inr_iff)

lemma add_dataset_Inr:
  "add_dataset row s = (Inr u, s') \<longleftrightarrow> ds_id row \<notin> ds_id ` set (datasets (se_db s)) \<and>
     s' = s\<lparr>se_db := (se_db s)\<lparr>datasets := datasets (se_db s) @ [row]\<rparr>\<rparr>"
  by (auto simp: add_dataset_def rbind_eq_Inr_iff tbl_add_Inr_iff)

text \<open>What an import may have done so far: rows of the workspace added at the end, none with credentials.\<close>

definition sources_grown :: "db \<Rightarrow> string \<Rightarrow> source_import \<Rightarrow> cp_session \<Rightarrow> bool" where
  "sources_grown d workspace_id acc s \<longleftrightarrow> (\<exists>new. se_db s = d\<lparr>sources := sources d @ new\<rparr> \<and>
     length new = snd acc \<and> (\<forall>r \<in> set new. src_workspace r = workspace_id \<and> src_credentials r = None))"

definition datasets_grown :: "db \<Rightarrow> string \<Rightarrow> nat \<Rightarrow> cp_session \<Rightarrow> bool" where
  "datasets_grown d workspace_id n s \<longleftrightarrow> (\<exists>new. se_db s = d\<lparr>datasets := datasets d @ new\<rparr> \<and>
     length new = n \<and> (\<forall>r \<in> set new. ds_workspace r = workspace_id))"

lemma sources_grown_refl: "sources_grown d ws (m, 0) s" if "se_db s = d"
  unfolding sources_grown_def using that by (intro exI [of _ "[]"]) simp

lemma datasets_grown_refl: "datasets_grown d ws 0 s" if "se_db s = d"
  unfolding datasets_grown_def using that by (intro exI [of _ "[]"]) simp

lemma sources_grown_add:
  assumes "sources_grown d ws acc s" "se_db s' = (se_db s)\<lparr>sources := sources (se_db s) @ [row]\<rparr>"
    "src_workspace row = ws" "src_credentials row = None"
  shows "sources_grown d ws (m, Suc (snd acc)) s'"
proof -
  from assms(1) obtain new where "se_db s = d\<lparr>sources := sources d @ new\<rparr>" "length new = snd acc"
    "\<forall>r \<in> set new. src_workspace r = ws \<and> src_credentials r = None" unfolding sources_grown_def by auto
  with assms(2-4) show ?thesis unfolding sources_grown_def by (intro exI [of _ "new @ [row]"]) auto
qed

lemma datasets_grown_add:
  assumes "datasets_grown d ws n s" "se_db s' = (se_db s)\<lparr>datasets := datasets (se_db s) @ [row]\<rparr>"
    "ds_workspace row = ws"
  shows "datasets_grown d ws (Suc n) s'"
proof -
  from assms(1) obtain new where "se_db s = d\<lparr>datasets := datasets d @ new\<rparr>" "length new = n"
    "\<forall>r \<in> set new. ds_workspace r = ws" unfolding datasets_grown_def by auto
  with assms(2-3) show ?thesis unfolding datasets_grown_def by (intro exI [of _ "new @ [row]"]) auto
qed

lemma imported_source_fields [simp]:
  "src_id (imported_source ws i item) = i" "src_workspace (imported_source ws i item) = ws"
  "src_credentials (imported_source ws i item) = None"
  by (simp_all add: imported_source_def)

lemma imported_dataset_fields:
  "imported_dataset ws i src item = Inr row \<Longrightarrow> ds_id row = i \<and> ds_workspace row = ws"
  by (auto simp: imported_dataset_def rbind_eq_Inr_iff)

lemma import_source_grows:
  assumes "import_source env ws acc raw s = (Inr acc', s')" "sources_grown d ws acc s"
  shows "sources_grown d ws acc' s'"
  using assms
  by (auto simp: import_source_def Let_def tbind_Inr_iff add_source_Inr intro!: sources_grown_add [OF assms(2)]
      split: pyval.split_asm option.split_asm if_splits) (simp_all add: sources_grown_def)

lemma import_dataset_grows:
  assumes "import_dataset env ws m n raw s = (Inr n', s')" "datasets_grown d ws n s"
  shows "datasets_grown d ws n' s'"
  using assms
  by (auto simp: import_dataset_def Let_def tbind_Inr_iff add_dataset_Inr imported_dataset_fields
      intro!: datasets_grown_add [OF assms(2)]
      split: pyval.split_asm option.split_asm if_splits)

text \<open>The import of an exported snapshot into a workspace that holds none of its rows.\<close>

definition id_map :: "(string \<times> string) list \<Rightarrow> bool" where
  "id_map m \<longleftrightarrow> (\<forall>k. dget_or m k k = k)"

definition clean_id :: "string \<Rightarrow> bool" where
  "clean_id i \<longleftrightarrow> i \<noteq> [] \<and> strip i = i"

definition redacted :: "catalog_source \<Rightarrow> catalog_source" where
  "redacted r = r\<lparr>src_credentials := None\<rparr>"

lemma id_map_dset: "id_map m \<Longrightarrow> id_map (dset m k k)"
  by (auto simp: id_map_def)

lemma exported_source_back: "imported_source (src_workspace r) (src_id r) (exported_source r) = redacted r"
  by (simp add: imported_source_def exported_source_def redacted_def dget_or_def)

lemma import_fresh_source:
  assumes "clean_id (src_id r)" "src_id r \<notin> src_id ` set (sources (se_db s))"
  shows "import_source env (src_workspace r) (m, n) (PDict (exported_source r)) s =
    (Inr (dset m (src_id r) (src_id r), Suc n),
     s\<lparr>se_db := (se_db s)\<lparr>sources := sources (se_db s) @ [redacted r]\<rparr>\<rparr>)"
proof -
  have id: "str_of (exported_source r) ''source_id'' '''' = src_id r"
    by (simp add: exported_source_def dget_or_def)
  have "tbl_get src_id (src_id r) (sources (se_db s)) = None" using assms(2) by (simp add: tbl_get_None)
  moreover have "add_source (redacted r) s = (Inr (), s\<lparr>se_db := (se_db s)\<lparr>sources := sources (se_db s) @ [redacted r]\<rparr>\<rparr>)"
    using assms(2) by (subst add_source_Inr) (simp add: redacted_def)
  ultimately show ?thesis
    using assms(1) by (simp add: import_source_def id clean_id_def tbind_def tread_def
        exported_source_back tpure_def Let_def)
qed

lemma import_fresh_sources:
  assumes "\<And>r. r \<in> set rs \<Longrightarrow> clean_id (src_id r) \<and> src_workspace r = ws" "distinct (map src_id rs)"
    "src_id ` set rs \<inter> src_id ` set (sources (se_db s)) = {}" "id_map m"
  shows "\<exists>m'. id_map m' \<and> tfold (import_source env ws) (m, n) (map (PDict \<circ> exported_source) rs) s =
    (Inr (m', n + length rs), s\<lparr>se_db := (se_db s)\<lparr>sources := sources (se_db s) @ map redacted rs\<rparr>\<rparr>)"
  using assms
proof (induction rs arbitrary: m n s)
  case Nil
  then show ?case by (auto simp: tpure_def)
next
  case (Cons r rs)
  let ?s = "s\<lparr>se_db := (se_db s)\<lparr>sources := sources (se_db s) @ [redacted r]\<rparr>\<rparr>"
  have r: "import_source env ws (m, n) (PDict (exported_source r)) s = (Inr (dset m (src_id r) (src_id r), Suc n), ?s)"
    using import_fresh_source [of r s env m n] Cons.prems(1) [of r] Cons.prems(3) by auto
  have "\<exists>m'. id_map m' \<and> tfold (import_source env ws) (dset m (src_id r) (src_id r), Suc n)
      (map (PDict \<circ> exported_source) rs) ?s =
    (Inr (m', Suc n + length rs), ?s\<lparr>se_db := (se_db ?s)\<lparr>sources := sources (se_db ?s) @ map redacted rs\<rparr>\<rparr>)"
    using Cons.prems by (intro Cons.IH) (auto simp: redacted_def id_map_dset)
  then show ?case by (auto simp: tbind_def r comp_def)
qed

definition plain_dataset :: "catalog_dataset \<Rightarrow> bool" where
  "plain_dataset r \<longleftrightarrow> clean_id (ds_id r) \<and> clean_id (ds_source r) \<and> is_dict (ds_summary r)"

lemma exported_dataset_back:
  "is_dict (ds_summary r) \<Longrightarrow>
     imported_dataset (ds_workspace r) (ds_id r) (ds_source r) (exported_dataset r) = Inr r"
  by (cases "ds_summary r") (simp_all add: imported_dataset_def exported_dataset_def dget_or_def)

lemma import_fresh_dataset:
  assumes "plain_dataset r" "ds_id r \<notin> ds_id ` set (datasets (se_db s))" "id_map m"
  shows "import_dataset env (ds_workspace r) m n (PDict (exported_dataset r)) s =
    (Inr (Suc n), s\<lparr>se_db := (se_db s)\<lparr>datasets := datasets (se_db s) @ [r]\<rparr>\<rparr>)"
proof -
  have ids: "str_of (exported_dataset r) ''dataset_id'' '''' = ds_id r"
    "str_of (exported_dataset r) ''source_id'' '''' = ds_source r"
    by (simp_all add: exported_dataset_def dget_or_def)
  have "tbl_get ds_id (ds_id r) (datasets (se_db s)) = None" using assms(2) by (simp add: tbl_get_None)
  moreover have "add_dataset r s = (Inr (), s\<lparr>se_db := (se_db s)\<lparr>datasets := datasets (se_db s) @ [r]\<rparr>\<rparr>)"
    using assms(2) by (simp add: add_dataset_Inr)
  moreover have "dget_or m (ds_source r) (ds_source r) = ds_source r" using assms(3) by (simp add: id_map_def)
  ultimately show ?thesis
    using assms(1) by (simp add: import_dataset_def ids plain_dataset_def clean_id_def tbind_def tread_def
        exported_dataset_back tres_def tpure_def)
qed

lemma import_fresh_datasets:
  assumes "\<And>r. r \<in> set rs \<Longrightarrow> plain_dataset r \<and> ds_workspace r = ws" "distinct (map ds_id rs)"
    "ds_id ` set rs \<inter> ds_id ` set (datasets (se_db s)) = {}" "id_map m"
  shows "tfold (import_dataset env ws m) n (map (PDict \<circ> exported_dataset) rs) s =
    (Inr (n + length rs), s\<lparr>se_db := (se_db s)\<lparr>datasets := datasets (se_db s) @ rs\<rparr>\<rparr>)"
  using assms
proof (induction rs arbitrary: n s)
  case Nil
  then show ?case by (auto simp: tpure_def)
next
  case (Cons r rs)
  let ?s = "s\<lparr>se_db := (se_db s)\<lparr>datasets := datasets (se_db s) @ [r]\<rparr>\<rparr>"
  have r: "import_dataset env ws m n (PDict (exported_dataset r)) s = (Inr (Suc n), ?s)"
    using import_fresh_dataset [of r s m env n] Cons.prems(1) [of r] Cons.prems(3,4) by auto
  have "tfold (import_dataset env ws m) (Suc n) (map (PDict \<circ> exported_dataset) rs) ?s =
    (Inr (Suc n + length rs), ?s\<lparr>se_db := (se_db ?s)\<lparr>datasets := datasets (se_db ?s) @ rs\<rparr>\<rparr>)"
    using Cons.prems by (intro Cons.IH) auto
  then show ?case by (simp add: tbind_def r comp_def)
qed

lemma exported_snapshot:
  "export_catalog_snapshot ws d = Inr snap \<Longrightarrow> \<exists>w. tbl_get ws_id ws (workspaces d) = Some w \<and>
     workspace_matches ws snap \<and>
     as_list (dget_or snap ''sources'' PNone) = map (PDict \<circ> exported_source) (sources_of ws d) \<and>
     as_list (dget_or snap ''datasets'' PNone) = map (PDict \<circ> exported_dataset) (datasets_of ws d)"
  using tbl_get_SomeD
  by (fastforce simp: export_catalog_snapshot_def workspace_matches_def workspace_dict_def dget_or_def Let_def
      split: option.split_asm)

lemma set_sources_of: "set (sources_of ws d) = {r \<in> set (sources d). src_workspace r = ws}"
  by (auto simp: sources_of_def)

lemma set_datasets_of: "set (datasets_of ws d) = {r \<in> set (datasets d). ds_workspace r = ws}"
  by (auto simp: datasets_of_def)

lemma distinct_sort_key_filter: "distinct (map f xs) \<Longrightarrow> distinct (map f (sort_key f (filter p xs)))"
  by (simp add: distinct_map inj_on_def)

section \<open>Properties\<close>

text \<open>
  No secret leaves in a snapshot: the export is the same whatever the credential references of
  the sources are; of a reference it tells only whether there is one.
\<close>

theorem export_hides_credentials:
  "export_catalog_snapshot ws (d\<lparr>sources := map (\<lambda>r. r\<lparr>src_credentials :=
       map_option (\<lambda>c. if c = [] then [] else token # other) (src_credentials r)\<rparr>) (sources d)\<rparr>) =
   export_catalog_snapshot ws d"
proof -
  let ?h = "\<lambda>r. r\<lparr>src_credentials := map_option (\<lambda>c. if c = [] then [] else token # other) (src_credentials r)\<rparr>"
  have e: "exported_source (?h r) = exported_source r" for r
    by (simp add: exported_source_def split: option.split)
  have "sort_key src_id (map ?h xs) = map ?h (sort_key src_id xs)" for xs
  proof (induction xs)
    case (Cons x xs)
    have "insort_key src_id (?h x) (map ?h ys) = map ?h (insort_key src_id x ys)" for ys
      by (induction ys) auto
    with Cons show ?case by simp
  qed simp
  then have "sources_of ws (d\<lparr>sources := map ?h (sources d)\<rparr>) = map ?h (sources_of ws d)"
    by (simp add: sources_of_def filter_map comp_def)
  then show ?thesis
    by (simp add: export_catalog_snapshot_def datasets_of_def e comp_def split: option.split)
qed

text \<open>
  An import stays in its workspace: whatever the snapshot holds, the rows that were stored stay
  as they were, the rows that are added belong to the importing workspace, the sources among them
  carry no credentials, nothing else in the database changes, and the counts answered are the
  numbers of rows added.
\<close>

theorem catalog_import_confined:
  assumes "import_catalog_snapshot env ws snap s = (Inr (n_sources, n_datasets), s')"
  shows "\<exists>new_sources new_datasets.
    se_db s' = (se_db s)\<lparr>sources := sources (se_db s) @ new_sources, datasets := datasets (se_db s) @ new_datasets\<rparr> \<and>
    list_all (\<lambda>r. src_workspace r = ws \<and> src_credentials r = None) new_sources \<and>
    list_all (\<lambda>r. ds_workspace r = ws) new_datasets \<and>
    n_sources = length new_sources \<and> n_datasets = length new_datasets"
proof -
  from assms obtain m s1 where
      src: "tfold (import_source env ws) ([], 0) (as_list (dget_or snap ''sources'' PNone)) s = (Inr (m, n_sources), s1)"
    and dat: "tfold (import_dataset env ws m) 0 (as_list (dget_or snap ''datasets'' PNone)) s1 = (Inr n_datasets, s')"
    by (auto simp: import_catalog_snapshot_def tbind_Inr_iff split: if_splits)
  have "sources_grown (se_db s) ws (m, n_sources) s1"
    by (rule tfold_inv [where I = "sources_grown (se_db s) ws", OF src sources_grown_refl [OF refl]])
      (rule import_source_grows)
  moreover have "datasets_grown (se_db s1) ws n_datasets s'"
    by (rule tfold_inv [where I = "datasets_grown (se_db s1) ws", OF dat datasets_grown_refl [OF refl]])
      (rule import_dataset_grows)
  ultimately show ?thesis unfolding sources_grown_def datasets_grown_def list_all_iff by fastforce
qed

text \<open>
  A snapshot can be restored: exporting a workspace and importing the snapshot into a database
  that knows the workspace but none of its rows brings back every source, without its
  credentials, and every dataset exactly, in the order of their identifiers.
\<close>

theorem catalog_roundtrip:
  assumes "export_catalog_snapshot ws d = Inr snap"
    and "workspaces (se_db s) = workspaces d"
    and "keys_distinct src_id (sources d)" "keys_distinct ds_id (datasets d)"
    and "list_all (\<lambda>r. clean_id (src_id r)) (sources_of ws d)" "list_all plain_dataset (datasets_of ws d)"
    and "src_id ` set (sources d) \<inter> src_id ` set (sources (se_db s)) = {}"
    and "ds_id ` set (datasets d) \<inter> ds_id ` set (datasets (se_db s)) = {}"
  shows "import_catalog_snapshot env ws snap s =
    (Inr (length (sources_of ws d), length (datasets_of ws d)),
     s\<lparr>se_db := (se_db s)\<lparr>sources := sources (se_db s) @ map redacted (sources_of ws d),
        datasets := datasets (se_db s) @ datasets_of ws d\<rparr>\<rparr>)"
proof -
  from exported_snapshot [OF assms(1)] obtain w where snap: "tbl_get ws_id ws (workspaces d) = Some w"
      "workspace_matches ws snap"
      "as_list (dget_or snap ''sources'' PNone) = map (PDict \<circ> exported_source) (sources_of ws d)"
      "as_list (dget_or snap ''datasets'' PNone) = map (PDict \<circ> exported_dataset) (datasets_of ws d)" by blast
  have "distinct (map src_id (sources_of ws d))" "distinct (map ds_id (datasets_of ws d))"
    using assms(3,4) unfolding sources_of_def datasets_of_def keys_distinct_def
    by (simp_all add: distinct_sort_key_filter)
  moreover have "src_id ` set (sources_of ws d) \<inter> src_id ` set (sources (se_db s)) = {}"
    using assms(7) by (auto simp: set_sources_of)
  moreover have "ds_id ` set (datasets_of ws d) \<inter> ds_id ` set (datasets (se_db s)) = {}"
    using assms(8) by (auto simp: set_datasets_of)
  ultimately obtain m where m: "id_map m" and src: "tfold (import_source env ws) ([], 0)
      (map (PDict \<circ> exported_source) (sources_of ws d)) s =
      (Inr (m, 0 + length (sources_of ws d)),
       s\<lparr>se_db := (se_db s)\<lparr>sources := sources (se_db s) @ map redacted (sources_of ws d)\<rparr>\<rparr>)"
    using import_fresh_sources [of "sources_of ws d" ws s "[]" env 0] assms(5)
    by (auto simp: list_all_iff set_sources_of id_map_def dget_or_def)
  let ?s = "s\<lparr>se_db := (se_db s)\<lparr>sources := sources (se_db s) @ map redacted (sources_of ws d)\<rparr>\<rparr>"
  have "tfold (import_dataset env ws m) 0 (map (PDict \<circ> exported_dataset) (datasets_of ws d)) ?s =
      (Inr (0 + length (datasets_of ws d)), ?s\<lparr>se_db := (se_db ?s)\<lparr>datasets := datasets (se_db ?s) @ datasets_of ws d\<rparr>\<rparr>)"
    using \<open>distinct (map ds_id (datasets_of ws d))\<close> \<open>ds_id ` set (datasets_of ws d) \<inter> _ = {}\<close> assms(6) m
    by (intro import_fresh_datasets) (auto simp: list_all_iff set_datasets_of)
  with src snap assms(2) show ?thesis
    by (simp add: import_catalog_snapshot_def tbind_def tread_def tpure_def)
qed

definition demo_catalog :: db where
  "demo_catalog = empty_db\<lparr>workspaces := [demo_workspace],
     sources := [\<lparr>src_id = ''s1'', src_workspace = ''w'', src_type = ''s3'', src_scope = [], src_credentials = Some ''ref'',
        src_status = ''active'', src_display_name = ''Files''\<rparr>],
     datasets := [\<lparr>ds_id = ''d1'', ds_workspace = ''w'', ds_source = ''s1'', ds_logical_name = ''invoices'',
        ds_locator = ''loc'', ds_schema_version = 2, ds_summary = PDict []\<rparr>]\<rparr>"

definition demo_snapshot :: pydict where
  "demo_snapshot = (case export_catalog_snapshot ''w'' demo_catalog of Inr snap \<Rightarrow> snap | Inl _ \<Rightarrow> [])"

lemma demo_export: "export_catalog_snapshot ''w'' demo_catalog = Inr demo_snapshot"
  by (simp add: demo_snapshot_def export_catalog_snapshot_def demo_catalog_def empty_db_def tbl_get_def demo_workspace_def)

theorem catalog_roundtrip_witness:
  "fst (import_catalog_snapshot demo_cp_env ''w'' demo_snapshot demo_session) = Inr (1, 1)"
  by (subst catalog_roundtrip [OF demo_export])
    (code_simp | simp add: demo_session_def demo_catalog_def empty_db_def keys_distinct_def sources_of_def)+

theorem catalog_import_confined_witness:
  "\<exists>new_sources. sources (se_db (snd (import_catalog_snapshot demo_cp_env ''w'' demo_snapshot demo_session))) =
    sources (se_db demo_session) @ new_sources \<and> length new_sources = 1"
proof -
  have "fst (import_catalog_snapshot demo_cp_env ''w'' demo_snapshot demo_session) = Inr (1, 1)" by code_simp
  from catalog_import_confined [OF run_of_fst [OF this]] show ?thesis by auto
qed

end
