(* ===== verification/Contracts.thy ===== *)
theory Contracts
  imports Sessions
begin

text \<open>
  The contract report of a build (\<open>backend/shared_domain/contract_reports.py\<close>): written as JSON
  by the workers and read by the endpoint that publishes the build.
\<close>

record contract_report =
  ct_workspace :: string
  ct_build :: string
  ct_passed :: bool
  ct_failure_count :: int
  ct_failures :: "pydict list"
  ct_path :: string

definition contract_path :: "string \<Rightarrow> string \<Rightarrow> string \<Rightarrow> string" where
  "contract_path storage_root workspace_id build_id =
     as_posix (path_join (path_join (path_join (path_of storage_root) ''contracts'') workspace_id)
       (build_id @ ''.json''))"

text \<open>What \<open>json.loads\<close> reads back from \<open>json.dumps(value, sort_keys=True)\<close>.\<close>

fun json_value :: "pyval \<Rightarrow> pyval" where
  "json_value (PList xs) = PList (map json_value xs)"
| "json_value (PDict kvs) = PDict (sort_key fst (map (\<lambda>p. (fst p, json_value (snd p))) kvs))"
| "json_value v = v"

definition report_payload :: "string \<Rightarrow> string \<Rightarrow> bool \<Rightarrow> pydict list \<Rightarrow> pydict" where
  "report_payload workspace_id build_id contracts_passed failures =
     [(''workspace_id'', PStr workspace_id), (''build_id'', PStr build_id),
      (''contracts_passed'', PBool contracts_passed), (''failure_count'', PInt (int (length failures))),
      (''failures'', PList (map PDict failures))]"

definition write_build_contract_report ::
  "string \<Rightarrow> string \<Rightarrow> bool \<Rightarrow> pydict list \<Rightarrow> string \<Rightarrow> contract_report tx" where
  "write_build_contract_report workspace_id build_id contracts_passed failures storage_root s =
     (let path = contract_path storage_root workspace_id build_id
      in (Inr \<lparr>ct_workspace = workspace_id, ct_build = build_id, ct_passed = contracts_passed,
               ct_failure_count = int (length failures), ct_failures = failures, ct_path = path\<rparr>,
          s\<lparr>se_contracts := dset (se_contracts s) path
             (Some (json_value (PDict (report_payload workspace_id build_id contracts_passed failures))))\<rparr>))"

fun dict_items :: "pyval list \<Rightarrow> pydict list" where
  "dict_items [] = []"
| "dict_items (PDict d # xs) = d # dict_items xs"
| "dict_items (_ # xs) = dict_items xs"

definition parse_contract_report :: "string \<Rightarrow> string \<Rightarrow> string \<Rightarrow> pydict \<Rightarrow> contract_report res" where
  "parse_contract_report workspace_id build_id path raw =
     (let failures = dict_items (as_list (dget_or raw ''failures'' PNone))
      in rbind (py_int (dget_or raw ''failure_count'' (PInt (int (length failures))))) (\<lambda>failure_count.
         Inr \<lparr>ct_workspace = workspace_id, ct_build = build_id,
           ct_passed = py_truth (dget_or raw ''contracts_passed'' (PBool False)),
           ct_failure_count = failure_count, ct_failures = failures, ct_path = path\<rparr>))"

definition load_build_contract_report ::
  "string \<Rightarrow> string \<Rightarrow> string \<Rightarrow> cp_session \<Rightarrow> contract_report option res" where
  "load_build_contract_report workspace_id build_id storage_root s =
     (let path = contract_path storage_root workspace_id build_id
      in case dget (se_contracts s) path of
           None \<Rightarrow> Inr None
         | Some None \<Rightarrow> Inl (ValueError ''json'')
         | Some (Some (PDict raw)) \<Rightarrow> rbind (parse_contract_report workspace_id build_id path raw) (\<lambda>r. Inr (Some r))
         | Some (Some _) \<Rightarrow> Inr None)"

section \<open>Lemmas\<close>

lemma dict_items_map [simp]: "dict_items (map (PDict \<circ> f) xs) = map f xs"
  by (induction xs) auto

definition json_dict :: "pydict \<Rightarrow> pydict" where
  "json_dict d = as_dict (json_value (PDict d))"

lemma json_failures: "dict_items (map (json_value \<circ> PDict) xs) = map json_dict xs"
  by (induction xs) (auto simp: json_dict_def)

lemma json_payload:
  "json_value (PDict (report_payload ws b ok fs)) =
     PDict [(''build_id'', PStr b), (''contracts_passed'', PBool ok), (''failure_count'', PInt (int (length fs))),
            (''failures'', PList (map (json_value \<circ> PDict) fs)), (''workspace_id'', PStr ws)]"
  by (simp add: report_payload_def comp_def)

lemma parse_payload:
  "load_build_contract_report ws b root s = Inr (Some \<lparr>ct_workspace = ws, ct_build = b, ct_passed = ok,
      ct_failure_count = int (length fs), ct_failures = map json_dict fs, ct_path = contract_path root ws b\<rparr>)"
  if "dget (se_contracts s) (contract_path root ws b) = Some (Some (json_value (PDict (report_payload ws b ok fs))))"
  using that by (simp only: load_build_contract_report_def json_payload Let_def)
    (simp add: parse_contract_report_def dget_or_def json_failures)

section \<open>Properties\<close>

text \<open>
  The report that gates a publication is the one that the build wrote: after the write the read
  returns the verdict, the number of failures and the failures themselves (their keys in
  order), and the reports at other paths read as before.
\<close>

theorem contract_report_roundtrip:
  "case write_build_contract_report ws b ok fs root s of (r, s') \<Rightarrow>
     load_build_contract_report ws b root s' = Inr (Some \<lparr>ct_workspace = ws, ct_build = b, ct_passed = ok,
       ct_failure_count = int (length fs), ct_failures = map json_dict fs, ct_path = contract_path root ws b\<rparr>) \<and>
     (contract_path root ws b = contract_path root' ws' b' \<or>
      load_build_contract_report ws' b' root' s' = load_build_contract_report ws' b' root' s)"
  by (simp add: write_build_contract_report_def Let_def parse_payload)
    (auto simp: load_build_contract_report_def Let_def)

end
