(* ===== verification/Secrets.thy ===== *)
theory Secrets
  imports Sessions
begin

text \<open>
  The secrets store (\<open>backend/shared_domain/secrets_store.py\<close>): source credentials are kept
  encrypted in a file, or in a vault, and the catalog keeps a reference. The digest that derives
  the key is \<open>ee_digest\<close> of the environment and the requests to the vault are the parameters
  \<open>post\<close> and \<open>fetch\<close>. Values are ASCII texts, as the callers store JSON.
\<close>

datatype secrets_store =
    LocalEncryptedSecretsStore string string
  | VaultSecretsStore string string

record secrets_settings =
  st_backend :: string
  st_root :: string
  st_master_key :: "string option"
  st_vault_url :: "string option"
  st_vault_token :: "string option"

definition set_text :: "string option \<Rightarrow> string" where
  "set_text o' = (case o' of None \<Rightarrow> [] | Some s \<Rightarrow> s)"

definition load_secrets_store :: "secrets_settings \<Rightarrow> secrets_store res" where
  "load_secrets_store settings =
     (let backend = lower (strip (st_backend settings)) in
      if backend = ''local_encrypted'' then
        Inr (LocalEncryptedSecretsStore (st_root settings)
          (if set_text (st_master_key settings) = [] then ''schemapilot-local-dev-master-key''
           else set_text (st_master_key settings)))
      else if backend = ''vault'' then
        if set_text (st_vault_url settings) = [] \<or> set_text (st_vault_token settings) = []
        then Inl (StartupConfigurationError ''Vault secrets backend requires URL and token configuration.'')
        else Inr (VaultSecretsStore (set_text (st_vault_url settings)) (set_text (st_vault_token settings)))
      else Inl (DisabledIntegrationError ''Secrets store backend is disabled.''))"

definition secret_error :: "string \<Rightarrow> exn" where
  "secret_error reason = OtherError reason"

definition LOCAL_PREFIX :: string where
  "LOCAL_PREFIX = ''secret://local/''"

definition flat_name :: "string \<Rightarrow> string" where
  "flat_name s = concat (map (\<lambda>c. if c = CHR ''/'' then ''__'' else [c]) s)"

definition path_for_reference :: "string \<Rightarrow> string \<Rightarrow> string res" where
  "path_for_reference root reference =
     (if \<not> startswith reference LOCAL_PREFIX then Inl (secret_error ''secret_reference_invalid'')
      else Inr (as_posix (path_join (path_of root) (flat_name (drop (length LOCAL_PREFIX) reference) @ ''.json''))))"

definition local_reference :: "string \<Rightarrow> string \<Rightarrow> string \<Rightarrow> string" where
  "local_reference scope key ref_id = LOCAL_PREFIX @ scope @ CHR ''/'' # key @ CHR ''/'' # ref_id"

definition vault_path :: "string \<Rightarrow> string \<Rightarrow> string \<Rightarrow> string" where
  "vault_path scope key ref_id = ''schemapilot/'' @ scope @ CHR ''/'' # key @ CHR ''/'' # ref_id"

definition write_secret :: "string \<Rightarrow> pydict \<Rightarrow> unit tx" where
  "write_secret path payload s = (Inr (), s\<lparr>se_secrets := dset (se_secrets s) path (Some (PDict payload))\<rparr>)"

fun put_secret ::
  "cp_env \<Rightarrow> (string \<Rightarrow> pydict \<Rightarrow> exn option) \<Rightarrow> secrets_store \<Rightarrow> string \<Rightarrow> string \<Rightarrow> string \<Rightarrow> string tx" where
  "put_secret env post (LocalEncryptedSecretsStore root master_key) scope key secret =
     (if secret = [] then traise (secret_error ''secret_value_required'')
      else tbind (issue_id env) (\<lambda>ref_id.
        let reference = local_reference scope key ref_id;
            payload = [(''scope'', PStr scope), (''key'', PStr key),
              (''ciphertext'', PStr (encrypt_text (ee_digest (ce_evidence env)) secret master_key))]
        in tbind (tres (path_for_reference root reference)) (\<lambda>path.
           tbind (write_secret path payload) (\<lambda>_. tpure reference))))"
| "put_secret env post (VaultSecretsStore url token) scope key secret =
     tbind (issue_id env) (\<lambda>ref_id.
       let path = vault_path scope key ref_id
       in case post (''/v1/secret/data/'' @ path) [(''data'', PDict [(''value'', PStr secret)])] of
            Some e \<Rightarrow> traise e
          | None \<Rightarrow> tpure (''secret://vault/'' @ path))"

definition decrypt_secret :: "cp_env \<Rightarrow> string \<Rightarrow> string \<Rightarrow> string res" where
  "decrypt_secret env ciphertext master_key =
     (case decrypt_text (ee_digest (ce_evidence env)) ciphertext master_key of
        Inl _ \<Rightarrow> Inl (secret_error ''secret_payload_invalid'')
      | Inr plain \<Rightarrow> if is_ascii plain then Inr plain else Inl (secret_error ''secret_payload_invalid''))"

fun get_secret ::
  "cp_env \<Rightarrow> (string \<Rightarrow> pydict res) \<Rightarrow> secrets_store \<Rightarrow> string \<Rightarrow> cp_session \<Rightarrow> string res" where
  "get_secret env fetch (LocalEncryptedSecretsStore root master_key) reference s =
     rbind (path_for_reference root reference) (\<lambda>path.
     case dget (se_secrets s) path of
       None \<Rightarrow> Inl (secret_error ''secret_not_found'')
     | Some (Some (PDict payload)) \<Rightarrow>
         let ciphertext = str_of payload ''ciphertext'' '''' in
         if ciphertext = [] then Inl (secret_error ''secret_payload_invalid'')
         else decrypt_secret env ciphertext master_key
     | Some None \<Rightarrow> Inl (secret_error ''secret_payload_invalid'')
     | Some (Some _) \<Rightarrow> Inl (OtherError ''AttributeError''))"
| "get_secret env fetch (VaultSecretsStore url token) reference s =
     (if \<not> startswith reference ''secret://vault/'' then Inl (secret_error ''secret_reference_invalid'')
      else rbind (fetch (''/v1/secret/data/'' @ drop (length ''secret://vault/'') reference)) (\<lambda>payload.
        case dget_or payload ''data'' (PDict []) of
          PDict data \<Rightarrow>
            (case dget_or data ''data'' (PDict []) of
               PDict nested \<Rightarrow>
                 let secret = str_of nested ''value'' '''' in
                 if secret = [] then Inl (secret_error ''secret_not_found'') else Inr secret
             | _ \<Rightarrow> Inl (secret_error ''secret_payload_invalid''))
        | _ \<Rightarrow> Inl (secret_error ''secret_payload_invalid'')))"

section \<open>Lemmas\<close>

lemma path_for_local:
  "path_for_reference root (local_reference scope key i) =
     Inr (as_posix (path_join (path_of root) (flat_name (scope @ CHR ''/'' # key @ CHR ''/'' # i) @ ''.json'')))"
  by (simp add: path_for_reference_def local_reference_def startswith_def LOCAL_PREFIX_def)

lemma encrypt_text_Nil_iff: "encrypt_text digest s k = [] \<longleftrightarrow> s = []"
  unfolding encrypt_text_def urlsafe_b64encode_Nil_iff by (metis length_xor_key length_0_conv)

lemma put_secret_db:
  "put_secret env post store scope key v s = (r, s') \<Longrightarrow> se_db s' = se_db s"
  by (cases store)
    (auto simp: tbind_def issue_id_def tpure_def traise_def tres_def write_secret_def Let_def
      split: if_splits option.split_asm prod.split_asm sum.split_asm)

section \<open>Properties\<close>

text \<open>
  A stored secret can be read back and is not stored in clear: after the local store accepted a
  text, reading the reference that it answered returns that text, the file holds only the scope,
  the key and a ciphertext, and the reference does not depend on the text.
\<close>

theorem secret_roundtrip:
  assumes "put_secret env post (LocalEncryptedSecretsStore root master_key) scope key v s = (Inr reference, s')"
    and "is_ascii v"
  shows "get_secret env fetch (LocalEncryptedSecretsStore root master_key) reference s' = Inr v \<and>
    reference = local_reference scope key (ce_fresh env (se_next s)) \<and>
    (\<exists>path. se_secrets s' = dset (se_secrets s) path (Some (PDict [(''scope'', PStr scope), (''key'', PStr key),
        (''ciphertext'', PStr (urlsafe_b64encode (xor_key (ee_digest (ce_evidence env) master_key) v)))])))"
proof -
  from assms(1) have ne: "v \<noteq> []" by (simp split: if_splits)
  let ?ref = "local_reference scope key (ce_fresh env (se_next s))"
  obtain path where path: "path_for_reference root ?ref = Inr path" using path_for_local by blast
  let ?payload = "[(''scope'', PStr scope), (''key'', PStr key),
    (''ciphertext'', PStr (encrypt_text (ee_digest (ce_evidence env)) v master_key))]"
  have "put_secret env post (LocalEncryptedSecretsStore root master_key) scope key v s =
      (Inr ?ref, s\<lparr>se_next := Suc (se_next s), se_secrets := dset (se_secrets s) path (Some (PDict ?payload))\<rparr>)"
    by (simp add: ne tbind_def issue_id_def Let_def path tres_def write_secret_def tpure_def)
  with assms(1) have ref: "reference = ?ref"
    and s': "se_secrets s' = dset (se_secrets s) path (Some (PDict ?payload))" by auto
  have "get_secret env fetch (LocalEncryptedSecretsStore root master_key) reference s' = Inr v"
    using ne assms(2) by (simp add: ref path s' dget_or_def Let_def encrypt_text_Nil_iff decrypt_secret_def decrypt_encrypt)
  with ref s' show ?thesis by (auto simp: encrypt_text_def)
qed

theorem secret_roundtrip_witness:
  "\<exists>e s s'. fst (put_secret e (\<lambda>_ _. None) (LocalEncryptedSecretsStore ''/sec'' ''master'') ''workspace/w'' ''k'' ''{}'' s) =
     Inr (local_reference ''workspace/w'' ''k'' ''id'') \<and>
   get_secret e (\<lambda>_. Inl TypeError) (LocalEncryptedSecretsStore ''/sec'' ''master'')
     (local_reference ''workspace/w'' ''k'' ''id'') s' = Inr ''{}''"
proof -
  define e where "e = \<lparr>ce_fresh = \<lambda>_. ''id'', ce_evidence = demo_evidence_env, ce_packs = PNone, ce_now = 0,
    ce_dir = \<lambda>_. Missing, ce_sign = id\<rparr>"
  define s where "s = \<lparr>se_db = empty_db, se_next = 0, se_evidence = [], se_artifacts = [], se_reports = [],
    se_gold = gold_store_empty, se_contracts = [], se_emitted = [], se_secrets = [], se_files = [], se_json = [], se_ticks = 0\<rparr>"
  let ?out = "put_secret e (\<lambda>_ _. None) (LocalEncryptedSecretsStore ''/sec'' ''master'') ''workspace/w'' ''k'' ''{}'' s"
  have r: "fst ?out = Inr (local_reference ''workspace/w'' ''k'' ''id'')"
    by (simp add: tbind_def issue_id_def path_for_local tres_def write_secret_def tpure_def Let_def e_def)
  then have "?out = (Inr (local_reference ''workspace/w'' ''k'' ''id''), snd ?out)"
    by (metis prod.collapse)
  moreover have "is_ascii ''{}''" by code_simp
  ultimately have "get_secret e (\<lambda>_. Inl TypeError) (LocalEncryptedSecretsStore ''/sec'' ''master'')
      (local_reference ''workspace/w'' ''k'' ''id'') (snd ?out) = Inr ''{}''"
    by (rule secret_roundtrip [THEN conjunct1])
  with r show ?thesis by blast
qed

end
