(* ===== verification/Lineage.thy ===== *)
theory Lineage
  imports Py
begin

text \<open>
  Column lineage of a simple SELECT (\<open>backend/shared_domain/lineage_sql.py\<close>). The two regular
  expressions of the source are the scans below: \<open>select\s+(.+?)\s+from\s+\<close>, searched from the
  left with the lazy group as short as possible, and \<open>\s+as\s+\<close>, split at its first match.
\<close>

definition keyword_at :: "string \<Rightarrow> string \<Rightarrow> bool" where
  "keyword_at w s \<longleftrightarrow> lower (take (length w) s) = w"

text \<open>A match of \<open>\s+w\s+\<close> at the start of the text: what follows it.\<close>

definition spaced_word :: "string \<Rightarrow> string \<Rightarrow> string option" where
  "spaced_word w s =
     (let r = dropWhile is_space s; after = drop (length w) r
      in if r \<noteq> s \<and> keyword_at w r \<and> after \<noteq> [] \<and> is_space (hd after) then Some (dropWhile is_space after) else None)"

text \<open>The lazy group: the shortest non-empty prefix that \<open>\s+from\s+\<close> follows.\<close>

fun lazy_clause :: "string \<Rightarrow> string \<Rightarrow> string option" where
  "lazy_clause taken [] = None"
| "lazy_clause taken (c # s) =
     (if spaced_word ''from'' s \<noteq> None then Some (rev (c # taken)) else lazy_clause (c # taken) s)"

text \<open>\<open>\s+\<close> before the group takes as much as it can and gives back until the rest matches.\<close>

fun clause_after :: "nat \<Rightarrow> string \<Rightarrow> string option" where
  "clause_after 0 s = None"
| "clause_after (Suc k) s = (case lazy_clause [] (drop (Suc k) s) of Some c \<Rightarrow> Some c | None \<Rightarrow> clause_after k s)"

definition select_clause_at :: "string \<Rightarrow> string option" where
  "select_clause_at s =
     (if keyword_at ''select'' s
      then let r = drop 6 s in clause_after (length (takeWhile is_space r)) r else None)"

fun search_select :: "string \<Rightarrow> string option" where
  "search_select [] = None"
| "search_select (c # s) = (case select_clause_at (c # s) of Some x \<Rightarrow> Some x | None \<Rightarrow> search_select s)"

fun split_alias :: "string \<Rightarrow> string \<Rightarrow> (string \<times> string) option" where
  "split_alias seen [] = None"
| "split_alias seen (c # s) =
     (case spaced_word ''as'' (c # s) of Some rest \<Rightarrow> Some (rev seen, rest) | None \<Rightarrow> split_alias (c # seen) s)"

function ident_tokens :: "string \<Rightarrow> string list" where
  "ident_tokens s = (case dropWhile (\<lambda>c. \<not> ident_start c) s of
     [] \<Rightarrow> []
   | c # r \<Rightarrow> (c # takeWhile ident_char r) # ident_tokens (dropWhile ident_char r))"
  by pat_completeness auto

lemma ident_tokens_shrink:
  assumes "dropWhile (\<lambda>c. \<not> ident_start c) s = c # r"
  shows "length (dropWhile ident_char r) < length s"
proof -
  have "length (dropWhile ident_char r) \<le> length r" by (rule length_dropWhile_le)
  also have "\<dots> < length s" using length_dropWhile_le [of "\<lambda>c. \<not> ident_start c" s] assms by simp
  finally show ?thesis .
qed

termination ident_tokens
  by (relation "measure length") (simp_all add: ident_tokens_shrink)

declare ident_tokens.simps [simp del]

definition AGGREGATES :: "string list" where
  "AGGREGATES = [''sum'', ''avg'', ''count'', ''min'', ''max'']"

definition source_columns :: "string \<Rightarrow> string list" where
  "source_columns expression =
     filter (\<lambda>t. t \<notin> set AGGREGATES) (sorted_set (map lower (ident_tokens expression)))"

definition lineage_entry :: "nat \<Rightarrow> string \<Rightarrow> pydict" where
  "lineage_entry index part =
     (let (expression, output_column) =
        (if contains '' as '' (lower part)
         then case split_alias [] part of Some (e, a) \<Rightarrow> (e, strip a) | None \<Rightarrow> (part, [])
         else (part, ''col_'' @ nat_digits (index + 1)))
      in [(''output_column'', PStr output_column), (''expression'', PStr (strip expression)),
          (''source_columns'', str_py_list (source_columns expression))])"

definition derive_column_lineage :: "string \<Rightarrow> pydict list" where
  "derive_column_lineage sql_text =
     (case search_select (strip sql_text) of
        None \<Rightarrow> []
      | Some clause \<Rightarrow>
          map (\<lambda>(i, part). lineage_entry i part)
            (enumerate 0 (filter (\<lambda>p. p \<noteq> []) (map strip (split_on (CHR '','') clause)))))"

section \<open>Lemmas\<close>

lemma ident_tokens_ident: "t \<in> set (ident_tokens s) \<Longrightarrow> is_ident t"
proof (induction s rule: ident_tokens.induct)
  case (1 s)
  show ?case
  proof (cases "dropWhile (\<lambda>c. \<not> ident_start c) s")
    case Nil
    with 1 show ?thesis by (simp add: ident_tokens.simps [of s])
  next
    case (Cons c r)
    then have "ident_start c" using hd_dropWhile [of "\<lambda>c. \<not> ident_start c" s] by auto
    then have "is_ident (c # takeWhile ident_char r)" by (auto simp: list_all_iff dest: set_takeWhileD)
    with 1 Cons show ?thesis by (auto simp: ident_tokens.simps [of s])
  qed
qed

lemma source_columns_sound:
  "sorted (source_columns e) \<and> distinct (source_columns e) \<and>
   set (source_columns e) = lower ` set (ident_tokens e) - set AGGREGATES"
  unfolding source_columns_def using sorted_wrt_filter [OF sorted_sorted_set] by auto

text \<open>The scans read texts the way the two expressions do.\<close>

lemma derive_examples:
  "derive_column_lineage ''SELECT a.x AS y, sum( Amount ) from t'' =
     [[(''output_column'', PStr ''y''), (''expression'', PStr ''a.x''), (''source_columns'', PList [PStr ''a'', PStr ''x''])],
      [(''output_column'', PStr ''col_2''), (''expression'', PStr ''sum( Amount )''),
       (''source_columns'', PList [PStr ''amount''])]]"
  "derive_column_lineage ''select  from t'' = []" "derive_column_lineage ''insert into t'' = []"
  by code_simp+

end
