(* ===== verification/Plugins.thy ===== *)
theory Plugins
  imports Py
begin

text \<open>
  Loading of plugins from entry points (\<open>backend/shared_domain/plugin_loader.py\<close>). An entry
  point of the installation is given by its name, its value, and what loading it gives: an
  exception, or whether the object is callable.
\<close>

record entry_point =
  ep_name :: string
  ep_value :: "string option"
  ep_load :: "bool res"

record plugin_spec =
  ps_name :: string
  ps_entrypoint :: "string option"

definition configured_plugin_allowlist :: "string \<Rightarrow> string list" where
  "configured_plugin_allowlist raw = filter (\<lambda>n. n \<noteq> []) (map strip (split_on (CHR '','') raw))"

definition duplicate_entry :: "string \<Rightarrow> exn" where
  "duplicate_entry name = ValueError (''Duplicate plugin entry point: '' @ name)"

fun load_specs ::
  "string list \<Rightarrow> (string \<times> plugin_spec) list \<Rightarrow> entry_point list \<Rightarrow> (string \<times> plugin_spec) list res" where
  "load_specs allowed loaded [] = Inr loaded"
| "load_specs allowed loaded (ep # eps) =
     (if ep_name ep \<notin> set allowed then load_specs allowed loaded eps
      else if dget loaded (ep_name ep) \<noteq> None then Inl (duplicate_entry (ep_name ep))
      else rbind (ep_load ep) (\<lambda>is_callable.
        if \<not> is_callable then Inl TypeError
        else load_specs allowed
          (dset loaded (ep_name ep) \<lparr>ps_name = ep_name ep, ps_entrypoint = ep_value ep\<rparr>) eps))"

definition load_connector_plugin_specs ::
  "string \<Rightarrow> string list option \<Rightarrow> entry_point list \<Rightarrow> (string \<times> plugin_spec) list res" where
  "load_connector_plugin_specs env_allowed allowlist entries =
     (let allowed = (case allowlist of Some a \<Rightarrow> a | None \<Rightarrow> configured_plugin_allowlist env_allowed)
      in if allowed = [] then Inr [] else load_specs allowed [] entries)"

fun load_plugins_from_entry_points :: "string list \<Rightarrow> entry_point list \<Rightarrow> string list res" where
  "load_plugins_from_entry_points loaded [] = Inr loaded"
| "load_plugins_from_entry_points loaded (ep # eps) =
     (if ep_name ep \<in> set loaded then Inl (duplicate_entry (ep_name ep))
      else rbind (ep_load ep) (\<lambda>_. load_plugins_from_entry_points (loaded @ [ep_name ep]) eps))"

section \<open>Only allowed plugins are loaded\<close>

lemma load_specs_allowed:
  "load_specs allowed loaded eps = Inr specs \<Longrightarrow> set (dkeys loaded) \<subseteq> set allowed \<Longrightarrow> set (dkeys specs) \<subseteq> set allowed"
  by (induction allowed loaded eps rule: load_specs.induct) (auto split: if_splits simp: rbind_eq_Inr_iff)

lemma load_specs_from:
  "load_specs allowed loaded eps = Inr specs \<Longrightarrow>
     set (dkeys specs) \<subseteq> set (dkeys loaded) \<union> ep_name ` {ep \<in> set eps. ep_load ep = Inr True}"
  by (induction allowed loaded eps rule: load_specs.induct) (fastforce split: if_splits simp: rbind_eq_Inr_iff)+

lemma allowlist_enforced:
  assumes "load_connector_plugin_specs env_allowed None entries = Inr specs"
  shows "set (dkeys specs) \<subseteq> set (configured_plugin_allowlist env_allowed)"
    and "set (dkeys specs) \<subseteq> ep_name ` {ep \<in> set entries. ep_load ep = Inr True}"
proof -
  have run: "(if configured_plugin_allowlist env_allowed = [] then Inr []
      else load_specs (configured_plugin_allowlist env_allowed) [] entries) = Inr specs"
    using assms unfolding load_connector_plugin_specs_def Let_def option.case .
  have specs: thesis if "specs = [] \<Longrightarrow> thesis"
    "load_specs (configured_plugin_allowlist env_allowed) [] entries = Inr specs \<Longrightarrow> thesis" for thesis
    using run that by (cases "configured_plugin_allowlist env_allowed = []") simp_all
  show "set (dkeys specs) \<subseteq> set (configured_plugin_allowlist env_allowed)"
  proof (cases rule: specs)
    case 2
    then show ?thesis by (rule load_specs_allowed) (simp add: dkeys_def)
  qed (simp add: dkeys_def)
  show "set (dkeys specs) \<subseteq> ep_name ` {ep \<in> set entries. ep_load ep = Inr True}"
  proof (cases rule: specs)
    case 2
    from load_specs_from [OF this] show ?thesis by (simp add: dkeys_def)
  qed (simp add: dkeys_def)
qed

end
