(* ===== verification/CpCore.thy ===== *)
theory CpCore
  imports PackEffects Repository Secrets Contracts AuditOutbox
begin

text \<open>
  What every endpoint of the control plane shares (\<open>backend/control_plane/app.py\<close>): the settings,
  the request with the outcome of its authentication, the role check, the audit trail that goes
  with a change, the reply, and the transaction around a handler with the dispatch of the outbox
  after the commit. Two predicates on handlers, \<open>must_audit\<close> and \<open>may_change\<close>, carry the audit
  properties of all endpoints.
\<close>

section \<open>Settings, requests and replies\<close>

text \<open>
  \<open>cs_write\<close> and \<open>cs_post\<close> are the file append and the HTTP post of the audit sink, \<open>cs_vault\<close>
  the post to the vault, and \<open>cs_float\<close> the constructor \<open>float()\<close>.
\<close>

record cp_settings =
  cs_storage_root :: string
  cs_audit_mode :: string
  cs_sink :: audit_sink
  cs_write :: "string \<Rightarrow> pydict \<Rightarrow> exn option"
  cs_post :: "string \<Rightarrow> pydict \<Rightarrow> exn option"
  cs_batch :: nat
  cs_max_attempts :: int
  cs_deletion_enabled :: bool
  cs_purge_root :: "string option"
  cs_canary :: bool
  cs_secrets :: secrets_store
  cs_vault :: "string \<Rightarrow> pydict \<Rightarrow> exn option"
  cs_float :: "pyval \<Rightarrow> pyval res"

record cp_request =
  rq_id :: string
  rq_actor :: "pydict option res"

datatype reply = Reply pyval | NotFoundReply string pydict

record http_response =
  hr_status :: nat
  hr_body :: pyval

definition error_body :: "string \<Rightarrow> string \<Rightarrow> string \<Rightarrow> pydict \<Rightarrow> pyval" where
  "error_body request_id code' message details =
     PDict [(''error'', PDict [(''code'', PStr code'), (''message'', PStr message), (''details'', PDict details),
        (''request_id'', PStr request_id)])]"

text \<open>
  The handler of \<open>SchemaPilotError\<close>; any other exception is answered by the framework with 500.
\<close>

fun error_response :: "string \<Rightarrow> exn \<Rightarrow> http_response" where
  "error_response request_id (NotFoundError message details) =
     \<lparr>hr_status = 404, hr_body = error_body request_id ''NOT_FOUND'' message details\<rparr>"
| "error_response request_id (PolicyDeniedError message details) =
     \<lparr>hr_status = 403, hr_body = error_body request_id ''POLICY_DENIED'' message details\<rparr>"
| "error_response request_id (DisabledIntegrationError message) =
     \<lparr>hr_status = 400, hr_body = error_body request_id ''INTEGRATION_DISABLED'' message []\<rparr>"
| "error_response request_id (StartupConfigurationError message) =
     \<lparr>hr_status = 400, hr_body = error_body request_id ''STARTUP_CONFIGURATION_ERROR'' message []\<rparr>"
| "error_response request_id _ = \<lparr>hr_status = 500, hr_body = PStr ''Internal Server Error''\<rparr>"

fun reply_response :: "string \<Rightarrow> reply \<Rightarrow> http_response" where
  "reply_response request_id (Reply v) = \<lparr>hr_status = 200, hr_body = v\<rparr>"
| "reply_response request_id (NotFoundReply message details) =
     \<lparr>hr_status = 404, hr_body = error_body request_id ''NOT_FOUND'' message details\<rparr>"

section \<open>Authentication and roles\<close>

definition platform_admin_roles :: "string list" where
  "platform_admin_roles = [''platform_admin'']"

definition steward_or_admin_roles :: "string list" where
  "steward_or_admin_roles = [''data_steward'', ''platform_admin'']"

definition analyst_or_steward_or_admin_roles :: "string list" where
  "analyst_or_steward_or_admin_roles = [''analyst'', ''data_steward'', ''platform_admin'']"

definition require_actor :: "cp_request \<Rightarrow> string list \<Rightarrow> pydict tx" where
  "require_actor rq roles =
     tbind (tres (rq_actor rq)) (\<lambda>found.
     case found of
       None \<Rightarrow> traise (denied [(''reason'', PStr ''missing_or_invalid_auth_token'')])
     | Some actor \<Rightarrow>
         if roles \<noteq> [] \<and> \<not> actor_has_any_role actor roles
         then traise (denied [(''reason'', PStr ''missing_required_role''), (''required_roles'', str_py_list (sort roles))])
         else tpure actor)"

definition actor_id :: "pydict \<Rightarrow> string" where
  "actor_id actor = str_of actor ''actor_id'' ''unknown''"

section \<open>The audit trail of a change\<close>

definition emit_event :: "cp_settings \<Rightarrow> pydict \<Rightarrow> unit tx" where
  "emit_event cfg event s =
     (case emit_audit (cs_write cfg) (cs_post cfg) (cs_sink cfg) (se_emitted s) event of
        (r, taken) \<Rightarrow> (r, s\<lparr>se_emitted := taken\<rparr>))"

definition enqueue_event :: "cp_env \<Rightarrow> string option \<Rightarrow> audit_event \<Rightarrow> unit tx" where
  "enqueue_event env workspace_id event =
     tbind (issue_id env) (\<lambda>new_id.
     tchange (enqueue_audit_outbox_event new_id ''control_plane'' workspace_id (ae_id event) (audit_event_dict event)))"

definition write_event ::
  "cp_settings \<Rightarrow> cp_env \<Rightarrow> string option \<Rightarrow> string \<Rightarrow> string \<Rightarrow> pydict \<Rightarrow> string \<Rightarrow> audit_event tx" where
  "write_event cfg env workspace_id actor event_type event_json correlation_id =
     tbind (insert_audit_event env workspace_id actor event_type event_json correlation_id) (\<lambda>event.
     tbind (if cs_audit_mode cfg = ''inline'' then emit_event cfg (audit_event_dict event)
            else enqueue_event env workspace_id event) (\<lambda>_. tpure event))"

definition audit_unavailable :: "string \<Rightarrow> exn" where
  "audit_unavailable event_type =
     denied [(''reason'', PStr ''audit_unavailable''), (''operation'', PStr event_type)]"

definition append_audit_event ::
  "cp_settings \<Rightarrow> cp_env \<Rightarrow> string option \<Rightarrow> string \<Rightarrow> string \<Rightarrow> pydict \<Rightarrow> string \<Rightarrow> audit_event tx" where
  "append_audit_event cfg env workspace_id actor event_type event_json correlation_id s =
     (case write_event cfg env workspace_id actor event_type event_json correlation_id s of
        (Inl e, s') \<Rightarrow> (Inl (audit_unavailable event_type), s')
      | (Inr event, s') \<Rightarrow> (Inr event, s'))"

text \<open>The way most handlers end: the event is recorded, then the result answered.\<close>

definition answer ::
  "cp_settings \<Rightarrow> cp_env \<Rightarrow> cp_request \<Rightarrow> string \<Rightarrow> pydict \<Rightarrow> string \<Rightarrow> pydict \<Rightarrow> pyval \<Rightarrow> reply tx" where
  "answer cfg env rq workspace_id actor event_type event_json result =
     tbind (append_audit_event cfg env (Some workspace_id) (actor_id actor) event_type event_json (rq_id rq))
       (\<lambda>_. tpure (Reply result))"

section \<open>Arguments and look-ups of handlers\<close>

text \<open>A lookup that answers 404 when there is nothing.\<close>

definition found_or_404 :: "string \<Rightarrow> pydict \<Rightarrow> pydict option \<Rightarrow> reply" where
  "found_or_404 message details found =
     (case found of None \<Rightarrow> NotFoundReply message details | Some d \<Rightarrow> Reply (PDict d))"

text \<open>\<open>int(raw) if isinstance(raw, (int, float, str)) else default\<close>\<close>

fun int_arg :: "pyval \<Rightarrow> int \<Rightarrow> int res" where
  "int_arg PNone dflt = Inr dflt"
| "int_arg (PList _) dflt = Inr dflt"
| "int_arg (PDict _) dflt = Inr dflt"
| "int_arg v dflt = py_int v"

definition bool_arg :: "pydict \<Rightarrow> string \<Rightarrow> bool \<Rightarrow> bool" where
  "bool_arg payload key dflt = py_truth (dget_or payload key (PBool dflt))"

text \<open>\<open>try: x = m except ValueError as exc\<close>: the text of the error, or the result.\<close>

definition ttry :: "'a tx \<Rightarrow> (string + 'a) tx" where
  "ttry m s = (case m s of
     (Inl (ValueError reason), s') \<Rightarrow> (Inr (Inl reason), s')
   | (Inl e, s') \<Rightarrow> (Inl e, s')
   | (Inr x, s') \<Rightarrow> (Inr (Inr x), s'))"

text \<open>A look at the files of the session.\<close>

definition tsee :: "(cp_session \<Rightarrow> 'a) \<Rightarrow> 'a tx" where
  "tsee f s = (Inr (f s), s)"

section \<open>The request around a handler\<close>

text \<open>After the commit, in outbox mode, one batch of the outbox is sent; a failure is only logged.\<close>

definition after_commit :: "cp_settings \<Rightarrow> cp_session \<Rightarrow> cp_session" where
  "after_commit cfg s =
     (if cs_audit_mode cfg \<noteq> ''outbox'' then s
      else case dispatch_audit_outbox_batch (emit_audit (cs_write cfg) (cs_post cfg) (cs_sink cfg)) ''control_plane''
             (cs_batch cfg) (cs_max_attempts cfg) (se_emitted s) (se_db s) of
           (_, taken, d) \<Rightarrow> s\<lparr>se_emitted := taken, se_db := d\<rparr>)"

definition serve :: "cp_settings \<Rightarrow> cp_request \<Rightarrow> reply tx \<Rightarrow> cp_session \<Rightarrow> http_response \<times> cp_session" where
  "serve cfg rq handler s =
     (case in_transaction handler s of
        (Inl e, s') \<Rightarrow> (error_response (rq_id rq) e, s')
      | (Inr r, s') \<Rightarrow> (reply_response (rq_id rq) r, after_commit cfg s'))"

section \<open>Rules for the audit trail\<close>

text \<open>The event that the actor of the request leaves.\<close>

definition event_of :: "cp_request \<Rightarrow> pydict \<Rightarrow> string \<Rightarrow> audit_event \<Rightarrow> bool" where
  "event_of rq actor event_type e \<longleftrightarrow>
     ae_actor e = actor_id actor \<and> ae_type e = event_type \<and> ae_correlation e = rq_id rq"

definition trail :: "db \<Rightarrow> audit_event list \<times> outbox_event list" where
  [simp]: "trail d = (audit_events d, outbox d)"

text \<open>The row of the outbox that carries an event to the sink.\<close>

definition carries :: "outbox_event \<Rightarrow> audit_event \<Rightarrow> bool" where
  "carries row e \<longleftrightarrow> ob_service row = ''control_plane'' \<and> ob_audit_event row = ae_id e \<and> ob_payload row = audit_event_dict e"

definition queued :: "cp_settings \<Rightarrow> audit_event \<Rightarrow> outbox_event list \<Rightarrow> outbox_event list \<Rightarrow> bool" where
  "queued cfg e before after \<longleftrightarrow>
     (if cs_audit_mode cfg = ''inline'' then after = before
      else \<exists>row. after = before @ [row] \<and> carries row e \<and> ob_status row = ''pending'' \<and>
        ob_id row \<notin> ob_id ` set before)"

text \<open>Exactly one event is recorded, and unless the sink is called at once it is also queued for it.\<close>

definition left_event :: "cp_settings \<Rightarrow> cp_request \<Rightarrow> pydict \<Rightarrow> string \<Rightarrow> db \<Rightarrow> db \<Rightarrow> bool" where
  "left_event cfg rq actor event_type d d' \<longleftrightarrow>
     (\<exists>e. audit_events d' = audit_events d @ [e] \<and> event_of rq actor event_type e \<and>
        queued cfg e (outbox d) (outbox d'))"

definition must_audit :: "cp_settings \<Rightarrow> cp_request \<Rightarrow> pydict \<Rightarrow> string \<Rightarrow> 'a tx \<Rightarrow> bool" where
  "must_audit cfg rq actor event_type m \<longleftrightarrow>
     (\<forall>s r s'. m s = (Inr r, s') \<longrightarrow> left_event cfg rq actor event_type (se_db s) (se_db s'))"

definition may_change :: "cp_settings \<Rightarrow> cp_request \<Rightarrow> pydict \<Rightarrow> string \<Rightarrow> 'a tx \<Rightarrow> bool" where
  "may_change cfg rq actor event_type m \<longleftrightarrow> (\<forall>s r s'. m s = (Inr r, s') \<longrightarrow>
     se_db s' = se_db s \<or> left_event cfg rq actor event_type (se_db s) (se_db s'))"

definition db_same :: "'a tx \<Rightarrow> bool" where
  "db_same m \<longleftrightarrow> (\<forall>s r s'. m s = (r, s') \<longrightarrow> se_db s' = se_db s)"

lemma left_event_from: "left_event cfg rq actor ty d d' \<Longrightarrow> trail d = trail d0 \<Longrightarrow> left_event cfg rq actor ty d0 d'"
  by (simp add: left_event_def)

lemma must_auditI:
  "(\<And>s r s'. m s = (Inr r, s') \<Longrightarrow> left_event cfg rq actor ty (se_db s) (se_db s')) \<Longrightarrow> must_audit cfg rq actor ty m"
  by (simp add: must_audit_def)

lemma must_auditD: "must_audit cfg rq actor ty m \<Longrightarrow> m s = (Inr r, s') \<Longrightarrow> left_event cfg rq actor ty (se_db s) (se_db s')"
  by (simp add: must_audit_def)

lemma may_changeI:
  "(\<And>s r s'. m s = (Inr r, s') \<Longrightarrow> se_db s' = se_db s \<or> left_event cfg rq actor ty (se_db s) (se_db s')) \<Longrightarrow>
     may_change cfg rq actor ty m"
  by (simp add: may_change_def)

lemma may_changeD:
  "may_change cfg rq actor ty m \<Longrightarrow> m s = (Inr r, s') \<Longrightarrow> se_db s' = se_db s \<or> left_event cfg rq actor ty (se_db s) (se_db s')"
  by (simp add: may_change_def)

lemma db_sameD: "db_same m \<Longrightarrow> m s = (r, s') \<Longrightarrow> se_db s' = se_db s"
  by (simp add: db_same_def)

lemma may_of_must: "must_audit cfg rq actor ty m \<Longrightarrow> may_change cfg rq actor ty m"
  by (rule may_changeI) (simp add: must_auditD)

lemma may_of_same: "db_same m \<Longrightarrow> may_change cfg rq actor ty m"
  by (rule may_changeI) (simp add: db_sameD)

lemma must_bind:
  assumes "tsame trail m" "\<And>x. must_audit cfg rq actor ty (f x)"
  shows "must_audit cfg rq actor ty (tbind m f)"
proof (rule must_auditI)
  fix s r s'
  assume "tbind m f s = (Inr r, s')"
  then obtain x s1 where m: "m s = (Inr x, s1)" and f: "f x s1 = (Inr r, s')" by (auto simp: tbind_Inr_iff)
  show "left_event cfg rq actor ty (se_db s) (se_db s')"
    by (rule left_event_from [OF must_auditD [OF assms(2) f] tsameD [OF assms(1) m]])
qed

lemma must_then: "must_audit cfg rq actor ty m \<Longrightarrow> must_audit cfg rq actor ty (tbind m (\<lambda>x. tpure (f x)))"
  by (rule must_auditI) (auto simp: tbind_Inr_iff dest: must_auditD)

lemma must_raise [simp]: "must_audit cfg rq actor ty (traise e)"
  by (simp add: must_audit_def)

lemma may_raise [simp]: "may_change cfg rq actor ty (traise e)"
  by (simp add: may_change_def)

lemma may_pure [simp]: "may_change cfg rq actor ty (tpure x)"
  by (simp add: may_change_def)

lemma may_bind:
  assumes "db_same m" "\<And>x. may_change cfg rq actor ty (f x)"
  shows "may_change cfg rq actor ty (tbind m f)"
proof (rule may_changeI)
  fix s r s'
  assume "tbind m f s = (Inr r, s')"
  then obtain x s1 where m: "m s = (Inr x, s1)" and f: "f x s1 = (Inr r, s')" by (auto simp: tbind_Inr_iff)
  with may_changeD [OF assms(2) f] db_sameD [OF assms(1) m]
  show "se_db s' = se_db s \<or> left_event cfg rq actor ty (se_db s) (se_db s')" by simp
qed

text \<open>A service that may answer that there is nothing: then it has left the database alone.\<close>

definition none_same :: "'a option tx \<Rightarrow> bool" where
  "none_same m \<longleftrightarrow> (\<forall>s s'. m s = (Inr None, s') \<longrightarrow> se_db s' = se_db s)"

lemma may_bind_option:
  assumes "tsame trail m" "none_same m" "db_same (f None)" "\<And>x. must_audit cfg rq actor ty (f (Some x))"
  shows "may_change cfg rq actor ty (tbind m f)"
proof (rule may_changeI)
  fix s r s'
  assume "tbind m f s = (Inr r, s')"
  then obtain x s1 where m: "m s = (Inr x, s1)" and f: "f x s1 = (Inr r, s')" by (auto simp: tbind_Inr_iff)
  show "se_db s' = se_db s \<or> left_event cfg rq actor ty (se_db s) (se_db s')"
  proof (cases x)
    case None
    with m assms(2) have "se_db s1 = se_db s" by (simp add: none_same_def)
    with None f db_sameD [OF assms(3)] show ?thesis by auto
  next
    case (Some y)
    with f have "f (Some y) s1 = (Inr r, s')" by simp
    from left_event_from [OF must_auditD [OF assms(4) this] tsameD [OF assms(1) m]] show ?thesis ..
  qed
qed

lemma db_same_simps [simp]:
  "db_same (tpure x)" "db_same (traise e)" "db_same (tres r)" "db_same (tread g)" "db_same (issue_id env)"
  "db_same (store_bundle env ws ty p)"
  using store_bundle_db by (auto simp: db_same_def issue_id_def)

lemma db_same_bind:
  assumes "db_same m" "\<And>x. db_same (f x)"
  shows "db_same (tbind m f)"
  unfolding db_same_def
proof (intro allI impI)
  fix s r s'
  assume "tbind m f s = (r, s')"
  then show "se_db s' = se_db s"
  proof (cases rule: tbind_cases)
    case (stop e)
    then show ?thesis by (simp add: db_sameD [OF assms(1)])
  next
    case (next_step x s1)
    then show ?thesis using db_sameD [OF assms(1)] db_sameD [OF assms(2)] by fastforce
  qed
qed

lemma db_same_put_secret [simp]: "db_same (put_secret env post store scope key v)"
  unfolding db_same_def using put_secret_db by blast

lemma tsame_db_same: "db_same m \<Longrightarrow> tsame f m"
  by (auto simp: db_same_def tsame_def tkeeps_def)

lemma tsame_modify: "(\<And>d. f (g d) = f d) \<Longrightarrow> tsame f (tmodify g)"
  by (simp add: tsame_def tkeeps_modify)

lemma tsame_change: "(\<And>d d'. g d = Inr d' \<Longrightarrow> f d' = f d) \<Longrightarrow> tsame f (tchange g)"
  unfolding tsame_def by (intro allI tkeeps_change) metis

lemma require_actor_Inr:
  "require_actor rq roles s = (Inr actor, s') \<longleftrightarrow>
     s' = s \<and> rq_actor rq = Inr (Some actor) \<and> (roles = [] \<or> actor_has_any_role actor roles)"
  by (auto simp: require_actor_def tbind_Inr_iff split: option.split_asm if_splits)

lemma db_same_require_actor [simp]: "db_same (require_actor rq roles)"
  by (auto simp: require_actor_def db_same_def tbind_def tres_def traise_def tpure_def
      split: sum.split_asm option.split_asm if_splits)

lemma emit_event_db: "emit_event cfg e s = (r, s') \<Longrightarrow> se_db s' = se_db s"
  by (auto simp: emit_event_def split: prod.split_asm)

lemma insert_audit_event_Inr:
  "insert_audit_event env ws actor ty js corr s = (Inr e, s') \<Longrightarrow>
     e = \<lparr>ae_id = ce_fresh env (se_next s), ae_workspace = ws, ae_actor = actor, ae_type = ty, ae_json = js,
          ae_correlation = corr\<rparr> \<and> se_db s' = (se_db s)\<lparr>audit_events := audit_events (se_db s) @ [e]\<rparr>"
  by (auto simp: insert_audit_event_def tbind_Inr_iff Let_def rbind_eq_Inr_iff tbl_add_Inr_iff)

lemma enqueue_event_Inr:
  "enqueue_event env ws e s = (Inr u, s') \<Longrightarrow> \<exists>row. se_db s' = (se_db s)\<lparr>outbox := outbox (se_db s) @ [row]\<rparr> \<and>
     carries row e \<and> ob_status row = ''pending'' \<and> ob_id row \<notin> ob_id ` set (outbox (se_db s))"
  by (auto simp: enqueue_event_def tbind_Inr_iff enqueue_audit_outbox_event_def rbind_eq_Inr_iff tbl_add_Inr_iff carries_def)

lemma write_event_appends:
  assumes "write_event cfg env ws actor ty js corr s = (Inr e, s')"
  shows "audit_events (se_db s') = audit_events (se_db s) @ [e] \<and> ae_workspace e = ws \<and> ae_actor e = actor \<and>
    ae_type e = ty \<and> ae_json e = js \<and> ae_correlation e = corr \<and>
    queued cfg e (outbox (se_db s)) (outbox (se_db s'))"
proof -
  from assms obtain s1 where ins: "insert_audit_event env ws actor ty js corr s = (Inr e, s1)"
    and rest: "(if cs_audit_mode cfg = ''inline'' then emit_event cfg (audit_event_dict e) else enqueue_event env ws e) s1 = (Inr (), s')"
    by (auto simp: write_event_def tbind_Inr_iff)
  note i = insert_audit_event_Inr [OF ins]
  show ?thesis
  proof (cases "cs_audit_mode cfg = ''inline''")
    case True
    with rest have "emit_event cfg (audit_event_dict e) s1 = (Inr (), s')" by simp
    from emit_event_db [OF this] i True show ?thesis by (simp add: queued_def)
  next
    case False
    with rest have "enqueue_event env ws e s1 = (Inr (), s')" by simp
    from enqueue_event_Inr [OF this] i False show ?thesis by (auto simp: queued_def)
  qed
qed

lemma append_audit_event_Inr:
  assumes "append_audit_event cfg env ws actor ty js corr s = (Inr e, s')"
  shows "write_event cfg env ws actor ty js corr s = (Inr e, s')"
  using assms by (auto simp: append_audit_event_def split: prod.split_asm sum.split_asm)

lemma must_audit_event:
  "must_audit cfg rq actor ty (append_audit_event cfg env ws (actor_id actor) ty js (rq_id rq))"
proof (rule must_auditI)
  fix s r s'
  assume "append_audit_event cfg env ws (actor_id actor) ty js (rq_id rq) s = (Inr r, s')"
  from write_event_appends [OF append_audit_event_Inr [OF this]] show "left_event cfg rq actor ty (se_db s) (se_db s')"
    by (simp add: left_event_def event_of_def)
qed

lemma must_answer: "must_audit cfg rq actor ty (answer cfg env rq ws actor ty js v)"
  unfolding answer_def by (intro must_then must_audit_event)

lemma may_answer: "may_change cfg rq actor ty (answer cfg env rq ws actor ty js v)"
  by (rule may_of_must [OF must_answer])

text \<open>
  What the endpoint of a role and an event type guarantees: a reply changes nothing, or an
  authenticated actor with the role left exactly one event of the type.
\<close>

definition audited :: "cp_settings \<Rightarrow> cp_request \<Rightarrow> string list \<Rightarrow> string \<Rightarrow> 'a tx \<Rightarrow> bool" where
  "audited cfg rq roles event_type m \<longleftrightarrow> (\<forall>s r s'. m s = (Inr r, s') \<longrightarrow> se_db s' = se_db s \<or>
     (\<exists>actor. rq_actor rq = Inr (Some actor) \<and> actor_has_any_role actor roles \<and>
        left_event cfg rq actor event_type (se_db s) (se_db s')))"

lemma audited_require:
  assumes "roles \<noteq> []" "\<And>actor. may_change cfg rq actor ty (f actor)"
  shows "audited cfg rq roles ty (tbind (require_actor rq roles) f)"
  unfolding audited_def
proof (intro allI impI)
  fix s r s'
  assume "tbind (require_actor rq roles) f s = (Inr r, s')"
  then obtain actor where a: "rq_actor rq = Inr (Some actor)" "actor_has_any_role actor roles"
    and run: "f actor s = (Inr r, s')" using assms(1) by (auto simp: tbind_Inr_iff require_actor_Inr)
  from may_changeD [OF assms(2) run] a show "se_db s' = se_db s \<or> (\<exists>actor. rq_actor rq = Inr (Some actor) \<and>
      actor_has_any_role actor roles \<and> left_event cfg rq actor ty (se_db s) (se_db s'))" by blast
qed

lemma audited_same: "db_same m \<Longrightarrow> audited cfg rq roles ty m"
  by (auto simp: db_same_def audited_def)

lemma roles_given [simp]:
  "platform_admin_roles \<noteq> []" "steward_or_admin_roles \<noteq> []" "analyst_or_steward_or_admin_roles \<noteq> []"
  by (simp_all add: platform_admin_roles_def steward_or_admin_roles_def analyst_or_steward_or_admin_roles_def)

section \<open>Steps that leave the audit trail alone\<close>

lemma tsame_split_if [intro]: "tsame f m \<Longrightarrow> tsame f n \<Longrightarrow> tsame f (if b then m else n)"
  by simp

lemma policy_events [simp]:
  "tsame trail (add_policy row)" "tsame trail (put_policy row)"
  "tsame trail (rewrite_policy row def st)" "tsame trail (upsert_active env ty ws p)"
  "tsame trail (require_workspace ws)"
  by (auto simp: add_policy_def put_policy_def rewrite_policy_def upsert_active_def require_workspace_def rbind_eq_Inr_iff
      intro!: tsame_bind tsame_modify tsame_change split: option.split)

lemma review_events [simp]:
  "tsame trail (create_proposal env ws ty uri c)" "tsame trail (create_review_task env ws sub pri b)"
  "tsame trail (decide_review_task env ws tid actor dec why)" "tsame trail (decide_linked_task env ws tid actor v why)"
  by (auto simp: decide_linked_task_def intro!: tsame_bind review_same)

lemma tsee_same [simp]: "db_same (tsee f)" "tsee f s = (r, s') \<longleftrightarrow> r = Inr (f s) \<and> s' = s"
  by (auto simp: db_same_def tsee_def)

lemma ttry_cases:
  assumes "ttry m s = (Inr out, s')"
  obtains (failed) reason where "out = Inl reason" "m s = (Inl (ValueError reason), s')"
    | (done_) x where "out = Inr x" "m s = (Inr x, s')"
  using assms by (auto simp: ttry_def split: prod.split_asm sum.split_asm exn.split_asm)

lemma ttry_keeps: "tkeeps P m \<Longrightarrow> tkeeps P (ttry m)"
  unfolding tkeeps_def ttry_def by (fastforce split: prod.split_asm sum.split_asm exn.split_asm)

lemma ttry_same: "tsame f m \<Longrightarrow> tsame f (ttry m)"
  by (simp add: tsame_def ttry_keeps)

lemma ttry_db_same: "db_same m \<Longrightarrow> db_same (ttry m)"
  unfolding db_same_def ttry_def by (fastforce split: prod.split_asm sum.split_asm exn.split_asm)

section \<open>Steps that touch neither the gold pointers nor the sink\<close>

definition quiet :: "'a tx \<Rightarrow> bool" where
  "quiet m \<longleftrightarrow> (\<forall>s r s'. m s = (r, s') \<longrightarrow> se_gold s' = se_gold s \<and> se_emitted s' = se_emitted s)"

text \<open>The same for a handler, which calls the sink only when the audit mode is inline.\<close>

definition calm :: "cp_settings \<Rightarrow> 'a tx \<Rightarrow> bool" where
  "calm cfg m \<longleftrightarrow> (\<forall>s r s'. m s = (r, s') \<longrightarrow> se_gold s' = se_gold s \<and>
     (cs_audit_mode cfg = ''inline'' \<or> se_emitted s' = se_emitted s))"

lemma quietD: "quiet m \<Longrightarrow> m s = (r, s') \<Longrightarrow> se_gold s' = se_gold s \<and> se_emitted s' = se_emitted s"
  by (simp add: quiet_def)

lemma calmD: "calm cfg m \<Longrightarrow> m s = (r, s') \<Longrightarrow>
    se_gold s' = se_gold s \<and> (cs_audit_mode cfg = ''inline'' \<or> se_emitted s' = se_emitted s)"
  by (simp add: calm_def)

lemma calm_of_quiet: "quiet m \<Longrightarrow> calm cfg m"
  by (simp add: quiet_def calm_def)

lemma quiet_simps [simp]:
  "quiet (tpure x)" "quiet (traise e)" "quiet (tres r)" "quiet (tread g)" "quiet (issue_id env)" "quiet (tmodify h)"
  "quiet (tchange k)" "quiet (store_bundle env ws ty p)" "quiet (tsee v)"
  by (auto simp: quiet_def tmodify_def tchange_def store_bundle_def split: sum.split_asm prod.split_asm)

lemma quiet_bind:
  assumes "quiet m" "\<And>x. quiet (f x)"
  shows "quiet (tbind m f)"
  unfolding quiet_def
proof (intro allI impI)
  fix s r s'
  assume "tbind m f s = (r, s')"
  then show "se_gold s' = se_gold s \<and> se_emitted s' = se_emitted s"
  proof (cases rule: tbind_cases)
    case (stop e)
    then show ?thesis using quietD [OF assms(1)] by blast
  next
    case (next_step x s1)
    then show ?thesis using quietD [OF assms(1)] quietD [OF assms(2)] by fastforce
  qed
qed

lemma calm_bind:
  assumes "calm cfg m" "\<And>x. calm cfg (f x)"
  shows "calm cfg (tbind m f)"
  unfolding calm_def
proof (intro allI impI)
  fix s r s'
  assume "tbind m f s = (r, s')"
  then show "se_gold s' = se_gold s \<and> (cs_audit_mode cfg = ''inline'' \<or> se_emitted s' = se_emitted s)"
  proof (cases rule: tbind_cases)
    case (stop e)
    then show ?thesis using calmD [OF assms(1)] by blast
  next
    case (next_step x s1)
    then show ?thesis using calmD [OF assms(1)] calmD [OF assms(2)] by fastforce
  qed
qed

lemma calm_simps [simp]: "calm cfg (tpure x)" "calm cfg (traise e)" "calm cfg (tres r)" "calm cfg (tread g)"
  by (simp_all add: calm_of_quiet)

lemma quiet_try: "quiet m \<Longrightarrow> quiet (ttry m)"
  unfolding quiet_def ttry_def by (fastforce split: prod.split_asm sum.split_asm exn.split_asm)

lemma quiet_put_secret [simp]: "quiet (put_secret env post store scope key v)"
  by (cases store) (auto simp: Let_def write_secret_def quiet_def [of "write_secret _ _"] intro!: quiet_bind split: option.split)

lemma quiet_require_actor [simp]: "quiet (require_actor rq roles)"
  by (auto simp: require_actor_def intro!: quiet_bind split: option.split)

lemma emit_event_gold: "emit_event cfg e s = (r, s') \<Longrightarrow> se_gold s' = se_gold s"
  by (auto simp: emit_event_def split: prod.split_asm)

lemma calm_write_event: "calm cfg (write_event cfg env ws actor ty js corr)"
proof -
  have "calm cfg (if cs_audit_mode cfg = ''inline'' then emit_event cfg d else enqueue_event env ws e)" for d e
    using emit_event_gold
    by (auto simp: calm_def [of cfg "emit_event cfg d"] enqueue_event_def intro!: calm_of_quiet quiet_bind)
  note deliver = this
  have ins: "calm cfg (insert_audit_event env ws actor ty js corr)"
    unfolding insert_audit_event_def Let_def by (intro calm_of_quiet quiet_bind quiet_simps)
  show ?thesis unfolding write_event_def by (intro calm_bind ins deliver calm_simps)
qed

lemma calm_answer [simp]: "calm cfg (answer cfg env rq ws actor ty js v)"
proof -
  have "calm cfg (append_audit_event cfg env ws' a ty js corr)" for ws' a corr
    using calm_write_event [of cfg env ws' a ty js corr]
    unfolding calm_def append_audit_event_def by (fastforce split: prod.split_asm sum.split_asm)
  then show ?thesis unfolding answer_def by (intro calm_bind calm_simps)
qed

lemma quiet_rows [simp]:
  "quiet (add_policy row)" "quiet (put_policy row)" "quiet (rewrite_policy row def st)"
  "quiet (upsert_active env ty ws p)" "quiet (require_workspace ws)"
  "quiet (create_proposal env ws pty uri c)" "quiet (create_review_task env ws sub pri b)"
  "quiet (decide_review_task env ws tid actor dec why)" "quiet (decide_linked_task env ws tid actor v why)"
  "quiet (create_workspace env n pr sec)" "quiet (create_source env ws sty sc dn cr)" "quiet (create_run env ws kind)"
  "quiet (update_source ws sid patch)"
  unfolding add_policy_def put_policy_def rewrite_policy_def upsert_active_def require_workspace_def create_proposal_def
    create_review_task_def decide_review_task_def decide_linked_task_def create_workspace_def create_source_def
    create_run_def update_source_def Let_def
  by (auto intro!: quiet_bind split: option.split)

end
