(* ===== verification/CpGovernance.thy ===== *)
theory CpGovernance
  imports CpCore SemanticService Deletion
begin

text \<open>
  The governance endpoints of \<open>backend/control_plane/app.py\<close>: policy packs, semantic manifests,
  retention and deletion. Each handler checks the role, calls its service, and records the event
  of the change in the same transaction.
\<close>

section \<open>Policy packs\<close>

definition api_list_policy_packs :: "cp_env \<Rightarrow> reply tx" where
  "api_list_policy_packs env =
     tpure (Reply (PList (map (\<lambda>(i, n, d). PDict [(''id'', PStr i), (''name'', PStr n), (''description'', PStr d)])
       (list_policy_pack_summaries (ce_packs env)))))"

definition api_get_effective_policy_pack :: "cp_request \<Rightarrow> string \<Rightarrow> reply tx" where
  "api_get_effective_policy_pack rq workspace_id =
     tbind (require_actor rq analyst_or_steward_or_admin_roles) (\<lambda>_.
     tbind (tread (get_effective_policy_pack workspace_id)) (\<lambda>found.
     tbind (tres found) (\<lambda>policy_pack.
     tpure (found_or_404 ''Effective policy pack not found.'' [(''workspace_id'', PStr workspace_id)] policy_pack))))"

definition api_request_policy_pack_change ::
  "cp_settings \<Rightarrow> cp_env \<Rightarrow> cp_request \<Rightarrow> string \<Rightarrow> pydict \<Rightarrow> reply tx" where
  "api_request_policy_pack_change cfg env rq workspace_id payload =
     tbind (require_actor rq steward_or_admin_roles) (\<lambda>actor.
     let requested_pack_id = strip (str_of payload ''pack_id'' [])
     in if requested_pack_id = [] then traise (denied [(''reason'', PStr ''missing_pack_id'')])
        else tbind (request_policy_pack_change env workspace_id (actor_id actor) requested_pack_id) (\<lambda>change_request.
             answer cfg env rq workspace_id actor ''policy_pack.change_requested'' change_request (PDict change_request)))"

definition api_decide_policy_pack_change ::
  "cp_settings \<Rightarrow> cp_env \<Rightarrow> cp_request \<Rightarrow> string \<Rightarrow> string \<Rightarrow> pydict \<Rightarrow> reply tx" where
  "api_decide_policy_pack_change cfg env rq workspace_id change_request_id payload =
     tbind (require_actor rq steward_or_admin_roles) (\<lambda>actor.
     tbind (decide_policy_pack_change env workspace_id change_request_id (actor_id actor)
         (str_of payload ''decision'' ''defer'') (str_of payload ''decision_reason'' [])
         (bool_arg payload ''canary'' (cs_canary cfg))) (\<lambda>result.
     case result of
       None \<Rightarrow> tpure (NotFoundReply ''Policy pack change request not found.''
         [(''workspace_id'', PStr workspace_id), (''change_request_id'', PStr change_request_id)])
     | Some r \<Rightarrow> answer cfg env rq workspace_id actor ''policy_pack.change_decided'' r (PDict r)))"

definition api_rollback_policy_pack :: "cp_settings \<Rightarrow> cp_env \<Rightarrow> cp_request \<Rightarrow> string \<Rightarrow> reply tx" where
  "api_rollback_policy_pack cfg env rq workspace_id =
     tbind (require_actor rq platform_admin_roles) (\<lambda>actor.
     tbind (rollback_policy_pack workspace_id) (\<lambda>result.
     answer cfg env rq workspace_id actor ''policy_pack.rolled_back'' result (PDict result)))"

definition api_get_policy_pack_canary :: "cp_request \<Rightarrow> string \<Rightarrow> reply tx" where
  "api_get_policy_pack_canary rq workspace_id =
     tbind (require_actor rq steward_or_admin_roles) (\<lambda>_.
     tbind (tread (get_policy_pack_canary workspace_id)) (\<lambda>canary.
     tpure (found_or_404 ''Policy pack canary not found.'' [(''workspace_id'', PStr workspace_id)] canary)))"

definition api_promote_policy_pack_canary :: "cp_settings \<Rightarrow> cp_env \<Rightarrow> cp_request \<Rightarrow> string \<Rightarrow> reply tx" where
  "api_promote_policy_pack_canary cfg env rq workspace_id =
     tbind (require_actor rq platform_admin_roles) (\<lambda>actor.
     tbind (promote_policy_pack_canary env workspace_id (actor_id actor)) (\<lambda>result.
     answer cfg env rq workspace_id actor ''policy_pack.canary_promoted'' result (PDict result)))"

section \<open>Semantic manifests\<close>

definition api_get_effective_semantic_manifest :: "cp_env \<Rightarrow> cp_request \<Rightarrow> string \<Rightarrow> reply tx" where
  "api_get_effective_semantic_manifest env rq workspace_id =
     tbind (require_actor rq analyst_or_steward_or_admin_roles) (\<lambda>_.
     tbind (tread (get_effective_semantic_manifest env workspace_id)) (\<lambda>found.
     tbind (tres found) (\<lambda>state.
     tpure (found_or_404 ''Effective semantic manifest not found.'' [(''workspace_id'', PStr workspace_id)] state))))"

definition api_request_semantic_manifest_change ::
  "cp_settings \<Rightarrow> cp_env \<Rightarrow> cp_request \<Rightarrow> string \<Rightarrow> pydict \<Rightarrow> reply tx" where
  "api_request_semantic_manifest_change cfg env rq workspace_id payload =
     tbind (require_actor rq steward_or_admin_roles) (\<lambda>actor.
     case dget_or payload ''semantic_manifest'' (PDict []) of
       PDict manifest_raw \<Rightarrow>
         tbind (request_semantic_manifest_change env workspace_id (actor_id actor) manifest_raw) (\<lambda>change_request.
         answer cfg env rq workspace_id actor ''semantic_manifest.change_requested'' change_request (PDict change_request))
     | _ \<Rightarrow> traise (denied [(''reason'', PStr ''missing_semantic_manifest'')]))"

definition api_decide_semantic_manifest_change ::
  "cp_settings \<Rightarrow> cp_env \<Rightarrow> cp_request \<Rightarrow> string \<Rightarrow> string \<Rightarrow> pydict \<Rightarrow> reply tx" where
  "api_decide_semantic_manifest_change cfg env rq workspace_id change_request_id payload =
     tbind (require_actor rq steward_or_admin_roles) (\<lambda>actor.
     tbind (decide_semantic_manifest_change env workspace_id change_request_id (actor_id actor)
         (str_of payload ''decision'' ''defer'') (str_of payload ''decision_reason'' [])) (\<lambda>result.
     case result of
       None \<Rightarrow> tpure (NotFoundReply ''Semantic manifest change request not found.''
         [(''workspace_id'', PStr workspace_id), (''change_request_id'', PStr change_request_id)])
     | Some r \<Rightarrow> answer cfg env rq workspace_id actor ''semantic_manifest.change_decided'' r (PDict r)))"

definition api_rollback_semantic_manifest :: "cp_settings \<Rightarrow> cp_env \<Rightarrow> cp_request \<Rightarrow> string \<Rightarrow> reply tx" where
  "api_rollback_semantic_manifest cfg env rq workspace_id =
     tbind (require_actor rq platform_admin_roles) (\<lambda>actor.
     tbind (rollback_semantic_manifest env workspace_id) (\<lambda>result.
     answer cfg env rq workspace_id actor ''semantic_manifest.rolled_back'' result (PDict result)))"

section \<open>Retention\<close>

definition api_get_retention_policy :: "cp_request \<Rightarrow> string \<Rightarrow> reply tx" where
  "api_get_retention_policy rq workspace_id =
     tbind (require_actor rq analyst_or_steward_or_admin_roles) (\<lambda>_.
     tbind (tread (get_retention_policy workspace_id)) (\<lambda>policy.
     tpure (found_or_404 ''Retention policy not found.'' [(''workspace_id'', PStr workspace_id)] policy)))"

definition api_configure_retention_policy ::
  "cp_settings \<Rightarrow> cp_env \<Rightarrow> cp_request \<Rightarrow> string \<Rightarrow> pydict \<Rightarrow> reply tx" where
  "api_configure_retention_policy cfg env rq workspace_id payload =
     tbind (require_actor rq steward_or_admin_roles) (\<lambda>actor.
     tbind (tres (int_arg (dget_or payload ''retention_days'' (PInt 30)) 30)) (\<lambda>retention_days.
     tbind (configure_retention_policy env workspace_id (actor_id actor) retention_days
         (bool_arg payload ''enabled'' False) (bool_arg payload ''purge_enabled'' False)
         (bool_arg payload ''legal_hold_active'' False)) (\<lambda>policy.
     answer cfg env rq workspace_id actor ''retention.policy_configured'' policy (PDict policy))))"

definition purge_result :: "purge_run \<Rightarrow> pydict" where
  "purge_result run = [(''purge_run_id'', PStr (pg_id run)), (''workspace_id'', PStr (pg_workspace run)),
     (''status'', PStr (pg_status run)), (''dry_run'', PBool (pg_dry_run run)),
     (''deleted_count'', PInt (pg_deleted_count run)), (''deleted_paths'', str_py_list (pg_deleted_paths run)),
     (''evidence_bundle_uri'', PStr (pg_evidence_uri run)), (''retention_policy_id'', PStr (pg_policy run))]"

definition api_execute_retention_purge ::
  "cp_settings \<Rightarrow> cp_env \<Rightarrow> cp_request \<Rightarrow> string \<Rightarrow> pydict \<Rightarrow> reply tx" where
  "api_execute_retention_purge cfg env rq workspace_id payload =
     tbind (require_actor rq platform_admin_roles) (\<lambda>actor.
     tbind (execute_retention_purge env workspace_id (actor_id actor) (cs_purge_root cfg)
         (bool_arg payload ''dry_run'' True)) (\<lambda>run.
     answer cfg env rq workspace_id actor ''retention.purge_executed'' (purge_result run) (PDict (purge_result run))))"

section \<open>Deletion\<close>

definition deletion_disabled :: exn where
  "deletion_disabled = denied [(''reason'', PStr ''deletion_disabled'')]"

fun is_text_or_number :: "pyval \<Rightarrow> bool" where
  "is_text_or_number (PStr _) = True"
| "is_text_or_number (PInt _) = True"
| "is_text_or_number (PBool _) = True"
| "is_text_or_number (PFloat _ _) = True"
| "is_text_or_number _ = False"

definition text_items :: "pydict \<Rightarrow> string \<Rightarrow> string list" where
  "text_items payload key = map py_str (filter is_text_or_number (as_list (dget_or payload key (PList []))))"

definition api_create_deletion_request ::
  "cp_settings \<Rightarrow> cp_env \<Rightarrow> cp_request \<Rightarrow> string \<Rightarrow> pydict \<Rightarrow> reply tx" where
  "api_create_deletion_request cfg env rq workspace_id payload =
     tbind (require_actor rq steward_or_admin_roles) (\<lambda>actor.
     if \<not> cs_deletion_enabled cfg then traise deletion_disabled
     else tbind (submit_deletion_request env workspace_id (actor_id actor)
              (as_dict (dget_or payload ''subject_selector'' (PDict [])))
              (text_items payload ''affected_snapshots'') (text_items payload ''affected_indexes'')) (\<lambda>request.
          answer cfg env rq workspace_id actor ''deletion.requested'' request (PDict request)))"

definition deletion_not_found :: "string \<Rightarrow> string \<Rightarrow> reply" where
  "deletion_not_found workspace_id deletion_request_id =
     NotFoundReply ''Deletion request not found.''
       [(''workspace_id'', PStr workspace_id), (''deletion_request_id'', PStr deletion_request_id)]"

definition api_get_deletion_request :: "cp_request \<Rightarrow> string \<Rightarrow> string \<Rightarrow> reply tx" where
  "api_get_deletion_request rq workspace_id deletion_request_id =
     tbind (require_actor rq analyst_or_steward_or_admin_roles) (\<lambda>_.
     tbind (tread (get_deletion_request workspace_id deletion_request_id)) (\<lambda>found.
     tpure (case found of None \<Rightarrow> deletion_not_found workspace_id deletion_request_id | Some r \<Rightarrow> Reply (PDict r))))"

definition api_approve_deletion_request ::
  "cp_settings \<Rightarrow> cp_env \<Rightarrow> cp_request \<Rightarrow> string \<Rightarrow> string \<Rightarrow> pydict \<Rightarrow> reply tx" where
  "api_approve_deletion_request cfg env rq workspace_id deletion_request_id payload =
     tbind (require_actor rq steward_or_admin_roles) (\<lambda>actor.
     if \<not> cs_deletion_enabled cfg then traise deletion_disabled
     else tbind (approve_deletion_request env workspace_id deletion_request_id (actor_id actor)
              (str_of payload ''decision'' ''defer'') (str_of payload ''decision_reason'' [])) (\<lambda>approval.
          case approval of
            None \<Rightarrow> tpure (deletion_not_found workspace_id deletion_request_id)
          | Some a \<Rightarrow> answer cfg env rq workspace_id actor ''deletion.approved'' a (PDict a)))"

definition backup_arg :: "pydict \<Rightarrow> string option" where
  "backup_arg payload = (case dget_or payload ''backup_reference'' PNone of PNone \<Rightarrow> None | v \<Rightarrow> Some (py_str v))"

definition api_execute_deletion_request ::
  "cp_settings \<Rightarrow> cp_env \<Rightarrow> cp_request \<Rightarrow> string \<Rightarrow> string \<Rightarrow> pydict \<Rightarrow> reply tx" where
  "api_execute_deletion_request cfg env rq workspace_id deletion_request_id payload =
     tbind (require_actor rq platform_admin_roles) (\<lambda>actor.
     if \<not> cs_deletion_enabled cfg then traise deletion_disabled
     else tbind (execute_deletion_request env workspace_id deletion_request_id
              (str_of payload ''output_root'' ''./runtime'') (backup_arg payload)) (\<lambda>result.
          case result of
            None \<Rightarrow> tpure (deletion_not_found workspace_id deletion_request_id)
          | Some r \<Rightarrow> answer cfg env rq workspace_id actor ''deletion.executed'' r (PDict r)))"

section \<open>The services leave the audit trail alone\<close>

lemma pack_events:
  "tsame trail (request_policy_pack_change env ws actor pack)"
  "tsame trail (decide_policy_pack_change env ws cid actor v why canary)"
  "tsame trail (rollback_policy_pack ws)" "tsame trail (promote_policy_pack_canary env ws actor)"
  unfolding request_policy_pack_change_def decide_policy_pack_change_def rollback_policy_pack_def
    promote_policy_pack_canary_def apply_policy_pack_def close_canary_def upsert_policy_pack_canary_def Let_def
  by (auto intro!: tsame_bind split: option.split)

lemma manifest_events:
  "tsame trail (request_semantic_manifest_change env ws actor raw)"
  "tsame trail (decide_semantic_manifest_change env ws cid actor v why)"
  "tsame trail (rollback_semantic_manifest env ws)"
  unfolding request_semantic_manifest_change_def decide_semantic_manifest_change_def rollback_semantic_manifest_def
    apply_semantic_manifest_def Let_def
  by (auto intro!: tsame_bind split: option.split pyval.split)

lemma run_purge_db: "db_same (run_purge env ws root days dry)"
  by (auto simp: db_same_def run_purge_def Let_def split: prod.split_asm sum.split_asm exn.split_asm)

lemma retention_events:
  "tsame trail (configure_retention_policy env ws actor days en pu hold)"
  "tsame trail (execute_retention_purge env ws actor root dry)"
  unfolding configure_retention_policy_def execute_retention_purge_def Let_def
  by (auto intro!: tsame_bind tsame_modify tsame_change tsame_db_same [OF run_purge_db] simp: rbind_eq_Inr_iff
      split: option.split)

lemma workflow_db [simp]: "db_same (execute_deletion_workflow env order root)" "db_same (read_report path)"
  by (auto simp: db_same_def execute_deletion_workflow_def read_report_def tbind_def issue_id_def tpure_def Let_def
      split: if_splits option.split_asm)

lemma deletion_events:
  "tsame trail (submit_deletion_request env ws actor sel snaps idxs)"
  "tsame trail (approve_deletion_request env ws did actor v why)"
  "tsame trail (execute_deletion_request env ws did out backup)"
  unfolding submit_deletion_request_def approve_deletion_request_def execute_deletion_request_def finish_deletion_def
    put_deletion_def Let_def
  by (auto intro!: tsame_bind tsame_modify tsame_change tsame_db_same [OF workflow_db(1)] tsame_db_same [OF workflow_db(2)]
      simp: rbind_eq_Inr_iff split: option.split)

lemma governance_none_same:
  "none_same (decide_policy_pack_change env ws cid actor v why canary)"
  "none_same (decide_semantic_manifest_change env ws cid actor v why)"
  "none_same (approve_deletion_request env ws did actor v why)"
  "none_same (execute_deletion_request env ws did out backup)"
  unfolding none_same_def decide_policy_pack_change_def decide_semantic_manifest_change_def approve_deletion_request_def
    execute_deletion_request_def finish_deletion_def Let_def
  by (auto simp: tbind_Inr_iff split: option.split_asm if_splits)

section \<open>Every change by a governance endpoint is audited\<close>

lemma governance_decided:
  "audited cfg rq steward_or_admin_roles ''policy_pack.change_decided'' (api_decide_policy_pack_change cfg env rq ws cid p)"
  "audited cfg rq steward_or_admin_roles ''semantic_manifest.change_decided''
     (api_decide_semantic_manifest_change cfg env rq ws cid p)"
  "audited cfg rq steward_or_admin_roles ''deletion.approved'' (api_approve_deletion_request cfg env rq ws did p)"
  "audited cfg rq platform_admin_roles ''deletion.executed'' (api_execute_deletion_request cfg env rq ws did p)"
  unfolding api_decide_policy_pack_change_def api_decide_semantic_manifest_change_def api_approve_deletion_request_def
    api_execute_deletion_request_def deletion_not_found_def
  by (auto intro!: audited_require may_bind_option must_answer pack_events manifest_events deletion_events
      governance_none_same)

lemma governance_changed:
  "audited cfg rq steward_or_admin_roles ''policy_pack.change_requested'' (api_request_policy_pack_change cfg env rq ws p)"
  "audited cfg rq platform_admin_roles ''policy_pack.rolled_back'' (api_rollback_policy_pack cfg env rq ws)"
  "audited cfg rq platform_admin_roles ''policy_pack.canary_promoted'' (api_promote_policy_pack_canary cfg env rq ws)"
  "audited cfg rq steward_or_admin_roles ''semantic_manifest.change_requested''
     (api_request_semantic_manifest_change cfg env rq ws p)"
  "audited cfg rq platform_admin_roles ''semantic_manifest.rolled_back'' (api_rollback_semantic_manifest cfg env rq ws)"
  "audited cfg rq steward_or_admin_roles ''retention.policy_configured'' (api_configure_retention_policy cfg env rq ws p)"
  "audited cfg rq platform_admin_roles ''retention.purge_executed'' (api_execute_retention_purge cfg env rq ws p)"
  "audited cfg rq steward_or_admin_roles ''deletion.requested'' (api_create_deletion_request cfg env rq ws p)"
  unfolding api_request_policy_pack_change_def api_rollback_policy_pack_def api_promote_policy_pack_canary_def
    api_request_semantic_manifest_change_def api_rollback_semantic_manifest_def api_configure_retention_policy_def
    api_execute_retention_purge_def api_create_deletion_request_def Let_def
  by (auto intro!: audited_require may_of_must must_bind must_answer pack_events manifest_events retention_events
      deletion_events split: pyval.split)

lemma governance_reads:
  "db_same (api_list_policy_packs env)" "db_same (api_get_effective_policy_pack rq ws)"
  "db_same (api_get_policy_pack_canary rq ws)" "db_same (api_get_effective_semantic_manifest env rq ws)"
  "db_same (api_get_retention_policy rq ws)" "db_same (api_get_deletion_request rq ws did)"
  unfolding api_list_policy_packs_def api_get_effective_policy_pack_def api_get_policy_pack_canary_def
    api_get_effective_semantic_manifest_def api_get_retention_policy_def api_get_deletion_request_def
  by (auto intro!: db_same_bind)

section \<open>Governance touches neither the gold pointers nor the sink\<close>

lemma quiet_governance [simp]:
  "quiet (request_policy_pack_change env ws actor pack)" "quiet (decide_policy_pack_change env ws cid actor v why canary)"
  "quiet (rollback_policy_pack ws)" "quiet (promote_policy_pack_canary env ws actor)"
  "quiet (request_semantic_manifest_change env ws actor raw)"
  "quiet (decide_semantic_manifest_change env ws cid actor v why)" "quiet (rollback_semantic_manifest env ws)"
  unfolding request_policy_pack_change_def decide_policy_pack_change_def rollback_policy_pack_def
    promote_policy_pack_canary_def apply_policy_pack_def close_canary_def upsert_policy_pack_canary_def
    request_semantic_manifest_change_def decide_semantic_manifest_change_def rollback_semantic_manifest_def
    apply_semantic_manifest_def Let_def
  by (auto intro!: quiet_bind split: option.split pyval.split)

lemma quiet_purge [simp]: "quiet (run_purge env ws root days dry)"
  by (auto simp: quiet_def run_purge_def Let_def split: prod.split_asm sum.split_asm exn.split_asm)

lemma quiet_deletion_files [simp]: "quiet (execute_deletion_workflow env order root)" "quiet (read_report path)"
  by (auto simp: quiet_def execute_deletion_workflow_def read_report_def tbind_def issue_id_def tpure_def Let_def
      split: if_splits option.split_asm)

lemma quiet_retention [simp]:
  "quiet (configure_retention_policy env ws actor days en pu hold)" "quiet (execute_retention_purge env ws actor root dry)"
  "quiet (submit_deletion_request env ws actor sel snaps idxs)" "quiet (approve_deletion_request env ws did actor v why)"
  "quiet (execute_deletion_request env ws did out backup)"
  unfolding configure_retention_policy_def execute_retention_purge_def submit_deletion_request_def
    approve_deletion_request_def execute_deletion_request_def finish_deletion_def put_deletion_def Let_def
  by (auto intro!: quiet_bind split: option.split)

lemma governance_calm [simp]:
  "calm cfg (api_request_policy_pack_change cfg env rq ws p)" "calm cfg (api_decide_policy_pack_change cfg env rq ws cid p)"
  "calm cfg (api_rollback_policy_pack cfg env rq ws)" "calm cfg (api_promote_policy_pack_canary cfg env rq ws)"
  "calm cfg (api_request_semantic_manifest_change cfg env rq ws p)"
  "calm cfg (api_decide_semantic_manifest_change cfg env rq ws cid p)"
  "calm cfg (api_rollback_semantic_manifest cfg env rq ws)" "calm cfg (api_configure_retention_policy cfg env rq ws p)"
  "calm cfg (api_execute_retention_purge cfg env rq ws p)" "calm cfg (api_create_deletion_request cfg env rq ws p)"
  "calm cfg (api_approve_deletion_request cfg env rq ws did p)" "calm cfg (api_execute_deletion_request cfg env rq ws did p)"
  unfolding api_request_policy_pack_change_def api_decide_policy_pack_change_def api_rollback_policy_pack_def
    api_promote_policy_pack_canary_def api_request_semantic_manifest_change_def api_decide_semantic_manifest_change_def
    api_rollback_semantic_manifest_def api_configure_retention_policy_def api_execute_retention_purge_def
    api_create_deletion_request_def api_approve_deletion_request_def api_execute_deletion_request_def Let_def
  by (auto intro!: calm_bind calm_of_quiet [OF quiet_require_actor] calm_of_quiet [OF quiet_retention(1)]
      calm_of_quiet [OF quiet_retention(2)] calm_of_quiet [OF quiet_retention(3)] calm_of_quiet [OF quiet_retention(4)]
      calm_of_quiet [OF quiet_retention(5)] calm_of_quiet [OF quiet_governance(1)] calm_of_quiet [OF quiet_governance(2)]
      calm_of_quiet [OF quiet_governance(3)] calm_of_quiet [OF quiet_governance(4)] calm_of_quiet [OF quiet_governance(5)]
      calm_of_quiet [OF quiet_governance(6)] calm_of_quiet [OF quiet_governance(7)] split: pyval.split option.split)

lemma governance_reads_calm [simp]:
  "calm cfg (api_list_policy_packs env)" "calm cfg (api_get_effective_policy_pack rq ws)"
  "calm cfg (api_get_policy_pack_canary rq ws)" "calm cfg (api_get_effective_semantic_manifest env rq ws)"
  "calm cfg (api_get_retention_policy rq ws)" "calm cfg (api_get_deletion_request rq ws did)"
  unfolding api_list_policy_packs_def api_get_effective_policy_pack_def api_get_policy_pack_canary_def
    api_get_effective_semantic_manifest_def api_get_retention_policy_def api_get_deletion_request_def
  by (auto intro!: calm_bind calm_of_quiet [OF quiet_require_actor])

end
