(* ===== verification/CpCatalog.thy ===== *)
theory CpCatalog
  imports CpCore Catalog SourceHealth Scheduling Lineage Plugins
begin

text \<open>
  The endpoints of \<open>backend/control_plane/app.py\<close> for workspaces, sources, datasets, catalog
  snapshots, freshness agreements, evidence, runs, schedules and lineage.
\<close>

section \<open>Workspaces\<close>

definition api_list_workspaces :: "reply tx" where
  "api_list_workspaces = tread (\<lambda>d. Reply (PList (map PDict (list_workspaces d))))"

definition api_get_workspace :: "string \<Rightarrow> reply tx" where
  "api_get_workspace workspace_id =
     tread (\<lambda>d. found_or_404 ''Workspace not found.'' [(''workspace_id'', PStr workspace_id)] (get_workspace workspace_id d))"

definition api_create_workspace ::
  "cp_settings \<Rightarrow> cp_env \<Rightarrow> cp_request \<Rightarrow> string \<Rightarrow> string \<Rightarrow> string \<Rightarrow> reply tx" where
  "api_create_workspace cfg env rq name profile security_baseline =
     tbind (require_actor rq platform_admin_roles) (\<lambda>actor.
     tbind (create_workspace env name profile security_baseline) (\<lambda>w.
     answer cfg env rq (ws_id w) actor ''workspace.created'' (workspace_dict w) (PDict (workspace_dict w))))"

section \<open>Sources and datasets\<close>

definition built_in_source_types :: "string list" where
  "built_in_source_types = [''filesystem'', ''s3'', ''database'']"

text \<open>A type of source that is not built in must be a plugin that is allowed and installed.\<close>

definition check_source_type :: "(string \<times> plugin_spec) list res \<Rightarrow> string \<Rightarrow> unit res" where
  "check_source_type plugin_specs source_type =
     (if source_type \<in> set built_in_source_types then Inr ()
      else rbind plugin_specs (\<lambda>specs.
        if dget specs source_type = None
        then Inl (denied [(''reason'', PStr ''plugin_not_allowlisted_or_unavailable''), (''source_type'', PStr source_type)])
        else Inr ()))"

definition source_secret_scope :: "string \<Rightarrow> string \<Rightarrow> string" where
  "source_secret_scope workspace_id source_type = ''workspace/'' @ workspace_id @ ''/source/'' @ source_type"

definition store_credentials ::
  "cp_settings \<Rightarrow> cp_env \<Rightarrow> string \<Rightarrow> string \<Rightarrow> (string \<times> string) list option \<Rightarrow> string option tx" where
  "store_credentials cfg env workspace_id source_type credentials =
     (case credentials of
        None \<Rightarrow> tpure None
      | Some c \<Rightarrow>
          if c = [] then tpure None
          else tbind (put_secret env (cs_vault cfg) (cs_secrets cfg) (source_secret_scope workspace_id source_type)
                 ''credentials_bundle'' (json_dumps (PDict (map (\<lambda>(k, v). (k, PStr v)) c)))) (\<lambda>reference.
               tpure (Some reference)))"

definition api_create_source ::
  "cp_settings \<Rightarrow> cp_env \<Rightarrow> (string \<times> plugin_spec) list res \<Rightarrow> cp_request \<Rightarrow> string \<Rightarrow> string \<Rightarrow> pydict \<Rightarrow> string \<Rightarrow>
   (string \<times> string) list option \<Rightarrow> reply tx" where
  "api_create_source cfg env plugin_specs rq workspace_id source_type scope display_name credentials =
     tbind (require_actor rq steward_or_admin_roles) (\<lambda>actor.
     tbind (tres (check_source_type plugin_specs source_type)) (\<lambda>_.
     tbind (store_credentials cfg env workspace_id source_type credentials) (\<lambda>credentials_ref.
     tbind (create_source env workspace_id source_type scope display_name credentials_ref) (\<lambda>s.
     answer cfg env rq workspace_id actor ''source.created'' (source_dict s) (PDict (source_dict s))))))"

definition api_list_sources :: "string \<Rightarrow> reply tx" where
  "api_list_sources workspace_id = tread (\<lambda>d. Reply (PList (map PDict (list_sources workspace_id d))))"

definition patch_credentials ::
  "cp_settings \<Rightarrow> cp_env \<Rightarrow> string \<Rightarrow> string \<Rightarrow> pydict \<Rightarrow> pydict tx" where
  "patch_credentials cfg env workspace_id source_id payload =
     (let patch = ddel payload ''credentials''
      in case dget payload ''credentials'' of
           Some (PDict credentials) \<Rightarrow>
             if credentials = [] then tpure patch
             else tbind (put_secret env (cs_vault cfg) (cs_secrets cfg)
                    (source_secret_scope workspace_id (str_of patch ''source_type'' ''custom''))
                    (''credentials_bundle_'' @ source_id)
                    (json_dumps (PDict (map (\<lambda>(k, v). (k, PStr (py_str v))) credentials)))) (\<lambda>reference.
                  tpure (dset patch ''credentials_ref'' (PStr reference)))
         | _ \<Rightarrow> tpure patch)"

definition api_update_source ::
  "cp_settings \<Rightarrow> cp_env \<Rightarrow> cp_request \<Rightarrow> string \<Rightarrow> string \<Rightarrow> pydict \<Rightarrow> reply tx" where
  "api_update_source cfg env rq workspace_id source_id payload =
     tbind (require_actor rq steward_or_admin_roles) (\<lambda>actor.
     tbind (patch_credentials cfg env workspace_id source_id payload) (\<lambda>patch.
     tbind (update_source workspace_id source_id patch) (\<lambda>found.
     case found of
       None \<Rightarrow> tpure (NotFoundReply ''Source not found.''
         [(''workspace_id'', PStr workspace_id), (''source_id'', PStr source_id)])
     | Some s \<Rightarrow> answer cfg env rq workspace_id actor ''source.updated'' (source_dict s) (PDict (source_dict s)))))"

definition api_list_datasets :: "string \<Rightarrow> reply tx" where
  "api_list_datasets workspace_id = tread (\<lambda>d. Reply (PList (map PDict (list_datasets workspace_id d))))"

definition api_get_dataset :: "string \<Rightarrow> string \<Rightarrow> reply tx" where
  "api_get_dataset workspace_id dataset_id =
     tread (\<lambda>d. found_or_404 ''Dataset not found.''
       [(''workspace_id'', PStr workspace_id), (''dataset_id'', PStr dataset_id)] (get_dataset workspace_id dataset_id d))"

section \<open>Catalog snapshots\<close>

definition workspace_not_found :: "string \<Rightarrow> reply" where
  "workspace_not_found workspace_id = NotFoundReply ''Workspace not found.'' [(''workspace_id'', PStr workspace_id)]"

definition api_export_catalog :: "cp_request \<Rightarrow> string \<Rightarrow> reply tx" where
  "api_export_catalog rq workspace_id =
     tbind (require_actor rq analyst_or_steward_or_admin_roles) (\<lambda>_.
     tbind (ttry (tbind (tread (export_catalog_snapshot workspace_id)) tres)) (\<lambda>out.
     tpure (case out of Inl _ \<Rightarrow> workspace_not_found workspace_id | Inr snapshot \<Rightarrow> Reply (PDict snapshot))))"

definition import_counts :: "nat \<times> nat \<Rightarrow> pydict" where
  "import_counts n = [(''imported_sources'', PInt (int (fst n))), (''imported_datasets'', PInt (int (snd n)))]"

definition snapshot_arg :: "pydict \<Rightarrow> pydict" where
  "snapshot_arg payload = as_dict (dget_or payload ''snapshot'' (PDict payload))"

definition api_import_catalog :: "cp_settings \<Rightarrow> cp_env \<Rightarrow> cp_request \<Rightarrow> string \<Rightarrow> pydict \<Rightarrow> reply tx" where
  "api_import_catalog cfg env rq workspace_id payload =
     tbind (require_actor rq steward_or_admin_roles) (\<lambda>actor.
     tbind (ttry (import_catalog_snapshot env workspace_id (snapshot_arg payload))) (\<lambda>out.
     case out of
       Inl reason \<Rightarrow>
         if reason = ''workspace_not_found'' then tpure (workspace_not_found workspace_id)
         else traise (denied [(''reason'', PStr reason)])
     | Inr n \<Rightarrow> answer cfg env rq workspace_id actor ''catalog.imported'' (import_counts n)
                  (PDict ((''workspace_id'', PStr workspace_id) # import_counts n))))"

section \<open>Freshness agreements\<close>

definition api_list_source_slas :: "cp_request \<Rightarrow> string \<Rightarrow> reply tx" where
  "api_list_source_slas rq workspace_id =
     tbind (require_actor rq analyst_or_steward_or_admin_roles) (\<lambda>_.
     tread (\<lambda>d. Reply (PList (map PDict (list_source_slas workspace_id d)))))"

definition api_configure_source_sla :: "cp_settings \<Rightarrow> cp_env \<Rightarrow> cp_request \<Rightarrow> string \<Rightarrow> pydict \<Rightarrow> reply tx" where
  "api_configure_source_sla cfg env rq workspace_id payload =
     tbind (require_actor rq steward_or_admin_roles) (\<lambda>actor.
     let dataset_id = strip (str_of payload ''dataset_id'' [])
     in tbind (tres (int_arg (dget_or payload ''freshness_seconds'' (PInt 86400)) 86400)) (\<lambda>freshness_seconds.
        if dataset_id = [] then traise (denied [(''reason'', PStr ''missing_dataset_id'')])
        else tbind (ttry (configure_source_sla env workspace_id dataset_id freshness_seconds
                 (bool_arg payload ''enabled'' True) (actor_id actor))) (\<lambda>out.
             case out of
               Inl reason \<Rightarrow> traise (denied [(''reason'', PStr reason)])
             | Inr sla \<Rightarrow> answer cfg env rq workspace_id actor ''source_sla.configured'' sla (PDict sla))))"

definition api_evaluate_source_slas :: "cp_settings \<Rightarrow> cp_env \<Rightarrow> cp_request \<Rightarrow> string \<Rightarrow> reply tx" where
  "api_evaluate_source_slas cfg env rq workspace_id =
     tbind (require_actor rq steward_or_admin_roles) (\<lambda>actor.
     tbind (evaluate_source_slas env workspace_id None) (\<lambda>result.
     answer cfg env rq workspace_id actor ''source_sla.evaluated'' result (PDict result)))"

section \<open>Evidence\<close>

definition api_get_evidence_bundle :: "cp_settings \<Rightarrow> cp_env \<Rightarrow> cp_request \<Rightarrow> string \<Rightarrow> string \<Rightarrow> reply tx" where
  "api_get_evidence_bundle cfg env rq workspace_id evidence_id =
     tbind (require_actor rq analyst_or_steward_or_admin_roles) (\<lambda>actor.
     tbind (tbind (tsee (\<lambda>s. load_evidence_bundle (ce_evidence env) workspace_id evidence_id (se_evidence s))) tres) (\<lambda>bundle.
     answer cfg env rq workspace_id actor ''evidence.read''
       [(''workspace_id'', PStr workspace_id), (''evidence_id'', PStr evidence_id)] (PDict bundle)))"

section \<open>Runs and schedules\<close>

definition api_create_run :: "cp_settings \<Rightarrow> cp_env \<Rightarrow> cp_request \<Rightarrow> string \<Rightarrow> string \<Rightarrow> reply tx" where
  "api_create_run cfg env rq workspace_id kind =
     tbind (require_actor rq steward_or_admin_roles) (\<lambda>actor.
     tbind (create_run env workspace_id kind) (\<lambda>run.
     answer cfg env rq workspace_id actor ''run.created'' (run_dict run) (PDict (run_dict run))))"

definition run_not_found :: "string \<Rightarrow> string \<Rightarrow> reply" where
  "run_not_found workspace_id wanted =
     NotFoundReply ''Run not found.'' [(''workspace_id'', PStr workspace_id), (''run_id'', PStr wanted)]"

definition api_get_run :: "string \<Rightarrow> string \<Rightarrow> reply tx" where
  "api_get_run workspace_id wanted =
     tread (\<lambda>d. case get_run workspace_id wanted d of None \<Rightarrow> run_not_found workspace_id wanted | Some r \<Rightarrow> Reply (PDict r))"

definition api_list_run_steps :: "string \<Rightarrow> string \<Rightarrow> reply tx" where
  "api_list_run_steps workspace_id wanted =
     tread (\<lambda>d. case get_run workspace_id wanted d of
        None \<Rightarrow> run_not_found workspace_id wanted
      | Some _ \<Rightarrow> Reply (PList (map PDict (list_run_steps workspace_id wanted d))))"

definition api_list_run_schedules :: "cp_request \<Rightarrow> string \<Rightarrow> reply tx" where
  "api_list_run_schedules rq workspace_id =
     tbind (require_actor rq analyst_or_steward_or_admin_roles) (\<lambda>_.
     tread (\<lambda>d. Reply (PList (map PDict (list_run_schedules workspace_id d)))))"

definition api_create_run_schedule :: "cp_settings \<Rightarrow> cp_env \<Rightarrow> cp_request \<Rightarrow> string \<Rightarrow> pydict \<Rightarrow> reply tx" where
  "api_create_run_schedule cfg env rq workspace_id payload =
     tbind (require_actor rq steward_or_admin_roles) (\<lambda>actor.
     let kind = strip (str_of payload ''run_type'' ''discover'');
         schedule_expression = strip (str_of payload ''schedule_expression'' [])
     in if kind = [] \<or> schedule_expression = [] then traise (denied [(''reason'', PStr ''missing_schedule_fields'')])
        else tbind (ttry (create_run_schedule env workspace_id kind schedule_expression
                 (bool_arg payload ''enabled'' True) (actor_id actor))) (\<lambda>out.
             case out of
               Inl reason \<Rightarrow> traise (denied [(''reason'', PStr reason)])
             | Inr schedule \<Rightarrow> answer cfg env rq workspace_id actor ''run.schedule_created'' schedule (PDict schedule)))"

section \<open>Lineage\<close>

definition api_derive_sql_lineage :: "cp_request \<Rightarrow> string \<Rightarrow> pydict \<Rightarrow> reply tx" where
  "api_derive_sql_lineage rq workspace_id payload =
     tbind (require_actor rq analyst_or_steward_or_admin_roles) (\<lambda>_.
     let sql_text = strip (str_of payload ''sql_text'' [])
     in if sql_text = [] then traise (denied [(''reason'', PStr ''missing_sql_text'')])
        else let lineage = derive_column_lineage sql_text
             in tpure (Reply (PDict [(''workspace_id'', PStr workspace_id), (''lineage_version'', PStr ''v1''),
                  (''lineage'', PList (map PDict lineage)), (''lineage_available'', PBool (lineage \<noteq> []))])))"

section \<open>The services leave the audit trail alone\<close>

lemma tsame_fold: "(\<And>a x. tsame g (f a x)) \<Longrightarrow> tsame g (tfold f a xs)"
  by (induction xs arbitrary: a) (auto intro: tsame_bind)

lemma repository_events:
  "tsame trail (create_workspace env n pr sec)" "tsame trail (create_source env ws ty sc dn cr)"
  "tsame trail (update_source ws sid patch)" "tsame trail (create_run env ws kind)"
  unfolding create_workspace_def create_source_def update_source_def create_run_def Let_def
  by (auto intro!: tsame_bind tsame_change tsame_modify simp: rbind_eq_Inr_iff split: option.split)

lemma import_events:
  "tsame trail (import_source env ws acc raw)" "tsame trail (import_dataset env ws m n raw)"
  "tsame trail (import_catalog_snapshot env ws snap)"
proof -
  show s: "tsame trail (import_source env ws acc raw)" for acc raw
    unfolding import_source_def Let_def add_source_def
    by (auto intro!: tsame_bind tsame_change simp: rbind_eq_Inr_iff split: pyval.split option.split)
  show d: "tsame trail (import_dataset env ws m n raw)" for m n raw
    unfolding import_dataset_def Let_def add_dataset_def
    by (auto intro!: tsame_bind tsame_change simp: rbind_eq_Inr_iff split: pyval.split option.split)
  show "tsame trail (import_catalog_snapshot env ws snap)"
    unfolding import_catalog_snapshot_def
    by (auto intro!: tsame_bind tsame_fold s d)
qed

lemma sla_events:
  "tsame trail (configure_source_sla env ws did secs en actor)"
  "tsame trail (report_violation env ws v)" "tsame trail (evaluate_loop env ws now slas)"
  "tsame trail (evaluate_source_slas env ws now_epoch)"
proof -
  show "tsame trail (configure_source_sla env ws did secs en actor)"
    unfolding configure_source_sla_def Let_def by (auto intro!: tsame_bind split: option.split)
  show r: "tsame trail (report_violation env ws v)" for v
    unfolding report_violation_def by (auto intro!: tsame_bind)
  show l: "tsame trail (evaluate_loop env ws now slas)" for now slas
    by (induction slas) (auto simp del: trail_def intro!: tsame_bind r split: option.split)
  show "tsame trail (evaluate_source_slas env ws now_epoch)"
    unfolding evaluate_source_slas_def Let_def by (auto intro!: tsame_bind l)
qed

lemma schedule_events: "tsame trail (create_run_schedule env ws kind ex en actor)"
  unfolding create_run_schedule_def Let_def by (auto intro!: tsame_bind)

lemma update_source_none: "none_same (update_source ws sid patch)"
  unfolding none_same_def update_source_def by (auto simp: tbind_Inr_iff Let_def split: option.split_asm if_splits)

lemma credentials_db [simp]:
  "db_same (store_credentials cfg env ws ty c)" "db_same (patch_credentials cfg env ws sid p)"
  unfolding store_credentials_def patch_credentials_def Let_def
  by (auto intro!: db_same_bind split: option.split pyval.split)

text \<open>The import reports an unknown workspace before it has changed anything.\<close>

lemma tfold_error:
  "tfold f a xs s = (Inl e, s') \<Longrightarrow> \<exists>a x s1. f a x s1 = (Inl e, s')"
  by (induction xs arbitrary: a s) (auto simp: tbind_def tpure_def split: prod.split_asm sum.split_asm)

lemma import_item_errors:
  "import_source env ws acc raw s = (Inl (ValueError m), s') \<Longrightarrow> False"
  "import_dataset env ws mp n raw s = (Inl (ValueError m), s') \<Longrightarrow> m = ''int''"
proof -
  have int: "imported_dataset ws i src item = Inl (ValueError m) \<Longrightarrow> m = ''int''" for i src item
    unfolding imported_dataset_def
    by (cases "dget_or item ''schema_version'' (PInt 1)" rule: py_int.cases) (auto split: if_splits option.split_asm)
  show "import_source env ws acc raw s = (Inl (ValueError m), s') \<Longrightarrow> False"
    by (auto simp: import_source_def add_source_def Let_def tbind_def tread_def tpure_def issue_id_def tchange_def rbind_def
        tbl_add_def split: pyval.split_asm option.split_asm if_splits sum.split_asm prod.split_asm)
  show "import_dataset env ws mp n raw s = (Inl (ValueError m), s') \<Longrightarrow> m = ''int''"
    by (auto simp: import_dataset_def add_dataset_def Let_def tbind_def tread_def tpure_def issue_id_def tchange_def tres_def
        rbind_def tbl_add_def dest!: int split: pyval.split_asm option.split_asm if_splits sum.split_asm prod.split_asm)
qed

lemma import_unknown_workspace:
  assumes "import_catalog_snapshot env ws snap s = (Inl (ValueError ''workspace_not_found''), s')"
  shows "se_db s' = se_db s"
proof -
  have "False" if "tfold (import_source env ws) acc xs s1 = (Inl (ValueError m), s2)" for acc xs s1 s2 m
    using tfold_error [OF that] import_item_errors(1) by blast
  moreover have "m = ''int''" if "tfold (import_dataset env ws mp) n xs s1 = (Inl (ValueError m), s2)" for mp n xs s1 s2 m
    using tfold_error [OF that] import_item_errors(2) by blast
  ultimately show ?thesis using assms
    by (fastforce simp: import_catalog_snapshot_def tbind_def tread_def tpure_def traise_def
        split: if_splits sum.split_asm prod.split_asm)
qed

section \<open>Every change by a catalog endpoint is audited\<close>

lemma may_bind_try:
  assumes "tsame trail m" "\<And>x. must_audit cfg rq actor ty (f (Inr x))"
    and "\<And>reason s s'. m s = (Inl (ValueError reason), s') \<Longrightarrow>
      (se_db s' = se_db s \<and> db_same (f (Inl reason))) \<or> (\<exists>e. f (Inl reason) = traise e)"
  shows "may_change cfg rq actor ty (tbind (ttry m) f)"
proof (rule may_changeI)
  fix s r s'
  assume "tbind (ttry m) f s = (Inr r, s')"
  then obtain out s1 where m: "ttry m s = (Inr out, s1)" and f: "f out s1 = (Inr r, s')" by (auto simp: tbind_Inr_iff)
  from m show "se_db s' = se_db s \<or> left_event cfg rq actor ty (se_db s) (se_db s')"
  proof (cases rule: ttry_cases)
    case (failed reason)
    with assms(3) [OF failed(2)] f db_sameD [of "f (Inl reason)" s1 "Inr r" s'] show ?thesis by auto
  next
    case (done_ x)
    with f have "f (Inr x) s1 = (Inr r, s')" by simp
    from left_event_from [OF must_auditD [OF assms(2) this] tsameD [OF assms(1) done_(2)]] show ?thesis ..
  qed
qed

lemma traise_raises [simp]: "\<exists>e. traise x = traise e"
  by blast

lemma update_source_audited:
  "audited cfg rq steward_or_admin_roles ''source.updated'' (api_update_source cfg env rq ws sid p)"
  unfolding api_update_source_def
  by (auto intro!: audited_require may_bind [OF credentials_db(2)] may_bind_option repository_events update_source_none
      must_answer)

lemma import_audited:
  "audited cfg rq steward_or_admin_roles ''catalog.imported'' (api_import_catalog cfg env rq ws p)"
  unfolding api_import_catalog_def
  by (auto intro!: audited_require may_bind_try import_events must_answer
      dest: import_unknown_workspace split: if_splits)

lemma catalog_tried:
  "audited cfg rq steward_or_admin_roles ''source_sla.configured'' (api_configure_source_sla cfg env rq ws p)"
  "audited cfg rq steward_or_admin_roles ''run.schedule_created'' (api_create_run_schedule cfg env rq ws p)"
  unfolding api_configure_source_sla_def api_create_run_schedule_def Let_def
  by (auto intro!: audited_require may_bind [OF db_same_simps(3)] may_bind_try sla_events schedule_events must_answer
      disjI2 [OF traise_raises])

lemma catalog_changed:
  "audited cfg rq platform_admin_roles ''workspace.created'' (api_create_workspace cfg env rq n pr sec)"
  "audited cfg rq steward_or_admin_roles ''source.created'' (api_create_source cfg env specs rq ws ty sc dn cr)"
  "audited cfg rq steward_or_admin_roles ''source_sla.evaluated'' (api_evaluate_source_slas cfg env rq ws)"
  "audited cfg rq analyst_or_steward_or_admin_roles ''evidence.read'' (api_get_evidence_bundle cfg env rq ws ev)"
  "audited cfg rq steward_or_admin_roles ''run.created'' (api_create_run cfg env rq ws kind)"
  unfolding api_create_workspace_def api_create_source_def api_evaluate_source_slas_def api_get_evidence_bundle_def
    api_create_run_def
  by (auto intro!: audited_require may_of_must must_bind must_answer repository_events sla_events
      tsame_db_same [OF db_same_bind] tsame_db_same [OF credentials_db(1)])

lemma catalog_reads:
  "db_same api_list_workspaces" "db_same (api_get_workspace ws)" "db_same (api_list_sources ws)"
  "db_same (api_list_datasets ws)" "db_same (api_get_dataset ws did)" "db_same (api_export_catalog rq ws)"
  "db_same (api_list_source_slas rq ws)" "db_same (api_get_run ws rid)" "db_same (api_list_run_steps ws rid)"
  "db_same (api_list_run_schedules rq ws)" "db_same (api_derive_sql_lineage rq ws p)"
  unfolding api_list_workspaces_def api_get_workspace_def api_list_sources_def api_list_datasets_def api_get_dataset_def
    api_export_catalog_def api_list_source_slas_def api_get_run_def api_list_run_steps_def api_list_run_schedules_def
    api_derive_sql_lineage_def Let_def
  by (auto intro!: db_same_bind ttry_db_same)

section \<open>The catalog touches neither the gold pointers nor the sink\<close>

lemma quiet_fold: "(\<And>a x. quiet (f a x)) \<Longrightarrow> quiet (tfold f a xs)"
  by (induction xs arbitrary: a) (auto intro: quiet_bind)

lemma quiet_import [simp]: "quiet (import_catalog_snapshot env ws snap)"
proof -
  have "quiet (import_source env ws acc raw)" for acc raw
    unfolding import_source_def Let_def add_source_def by (auto intro!: quiet_bind split: pyval.split option.split)
  moreover have "quiet (import_dataset env ws m n raw)" for m n raw
    unfolding import_dataset_def Let_def add_dataset_def by (auto intro!: quiet_bind split: pyval.split option.split)
  ultimately show ?thesis unfolding import_catalog_snapshot_def by (auto intro!: quiet_bind quiet_fold)
qed

lemma quiet_sla [simp]: "quiet (configure_source_sla env ws did secs en actor)" "quiet (evaluate_source_slas env ws now_epoch)"
proof -
  show "quiet (configure_source_sla env ws did secs en actor)"
    unfolding configure_source_sla_def Let_def by (auto intro!: quiet_bind split: option.split)
  have r: "quiet (report_violation env ws v)" for v
    unfolding report_violation_def by (auto intro!: quiet_bind)
  have l: "quiet (evaluate_loop env ws now slas)" for now slas
    by (induction slas) (auto intro!: quiet_bind r split: option.split)
  show "quiet (evaluate_source_slas env ws now_epoch)"
    unfolding evaluate_source_slas_def Let_def by (auto intro!: quiet_bind l)
qed

lemma quiet_catalog [simp]:
  "quiet (create_run_schedule env ws kind ex en actor)" "quiet (store_credentials cfg env ws ty c)"
  "quiet (patch_credentials cfg env ws sid p)"
  unfolding create_run_schedule_def store_credentials_def patch_credentials_def Let_def
  by (auto intro!: quiet_bind split: option.split pyval.split)

lemmas catalog_services_calm = calm_of_quiet [OF quiet_require_actor] calm_of_quiet [OF quiet_try [OF quiet_import]]
  calm_of_quiet [OF quiet_try [OF quiet_sla(1)]] calm_of_quiet [OF quiet_sla(2)] calm_of_quiet [OF quiet_try [OF quiet_catalog(1)]]
  calm_of_quiet [OF quiet_catalog(2)] calm_of_quiet [OF quiet_catalog(3)] calm_of_quiet [OF quiet_rows(10)]
  calm_of_quiet [OF quiet_rows(11)] calm_of_quiet [OF quiet_rows(12)] calm_of_quiet [OF quiet_rows(13)]
  calm_of_quiet [OF quiet_simps(9)] calm_of_quiet [OF quiet_try]

lemma catalog_calm [simp]:
  "calm cfg (api_create_workspace cfg env rq n pr sec)" "calm cfg (api_create_source cfg env specs rq ws ty sc dn cr)"
  "calm cfg (api_update_source cfg env rq ws sid p)" "calm cfg (api_import_catalog cfg env rq ws p)"
  "calm cfg (api_configure_source_sla cfg env rq ws p)" "calm cfg (api_evaluate_source_slas cfg env rq ws)"
  "calm cfg (api_get_evidence_bundle cfg env rq ws ev)" "calm cfg (api_create_run cfg env rq ws kind)"
  "calm cfg (api_create_run_schedule cfg env rq ws p)"
  unfolding api_create_workspace_def api_create_source_def api_update_source_def api_import_catalog_def
    api_configure_source_sla_def api_evaluate_source_slas_def api_get_evidence_bundle_def api_create_run_def
    api_create_run_schedule_def Let_def
  by (auto intro!: calm_bind catalog_services_calm quiet_bind split: option.split sum.split)

lemma catalog_reads_calm [simp]:
  "calm cfg api_list_workspaces" "calm cfg (api_get_workspace ws)" "calm cfg (api_list_sources ws)"
  "calm cfg (api_list_datasets ws)" "calm cfg (api_get_dataset ws did)" "calm cfg (api_export_catalog rq ws)"
  "calm cfg (api_list_source_slas rq ws)" "calm cfg (api_get_run ws rid)" "calm cfg (api_list_run_steps ws rid)"
  "calm cfg (api_list_run_schedules rq ws)" "calm cfg (api_derive_sql_lineage rq ws p)"
  unfolding api_list_workspaces_def api_get_workspace_def api_list_sources_def api_list_datasets_def api_get_dataset_def
    api_export_catalog_def api_list_source_slas_def api_get_run_def api_list_run_steps_def api_list_run_schedules_def
    api_derive_sql_lineage_def Let_def
  by (auto intro!: calm_bind catalog_services_calm quiet_bind)

end
