(* ===== verification/CpPublish.thy ===== *)
theory CpPublish
  imports CpCore
begin

text \<open>
  The endpoints of \<open>backend/control_plane/app.py\<close> for the review queue, proposals, the demo
  workspace, recommendations, and the publication and rollback of builds.
\<close>

section \<open>The review queue\<close>

definition api_list_review_tasks :: "string \<Rightarrow> reply tx" where
  "api_list_review_tasks workspace_id = tread (\<lambda>d. Reply (PList (map PDict (list_review_tasks d workspace_id))))"

definition counts_dict :: "(string \<times> nat) list \<Rightarrow> pydict" where
  "counts_dict m = map (\<lambda>(k, n). (k, PInt (int n))) m"

definition summary_dict :: "string \<Rightarrow> review_summary \<Rightarrow> pydict" where
  "summary_dict workspace_id summary =
     [(''workspace_id'', PStr workspace_id), (''total_tasks'', PInt (int (rs_total summary))),
      (''blocking_open_tasks'', PInt (int (rs_blocking_open summary))),
      (''by_status'', PDict (counts_dict (rs_by_status summary))),
      (''by_priority'', PDict (counts_dict (rs_by_priority summary)))]"

definition api_review_queue_summary :: "string \<Rightarrow> reply tx" where
  "api_review_queue_summary workspace_id =
     tread (\<lambda>d. Reply (PDict (summary_dict workspace_id (get_review_queue_summary d workspace_id))))"

definition approval_dict :: "review_approval \<Rightarrow> pydict" where
  "approval_dict a = [(''approval_id'', PStr (ap_id a)), (''task_id'', PStr (ap_task a)),
     (''actor_id'', PStr (ap_actor a)), (''decision'', PStr (ap_decision a)), (''decision_reason'', PStr (ap_reason a))]"

definition api_decide_review_task ::
  "cp_settings \<Rightarrow> cp_env \<Rightarrow> cp_request \<Rightarrow> string \<Rightarrow> string \<Rightarrow> pydict \<Rightarrow> reply tx" where
  "api_decide_review_task cfg env rq workspace_id task_id payload =
     tbind (require_actor rq steward_or_admin_roles) (\<lambda>actor.
     tbind (decide_review_task env workspace_id task_id (actor_id actor)
         (str_of payload ''decision'' ''defer'') (str_of payload ''decision_reason'' [])) (\<lambda>found.
     case found of
       None \<Rightarrow> tpure (NotFoundReply ''Review task not found.''
         [(''workspace_id'', PStr workspace_id), (''task_id'', PStr task_id)])
     | Some a \<Rightarrow> answer cfg env rq workspace_id actor ''review.decision'' (approval_dict a) (PDict (approval_dict a))))"

section \<open>Proposals\<close>

fun confidence_arg :: "cp_settings \<Rightarrow> pyval \<Rightarrow> pyval res" where
  "confidence_arg cfg PNone = Inr (PFloat ''0.5'' (Some 0))"
| "confidence_arg cfg (PList _) = Inr (PFloat ''0.5'' (Some 0))"
| "confidence_arg cfg (PDict _) = Inr (PFloat ''0.5'' (Some 0))"
| "confidence_arg cfg v = cs_float cfg v"

definition api_create_proposal :: "cp_settings \<Rightarrow> cp_env \<Rightarrow> cp_request \<Rightarrow> string \<Rightarrow> pydict \<Rightarrow> reply tx" where
  "api_create_proposal cfg env rq workspace_id payload =
     tbind (require_actor rq steward_or_admin_roles) (\<lambda>actor.
     tbind (tres (confidence_arg cfg (dget_or payload ''confidence'' (PFloat ''0.5'' (Some 0))))) (\<lambda>confidence.
     tbind (create_proposal env workspace_id (str_of payload ''proposal_type'' ''schema_proposal'')
         (str_of payload ''evidence_bundle_uri'' ''evidence://stub'') confidence) (\<lambda>proposal.
     tbind (create_review_task env workspace_id (pr_id proposal)
         (str_of payload ''priority'' ''quality_critical'') (bool_arg payload ''blocking'' False)) (\<lambda>task.
     let result = [(''proposal'', PDict (proposal_dict proposal)), (''task'', PDict (task_dict task))]
     in answer cfg env rq workspace_id actor ''proposal.created'' result (PDict result)))))"

section \<open>The demo workspace\<close>

definition path_parent :: "py_path \<Rightarrow> py_path" where
  "path_parent p = (fst p, butlast (snd p))"

definition demo_csv_text :: string where
  "demo_csv_text = ''invoice_id,customer,region,amount,email'' @ CHR 0x0A #
     ''1001,ACME,eu,1200.5,alice@acme.example'' @ CHR 0x0A # ''1002,Beta,us,900.0,bob@beta.example'' @ [CHR 0x0A]"

definition write_if_missing :: "string \<Rightarrow> string \<Rightarrow> unit tx" where
  "write_if_missing path content s =
     (Inr (), if dget (se_files s) path = None then s\<lparr>se_files := dset (se_files s) path content\<rparr> else s)"

definition demo_payload :: "workspace \<Rightarrow> catalog_source \<Rightarrow> run_record \<Rightarrow> review_task \<Rightarrow> string \<Rightarrow> pydict" where
  "demo_payload w source run task demo_path =
     [(''workspace'', PDict (workspace_dict w)), (''source'', PDict (source_dict source)),
      (''run'', PDict (run_dict run)), (''review_task'', PDict (task_dict task)),
      (''demo_data_path'', PStr demo_path),
      (''first_query_example'', PDict [(''endpoint'', PStr ''/api/v1/gateway/query''),
         (''authorization'', PStr ''Bearer local-analyst-token''),
         (''payload'', PDict [(''workspace_id'', PStr (ws_id w)),
            (''query'', PDict [(''language'', PStr ''sql''), (''text'', PStr ''select 1 as one'')]),
            (''resource_attributes'', PDict [(''dataset_id'', PStr ''dataset-1'')])])]),
      (''next_steps'', PList [PStr ''Review and approve the demo review task.'',
         PStr ''Run a governed query through the gateway.'',
         PStr ''Generate a recommendation report for your workspace.''])]"

definition api_demo_bootstrap :: "cp_settings \<Rightarrow> cp_env \<Rightarrow> cp_request \<Rightarrow> pydict \<Rightarrow> reply tx" where
  "api_demo_bootstrap cfg env rq payload =
     tbind (require_actor rq steward_or_admin_roles) (\<lambda>actor.
     tbind (create_workspace env (str_of payload ''workspace_name'' ''Demo Workspace'')
         (str_of payload ''profile'' ''starter'') (str_of payload ''security_baseline'' ''standard'')) (\<lambda>w.
     let demo_root = path_join (path_parent (path_of (cs_storage_root cfg))) ''demo_data''
     in tbind (write_if_missing (as_posix (path_join demo_root ''invoices_demo.csv'')) demo_csv_text) (\<lambda>_.
        tbind (create_source env (ws_id w) ''filesystem''
            [(''root_path'', PStr (as_posix demo_root)), (''include_globs'', PList [PStr ''**/*.csv''])]
            ''Demo Files'' None) (\<lambda>source.
        tbind (create_run env (ws_id w) ''discover'') (\<lambda>run.
        tbind (create_proposal env (ws_id w) ''pii_tag_proposal'' ''evidence://demo/onboarding/pii''
            (PFloat ''0.68'' (Some 0))) (\<lambda>proposal.
        tbind (create_review_task env (ws_id w) (pr_id proposal) ''security_critical'' True) (\<lambda>task.
        let result = demo_payload w source run task (as_posix demo_root)
        in answer cfg env rq (ws_id w) actor ''onboarding.demo_bootstrap'' result (PDict result))))))))"

section \<open>Recommendations\<close>

text \<open>
  \<open>recommend\<close> is the report of the decision engine on an intent. A report is not stored; the
  endpoint that reads one always answers 404.
\<close>

definition api_create_recommendation ::
  "cp_env \<Rightarrow> (pydict \<Rightarrow> pydict res) \<Rightarrow> cp_request \<Rightarrow> string \<Rightarrow> pydict \<Rightarrow> reply tx" where
  "api_create_recommendation env recommend rq workspace_id intent =
     tbind (require_actor rq analyst_or_steward_or_admin_roles) (\<lambda>_.
     tbind (tres (recommend intent)) (\<lambda>report.
     tbind (issue_id env) (\<lambda>report_id.
     tpure (Reply (PDict ([(''report_id'', PStr report_id), (''workspace_id'', PStr workspace_id)] @
       map (\<lambda>k. (k, dget_or report k PNone)) [''ranked_templates'', ''hard_constraint_gates'', ''confidence'',
         ''missing_evidence'', ''approval_required'', ''approval_reasons''] @ [(''intent'', PDict intent)]))))))"

definition api_get_recommendation :: "string \<Rightarrow> string \<Rightarrow> reply tx" where
  "api_get_recommendation workspace_id report_id =
     tpure (NotFoundReply ''Recommendation report not found.''
       [(''workspace_id'', PStr workspace_id), (''report_id'', PStr report_id)])"

section \<open>Publication\<close>

text \<open>An operation on the gold pointers of the session.\<close>

definition tgold :: "(gold_store \<Rightarrow> 'a res \<times> gold_store) \<Rightarrow> 'a tx" where
  "tgold f s = (case f (se_gold s) of (r, g) \<Rightarrow> (r, s\<lparr>se_gold := g\<rparr>))"

definition failure_proposal :: "string \<Rightarrow> string \<Rightarrow> db \<Rightarrow> review_proposal option" where
  "failure_proposal workspace_id evidence_bundle_uri d =
     tbl_first (\<lambda>p. pr_workspace p = workspace_id \<and> pr_type p = ''contract_failure_proposal'' \<and>
       pr_evidence_uri p = evidence_bundle_uri) (proposals d)"

definition failure_task :: "string \<Rightarrow> string \<Rightarrow> db \<Rightarrow> review_task option" where
  "failure_task workspace_id proposal_id d =
     tbl_first (\<lambda>t. tk_workspace t = workspace_id \<and> tk_subject t = proposal_id \<and>
       tk_priority t = ''quality_critical'' \<and> tk_blocking t \<and> is_unresolved t) (tasks d)"

definition ensure_contract_failure_review_task :: "cp_env \<Rightarrow> string \<Rightarrow> string \<Rightarrow> pydict list \<Rightarrow> pydict tx" where
  "ensure_contract_failure_review_task env workspace_id build_id failures =
     tbind (store_bundle env workspace_id ''contract_failure''
         [(''workspace_id'', PStr workspace_id), (''build_id'', PStr build_id), (''failures'', PList (map PDict failures))])
       (\<lambda>stored.
     tbind (tread (failure_proposal workspace_id (sb_uri stored))) (\<lambda>proposal_row.
     tbind (case proposal_row of
          None \<Rightarrow> tbind (create_proposal env workspace_id ''contract_failure_proposal'' (sb_uri stored) (PFloat ''1.0'' (Some 1)))
                    (\<lambda>p. tpure (pr_id p))
        | Some p \<Rightarrow> tpure (pr_id p)) (\<lambda>proposal_id.
     tbind (tread (failure_task workspace_id proposal_id)) (\<lambda>existing_task.
     tbind (case existing_task of
          None \<Rightarrow> tbind (create_review_task env workspace_id proposal_id ''quality_critical'' True) (\<lambda>t. tpure (tk_id t))
        | Some t \<Rightarrow> tpure (tk_id t)) (\<lambda>task_id.
     tpure [(''proposal_id'', PStr proposal_id), (''task_id'', PStr task_id)])))))"

definition contract_verdict :: "contract_report option \<Rightarrow> bool \<times> pydict list" where
  "contract_verdict report =
     (case report of
        None \<Rightarrow> (False, [[(''reason'', PStr ''contract_report_missing'')]])
      | Some r \<Rightarrow> (ct_passed r, ct_failures r))"

definition publish_pointer :: "bool \<Rightarrow> string \<Rightarrow> string \<Rightarrow> pydict \<Rightarrow> pydict option tx" where
  "publish_pointer allowed workspace_id build_id payload =
     (if allowed
      then tbind (tgold (publish_gold_pointer workspace_id build_id (str_of payload ''snapshot_id'' build_id)
               (str_of payload ''model_name'' ''default_model''))) (\<lambda>p. tpure (Some p))
      else tbind (tsee (\<lambda>s. load_latest_gold_pointer (se_gold s) workspace_id)) tres)"

definition publish_result ::
  "string \<Rightarrow> string \<Rightarrow> bool \<times> string \<Rightarrow> contract_report option \<Rightarrow> pydict option \<Rightarrow> pydict option \<Rightarrow> pydict" where
  "publish_result workspace_id build_id gate report before after =
     [(''workspace_id'', PStr workspace_id), (''build_id'', PStr build_id),
      (''status'', PStr (if fst gate then ''published'' else ''blocked'')), (''gate_reason'', PStr (snd gate)),
      (''contracts_report_present'', PBool (report \<noteq> None)),
      (''contracts_passed'', PBool (fst (contract_verdict report))),
      (''latest_pointer_before'', opt_dict before), (''latest_pointer_after'', opt_dict after)]"

definition report_failure ::
  "cp_env \<Rightarrow> string \<Rightarrow> string \<Rightarrow> bool \<times> string \<Rightarrow> pydict list \<Rightarrow> pydict \<Rightarrow> pydict tx" where
  "report_failure env workspace_id build_id gate failures result =
     (if \<not> fst gate \<and> snd gate = ''contract_failure''
      then tbind (ensure_contract_failure_review_task env workspace_id build_id failures) (\<lambda>created.
           tpure (result @ [(''contract_failure_task'', PDict created)]))
      else tpure result)"

definition api_publish_build ::
  "cp_settings \<Rightarrow> cp_env \<Rightarrow> cp_request \<Rightarrow> string \<Rightarrow> string \<Rightarrow> pydict \<Rightarrow> reply tx" where
  "api_publish_build cfg env rq workspace_id build_id payload =
     tbind (require_actor rq steward_or_admin_roles) (\<lambda>actor.
     tbind (tbind (tsee (load_build_contract_report workspace_id build_id (cs_storage_root cfg))) tres) (\<lambda>report.
     tbind (tread (\<lambda>d. evaluate_gold_publish_gate (fst (contract_verdict report))
         (unresolved_blocking_task_count d workspace_id))) (\<lambda>gate.
     tbind (tbind (tsee (\<lambda>s. load_latest_gold_pointer (se_gold s) workspace_id)) tres) (\<lambda>before.
     tbind (publish_pointer (fst gate) workspace_id build_id payload) (\<lambda>after.
     tbind (report_failure env workspace_id build_id gate (snd (contract_verdict report))
         (publish_result workspace_id build_id gate report before after)) (\<lambda>result.
     answer cfg env rq workspace_id actor ''build.published'' result (PDict result)))))))"

definition rollback_dict :: "pydict \<times> pydict \<Rightarrow> pydict" where
  "rollback_dict r = [(''current'', PDict (fst r)), (''rolled_back_to'', PDict (snd r))]"

definition api_rollback_build :: "cp_settings \<Rightarrow> cp_env \<Rightarrow> cp_request \<Rightarrow> string \<Rightarrow> string \<Rightarrow> reply tx" where
  "api_rollback_build cfg env rq workspace_id build_id =
     tbind (require_actor rq platform_admin_roles) (\<lambda>actor.
     tbind (ttry (tgold (rollback_gold_pointer workspace_id (Some build_id)))) (\<lambda>out.
     case out of
       Inl reason \<Rightarrow> tpure (NotFoundReply ''Rollback target not found.''
         [(''workspace_id'', PStr workspace_id), (''build_id'', PStr build_id), (''reason'', PStr reason)])
     | Inr r \<Rightarrow>
         let result = [(''workspace_id'', PStr workspace_id), (''build_id'', PStr build_id),
               (''status'', PStr ''rolled_back''), (''rollback'', PDict (rollback_dict r))]
         in answer cfg env rq workspace_id actor ''build.rollback'' result (PDict result)))"

section \<open>Every change by these endpoints is audited\<close>

lemma tgold_db [simp]: "db_same (tgold f)" "db_same (write_if_missing path content)"
  by (auto simp: db_same_def tgold_def write_if_missing_def split: prod.split_asm)

lemma tgold_iff: "tgold f s = (r, s') \<longleftrightarrow> (\<exists>g. f (se_gold s) = (r, g) \<and> s' = s\<lparr>se_gold := g\<rparr>)"
  by (auto simp: tgold_def split: prod.split)

lemma publish_pointer_db [simp]: "db_same (publish_pointer ok ws b p)"
  unfolding publish_pointer_def by (auto intro!: db_same_bind)

lemma failure_events:
  "tsame trail (ensure_contract_failure_review_task env ws b fs)"
  "tsame trail (report_failure env ws b gate fs result)"
  unfolding report_failure_def ensure_contract_failure_review_task_def
  by (auto intro!: tsame_bind split: option.split)

lemma decide_review_none: "none_same (decide_review_task env ws tid actor dec why)"
  unfolding none_same_def decide_review_task_def by (auto simp: tbind_Inr_iff Let_def split: option.split_asm if_splits)

lemma review_decision_audited:
  "audited cfg rq steward_or_admin_roles ''review.decision'' (api_decide_review_task cfg env rq ws tid p)"
  unfolding api_decide_review_task_def
  by (auto intro!: audited_require may_bind_option must_answer decide_review_none)

lemma create_events:
  "tsame trail (create_workspace env n pr sec)" "tsame trail (create_source env ws ty sc dn cr)"
  "tsame trail (create_run env ws kind)"
  unfolding create_workspace_def create_source_def create_run_def Let_def
  by (auto intro!: tsame_bind tsame_change simp: rbind_eq_Inr_iff)

lemma publish_changed:
  "audited cfg rq steward_or_admin_roles ''proposal.created'' (api_create_proposal cfg env rq ws p)"
  "audited cfg rq steward_or_admin_roles ''onboarding.demo_bootstrap'' (api_demo_bootstrap cfg env rq p)"
  "audited cfg rq steward_or_admin_roles ''build.published'' (api_publish_build cfg env rq ws b p)"
  unfolding api_create_proposal_def api_demo_bootstrap_def api_publish_build_def Let_def
  by (auto intro!: audited_require may_of_must must_bind must_answer create_events failure_events
      tsame_db_same [OF db_same_bind] tsame_db_same [OF tgold_db(2)] tsame_db_same [OF publish_pointer_db])

lemma rollback_audited:
  "audited cfg rq platform_admin_roles ''build.rollback'' (api_rollback_build cfg env rq ws b)"
  unfolding api_rollback_build_def Let_def
proof (intro audited_require may_bind ttry_db_same tgold_db)
  show "may_change cfg rq actor ''build.rollback'' (case out of
       Inl reason \<Rightarrow> tpure (NotFoundReply ''Rollback target not found.''
         [(''workspace_id'', PStr ws), (''build_id'', PStr b), (''reason'', PStr reason)])
     | Inr r \<Rightarrow> answer cfg env rq ws actor ''build.rollback''
           [(''workspace_id'', PStr ws), (''build_id'', PStr b), (''status'', PStr ''rolled_back''),
            (''rollback'', PDict (rollback_dict r))]
           (PDict [(''workspace_id'', PStr ws), (''build_id'', PStr b), (''status'', PStr ''rolled_back''),
            (''rollback'', PDict (rollback_dict r))]))" for actor out
    by (auto intro: may_answer split: sum.split)
qed simp

lemma publish_reads:
  "db_same (api_list_review_tasks ws)" "db_same (api_review_queue_summary ws)"
  "db_same (api_create_recommendation env rec rq ws p)" "db_same (api_get_recommendation ws rid)"
  unfolding api_list_review_tasks_def api_review_queue_summary_def api_create_recommendation_def api_get_recommendation_def
  by (auto intro!: db_same_bind)

section \<open>Only publication and rollback move the gold pointers\<close>

lemma quiet_write [simp]: "quiet (write_if_missing path content)"
  by (auto simp: quiet_def write_if_missing_def)

lemma quiet_failure [simp]:
  "quiet (ensure_contract_failure_review_task env ws b fs)" "quiet (report_failure env ws b gate fs result)"
  unfolding report_failure_def ensure_contract_failure_review_task_def
  by (auto intro!: quiet_bind split: option.split)

lemmas publish_services_calm = calm_of_quiet [OF quiet_require_actor] calm_of_quiet [OF quiet_write]
  calm_of_quiet [OF quiet_rows(6)] calm_of_quiet [OF quiet_rows(7)] calm_of_quiet [OF quiet_rows(8)]
  calm_of_quiet [OF quiet_rows(10)] calm_of_quiet [OF quiet_rows(11)] calm_of_quiet [OF quiet_rows(12)]
  calm_of_quiet [OF quiet_simps(5)] calm_of_quiet [OF quiet_failure(2)]

lemma publish_calm [simp]:
  "calm cfg (api_decide_review_task cfg env rq ws tid p)" "calm cfg (api_create_proposal cfg env rq ws p)"
  "calm cfg (api_demo_bootstrap cfg env rq p)" "calm cfg (api_list_review_tasks ws)"
  "calm cfg (api_review_queue_summary ws)" "calm cfg (api_create_recommendation env rec rq ws p)"
  "calm cfg (api_get_recommendation ws rid)"
  unfolding api_decide_review_task_def api_create_proposal_def api_demo_bootstrap_def api_list_review_tasks_def
    api_review_queue_summary_def api_create_recommendation_def api_get_recommendation_def Let_def
  by (auto intro!: calm_bind publish_services_calm split: option.split)

end
