(* ===== verification/ControlPlane.thy ===== *)
theory ControlPlane
  imports CpGovernance CpCatalog CpPublish
begin

text \<open>
  The control plane as a whole (\<open>create_app\<close> in \<open>backend/control_plane/app.py\<close>): the table of
  endpoints, a request from its authentication to its response, and the runs of the service as a
  state machine whose steps are requests.
\<close>

section \<open>Endpoints\<close>

text \<open>The endpoints that record an event, by the path and body that they take.\<close>

datatype change_endpoint =
    RequestPackChange string pydict
  | DecidePackChange string string pydict
  | RollbackPack string
  | PromoteCanary string
  | RequestManifestChange string pydict
  | DecideManifestChange string string pydict
  | RollbackManifest string
  | ConfigureRetention string pydict
  | ExecutePurge string pydict
  | CreateDeletion string pydict
  | ApproveDeletion string string pydict
  | ExecuteDeletion string string pydict
  | CreateWorkspace string string string
  | CreateSource string string pydict string "(string \<times> string) list option"
  | UpdateSource string string pydict
  | ImportCatalog string pydict
  | ConfigureSla string pydict
  | EvaluateSlas string
  | ReadEvidence string string
  | CreateRun string string
  | CreateSchedule string pydict
  | DemoBootstrap pydict
  | CreateProposal string pydict
  | DecideReviewTask string string pydict
  | PublishBuild string string pydict
  | RollbackBuild string string

datatype read_endpoint =
    ListPolicyPacks
  | GetEffectivePack string
  | GetCanary string
  | GetEffectiveManifest string
  | GetRetention string
  | GetDeletion string string
  | ListWorkspaces
  | GetWorkspace string
  | ListSources string
  | ListDatasets string
  | GetDataset string string
  | ExportCatalog string
  | ListSlas string
  | GetRun string string
  | ListRunSteps string string
  | ListSchedules string
  | DeriveLineage string pydict
  | ListReviewTasks string
  | ReviewSummary string
  | CreateRecommendation string pydict
  | GetRecommendation string string

datatype endpoint = Change change_endpoint | Read read_endpoint

record app_config =
  ac_settings :: cp_settings
  ac_auth :: auth_settings
  ac_tokens :: token_table
  ac_plugins :: "(string \<times> plugin_spec) list res"
  ac_recommend :: "pydict \<Rightarrow> pydict res"

definition handle_change :: "app_config \<Rightarrow> cp_env \<Rightarrow> cp_request \<Rightarrow> change_endpoint \<Rightarrow> reply tx" where
  "handle_change app env rq ep = (let cfg = ac_settings app in case ep of
     RequestPackChange ws p \<Rightarrow> api_request_policy_pack_change cfg env rq ws p
   | DecidePackChange ws cid p \<Rightarrow> api_decide_policy_pack_change cfg env rq ws cid p
   | RollbackPack ws \<Rightarrow> api_rollback_policy_pack cfg env rq ws
   | PromoteCanary ws \<Rightarrow> api_promote_policy_pack_canary cfg env rq ws
   | RequestManifestChange ws p \<Rightarrow> api_request_semantic_manifest_change cfg env rq ws p
   | DecideManifestChange ws cid p \<Rightarrow> api_decide_semantic_manifest_change cfg env rq ws cid p
   | RollbackManifest ws \<Rightarrow> api_rollback_semantic_manifest cfg env rq ws
   | ConfigureRetention ws p \<Rightarrow> api_configure_retention_policy cfg env rq ws p
   | ExecutePurge ws p \<Rightarrow> api_execute_retention_purge cfg env rq ws p
   | CreateDeletion ws p \<Rightarrow> api_create_deletion_request cfg env rq ws p
   | ApproveDeletion ws did p \<Rightarrow> api_approve_deletion_request cfg env rq ws did p
   | ExecuteDeletion ws did p \<Rightarrow> api_execute_deletion_request cfg env rq ws did p
   | CreateWorkspace name profile baseline \<Rightarrow> api_create_workspace cfg env rq name profile baseline
   | CreateSource ws ty scope name credentials \<Rightarrow>
       api_create_source cfg env (ac_plugins app) rq ws ty scope name credentials
   | UpdateSource ws sid p \<Rightarrow> api_update_source cfg env rq ws sid p
   | ImportCatalog ws p \<Rightarrow> api_import_catalog cfg env rq ws p
   | ConfigureSla ws p \<Rightarrow> api_configure_source_sla cfg env rq ws p
   | EvaluateSlas ws \<Rightarrow> api_evaluate_source_slas cfg env rq ws
   | ReadEvidence ws ev \<Rightarrow> api_get_evidence_bundle cfg env rq ws ev
   | CreateRun ws kind \<Rightarrow> api_create_run cfg env rq ws kind
   | CreateSchedule ws p \<Rightarrow> api_create_run_schedule cfg env rq ws p
   | DemoBootstrap p \<Rightarrow> api_demo_bootstrap cfg env rq p
   | CreateProposal ws p \<Rightarrow> api_create_proposal cfg env rq ws p
   | DecideReviewTask ws tid p \<Rightarrow> api_decide_review_task cfg env rq ws tid p
   | PublishBuild ws b p \<Rightarrow> api_publish_build cfg env rq ws b p
   | RollbackBuild ws b \<Rightarrow> api_rollback_build cfg env rq ws b)"

definition handle_read :: "app_config \<Rightarrow> cp_env \<Rightarrow> cp_request \<Rightarrow> read_endpoint \<Rightarrow> reply tx" where
  "handle_read app env rq ep = (case ep of
     ListPolicyPacks \<Rightarrow> api_list_policy_packs env
   | GetEffectivePack ws \<Rightarrow> api_get_effective_policy_pack rq ws
   | GetCanary ws \<Rightarrow> api_get_policy_pack_canary rq ws
   | GetEffectiveManifest ws \<Rightarrow> api_get_effective_semantic_manifest env rq ws
   | GetRetention ws \<Rightarrow> api_get_retention_policy rq ws
   | GetDeletion ws did \<Rightarrow> api_get_deletion_request rq ws did
   | ListWorkspaces \<Rightarrow> api_list_workspaces
   | GetWorkspace ws \<Rightarrow> api_get_workspace ws
   | ListSources ws \<Rightarrow> api_list_sources ws
   | ListDatasets ws \<Rightarrow> api_list_datasets ws
   | GetDataset ws did \<Rightarrow> api_get_dataset ws did
   | ExportCatalog ws \<Rightarrow> api_export_catalog rq ws
   | ListSlas ws \<Rightarrow> api_list_source_slas rq ws
   | GetRun ws rid \<Rightarrow> api_get_run ws rid
   | ListRunSteps ws rid \<Rightarrow> api_list_run_steps ws rid
   | ListSchedules ws \<Rightarrow> api_list_run_schedules rq ws
   | DeriveLineage ws p \<Rightarrow> api_derive_sql_lineage rq ws p
   | ListReviewTasks ws \<Rightarrow> api_list_review_tasks ws
   | ReviewSummary ws \<Rightarrow> api_review_queue_summary ws
   | CreateRecommendation ws intent \<Rightarrow> api_create_recommendation env (ac_recommend app) rq ws intent
   | GetRecommendation ws rid \<Rightarrow> api_get_recommendation ws rid)"

definition handle :: "app_config \<Rightarrow> cp_env \<Rightarrow> cp_request \<Rightarrow> endpoint \<Rightarrow> reply tx" where
  "handle app env rq ep = (case ep of Change c \<Rightarrow> handle_change app env rq c | Read r \<Rightarrow> handle_read app env rq r)"

text \<open>The event type of an endpoint and the roles that it asks for.\<close>

fun event_type :: "change_endpoint \<Rightarrow> string" where
  "event_type (RequestPackChange _ _) = ''policy_pack.change_requested''"
| "event_type (DecidePackChange _ _ _) = ''policy_pack.change_decided''"
| "event_type (RollbackPack _) = ''policy_pack.rolled_back''"
| "event_type (PromoteCanary _) = ''policy_pack.canary_promoted''"
| "event_type (RequestManifestChange _ _) = ''semantic_manifest.change_requested''"
| "event_type (DecideManifestChange _ _ _) = ''semantic_manifest.change_decided''"
| "event_type (RollbackManifest _) = ''semantic_manifest.rolled_back''"
| "event_type (ConfigureRetention _ _) = ''retention.policy_configured''"
| "event_type (ExecutePurge _ _) = ''retention.purge_executed''"
| "event_type (CreateDeletion _ _) = ''deletion.requested''"
| "event_type (ApproveDeletion _ _ _) = ''deletion.approved''"
| "event_type (ExecuteDeletion _ _ _) = ''deletion.executed''"
| "event_type (CreateWorkspace _ _ _) = ''workspace.created''"
| "event_type (CreateSource _ _ _ _ _) = ''source.created''"
| "event_type (UpdateSource _ _ _) = ''source.updated''"
| "event_type (ImportCatalog _ _) = ''catalog.imported''"
| "event_type (ConfigureSla _ _) = ''source_sla.configured''"
| "event_type (EvaluateSlas _) = ''source_sla.evaluated''"
| "event_type (ReadEvidence _ _) = ''evidence.read''"
| "event_type (CreateRun _ _) = ''run.created''"
| "event_type (CreateSchedule _ _) = ''run.schedule_created''"
| "event_type (DemoBootstrap _) = ''onboarding.demo_bootstrap''"
| "event_type (CreateProposal _ _) = ''proposal.created''"
| "event_type (DecideReviewTask _ _ _) = ''review.decision''"
| "event_type (PublishBuild _ _ _) = ''build.published''"
| "event_type (RollbackBuild _ _) = ''build.rollback''"

fun admin_only :: "change_endpoint \<Rightarrow> bool" where
  "admin_only (RollbackPack _) = True"
| "admin_only (PromoteCanary _) = True"
| "admin_only (RollbackManifest _) = True"
| "admin_only (ExecutePurge _ _) = True"
| "admin_only (ExecuteDeletion _ _ _) = True"
| "admin_only (CreateWorkspace _ _ _) = True"
| "admin_only (RollbackBuild _ _) = True"
| "admin_only _ = False"

fun required_roles :: "change_endpoint \<Rightarrow> string list" where
  "required_roles (ReadEvidence _ _) = analyst_or_steward_or_admin_roles"
| "required_roles ep = (if admin_only ep then platform_admin_roles else steward_or_admin_roles)"

section \<open>A request\<close>

record cp_app =
  app_session :: cp_session
  app_jwks :: jwks_cache

fun asks_actor :: "endpoint \<Rightarrow> bool" where
  "asks_actor (Change _) = True"
| "asks_actor (Read ep) = (case ep of
     ListPolicyPacks \<Rightarrow> False | ListWorkspaces \<Rightarrow> False | GetWorkspace _ \<Rightarrow> False | ListSources _ \<Rightarrow> False
   | ListDatasets _ \<Rightarrow> False | GetDataset _ _ \<Rightarrow> False | GetRun _ _ \<Rightarrow> False | ListRunSteps _ _ \<Rightarrow> False
   | ListReviewTasks _ \<Rightarrow> False | ReviewSummary _ \<Rightarrow> False | GetRecommendation _ _ \<Rightarrow> False | _ \<Rightarrow> True)"

definition take_request_id :: "cp_env \<Rightarrow> auth_env \<Rightarrow> cp_session \<Rightarrow> string \<times> cp_session" where
  "take_request_id env http s =
     (case ae_headers http ''x-request-id'' of Some given_id \<Rightarrow> given_id | None \<Rightarrow> ce_fresh env (se_next s),
      s\<lparr>se_next := Suc (se_next s)\<rparr>)"

definition process_request ::
  "app_config \<Rightarrow> cp_env \<Rightarrow> auth_env \<Rightarrow> endpoint \<Rightarrow> cp_app \<Rightarrow> http_response \<times> cp_app" where
  "process_request app env http ep a =
     (let (request_id, s0) = take_request_id env http (app_session a);
          (who, jwks) = (if asks_actor ep
             then authenticated_actor_from_request (ac_auth app) http (ac_tokens app) (app_jwks a)
             else (Inr None, app_jwks a));
          rq = \<lparr>rq_id = request_id, rq_actor = who\<rparr>;
          (response, s1) = serve (ac_settings app) rq (handle app env rq ep) s0
      in (response, \<lparr>app_session = s1, app_jwks = jwks\<rparr>))"

inductive app_step :: "app_config \<Rightarrow> cp_env \<Rightarrow> cp_app \<Rightarrow> cp_app \<Rightarrow> bool" for app env where
  request: "process_request app env http ep a = (response, a') \<Longrightarrow> app_step app env a a'"

section \<open>Handlers are audited\<close>

lemma change_audited:
  "audited (ac_settings app) rq (required_roles ep) (event_type ep) (handle_change app env rq ep)"
  by (cases ep) (simp_all add: handle_change_def Let_def governance_decided governance_changed update_source_audited
      import_audited catalog_tried catalog_changed review_decision_audited publish_changed rollback_audited)

lemma read_same: "db_same (handle_read app env rq ep)"
  by (cases ep) (simp_all add: handle_read_def governance_reads catalog_reads publish_reads)

text \<open>What a handler did to the database when it replied.\<close>

lemma handle_reply:
  assumes "handle app env rq ep s = (Inr r, s')"
  shows "se_db s' = se_db s \<or> (\<exists>c actor. ep = Change c \<and> rq_actor rq = Inr (Some actor) \<and>
    actor_has_any_role actor (required_roles c) \<and>
    left_event (ac_settings app) rq actor (event_type c) (se_db s) (se_db s'))"
proof (cases ep)
  case (Change c)
  with assms have run: "handle_change app env rq c s = (Inr r, s')" by (simp add: handle_def)
  from change_audited [of app rq c env, unfolded audited_def, rule_format, OF run] Change show ?thesis by blast
next
  case (Read q)
  with assms have run: "handle_read app env rq q s = (Inr r, s')" by (simp add: handle_def)
  from db_sameD [OF read_same run] show ?thesis ..
qed

end
