(* ===== verification/CpProperties.thy ===== *)
theory CpProperties
  imports ControlPlane
begin

text \<open>
  What holds of every request of the control plane, and of every run of it: a change is audited,
  the gold pointers move only through the publication gate or a rollback, and in outbox mode the
  events recorded and the events that the audit sink took agree up to the rows still queued.
\<close>

section \<open>A request seen from outside\<close>

definition db_of :: "cp_app \<Rightarrow> db" where
  "db_of a = se_db (app_session a)"

definition caller :: "app_config \<Rightarrow> auth_env \<Rightarrow> cp_app \<Rightarrow> pydict option res" where
  "caller app http a = fst (authenticated_actor_from_request (ac_auth app) http (ac_tokens app) (app_jwks a))"

text \<open>A dispatch of the outbox changes the state of its rows and nothing else.\<close>

definition redelivered :: "db \<Rightarrow> db \<Rightarrow> bool" where
  "redelivered d d' \<longleftrightarrow> d' = d\<lparr>outbox := outbox d'\<rparr> \<and> map ob_id (outbox d') = map ob_id (outbox d)"

lemma redelivered_refl [simp]: "redelivered d d"
  by (simp add: redelivered_def)

lemma redelivered_events: "redelivered d d' \<Longrightarrow> audit_events d' = audit_events d"
  unfolding redelivered_def by (cases d; cases d') auto

lemma dispatch_rows_ids:
  "dispatch_rows emit ma sink t rs sent failed = (Inr (t', sent', failed'), sink') \<Longrightarrow>
     map ob_id t' = map ob_id t"
  by (induction emit ma sink t rs sent failed arbitrary: t' sent' failed' sink' rule: dispatch_rows.induct)
    (force split: prod.split_asm sum.split_asm)+

lemma after_commit_session:
  "\<exists>taken d. after_commit cfg s = s\<lparr>se_emitted := taken, se_db := d\<rparr> \<and> redelivered (se_db s) d"
proof (cases "cs_audit_mode cfg = ''outbox''")
  case False
  then have "after_commit cfg s = s\<lparr>se_emitted := se_emitted s, se_db := se_db s\<rparr>" by (simp add: after_commit_def)
  then show ?thesis by (metis redelivered_refl)
next
  case True
  obtain r taken d where run: "dispatch_audit_outbox_batch (emit_audit (cs_write cfg) (cs_post cfg) (cs_sink cfg))
      ''control_plane'' (cs_batch cfg) (cs_max_attempts cfg) (se_emitted s) (se_db s) = (r, taken, d)"
    by (metis prod_cases3)
  have "redelivered (se_db s) d"
  proof (cases r)
    case (Inl e)
    with run show ?thesis
      by (auto simp: dispatch_audit_outbox_batch_def Let_def split: prod.split_asm sum.split_asm)
  next
    case (Inr res)
    from dispatch_batch_Inr [OF run [unfolded Inr]] obtain t sent failed where
      t: "dispatch_rows (emit_audit (cs_write cfg) (cs_post cfg) (cs_sink cfg)) (cs_max_attempts cfg) (se_emitted s)
        (outbox (se_db s)) (batch_rows ''control_plane'' (cs_batch cfg) (cs_max_attempts cfg) (outbox (se_db s))) 0 0 =
        (Inr (t, sent, failed), taken)" and d: "d = (se_db s)\<lparr>outbox := t\<rparr>" by metis
    from dispatch_rows_ids [OF t] show ?thesis by (simp add: redelivered_def d)
  qed
  moreover have "after_commit cfg s = s\<lparr>se_emitted := taken, se_db := d\<rparr>"
    using True run by (simp add: after_commit_def)
  ultimately show ?thesis by blast
qed

lemma after_commit_gold [simp]: "se_gold (after_commit cfg s) = se_gold s"
  using after_commit_session [of cfg s] by auto

lemma after_commit_redelivered: "redelivered (se_db s) (se_db (after_commit cfg s))"
  using after_commit_session [of cfg s] by auto

text \<open>The two ways a request ends.\<close>

lemma process_request_cases:
  assumes "process_request app env http ep a = (response, a')"
  obtains (failed) rq s0 e s1 where "se_db s0 = db_of a" "se_gold s0 = se_gold (app_session a)"
      "se_emitted s0 = se_emitted (app_session a)" "handle app env rq ep s0 = (Inl e, s1)"
      "app_session a' = s1\<lparr>se_db := db_of a\<rparr>" "\<not> asks_actor ep \<or> rq_actor rq = caller app http a"
      "se_contracts s0 = se_contracts (app_session a)" "hr_status response \<notin> {200}"
    | (replied) rq s0 r s1 where "se_db s0 = db_of a" "se_gold s0 = se_gold (app_session a)"
      "se_emitted s0 = se_emitted (app_session a)" "handle app env rq ep s0 = (Inr r, s1)"
      "app_session a' = after_commit (ac_settings app) s1" "\<not> asks_actor ep \<or> rq_actor rq = caller app http a"
      "se_contracts s0 = se_contracts (app_session a)" "hr_status response \<in> {200, 404}"
proof -
  define s0 where "s0 = snd (take_request_id env http (app_session a))"
  define rq where "rq = \<lparr>rq_id = fst (take_request_id env http (app_session a)),
    rq_actor = (if asks_actor ep then caller app http a else Inr None)\<rparr>"
  have s0: "se_db s0 = db_of a" "se_gold s0 = se_gold (app_session a)" "se_emitted s0 = se_emitted (app_session a)"
    "se_contracts s0 = se_contracts (app_session a)"
    by (simp_all add: s0_def take_request_id_def db_of_def)
  have who: "\<not> asks_actor ep \<or> rq_actor rq = caller app http a" by (simp add: rq_def)
  have run: "serve (ac_settings app) rq (handle app env rq ep) s0 = (response, app_session a')"
    using assms
    by (auto simp: process_request_def s0_def rq_def caller_def Let_def split: prod.split_asm if_split_asm)
  have bad: "hr_status (error_response i e) \<notin> {200}" for i e by (cases e) auto
  have good: "hr_status (reply_response i r) \<in> {200, 404}" for i r by (cases r) auto
  show thesis
  proof (cases "fst (handle app env rq ep s0)")
    case (Inl e)
    then obtain s1 where h: "handle app env rq ep s0 = (Inl e, s1)" by (metis prod.collapse)
    with run s0 have "app_session a' = s1\<lparr>se_db := db_of a\<rparr>" "response = error_response (rq_id rq) e"
      by (simp_all add: serve_def in_transaction_def)
    with failed h s0 who bad show ?thesis by metis
  next
    case (Inr r)
    then obtain s1 where h: "handle app env rq ep s0 = (Inr r, s1)" by (metis prod.collapse)
    with run have "app_session a' = after_commit (ac_settings app) s1" "response = reply_response (rq_id rq) r"
      by (simp_all add: serve_def in_transaction_def)
    with replied h s0 who good show ?thesis by metis
  qed
qed

section \<open>Changes are audited\<close>

text \<open>
  C5. Every request, whatever its endpoint, body, token and the state before it, either leaves the
  metadata database as it was (up to the delivery state of queued audit events), or is a request
  to a changing endpoint by an authenticated actor with one of the roles of that endpoint, and
  then exactly one audit event has been appended, of the type of the endpoint and in the name of
  that actor. A request answered with an error leaves the database exactly as it was.
\<close>

theorem control_plane_changes_audited:
  "case process_request app env http ep a of (response, a') \<Rightarrow>
     (hr_status response \<in> {200, 404} \<or> db_of a' = db_of a) \<and>
     (redelivered (db_of a) (db_of a') \<or>
      (\<exists>c actor e. ep = Change c \<and> caller app http a = Inr (Some actor) \<and>
         actor_has_any_role actor (required_roles c) \<and>
         audit_events (db_of a') = audit_events (db_of a) @ [e] \<and>
         ae_type e = event_type c \<and> ae_actor e = actor_id actor))"
proof -
  obtain response a' where run: "process_request app env http ep a = (response, a')" by fastforce
  then show ?thesis
  proof (cases rule: process_request_cases)
    case (failed rq s0 e s1)
    with run show ?thesis by (simp add: db_of_def)
  next
    case (replied rq s0 r s1)
    have d: "redelivered (se_db s1) (db_of a')"
      using replied(5) after_commit_redelivered by (simp add: db_of_def)
    from handle_reply [OF replied(4)] show ?thesis
    proof (elim disjE exE conjE)
      assume "se_db s1 = se_db s0"
      with d replied(1) have "redelivered (db_of a) (db_of a')" by simp
      with run replied(8) show ?thesis by auto
    next
      fix c actor
      assume c: "ep = Change c" "rq_actor rq = Inr (Some actor)" "actor_has_any_role actor (required_roles c)"
        and "left_event (ac_settings app) rq actor (event_type c) (se_db s0) (se_db s1)"
      then obtain e where e: "audit_events (se_db s1) = audit_events (se_db s0) @ [e]"
        "event_of rq actor (event_type c) e" by (auto simp: left_event_def)
      have "audit_events (db_of a') = audit_events (se_db s1)"
        using d redelivered_events by blast
      with e replied(1) have ev: "audit_events (db_of a') = audit_events (db_of a) @ [e]" by simp
      from c replied(6) have "caller app http a = Inr (Some actor)" by simp
      with ev c e(2) run replied(8) show ?thesis by (auto simp: event_of_def)
    qed
  qed
qed

section \<open>The gold pointers\<close>

lemma gold_same:
  "calm cfg m \<Longrightarrow> m s = (r, s') \<Longrightarrow> se_gold s' = se_gold s"
  by (simp add: calm_def)

lemma reads_calm: "calm cfg (handle_read app env rq q)"
  by (cases q) (simp_all add: handle_read_def)

lemma change_gold:
  assumes "handle_change app env rq c s = (r, s')"
  shows "se_gold s' = se_gold s \<or> (\<exists>ws b p. c = PublishBuild ws b p) \<or> (\<exists>ws b. c = RollbackBuild ws b)"
proof -
  have "calm (ac_settings app) (handle_change app env rq c) \<or> (\<exists>ws b p. c = PublishBuild ws b p) \<or>
      (\<exists>ws b. c = RollbackBuild ws b)"
    by (cases c) (simp_all add: handle_change_def Let_def)
  moreover have "se_gold s' = se_gold s" if "calm (ac_settings app) (handle_change app env rq c)"
    using that assms by (simp add: calm_def)
  ultimately show ?thesis by blast
qed

lemma quiet_parts [simp]: "quiet (tbind (tsee f) tres)"
  by (intro quiet_bind quiet_simps)

text \<open>The steps in front of the gate read only.\<close>

lemma tbind_require:
  assumes "tbind (require_actor rq roles) f s = (r, s')" "roles \<noteq> []"
  obtains "s' = s" | actor where "rq_actor rq = Inr (Some actor)" "actor_has_any_role actor roles" "f actor s = (r, s')"
  using assms
  by (auto simp: require_actor_def tbind_def tres_def traise_def tpure_def
      split: sum.split_asm option.split_asm if_splits)

lemma tbind_looks:
  "tbind (tread g) f s = f (g (se_db s)) s"
  "tbind (tbind (tsee h) tres) k s = (case h s of Inl e \<Rightarrow> (Inl e, s) | Inr x \<Rightarrow> k x s)"
  by (auto simp: tbind_def tread_def tsee_def tres_def split: sum.split)

lemma publish_pointer_gold:
  assumes "tbind (publish_pointer ok ws b p) f s = (r, s')" "\<And>x. calm cfg (f x)"
  shows "se_gold s' = se_gold s \<or> ok \<and> se_gold s' = snd (publish_gold_pointer ws b (str_of p ''snapshot_id'' b)
    (str_of p ''model_name'' ''default_model'') (se_gold s))"
  using assms(1)
proof (cases rule: tbind_cases)
  case (stop e)
  then show ?thesis
    by (auto simp: publish_pointer_def tbind_def tgold_def tsee_def tres_def tpure_def
        split: if_split_asm prod.split_asm sum.split_asm)
next
  case (next_step x s1)
  have "se_gold s' = se_gold s1" by (rule gold_same [OF assms(2) next_step(2)])
  with next_step(1) show ?thesis
    by (auto simp: publish_pointer_def tbind_def tgold_def tsee_def tres_def tpure_def
        split: if_split_asm prod.split_asm sum.split_asm)
qed

lemma gate_open: "fst (evaluate_gold_publish_gate passed n) \<longleftrightarrow> passed \<and> n = 0"
  by (simp add: evaluate_gold_publish_gate_def)

lemma verdict_passed: "fst (contract_verdict found) \<longleftrightarrow> (\<exists>report. found = Some report \<and> ct_passed report)"
  by (simp add: contract_verdict_def split: option.split)

text \<open>A gold pointer moved by a publication went through the gate.\<close>

definition gate_passed :: "cp_settings \<Rightarrow> string \<Rightarrow> string \<Rightarrow> cp_session \<Rightarrow> bool" where
  "gate_passed cfg ws b s \<longleftrightarrow>
     (\<exists>report. load_build_contract_report ws b (cs_storage_root cfg) s = Inr (Some report) \<and> ct_passed report) \<and>
     unresolved_blocking_task_count (se_db s) ws = 0"

lemma publish_gate:
  assumes "api_publish_build cfg env rq ws b p s = (r, s')"
  shows "se_gold s' = se_gold s \<or> (\<exists>actor. rq_actor rq = Inr (Some actor) \<and>
    actor_has_any_role actor steward_or_admin_roles) \<and> gate_passed cfg ws b s \<and>
    se_gold s' = snd (publish_gold_pointer ws b (str_of p ''snapshot_id'' b)
      (str_of p ''model_name'' ''default_model'') (se_gold s))"
  using assms [unfolded api_publish_build_def] roles_given(2)
proof (cases rule: tbind_require)
  case (2 actor)
  have calm: "calm cfg (tbind (report_failure env ws b gate fs result) (\<lambda>v.
      answer cfg env rq ws actor ''build.published'' v (PDict v)))" for gate fs result
    by (intro calm_bind calm_answer calm_of_quiet quiet_failure)
  show ?thesis
    using 2(3) publish_pointer_gold [OF _ calm] 2(1,2)
    by (fastforce simp: tbind_looks gate_passed_def gate_open verdict_passed split: sum.split_asm)
qed simp

lemma rollback_gold:
  assumes "api_rollback_build cfg env rq ws b s = (r, s')"
  shows "se_gold s' = se_gold s \<or> (\<exists>actor. rq_actor rq = Inr (Some actor) \<and>
    actor_has_any_role actor platform_admin_roles) \<and>
    se_gold s' = snd (rollback_gold_pointer ws (Some b) (se_gold s))"
  using assms [unfolded api_rollback_build_def Let_def] roles_given(1)
proof (cases rule: tbind_require)
  case (2 actor)
  from 2(3) show ?thesis
  proof (cases rule: tbind_cases)
    case (stop e)
    then show ?thesis using 2(1,2)
      by (auto simp: ttry_def tgold_def split: prod.split_asm sum.split_asm exn.split_asm)
  next
    case (next_step x s1)
    from next_step(2) have "se_gold s' = se_gold s1"
      by (cases x) (auto simp: tpure_def dest!: gold_same [OF calm_answer])
    with next_step(1) 2(1,2) show ?thesis
      by (auto simp: ttry_def tgold_def split: prod.split_asm sum.split_asm exn.split_asm)
  qed
qed simp


section \<open>A failed contract holds publication back\<close>

lemma write_event_tasks:
  assumes "write_event cfg env ws actor ty js corr s = (Inr e, s')"
  shows "tasks (se_db s') = tasks (se_db s)"
proof -
  from assms obtain s1 where ins: "insert_audit_event env ws actor ty js corr s = (Inr e, s1)"
    and rest: "(if cs_audit_mode cfg = ''inline'' then emit_event cfg (audit_event_dict e) else enqueue_event env ws e) s1 = (Inr (), s')"
    by (auto simp: write_event_def tbind_Inr_iff)
  from insert_audit_event_Inr [OF ins] have one: "tasks (se_db s1) = tasks (se_db s)" by simp
  from rest have "tasks (se_db s') = tasks (se_db s1)"
    using emit_event_db [of cfg "audit_event_dict e" s1 _ s'] enqueue_event_Inr [of env ws e s1 "()" s']
    by (auto split: if_split_asm)
  with one show ?thesis by simp
qed

lemma answer_tasks:
  "answer cfg env rq ws actor ty js v s = (Inr r, s') \<Longrightarrow> tasks (se_db s') = tasks (se_db s)"
  by (auto simp: answer_def tbind_Inr_iff tpure_def dest: write_event_tasks [OF append_audit_event_Inr])

definition blocks :: "string \<Rightarrow> review_task \<Rightarrow> bool" where
  "blocks ws t \<longleftrightarrow> tk_workspace t = ws \<and> tk_blocking t \<and> is_unresolved t"

lemma blocked_iff: "0 < unresolved_blocking_task_count d ws \<longleftrightarrow> (\<exists>t \<in> set (tasks d). blocks ws t)"
  by (auto simp: unresolved_blocking_task_count_def blocks_def filter_empty_conv)

lemma failure_task_left:
  assumes "ensure_contract_failure_review_task env ws b fs s = (Inr d, s')"
  shows "0 < unresolved_blocking_task_count (se_db s') ws"
proof -
  from assms obtain pid existing s1 tid where task: "failure_task ws pid (se_db s1) = existing"
    and run: "(case existing of
          None \<Rightarrow> tbind (create_review_task env ws pid ''quality_critical'' True) (\<lambda>t. tpure (tk_id t))
        | Some t \<Rightarrow> tpure (tk_id t)) s1 = (Inr tid, s')"
    by (auto simp: ensure_contract_failure_review_task_def tbind_Inr_iff tread_def tpure_def)
  show ?thesis
  proof (cases existing)
    case None
    with run obtain t where "create_review_task env ws pid ''quality_critical'' True s1 = (Inr t, s')"
      by (auto simp: tbind_Inr_iff tpure_def)
    from create_review_task_Inr [OF this] show ?thesis by (auto simp: blocked_iff blocks_def is_unresolved_def)
  next
    case (Some t)
    with run have "s' = s1" by (simp add: tpure_def)
    with Some task [unfolded failure_task_def] tbl_first_SomeD show ?thesis
      by (fastforce simp: blocked_iff blocks_def)
  qed
qed

text \<open>
  C10. A publication whose contract report is missing or did not pass leaves the gold pointers alone
  and leaves an unresolved blocking review task in the workspace, so that every later publication
  of the workspace is held back too until a steward has decided that task.
\<close>

theorem failed_contracts_block_the_workspace:
  assumes "api_publish_build cfg env rq ws b p s = (Inr r, s')"
    and "\<not> (case load_build_contract_report ws b (cs_storage_root cfg) s of Inr (Some report) \<Rightarrow> ct_passed report | _ \<Rightarrow> False)"
  shows "se_gold s' = se_gold s \<and> \<not> gate_passed cfg ws any s'"
proof -
  from publish_gate [OF assms(1)] assms(2) have gold: "se_gold s' = se_gold s" by (auto simp: gate_passed_def)
  from assms(1) roles_given(2) obtain actor where after_look:
      "tbind (tbind (tsee (load_build_contract_report ws b (cs_storage_root cfg))) tres) (\<lambda>report.
       tbind (tread (\<lambda>d. evaluate_gold_publish_gate (fst (contract_verdict report))
         (unresolved_blocking_task_count d ws))) (\<lambda>gate.
        tbind (tbind (tsee (\<lambda>s. load_latest_gold_pointer (se_gold s) ws)) tres) (\<lambda>before.
        tbind (publish_pointer (fst gate) ws b p) (\<lambda>after.
        tbind (report_failure env ws b gate (snd (contract_verdict report))
         (publish_result ws b gate report before after)) (\<lambda>result.
        answer cfg env rq ws actor ''build.published'' result (PDict result)))))) s = (Inr r, s')"
    by (auto simp: api_publish_build_def tbind_Inr_iff [of "require_actor rq steward_or_admin_roles"] require_actor_Inr)
  then obtain report where report: "load_build_contract_report ws b (cs_storage_root cfg) s = Inr report"
      and run: "tbind (tread (\<lambda>d. evaluate_gold_publish_gate (fst (contract_verdict report))
         (unresolved_blocking_task_count d ws))) (\<lambda>gate.
        tbind (tbind (tsee (\<lambda>s. load_latest_gold_pointer (se_gold s) ws)) tres) (\<lambda>before.
        tbind (publish_pointer (fst gate) ws b p) (\<lambda>after.
        tbind (report_failure env ws b gate (snd (contract_verdict report))
         (publish_result ws b gate report before after)) (\<lambda>result.
        answer cfg env rq ws actor ''build.published'' result (PDict result))))) s = (Inr r, s')"
    by (cases "load_build_contract_report ws b (cs_storage_root cfg) s") (simp_all add: tbind_looks(2))
    from assms(2) report have "\<not> fst (contract_verdict report)"
      by (auto simp: contract_verdict_def split: option.split_asm)
    with run obtain fs result0 s1 result s2 where
      fail: "report_failure env ws b (False, ''contract_failure'') fs result0 s1 = (Inr result, s2)"
      and last_step: "answer cfg env rq ws actor ''build.published'' result (PDict result) s2 = (Inr r, s')"
      by (auto simp: tbind_Inr_iff tread_def evaluate_gold_publish_gate_def)
    from fail obtain d where "ensure_contract_failure_review_task env ws b fs s1 = (Inr d, s2)"
      by (auto simp: report_failure_def tbind_Inr_iff tpure_def)
    from failure_task_left [OF this] answer_tasks [OF last_step] gold show ?thesis
      by (simp add: gate_passed_def unresolved_blocking_task_count_def)
qed

section \<open>The events reach the sink\<close>

text \<open>In outbox mode no handler calls the sink.\<close>

definition sends_nothing :: "cp_settings \<Rightarrow> 'a tx \<Rightarrow> bool" where
  "sends_nothing cfg m \<longleftrightarrow> (\<forall>s r s'. m s = (r, s') \<longrightarrow> cs_audit_mode cfg = ''inline'' \<or> se_emitted s' = se_emitted s)"

lemma silent_of_calm: "calm cfg m \<Longrightarrow> sends_nothing cfg m"
  by (simp add: calm_def sends_nothing_def)

lemma silent_bind:
  assumes "sends_nothing cfg m" "\<And>x. sends_nothing cfg (f x)"
  shows "sends_nothing cfg (tbind m f)"
  unfolding sends_nothing_def
proof (intro allI impI)
  fix s r s'
  assume "tbind m f s = (r, s')"
  then show "cs_audit_mode cfg = ''inline'' \<or> se_emitted s' = se_emitted s"
  proof (cases rule: tbind_cases)
    case (stop e)
    then show ?thesis using assms(1) by (auto simp: sends_nothing_def)
  next
    case (next_step x s1)
    then show ?thesis using assms unfolding sends_nothing_def by metis
  qed
qed

lemma silent_gold: "sends_nothing cfg (tgold f)" "sends_nothing cfg (ttry (tgold f))"
  by (auto simp: sends_nothing_def ttry_def tgold_def split: prod.split_asm sum.split_asm exn.split_asm)

lemma silent_pointer: "sends_nothing cfg (publish_pointer ok ws b p)"
  unfolding publish_pointer_def
  by (auto intro!: silent_bind silent_gold silent_of_calm [OF calm_of_quiet [OF quiet_simps(9)]]
      silent_of_calm [OF calm_simps(1)] silent_of_calm [OF calm_simps(3)])

lemma handle_silent: "sends_nothing (ac_settings app) (handle app env rq ep)"
proof (cases ep)
  case (Read q)
  then show ?thesis using silent_of_calm [OF reads_calm] by (simp add: handle_def)
next
  case (Change c)
  have publish: "sends_nothing cfg (api_publish_build cfg env rq ws b p)" for cfg ws b p
    unfolding api_publish_build_def
    by (intro silent_bind silent_pointer silent_of_calm [OF calm_of_quiet [OF quiet_require_actor]]
        silent_of_calm [OF calm_of_quiet [OF quiet_parts]] silent_of_calm [OF calm_simps(4)]
        silent_of_calm [OF calm_of_quiet [OF quiet_failure(2)]] silent_of_calm [OF calm_answer])
  have rollback: "sends_nothing cfg (api_rollback_build cfg env rq ws b)" for cfg ws b
    unfolding api_rollback_build_def
    by (auto simp: Let_def intro!: silent_bind silent_gold silent_of_calm [OF calm_of_quiet [OF quiet_require_actor]]
        silent_of_calm [OF calm_simps(1)] silent_of_calm [OF calm_answer] split: sum.split)
  have "sends_nothing (ac_settings app) (handle_change app env rq c)"
    by (cases c) (simp_all add: handle_change_def Let_def silent_of_calm publish rollback)
  with Change show ?thesis by (simp add: handle_def)
qed

text \<open>A dispatch takes rows of its batch, and only those, also when it stops half way.\<close>

lemma deliver_takes:
  "deliver (emit_audit write post sink) ma taken row = (r, taken') \<Longrightarrow>
     set taken \<subseteq> set taken' \<and> set taken' \<subseteq> insert (ob_payload row) (set taken)"
  by (cases sink) (auto simp: deliver_def split: option.split_asm if_split_asm)

lemma dispatch_rows_takes:
  "dispatch_rows (emit_audit write post sink) ma taken t rs sent failed = (r, taken') \<Longrightarrow>
     set taken \<subseteq> set taken' \<and> set taken' \<subseteq> set taken \<union> ob_payload ` set rs"
proof (induction rs arbitrary: taken t sent failed)
  case (Cons row rest)
  obtain x s1 where dl: "deliver (emit_audit write post sink) ma taken row = (x, s1)" by fastforce
  note first = deliver_takes [OF dl]
  show ?case
  proof (cases x)
    case (Inl e)
    with Cons.prems dl first show ?thesis by auto
  next
    case (Inr p)
    obtain row' ok where p: "p = (row', ok)" by (cases p)
    with Cons.prems dl Inr
    have "dispatch_rows (emit_audit write post sink) ma s1 (tbl_put ob_id row' t) rest
        (if ok then Suc sent else sent) (if ok then failed else Suc failed) = (r, taken')" by simp
    from Cons.IH [OF this] first show ?thesis by auto
  qed
qed simp

section \<open>The invariant of the audit trail\<close>

definition sent_by :: "outbox_event \<Rightarrow> bool" where
  "sent_by row \<longleftrightarrow> ob_service row = ''control_plane'' \<and> ob_status row = ''sent''"

definition trail_ok :: "pydict list \<Rightarrow> db \<Rightarrow> bool" where
  "trail_ok taken d \<longleftrightarrow> keys_distinct ob_id (outbox d) \<and>
     list_all (\<lambda>e. list_ex (\<lambda>row. carries row e) (outbox d)) (audit_events d) \<and>
     list_all (\<lambda>row. ob_service row = ''control_plane'' \<longrightarrow> list_ex (carries row) (audit_events d)) (outbox d) \<and>
     list_all (\<lambda>row. sent_by row \<longrightarrow> ob_payload row \<in> set taken) (outbox d) \<and>
     set taken \<subseteq> audit_event_dict ` set (audit_events d)"

lemma trail_ok_left:
  assumes "trail_ok taken d" "left_event cfg rq actor ty d d'" "cs_audit_mode cfg \<noteq> ''inline''"
  shows "trail_ok taken d'"
proof -
  from assms(2,3) obtain e row where "audit_events d' = audit_events d @ [e]" "outbox d' = outbox d @ [row]"
    "carries row e" "ob_status row = ''pending''" "ob_id row \<notin> ob_id ` set (outbox d)"
    by (auto simp: left_event_def queued_def)
  with assms(1) show ?thesis
    by (auto simp: trail_ok_def keys_distinct_def list_all_iff list_ex_iff sent_by_def)
qed

lemma list_all2_left: "list_all2 P xs ys \<Longrightarrow> x \<in> set xs \<Longrightarrow> \<exists>y \<in> set ys. P x y"
  by (induction rule: list_all2_induct) auto

lemma list_all2_right: "list_all2 P xs ys \<Longrightarrow> y \<in> set ys \<Longrightarrow> \<exists>x \<in> set xs. P x y"
  by (induction rule: list_all2_induct) auto

lemma attempt_carries: "attempt_of ma row row' \<Longrightarrow> carries row' e = carries row e"
  by (simp add: attempt_of_def carries_def)

lemma attempt_service: "attempt_of ma row row' \<Longrightarrow> ob_service row' = ob_service row"
  by (simp add: attempt_of_def)

lemma trail_ok_dispatch:
  assumes ok: "trail_ok taken d" and sink: "sink \<noteq> DisabledAuditSink"
    and run: "dispatch_audit_outbox_batch (emit_audit write post sink) ''control_plane'' mb ma taken d = (r, taken', d')"
  shows "trail_ok taken' d'"
proof -
  let ?b = "batch_rows ''control_plane'' mb ma (outbox d)"
  have kd: "keys_distinct ob_id (outbox d)" using ok by (simp add: trail_ok_def)
  note b = batch_rows_ok [OF kd, where mb = mb and ma = ma and service = "''control_plane''"]
  obtain x where dr: "dispatch_rows (emit_audit write post sink) ma taken (outbox d) ?b 0 0 = (x, taken')"
    using run by (auto simp: dispatch_audit_outbox_batch_def Let_def split: prod.split_asm sum.split_asm)
  note takes = dispatch_rows_takes [OF dr]
  have payload: "ob_payload row \<in> audit_event_dict ` set (audit_events d)" if "row \<in> set ?b" for row
  proof -
    from that b(2,3) have "row \<in> set (outbox d)" "ob_service row = ''control_plane''"
      by (auto simp: list_all_iff eligible_def)
    with ok obtain e where "e \<in> set (audit_events d)" "carries row e"
      by (auto simp: trail_ok_def list_all_iff list_ex_iff)
    then show ?thesis by (auto simp: carries_def)
  qed
  with takes ok have within: "set taken' \<subseteq> audit_event_dict ` set (audit_events d)"
    by (auto simp: trail_ok_def)
  show ?thesis
  proof (cases x)
    case (Inl e)
    with dr run have "d' = d" by (auto simp: dispatch_audit_outbox_batch_def Let_def)
    with ok takes within show ?thesis by (auto simp: trail_ok_def list_all_iff)
  next
    case (Inr y)
    obtain t sent failed where y: "y = (t, sent, failed)" by (metis prod_cases3)
    with dr run Inr have d': "d' = d\<lparr>outbox := t\<rparr>" by (auto simp: dispatch_audit_outbox_batch_def Let_def)
    note dr' = dr [unfolded Inr y]
    have rel: "list_all2 (\<lambda>e e'. e' = e \<or> e \<in> set ?b \<and> attempt_of ma e e') (outbox d) t"
      by (rule dispatch_rows_rel [OF dr' kd b])
    have fwd: "\<exists>row' \<in> set t. carries row' e" if "row \<in> set (outbox d)" "carries row e" for row e
      using list_all2_left [OF rel] that attempt_carries by blast
    have bwd: "\<exists>row \<in> set (outbox d). (\<forall>e. carries row' e = carries row e) \<and> ob_service row' = ob_service row"
      if "row' \<in> set t" for row'
    proof -
      from list_all2_right [OF rel that] obtain row where "row \<in> set (outbox d)"
        and "row' = row \<or> attempt_of ma row row'" by blast
      then show ?thesis using attempt_carries attempt_service by metis
    qed
    have sent: "ob_payload row \<in> set taken'" if "row \<in> set t" "sent_by row" for row
      using dispatch_rows_taken [OF dr' sink b(3)] that ok takes
      by (auto simp: trail_ok_def list_all_iff sent_by_def)
    have "keys_distinct ob_id t" using dispatch_rows_work [OF dr' kd b] by simp
    moreover have "\<forall>e \<in> set (audit_events d). \<exists>row \<in> set t. carries row e"
      using ok fwd by (simp add: trail_ok_def list_all_iff list_ex_iff) blast
    moreover have "\<forall>row \<in> set t. ob_service row = ''control_plane'' \<longrightarrow> (\<exists>e \<in> set (audit_events d). carries row e)"
    proof (intro ballI impI)
      fix row' assume "row' \<in> set t" "ob_service row' = ''control_plane''"
      with bwd obtain row where "row \<in> set (outbox d)" "\<forall>e. carries row' e = carries row e"
        "ob_service row = ''control_plane''" by metis
      with ok show "\<exists>e \<in> set (audit_events d). carries row' e" by (simp add: trail_ok_def list_all_iff list_ex_iff)
    qed
    ultimately show ?thesis using within sent by (simp add: trail_ok_def d' list_all_iff list_ex_iff)
  qed
qed

lemma trail_ok_after_commit:
  assumes "trail_ok (se_emitted s) (se_db s)" "cs_sink cfg \<noteq> DisabledAuditSink"
  shows "trail_ok (se_emitted (after_commit cfg s)) (se_db (after_commit cfg s))"
  using assms(1) trail_ok_dispatch [OF assms]
  by (auto simp: after_commit_def split: prod.split)

lemma trail_ok_request:
  assumes ok: "trail_ok (se_emitted (app_session a)) (db_of a)"
    and cfg: "cs_audit_mode (ac_settings app) \<noteq> ''inline''" "cs_sink (ac_settings app) \<noteq> DisabledAuditSink"
    and run: "process_request app env http ep a = (response, a')"
  shows "trail_ok (se_emitted (app_session a')) (db_of a')"
  using run
proof (cases rule: process_request_cases)
  case (failed rq s0 e s1)
  with handle_silent [of app env rq ep] cfg(1) have "se_emitted s1 = se_emitted s0" by (auto simp: sends_nothing_def)
  with failed ok show ?thesis by (simp add: db_of_def)
next
  case (replied rq s0 r s1)
  with handle_silent [of app env rq ep] cfg(1) have same: "se_emitted s1 = se_emitted (app_session a)"
    by (auto simp: sends_nothing_def)
  from handle_reply [OF replied(4)] have "trail_ok (se_emitted (app_session a)) (se_db s1)"
    using ok replied(1) trail_ok_left [OF _ _ cfg(1)] by (elim disjE exE conjE) auto
  with same have "trail_ok (se_emitted s1) (se_db s1)" by simp
  from trail_ok_after_commit [OF this cfg(2)] replied(5) show ?thesis by (simp add: db_of_def)
qed

lemma trail_ok_run:
  assumes "(app_step app env)\<^sup>*\<^sup>* a a'" "trail_ok (se_emitted (app_session a)) (db_of a)"
    and "cs_audit_mode (ac_settings app) \<noteq> ''inline''" "cs_sink (ac_settings app) \<noteq> DisabledAuditSink"
  shows "trail_ok (se_emitted (app_session a')) (db_of a')"
  using assms(1)
proof (induction rule: rtranclp_induct)
  case (step b c)
  from step.hyps(2) obtain http ep response where "process_request app env http ep b = (response, c)"
    by (auto elim: app_step.cases)
  from trail_ok_request [OF step.IH assms(3,4) this] show ?case .
qed (fact assms(2))

lemma trail_ok_fresh: "audit_events d = [] \<Longrightarrow> outbox d = [] \<Longrightarrow> trail_ok [] d"
  by (simp add: trail_ok_def keys_distinct_def)

text \<open>
  C11. Through any run of requests from an empty audit trail, with the outbox in front of an enabled
  sink, whatever the sink and the requests do (errors, denials and rollbacks included): every event
  recorded has been taken by the sink or is carried by a row that is still queued or has failed
  for good, and the sink holds nothing but recorded events; a request that was rolled back is
  never reported.
\<close>

theorem every_event_reaches_the_sink:
  assumes "(app_step app env)\<^sup>*\<^sup>* a a'"
    and "audit_events (db_of a) = []" "outbox (db_of a) = []" "se_emitted (app_session a) = []"
    and "cs_audit_mode (ac_settings app) \<noteq> ''inline''" "cs_sink (ac_settings app) \<noteq> DisabledAuditSink"
  shows "(\<forall>e \<in> set (audit_events (db_of a')). audit_event_dict e \<in> set (se_emitted (app_session a')) \<or>
      list_ex (\<lambda>row. carries row e \<and> \<not> sent_by row) (outbox (db_of a'))) \<and>
    set (se_emitted (app_session a')) \<subseteq> audit_event_dict ` set (audit_events (db_of a'))"
proof -
  have "trail_ok (se_emitted (app_session a)) (db_of a)" using assms(2-4) trail_ok_fresh by simp
  from trail_ok_run [OF assms(1) this assms(5,6)] show ?thesis
    unfolding trail_ok_def by (fastforce simp: list_all_iff list_ex_iff carries_def)
qed

definition demo_app :: app_config where
  "demo_app = \<lparr>ac_settings = \<lparr>cs_storage_root = ''/data'', cs_audit_mode = ''outbox'',
       cs_sink = WebhookAuditSink ''http://sink'', cs_write = (\<lambda>_ _. None), cs_post = (\<lambda>_ _. None), cs_batch = 10,
       cs_max_attempts = 3, cs_deletion_enabled = True, cs_purge_root = None, cs_canary = False,
       cs_secrets = LocalEncryptedSecretsStore ''/secrets'' ''key'', cs_vault = (\<lambda>_ _. None), cs_float = (\<lambda>v. Inr v)\<rparr>,
     ac_auth = \<lparr>as_mode = ''local'', as_claims_header = ''x-claims'', as_required_issuer = None,
       as_required_audience = None, as_actor_id_claim = ''sub'', as_roles_claim = ''roles'', as_attributes_claim = ''attributes'',
       as_allowed_algs = [], as_clock_skew_seconds = 0, as_jwks_url = None, as_jwks_cache_ttl_seconds = 60\<rparr>,
     ac_tokens = DEFAULT_LOCAL_AUTH_TOKENS, ac_plugins = Inr [], ac_recommend = (\<lambda>_. Inr [])\<rparr>"

definition demo_http :: auth_env where
  "demo_http = \<lparr>ae_headers = (\<lambda>n. if n = ''authorization'' then Some ''Bearer local-platform-admin-token'' else None),
     ae_loads = (\<lambda>_. None), ae_hmac = (\<lambda>_ _ _. []), ae_fetch = (\<lambda>_. None), ae_now_us = 0\<rparr>"

definition demo_start :: cp_app where
  "demo_start = \<lparr>app_session = demo_session, app_jwks = []\<rparr>"

definition demo_after :: cp_app where
  "demo_after = snd (process_request demo_app demo_cp_env demo_http (Change (CreateWorkspace ''n'' ''starter'' ''standard'')) demo_start)"

lemma demo_after_events: "map ae_type (audit_events (db_of demo_after)) = [''workspace.created'']"
  by code_simp

theorem every_event_reaches_the_sink_witness:
  "\<exists>e. audit_events (db_of demo_after) = [e] \<and> (audit_event_dict e \<in> set (se_emitted (app_session demo_after)) \<or>
      list_ex (\<lambda>row. carries row e \<and> \<not> sent_by row) (outbox (db_of demo_after)))"
proof -
  have "app_step demo_app demo_cp_env demo_start demo_after"
    unfolding demo_after_def by (rule app_step.request [OF prod.collapse [symmetric]])
  then have run: "(app_step demo_app demo_cp_env)\<^sup>*\<^sup>* demo_start demo_after" by simp
  from demo_after_events obtain e where e: "audit_events (db_of demo_after) = [e]" by auto
  have "audit_events (db_of demo_start) = []" "outbox (db_of demo_start) = []" "se_emitted (app_session demo_start) = []"
    "cs_audit_mode (ac_settings demo_app) \<noteq> ''inline''" "cs_sink (ac_settings demo_app) \<noteq> DisabledAuditSink"
    by (simp_all add: demo_start_def demo_session_def db_of_def empty_db_def demo_app_def)
  from every_event_reaches_the_sink [OF run this] e show ?thesis by auto
qed

definition demo_steward_request :: cp_request where
  "demo_steward_request = \<lparr>rq_id = ''r'', rq_actor = Inr (Some (local_actor ''user:eve'' ''human'' ''data_steward'' []))\<rparr>"

definition demo_publish :: "reply res \<times> cp_session" where
  "demo_publish = api_publish_build (ac_settings demo_app) demo_cp_env demo_steward_request ''w'' ''b'' [] demo_session"

lemma demo_publish_replies: "case fst demo_publish of Inl _ \<Rightarrow> False | Inr _ \<Rightarrow> True"
  by code_simp

theorem failed_contracts_block_the_workspace_witness:
  "se_gold (snd demo_publish) = gold_store_empty \<and> \<not> gate_passed (ac_settings demo_app) ''w'' ''b2'' (snd demo_publish)"
proof -
  from demo_publish_replies obtain r s' where p: "demo_publish = (Inr r, s')"
    by (cases "fst demo_publish") (simp, metis prod.collapse)
  have "\<not> (case load_build_contract_report ''w'' ''b'' (cs_storage_root (ac_settings demo_app)) demo_session of
      Inr (Some report) \<Rightarrow> ct_passed report | _ \<Rightarrow> False)"
    by code_simp
  from failed_contracts_block_the_workspace [OF p [unfolded demo_publish_def] this] show ?thesis
    by (simp add: p demo_session_def)
qed

end
