(* ===== verification/Floats.thy ===== *)
theory Floats
  imports Complex_Main Py
begin

text \<open>
  The floating-point numbers of the source language: IEEE doubles with rounding to nearest, ties
  to even, as exact rationals with infinities and nan (the sign of zero is not kept). The
  operations are the exact ones followed by one rounding; \<open>repr\<close> is the shortest decimal that
  rounds back, \<open>round(x, n)\<close> and \<open>format(x, '.nf')\<close> round the exact value to \<open>n\<close> decimals.
\<close>

section \<open>Rounding to an integer\<close>

definition half_even :: "rat \<Rightarrow> int" where
  "half_even x = (let f = \<lfloor>x\<rfloor>; r = x - of_int f
     in if r < 1 / 2 then f else if 1 / 2 < r then f + 1 else if even f then f else f + 1)"

lemma half_even_of_int [simp]: "half_even (of_int n) = n"
  by (simp add: half_even_def)

lemma half_even_mono: "x \<le> y \<Longrightarrow> half_even x \<le> half_even y"
proof -
  assume le: "x \<le> y"
  then have fl: "\<lfloor>x\<rfloor> \<le> \<lfloor>y\<rfloor>" by (rule floor_mono)
  have near: "\<lfloor>z\<rfloor> \<le> half_even z \<and> half_even z \<le> \<lfloor>z\<rfloor> + 1" for z
    by (auto simp: half_even_def Let_def)
  show ?thesis
  proof (cases "\<lfloor>x\<rfloor> = \<lfloor>y\<rfloor>")
    case True
    with le show ?thesis by (auto simp: half_even_def Let_def)
  next
    case False
    with fl near [of x] near [of y] show ?thesis by linarith
  qed
qed

section \<open>Rounding to a double\<close>

definition pow2 :: "int \<Rightarrow> rat" where
  "pow2 k = (if 0 \<le> k then 2 ^ nat k else 1 / 2 ^ nat (- k))"

definition pow10 :: "int \<Rightarrow> rat" where
  "pow10 k = (if 0 \<le> k then 10 ^ nat k else 1 / 10 ^ nat (- k))"

text \<open>The number of binary digits, and the decimal digits, of a number that is not negative.\<close>

function bits :: "int \<Rightarrow> int" where
  "bits n = (if n \<le> 0 then 0 else bits (n div 2) + 1)"
  by pat_completeness auto
termination
  by (relation "measure nat") auto

function digits :: "int \<Rightarrow> string" where
  "digits n = (if n < 10 then [char_of (48 + nat n)] else digits (n div 10) @ [char_of (48 + nat (n mod 10))])"
  by pat_completeness auto
termination
  by (relation "measure nat") auto

declare bits.simps [simp del] digits.simps [simp del]

text \<open>The binary exponent of a positive rational.\<close>

definition exponent2 :: "rat \<Rightarrow> int" where
  "exponent2 x = (case quotient_of x of (n, d) \<Rightarrow>
     let e = bits n - bits d in if pow2 e \<le> x then e else e - 1)"

text \<open>The unit in the last place: 52 bits after the leading one, and at least that of a subnormal.\<close>

definition ulp :: "rat \<Rightarrow> rat" where
  "ulp x = pow2 (max (exponent2 x) (-1022) - 52)"

definition fl_pos :: "rat \<Rightarrow> rat" where
  "fl_pos x = of_int (half_even (x / ulp x)) * ulp x"

definition fl :: "rat \<Rightarrow> rat" where
  "fl x = (if x = 0 then 0 else if x < 0 then - fl_pos (- x) else fl_pos x)"

datatype pyfloat = Fin rat | PosInf | NegInf | NaN

definition to_double :: "rat \<Rightarrow> pyfloat" where
  "to_double x = (let r = fl x
     in if exponent2 \<bar>r\<bar> \<le> 1023 then Fin r else if r < 0 then NegInf else PosInf)"

section \<open>Arithmetic\<close>

fun fneg :: "pyfloat \<Rightarrow> pyfloat" where
  "fneg (Fin x) = Fin (- x)"
| "fneg PosInf = NegInf"
| "fneg NegInf = PosInf"
| "fneg NaN = NaN"

fun fadd :: "pyfloat \<Rightarrow> pyfloat \<Rightarrow> pyfloat" where
  "fadd (Fin x) (Fin y) = to_double (x + y)"
| "fadd NaN _ = NaN"
| "fadd _ NaN = NaN"
| "fadd PosInf NegInf = NaN"
| "fadd NegInf PosInf = NaN"
| "fadd PosInf _ = PosInf"
| "fadd _ PosInf = PosInf"
| "fadd NegInf _ = NegInf"
| "fadd _ NegInf = NegInf"

definition fsub :: "pyfloat \<Rightarrow> pyfloat \<Rightarrow> pyfloat" where
  "fsub x y = fadd x (fneg y)"

definition signed_inf :: "bool \<Rightarrow> pyfloat" where
  "signed_inf negative = (if negative then NegInf else PosInf)"

fun fmul :: "pyfloat \<Rightarrow> pyfloat \<Rightarrow> pyfloat" where
  "fmul (Fin x) (Fin y) = to_double (x * y)"
| "fmul NaN _ = NaN"
| "fmul _ NaN = NaN"
| "fmul (Fin x) i = (if x = 0 then NaN else signed_inf ((i = NegInf) \<noteq> (x < 0)))"
| "fmul i (Fin x) = (if x = 0 then NaN else signed_inf ((i = NegInf) \<noteq> (x < 0)))"
| "fmul i j = signed_inf (i \<noteq> j)"

text \<open>Division; by zero it raises.\<close>

fun fdiv :: "pyfloat \<Rightarrow> pyfloat \<Rightarrow> pyfloat res" where
  "fdiv x (Fin y) = (if y = 0 then Inl (OtherError ''ZeroDivisionError'') else Inr (case x of
       Fin a \<Rightarrow> to_double (a / y) | PosInf \<Rightarrow> signed_inf (y < 0) | NegInf \<Rightarrow> signed_inf (\<not> y < 0) | NaN \<Rightarrow> NaN))"
| "fdiv (Fin x) PosInf = Inr (Fin 0)"
| "fdiv (Fin x) NegInf = Inr (Fin 0)"
| "fdiv _ _ = Inr NaN"

text \<open>The quotient of two counts that are not negative; the callers never divide by zero.\<close>

definition ratio :: "nat \<Rightarrow> nat \<Rightarrow> pyfloat" where
  "ratio a b = to_double (of_nat a / of_nat b)"

fun fless :: "pyfloat \<Rightarrow> pyfloat \<Rightarrow> bool" where
  "fless (Fin x) (Fin y) \<longleftrightarrow> x < y"
| "fless NaN _ \<longleftrightarrow> False"
| "fless _ NaN \<longleftrightarrow> False"
| "fless NegInf y \<longleftrightarrow> y \<noteq> NegInf"
| "fless PosInf _ \<longleftrightarrow> False"
| "fless _ PosInf \<longleftrightarrow> True"
| "fless _ NegInf \<longleftrightarrow> False"

definition fle :: "pyfloat \<Rightarrow> pyfloat \<Rightarrow> bool" where
  "fle x y \<longleftrightarrow> fless x y \<or> x = y \<and> x \<noteq> NaN"

text \<open>\<open>min(a, b)\<close> and \<open>max(a, b)\<close> keep the first argument unless the second is strictly better.\<close>

definition fmin :: "pyfloat \<Rightarrow> pyfloat \<Rightarrow> pyfloat" where
  "fmin a b = (if fless b a then b else a)"

definition fmax :: "pyfloat \<Rightarrow> pyfloat \<Rightarrow> pyfloat" where
  "fmax a b = (if fless a b then b else a)"

text \<open>A literal of the source with its decimals, e.g. \<open>flit 5 2\<close> for \<open>0.05\<close>.\<close>

definition flit :: "nat \<Rightarrow> nat \<Rightarrow> pyfloat" where
  "flit m decimals = to_double (of_nat m / 10 ^ decimals)"

section \<open>Rounding is monotone\<close>

lemma pow2_powi: "pow2 k = 2 powi k"
  by (simp add: pow2_def power_int_def inverse_eq_divide power_one_over)

lemma pow2_pos [simp]: "0 < pow2 k"
  by (simp add: pow2_def)

lemma pow2_add: "pow2 (a + b) = pow2 a * pow2 b"
  by (simp add: pow2_powi power_int_add)

lemma pow2_Suc: "pow2 (k + 1) = 2 * pow2 k"
  by (simp add: pow2_add) (simp add: pow2_def)

lemma pow2_divide: "pow2 (a - b) = pow2 a / pow2 b"
proof -
  have "pow2 a = pow2 (a - b) * pow2 b" by (simp add: pow2_add [symmetric])
  then show ?thesis using pow2_pos [of b] by (metis less_irrefl nonzero_mult_div_cancel_right)
qed

lemma pow2_strict: "a < b \<Longrightarrow> pow2 a < pow2 b"
  unfolding pow2_powi by (rule power_int_strict_increasing) simp_all

lemma pow2_less_iff: "pow2 a < pow2 b \<longleftrightarrow> a < b"
  using pow2_strict [of a b] pow2_strict [of b a] by (cases a b rule: linorder_cases) auto

lemma pow2_le_iff: "pow2 a \<le> pow2 b \<longleftrightarrow> a \<le> b"
  using pow2_less_iff [of b a] by (simp add: not_less [symmetric])

lemma bits_bounds: "0 < n \<Longrightarrow> pow2 (bits n - 1) \<le> of_int n \<and> of_int n < pow2 (bits n)"
proof (induction n rule: bits.induct)
  case (1 n)
  show ?case
  proof (cases "n = 1")
    case True
    then have "bits n = 1" by (simp add: bits.simps)
    with True show ?thesis by (simp add: pow2_def)
  next
    case False
    with 1 have half: "pow2 (bits (n div 2) - 1) \<le> of_int (n div 2) \<and> of_int (n div 2) < pow2 (bits (n div 2))"
      by simp
    have b: "bits n = bits (n div 2) + 1" using 1(2) by (subst bits.simps) simp
    have "of_int n = 2 * of_int (n div 2) + (of_int (n mod 2) :: rat)"
      by (metis mult_div_mod_eq of_int_add of_int_mult of_int_numeral)
    moreover have "0 \<le> (of_int (n mod 2) :: rat)" "(of_int (n mod 2) :: rat) \<le> 1" by auto
    moreover have "pow2 (bits n - 1) = 2 * pow2 (bits (n div 2) - 1)" "pow2 (bits n) = 2 * pow2 (bits (n div 2))"
      using pow2_Suc [of "bits (n div 2) - 1"] pow2_Suc [of "bits (n div 2)"] by (simp_all add: b)
    moreover have "of_int (n div 2) + 1 \<le> pow2 (bits (n div 2))"
    proof -
      have "0 \<le> bits m" for m by (induction m rule: bits.induct) (subst bits.simps, auto)
      then have p: "pow2 (bits (n div 2)) = of_int (2 ^ nat (bits (n div 2)))" by (simp add: pow2_def)
      with half have "n div 2 < 2 ^ nat (bits (n div 2))" by (simp only: of_int_less_iff)
      then have "(of_int (n div 2 + 1) :: rat) \<le> of_int (2 ^ nat (bits (n div 2)))" by (simp only: of_int_le_iff zless_imp_add1_zle)
      with p show ?thesis by simp
    qed
    ultimately show ?thesis using half by linarith
  qed
qed

lemma exponent2_bounds:
  assumes "0 < x"
  shows "pow2 (exponent2 x) \<le> x \<and> x < pow2 (exponent2 x + 1)"
proof -
  obtain n d where q: "quotient_of x = (n, d)" by fastforce
  then have x: "x = of_int n / of_int d" and d: "0 < d" using quotient_of_div quotient_of_denom_pos by auto
  with assms have n: "0 < n" by (simp add: zero_less_divide_iff)
  let ?e = "bits n - bits d"
  note bn = bits_bounds [OF n] and bd = bits_bounds [OF d]
  have "x < pow2 (bits n) / pow2 (bits d - 1)" unfolding x
    using bn bd d n by (intro frac_less) auto
  also have "\<dots> = pow2 (?e + 1)" by (simp add: pow2_divide [symmetric] algebra_simps)
  finally have upper: "x < pow2 (?e + 1)" .
  have "pow2 (?e - 1) = pow2 (bits n - 1) / pow2 (bits d)"
    by (simp add: pow2_divide [symmetric] algebra_simps)
  also have "\<dots> \<le> x" unfolding x using bn bd d n by (intro frac_le) auto
  finally show ?thesis using upper q by (auto simp: exponent2_def Let_def)
qed

lemma exponent2_unique: "0 < x \<Longrightarrow> pow2 e \<le> x \<Longrightarrow> x < pow2 (e + 1) \<Longrightarrow> exponent2 x = e"
  using exponent2_bounds [of x] pow2_less_iff [of e "exponent2 x + 1"] pow2_less_iff [of "exponent2 x" "e + 1"]
  by fastforce

lemma exponent2_mono:
  assumes "0 < x" "x \<le> y" shows "exponent2 x \<le> exponent2 y"
proof -
  have "pow2 (exponent2 x) < pow2 (exponent2 y + 1)"
    using exponent2_bounds [OF assms(1)] exponent2_bounds [of y] assms by linarith
  then show ?thesis by (simp add: pow2_less_iff)
qed

lemma half_even_int_le: "x \<le> of_int n \<Longrightarrow> half_even x \<le> n"
  using half_even_mono [of x "of_int n"] by simp

lemma half_even_int_ge: "of_int n \<le> x \<Longrightarrow> n \<le> half_even x"
  using half_even_mono [of "of_int n" x] by simp

lemma ulp_pos [simp]: "0 < ulp x" "0 \<le> ulp x"
  by (simp_all add: ulp_def less_imp_le)

lemma fl_pos_exact:
  assumes "x = of_int n * ulp x"
  shows "fl_pos x = x"
proof -
  have "x / ulp x = of_int n" using assms ulp_pos(1) [of x] by (metis less_irrefl nonzero_mult_div_cancel_right)
  then show ?thesis using assms by (simp add: fl_pos_def)
qed

lemma fl_pos_mono:
  assumes "0 < x" "x \<le> y"
  shows "fl_pos x \<le> fl_pos y"
proof (cases "ulp x = ulp y")
  case True
  have "x / ulp x \<le> y / ulp x" using assms(2) ulp_pos(1) [of x] by (intro divide_right_mono) simp_all
  then show ?thesis using half_even_mono ulp_pos(1) [of y] True by (auto simp: fl_pos_def mult_right_mono)
next
  case False
  let ?e = "exponent2 x" and ?g = "exponent2 y"
  have eg: "?e \<le> ?g" by (rule exponent2_mono [OF assms])
  moreover from False have "max ?e (-1022) \<noteq> max ?g (-1022)" by (auto simp: ulp_def)
  ultimately have lt: "max ?e (-1022) < max ?g (-1022)" by linarith
  let ?top = "pow2 (max ?e (-1022) + 1)"
  have "x < pow2 (?e + 1)" using exponent2_bounds [OF assms(1)] by blast
  also have "\<dots> \<le> ?top" by (simp add: pow2_le_iff)
  finally have "x \<le> ?top" by simp
  moreover have "?top = of_int (2 ^ 53) * ulp x"
    using pow2_add [of "max ?e (-1022) - 52" 53] by (simp add: ulp_def pow2_def [of 53] mult.commute add.commute)
  ultimately have "x / ulp x \<le> of_int (2 ^ 53)" using ulp_pos(1) [of x] by (simp add: pos_divide_le_eq)
  from half_even_int_le [OF this] have "fl_pos x \<le> of_int (2 ^ 53) * ulp x"
    unfolding fl_pos_def using ulp_pos(1) [of x] by (intro mult_right_mono) (simp_all only: of_int_le_iff less_imp_le)
  also have "\<dots> = ?top" using \<open>?top = _\<close> by simp
  also have "\<dots> \<le> pow2 ?g" unfolding pow2_le_iff using lt by linarith
  also have "\<dots> \<le> fl_pos y"
  proof -
    have g: "max ?g (-1022) = ?g" using lt by linarith
    have "pow2 ?g = of_int (2 ^ 52) * ulp y"
      using pow2_add [of "?g - 52" 52] by (simp add: ulp_def g pow2_def [of 52])
    moreover have "pow2 ?g \<le> y" using exponent2_bounds [of y] assms by simp
    ultimately have "of_int (2 ^ 52) \<le> y / ulp y" using ulp_pos(1) [of y] by (simp add: pos_le_divide_eq)
    from half_even_int_ge [OF this] have "of_int (2 ^ 52) * ulp y \<le> fl_pos y"
      unfolding fl_pos_def using ulp_pos(1) [of y] by (intro mult_right_mono) (simp_all only: of_int_le_iff less_imp_le)
    with \<open>pow2 ?g = _\<close> show ?thesis by simp
  qed
  finally show ?thesis .
qed

lemma fl_pos_nonneg: "0 < x \<Longrightarrow> 0 \<le> fl_pos x"
  using half_even_int_ge [of 0 "x / ulp x"] ulp_pos(1) [of x] by (simp add: fl_pos_def)

lemma fl_mono: "x \<le> y \<Longrightarrow> fl x \<le> fl y"
  using fl_pos_mono [of x y] fl_pos_mono [of "- y" "- x"] fl_pos_nonneg [of y] fl_pos_nonneg [of "- x"]
  by (auto simp: fl_def)

lemma fl_0 [simp]: "fl 0 = 0"
  by (simp add: fl_def)

lemma fl_1 [simp]: "fl 1 = 1"
proof -
  have "exponent2 1 = 0" by (rule exponent2_unique) (simp_all add: pow2_def)
  then have "ulp 1 = 1 / 2 ^ 52" by (simp add: ulp_def pow2_def)
  then show ?thesis using fl_pos_exact [of 1 "2 ^ 52"] by (simp add: fl_def)
qed

lemma to_double_unit:
  assumes "0 \<le> x" "x \<le> 1"
  obtains r where "to_double x = Fin r" "0 \<le> r" "r \<le> 1" "r = fl x"
proof -
  have b: "0 \<le> fl x" "fl x \<le> 1" using fl_mono [OF assms(1)] fl_mono [OF assms(2)] by simp_all
  have "exponent2 \<bar>fl x\<bar> \<le> 1023"
  proof (cases "fl x = 0")
    case True
    then show ?thesis by (simp add: exponent2_def Let_def bits.simps)
  next
    case False
    with b have "0 < \<bar>fl x\<bar>" "\<bar>fl x\<bar> \<le> 1" by auto
    from exponent2_mono [OF this] show ?thesis by (simp add: exponent2_unique [of 1 0] pow2_def)
  qed
  with b that show thesis by (simp add: to_double_def Let_def)
qed

text \<open>A ratio of two counts is a number between 0 and 1.\<close>

definition in_unit :: "pyfloat \<Rightarrow> bool" where
  "in_unit x \<longleftrightarrow> (\<exists>r. x = Fin r \<and> 0 \<le> r \<and> r \<le> 1)"

lemma ratio_in_unit: "a \<le> b \<Longrightarrow> in_unit (ratio a b)"
proof -
  assume "a \<le> b"
  then have "0 \<le> (of_nat a / of_nat b :: rat)" "of_nat a / of_nat b \<le> (1 :: rat)"
    by (cases "b = 0"; simp add: divide_le_eq_1)+
  from to_double_unit [OF this] show ?thesis unfolding in_unit_def ratio_def by metis
qed

lemma ratio_mono: "a \<le> a' \<Longrightarrow> a' \<le> b \<Longrightarrow> ratio a b = Fin r \<Longrightarrow> ratio a' b = Fin r' \<Longrightarrow> r \<le> r'"
  using fl_mono [of "of_nat a / of_nat b" "of_nat a' / of_nat b"]
  by (auto simp: ratio_def to_double_def Let_def divide_right_mono split: if_split_asm)

lemma ratio_one [simp]: "0 < b \<Longrightarrow> ratio b b = Fin 1"
  using to_double_unit [of 1] by (simp add: ratio_def) (metis fl_1)

lemma ratio_zero [simp]: "ratio 0 b = Fin 0"
  using to_double_unit [of 0] by (simp add: ratio_def) (metis fl_0)

section \<open>Decimal texts\<close>

definition round_decimals :: "nat \<Rightarrow> rat \<Rightarrow> rat" where
  "round_decimals n x = of_int (half_even (x * 10 ^ n)) / 10 ^ n"

text \<open>\<open>round(x, n)\<close>\<close>

fun fround :: "nat \<Rightarrow> pyfloat \<Rightarrow> pyfloat" where
  "fround n (Fin x) = to_double (round_decimals n x)"
| "fround n x = x"

definition pad_left :: "nat \<Rightarrow> char \<Rightarrow> string \<Rightarrow> string" where
  "pad_left n c s = replicate (n - length s) c @ s"

text \<open>\<open>format(x, '.nf')\<close>\<close>

definition fixed :: "nat \<Rightarrow> rat \<Rightarrow> string" where
  "fixed n x = (let ds = pad_left (Suc n) (CHR ''0'') (digits \<bar>half_even (x * 10 ^ n)\<bar>);
       whole = take (length ds - n) ds; frac = drop (length ds - n) ds
     in (if x < 0 then ''-'' else []) @ whole @ (if n = 0 then [] else CHR ''.'' # frac))"

fun format_fixed :: "nat \<Rightarrow> pyfloat \<Rightarrow> string" where
  "format_fixed n (Fin x) = fixed n x"
| "format_fixed n PosInf = ''inf''"
| "format_fixed n NegInf = ''-inf''"
| "format_fixed n NaN = ''nan''"

text \<open>The decimal exponent of a positive rational: digits of the whole part, or leading zeros of the fraction.\<close>

fun leading_zeros :: "nat \<Rightarrow> rat \<Rightarrow> int" where
  "leading_zeros 0 x = 0"
| "leading_zeros (Suc fuel) x = (if x \<ge> 1 then 0 else leading_zeros fuel (x * 10) - 1)"

definition exponent10 :: "rat \<Rightarrow> int" where
  "exponent10 x = (if x \<ge> 1 then int (length (digits \<lfloor>x\<rfloor>)) - 1 else leading_zeros 400 x)"

definition significant :: "nat \<Rightarrow> rat \<Rightarrow> rat" where
  "significant n x = (let u = pow10 (exponent10 x - int n + 1) in of_int (half_even (x / u)) * u)"

text \<open>The shortest decimal that rounds to a positive double; 17 digits always suffice.\<close>

definition shortest :: "rat \<Rightarrow> rat" where
  "shortest x = (case find (\<lambda>n. fl (significant n x) = x) [1..<17] of Some n \<Rightarrow> significant n x | None \<Rightarrow> significant 17 x)"

definition strip_zeros :: "string \<Rightarrow> string" where
  "strip_zeros s = rev (dropWhile (\<lambda>c. c = CHR ''0'') (rev s))"

definition repr_digits :: "rat \<Rightarrow> string" where
  "repr_digits d = strip_zeros (digits (half_even (d / pow10 (exponent10 d - 16))))"

definition float_repr_pos :: "rat \<Rightarrow> string" where
  "float_repr_pos x = (let d = shortest x; k = exponent10 d; ds = repr_digits d
     in if k < -4 \<or> 16 \<le> k
        then (take 1 ds) @ (if length ds > 1 then CHR ''.'' # drop 1 ds else []) @
             (if k < 0 then ''e-'' else ''e+'') @ pad_left 2 (CHR ''0'') (digits \<bar>k\<bar>)
        else if k < 0 then ''0.'' @ replicate (nat (- k) - 1) (CHR ''0'') @ ds
        else let padded = ds @ replicate (nat k + 1 - length ds) (CHR ''0'');
                 frac = drop (nat k + 1) padded
             in take (nat k + 1) padded @ CHR ''.'' # (if frac = [] then ''0'' else frac))"

definition float_repr :: "rat \<Rightarrow> string" where
  "float_repr x = (if x = 0 then ''0.0'' else if x < 0 then CHR ''-'' # float_repr_pos (- x) else float_repr_pos x)"

definition truncate :: "rat \<Rightarrow> int" where
  "truncate x = (if x < 0 then - \<lfloor>- x\<rfloor> else \<lfloor>x\<rfloor>)"

text \<open>A float as a dynamic value.\<close>

fun of_float :: "pyfloat \<Rightarrow> pyval" where
  "of_float (Fin x) = PFloat (float_repr x) (Some (truncate x))"
| "of_float PosInf = PFloat ''inf'' None"
| "of_float NegInf = PFloat ''-inf'' None"
| "of_float NaN = PFloat ''nan'' None"

section \<open>Reading a number\<close>

text \<open>Decimal digits with single underscores between them: their value and their number.\<close>

fun digit_run :: "int \<Rightarrow> nat \<Rightarrow> bool \<Rightarrow> string \<Rightarrow> int \<times> nat \<times> bool \<times> string" where
  "digit_run acc n last_digit [] = (acc, n, last_digit, [])"
| "digit_run acc n last_digit (c # s) =
     (if is_digit c then digit_run (acc * 10 + (int (code c) - 48)) (Suc n) True s
      else if c = CHR ''_'' \<and> last_digit then
        (case s of d # s' \<Rightarrow> if is_digit d then digit_run acc n False s else (acc, n, last_digit, c # s) | [] \<Rightarrow> (acc, n, last_digit, c # s))
      else (acc, n, last_digit, c # s))"

definition read_exponent :: "string \<Rightarrow> int option" where
  "read_exponent s = (case s of
     [] \<Rightarrow> Some 0
   | c # r \<Rightarrow>
       if c = CHR ''e'' \<or> c = CHR ''E'' then
         (let (neg, ds) = (case r of d # r' \<Rightarrow> if d = CHR ''-'' then (True, r') else if d = CHR ''+'' then (False, r') else (False, r) | [] \<Rightarrow> (False, r));
              (v, n, _, rest) = digit_run 0 0 False ds
          in if n = 0 \<or> rest \<noteq> [] then None else Some (if neg then - v else v))
       else None)"

definition read_unsigned :: "string \<Rightarrow> rat option" where
  "read_unsigned s =
     (let (whole, n, _, rest) = digit_run 0 0 False s;
          (frac, m, rest') = (case rest of
              c # r \<Rightarrow> if c = CHR ''.'' then (let (f, k, _, r') = digit_run 0 0 False r in (f, k, r')) else (0, 0, rest)
            | [] \<Rightarrow> (0, 0, rest))
      in if n + m = 0 then None
         else map_option (\<lambda>e. (of_int whole + of_int frac / 10 ^ m) * pow10 e) (read_exponent rest'))"

definition read_float :: "string \<Rightarrow> pyfloat option" where
  "read_float s0 =
     (let s = strip s0;
          (neg, body) = (case s of c # r \<Rightarrow> if c = CHR ''-'' then (True, r) else if c = CHR ''+'' then (False, r) else (False, s) | [] \<Rightarrow> (False, s));
          word = lower body
      in if word = ''inf'' \<or> word = ''infinity'' then Some (signed_inf neg)
         else if word = ''nan'' then Some NaN
         else map_option (\<lambda>q. to_double (if neg then - q else q)) (read_unsigned body))"

text \<open>\<open>float(v)\<close>; the text of a dynamic float reads back as its value.\<close>

fun py_float :: "pyval \<Rightarrow> pyfloat res" where
  "py_float (PBool b) = Inr (Fin (if b then 1 else 0))"
| "py_float (PInt i) = (case to_double (of_int i) of Fin x \<Rightarrow> Inr (Fin x) | _ \<Rightarrow> Inl OverflowError)"
| "py_float (PFloat t _) = Inr (case read_float t of Some x \<Rightarrow> x | None \<Rightarrow> NaN)"
| "py_float (PStr s) = (case read_float s of Some x \<Rightarrow> Inr x | None \<Rightarrow> Inl (ValueError ''float''))"
| "py_float _ = Inl TypeError"

text \<open>\<open>float(x) if isinstance(x, (int, float)) else float(s) or the default if s is a str\<close>\<close>

definition as_float :: "pyval \<Rightarrow> pyfloat \<Rightarrow> pyfloat res" where
  "as_float v dflt = (case v of
     PStr s \<Rightarrow> Inr (case read_float s of Some x \<Rightarrow> x | None \<Rightarrow> dflt)
   | PNone \<Rightarrow> Inr dflt | PList _ \<Rightarrow> Inr dflt | PDict _ \<Rightarrow> Inr dflt
   | _ \<Rightarrow> py_float v)"

end
