(* ===== verification/CsvProfile.thy ===== *)
theory CsvProfile
  imports Floats
begin

text \<open>
  Reading and profiling of CSV files (\<open>backend/workers/parsing.py\<close>, \<open>profiler.py\<close>, and the column
  samples of \<open>run_processor.py\<close>): the reader of the \<open>csv\<close> module as a state machine over
  characters, rows as dictionaries over the header, and the statistics of a bounded sample.
\<close>

section \<open>The csv reader\<close>

text \<open>
  The states of the reader: at the start of a record, at the start of a field, inside a plain
  field, inside quotes, and after a quote inside quotes. Lines end with \<open>\r\<close>, \<open>\n\<close> or both.
\<close>

datatype csv_state = StartRecord | StartField | InField | InQuotes | QuoteInQuotes

definition newline_char :: "char \<Rightarrow> bool" where
  "newline_char c \<longleftrightarrow> code c = 10 \<or> code c = 13"

definition quote_char :: "char \<Rightarrow> bool" where
  "quote_char c \<longleftrightarrow> code c = 34"

definition comma :: "char \<Rightarrow> bool" where
  "comma c \<longleftrightarrow> c = CHR '',''"

fun csv_scan :: "csv_state \<Rightarrow> string list \<Rightarrow> string \<Rightarrow> string \<Rightarrow> string list list" where
  "csv_scan st fields field [] =
     (if st = StartRecord then [] else [fields @ [field]])"
| "csv_scan StartRecord fields field (c # s) =
     (if newline_char c then
        (case s of
           d # s' \<Rightarrow> if code c = 13 \<and> code d = 10 then [] # csv_scan StartRecord [] [] s' else [] # csv_scan StartRecord [] [] s
         | [] \<Rightarrow> [[]])
      else if quote_char c then csv_scan InQuotes [] [] s
      else if comma c then csv_scan StartField [[]] [] s
      else csv_scan InField [] [c] s)"
| "csv_scan InQuotes fields field (c # s) =
     (if quote_char c then csv_scan QuoteInQuotes fields field s else csv_scan InQuotes fields (field @ [c]) s)"
| "csv_scan st fields field (c # s) =
     (if newline_char c then
        (case s of
           d # s' \<Rightarrow> if code c = 13 \<and> code d = 10 then (fields @ [field]) # csv_scan StartRecord [] [] s'
                     else (fields @ [field]) # csv_scan StartRecord [] [] s
         | [] \<Rightarrow> [fields @ [field]])
      else if comma c then csv_scan StartField (fields @ [field]) [] s
      else if quote_char c \<and> st = StartField then csv_scan InQuotes fields field s
      else if quote_char c \<and> st = QuoteInQuotes then csv_scan InQuotes fields (field @ [c]) s
      else csv_scan InField fields (field @ [c]) s)"

definition csv_records :: "string \<Rightarrow> string list list" where
  "csv_records text = csv_scan StartRecord [] [] text"

section \<open>Rows over a header\<close>

text \<open>
  \<open>csv.DictReader\<close>: the header is the first record; empty records are skipped; a missing
  field is \<open>None\<close>, and surplus fields are kept under the key \<open>None\<close>.
\<close>

record csv_row =
  cr_fields :: "(string \<times> string option) list"
  cr_surplus :: bool

definition header :: "string list list \<Rightarrow> string list" where
  "header records = (case records of [] \<Rightarrow> [] | h # _ \<Rightarrow> h)"

fun zip_row :: "string list \<Rightarrow> string list \<Rightarrow> (string \<times> string option) list \<Rightarrow> (string \<times> string option) list" where
  "zip_row [] vs d = d"
| "zip_row (k # ks) [] d = zip_row ks [] (dset d k None)"
| "zip_row (k # ks) (v # vs) d = zip_row ks vs (dset d k (Some v))"

definition dict_rows :: "string list list \<Rightarrow> csv_row list" where
  "dict_rows records =
     map (\<lambda>r. \<lparr>cr_fields = zip_row (header records) r [], cr_surplus = length (header records) < length r\<rparr>)
       (filter (\<lambda>r. r \<noteq> []) (tl records))"

definition row_size :: "csv_row \<Rightarrow> nat" where
  "row_size r = length (cr_fields r) + (if cr_surplus r then 1 else 0)"

text \<open>\<open>row.get(column) or ""\<close>\<close>

definition cell :: "csv_row \<Rightarrow> string \<Rightarrow> string" where
  "cell r column = (case dget (cr_fields r) column of Some (Some v) \<Rightarrow> v | _ \<Rightarrow> [])"

section \<open>Files\<close>

text \<open>
  What decoding a file gives: no text, for the first characters already fail, or a text, and
  whether the decoder reached the end of the file or fails behind that text. A file that is not
  there raises when it is opened.
\<close>

datatype decoded = Undecodable | Decoded string bool

type_synonym text_files = "string \<Rightarrow> string \<Rightarrow> decoded option"

definition unicode_error :: exn where
  "unicode_error = ValueError ''UnicodeDecodeError''"

definition no_such_file :: "string \<Rightarrow> exn" where
  "no_such_file path = OSError (''No such file: '' @ path)"

fun open_with :: "text_files \<Rightarrow> string \<Rightarrow> string list \<Rightarrow> (string list list \<times> bool) res" where
  "open_with files path [] = Inl (ValueError (''encoding_unreadable:'' @ as_posix (path_of path)))"
| "open_with files path (enc # encs) =
     (case files enc path of
        None \<Rightarrow> Inl (no_such_file path)
      | Some Undecodable \<Rightarrow> open_with files path encs
      | Some (Decoded text to_end) \<Rightarrow> Inr (csv_records text, to_end))"

definition open_csv_reader_with_fallback :: "text_files \<Rightarrow> string \<Rightarrow> (string list list \<times> bool) res" where
  "open_csv_reader_with_fallback files path = open_with files path [''utf-8'', ''utf-8-sig'', ''latin-1'']"

text \<open>
  The first \<open>limit\<close> rows; a decoding error behind the text is raised by the loop when it asks for
  a row that is not there.
\<close>

definition sample_rows :: "nat \<Rightarrow> csv_row list \<Rightarrow> bool \<Rightarrow> csv_row list res" where
  "sample_rows limit rows to_end =
     (if limit < length rows \<or> to_end then Inr (take limit rows) else Inl unicode_error)"

section \<open>The profile\<close>

record profile_evidence =
  pe_columns :: "string list"
  pe_row_count :: nat
  pe_null_rates :: "(string \<times> pyfloat) list"
  pe_unique_ratio :: "(string \<times> pyfloat) list"
  pe_parse_error_rate :: pyfloat

definition rate :: "nat \<Rightarrow> nat \<Rightarrow> pyfloat" where
  "rate part whole = (if whole = 0 then Fin 0 else ratio part whole)"

fun to_dict_by :: "('a \<Rightarrow> string) \<Rightarrow> ('a \<Rightarrow> 'v) \<Rightarrow> 'a list \<Rightarrow> (string \<times> 'v) list \<Rightarrow> (string \<times> 'v) list" where
  "to_dict_by key f [] d = d"
| "to_dict_by key f (x # xs) d = to_dict_by key f xs (dset d (key x) (f x))"

text \<open>
  \<open>nfkc\<close> is the NFKC normal form; the values of a column are stripped after it. A column
  that the header repeats is counted once for each repetition, as the loop does.
\<close>

definition column_values :: "(string \<Rightarrow> string) \<Rightarrow> csv_row list \<Rightarrow> string \<Rightarrow> string list" where
  "column_values nfkc rows column = map (\<lambda>r. strip (nfkc (cell r column))) rows"

definition null_count :: "(string \<Rightarrow> string) \<Rightarrow> string list \<Rightarrow> csv_row list \<Rightarrow> string \<Rightarrow> nat" where
  "null_count nfkc columns rows column =
     length (filter (\<lambda>c. c = column) columns) * length (filter (\<lambda>v. v = []) (column_values nfkc rows column))"

definition profile_rows :: "(string \<Rightarrow> string) \<Rightarrow> string list \<Rightarrow> csv_row list \<Rightarrow> profile_evidence" where
  "profile_rows nfkc columns rows =
     (let n = length rows
      in \<lparr>pe_columns = columns, pe_row_count = n,
          pe_null_rates = to_dict_by id (\<lambda>c. rate (null_count nfkc columns rows c) n) columns [],
          pe_unique_ratio = to_dict_by id (\<lambda>c. rate (length (remdups (column_values nfkc rows c))) n) columns [],
          pe_parse_error_rate = rate (length (filter (\<lambda>r. row_size r \<noteq> length columns) rows)) n\<rparr>)"

definition profile_csv_file ::
  "text_files \<Rightarrow> (string \<Rightarrow> string) \<Rightarrow> string \<Rightarrow> nat \<Rightarrow> profile_evidence res" where
  "profile_csv_file files nfkc path sample_limit =
     rbind (open_csv_reader_with_fallback files path) (\<lambda>(records, to_end).
     rbind (sample_rows sample_limit (dict_rows records) to_end) (\<lambda>rows.
     Inr (profile_rows nfkc (header records) rows)))"

definition floats_dict :: "(string \<times> pyfloat) list \<Rightarrow> pydict" where
  "floats_dict d = map (\<lambda>(k, x). (k, of_float x)) d"

definition profile_dict :: "profile_evidence \<Rightarrow> pydict" where
  "profile_dict e = [(''schema_columns'', str_py_list (pe_columns e)),
     (''row_count_sampled'', PInt (int (pe_row_count e))), (''null_rates'', PDict (floats_dict (pe_null_rates e))),
     (''unique_ratio'', PDict (floats_dict (pe_unique_ratio e))),
     (''parse_error_rate'', of_float (pe_parse_error_rate e))]"

text \<open>\<open>_read_csv_column_samples\<close>: the stripped values of each column that are not empty, in UTF-8.\<close>

definition read_csv_column_samples :: "text_files \<Rightarrow> string \<Rightarrow> nat \<Rightarrow> (string \<times> string list) list res" where
  "read_csv_column_samples files path sample_limit =
     (case files ''utf-8'' path of
        None \<Rightarrow> Inl (no_such_file path)
      | Some Undecodable \<Rightarrow> Inl unicode_error
      | Some (Decoded text to_end) \<Rightarrow>
          let records = csv_records text; columns = header records
          in rbind (sample_rows sample_limit (dict_rows records) to_end) (\<lambda>rows.
             Inr (to_dict_by id (\<lambda>c. concat (map (\<lambda>r. let v = strip (cell r c)
                    in replicate (if v = [] then 0 else length (filter (\<lambda>k. k = c) columns)) v) rows))
                  columns [])))"

section \<open>Lemmas\<close>

lemma keys_to_dict_by: "set (dkeys (to_dict_by key f xs d)) = key ` set xs \<union> set (dkeys d)"
  by (induction key f xs d rule: to_dict_by.induct) auto

lemma to_dict_by_values:
  "p \<in> set (to_dict_by id f xs d) \<Longrightarrow> p \<in> set d \<or> (\<exists>x \<in> set xs. p = (x, f x))"
proof (induction "id :: string \<Rightarrow> string" f xs d rule: to_dict_by.induct)
  case (2 f x xs d)
  have "q \<in> set (dset e k v) \<Longrightarrow> q \<in> set e \<or> q = (k, v)" for q e k v
    by (induction e k v rule: dset.induct) (auto split: if_splits)
  with 2 show ?case by fastforce
qed simp

lemma rate_in_unit: "part \<le> whole \<Longrightarrow> in_unit (rate part whole)"
  by (simp add: rate_def ratio_in_unit in_unit_def [of "Fin 0"])

lemma zip_row_keys: "set (dkeys (zip_row ks vs d)) = set ks \<union> set (dkeys d)"
  by (induction ks vs d rule: zip_row.induct) auto

lemma zip_row_distinct: "distinct (dkeys d) \<Longrightarrow> distinct (dkeys (zip_row ks vs d))"
  by (induction ks vs d rule: zip_row.induct) auto

lemma dict_row_keys: "r \<in> set (dict_rows records) \<Longrightarrow> set (dkeys (cr_fields r)) = set (header records)"
  by (auto simp: dict_rows_def zip_row_keys) (simp_all add: dkeys_def)

lemma filter_once: "distinct xs \<Longrightarrow> length (filter (\<lambda>y. y = x) xs) \<le> 1"
  by (induction xs) (auto simp: filter_empty_conv)

text \<open>
  The rates of a profile are rates: each lies between 0 and 1, over a sample of at most the limit,
  when the header does not repeat a column.
\<close>

lemma profile_rates:
  assumes "profile_csv_file files nfkc path limit = Inr e" "distinct (pe_columns e)"
  shows "pe_row_count e \<le> limit \<and> in_unit (pe_parse_error_rate e) \<and>
    (\<forall>(c, x) \<in> set (pe_null_rates e) \<union> set (pe_unique_ratio e). c \<in> set (pe_columns e) \<and> in_unit x)"
proof -
  from assms(1) obtain records to_end rows where rows: "sample_rows limit (dict_rows records) to_end = Inr rows"
    and e: "e = profile_rows nfkc (header records) rows"
    by (auto simp: profile_csv_file_def rbind_eq_Inr_iff)
  from rows have n: "length rows \<le> limit" by (auto simp: sample_rows_def split: if_split_asm)
  have once: "length (filter (\<lambda>c'. c' = c) (header records)) \<le> 1" for c
    using assms(2) e by (intro filter_once) (simp add: profile_rows_def Let_def)
  have "null_count nfkc (header records) rows c \<le> length rows" for c
  proof -
    have "length (filter (\<lambda>v. v = []) (column_values nfkc rows c)) \<le> length rows"
      using length_filter_le [of _ "column_values nfkc rows c"] by (simp add: column_values_def)
    with mult_le_mono [OF once this] show ?thesis by (simp add: null_count_def)
  qed
  moreover have "length (remdups (column_values nfkc rows c)) \<le> length rows" for c
    using length_remdups_leq [of "column_values nfkc rows c"] by (simp add: column_values_def)
  ultimately have nulls: "in_unit (rate (null_count nfkc (header records) rows c) (length rows))"
    and uniques: "in_unit (rate (length (remdups (column_values nfkc rows c))) (length rows))" for c
    by (simp_all add: rate_in_unit)
  have "in_unit (pe_parse_error_rate e)" by (simp add: e profile_rows_def Let_def rate_in_unit)
  moreover have "c \<in> set (pe_columns e) \<and> in_unit x" if "(c, x) \<in> set (pe_null_rates e)" for c x
    using to_dict_by_values [of "(c, x)"] that nulls by (fastforce simp: e profile_rows_def Let_def)
  moreover have "c \<in> set (pe_columns e) \<and> in_unit x" if "(c, x) \<in> set (pe_unique_ratio e)" for c x
    using to_dict_by_values [of "(c, x)"] that uniques by (fastforce simp: e profile_rows_def Let_def)
  moreover have "pe_row_count e \<le> limit" using n by (simp add: e profile_rows_def Let_def)
  ultimately show ?thesis by auto
qed

end
