(* ===== verification/Detectors.thy ===== *)
theory Detectors
  imports CsvProfile
begin

text \<open>
  The detectors of the workers: schema drift (\<open>backend/workers/drift.py\<close>), personal data
  (\<open>pii.py\<close>), anomalies of a profile (\<open>anomaly_detection.py\<close>), semantic drift
  (\<open>semantic_drift.py\<close>) and the quality contracts of rows (\<open>contracts.py\<close>).
\<close>

section \<open>Schema drift\<close>

record drift_event =
  de_detected :: bool
  de_severity :: string
  de_added :: "string list"
  de_removed :: "string list"

definition detect_schema_drift :: "string list \<Rightarrow> string list \<Rightarrow> drift_event" where
  "detect_schema_drift previous_columns current_columns =
     (let added = sorted_set (filter (\<lambda>c. c \<notin> set previous_columns) current_columns);
          removed = sorted_set (filter (\<lambda>c. c \<notin> set current_columns) previous_columns);
          changed = added \<noteq> [] \<or> removed \<noteq> []
      in \<lparr>de_detected = changed,
          de_severity = (if changed \<and> removed \<noteq> [] then ''high'' else if changed then ''medium'' else ''none''),
          de_added = added, de_removed = removed\<rparr>)"

definition drift_dict :: "drift_event \<Rightarrow> pydict" where
  "drift_dict e = [(''drift_detected'', PBool (de_detected e)), (''severity'', PStr (de_severity e)),
     (''added_columns'', str_py_list (de_added e)), (''removed_columns'', str_py_list (de_removed e))]"

text \<open>Drift is reported exactly when the sets of columns differ, as high exactly when one is gone.\<close>

lemma drift_reported:
  "let e = detect_schema_drift previous current in
     (de_detected e \<longleftrightarrow> set previous \<noteq> set current) \<and> (de_severity e = ''high'' \<longleftrightarrow> \<not> set previous \<subseteq> set current) \<and>
     set (de_added e) = set current - set previous \<and> set (de_removed e) = set previous - set current"
  by (auto simp: detect_schema_drift_def Let_def filter_empty_conv)

section \<open>Personal data\<close>

text \<open>A pattern that ends in \<open>$\<close> also matches before one newline at the end.\<close>

definition dollar :: "(string \<Rightarrow> bool) \<Rightarrow> string \<Rightarrow> bool" where
  "dollar p s \<longleftrightarrow> p s \<or> (s \<noteq> [] \<and> code (last s) = 10 \<and> p (butlast s))"

definition address_char :: "char \<Rightarrow> bool" where
  "address_char c \<longleftrightarrow> c \<noteq> CHR ''@'' \<and> \<not> is_space c"

text \<open>\<open>[^@\s]+@[^@\s]+\.[^@\s]+\<close>\<close>

definition email_text :: "string \<Rightarrow> bool" where
  "email_text s = (case split1 (CHR ''@'') s of
     (user, Some host) \<Rightarrow> user \<noteq> [] \<and> list_all address_char user \<and> list_all address_char host \<and>
       host \<noteq> [] \<and> CHR ''.'' \<in> set (butlast (tl host))
   | _ \<Rightarrow> False)"

text \<open>\<open>\+?[0-9][0-9\-\s]{6,}\<close>\<close>

definition phone_text :: "string \<Rightarrow> bool" where
  "phone_text s0 = (let s = (case s0 of c # r \<Rightarrow> if c = CHR ''+'' then r else s0 | [] \<Rightarrow> [])
     in case s of [] \<Rightarrow> False | d # r \<Rightarrow> is_digit d \<and> 6 \<le> length r \<and>
       list_all (\<lambda>c. is_digit c \<or> c = CHR ''-'' \<or> is_space c) r)"

definition is_upper_ascii :: "char \<Rightarrow> bool" where
  "is_upper_ascii c \<longleftrightarrow> 65 \<le> code c \<and> code c \<le> 90"

text \<open>\<open>[A-Z]{2}[0-9A-Z]{13,32}\<close>\<close>

definition iban_text :: "string \<Rightarrow> bool" where
  "iban_text s \<longleftrightarrow> 15 \<le> length s \<and> length s \<le> 34 \<and> list_all is_upper_ascii (take 2 s) \<and>
     list_all (\<lambda>c. is_digit c \<or> is_upper_ascii c) (drop 2 s)"

definition redact :: "string \<Rightarrow> string" where
  "redact v = (if length v \<le> 2 then replicate (length v) (CHR ''*'')
     else take 1 v @ replicate (length v - 2) (CHR ''*'') @ drop (length v - 1) v)"

record pii_detection =
  pd_tag :: string
  pd_confidence :: pyfloat
  pd_matches :: "(string \<times> nat) list"
  pd_samples :: "string list"
  pd_review :: bool

definition count_matching :: "(string \<Rightarrow> bool) \<Rightarrow> string list \<Rightarrow> nat" where
  "count_matching p vs = length (filter (dollar p) vs)"

text \<open>The first entry with the largest count.\<close>

fun top_match :: "(string \<times> nat) \<Rightarrow> (string \<times> nat) list \<Rightarrow> string \<times> nat" where
  "top_match best [] = best"
| "top_match best (m # ms) = top_match (if snd best < snd m then m else best) ms"

definition detect_pii_proposals :: "string list \<Rightarrow> pii_detection" where
  "detect_pii_proposals values =
     (let sanitized = filter (\<lambda>v. v \<noteq> []) (map strip values); whole = length sanitized
      in if whole = 0 then \<lparr>pd_tag = ''unknown'', pd_confidence = Fin 0, pd_matches = [], pd_samples = [], pd_review = True\<rparr>
         else
           let matches = [(''email'', count_matching email_text sanitized), (''phone'', count_matching phone_text sanitized),
                 (''iban'', count_matching iban_text sanitized)];
               (top_tag, top_count) = top_match (hd matches) (tl matches);
               confidence = ratio top_count whole
           in \<lparr>pd_tag = (if top_count > 0 then top_tag else ''none''), pd_confidence = fround 4 confidence,
               pd_matches = matches, pd_samples = map redact (take 5 sanitized),
               pd_review = fless confidence (flit 95 2)\<rparr>)"

definition pii_evidence :: "pii_detection \<Rightarrow> pydict" where
  "pii_evidence d = [(''matches'', PDict (map (\<lambda>(k, n). (k, PInt (int n))) (pd_matches d))),
     (''samples_redacted'', str_py_list (pd_samples d))]"

lemma length_redact [simp]: "length (redact v) = length v"
  by (auto simp: redact_def)

lemma redact_inner: "0 < i \<Longrightarrow> Suc i < length v \<Longrightarrow> redact v ! i = CHR ''*''"
  by (auto simp: redact_def nth_append)

text \<open>The evidence keeps no sample in clear: at most five, each with all but its ends masked.\<close>

lemma pii_samples_redacted:
  "let d = detect_pii_proposals values in length (pd_samples d) \<le> 5 \<and>
     (\<forall>t \<in> set (pd_samples d). \<exists>v \<in> set values. t = redact (strip v))"
  by (auto simp: detect_pii_proposals_def Let_def split: prod.split dest!: in_set_takeD)

section \<open>Anomalies of a profile\<close>

definition anomaly :: "string \<Rightarrow> string \<Rightarrow> string option \<Rightarrow> string \<Rightarrow> pydict" where
  "anomaly ty severity column message = [(''type'', PStr ty), (''severity'', PStr severity)] @
     (case column of None \<Rightarrow> [] | Some c \<Rightarrow> [(''column'', PStr c)]) @ [(''message'', PStr message)]"

definition detect_profile_anomalies :: "profile_evidence \<Rightarrow> pydict list" where
  "detect_profile_anomalies p =
     (let perr = pe_parse_error_rate p in
      (if fless (flit 5 2) perr
       then [anomaly ''parse_error_spike'' ''high'' None
               (''parse_error_rate '' @ format_fixed 4 perr @ '' exceeds 0.05 threshold'')] else []) @
      concat (map (\<lambda>(column, x). if fless (flit 7 1) x
           then [anomaly ''high_null_rate'' ''medium'' (Some column)
                   (''null_rate '' @ format_fixed 4 x @ '' exceeds 0.70 threshold'')] else [])
         (sort_key fst (pe_null_rates p))) @
      concat (map (\<lambda>(column, x). if fless (Fin 0) x \<and> fless x (flit 1 2)
           then [anomaly ''low_uniqueness'' ''medium'' (Some column)
                   (''unique_ratio '' @ format_fixed 4 x @ '' is below 0.01 threshold'')] else [])
         (sort_key fst (pe_unique_ratio p))))"

section \<open>Semantic drift\<close>

definition manifest_items :: "pydict \<Rightarrow> string \<Rightarrow> pydict list" where
  "manifest_items d key = map as_dict (filter is_dict (as_list (dget_or d key (PList []))))"

definition stripped_text :: "pydict \<Rightarrow> string \<Rightarrow> string" where
  "stripped_text d key = strip (str_of d key [])"

definition words :: "string \<Rightarrow> string list" where
  "words s = filter (\<lambda>w. w \<noteq> []) (split_on (CHR '' '') (map (\<lambda>c. if is_space c then CHR '' '' else c) s))"

definition expression_tokens :: "string \<Rightarrow> string list" where
  "expression_tokens expression = map lower
     (words (map (\<lambda>c. if c \<in> set ''(),'' then CHR '' '' else c) expression))"

definition entity_datasets :: "pydict \<Rightarrow> (string \<times> string) list" where
  "entity_datasets manifest = foldl (\<lambda>m e.
     if stripped_text e ''entity_id'' \<noteq> [] \<and> stripped_text e ''dataset_id'' \<noteq> []
     then dset m (stripped_text e ''entity_id'') (stripped_text e ''dataset_id'') else m) [] (manifest_items manifest ''entities'')"

definition dataset_of :: "pydict \<Rightarrow> pydict \<Rightarrow> string" where
  "dataset_of manifest item = dget_or (entity_datasets manifest) (stripped_text item ''entity_id'') []"

definition available :: "(string \<times> string list) list \<Rightarrow> string \<Rightarrow> string list" where
  "available columns dataset_id = dget_or columns dataset_id []"

definition dimension_issues :: "pydict \<Rightarrow> (string \<times> string list) list \<Rightarrow> pydict \<Rightarrow> pydict list" where
  "dimension_issues manifest columns dimension =
     (let dimension_id = stripped_text dimension ''dimension_id''; dataset_id = dataset_of manifest dimension
      in if dimension_id = [] \<or> dataset_id = [] \<or> dimension_id \<in> set (available columns dataset_id) then []
         else [[(''issue_type'', PStr ''missing_dimension_column''), (''entity_id'', PStr (stripped_text dimension ''entity_id'')),
                (''dataset_id'', PStr dataset_id), (''column'', PStr dimension_id)]])"

definition aggregate_words :: "string list" where
  "aggregate_words = [''count'', ''sum'', ''avg'', ''min'', ''max'']"

definition metric_issues :: "pydict \<Rightarrow> (string \<times> string list) list \<Rightarrow> pydict \<Rightarrow> pydict list" where
  "metric_issues manifest columns metric =
     (let metric_id = stripped_text metric ''metric_id''; expression = stripped_text metric ''expression'';
          dataset_id = dataset_of manifest metric
      in if metric_id = [] \<or> expression = [] \<or> dataset_id = [] then []
         else map (\<lambda>token. [(''issue_type'', PStr ''missing_metric_expression_column''), (''metric_id'', PStr metric_id),
                (''entity_id'', PStr (stripped_text metric ''entity_id'')), (''dataset_id'', PStr dataset_id),
                (''column'', PStr token), (''expression'', PStr expression)])
              (filter (\<lambda>token. token \<notin> set aggregate_words \<and> token \<notin> set (available columns dataset_id))
                (expression_tokens expression)))"

definition detect_semantic_manifest_drift :: "pydict \<Rightarrow> (string \<times> string list) list \<Rightarrow> bool \<times> pydict" where
  "detect_semantic_manifest_drift manifest columns =
     (let issues = concat (map (dimension_issues manifest columns) (manifest_items manifest ''dimensions'')) @
            concat (map (metric_issues manifest columns) (manifest_items manifest ''metrics''))
      in (issues \<noteq> [], [(''drift_detected'', PBool (issues \<noteq> [])), (''issue_count'', PInt (int (length issues))),
            (''issues'', PList (map PDict issues))]))"

section \<open>Quality contracts\<close>

text \<open>A row of data with its values; \<open>value in (None, "")\<close>.\<close>

definition blank :: "pyval \<Rightarrow> bool" where
  "blank v \<longleftrightarrow> v = PNone \<or> v = PStr []"

text \<open>The values seen of each unique column, in the order of the columns.\<close>

fun unique_scan ::
  "string list \<Rightarrow> (string \<Rightarrow> string set) \<Rightarrow> pydict \<Rightarrow> string list \<times> (string \<Rightarrow> string set)" where
  "unique_scan [] seen row = ([], seen)"
| "unique_scan (c # cs) seen row =
     (let v = str_of row c [];
          (reasons, seen') = unique_scan cs (seen(c := insert v (seen c))) row
      in ((if v \<in> seen c then (''unique:'' @ c) # reasons else reasons), seen'))"

definition row_failures :: "string list \<Rightarrow> string list \<Rightarrow> pydict \<Rightarrow> string list" where
  "row_failures required not_null row =
     (let missing = filter (\<lambda>c. dget row c = None) required
      in (if missing = [] then [] else [''missing_columns:'' @ join '','' (sort missing)]) @
         map (\<lambda>c. ''not_null:'' @ c) (filter (\<lambda>c. blank (dget_or row c PNone)) not_null))"

record contract_result =
  cn_passed :: "pydict list"
  cn_quarantined :: "pydict list"
  cn_failures :: "(nat \<times> string list) list"

fun contract_loop ::
  "string list \<Rightarrow> string list \<Rightarrow> string list \<Rightarrow> nat \<Rightarrow> (string \<Rightarrow> string set) \<Rightarrow> pydict list \<Rightarrow> contract_result" where
  "contract_loop required not_null uniques index seen [] = \<lparr>cn_passed = [], cn_quarantined = [], cn_failures = []\<rparr>"
| "contract_loop required not_null uniques index seen (row # rows) =
     (let (repeated, seen') = unique_scan uniques seen row;
          reasons = row_failures required not_null row @ repeated;
          rest = contract_loop required not_null uniques (Suc index) seen' rows
      in if reasons = [] then rest\<lparr>cn_passed := row # cn_passed rest\<rparr>
         else rest\<lparr>cn_quarantined := dset row ''_quarantine_reasons'' (str_py_list reasons) # cn_quarantined rest,
                   cn_failures := (index, reasons) # cn_failures rest\<rparr>)"

definition evaluate_quality_contracts ::
  "pydict list \<Rightarrow> string list \<Rightarrow> string list \<Rightarrow> string list \<Rightarrow> contract_result" where
  "evaluate_quality_contracts rows required not_null uniques =
     contract_loop required not_null uniques 0 (\<lambda>_. {}) rows"

section \<open>The rows that pass\<close>

lemma unique_scan_Cons:
  "unique_scan cs (seen(c := insert (str_of row c []) (seen c))) row = (reasons, seen') \<Longrightarrow>
     unique_scan (c # cs) seen row = ((if str_of row c [] \<in> seen c then (''unique:'' @ c) # reasons else reasons), seen')"
  by (simp add: Let_def)

lemma unique_scan_seen:
  "unique_scan cs seen row = (reasons, seen') \<Longrightarrow> seen' c = seen c \<union> (if c \<in> set cs then {str_of row c []} else {})"
proof (induction cs arbitrary: seen reasons)
  case (Cons d cs)
  obtain rs s' where u: "unique_scan cs (seen(d := insert (str_of row d []) (seen d))) row = (rs, s')" by fastforce
  with Cons.prems have "s' = seen'" by (simp only: unique_scan_Cons [OF u]) simp
  from Cons.IH [OF u [unfolded this]] show ?case by auto
qed simp

lemma unique_scan_fails:
  "unique_scan cs seen row = ([], seen') \<Longrightarrow> c \<in> set cs \<Longrightarrow> str_of row c [] \<notin> seen c"
proof (induction cs arbitrary: seen)
  case (Cons d cs)
  obtain rs s' where u: "unique_scan cs (seen(d := insert (str_of row d []) (seen d))) row = (rs, s')" by fastforce
  with Cons.prems(1) have "s' = seen'" "rs = []" "str_of row d [] \<notin> seen d"
    by (simp_all only: unique_scan_Cons [OF u] split: if_split_asm) simp_all
  note known = this
  from u known have "unique_scan cs (seen(d := insert (str_of row d []) (seen d))) row = ([], seen')" by simp
  from Cons.IH [OF this] known Cons.prems(2) show ?case by (auto split: if_split_asm)
qed simp

definition meets :: "string list \<Rightarrow> string list \<Rightarrow> pydict \<Rightarrow> bool" where
  "meets required not_null row \<longleftrightarrow>
     list_all (\<lambda>c. dget row c \<noteq> None) required \<and> list_all (\<lambda>c. \<not> blank (dget_or row c PNone)) not_null"

lemma row_failures_Nil: "row_failures required not_null row = [] \<longleftrightarrow> meets required not_null row"
  by (auto simp: row_failures_def meets_def Let_def filter_empty_conv list_all_iff)

lemma contract_loop_passed:
  "row \<in> set (cn_passed (contract_loop required not_null uniques i seen rows)) \<Longrightarrow>
     row \<in> set rows \<and> meets required not_null row \<and> (\<forall>c \<in> set uniques. str_of row c [] \<notin> seen c)"
proof (induction rows arbitrary: i seen)
  case (Cons r rows)
  obtain repeated seen' where u: "unique_scan uniques seen r = (repeated, seen')" by fastforce
  have grow: "seen c \<subseteq> seen' c" for c using unique_scan_seen [OF u, of c] by auto
  let ?reasons = "row_failures required not_null r @ repeated"
  show ?case
  proof (cases "?reasons = [] \<and> row = r")
    case True
    with u have "unique_scan uniques seen r = ([], seen')" by simp
    from unique_scan_fails [OF this] True show ?thesis using row_failures_Nil by auto
  next
    case False
    with Cons.prems u have "row \<in> set (cn_passed (contract_loop required not_null uniques (Suc i) seen' rows))"
      by (auto simp: Let_def split: if_split_asm)
    from Cons.IH [OF this] grow show ?thesis by fastforce
  qed
qed simp

lemma contract_loop_unique:
  "c \<in> set uniques \<Longrightarrow>
     distinct (map (\<lambda>row. str_of row c []) (cn_passed (contract_loop required not_null uniques i seen rows)))"
proof (induction rows arbitrary: i seen)
  case (Cons r rows)
  obtain repeated seen' where u: "unique_scan uniques seen r = (repeated, seen')" by fastforce
  have "str_of r c [] \<in> seen' c" using unique_scan_seen [OF u, of c] Cons.prems by auto
  with contract_loop_passed [of _ required not_null uniques "Suc i" seen' rows] Cons u show ?case
    by (auto simp: Let_def)
qed simp

lemma contract_loop_counts:
  "let out = contract_loop required not_null uniques i seen rows in
     length (cn_passed out) + length (cn_quarantined out) = length rows \<and>
     length (cn_failures out) = length (cn_quarantined out) \<and>
     (\<forall>(index, reasons) \<in> set (cn_failures out). i \<le> index \<and> index < i + length rows \<and> reasons \<noteq> [])"
proof (induction rows arbitrary: i seen)
  case (Cons r rows)
  obtain repeated seen' where u: "unique_scan uniques seen r = (repeated, seen')" by fastforce
  from Cons [of "Suc i" seen'] show ?case by (auto simp: u Let_def)
qed simp

section \<open>Properties\<close>

text \<open>
  The quality contracts partition the rows: each row passes or is quarantined with its index and
  at least one reason; a row that passes has every required column and no blank in the columns that
  may not be null, and no two rows that pass agree on a unique column.
\<close>

theorem quality_contracts_partition:
  "let out = evaluate_quality_contracts rows required not_null uniques in
     length (cn_passed out) + length (cn_quarantined out) = length rows \<and>
     length (cn_failures out) = length (cn_quarantined out) \<and>
     list_all (\<lambda>(index, reasons). index < length rows \<and> reasons \<noteq> []) (cn_failures out) \<and>
     list_all (\<lambda>row. row \<in> set rows \<and> meets required not_null row) (cn_passed out) \<and>
     list_all (\<lambda>c. distinct (map (\<lambda>row. str_of row c []) (cn_passed out))) uniques"
  using contract_loop_counts [of required not_null uniques 0 "\<lambda>_. {}" rows]
    contract_loop_passed [of _ required not_null uniques 0 "\<lambda>_. {}" rows]
    contract_loop_unique [of _ uniques required not_null 0 "\<lambda>_. {}" rows]
  by (auto simp: evaluate_quality_contracts_def Let_def list_all_iff)

end
