(* ===== verification/Connectors.thy ===== *)
theory Connectors
  imports CsvProfile Plugins CpCore
begin

text \<open>
  The connectors of the workers: discovery of files below a root
  (\<open>backend/workers/connectors/filesystem.py\<close>), plugins in a process of their own
  (\<open>connectors/plugin_runner.py\<close>), and the cursor kept for each source
  (\<open>backend/shared_domain/connector_state.py\<close>).
\<close>

section \<open>What the workers find around them\<close>

text \<open>
  A plugin process that ran too long, or its exit code, output and error output. The environment
  of a worker: the one of the services; the clock (the \<open>n\<close>-th reading, in whole seconds); the
  process environment; decoded texts and bytes of files by path; the NFKC normal form; the files
  below a root with their size and modification time; \<open>Path.resolve\<close>; name-based UUIDs; the
  plugins that were loaded, a plugin process by entry point and standard input, and a plugin
  called in the process.
\<close>

datatype plugin_process = TimedOut | Exited int string string

record worker_env =
  we_cp :: cp_env
  we_clock :: "nat \<Rightarrow> int"
  we_getenv :: "string \<Rightarrow> string option"
  we_text :: text_files
  we_bytes :: "string \<Rightarrow> string option"
  we_nfkc :: "string \<Rightarrow> string"
  we_tree :: "string \<Rightarrow> (string \<times> int \<times> pyfloat) list"
  we_resolve :: "string \<Rightarrow> py_path"
  we_uuid5 :: "string \<Rightarrow> string"
  we_plugins :: "(string \<times> plugin_spec) list res"
  we_spawn :: "string \<Rightarrow> pydict \<Rightarrow> plugin_process"
  we_call :: "string \<Rightarrow> pydict \<Rightarrow> pyval res"

definition clock :: "worker_env \<Rightarrow> int tx" where
  "clock env s = (Inr (we_clock env (se_ticks s)), s\<lparr>se_ticks := Suc (se_ticks s)\<rparr>)"

definition write_json :: "string \<Rightarrow> pyval \<Rightarrow> unit tx" where
  "write_json path v s = (Inr (), s\<lparr>se_json := dset (se_json s) path (Some v)\<rparr>)"

text \<open>\<open>_env_int\<close>\<close>

definition env_int :: "worker_env \<Rightarrow> string \<Rightarrow> int \<Rightarrow> int" where
  "env_int env name dflt = (case we_getenv env name of None \<Rightarrow> dflt
     | Some raw \<Rightarrow> (case parse_int raw of None \<Rightarrow> dflt | Some n \<Rightarrow> n))"

definition env_flag :: "worker_env \<Rightarrow> string \<Rightarrow> bool" where
  "env_flag env name = (case we_getenv env name of None \<Rightarrow> False
     | Some raw \<Rightarrow> lower (strip raw) \<in> set [''1'', ''true'', ''yes'', ''on''])"

section \<open>File name patterns\<close>

text \<open>The patterns of \<open>fnmatch\<close>.\<close>

datatype glob_item = Star | AnyChar | CharSet bool "(char \<times> char) list" | Literal char

fun char_ranges :: "string \<Rightarrow> (char \<times> char) list" where
  "char_ranges [] = []"
| "char_ranges [c] = [(c, c)]"
| "char_ranges [c, d] = [(c, c), (d, d)]"
| "char_ranges (c # d # e # s) = (if d = CHR ''-'' then (c, e) # char_ranges s else (c, c) # char_ranges (d # e # s))"

text \<open>
  After an opening bracket: the characters up to the closing bracket, where a leading \<open>!\<close> and a
  bracket right after it belong to them, and the rest; \<open>None\<close> if the bracket is not closed.
\<close>

definition bracket :: "string \<Rightarrow> (bool \<times> string \<times> string) option" where
  "bracket s =
     (let (neg, r) = (case s of c # r \<Rightarrow> if c = CHR ''!'' then (True, r) else (False, s) | [] \<Rightarrow> (False, s));
          (first, r') = (case r of c # r' \<Rightarrow> if c = CHR '']'' then ([c], r') else ([], r) | [] \<Rightarrow> ([], r));
          body = takeWhile (\<lambda>c. c \<noteq> CHR '']'') r'
      in case dropWhile (\<lambda>c. c \<noteq> CHR '']'') r' of [] \<Rightarrow> None | _ # rest \<Rightarrow> Some (neg, first @ body, rest))"

fun glob_items :: "nat \<Rightarrow> string \<Rightarrow> glob_item list" where
  "glob_items fuel [] = []"
| "glob_items 0 s = []"
| "glob_items (Suc fuel) (c # s) =
     (if c = CHR ''*'' then Star # glob_items fuel s
      else if c = CHR ''?'' then AnyChar # glob_items fuel s
      else if c = CHR ''['' then
        (case bracket s of
           None \<Rightarrow> Literal c # glob_items fuel s
         | Some (neg, body, rest) \<Rightarrow> CharSet neg (char_ranges body) # glob_items fuel rest)
      else Literal c # glob_items fuel s)"

fun item_matches :: "glob_item \<Rightarrow> char \<Rightarrow> bool" where
  "item_matches AnyChar c = True"
| "item_matches (CharSet neg rs) c = (list_ex (\<lambda>(a, b). code a \<le> code c \<and> code c \<le> code b) rs \<noteq> neg)"
| "item_matches (Literal d) c = (c = d)"
| "item_matches Star c = True"

fun glob_matches :: "glob_item list \<Rightarrow> string \<Rightarrow> bool" where
  "glob_matches [] s = (s = [])"
| "glob_matches (Star # is) [] = glob_matches is []"
| "glob_matches (Star # is) (c # s) = (glob_matches is (c # s) \<or> glob_matches (Star # is) s)"
| "glob_matches (i # is) [] = False"
| "glob_matches (i # is) (c # s) = (item_matches i c \<and> glob_matches is s)"

text \<open>A pattern is read one item at a time, so its length is enough fuel.\<close>

definition fnmatch :: "string \<Rightarrow> string \<Rightarrow> bool" where
  "fnmatch name pattern = glob_matches (glob_items (length pattern) pattern) name"

definition match_pattern :: "string \<Rightarrow> string \<Rightarrow> bool" where
  "match_pattern v pattern =
     (fnmatch v pattern \<or> (startswith pattern ''**/'' \<and> fnmatch v (drop 3 pattern)))"

section \<open>Discovery of files\<close>

record discovered_file =
  df_path :: string
  df_size :: int
  df_mtime :: pyfloat
  df_hash :: string
  df_family :: string

definition infer_dataset_family :: "string \<Rightarrow> string" where
  "infer_dataset_family filename =
     (let token = hd (split_on (CHR ''.'') (lower filename))
      in case find (\<lambda>sep. sep \<in> set token) [CHR ''-'', CHR ''_'', CHR '' ''] of
           Some sep \<Rightarrow> hd (split_on sep token) | None \<Rightarrow> token)"

definition sample_hash :: "worker_env \<Rightarrow> string \<Rightarrow> string res" where
  "sample_hash env path =
     (case we_bytes env path of None \<Rightarrow> Inl (OSError (''No such file: '' @ path))
      | Some body \<Rightarrow> Inr (ee_hexdigest (ce_evidence (we_cp env)) (take 8192 body)))"

definition backpressure :: exn where
  "backpressure = ValueError ''filesystem_discovery_backpressure_limit_exceeded''"

definition selected :: "string list \<Rightarrow> string list \<Rightarrow> string \<Rightarrow> bool" where
  "selected include_globs exclude_globs rel \<longleftrightarrow>
     list_ex (match_pattern rel) include_globs \<and> \<not> list_ex (match_pattern rel) exclude_globs"

fun discover_loop ::
  "worker_env \<Rightarrow> string \<Rightarrow> nat \<Rightarrow> int \<Rightarrow> nat \<Rightarrow> int \<Rightarrow> (string \<times> int \<times> pyfloat) list \<Rightarrow> discovered_file list res" where
  "discover_loop env base max_files max_bytes n whole [] = Inr []"
| "discover_loop env base max_files max_bytes n whole ((rel, size', mtime) # files) =
     (let path = as_posix (path_join (path_of base) rel)
      in if max_files < Suc n then Inl backpressure
         else if max_bytes < whole + size' then Inl backpressure
         else rbind (sample_hash env path) (\<lambda>h.
              rbind (discover_loop env base max_files max_bytes (Suc n) (whole + size') files) (\<lambda>rest.
              Inr (\<lparr>df_path = path, df_size = size', df_mtime = mtime, df_hash = h,
                    df_family = infer_dataset_family (last (split_on (CHR ''/'') rel))\<rparr> # rest))))"

definition discover_files ::
  "worker_env \<Rightarrow> string \<Rightarrow> string list \<Rightarrow> string list \<Rightarrow> nat \<Rightarrow> int \<Rightarrow> discovered_file list res" where
  "discover_files env root_path include_globs exclude_globs max_files max_total_bytes =
     (if ce_dir (we_cp env) root_path \<noteq> Directory
      then Inl (ValueError (''Filesystem base does not exist or is not a directory: '' @ root_path))
      else if include_globs = [] then Inl (ValueError ''include_globs must not be empty.'')
      else discover_loop env root_path (max max_files 1) (max max_total_bytes 1) 0 0
             (filter (\<lambda>(rel, _). selected include_globs exclude_globs rel)
               (sort_key (\<lambda>(rel, _). split_on (CHR ''/'') rel) (we_tree env root_path))))"

section \<open>Plugins\<close>

definition plugin_failed :: "string \<Rightarrow> exn" where
  "plugin_failed reason = ValueError (''plugin_execution_failed:'' @ reason)"

fun normalize_plugin_rows :: "pyval \<Rightarrow> pydict list res" where
  "normalize_plugin_rows (PList rows) = Inr (map as_dict (filter is_dict rows))"
| "normalize_plugin_rows _ = Inl (plugin_failed ''expected_list_output'')"

text \<open>\<open>a or b or c\<close> on texts.\<close>

definition first_text :: "string list \<Rightarrow> string" where
  "first_text xs = (case find (\<lambda>x. x \<noteq> []) xs of Some x \<Rightarrow> x | None \<Rightarrow> last xs)"

definition run_plugin_in_subprocess :: "worker_env \<Rightarrow> string \<Rightarrow> pydict \<Rightarrow> pydict list res" where
  "run_plugin_in_subprocess env entrypoint scope =
     (case we_spawn env entrypoint scope of
        TimedOut \<Rightarrow> Inl (plugin_failed ''timeout'')
      | Exited returncode out err \<Rightarrow>
          if returncode \<noteq> 0
          then Inl (plugin_failed (first_text [strip err, strip out, ''unknown_plugin_error'']))
          else case ee_loads (ce_evidence (we_cp env)) out of
                 None \<Rightarrow> Inl (plugin_failed ''invalid_json_output'')
               | Some parsed \<Rightarrow> normalize_plugin_rows parsed)"

definition execute_connector_plugin :: "worker_env \<Rightarrow> plugin_spec \<Rightarrow> pydict \<Rightarrow> pydict list res" where
  "execute_connector_plugin env spec scope =
     (case ps_entrypoint spec of
        Some (c # e) \<Rightarrow> run_plugin_in_subprocess env (c # e) scope
      | _ \<Rightarrow> rbind (we_call env (ps_name spec) scope) normalize_plugin_rows)"

text \<open>The environment that a plugin sees.\<close>

definition plugin_variables :: "string list" where
  "plugin_variables = [''PATH'', ''PATHEXT'', ''SYSTEMROOT'', ''WINDIR'', ''TMP'', ''TEMP'', ''PYTHONPATH'']"

definition safe_subprocess_env :: "(string \<times> string) list \<Rightarrow> (string \<times> string) list" where
  "safe_subprocess_env variables =
     (let env0 = foldl (\<lambda>e k. case dget variables k of None \<Rightarrow> e | Some v \<Rightarrow> dset e k v) [] plugin_variables
      in foldl (\<lambda>e (k, v). if startswith k ''SCHEMAPILOT_PLUGIN_'' then dset e k v else e) env0 variables)"

text \<open>\<open>Path.parents\<close> contains the root: the parts of the root are a proper prefix.\<close>

definition below :: "py_path \<Rightarrow> py_path \<Rightarrow> bool" where
  "below p base \<longleftrightarrow> fst p = fst base \<and> length (snd base) \<le> length (snd p) \<and> take (length (snd base)) (snd p) = snd base"

definition scope_root_allowed :: "(string \<Rightarrow> py_path) \<Rightarrow> string option \<Rightarrow> pydict \<Rightarrow> bool" where
  "scope_root_allowed resolve allowed_root_env scope =
     (let allowed_root_raw = strip (case allowed_root_env of None \<Rightarrow> [] | Some v \<Rightarrow> v);
          root_path_raw = strip (str_of scope ''root_path'' [])
      in if allowed_root_raw = [] then True
         else if root_path_raw = [] then False
         else below (resolve root_path_raw) (resolve allowed_root_raw))"

text \<open>\<open>Path(p).stem\<close>\<close>

definition path_stem :: "string \<Rightarrow> string" where
  "path_stem path = (let name = last ([] # snd (path_of path))
     in case find (\<lambda>i. name ! i = CHR ''.'') (rev [0..<length name]) of
          Some i \<Rightarrow> if 0 < i \<and> Suc i < length name then take i name else name | None \<Rightarrow> name)"

definition discovered_row :: "pydict \<Rightarrow> discovered_file option res" where
  "discovered_row row =
     (let path = strip (str_of row ''path'' [])
      in if path = [] then Inr None
         else rbind (int_arg (dget_or row ''size_bytes'' (PInt 0)) 0) (\<lambda>size'.
              rbind (case dget_or row ''mtime_epoch'' (PFloat ''0.0'' (Some 0)) of
                  PNone \<Rightarrow> Inr (Fin 0) | PList _ \<Rightarrow> Inr (Fin 0) | PDict _ \<Rightarrow> Inr (Fin 0) | v \<Rightarrow> py_float v) (\<lambda>mtime.
              Inr (Some \<lparr>df_path = path, df_size = size', df_mtime = mtime,
                df_hash = str_of row ''content_hash_sample'' [],
                df_family = py_str (dget_or row ''dataset_family'' (PStr (path_stem path)))\<rparr>))))"

definition discover_files_via_plugin :: "worker_env \<Rightarrow> plugin_spec \<Rightarrow> pydict \<Rightarrow> discovered_file list res" where
  "discover_files_via_plugin env spec scope =
     rbind (execute_connector_plugin env spec scope) (\<lambda>raw.
     rbind (rmap discovered_row raw) (\<lambda>rows.
     Inr (sort_key df_path (concat (map (\<lambda>o'. case o' of None \<Rightarrow> [] | Some f \<Rightarrow> [f]) rows)))))"

section \<open>The cursor of a source\<close>

definition state_path :: "string \<Rightarrow> string \<Rightarrow> string \<Rightarrow> string" where
  "state_path storage_root workspace_id source_id =
     as_posix (path_join (path_join (path_join (path_join (path_of storage_root) ''connector_state'') workspace_id) source_id)
       ''state.json'')"

definition load_connector_state :: "string \<Rightarrow> string \<Rightarrow> string \<Rightarrow> cp_session \<Rightarrow> pydict" where
  "load_connector_state storage_root workspace_id source_id s =
     (case dget (se_json s) (state_path storage_root workspace_id source_id) of
        Some (Some (PDict d)) \<Rightarrow> d | _ \<Rightarrow> [])"

definition save_connector_state ::
  "worker_env \<Rightarrow> string \<Rightarrow> string \<Rightarrow> string \<Rightarrow> pydict \<Rightarrow> string tx" where
  "save_connector_state env storage_root workspace_id source_id state =
     tbind (clock env) (\<lambda>now.
     let path = state_path storage_root workspace_id source_id
     in tbind (write_json path (PDict (if dget state ''updated_epoch'' = None then dset state ''updated_epoch'' (PInt now) else state)))
          (\<lambda>_. tpure path))"

text \<open>\<open>f"{mtime:020.3f}"\<close>: zeros between the sign and the digits.\<close>

definition zero_padded :: "string \<Rightarrow> string" where
  "zero_padded t = (case t of c # r \<Rightarrow> if c = CHR ''-'' then c # pad_left 19 (CHR ''0'') r else pad_left 20 (CHR ''0'') t
     | [] \<Rightarrow> pad_left 20 (CHR ''0'') t)"

definition cursor_of :: "discovered_file \<Rightarrow> string" where
  "cursor_of f = zero_padded (format_fixed 3 (df_mtime f)) @ CHR '':'' # strip (df_path f)"

definition next_cursor_from_discovery_rows :: "discovered_file list \<Rightarrow> string \<Rightarrow> string" where
  "next_cursor_from_discovery_rows rows previous_cursor =
     (let candidates = map cursor_of rows @ (if previous_cursor = [] then [] else [previous_cursor])
      in if candidates = [] then previous_cursor else foldl max (hd candidates) (tl candidates))"

section \<open>Lemmas\<close>

lemma foldl_max_upper: "a \<le> foldl max a xs \<and> (\<forall>x \<in> set xs. x \<le> foldl max a xs)"
  for a :: "'a::linorder"
proof (induction xs arbitrary: a)
  case (Cons x xs)
  from Cons [of "max a x"] show ?case by (auto intro: order_trans)
qed simp

lemma foldl_max_in: "foldl max a xs \<in> insert a (set xs)"
  for a :: "'a::linorder"
  by (induction xs arbitrary: a) (auto simp: max_def)

lemma discover_loop_within:
  "discover_loop env base mf mb n whole files = Inr found \<Longrightarrow>
     n + length found \<le> mf \<or> found = []"
proof (induction files arbitrary: n whole found)
  case (Cons f files)
  obtain rel size' mtime where f: "f = (rel, size', mtime)" by (metis prod_cases3)
  from Cons.prems f obtain rest where "discover_loop env base mf mb (Suc n) (whole + size') files = Inr rest"
    "length found = Suc (length rest)" "Suc n \<le> mf"
    by (auto simp: Let_def rbind_eq_Inr_iff split: if_split_asm)
  with Cons.IH show ?case by fastforce
qed simp

lemma discover_loop_bytes:
  "discover_loop env base mf mb n whole files = Inr found \<Longrightarrow> whole + sum_list (map df_size found) \<le> mb \<or> found = []"
proof (induction files arbitrary: n whole found)
  case (Cons f files)
  obtain rel size' mtime where f: "f = (rel, size', mtime)" by (metis prod_cases3)
  from Cons.prems f obtain rest x where r: "discover_loop env base mf mb (Suc n) (whole + size') files = Inr rest"
    "found = x # rest" "df_size x = size'" "whole + size' \<le> mb"
    by (auto simp: Let_def rbind_eq_Inr_iff split: if_split_asm)
  from Cons.IH [OF r(1)] r(2-4) show ?case by auto
qed simp

lemma discover_loop_files:
  "discover_loop env base mf mb n whole files = Inr found \<Longrightarrow>
     map df_path found = map (\<lambda>(rel, _). as_posix (path_join (path_of base) rel)) files"
  by (induction files arbitrary: n whole found)
    (auto simp: Let_def rbind_eq_Inr_iff split: if_split_asm)

section \<open>Properties\<close>

text \<open>
  C39. Discovery returns exactly the files below the root that an include pattern selects and no
  exclude pattern does, in path order, never more files or bytes than the limits: past a limit it
  raises instead of returning a part.
\<close>

theorem discovery_selected_and_bounded:
  assumes "discover_files env base includes excludes max_files max_bytes = Inr found"
  shows "map df_path found = map (\<lambda>(rel, _). as_posix (path_join (path_of base) rel))
      (filter (\<lambda>(rel, _). selected includes excludes rel)
        (sort_key (\<lambda>(rel, _). split_on (CHR ''/'') rel) (we_tree env base))) \<and>
    length found \<le> max max_files 1 \<and> (found = [] \<or> sum_list (map df_size found) \<le> max max_bytes 1)"
  using assms discover_loop_files discover_loop_within discover_loop_bytes
  by (fastforce simp: discover_files_def split: if_split_asm)

definition demo_worker_env :: worker_env where
  "demo_worker_env = \<lparr>we_cp = demo_cp_env, we_clock = int, we_getenv = (\<lambda>_. None),
     we_text = (\<lambda>_ path. if path = ''/in/a.csv'' then Some (Decoded ''id,name'' True) else None),
     we_bytes = (\<lambda>path. if path = ''/in/a.csv'' then Some ''id,name'' else Some ''x''), we_nfkc = id,
     we_tree = (\<lambda>_. [(''b.txt'', 1, Fin 2), (''a.csv'', 7, Fin 1)]), we_resolve = path_of, we_uuid5 = id,
     we_plugins = Inr [], we_spawn = (\<lambda>_ _. TimedOut), we_call = (\<lambda>_ _. Inr (PList []))\<rparr>"

theorem discovery_selected_and_bounded_witness:
  "case discover_files demo_worker_env ''/in'' [''*.csv''] [] 10 100 of
     Inl _ \<Rightarrow> False | Inr found \<Rightarrow> map df_path found = [''/in/a.csv''] \<and> length found \<le> 10"
proof -
  have run: "discover_files demo_worker_env ''/in'' [''*.csv''] [] 10 100 =
      Inr [\<lparr>df_path = ''/in/a.csv'', df_size = 7, df_mtime = Fin 1, df_hash = ''eman,di'', df_family = ''a''\<rparr>]" by code_simp
  from discovery_selected_and_bounded [OF run] show ?thesis by (simp add: run)
qed

text \<open>
  The cursor of a source never moves back, and covers every file discovered; it is the old
  cursor or the mark of one of these files.
\<close>

theorem cursor_never_moves_back:
  "let next = next_cursor_from_discovery_rows rows previous in
     previous \<le> next \<and> list_all (\<lambda>f. cursor_of f \<le> next) rows \<and> next \<in> insert previous (cursor_of ` set rows)"
proof -
  let ?c = "map cursor_of rows @ (if previous = [] then [] else [previous])"
  show ?thesis
  proof (cases "?c = []")
    case True
    then show ?thesis by (auto simp: next_cursor_from_discovery_rows_def)
  next
    case False
    then obtain a cs where c: "?c = a # cs" by (cases ?c) auto
    have n: "next_cursor_from_discovery_rows rows previous = foldl max a cs"
      using c by (simp add: next_cursor_from_discovery_rows_def Let_def)
    have "x \<le> foldl max a cs" if "x \<in> set ?c" for x
      using that foldl_max_upper [of a cs] unfolding c by auto
    moreover have "previous = [] \<or> previous \<in> set ?c" by simp
    moreover have "foldl max a cs \<in> set ?c" using foldl_max_in [of a cs] by (simp only: c list.set)
    ultimately show ?thesis unfolding n Let_def by (auto simp: list_all_iff split: if_split_asm)
  qed
qed

text \<open>
  A plugin process inherits nothing of the environment but the variables of the fixed list
  and those meant for plugins, with their values.
\<close>

lemma foldl_env_subset:
  "dget (foldl (\<lambda>e k. case dget vs k of None \<Rightarrow> e | Some v \<Rightarrow> dset e k v) e0 ks) k = Some v \<Longrightarrow>
     dget e0 k = Some v \<or> (k \<in> set ks \<and> dget vs k = Some v)"
  by (induction ks arbitrary: e0) (fastforce split: option.splits if_splits)+

lemma foldl_prefix_subset:
  "dget (foldl (\<lambda>e (k, v). if startswith k p then dset e k v else e) e0 kvs) k = Some v \<Longrightarrow>
     dget e0 k = Some v \<or> (startswith k p \<and> (k, v) \<in> set kvs)"
  by (induction kvs arbitrary: e0) (fastforce split: if_splits)+

theorem plugin_environment_confined:
  "case dget (safe_subprocess_env variables) k of None \<Rightarrow> True
    | Some v \<Rightarrow> (k, v) \<in> set variables \<and> (k \<in> set plugin_variables \<or> startswith k ''SCHEMAPILOT_PLUGIN_'')"
proof (cases "dget (safe_subprocess_env variables) k")
  case (Some v)
  from foldl_prefix_subset [OF this [unfolded safe_subprocess_env_def Let_def]] foldl_env_subset [of variables "[]" plugin_variables k v]
  show ?thesis using Some by (auto simp: dget_def dest: map_of_SomeD)
qed simp

end
