(* ===== verification/RunSteps.thy ===== *)
theory RunSteps
  imports Connectors
begin

text \<open>
  The steps of a run (\<open>backend/workers/run_processor.py\<close>): the step graph of each run type, the rows
  of the steps, and the start, success and failure of a step with its times.
\<close>

section \<open>Exceptions as the worker reports them\<close>

text \<open>\<open>str(exc)\<close> and the name of the class.\<close>

fun exc_str :: "exn \<Rightarrow> string" where
  "exc_str (ValueError m) = m"
| "exc_str (UnsafeSqlError m) = m"
| "exc_str (QueryTimeoutError m) = m"
| "exc_str (PolicyDeniedError m _) = m"
| "exc_str (NotFoundError m _) = m"
| "exc_str (DisabledIntegrationError m) = m"
| "exc_str (StartupConfigurationError m) = m"
| "exc_str (AuditSinkError m) = m"
| "exc_str (OSError m) = m"
| "exc_str (IntegrityError m) = m"
| "exc_str (KeyError m) = str_repr m"
| "exc_str (BackendUnavailable m) = m"
| "exc_str (StrictIngestCompletenessError _ _ _ _) = ''strict_ingest_completeness_failed''"
| "exc_str _ = []"

fun exn_class :: "exn \<Rightarrow> string" where
  "exn_class (PolicyDeniedError _ _) = ''policydeniederror''"
| "exn_class (NotFoundError _ _) = ''notfounderror''"
| "exn_class (DisabledIntegrationError _) = ''disabledintegrationerror''"
| "exn_class (StartupConfigurationError _) = ''startupconfigurationerror''"
| "exn_class (AuditSinkError _) = ''auditsinkerror''"
| "exn_class (OSError _) = ''oserror''"
| "exn_class (IntegrityError _) = ''integrityerror''"
| "exn_class OverflowError = ''overflowerror''"
| "exn_class TypeError = ''typeerror''"
| "exn_class TimeoutError = ''timeouterror''"
| "exn_class (KeyError _) = ''keyerror''"
| "exn_class (BackendUnavailable _) = ''backendunavailable''"
| "exn_class (UnsafeSqlError _) = ''unsafesqlerror''"
| "exn_class (QueryTimeoutError _) = ''querytimeouterror''"
| "exn_class (OtherError name) = lower name"
| "exn_class _ = ''valueerror''"

definition code_char :: "char \<Rightarrow> bool" where
  "code_char c \<longleftrightarrow> (97 \<le> code c \<and> code c \<le> 122) \<or> is_digit c \<or> c = CHR ''_''"

text \<open>\<open>re.sub(r"[^a-z0-9_]+", "_", s)\<close>; the flag tells whether a run of other characters goes on.\<close>

fun squash :: "bool \<Rightarrow> string \<Rightarrow> string" where
  "squash inside [] = []"
| "squash inside (c # s) =
     (if code_char c then c # squash False s else if inside then squash True s else CHR ''_'' # squash True s)"

definition strip_underscores :: "string \<Rightarrow> string" where
  "strip_underscores s = rev (dropWhile (\<lambda>c. c = CHR ''_'') (rev (dropWhile (\<lambda>c. c = CHR ''_'') s)))"

definition error_code_from_exception :: "exn \<Rightarrow> string" where
  "error_code_from_exception e =
     (let raw = map (\<lambda>c. if c = CHR '' '' then CHR ''_'' else c) (lower (strip (exc_str e)));
          normalized = strip_underscores (squash False raw)
      in case e of
           StrictIngestCompletenessError _ _ _ _ \<Rightarrow> ''strict_ingest_completeness_failed''
         | _ \<Rightarrow> if is_value_error e \<and> normalized \<noteq> [] then take 80 normalized else exn_class e)"

section \<open>The step graph\<close>

record step_definition =
  sd_key :: string
  sd_order :: int
  sd_depends_on :: "string list"

definition step_node :: "string \<Rightarrow> int \<Rightarrow> string list \<Rightarrow> step_definition" where
  "step_node key order depends_on = \<lparr>sd_key = key, sd_order = order, sd_depends_on = depends_on\<rparr>"

definition RUN_STEP_DEFINITIONS :: "string \<Rightarrow> step_definition list" where
  "RUN_STEP_DEFINITIONS kind =
     (if kind = ''discover'' then
        [step_node ''discover_inventory'' 10 [], step_node ''ingest_profile_governance'' 20 [''discover_inventory''],
         step_node ''semantic_drift_gate'' 30 [''ingest_profile_governance''],
         step_node ''finalize_output'' 40 [''semantic_drift_gate'']]
      else if kind = ''semantic_bootstrap'' then
        [step_node ''collect_catalog'' 10 [], step_node ''build_manifest_candidate'' 20 [''collect_catalog''],
         step_node ''finalize_output'' 30 [''build_manifest_candidate'']]
      else if kind = ''materialize_refresh'' then
        [step_node ''collect_inputs'' 10 [], step_node ''refresh_materializations'' 20 [''collect_inputs''],
         step_node ''finalize_output'' 30 [''refresh_materializations'']]
      else [])"

section \<open>Rows of steps\<close>

text \<open>The rows of a run by step key: \<open>dict[str, RunStepRecord]\<close> as the keys of the rows.\<close>

type_synonym step_rows = "(string \<times> string) list"

definition queued_step :: "run_record \<Rightarrow> string \<Rightarrow> step_definition \<Rightarrow> run_step" where
  "queued_step run new_id sd =
     \<lparr>st_id = new_id, st_run = run_id run, st_workspace = run_workspace run, st_run_type = run_type run,
      st_key = sd_key sd, st_order = sd_order sd, st_depends_on = sd_depends_on sd, st_status = ''queued'',
      st_started = None, st_finished = None, st_duration_ms = None, st_attempts = 0, st_error = None,
      st_evidence = None, st_details = []\<rparr>"

definition add_step :: "run_step \<Rightarrow> unit tx" where
  "add_step row = tchange (\<lambda>d. rbind (tbl_add st_id row (run_steps d)) (\<lambda>t. Inr (d\<lparr>run_steps := t\<rparr>)))"

fun add_steps :: "cp_env \<Rightarrow> run_record \<Rightarrow> step_definition list \<Rightarrow> run_step list tx" where
  "add_steps env run [] = tpure []"
| "add_steps env run (sd # sds) =
     tbind (issue_id env) (\<lambda>new_id.
     let row = queued_step run new_id sd
     in tbind (add_step row) (\<lambda>_. tbind (add_steps env run sds) (\<lambda>rows. tpure (row # rows))))"

definition by_key :: "run_step list \<Rightarrow> step_rows" where
  "by_key rows = foldl (\<lambda>m r. dset m (st_key r) (st_id r)) [] rows"

definition steps_of :: "run_record \<Rightarrow> db \<Rightarrow> run_step list" where
  "steps_of run d = sort_key st_order (sort_key st_id
     (filter (\<lambda>r. st_workspace r = run_workspace run \<and> st_run r = run_id run) (run_steps d)))"

definition ensure_run_steps :: "cp_env \<Rightarrow> run_record \<Rightarrow> step_rows tx" where
  "ensure_run_steps env run =
     tbind (tread (steps_of run)) (\<lambda>existing_rows.
     if existing_rows \<noteq> [] then tpure (by_key existing_rows)
     else tbind (add_steps env run (RUN_STEP_DEFINITIONS (run_type run))) (\<lambda>rows. tpure (by_key rows)))"

text \<open>The update of a loaded row.\<close>

definition set_step :: "string \<Rightarrow> (run_step \<Rightarrow> run_step) \<Rightarrow> unit tx" where
  "set_step k f = tmodify (\<lambda>d. d\<lparr>run_steps := map (\<lambda>r. if st_id r = k then f r else r) (run_steps d)\<rparr>)"

definition step_row :: "string \<Rightarrow> db \<Rightarrow> run_step option" where
  "step_row k d = tbl_get st_id k (run_steps d)"

definition started_step :: "int \<Rightarrow> run_step \<Rightarrow> run_step" where
  "started_step now r = r\<lparr>st_status := ''running'', st_attempts := st_attempts r + 1, st_started := Some now,
     st_finished := None, st_duration_ms := None, st_error := None, st_evidence := None, st_details := []\<rparr>"

text \<open>\<open>int(row.started_epoch or finished_epoch)\<close>\<close>

definition epoch_or :: "int option \<Rightarrow> int \<Rightarrow> int" where
  "epoch_or o' n = (case o' of Some t \<Rightarrow> if t = 0 then n else t | None \<Rightarrow> n)"

definition finished_step :: "string \<Rightarrow> string option \<Rightarrow> pydict \<Rightarrow> string option \<Rightarrow> int \<Rightarrow> run_step \<Rightarrow> run_step" where
  "finished_step status error details evidence now r =
     r\<lparr>st_status := status, st_finished := Some now,
       st_duration_ms := Some (max ((now - epoch_or (st_started r) now) * 1000) 0), st_error := error,
       st_evidence := evidence, st_details := details\<rparr>"

definition start_step :: "worker_env \<Rightarrow> step_rows \<Rightarrow> string \<Rightarrow> unit tx" where
  "start_step env steps key = (case dget steps key of
     None \<Rightarrow> tpure ()
   | Some k \<Rightarrow> tbind (clock env) (\<lambda>now. set_step k (started_step now)))"

definition succeed_step :: "worker_env \<Rightarrow> step_rows \<Rightarrow> string \<Rightarrow> pydict \<Rightarrow> string option \<Rightarrow> unit tx" where
  "succeed_step env steps key details evidence = (case dget steps key of
     None \<Rightarrow> tpure ()
   | Some k \<Rightarrow> tbind (clock env) (\<lambda>now. set_step k (finished_step ''succeeded'' None details evidence now)))"

definition fail_step :: "worker_env \<Rightarrow> step_rows \<Rightarrow> string \<Rightarrow> string \<Rightarrow> pydict \<Rightarrow> string option \<Rightarrow> unit tx" where
  "fail_step env steps key error_code details evidence = (case dget steps key of
     None \<Rightarrow> tpure ()
   | Some k \<Rightarrow> tbind (clock env) (\<lambda>now. set_step k (finished_step ''failed'' (Some error_code) details evidence now)))"

definition rows_of :: "step_rows \<Rightarrow> db \<Rightarrow> run_step list" where
  "rows_of steps d = concat (map (\<lambda>(_, k). case step_row k d of None \<Rightarrow> [] | Some r \<Rightarrow> [r]) steps)"

text \<open>
  A run that fails has a failed step: the one that was running, or the first of the graph. The
  step is then looked up by its key.
\<close>

definition ensure_failed_run_step ::
  "worker_env \<Rightarrow> step_rows \<Rightarrow> string \<Rightarrow> pydict \<Rightarrow> string option \<Rightarrow> unit tx" where
  "ensure_failed_run_step env steps error_code details evidence =
     tbind (tread (rows_of steps)) (\<lambda>rows.
     if rows = [] \<or> list_ex (\<lambda>r. st_status r = ''failed'') rows then tpure ()
     else
       let running = (case find (\<lambda>r. st_status r = ''running'') rows of
             Some r \<Rightarrow> r | None \<Rightarrow> hd (sort_key st_order (sort_key st_id rows)))
       in fail_step env steps (st_key running) error_code details evidence)"

text \<open>The time that a step has used is checked against the limit; the clock is read once or twice.\<close>

definition worker_step_max_items :: "worker_env \<Rightarrow> int" where
  "worker_step_max_items env = env_int env ''SCHEMAPILOT_WORKER_STEP_MAX_ITEMS'' 10000"

definition worker_step_timeout_seconds :: "worker_env \<Rightarrow> int" where
  "worker_step_timeout_seconds env = env_int env ''SCHEMAPILOT_WORKER_STEP_TIMEOUT_SECONDS'' 300"

definition enforce_worker_step_timeout :: "worker_env \<Rightarrow> step_rows \<Rightarrow> string \<Rightarrow> unit tx" where
  "enforce_worker_step_timeout env steps key = (case dget steps key of
     None \<Rightarrow> tpure ()
   | Some k \<Rightarrow> tbind (tread (step_row k)) (\<lambda>row.
       let started_epoch = (case row of None \<Rightarrow> None | Some r \<Rightarrow> st_started r)
       in tbind (if epoch_or started_epoch 0 = 0 then clock env else tpure (epoch_or started_epoch 0)) (\<lambda>started.
          tbind (clock env) (\<lambda>now.
          if now - started > worker_step_timeout_seconds env then traise (ValueError ''worker_step_timeout_exceeded'')
          else tpure ()))))"

section \<open>Lemmas\<close>

lemma clock_simps [simp]:
  "clock env s = (r, s') \<longleftrightarrow> r = Inr (we_clock env (se_ticks s)) \<and> s' = s\<lparr>se_ticks := Suc (se_ticks s)\<rparr>"
  "db_same (clock env)" "db_same (write_json path v)"
  by (auto simp: clock_def db_same_def write_json_def)

lemma clock_same [simp]: "tsame g (clock env)" "tsame g (write_json path v)"
  by (simp_all add: tsame_db_same)

lemma set_step_same: "(\<And>d ts. g (d\<lparr>run_steps := ts\<rparr>) = g d) \<Longrightarrow> tsame g (set_step k f)"
  unfolding set_step_def by (rule tsame_modify) simp

lemma step_ops_same:
  assumes "\<And>d ts. g (d\<lparr>run_steps := ts\<rparr>) = g d"
  shows "tsame g (start_step env steps key)" "tsame g (succeed_step env steps key details ev)"
    "tsame g (fail_step env steps key err details ev)" "tsame g (ensure_failed_run_step env steps err details ev)"
    "tsame g (enforce_worker_step_timeout env steps key)"
proof -
  have f: "tsame g (fail_step env steps key err details ev)" for key
    by (auto simp: fail_step_def split: option.split intro!: tsame_bind set_step_same assms)
  then show "tsame g (fail_step env steps key err details ev)" .
  show "tsame g (start_step env steps key)" "tsame g (succeed_step env steps key details ev)"
    "tsame g (enforce_worker_step_timeout env steps key)"
    by (auto simp: start_step_def succeed_step_def enforce_worker_step_timeout_def Let_def
        split: option.split intro!: tsame_bind set_step_same assms)
  show "tsame g (ensure_failed_run_step env steps err details ev)"
    unfolding ensure_failed_run_step_def Let_def by (auto intro!: tsame_bind f)
qed

text \<open>The graphs are acyclic, in the order of their steps: a step depends on earlier steps only.\<close>

lemma step_graph_ordered:
  "list_all (\<lambda>sd. list_all (\<lambda>dep. list_ex (\<lambda>sd'. sd_key sd' = dep \<and> sd_order sd' < sd_order sd)
     (RUN_STEP_DEFINITIONS kind)) (sd_depends_on sd)) (RUN_STEP_DEFINITIONS kind) \<and>
   distinct (map sd_key (RUN_STEP_DEFINITIONS kind))"
  by (auto simp: RUN_STEP_DEFINITIONS_def step_node_def)

lemma error_code_nonempty_short:
  "error_code_from_exception (ValueError m) \<noteq> [] \<and> length (error_code_from_exception (ValueError m)) \<le> 80"
  by (auto simp: error_code_from_exception_def Let_def)

end
