(* ===== verification/Ingest.thy ===== *)
theory Ingest
  imports RunSteps Detectors
begin

text \<open>
  The ingest of one discovered file (\<open>backend/workers/run_processor.py\<close>): its row in the catalog,
  its copy in the bronze zone (\<open>backend/workers/bronze.py\<close>), its profile, and the blocking review
  tasks for personal data, schema drift and anomalies.
\<close>

section \<open>Blocking review tasks\<close>

definition get_or_create_review_proposal :: "cp_env \<Rightarrow> string \<Rightarrow> string \<Rightarrow> string \<Rightarrow> pyval \<Rightarrow> string tx" where
  "get_or_create_review_proposal env workspace_id proposal_type uri confidence =
     tbind (tread (\<lambda>d. tbl_first (\<lambda>p. pr_workspace p = workspace_id \<and> pr_type p = proposal_type \<and>
       pr_evidence_uri p = uri) (proposals d))) (\<lambda>existing.
     case existing of
       Some p \<Rightarrow> tpure (pr_id p)
     | None \<Rightarrow> tbind (create_proposal env workspace_id proposal_type uri confidence) (\<lambda>p. tpure (pr_id p)))"

definition blocking_task :: "string \<Rightarrow> string \<Rightarrow> string \<Rightarrow> db \<Rightarrow> review_task option" where
  "blocking_task workspace_id proposal_id priority d =
     tbl_first (\<lambda>t. tk_workspace t = workspace_id \<and> tk_subject t = proposal_id \<and> tk_priority t = priority \<and>
       tk_blocking t \<and> is_unresolved t) (tasks d)"

definition create_blocking_review_task_if_missing :: "cp_env \<Rightarrow> string \<Rightarrow> string \<Rightarrow> string \<Rightarrow> bool tx" where
  "create_blocking_review_task_if_missing env workspace_id proposal_id priority =
     tbind (tread (blocking_task workspace_id proposal_id priority)) (\<lambda>existing.
     case existing of
       Some _ \<Rightarrow> tpure False
     | None \<Rightarrow> tbind (create_review_task env workspace_id proposal_id priority True) (\<lambda>_. tpure True))"

text \<open>Evidence, proposal and task of one finding; 1 if the task is new.\<close>

definition raise_finding ::
  "worker_env \<Rightarrow> string \<Rightarrow> string \<Rightarrow> pydict \<Rightarrow> string \<Rightarrow> pyval \<Rightarrow> string \<Rightarrow> nat tx" where
  "raise_finding env workspace_id bundle_type payload proposal_type confidence priority =
     tbind (store_bundle (we_cp env) workspace_id bundle_type payload) (\<lambda>stored.
     tbind (get_or_create_review_proposal (we_cp env) workspace_id proposal_type (sb_uri stored) confidence) (\<lambda>proposal_id.
     tbind (create_blocking_review_task_if_missing (we_cp env) workspace_id proposal_id priority) (\<lambda>created.
     tpure (if created then 1 else 0))))"

definition ensure_ingest_completeness_review_task :: "cp_env \<Rightarrow> string \<Rightarrow> string \<Rightarrow> (string \<times> string) tx" where
  "ensure_ingest_completeness_review_task env workspace_id uri =
     tbind (get_or_create_review_proposal env workspace_id ''ingest_completeness_proposal'' uri (PFloat ''1.0'' (Some 1)))
       (\<lambda>proposal_id.
     tbind (tread (blocking_task workspace_id proposal_id ''quality_critical'')) (\<lambda>existing.
     case existing of
       Some t \<Rightarrow> tpure (proposal_id, tk_id t)
     | None \<Rightarrow> tbind (create_review_task env workspace_id proposal_id ''quality_critical'' True)
         (\<lambda>t. tpure (proposal_id, tk_id t))))"

section \<open>The catalog row of a file\<close>

definition relative_locator :: "worker_env \<Rightarrow> string \<Rightarrow> string \<Rightarrow> string" where
  "relative_locator env root_path path =
     (let base = we_resolve env root_path; target = we_resolve env path
      in if below target base then as_posix ([], drop (length (snd base)) (snd target)) else as_posix target)"

definition stable_dataset_id :: "worker_env \<Rightarrow> string \<Rightarrow> string \<Rightarrow> string \<Rightarrow> string" where
  "stable_dataset_id env workspace_id source_id locator =
     we_uuid5 env (''schemapilot://dataset/'' @ workspace_id @ ''/'' @ source_id @ ''/'' @ locator)"

definition set_dataset :: "string \<Rightarrow> (catalog_dataset \<Rightarrow> catalog_dataset) \<Rightarrow> unit tx" where
  "set_dataset k f = tmodify (\<lambda>d. d\<lparr>datasets := map (\<lambda>r. if ds_id r = k then f r else r) (datasets d)\<rparr>)"

definition same_place :: "string \<Rightarrow> string \<Rightarrow> string \<Rightarrow> catalog_dataset \<Rightarrow> bool" where
  "same_place workspace_id source_id locator r \<longleftrightarrow>
     ds_workspace r = workspace_id \<and> ds_source r = source_id \<and> ds_locator r = locator"

definition upsert_catalog_dataset :: "worker_env \<Rightarrow> string \<Rightarrow> string \<Rightarrow> string \<Rightarrow> string \<Rightarrow> string tx" where
  "upsert_catalog_dataset env workspace_id source_id locator logical_name =
     (let rename = (\<lambda>k. tbind (set_dataset k (\<lambda>r. r\<lparr>ds_logical_name := logical_name\<rparr>)) (\<lambda>_. tpure k));
          dataset_id = stable_dataset_id env workspace_id source_id locator
      in tbind (tread (\<lambda>d. tbl_first (same_place workspace_id source_id locator) (datasets d))) (\<lambda>existing.
         case existing of
           Some r \<Rightarrow> rename (ds_id r)
         | None \<Rightarrow>
             tbind (tread (\<lambda>d. tbl_get ds_id dataset_id (datasets d))) (\<lambda>collision.
             case collision of
               Some r \<Rightarrow>
                 if \<not> same_place workspace_id source_id locator r
                 then traise (ValueError (''Deterministic dataset id collision for locator '' @ locator @ ''.''))
                 else rename dataset_id
             | None \<Rightarrow>
                 tbind (tchange (\<lambda>d. rbind (tbl_add ds_id \<lparr>ds_id = dataset_id, ds_workspace = workspace_id,
                     ds_source = source_id, ds_logical_name = logical_name, ds_locator = locator, ds_schema_version = 1,
                     ds_summary = PDict [(''classification'', PStr ''unknown'')]\<rparr> (datasets d))
                   (\<lambda>t. Inr (d\<lparr>datasets := t\<rparr>)))) (\<lambda>_. tpure dataset_id))))"

section \<open>The bronze zone\<close>

text \<open>The UTC date of a time in seconds.\<close>

definition civil_date :: "int \<Rightarrow> int \<times> int \<times> int" where
  "civil_date now =
     (let z = now div 86400 + 719468; era = z div 146097; doe = z mod 146097;
          yoe = (doe - doe div 1460 + doe div 36524 - doe div 146096) div 365;
          doy = doe - (365 * yoe + yoe div 4 - yoe div 100); mp = (5 * doy + 2) div 153;
          d = doy - (153 * mp + 2) div 5 + 1; m = (if mp < 10 then mp + 3 else mp - 9)
      in (yoe + era * 400 + (if m \<le> 2 then 1 else 0), m, d))"

definition date_text :: "int \<Rightarrow> string" where
  "date_text now = (case civil_date now of (y, m, d) \<Rightarrow>
     int_str y @ ''-'' @ pad_left 2 (CHR ''0'') (int_str m) @ ''-'' @ pad_left 2 (CHR ''0'') (int_str d))"

definition bronze_dataset_path :: "string \<Rightarrow> string \<Rightarrow> string \<Rightarrow> string \<Rightarrow> py_path" where
  "bronze_dataset_path storage_root workspace_id source_id dataset_id =
     path_join (path_join (path_join (path_join (path_of storage_root) ''bronze'') workspace_id) source_id) dataset_id"

text \<open>
  The artifact of a dataset with a given content, by the manifests below its directory in the
  order in which they were written.
\<close>

fun find_existing_artifact :: "string \<Rightarrow> string \<Rightarrow> (string \<times> json_text) list \<Rightarrow> string option res" where
  "find_existing_artifact dataset_root content_hash [] = Inr None"
| "find_existing_artifact dataset_root content_hash ((path, body) # files) =
     (if \<not> (startswith path (dataset_root @ ''/'') \<and> last (split_on (CHR ''/'') path) = ''manifest.json'')
      then find_existing_artifact dataset_root content_hash files
      else case body of
             None \<Rightarrow> Inl (ValueError ''JSONDecodeError'')
           | Some (PDict d) \<Rightarrow>
               if dget_or d ''content_hash'' PNone = PStr content_hash
               then Inr (Some (take (length path - length ''/manifest.json'') path))
               else find_existing_artifact dataset_root content_hash files
           | Some _ \<Rightarrow> Inl (OtherError ''AttributeError''))"

record bronze_result =
  br_artifact :: string
  br_raw_path :: string
  br_manifest_path :: string
  br_content_hash :: string

definition write_file :: "string \<Rightarrow> string \<Rightarrow> unit tx" where
  "write_file path content s = (Inr (), s\<lparr>se_files := dset (se_files s) path content\<rparr>)"

definition first_raw :: "string \<Rightarrow> cp_session \<Rightarrow> string res" where
  "first_raw artifact_root s =
     (case find (\<lambda>p. startswith p (artifact_root @ ''/raw/'')) (dkeys (se_files s)) of
        None \<Rightarrow> Inl (OtherError ''StopIteration'') | Some p \<Rightarrow> Inr p)"

definition drop_artifact_prefix :: "string \<Rightarrow> string" where
  "drop_artifact_prefix name = (if startswith name ''artifact_'' then drop 9 name else name)"

definition file_name :: "string \<Rightarrow> string" where
  "file_name path = last ([] # snd (path_of path))"

definition bronze_manifest :: "string \<Rightarrow> string \<Rightarrow> string \<Rightarrow> string \<Rightarrow> pydict" where
  "bronze_manifest artifact_id content_hash source_file kind =
     [(''manifest_version'', PStr ''1.0.0''), (''artifact_id'', PStr artifact_id), (''content_hash'', PStr content_hash),
      (''source_locator'', PStr (as_posix (path_of source_file))), (''parser'', PStr ''raw_copy''),
      (''parser_version'', PStr ''1.0.0''), (''parse_params'', PDict []), (''discovered_schema'', PDict []),
      (''run_id'', PStr kind)]"

definition new_artifact :: "worker_env \<Rightarrow> string \<Rightarrow> string \<Rightarrow> string \<Rightarrow> string \<Rightarrow> int \<Rightarrow> string tx" where
  "new_artifact env dataset_root source_file body content_hash now =
     tbind (issue_id (we_cp env)) (\<lambda>artifact_id.
     let artifact_root = dataset_root @ ''/'' @ date_text now @ ''/artifact_'' @ artifact_id
     in tbind (write_file (artifact_root @ ''/raw/'' @ file_name source_file) body) (\<lambda>_. tpure artifact_root))"

definition ingest_file_to_bronze ::
  "worker_env \<Rightarrow> string \<Rightarrow> string \<Rightarrow> string \<Rightarrow> string \<Rightarrow> string \<Rightarrow> string \<Rightarrow> bronze_result tx" where
  "ingest_file_to_bronze env workspace_id source_id dataset_id source_file storage_root this_run =
     tbind (clock env) (\<lambda>now.
     case we_bytes env source_file of
       None \<Rightarrow> traise (no_such_file source_file)
     | Some body \<Rightarrow>
         let content_hash = ee_hexdigest (ce_evidence (we_cp env)) body;
             dataset_root = as_posix (bronze_dataset_path storage_root workspace_id source_id dataset_id)
         in tbind (tbind (tsee (\<lambda>s. find_existing_artifact dataset_root content_hash (se_json s))) tres) (\<lambda>existing.
            tbind (case existing of Some p \<Rightarrow> tpure p | None \<Rightarrow> new_artifact env dataset_root source_file body content_hash now)
              (\<lambda>artifact_root.
            let artifact_id = drop_artifact_prefix (last (split_on (CHR ''/'') artifact_root));
                manifest_path = artifact_root @ ''/manifest.json''
            in tbind (tbind (tsee (first_raw artifact_root)) tres) (\<lambda>raw_path.
               tbind (write_json manifest_path (PDict (bronze_manifest artifact_id content_hash source_file this_run))) (\<lambda>_.
               tpure \<lparr>br_artifact = artifact_id, br_raw_path = raw_path, br_manifest_path = manifest_path,
                 br_content_hash = content_hash\<rparr>)))))"

section \<open>Findings of a file\<close>

record item_place =
  ip_workspace :: string
  ip_dataset :: string
  ip_source :: string
  ip_locator :: string
  ip_path :: string

definition place_payload :: "item_place \<Rightarrow> pydict" where
  "place_payload ip = [(''dataset_id'', PStr (ip_dataset ip)), (''source_id'', PStr (ip_source ip)),
     (''physical_locator'', PStr (ip_locator ip))]"

definition high_risk_tags :: "string list" where
  "high_risk_tags = [''email'', ''phone'', ''iban'']"

definition pii_payload :: "item_place \<Rightarrow> string \<Rightarrow> pii_detection \<Rightarrow> pydict" where
  "pii_payload ip column_name d = place_payload ip @ [(''column_name'', PStr column_name), (''tag'', PStr (pd_tag d)),
     (''confidence'', of_float (pd_confidence d)), (''evidence'', PDict (pii_evidence d))]"

fun pii_loop :: "worker_env \<Rightarrow> item_place \<Rightarrow> (string \<times> string list) list \<Rightarrow> nat tx" where
  "pii_loop env ip [] = tpure 0"
| "pii_loop env ip ((column_name, values) # columns) =
     (let d = detect_pii_proposals values
      in if pd_tag d \<notin> set high_risk_tags \<or> fless (pd_confidence d) (flit 6 1) then pii_loop env ip columns
         else tbind (raise_finding env (ip_workspace ip) ''pii'' (pii_payload ip column_name d) ''pii_tag_proposal''
                (of_float (pd_confidence d)) ''security_critical'') (\<lambda>n.
              tbind (pii_loop env ip columns) (\<lambda>m. tpure (n + m))))"

definition create_pii_review_tasks_from_csv :: "worker_env \<Rightarrow> item_place \<Rightarrow> nat tx" where
  "create_pii_review_tasks_from_csv env ip =
     tbind (tres (read_csv_column_samples (we_text env) (ip_path ip) 1000)) (\<lambda>samples.
     pii_loop env ip (sort_key fst samples))"

definition full_confidence :: pyval where
  "full_confidence = PFloat ''1.0'' (Some 1)"

definition create_drift_review_task_if_needed ::
  "worker_env \<Rightarrow> item_place \<Rightarrow> string list \<Rightarrow> string list \<Rightarrow> nat tx" where
  "create_drift_review_task_if_needed env ip previous_columns current_columns =
     (let e = detect_schema_drift previous_columns current_columns
      in if previous_columns = [] \<or> \<not> de_detected e then tpure 0
         else raise_finding env (ip_workspace ip) ''drift''
                (place_payload ip @ [(''previous_columns'', str_py_list previous_columns),
                  (''current_columns'', str_py_list current_columns), (''drift'', PDict (drift_dict e))])
                ''drift_proposal'' full_confidence ''quality_critical'')"

definition create_anomaly_review_task_if_needed :: "worker_env \<Rightarrow> item_place \<Rightarrow> profile_evidence \<Rightarrow> nat tx" where
  "create_anomaly_review_task_if_needed env ip p =
     (let anomalies = detect_profile_anomalies p
      in if anomalies = [] then tpure 0
         else raise_finding env (ip_workspace ip) ''anomaly_detection''
                (place_payload ip @ [(''profile'', PDict (profile_dict p)), (''anomalies'', PList (map PDict anomalies))])
                ''anomaly_detection_proposal'' full_confidence ''quality_critical'')"

section \<open>One file\<close>

text \<open>
  What the loop over the files has gathered; it outlives an exception in the middle of a file.
\<close>

record gathered =
  ga_datasets :: "string list"
  ga_manifests :: "pydict list"
  ga_evidence :: "pydict list"
  ga_expected :: "pydict list"
  ga_failures :: "pydict list"
  ga_successes :: nat
  ga_pii :: nat
  ga_drift :: nat
  ga_anomaly :: nat

definition nothing_gathered :: gathered where
  "nothing_gathered = \<lparr>ga_datasets = [], ga_manifests = [], ga_evidence = [], ga_expected = [], ga_failures = [],
     ga_successes = 0, ga_pii = 0, ga_drift = 0, ga_anomaly = 0\<rparr>"

text \<open>A step of the body of the \<open>try\<close>: an exception ends it with what is gathered so far.\<close>

definition attempted :: "'b tx \<Rightarrow> gathered \<Rightarrow> ('b \<Rightarrow> (gathered \<times> exn option) tx) \<Rightarrow> (gathered \<times> exn option) tx" where
  "attempted m ga k s = (case m s of (Inl e, s') \<Rightarrow> (Inr (ga, Some e), s') | (Inr x, s') \<Rightarrow> k x s')"

text \<open>Iteration over a dynamic value, and the texts of its strings and numbers.\<close>

fun py_iter :: "pyval \<Rightarrow> pyval list res" where
  "py_iter (PList xs) = Inr xs"
| "py_iter (PStr s) = Inr (map (\<lambda>c. PStr [c]) s)"
| "py_iter (PDict d) = Inr (map PStr (dkeys d))"
| "py_iter _ = Inl TypeError"

fun scalar :: "pyval \<Rightarrow> bool" where
  "scalar (PStr _) = True"
| "scalar (PInt _) = True"
| "scalar (PBool _) = True"
| "scalar (PFloat _ _) = True"
| "scalar _ = False"

definition previous_columns_of :: "pydict \<Rightarrow> string list res" where
  "previous_columns_of summary = (case dget_or summary ''profile'' (PDict []) of
     PDict profile \<Rightarrow> rbind (py_iter (dget_or profile ''schema_columns'' (PList [])))
       (\<lambda>columns. Inr (map py_str (filter scalar columns)))
   | _ \<Rightarrow> Inr [])"

definition profiled_summary :: "pydict \<Rightarrow> profile_evidence \<Rightarrow> int \<Rightarrow> stored_bundle \<Rightarrow> pydict" where
  "profiled_summary summary p now stored =
     dset (dset (dset summary ''profile'' (PDict [(''row_count_sampled'', PInt (int (pe_row_count p))),
        (''parse_error_rate'', of_float (pe_parse_error_rate p)), (''schema_columns'', str_py_list (pe_columns p)),
        (''last_profile_epoch'', PInt now)])) ''last_evidence_bundle_uri'' (PStr (sb_uri stored)))
      ''last_evidence_content_hash'' (PStr (sb_content_hash stored))"

definition evidence_row :: "string \<Rightarrow> stored_bundle \<Rightarrow> profile_evidence \<Rightarrow> pydict" where
  "evidence_row dataset_id stored p = [(''dataset_id'', PStr dataset_id), (''evidence_bundle_uri'', PStr (sb_uri stored)),
     (''content_hash'', PStr (sb_content_hash stored)), (''evidence_path'', PStr (sb_path stored)),
     (''row_count_sampled'', PInt (int (pe_row_count p)))]"

definition dataset_summary :: "string \<Rightarrow> db \<Rightarrow> pydict" where
  "dataset_summary k d = (case tbl_get ds_id k (datasets d) of Some r \<Rightarrow> as_dict (ds_summary r) | None \<Rightarrow> [])"

definition profile_item :: "worker_env \<Rightarrow> item_place \<Rightarrow> gathered \<Rightarrow> (gathered \<times> exn option) tx" where
  "profile_item env ip ga =
     attempted (tres (profile_csv_file (we_text env) (we_nfkc env) (ip_path ip) 1000)) ga (\<lambda>p.
     attempted (tread (dataset_summary (ip_dataset ip))) ga (\<lambda>summary.
     attempted (tres (previous_columns_of summary)) ga (\<lambda>previous_columns.
     attempted (store_bundle (we_cp env) (ip_workspace ip) ''profile''
         (place_payload ip @ [(''profile'', PDict (profile_dict p))])) ga (\<lambda>stored.
     attempted (clock env) ga (\<lambda>now.
     attempted (set_dataset (ip_dataset ip) (\<lambda>r. r\<lparr>ds_summary := PDict (profiled_summary summary p now stored)\<rparr>)) ga (\<lambda>_.
     let ga1 = ga\<lparr>ga_evidence := ga_evidence ga @ [evidence_row (ip_dataset ip) stored p]\<rparr>
     in attempted (create_pii_review_tasks_from_csv env ip) ga1 (\<lambda>n.
        let ga2 = ga1\<lparr>ga_pii := ga_pii ga1 + n\<rparr>
        in attempted (create_drift_review_task_if_needed env ip previous_columns (pe_columns p)) ga2 (\<lambda>m.
           let ga3 = ga2\<lparr>ga_drift := ga_drift ga2 + m\<rparr>
           in attempted (create_anomaly_review_task_if_needed env ip p) ga3 (\<lambda>k.
              tpure (ga3\<lparr>ga_anomaly := ga_anomaly ga3 + k\<rparr>, None))))))))))"

definition ends_csv :: "string \<Rightarrow> bool" where
  "ends_csv path \<longleftrightarrow> 4 \<le> length path \<and> drop (length path - 4) (lower path) = ''.csv''"

definition manifest_row :: "string \<Rightarrow> bronze_result \<Rightarrow> pydict" where
  "manifest_row dataset_id b = [(''dataset_id'', PStr dataset_id), (''artifact_id'', PStr (br_artifact b)),
     (''manifest_path'', PStr (br_manifest_path b))]"

definition insert_new :: "string \<Rightarrow> string list \<Rightarrow> string list" where
  "insert_new x xs = (if x \<in> set xs then xs else xs @ [x])"

text \<open>\<open>discovered.dataset_family or Path(physical_locator).stem\<close>\<close>

definition logical_name_of :: "discovered_file \<Rightarrow> string \<Rightarrow> string" where
  "logical_name_of f locator = (if df_family f \<noteq> [] then df_family f else path_stem locator)"

definition ingest_item ::
  "worker_env \<Rightarrow> string \<Rightarrow> run_record \<Rightarrow> catalog_source \<Rightarrow> discovered_file \<Rightarrow> string \<Rightarrow> gathered \<Rightarrow>
   (gathered \<times> exn option) tx" where
  "ingest_item env storage_root run source f locator ga =
     attempted (upsert_catalog_dataset env (run_workspace run) (src_id source) locator (logical_name_of f locator)) ga
       (\<lambda>dataset_id.
     let ga1 = ga\<lparr>ga_datasets := insert_new dataset_id (ga_datasets ga)\<rparr>
     in attempted (ingest_file_to_bronze env (run_workspace run) (src_id source) dataset_id (df_path f) storage_root (run_id run))
          ga1 (\<lambda>b.
        let ga2 = ga1\<lparr>ga_manifests := ga_manifests ga1 @ [manifest_row dataset_id b]\<rparr>
        in if ends_csv (df_path f)
           then profile_item env \<lparr>ip_workspace = run_workspace run, ip_dataset = dataset_id, ip_source = src_id source,
                  ip_locator = locator, ip_path = df_path f\<rparr> ga2
           else tpure (ga2, None)))"

end
