(* ===== verification/SemanticBuilder.thy ===== *)
theory SemanticBuilder
  imports Ingest SemanticManifest "HOL-Library.Multiset"
begin

text \<open>
  The semantic manifest that is built from the catalog (\<open>backend/workers/semantic_builder.py\<close>): one
  entity for each dataset, a count metric for each entity, joins over shared key columns; the
  candidate is validated, stored as evidence and put up for review.
\<close>

section \<open>Identifiers and keys\<close>

definition safe_char :: "char \<Rightarrow> char" where
  "safe_char c = (if ident_char c then c else CHR ''_'')"

definition entity_identifier :: "string \<Rightarrow> string" where
  "entity_identifier v =
     (let normalized = map safe_char (lower (strip v))
      in case normalized of
           [] \<Rightarrow> ''entity''
         | c # _ \<Rightarrow> if is_digit c then ''e_'' @ normalized else normalized)"

text \<open>
  The loop \<open>while candidate in existing\<close> tries the base and then the suffixes 2, 3, \<dots>; one more
  candidate than there are taken names is enough.
\<close>

definition candidates :: "string \<Rightarrow> nat \<Rightarrow> string list" where
  "candidates base n = base # map (\<lambda>i. base @ ''_'' @ int_str (int i)) [2..<n + 2]"

definition unique_entity_id :: "string \<Rightarrow> string list \<Rightarrow> string" where
  "unique_entity_id base existing =
     (case find (\<lambda>c. c \<notin> set existing) (candidates base (length existing)) of Some c \<Rightarrow> c | None \<Rightarrow> base)"

definition ends_id :: "string \<Rightarrow> bool" where
  "ends_id s \<longleftrightarrow> 3 \<le> length s \<and> drop (length s - 3) s = ''_id''"

definition pick_primary_key :: "string list \<Rightarrow> string" where
  "pick_primary_key columns =
     (if columns = [] then ''id''
      else case dget (foldl (\<lambda>m c. dset m (lower c) c) [] columns) ''id'' of
             Some c \<Rightarrow> c
           | None \<Rightarrow> (case find (\<lambda>c. ends_id (lower c)) columns of Some c \<Rightarrow> c | None \<Rightarrow> hd columns))"

section \<open>Entities, metrics and joins\<close>

definition string_list :: "pyval \<Rightarrow> string list" where
  "string_list v = sorted_set (filter (\<lambda>s. s \<noteq> []) (map (\<lambda>x. strip (py_str x)) (as_list v)))"

definition profile_columns :: "catalog_dataset \<Rightarrow> string list" where
  "profile_columns r = string_list (dget_or (as_dict (dget_or (as_dict (ds_summary r)) ''profile'' (PDict [])))
     ''schema_columns'' PNone)"

definition entity_base :: "catalog_dataset \<Rightarrow> string" where
  "entity_base r = entity_identifier (if ds_logical_name r \<noteq> [] then ds_logical_name r else ds_id r)"

definition entity_for :: "string \<Rightarrow> catalog_dataset \<Rightarrow> sem_entity" where
  "entity_for entity_id r =
     (let columns = profile_columns r; primary_key = pick_primary_key columns
      in \<lparr>en_id = entity_id, en_dataset = ds_id r, en_primary_key = primary_key,
          en_attributes = take 40 (sorted_set (filter (\<lambda>c. c \<noteq> primary_key) columns))\<rparr>)"

fun build_entities :: "string list \<Rightarrow> catalog_dataset list \<Rightarrow> sem_entity list" where
  "build_entities existing [] = []"
| "build_entities existing (r # rs) =
     (let entity_id = unique_entity_id (entity_base r) existing
      in entity_for entity_id r # build_entities (existing @ [entity_id]) rs)"

definition flag_reason :: "catalog_dataset \<Rightarrow> string option" where
  "flag_reason r =
     (let columns = profile_columns r
      in if columns = [] then Some ''missing_profile_columns''
         else if pick_primary_key columns = ''id'' \<and> ''id'' \<notin> set columns then Some ''fallback_primary_key''
         else None)"

definition confidence_flags :: "catalog_dataset list \<Rightarrow> pydict list" where
  "confidence_flags rs = concat (map (\<lambda>r. case flag_reason r of None \<Rightarrow> []
     | Some reason \<Rightarrow> [[(''dataset_id'', PStr (ds_id r)), (''reason'', PStr reason)]]) rs)"

definition metric_for :: "sem_entity \<Rightarrow> sem_metric" where
  "metric_for e = \<lparr>me_id = en_id e @ ''_count'', me_entity = en_id e, me_aggregation = ''count'',
     me_field = en_primary_key e, me_expression = ''count('' @ en_primary_key e @ '')''\<rparr>"

definition join_for :: "sem_entity \<Rightarrow> sem_entity \<Rightarrow> sem_join" where
  "join_for left right = \<lparr>jo_id = en_id right @ ''_to_'' @ en_id left, jo_left = en_id right, jo_right = en_id left,
     jo_left_key = en_primary_key left, jo_right_key = en_primary_key left, jo_type = ''left''\<rparr>"

definition joinable :: "sem_entity \<Rightarrow> sem_entity \<Rightarrow> bool" where
  "joinable left right \<longleftrightarrow> en_id left \<noteq> en_id right \<and> en_primary_key left \<in> set (en_attributes right)"

fun keep_first :: "string list \<Rightarrow> sem_join list \<Rightarrow> sem_join list" where
  "keep_first seen [] = []"
| "keep_first seen (j # js) = (if jo_id j \<in> set seen then keep_first seen js else j # keep_first (jo_id j # seen) js)"

definition infer_joins :: "sem_entity list \<Rightarrow> sem_join list" where
  "infer_joins es = sort_key jo_id (keep_first []
     (concat (map (\<lambda>left. map (join_for left) (filter (joinable left) es)) es)))"

section \<open>The candidate\<close>

definition raw_manifest :: "string \<Rightarrow> sem_entity list \<Rightarrow> pydict" where
  "raw_manifest workspace_id es = [(''manifest_version'', PStr ''1''), (''workspace_id'', PStr workspace_id),
     (''entities'', PList (map entity_py es)), (''metrics'', PList (map (metric_py \<circ> metric_for) es)),
     (''joins'', PList (map join_py (infer_joins es)))]"

definition candidate_checksum :: "evidence_env \<Rightarrow> manifest \<Rightarrow> string" where
  "candidate_checksum env m = ee_hexdigest env (json_dumps (PDict (manifest_py m)))"

definition candidate_confidence :: "nat \<Rightarrow> pyfloat" where
  "candidate_confidence flags =
     fmax (flit 4 1) (fmin (Fin 1) (fsub (flit 95 2) (fmul (flit 2 1) (Fin (of_nat flags)))))"

record candidate =
  cd_manifest :: manifest
  cd_checksum :: string
  cd_evidence :: string
  cd_confidence :: pyfloat
  cd_flag_count :: nat
  cd_proposal :: string
  cd_task :: string
  cd_entities :: nat
  cd_joins :: nat

definition get_or_create_proposal :: "cp_env \<Rightarrow> string \<Rightarrow> string \<Rightarrow> pyval \<Rightarrow> string tx" where
  "get_or_create_proposal env workspace_id uri confidence =
     get_or_create_review_proposal env workspace_id ''semantic_manifest_change_proposal'' uri confidence"

definition get_or_create_blocking_task :: "cp_env \<Rightarrow> string \<Rightarrow> string \<Rightarrow> string tx" where
  "get_or_create_blocking_task env workspace_id proposal_id =
     tbind (tread (blocking_task workspace_id proposal_id ''quality_critical'')) (\<lambda>existing.
     case existing of
       Some t \<Rightarrow> tpure (tk_id t)
     | None \<Rightarrow> tbind (create_review_task env workspace_id proposal_id ''quality_critical'' True) (\<lambda>t. tpure (tk_id t)))"

definition workspace_datasets :: "string \<Rightarrow> db \<Rightarrow> catalog_dataset list" where
  "workspace_datasets workspace_id d =
     sort_key ds_logical_name (sort_key ds_id (filter (\<lambda>r. ds_workspace r = workspace_id) (datasets d)))"

definition entity_map :: "sem_entity list \<Rightarrow> pyval" where
  "entity_map es = PList (map (\<lambda>e. PDict [(''dataset_id'', PStr (en_dataset e)), (''entity_id'', PStr (en_id e)),
     (''primary_key'', PStr (en_primary_key e))]) es)"

definition build_semantic_manifest_candidate :: "worker_env \<Rightarrow> string \<Rightarrow> candidate tx" where
  "build_semantic_manifest_candidate env workspace_id =
     tbind (tread (workspace_datasets workspace_id)) (\<lambda>rs.
     if rs = [] then traise (ValueError ''semantic_bootstrap_requires_catalog_datasets'')
     else
       let es = build_entities [] rs; flags = confidence_flags rs; confidence = candidate_confidence (length flags)
       in tbind (tres (validate_semantic_manifest (raw_manifest workspace_id es) (Some workspace_id))) (\<lambda>m.
          let checksum = candidate_checksum (ce_evidence (we_cp env)) m
          in tbind (store_bundle (we_cp env) workspace_id ''semantic_manifest_candidate''
              [(''workspace_id'', PStr workspace_id), (''manifest'', PDict (manifest_py m)), (''manifest_checksum'', PStr checksum),
               (''dataset_entity_map'', entity_map es), (''confidence_flags'', PList (map PDict flags)),
               (''confidence'', of_float confidence)]) (\<lambda>stored.
             tbind (get_or_create_proposal (we_cp env) workspace_id (sb_uri stored) (of_float confidence)) (\<lambda>proposal_id.
             tbind (get_or_create_blocking_task (we_cp env) workspace_id proposal_id) (\<lambda>task_id.
             tpure \<lparr>cd_manifest = m, cd_checksum = checksum, cd_evidence = sb_uri stored, cd_confidence = confidence,
               cd_flag_count = length flags, cd_proposal = proposal_id, cd_task = task_id, cd_entities = length es,
               cd_joins = length (infer_joins es)\<rparr>)))))"

section \<open>The identifiers are identifiers, and unique\<close>

lemma ident_char_basic [simp]: "ident_char (CHR ''_'')" "ident_start (CHR ''_'')" "ident_start (CHR ''e'')"
  by (simp_all add: ident_char_def ident_start_def is_alpha_def code_def)

lemma ident_start_or_digit: "ident_char c \<Longrightarrow> ident_start c \<or> is_digit c"
  by (auto simp: ident_char_def ident_start_def)

lemma entity_identifier_ident: "is_ident (entity_identifier v)"
proof -
  have safe: "list_all ident_char (map safe_char s)" for s by (induction s) (auto simp: safe_char_def)
  have "is_ident ''entity''" by code_simp
  show ?thesis
  proof (cases "map safe_char (lower (strip v))")
    case Nil
    with \<open>is_ident ''entity''\<close> show ?thesis by (simp add: entity_identifier_def)
  next
    case (Cons c s)
    with safe [of "lower (strip v)"] have "ident_char c" "list_all ident_char s" by simp_all
    with ident_start_or_digit [of c] show ?thesis by (auto simp: entity_identifier_def Let_def Cons)
  qed
qed

lemma is_ident_append: "is_ident s \<Longrightarrow> list_all ident_char t \<Longrightarrow> is_ident (s @ t)"
  by (cases s) auto

lemma nat_digits_ident: "list_all ident_char (nat_digits n)"
proof (induction n rule: nat_digits.induct)
  case (1 n)
  have d: "ident_char (char_of (48 + k))" if "k < 10" for k :: nat
    using that by (simp add: ident_char_def is_digit_def code_def)
  show ?case
  proof (cases "n < 10")
    case True
    with d [of n] show ?thesis by (simp add: nat_digits.simps [of n])
  next
    case False
    with 1 d [of "n mod 10"] show ?thesis by (simp add: nat_digits.simps [of n])
  qed
qed

lemma candidates_ident: "is_ident base \<Longrightarrow> c \<in> set (candidates base n) \<Longrightarrow> is_ident c"
  by (auto simp: candidates_def int_str_def nat_digits_ident intro!: is_ident_append)

lemma nat_digits_inj: "nat_digits m = nat_digits n \<Longrightarrow> m = n"
proof -
  have v: "foldl (\<lambda>a c. a * 10 + (code c - 48)) 0 (nat_digits k) = k" for k
  proof (induction k rule: nat_digits.induct)
    case (1 k)
    have c: "code (char_of (48 + j)) = 48 + j" if "j < 10" for j :: nat using that by (simp add: code_def)
    show ?case
    proof (cases "k < 10")
      case True
      then show ?thesis using c [of k] by (simp add: nat_digits.simps [of k])
    next
      case False
      then show ?thesis using 1 c [of "k mod 10"] by (simp add: nat_digits.simps [of k])
    qed
  qed
  assume "nat_digits m = nat_digits n"
  then have "foldl (\<lambda>a c. a * 10 + (code c - 48)) 0 (nat_digits m) = foldl (\<lambda>a c. a * 10 + (code c - 48)) 0 (nat_digits n)"
    by (rule arg_cong)
  then show ?thesis unfolding v .
qed

lemma candidates_distinct: "distinct (candidates base n)"
  by (auto simp: candidates_def distinct_map inj_on_def int_str_def dest!: nat_digits_inj)

text \<open>The loop ends: there is a candidate that is not taken.\<close>

lemma unique_entity_id_fresh:
  "unique_entity_id base existing \<notin> set existing \<and> unique_entity_id base existing \<in> set (candidates base (length existing))"
proof -
  have "\<exists>c \<in> set (candidates base (length existing)). c \<notin> set existing"
  proof (rule ccontr)
    assume "\<not> ?thesis"
    then have "set (candidates base (length existing)) \<subseteq> set existing" by blast
    from card_mono [OF finite_set this] card_length [of existing]
    have "card (set (candidates base (length existing))) \<le> length existing" by linarith
    moreover have "length (candidates base (length existing)) = Suc (length existing)" by (simp add: candidates_def del: upt_Suc)
    ultimately show False using distinct_card [OF candidates_distinct, of base "length existing"] by simp
  qed
  then obtain c where "find (\<lambda>c. c \<notin> set existing) (candidates base (length existing)) = Some c"
    by (metis find_None_iff not_Some_eq)
  with tbl_first_SomeD [of "\<lambda>c. c \<notin> set existing" "candidates base (length existing)" c] show ?thesis
    by (simp add: unique_entity_id_def tbl_first_def)
qed

lemma build_entities_ids:
  "distinct (map en_id (build_entities existing rs)) \<and> set (map en_id (build_entities existing rs)) \<inter> set existing = {} \<and>
   list_all (\<lambda>e. is_ident (en_id e)) (build_entities existing rs)"
proof (induction rs arbitrary: existing)
  case (Cons r rs)
  obtain id' where id': "unique_entity_id (entity_base r) existing = id'" by simp
  with unique_entity_id_fresh [of "entity_base r" existing] have fresh: "id' \<notin> set existing"
    and among: "id' \<in> set (candidates (entity_base r) (length existing))" by simp_all
  have ident: "is_ident id'" by (rule candidates_ident [OF _ among]) (simp add: entity_base_def entity_identifier_ident)
  have "en_id (entity_for id' r) = id'" by (simp add: entity_for_def Let_def)
  with Cons [of "existing @ [id']"] fresh ident show ?case by (auto simp: id' Let_def)
qed simp

section \<open>The candidate is accepted\<close>

definition dataset_ready :: "catalog_dataset \<Rightarrow> bool" where
  "dataset_ready r \<longleftrightarrow> ds_id r \<noteq> [] \<and> strip (ds_id r) = ds_id r \<and> list_all is_ident (profile_columns r)"

lemma lower_keys_values: "dget (foldl (\<lambda>m c. dset m (f c) c) d xs) k = Some v \<Longrightarrow> v \<in> set xs \<or> dget d k = Some v"
  by (induction xs arbitrary: d) (fastforce split: if_splits)+

lemma pick_primary_key_from: "pick_primary_key columns \<in> insert ''id'' (set columns)"
  using lower_keys_values [of lower "[]" columns "''id''"] find_in [of "\<lambda>c. ends_id (lower c)" columns]
  by (auto simp: pick_primary_key_def dget_def split: option.split)

lemma entity_for_ok:
  assumes "dataset_ready r" "is_ident k"
  shows "entity_ok (entity_for k r)"
proof -
  have "is_ident ''id''" by code_simp
  with pick_primary_key_from [of "profile_columns r"] assms(1) have pk: "is_ident (pick_primary_key (profile_columns r))"
    by (auto simp: dataset_ready_def list_all_iff)
  have "set (take 40 (sorted_set (filter P (profile_columns r)))) \<subseteq> set (profile_columns r)" for P
    using set_take_subset by fastforce
  with assms have "list_all is_ident (take 40 (sorted_set (filter P (profile_columns r))))" for P
    by (auto simp: dataset_ready_def list_all_iff)
  with assms pk show ?thesis
    by (simp add: entity_ok_def entity_for_def Let_def dataset_ready_def stripped_def sorted_wrt_take)
qed

lemma build_entities_ok:
  "list_all dataset_ready rs \<Longrightarrow> list_all entity_ok (build_entities existing rs)"
proof (induction rs arbitrary: existing)
  case (Cons r rs)
  let ?k = "unique_entity_id (entity_base r) existing"
  have "is_ident ?k"
    using build_entities_ids [of existing "[r]"] by (simp add: Let_def entity_for_def)
  with Cons entity_for_ok [of r ?k] show ?case by (simp add: Let_def)
qed simp

lemma build_entities_datasets: "map en_dataset (build_entities existing rs) = map ds_id rs"
  by (induction rs arbitrary: existing) (simp_all add: Let_def entity_for_def)

lemma metrics_ok:
  assumes "list_all entity_ok es" "distinct (map en_id es)"
  shows "list_all (metric_ok (map en_id es)) (map metric_for es) \<and> distinct (map me_id (map metric_for es))"
proof
  have count: "list_all ident_char ''_count''" by code_simp
  have ex: "stripped (''count('' @ k @ '')'')" for k
  proof -
    have "\<not> is_space (CHR ''c'')" "\<not> is_space (CHR '')'')" by code_simp+
    then show ?thesis by (simp add: stripped_def strip_id)
  qed
  show "list_all (metric_ok (map en_id es)) (map metric_for es)"
    using assms(1) is_ident_append [OF _ count] ex
    by (auto simp: list_all_iff metric_ok_def metric_for_def entity_ok_def AGGREGATIONS_def)
  show "distinct (map me_id (map metric_for es))"
    using assms(2) by (auto simp: distinct_map inj_on_def metric_for_def)
qed

lemma keep_first_distinct:
  "distinct (map jo_id (keep_first seen js)) \<and> set (map jo_id (keep_first seen js)) \<inter> set seen = {} \<and>
   set (keep_first seen js) \<subseteq> set js"
proof (induction js arbitrary: seen)
  case (Cons j js)
  from Cons [of seen] Cons [of "jo_id j # seen"] show ?case by auto
qed simp

lemma joins_ok:
  assumes "list_all entity_ok es"
  shows "list_all (join_ok (map en_id es)) (infer_joins es) \<and> distinct (map jo_id (infer_joins es))"
proof
  let ?all = "concat (map (\<lambda>left. map (join_for left) (filter (joinable left) es)) es)"
  have sep: "list_all ident_char ''_to_''" by code_simp
  have tail: "list_all ident_char k" if "is_ident k" for k using is_ident_chars [OF that] by (simp add: list_all_iff)
  have "list_all (join_ok (map en_id es)) ?all"
    using assms is_ident_append [OF is_ident_append [OF _ sep] tail]
    by (auto simp: list_all_iff join_ok_def join_for_def entity_ok_def JOIN_TYPES_def)
  with keep_first_distinct [of "[]" ?all] show "list_all (join_ok (map en_id es)) (infer_joins es)"
    by (auto simp: infer_joins_def list_all_iff)
  show "distinct (map jo_id (infer_joins es))"
    using keep_first_distinct [of "[]" ?all] by (simp add: infer_joins_def)
qed

lemma raw_manifest_accepted:
  assumes "list_all entity_ok es" "distinct (map en_id es)" "ws \<noteq> []" "strip ws = ws"
  shows "validate_semantic_manifest (raw_manifest ws es) (Some ws) =
    Inr \<lparr>mf_workspace = ws, mf_entities = sort_key en_id es, mf_metrics = sort_key me_id (map metric_for es),
      mf_joins = infer_joins es\<rparr>"
proof -
  have v: "strip ''1'' = ''1''" by code_simp
  have ids: "set (map en_id (sort_key en_id es)) = set (map en_id es)" by simp
  have weak: "metric_ok (map en_id (sort_key en_id es)) m = metric_ok (map en_id es) m"
    "join_ok (map en_id (sort_key en_id es)) j = join_ok (map en_id es) j" for m j
    by (simp_all add: metric_ok_def join_ok_def)
  have m: "map (metric_py \<circ> metric_for) es = map metric_py (map metric_for es)" by simp
  have e: "normalize_entities (map entity_py es) = Inr (sort_key en_id es)"
    using assms by (simp add: normalize_entities_def entity_rows_py)
  have mm: "normalize_metrics (map en_id (sort_key en_id es)) (map metric_py (map metric_for es)) =
      Inr (sort_key me_id (map metric_for es))"
    using metrics_ok [OF assms(1,2)] unfolding normalize_metrics_def
    by (subst metric_rows_py) (auto simp: weak list_all_iff simp del: map_map)
  have j: "normalize_joins (map en_id (sort_key en_id es)) (map join_py (infer_joins es)) = Inr (infer_joins es)"
    using joins_ok [OF assms(1)] unfolding normalize_joins_def
    by (subst join_rows_py) (auto simp: weak list_all_iff sort_key_id_if_sorted infer_joins_def)
  show ?thesis
    using assms(3,4) v e mm j unfolding raw_manifest_def m
    by (simp add: validate_semantic_manifest_def dget_or_def Let_def del: map_map)
qed

text \<open>
  C21. Bootstrap builds a manifest that the control plane accepts: when the profiled columns of the
  datasets are identifiers, the manifest built from them validates, with exactly one entity for
  each dataset and one count metric for each entity, whatever the names of the datasets.
\<close>

theorem bootstrap_manifest_accepted:
  assumes "list_all dataset_ready rs" "ws \<noteq> []" "strip ws = ws"
  shows "case validate_semantic_manifest (raw_manifest ws (build_entities [] rs)) (Some ws) of
      Inl _ \<Rightarrow> False
    | Inr m \<Rightarrow> manifest_ok m \<and> mset (map en_dataset (mf_entities m)) = mset (map ds_id rs) \<and>
        mset (map me_entity (mf_metrics m)) = mset (map en_id (mf_entities m))"
proof -
  let ?es = "build_entities [] rs"
  have ok: "list_all entity_ok ?es" "distinct (map en_id ?es)"
    using build_entities_ok [OF assms(1)] build_entities_ids [of "[]" rs] by simp_all
  note v = raw_manifest_accepted [OF ok assms(2,3)]
  have "me_entity \<circ> metric_for = en_id" by (simp add: fun_eq_iff metric_for_def)
  then have "mset (map me_entity (sort_key me_id (map metric_for ?es))) = mset (map en_id ?es)"
    by (simp add: image_mset.compositionality)
  moreover have "mset (map en_dataset (sort_key en_id ?es)) = mset (map ds_id rs)"
    using build_entities_datasets [of "[]" rs] by (metis mset_map mset_sort)
  ultimately show ?thesis using validate_ok [OF v] by (simp add: v)
qed

definition demo_dataset :: "string \<Rightarrow> string \<Rightarrow> string list \<Rightarrow> catalog_dataset" where
  "demo_dataset k name columns = \<lparr>ds_id = k, ds_workspace = ''w'', ds_source = ''s'', ds_logical_name = name,
     ds_locator = name, ds_schema_version = 1,
     ds_summary = PDict [(''profile'', PDict [(''schema_columns'', str_py_list columns)])]\<rparr>"

theorem bootstrap_manifest_accepted_witness:
  "case validate_semantic_manifest (raw_manifest ''w'' (build_entities []
      [demo_dataset ''d1'' ''2024 sales'' [''id'', ''total''], demo_dataset ''d2'' ''2024-sales'' [''x_id'']])) (Some ''w'') of
     Inl _ \<Rightarrow> False | Inr m \<Rightarrow> mset (map en_dataset (mf_entities m)) = {#''d1'', ''d2''#}"
proof -
  have ready: "list_all dataset_ready
      [demo_dataset ''d1'' ''2024 sales'' [''id'', ''total''], demo_dataset ''d2'' ''2024-sales'' [''x_id'']]"
    "strip ''w'' = ''w''" by code_simp+
  from bootstrap_manifest_accepted [OF ready(1) _ ready(2)] show ?thesis
    by (auto simp: demo_dataset_def split: sum.split_asm)
qed

text \<open>One column name with a space makes the whole bootstrap fail.\<close>

lemma column_name_stops_bootstrap:
  "validate_semantic_manifest (raw_manifest ''w'' (build_entities []
     [demo_dataset ''d1'' ''sales'' [''id''], demo_dataset ''d2'' ''people'' [''first name'']])) (Some ''w'') =
   Inl (ValueError ''invalid_primary_key'')"
  by code_simp

end
