(* ===== verification/RunProcessor.thy ===== *)
theory RunProcessor
  imports SemanticBuilder Scheduling CpProperties
begin

text \<open>
  The processing of queued runs (\<open>backend/workers/run_processor.py\<close>): the three types of runs, the
  choice of the next run, and the life of a run from queued through running to succeeded or
  failed, with its audit events.
\<close>

section \<open>The run and its audit trail\<close>

definition set_run :: "string \<Rightarrow> (run_record \<Rightarrow> run_record) \<Rightarrow> unit tx" where
  "set_run k f = tmodify (\<lambda>d. d\<lparr>runs := map (\<lambda>r. if run_id r = k then f r else r) (runs d)\<rparr>)"

definition append_run_audit_event :: "cp_env \<Rightarrow> run_record \<Rightarrow> string \<Rightarrow> pydict \<Rightarrow> unit tx" where
  "append_run_audit_event env run kind payload =
     tbind (insert_audit_event env (Some (run_workspace run)) ''worker:runner'' kind payload (run_id run))
       (\<lambda>_. tpure ())"

text \<open>A step of a run type: it is started, its time is checked, its body runs, and it succeeds.\<close>

definition begin_step :: "worker_env \<Rightarrow> step_rows \<Rightarrow> string \<Rightarrow> unit tx" where
  "begin_step env steps key =
     tbind (start_step env steps key) (\<lambda>_. enforce_worker_step_timeout env steps key)"

definition int_field :: "string \<Rightarrow> nat \<Rightarrow> string \<times> pyval" where
  "int_field k n = (k, PInt (int n))"

section \<open>Discovery\<close>

definition string_list_or :: "pyval \<Rightarrow> string list \<Rightarrow> string list" where
  "string_list_or v dflt = (case v of
     PList xs \<Rightarrow> (let parsed = filter (\<lambda>s. strip s \<noteq> []) (map py_str xs) in if parsed \<noteq> [] then parsed else dflt)
   | _ \<Rightarrow> dflt)"

definition discover_source ::
  "worker_env \<Rightarrow> (string \<times> plugin_spec) list \<Rightarrow> catalog_source \<Rightarrow> pydict \<Rightarrow> (string \<times> discovered_file list) res" where
  "discover_source env plugins source state =
     (let scope = src_scope source; root_path = strip (str_of scope ''root_path'' [])
      in if src_type source = ''filesystem'' then
           (if root_path = []
            then Inl (ValueError (''Filesystem source '' @ src_id source @ '' is missing root_path.''))
            else rbind (discover_files env root_path
                   (string_list_or (dget_or scope ''include_globs'' PNone) [''**/*.csv''])
                   (string_list_or (dget_or scope ''exclude_globs'' PNone) []) 10000 1000000000)
                 (\<lambda>files. Inr (root_path, files)))
         else case dget plugins (src_type source) of
           None \<Rightarrow> Inl (ValueError (''Unsupported source_type for discover run: '' @ src_type source))
         | Some spec \<Rightarrow>
             rbind (discover_files_via_plugin env spec (dset scope ''cursor_state'' (PDict state)))
               (\<lambda>files. Inr ((if root_path = [] then ''.'' else root_path), files)))"

definition source_fields :: "catalog_source \<Rightarrow> pydict" where
  "source_fields source = [(''source_id'', PStr (src_id source)), (''source_type'', PStr (src_type source))]"

definition expected_item :: "catalog_source \<Rightarrow> discovered_file \<Rightarrow> string \<Rightarrow> pydict" where
  "expected_item source f locator =
     source_fields source @ [(''path'', PStr (df_path f)), (''physical_locator'', PStr locator)]"

definition item_failure :: "catalog_source \<Rightarrow> discovered_file \<Rightarrow> string \<Rightarrow> exn \<Rightarrow> pydict" where
  "item_failure source f locator e = expected_item source f locator @
     [(''stage'', PStr ''ingest_profile''), (''error'', PStr (exc_str e))]"

definition discovery_failure :: "catalog_source \<Rightarrow> exn \<Rightarrow> pydict" where
  "discovery_failure source e = source_fields source @ [(''stage'', PStr ''discovery''), (''error'', PStr (exc_str e))]"

definition quota_exceeded :: exn where
  "quota_exceeded = ValueError ''worker_step_item_quota_exceeded''"

definition stops_the_run :: "exn \<Rightarrow> bool" where
  "stops_the_run e \<longleftrightarrow> exc_str e \<in> set [''worker_step_item_quota_exceeded'', ''worker_step_timeout_exceeded'']"

fun files_loop ::
  "worker_env \<Rightarrow> string \<Rightarrow> run_record \<Rightarrow> step_rows \<Rightarrow> catalog_source \<Rightarrow> string \<Rightarrow> discovered_file list \<Rightarrow> gathered \<Rightarrow>
   gathered tx" where
  "files_loop env storage_root run steps source root_path [] ga = tpure ga"
| "files_loop env storage_root run steps source root_path (f # fs) ga =
     tbind (enforce_worker_step_timeout env steps ''ingest_profile_governance'') (\<lambda>_.
     let locator = relative_locator env root_path (df_path f);
         ga1 = ga\<lparr>ga_expected := ga_expected ga @ [expected_item source f locator]\<rparr>
     in tbind (ingest_item env storage_root run source f locator ga1) (\<lambda>(ga2, failed).
        case failed of
          None \<Rightarrow>
            if int (Suc (ga_successes ga2)) > worker_step_max_items env then traise quota_exceeded
            else files_loop env storage_root run steps source root_path fs (ga2\<lparr>ga_successes := Suc (ga_successes ga2)\<rparr>)
        | Some e \<Rightarrow>
            if stops_the_run e then traise e
            else files_loop env storage_root run steps source root_path fs
                   (ga2\<lparr>ga_failures := ga_failures ga2 @ [item_failure source f locator e]\<rparr>)))"

definition connector_state_of :: "catalog_source \<Rightarrow> string \<Rightarrow> nat \<Rightarrow> pydict" where
  "connector_state_of source next_cursor n = [(''cursor'', PStr next_cursor), (''source_type'', PStr (src_type source)),
     int_field ''last_discovered_count'' n]"

fun sources_loop ::
  "worker_env \<Rightarrow> string \<Rightarrow> run_record \<Rightarrow> step_rows \<Rightarrow> (string \<times> plugin_spec) list \<Rightarrow> catalog_source list \<Rightarrow> gathered \<Rightarrow>
   gathered tx" where
  "sources_loop env storage_root run steps plugins [] ga = tpure ga"
| "sources_loop env storage_root run steps plugins (source # rest) ga =
     tbind (tsee (load_connector_state storage_root (run_workspace run) (src_id source))) (\<lambda>state.
     case discover_source env plugins source state of
       Inl e \<Rightarrow> sources_loop env storage_root run steps plugins rest
                  (ga\<lparr>ga_failures := ga_failures ga @ [discovery_failure source e]\<rparr>)
     | Inr (root_path, files) \<Rightarrow>
         if int (length files) > worker_step_max_items env then traise quota_exceeded
         else tbind (save_connector_state env storage_root (run_workspace run) (src_id source)
                (connector_state_of source (next_cursor_from_discovery_rows files (str_of state ''cursor'' []))
                  (length files))) (\<lambda>_.
              tbind (files_loop env storage_root run steps source root_path files ga) (\<lambda>ga'.
              sources_loop env storage_root run steps plugins rest ga')))"

definition active_sources :: "run_record \<Rightarrow> db \<Rightarrow> catalog_source list" where
  "active_sources run d = sort_key src_id
     (filter (\<lambda>r. src_workspace r = run_workspace run \<and> src_status r = ''active'') (sources d))"

definition by_field :: "string \<Rightarrow> pydict list \<Rightarrow> pydict list" where
  "by_field k rows = sort_key (\<lambda>r. py_str (dget_or r k PNone)) rows"

definition failure_order :: "pydict list \<Rightarrow> pydict list" where
  "failure_order rows = by_field ''source_id'' (by_field ''stage''
     (sort_key (\<lambda>r. py_str (dget_or r ''physical_locator'' (dget_or r ''path'' (PStr [])))) rows))"

definition dict_list :: "pydict list \<Rightarrow> pyval" where
  "dict_list rows = PList (map PDict rows)"

definition completeness_payload :: "run_record \<Rightarrow> bool \<Rightarrow> gathered \<Rightarrow> pydict" where
  "completeness_payload run strict_ingest ga =
     [(''workspace_id'', PStr (run_workspace run)), (''run_id'', PStr (run_id run)), (''strict_mode'', PBool strict_ingest),
      (''expected_items'', dict_list (by_field ''source_id'' (by_field ''physical_locator'' (ga_expected ga)))),
      int_field ''failure_count'' (length (ga_failures ga)), int_field ''success_count'' (ga_successes ga),
      (''failures'', dict_list (failure_order (ga_failures ga)))]"

text \<open>Failures end a strict run with a blocking task, and leave a warning in any other.\<close>

definition check_completeness ::
  "worker_env \<Rightarrow> run_record \<Rightarrow> bool \<Rightarrow> step_rows \<Rightarrow> gathered \<Rightarrow> string option tx" where
  "check_completeness env run strict_ingest steps ga =
     (if ga_failures ga = [] then tpure None
      else if strict_ingest then
        tbind (store_bundle (we_cp env) (run_workspace run) ''ingest_completeness_failure''
            (completeness_payload run strict_ingest ga)) (\<lambda>stored.
        tbind (ensure_ingest_completeness_review_task (we_cp env) (run_workspace run) (sb_uri stored)) (\<lambda>(proposal_id, task_id).
        tbind (fail_step env steps ''ingest_profile_governance'' ''strict_ingest_completeness_failed''
            [int_field ''failure_count'' (length (ga_failures ga)), int_field ''success_count'' (ga_successes ga)]
            (Some (sb_uri stored))) (\<lambda>_.
        traise (StrictIngestCompletenessError (sb_uri stored) (length (ga_failures ga)) (Some proposal_id) (Some task_id)))))
      else
        tbind (store_bundle (we_cp env) (run_workspace run) ''ingest_completeness_warning''
            (completeness_payload run strict_ingest ga)) (\<lambda>stored. tpure (Some (sb_uri stored))))"

section \<open>Semantic drift\<close>

definition active_semantic_policy :: "string \<Rightarrow> db \<Rightarrow> governance_policy option" where
  "active_semantic_policy workspace_id d = tbl_first (\<lambda>r. gp_workspace r = workspace_id \<and>
     gp_type r = ''semantic_manifest'' \<and> gp_status r = ''active'') (policies d)"

definition columns_by_dataset :: "string \<Rightarrow> db \<Rightarrow> (string \<times> string list) list" where
  "columns_by_dataset workspace_id d = concat (map (\<lambda>r.
     case dget_or (as_dict (ds_summary r)) ''profile'' (PDict []) of
       PDict profile \<Rightarrow>
         (case dget_or profile ''schema_columns'' (PList []) of
            PList columns \<Rightarrow> [(ds_id r, map (\<lambda>c. lower (py_str c)) (filter (\<lambda>c. strip (py_str c) \<noteq> []) columns))]
          | _ \<Rightarrow> [])
     | _ \<Rightarrow> [])
     (filter (\<lambda>r. ds_workspace r = workspace_id) (datasets d)))"

text \<open>The manifest is read under a key that the stored policy does not have.\<close>

definition drift_input :: "string \<Rightarrow> db \<Rightarrow> (pydict \<times> (string \<times> string list) list) option" where
  "drift_input workspace_id d =
     (case active_semantic_policy workspace_id d of
        None \<Rightarrow> None
      | Some row \<Rightarrow>
          (case gp_definition row of
             Some (PDict payload) \<Rightarrow>
               (case dget_or payload ''semantic_manifest'' (PDict []) of
                  PDict manifest \<Rightarrow>
                    (let columns = columns_by_dataset workspace_id d in if columns = [] then None else Some (manifest, columns))
                | _ \<Rightarrow> None)
           | _ \<Rightarrow> None))"

definition create_semantic_drift_review_task_if_needed :: "worker_env \<Rightarrow> string \<Rightarrow> nat tx" where
  "create_semantic_drift_review_task_if_needed env workspace_id =
     tbind (tread (drift_input workspace_id)) (\<lambda>found.
     case found of
       None \<Rightarrow> tpure 0
     | Some (manifest, columns) \<Rightarrow>
         (case detect_semantic_manifest_drift manifest columns of
            (False, _) \<Rightarrow> tpure 0
          | (True, drift) \<Rightarrow>
              raise_finding env workspace_id ''semantic_drift''
                [(''workspace_id'', PStr workspace_id), (''drift'', PDict drift),
                 (''available_columns_by_dataset'', PDict (map (\<lambda>(k, cs). (k, str_py_list (sorted_set cs)))
                    (sort_key fst columns)))]
                ''semantic_drift_proposal'' full_confidence ''quality_critical''))"

section \<open>The three run types\<close>

definition input_refs :: "string \<Rightarrow> string list \<Rightarrow> string \<Rightarrow> pydict" where
  "input_refs ids_key ids count_key = [(ids_key, str_py_list ids), int_field count_key (length ids)]"

definition discover_output ::
  "catalog_source list \<Rightarrow> bool \<Rightarrow> nat \<Rightarrow> string option \<Rightarrow> gathered \<Rightarrow> pydict" where
  "discover_output srcs strict_ingest semantic_tasks warning ga =
     (let ids = sort (ga_datasets ga)
      in [(''source_ids'', str_py_list (map src_id srcs)), (''dataset_ids'', str_py_list ids), int_field ''dataset_count'' (length ids),
          (''strict_ingest'', PBool strict_ingest), int_field ''pii_blocking_tasks_created'' (ga_pii ga),
          int_field ''drift_blocking_tasks_created'' (ga_drift ga),
          int_field ''semantic_drift_blocking_tasks_created'' semantic_tasks,
          int_field ''anomaly_blocking_tasks_created'' (ga_anomaly ga),
          int_field ''expected_item_count'' (length (ga_expected ga)), int_field ''processed_item_count'' (ga_successes ga),
          int_field ''completeness_failure_count'' (length (ga_failures ga)),
          (''completeness_warning_evidence_uri'', opt_str warning),
          (''artifact_manifests'', dict_list (by_field ''dataset_id'' (by_field ''artifact_id'' (ga_manifests ga)))),
          (''evidence_bundles'', dict_list (by_field ''dataset_id'' (by_field ''evidence_bundle_uri'' (ga_evidence ga))))])"

definition ingest_details :: "gathered \<Rightarrow> pydict" where
  "ingest_details ga = [int_field ''processed_item_count'' (ga_successes ga),
     int_field ''expected_item_count'' (length (ga_expected ga)), int_field ''failure_count'' (length (ga_failures ga)),
     int_field ''dataset_count'' (length (ga_datasets ga))]"

definition finalize_details :: "gathered \<Rightarrow> pydict" where
  "finalize_details ga = [int_field ''dataset_count'' (length (ga_datasets ga)),
     int_field ''processed_item_count'' (ga_successes ga), int_field ''completeness_failure_count'' (length (ga_failures ga))]"

definition take_inventory :: "worker_env \<Rightarrow> run_record \<Rightarrow> step_rows \<Rightarrow> catalog_source list tx" where
  "take_inventory env run steps =
     tbind (begin_step env steps ''discover_inventory'') (\<lambda>_.
     tbind (tread (active_sources run)) (\<lambda>srcs.
     if srcs = [] then traise (ValueError ''Discover run requires at least one active source.'')
     else tbind (set_run (run_id run) (\<lambda>r. r\<lparr>run_input_refs := input_refs ''source_ids'' (map src_id srcs) ''source_count''\<rparr>)) (\<lambda>_.
          tbind (succeed_step env steps ''discover_inventory'' [int_field ''source_count'' (length srcs)] None) (\<lambda>_.
          tpure srcs))))"

definition ingest_sources ::
  "worker_env \<Rightarrow> run_record \<Rightarrow> string \<Rightarrow> bool \<Rightarrow> step_rows \<Rightarrow> catalog_source list \<Rightarrow> (gathered \<times> string option) tx" where
  "ingest_sources env run storage_root strict_ingest steps srcs =
     tbind (begin_step env steps ''ingest_profile_governance'') (\<lambda>_.
     tbind (tres (we_plugins env)) (\<lambda>plugins.
     tbind (sources_loop env storage_root run steps plugins srcs nothing_gathered) (\<lambda>ga.
     tbind (check_completeness env run strict_ingest steps ga) (\<lambda>warning.
     tbind (succeed_step env steps ''ingest_profile_governance'' (ingest_details ga) warning) (\<lambda>_.
     tpure (ga, warning))))))"

definition semantic_drift_gate :: "worker_env \<Rightarrow> run_record \<Rightarrow> step_rows \<Rightarrow> nat tx" where
  "semantic_drift_gate env run steps =
     tbind (begin_step env steps ''semantic_drift_gate'') (\<lambda>_.
     tbind (create_semantic_drift_review_task_if_needed env (run_workspace run)) (\<lambda>n.
     tbind (succeed_step env steps ''semantic_drift_gate'' [int_field ''semantic_drift_blocking_tasks_created'' n] None) (\<lambda>_.
     tpure n)))"

definition finalize_step :: "worker_env \<Rightarrow> step_rows \<Rightarrow> pydict \<Rightarrow> string option \<Rightarrow> pydict \<Rightarrow> pydict tx" where
  "finalize_step env steps details evidence output =
     tbind (begin_step env steps ''finalize_output'') (\<lambda>_.
     tbind (succeed_step env steps ''finalize_output'' details evidence) (\<lambda>_. tpure output))"

definition process_discover_run ::
  "worker_env \<Rightarrow> run_record \<Rightarrow> string \<Rightarrow> bool \<Rightarrow> step_rows \<Rightarrow> pydict tx" where
  "process_discover_run env run storage_root strict_ingest steps =
     tbind (take_inventory env run steps) (\<lambda>srcs.
     tbind (ingest_sources env run storage_root strict_ingest steps srcs) (\<lambda>(ga, warning).
     tbind (semantic_drift_gate env run steps) (\<lambda>n.
     finalize_step env steps (finalize_details ga) warning (discover_output srcs strict_ingest n warning ga))))"

definition catalog_ids :: "run_record \<Rightarrow> db \<Rightarrow> string list" where
  "catalog_ids run d = sort (map ds_id (filter (\<lambda>r. ds_workspace r = run_workspace run) (datasets d)))"

definition nonempty_text :: "string \<Rightarrow> string option" where
  "nonempty_text s = (if s = [] then None else Some s)"

definition bootstrap_output :: "string list \<Rightarrow> candidate \<Rightarrow> pydict" where
  "bootstrap_output ids c = [(''dataset_ids'', str_py_list ids), int_field ''dataset_count'' (length ids),
     (''manifest_version'', PStr ''1''), (''manifest_checksum'', PStr (cd_checksum c)),
     (''evidence_bundle_uri'', PStr (cd_evidence c)), (''confidence'', of_float (cd_confidence c)),
     int_field ''confidence_flag_count'' (cd_flag_count c), (''proposal_id'', PStr (cd_proposal c)),
     (''task_id'', PStr (cd_task c)), int_field ''entity_count'' (cd_entities c),
     int_field ''metric_count'' (cd_entities c), int_field ''join_count'' (cd_joins c)]"

definition process_semantic_bootstrap_run :: "worker_env \<Rightarrow> run_record \<Rightarrow> step_rows \<Rightarrow> pydict tx" where
  "process_semantic_bootstrap_run env run steps =
     tbind (begin_step env steps ''collect_catalog'') (\<lambda>_.
     tbind (tread (catalog_ids run)) (\<lambda>ids.
     tbind (set_run (run_id run) (\<lambda>r. r\<lparr>run_input_refs := input_refs ''dataset_ids'' ids ''dataset_count''\<rparr>)) (\<lambda>_.
     tbind (succeed_step env steps ''collect_catalog'' [int_field ''dataset_count'' (length ids)] None) (\<lambda>_.
     tbind (begin_step env steps ''build_manifest_candidate'') (\<lambda>_.
     tbind (build_semantic_manifest_candidate env (run_workspace run)) (\<lambda>c.
     tbind (succeed_step env steps ''build_manifest_candidate'' [int_field ''entity_count'' (cd_entities c),
         int_field ''metric_count'' (cd_entities c), int_field ''join_count'' (cd_joins c)] (nonempty_text (cd_evidence c))) (\<lambda>_.
     finalize_step env steps [(''manifest_version'', PStr ''1''), int_field ''dataset_count'' (length ids)]
       (nonempty_text (cd_evidence c)) (bootstrap_output ids c))))))))"

definition materialized_refresh_enabled :: "worker_env \<Rightarrow> bool" where
  "materialized_refresh_enabled env = env_flag env ''SCHEMAPILOT_MATERIALIZED_REFRESH_ENABLED''"

definition snapshot_path :: "string \<Rightarrow> string \<Rightarrow> string \<Rightarrow> string" where
  "snapshot_path storage_root workspace_id snapshot_id =
     as_posix (path_join (path_join (path_join (path_join (path_join (path_of storage_root) ''materialized'') workspace_id)
       ''snapshots'') snapshot_id) ''refresh.json'')"

definition process_materialized_refresh_run :: "worker_env \<Rightarrow> run_record \<Rightarrow> string \<Rightarrow> step_rows \<Rightarrow> pydict tx" where
  "process_materialized_refresh_run env run storage_root steps =
     (if \<not> materialized_refresh_enabled env then traise (ValueError ''materialized_refresh_disabled'')
      else
        tbind (begin_step env steps ''collect_inputs'') (\<lambda>_.
        tbind (tread (catalog_ids run)) (\<lambda>ids.
        tbind (succeed_step env steps ''collect_inputs'' [int_field ''dataset_count'' (length ids)] None) (\<lambda>_.
        tbind (begin_step env steps ''refresh_materializations'') (\<lambda>_.
        tbind (issue_id (we_cp env)) (\<lambda>snapshot_id.
        tbind (clock env) (\<lambda>now.
        let path = snapshot_path storage_root (run_workspace run) snapshot_id
        in tbind (write_json path (PDict [(''workspace_id'', PStr (run_workspace run)), (''run_id'', PStr (run_id run)),
               (''run_type'', PStr (run_type run)), (''dataset_ids'', str_py_list ids), int_field ''dataset_count'' (length ids),
               (''refreshed_epoch'', PInt now)])) (\<lambda>_.
           tbind (succeed_step env steps ''refresh_materializations''
               [(''snapshot_path'', PStr path), int_field ''dataset_count'' (length ids)] None) (\<lambda>_.
           finalize_step env steps [int_field ''dataset_count'' (length ids)] None
             [(''materialized_snapshot_path'', PStr path), (''dataset_ids'', str_py_list ids),
              int_field ''dataset_count'' (length ids)])))))))))"

definition execute_run :: "worker_env \<Rightarrow> run_record \<Rightarrow> string \<Rightarrow> bool \<Rightarrow> step_rows \<Rightarrow> pydict tx" where
  "execute_run env run storage_root strict_ingest steps =
     (if run_type run = ''discover'' then process_discover_run env run storage_root strict_ingest steps
      else if run_type run = ''semantic_bootstrap'' then process_semantic_bootstrap_run env run steps
      else if run_type run = ''materialize_refresh'' then process_materialized_refresh_run env run storage_root steps
      else traise (ValueError (''Unsupported run_type for worker processor: '' @ run_type run)))"

section \<open>A run from queued to its end\<close>

record processed_run =
  pc_run :: string
  pc_workspace :: string
  pc_type :: string
  pc_status :: string
  pc_output :: pydict

definition processed :: "run_record \<Rightarrow> string \<Rightarrow> pydict \<Rightarrow> processed_run" where
  "processed run status output = \<lparr>pc_run = run_id run, pc_workspace = run_workspace run, pc_type = run_type run,
     pc_status = status, pc_output = output\<rparr>"

definition run_fields :: "run_record \<Rightarrow> pydict" where
  "run_fields run = [(''run_id'', PStr (run_id run)), (''run_type'', PStr (run_type run))]"

definition opt_field :: "string \<Rightarrow> string option \<Rightarrow> pydict" where
  "opt_field k o' = (case o' of None \<Rightarrow> [] | Some v \<Rightarrow> [(k, PStr v)])"

definition failure_payload :: "run_record \<Rightarrow> exn \<Rightarrow> pydict" where
  "failure_payload run e = run_fields run @ [(''error'', PStr (exc_str e))] @
     (case e of
        StrictIngestCompletenessError evidence failure_count proposal task \<Rightarrow>
          [(''reason'', PStr ''strict_ingest_completeness_failed''), int_field ''failure_count'' failure_count,
           (''evidence_bundle_uri'', PStr evidence)] @ opt_field ''proposal_id'' proposal @ opt_field ''task_id'' task
      | _ \<Rightarrow> [])"

definition failure_evidence :: "exn \<Rightarrow> string option" where
  "failure_evidence e = (case e of StrictIngestCompletenessError evidence _ _ _ \<Rightarrow> Some evidence | _ \<Rightarrow> None)"

definition end_run :: "worker_env \<Rightarrow> run_record \<Rightarrow> string \<Rightarrow> pydict \<Rightarrow> pydict \<Rightarrow> processed_run tx" where
  "end_run env run status output event_json =
     tbind (set_run (run_id run) (\<lambda>r. r\<lparr>run_status := status, run_output_refs := output\<rparr>)) (\<lambda>_.
     tbind (append_run_audit_event (we_cp env) run (''run.'' @ status) event_json) (\<lambda>_.
     tpure (processed run status output)))"

definition succeed_run :: "worker_env \<Rightarrow> run_record \<Rightarrow> pydict \<Rightarrow> processed_run tx" where
  "succeed_run env run output = end_run env run ''succeeded'' output (run_fields run @ [(''output_refs'', PDict output)])"

definition fail_run :: "worker_env \<Rightarrow> run_record \<Rightarrow> step_rows \<Rightarrow> exn \<Rightarrow> processed_run tx" where
  "fail_run env run steps e =
     tbind (ensure_failed_run_step env steps (error_code_from_exception e)
       [(''error'', PStr (exc_str e)), (''run_id'', PStr (run_id run))] (failure_evidence e)) (\<lambda>_.
     end_run env run ''failed'' (failure_payload run e) (failure_payload run e))"

text \<open>The body of the \<open>try\<close>, with its handler for any exception.\<close>

definition settle_run :: "worker_env \<Rightarrow> run_record \<Rightarrow> string \<Rightarrow> bool \<Rightarrow> step_rows \<Rightarrow> processed_run tx" where
  "settle_run env run storage_root strict_ingest steps s =
     (case tbind (execute_run env run storage_root strict_ingest steps) (succeed_run env run) s of
        (Inr p, s') \<Rightarrow> (Inr p, s')
      | (Inl e, s') \<Rightarrow> fail_run env run steps e s')"

definition process_queued_run :: "worker_env \<Rightarrow> run_record \<Rightarrow> string \<Rightarrow> bool \<Rightarrow> processed_run tx" where
  "process_queued_run env run storage_root strict_ingest =
     tbind (set_run (run_id run) (\<lambda>r. r\<lparr>run_status := ''running''\<rparr>)) (\<lambda>_.
     tbind (ensure_run_steps (we_cp env) run) (\<lambda>steps.
     tbind (append_run_audit_event (we_cp env) run ''run.started'' (run_fields run)) (\<lambda>_.
     settle_run env run storage_root strict_ingest steps)))"

definition process_run_by_id :: "worker_env \<Rightarrow> string \<Rightarrow> string \<Rightarrow> bool \<Rightarrow> processed_run option tx" where
  "process_run_by_id env k storage_root strict_ingest =
     tbind (tread (\<lambda>d. tbl_get run_id k (runs d))) (\<lambda>found.
     case found of
       None \<Rightarrow> tpure None
     | Some run \<Rightarrow>
         if run_status run \<noteq> ''queued'' then tpure (Some (processed run (run_status run) (run_output_refs run)))
         else tbind (process_queued_run env run storage_root strict_ingest) (\<lambda>p. tpure (Some p)))"

section \<open>The next run\<close>

definition running_count :: "db \<Rightarrow> string \<Rightarrow> nat" where
  "running_count d workspace_id =
     length (filter (\<lambda>r. run_workspace r = workspace_id \<and> run_status r = ''running'') (runs d))"

definition next_run :: "int \<Rightarrow> db \<Rightarrow> run_record option" where
  "next_run max_active d = find (\<lambda>r. int (running_count d (run_workspace r)) < max max_active 1)
     (sort_key run_id (filter (\<lambda>r. run_status r = ''queued'') (runs d)))"

definition process_next_queued_run :: "worker_env \<Rightarrow> string \<Rightarrow> int \<Rightarrow> bool \<Rightarrow> processed_run option tx" where
  "process_next_queued_run env storage_root max_active strict_ingest =
     tbind (tread (next_run max_active)) (\<lambda>found.
     case found of
       None \<Rightarrow> tpure None
     | Some run \<Rightarrow> process_run_by_id env (run_id run) storage_root strict_ingest)"

end
