(* ===== verification/RunFrames.thy ===== *)
theory RunFrames
  imports RunProcessor
begin

text \<open>
  What the work of a run may touch: the frame conditions of the worker's operations, stated once
  for any relation between the session before and after that the single effects respect.
\<close>

definition moves :: "(cp_session \<Rightarrow> cp_session \<Rightarrow> bool) \<Rightarrow> 'a tx \<Rightarrow> bool" where
  "moves R m \<longleftrightarrow> (\<forall>s r s'. m s = (r, s') \<longrightarrow> R s s')"

lemma movesD: "moves R m \<Longrightarrow> m s = (r, s') \<Longrightarrow> R s s'"
  by (simp add: moves_def)

text \<open>What identifies a step; no operation changes it.\<close>

definition step_name :: "run_step \<Rightarrow> string \<times> string \<times> string" where
  "step_name r = (st_id r, st_run r, st_key r)"

lemma step_name_simps [simp]:
  "step_name (started_step now r) = step_name r" "step_name (finished_step st err details ev now r) = step_name r"
  by (simp_all add: step_name_def started_step_def finished_step_def)

section \<open>The work on one item\<close>

locale item_frame =
  fixes R :: "cp_session \<Rightarrow> cp_session \<Rightarrow> bool"
  assumes stay: "R s s"
    and chain: "R s t \<Longrightarrow> R t u \<Longrightarrow> R s u"
    and numbered: "R s (s\<lparr>se_next := Suc (se_next s)\<rparr>)"
    and ticked: "R s (s\<lparr>se_ticks := Suc (se_ticks s)\<rparr>)"
    and evidence_written: "R s (s\<lparr>se_evidence := fs\<rparr>)"
    and json_written: "R s (s\<lparr>se_json := js\<rparr>)"
    and file_written: "R s (s\<lparr>se_files := ts\<rparr>)"
    and proposals_written: "R s (s\<lparr>se_db := (se_db s)\<lparr>proposals := ps\<rparr>\<rparr>)"
    and tasks_written: "R s (s\<lparr>se_db := (se_db s)\<lparr>tasks := qs\<rparr>\<rparr>)"
    and datasets_written: "R s (s\<lparr>se_db := (se_db s)\<lparr>datasets := ds\<rparr>\<rparr>)"
begin

lemma effects [simp]:
  "moves R (tpure x)" "moves R (traise e)" "moves R (tres res)" "moves R (tread g)" "moves R (tsee h)"
  "moves R (issue_id env)" "moves R (clock wenv)" "moves R (write_json path v)" "moves R (write_file path txt)"
  by (auto simp: moves_def write_json_def write_file_def tsee_def stay numbered ticked json_written file_written)

lemma stored [simp]: "moves R (store_bundle env ws ty p)"
  by (auto simp: moves_def store_bundle_def evidence_written split: prod.split_asm)

lemma bind [intro]: "moves R m \<Longrightarrow> (\<And>x. moves R (f x)) \<Longrightarrow> moves R (tbind m f)"
  unfolding moves_def tbind_def by (auto split: prod.split_asm sum.split_asm) (blast intro: chain)

lemma attempt [intro]: "moves R m \<Longrightarrow> (\<And>x. moves R (k x)) \<Longrightarrow> moves R (attempted m ga k)"
  unfolding moves_def attempted_def by (auto split: prod.split_asm sum.split_asm) (blast intro: chain)

lemma modify: "(\<And>s. R s (s\<lparr>se_db := f (se_db s)\<rparr>)) \<Longrightarrow> moves R (tmodify f)"
  by (simp add: moves_def)

lemma change: "(\<And>s d. f (se_db s) = Inr d \<Longrightarrow> R s (s\<lparr>se_db := d\<rparr>)) \<Longrightarrow> moves R (tchange f)"
  by (auto simp: moves_def tchange_def stay split: sum.split_asm)

lemma proposal [simp]: "moves R (create_proposal env ws ty uri c)"
  unfolding create_proposal_def Let_def by (auto intro!: bind change simp: rbind_eq_Inr_iff proposals_written)

lemma review_task [simp]: "moves R (create_review_task env ws sub pri b)"
  unfolding create_review_task_def Let_def by (auto intro!: bind change simp: rbind_eq_Inr_iff tasks_written)

lemma reviews [simp]:
  "moves R (get_or_create_review_proposal env ws ty uri c)" "moves R (get_or_create_proposal env ws uri c)"
  "moves R (create_blocking_review_task_if_missing env ws pid pri)" "moves R (get_or_create_blocking_task env ws pid)"
  by (auto simp: get_or_create_proposal_def get_or_create_review_proposal_def create_blocking_review_task_if_missing_def
      get_or_create_blocking_task_def intro!: bind split: option.split)

lemma findings [simp]:
  "moves R (raise_finding wenv ws ty p pt c pri)" "moves R (ensure_ingest_completeness_review_task env ws uri)"
  by (auto simp: raise_finding_def ensure_ingest_completeness_review_task_def intro!: bind split: option.split)

lemma dataset_row [simp]: "moves R (set_dataset k f)"
  unfolding set_dataset_def by (rule modify) (rule datasets_written)

lemma catalogued [simp]: "moves R (upsert_catalog_dataset wenv ws src loc nm)"
  unfolding upsert_catalog_dataset_def Let_def
  by (auto intro!: bind change simp: rbind_eq_Inr_iff datasets_written split: option.split)

lemma in_bronze [simp]: "moves R (ingest_file_to_bronze wenv ws src dst file root_dir this_run)"
  unfolding ingest_file_to_bronze_def new_artifact_def Let_def by (auto intro!: bind split: option.split)

lemma pii_found [simp]: "moves R (pii_loop wenv ip columns)"
  by (induction wenv ip columns rule: pii_loop.induct) (auto simp: Let_def intro!: bind)

lemma detected [simp]:
  "moves R (create_pii_review_tasks_from_csv wenv ip)" "moves R (create_drift_review_task_if_needed wenv ip old new)"
  "moves R (create_anomaly_review_task_if_needed wenv ip p)" "moves R (create_semantic_drift_review_task_if_needed wenv ws)"
  by (auto simp: create_pii_review_tasks_from_csv_def create_drift_review_task_if_needed_def
      create_anomaly_review_task_if_needed_def create_semantic_drift_review_task_if_needed_def Let_def
      intro!: bind split: option.split prod.split bool.split)

lemma profiled [simp]: "moves R (profile_item wenv ip ga)"
  unfolding profile_item_def Let_def by (intro attempt) simp_all

lemma ingested [simp]: "moves R (ingest_item wenv root_dir run source f loc ga)"
  unfolding ingest_item_def Let_def by (intro attempt) simp_all

lemma candidate_built [simp]: "moves R (build_semantic_manifest_candidate wenv ws)"
  unfolding build_semantic_manifest_candidate_def Let_def by (auto intro!: bind)

lemma state_saved [simp]: "moves R (save_connector_state wenv root_dir ws src st)"
  unfolding save_connector_state_def Let_def by (auto intro!: bind)

lemma time_checked [simp]: "moves R (enforce_worker_step_timeout wenv steps key)"
  by (auto simp: enforce_worker_step_timeout_def Let_def intro!: bind split: option.split)

lemma files_done [simp]: "moves R (files_loop wenv root_dir run steps source base files ga)"
  by (induction wenv root_dir run steps source base files ga rule: files_loop.induct)
    (auto simp: Let_def intro!: bind split: option.split)

lemma sources_done [simp]: "moves R (sources_loop wenv root_dir run steps plugins srcs ga)"
  by (induction wenv root_dir run steps plugins srcs ga rule: sources_loop.induct)
    (auto intro!: bind split: sum.split)

end

section \<open>The body of a run\<close>

locale run_frame = item_frame R for R :: "cp_session \<Rightarrow> cp_session \<Rightarrow> bool" +
  fixes current :: string
  assumes step_written: "(\<And>r. step_name (f r) = step_name r) \<Longrightarrow>
      R s (s\<lparr>se_db := (se_db s)\<lparr>run_steps := map (\<lambda>r. if st_id r = k then f r else r) (run_steps (se_db s))\<rparr>\<rparr>)"
    and inputs_written: "R s (s\<lparr>se_db := (se_db s)\<lparr>runs := map (\<lambda>r. if run_id r = current then r\<lparr>run_input_refs := x\<rparr> else r)
      (runs (se_db s))\<rparr>\<rparr>)"
begin

lemma step_set: "(\<And>r. step_name (f r) = step_name r) \<Longrightarrow> moves R (set_step k f)"
  unfolding set_step_def by (rule modify) (rule step_written)

lemma step_done [simp]: "moves R (fail_step wenv steps key err details ev)" "moves R (succeed_step wenv steps key details ev)"
  by (auto simp: fail_step_def succeed_step_def intro!: bind step_set split: option.split)

lemma step_begun [simp]: "moves R (begin_step wenv steps key)"
  by (auto simp: begin_step_def start_step_def intro!: bind step_set split: option.split)

lemma step_failed [simp]: "moves R (ensure_failed_run_step wenv steps err details ev)"
  by (auto simp: ensure_failed_run_step_def Let_def intro!: bind)

lemma inputs_set [simp]: "moves R (set_run current (\<lambda>r. r\<lparr>run_input_refs := x\<rparr>))"
  unfolding set_run_def by (rule modify) (rule inputs_written)

lemma completeness_checked [simp]: "moves R (check_completeness wenv run strict steps ga)"
  unfolding check_completeness_def by (auto intro!: bind)

lemma finalized [simp]: "moves R (finalize_step wenv steps details ev output)"
  unfolding finalize_step_def by (auto intro!: bind)

lemma executed:
  assumes "run_id run = current"
  shows "moves R (execute_run wenv run root_dir strict steps)"
proof -
  have "moves R (process_discover_run wenv run root_dir strict steps)"
    unfolding process_discover_run_def take_inventory_def ingest_sources_def semantic_drift_gate_def assms
    by (auto intro!: bind)
  moreover have "moves R (process_semantic_bootstrap_run wenv run steps)"
    unfolding process_semantic_bootstrap_run_def assms by (auto intro!: bind)
  moreover have "moves R (process_materialized_refresh_run wenv run root_dir steps)"
    by (auto simp: process_materialized_refresh_run_def Let_def intro!: bind)
  ultimately show ?thesis by (simp add: execute_run_def)
qed

end

end
