(* ===== verification/RunProperties.thy ===== *)
theory RunProperties
  imports RunFrames
begin

text \<open>
  What holds of every run that a worker takes from the queue: it settles, it is audited, its steps
  reflect its outcome, a strict discovery that succeeds has ingested everything, and a run that
  has settled is not processed again.
\<close>

section \<open>The body of a run\<close>

definition cleared_run :: "run_record \<Rightarrow> run_record" where
  "cleared_run r = r\<lparr>run_status := [], run_input_refs := [], run_output_refs := []\<rparr>"

text \<open>The runs with the changeable columns of one run left out.\<close>

definition outside :: "string \<Rightarrow> db \<Rightarrow> run_record list" where
  "outside k d = map (\<lambda>r. if run_id r = k then cleared_run r else r) (runs d)"

definition body_step :: "string \<Rightarrow> cp_session \<Rightarrow> cp_session \<Rightarrow> bool" where
  "body_step k s s' \<longleftrightarrow> se_next s \<le> se_next s' \<and> audit_events (se_db s') = audit_events (se_db s) \<and>
     map step_name (run_steps (se_db s')) = map step_name (run_steps (se_db s)) \<and>
     outside k (se_db s') = outside k (se_db s)"

lemma cleared_run_simps [simp]: "run_id (cleared_run r) = run_id r"
  by (simp add: cleared_run_def)

interpretation body: run_frame "body_step k" k for k
proof
  fix s t u
  show "body_step k s t \<Longrightarrow> body_step k t u \<Longrightarrow> body_step k s u" by (auto simp: body_step_def)
qed (auto simp: body_step_def outside_def cleared_run_def)

interpretation steps_kept: item_frame "\<lambda>s s'. run_steps (se_db s') = run_steps (se_db s)"
  by unfold_locales auto

lemma set_run_outside:
  assumes "\<And>r. cleared_run (f r) = cleared_run r"
  shows "moves (body_step k) (set_run k f)"
proof -
  have "run_id (f r) = run_id r" for r using arg_cong [OF assms [of r], of run_id] by simp
  then show ?thesis
    unfolding set_run_def using assms by (auto simp: moves_def body_step_def outside_def)
qed

section \<open>Identifiers\<close>

text \<open>No identifier still to be issued is in use as the key of an audit event or a step.\<close>

definition ids_unused :: "cp_env \<Rightarrow> cp_session \<Rightarrow> bool" where
  "ids_unused env s \<longleftrightarrow> inj (ce_fresh env) \<and>
     (\<forall>n \<ge> se_next s. ce_fresh env n \<notin> ae_id ` set (audit_events (se_db s)) \<union> st_id ` set (run_steps (se_db s)))"

lemma ids_unused_body:
  assumes "ids_unused env s" "body_step k s s'"
  shows "ids_unused env s'"
proof -
  have "map st_id (run_steps (se_db s')) = map fst (map step_name (run_steps (se_db s')))" by (simp add: step_name_def)
  also have "\<dots> = map st_id (run_steps (se_db s))" using assms(2) by (simp add: body_step_def step_name_def)
  finally have "st_id ` set (run_steps (se_db s')) = st_id ` set (run_steps (se_db s))"
    by (metis set_map)
  with assms show ?thesis by (auto simp: ids_unused_def body_step_def)
qed

definition worker_event :: "run_record \<Rightarrow> string \<Rightarrow> audit_event \<Rightarrow> bool" where
  "worker_event run kind e \<longleftrightarrow> ae_workspace e = Some (run_workspace run) \<and> ae_actor e = ''worker:runner'' \<and>
     ae_type e = kind \<and> ae_correlation e = run_id run"

lemma append_event_Inr:
  "append_run_audit_event env run kind js s = (Inr u, s') \<Longrightarrow>
     \<exists>e. se_db s' = (se_db s)\<lparr>audit_events := audit_events (se_db s) @ [e]\<rparr> \<and> worker_event run kind e \<and>
       ae_id e = ce_fresh env (se_next s) \<and> se_next s' = Suc (se_next s)"
  by (auto simp: append_run_audit_event_def insert_audit_event_def tbind_Inr_iff rbind_eq_Inr_iff tbl_add_Inr_iff
      worker_event_def Let_def)

lemma append_event_returns:
  assumes "ids_unused env s"
  shows "\<exists>s'. append_run_audit_event env run kind js s = (Inr (), s') \<and> ids_unused env s'"
proof -
  have "ce_fresh env (se_next s) \<notin> ae_id ` set (audit_events (se_db s))" using assms by (auto simp: ids_unused_def)
  then have "\<exists>s'. append_run_audit_event env run kind js s = (Inr (), s')"
    by (auto simp: append_run_audit_event_def insert_audit_event_def tbind_def issue_id_def tchange_def tpure_def tbl_add_def
        Let_def rbind_def image_iff list_ex_iff split: prod.split)
  then obtain s' where run: "append_run_audit_event env run kind js s = (Inr (), s')" by blast
  from append_event_Inr [OF run] assms have "ids_unused env s'"
    by (auto simp: ids_unused_def inj_eq) (metis Suc_leD image_eqI)+
  with run show ?thesis by blast
qed

lemma add_steps_returns:
  "ids_unused env s \<Longrightarrow> \<exists>rows s'. add_steps env run sds s = (Inr rows, s') \<and> ids_unused env s'"
proof (induction sds arbitrary: s)
  case Nil
  then show ?case by (simp add: tpure_def)
next
  case (Cons sd sds)
  let ?row = "queued_step run (ce_fresh env (se_next s)) sd"
  define s1 where "s1 = s\<lparr>se_next := Suc (se_next s), se_db := (se_db s)\<lparr>run_steps := run_steps (se_db s) @ [?row]\<rparr>\<rparr>"
  have id: "st_id ?row = ce_fresh env (se_next s)" by (simp add: queued_step_def)
  with Cons.prems have "st_id ?row \<notin> st_id ` set (run_steps (se_db s))" by (auto simp: ids_unused_def)
  then have one: "add_step ?row (s\<lparr>se_next := Suc (se_next s)\<rparr>) = (Inr (), s1)"
    by (auto simp: add_step_def tchange_def tbl_add_def rbind_def s1_def image_iff list_ex_iff)
  have "ids_unused env s1" using Cons.prems id by (auto simp: ids_unused_def s1_def inj_eq)
  from Cons.IH [OF this] obtain rows s' where "add_steps env run sds s1 = (Inr rows, s')" "ids_unused env s'" by blast
  with one show ?case by (simp add: tbind_def issue_id_def Let_def tpure_def)
qed

lemma ensure_steps_returns:
  "ids_unused env s \<Longrightarrow> \<exists>steps s'. ensure_run_steps env run s = (Inr steps, s') \<and> ids_unused env s'"
  using add_steps_returns [of env s run "RUN_STEP_DEFINITIONS (run_type run)"]
  by (auto simp: ensure_run_steps_def tbind_def tread_def tpure_def)

section \<open>A run settles\<close>

lemma failed_step_returns: "\<exists>s'. ensure_failed_run_step env steps err details ev s = (Inr (), s')"
proof -
  have "\<exists>s'. fail_step env steps key err details ev s = (Inr (), s')" for key s
    by (cases "dget steps key") (simp_all add: fail_step_def tpure_def tbind_def clock_def set_step_def tmodify_def)
  then show ?thesis by (simp add: ensure_failed_run_step_def tbind_def tread_def tpure_def Let_def)
qed

lemma end_run_returns:
  assumes "ids_unused env s" "we_cp wenv = env"
  shows "\<exists>s'. end_run wenv run status outcome js s = (Inr (processed run status outcome), s') \<and> ids_unused env s'"
proof -
  obtain s1 where s1: "set_run (run_id run) (\<lambda>r. r\<lparr>run_status := status, run_output_refs := outcome\<rparr>) s = (Inr (), s1)"
    by (simp add: set_run_def tmodify_def)
  have "moves (body_step (run_id run)) (set_run (run_id run) (\<lambda>r. r\<lparr>run_status := status, run_output_refs := outcome\<rparr>))"
    by (rule set_run_outside) (simp add: cleared_run_def)
  from ids_unused_body [OF assms(1) movesD [OF this s1]] have "ids_unused env s1" .
  from append_event_returns [OF this] obtain s2 where
    "append_run_audit_event env run (''run.'' @ status) js s1 = (Inr (), s2)" "ids_unused env s2" by blast
  with s1 assms(2) show ?thesis by (simp add: end_run_def tbind_def tpure_def)
qed

lemma end_run_Inr:
  assumes "end_run wenv run status outcome js s = (Inr p, s')"
  shows "p = processed run status outcome \<and>
    (\<exists>e. audit_events (se_db s') = audit_events (se_db s) @ [e] \<and> worker_event run (''run.'' @ status) e) \<and>
    runs (se_db s') = map (\<lambda>r. if run_id r = run_id run then r\<lparr>run_status := status, run_output_refs := outcome\<rparr> else r)
      (runs (se_db s)) \<and> run_steps (se_db s') = run_steps (se_db s) \<and> tasks (se_db s') = tasks (se_db s)"
proof -
  from assms obtain s1 where "append_run_audit_event (we_cp wenv) run (''run.'' @ status) js s1 = (Inr (), s')"
    "p = processed run status outcome" and s1: "se_db s1 = (se_db s)\<lparr>runs := map (\<lambda>r. if run_id r = run_id run
       then r\<lparr>run_status := status, run_output_refs := outcome\<rparr> else r) (runs (se_db s))\<rparr>"
    by (auto simp: end_run_def tbind_Inr_iff set_run_def tpure_def)
  with append_event_Inr [OF this(1)] show ?thesis by auto
qed

lemma end_run_Inl:
  assumes "end_run wenv run status outcome js s = (Inl e, s')"
  shows "body_step (run_id run) s s' \<and> run_steps (se_db s') = run_steps (se_db s) \<and> tasks (se_db s') = tasks (se_db s)"
proof -
  define f where "f = (\<lambda>r :: run_record. r\<lparr>run_status := status, run_output_refs := outcome\<rparr>)"
  obtain s1 where s1: "set_run (run_id run) f s = (Inr (), s1)"
    and rows: "run_steps (se_db s1) = run_steps (se_db s)" "tasks (se_db s1) = tasks (se_db s)"
    by (simp add: set_run_def tmodify_def)
  have b: "body_step (run_id run) s s1"
    by (rule movesD [OF set_run_outside s1]) (simp add: f_def cleared_run_def)
  from assms s1 have "append_run_audit_event (we_cp wenv) run (''run.'' @ status) js s1 = (Inl e, s')"
    by (auto simp: end_run_def f_def tbind_def tpure_def split: prod.split_asm sum.split_asm)
  then have "se_db s' = se_db s1 \<and> se_next s1 \<le> se_next s'"
    by (auto simp: append_run_audit_event_def insert_audit_event_def tbind_def issue_id_def tchange_def tpure_def Let_def
        rbind_def split: prod.split_asm sum.split_asm)
  with b rows show ?thesis by (auto simp: body_step_def)
qed

text \<open>The part of a run between its two events, and how it ends.\<close>

lemma settle_run_Inr:
  assumes "settle_run env run root_dir strict steps s = (Inr p, s')"
  obtains (succeeded) outcome s1 where "execute_run env run root_dir strict steps s = (Inr outcome, s1)"
      "body_step (run_id run) s s1" "succeed_run env run outcome s1 = (Inr p, s')"
    | (failed) e s1 s2 where "body_step (run_id run) s s1"
      "ensure_failed_run_step env steps (error_code_from_exception e)
         [(''error'', PStr (exc_str e)), (''run_id'', PStr (run_id run))] (failure_evidence e) s1 = (Inr (), s2)"
      "end_run env run ''failed'' (failure_payload run e) (failure_payload run e) s2 = (Inr p, s')"
      "execute_run env run root_dir strict steps s = (Inl e, s1) \<or> (\<exists>m. e = IntegrityError m)"
proof -
  have moved: "moves (body_step (run_id run)) (execute_run env run root_dir strict steps)"
    by (rule body.executed) simp
  show thesis
  proof (cases "execute_run env run root_dir strict steps s")
    case (Pair r s1)
    note b = movesD [OF moved Pair]
    show ?thesis
    proof (cases r)
      case (Inl e)
      with assms Pair have "fail_run env run steps e s1 = (Inr p, s')"
        by (simp add: settle_run_def tbind_def)
      with failed [OF b] Inl Pair show ?thesis by (auto simp: fail_run_def tbind_Inr_iff)
    next
      case (Inr outcome)
      show ?thesis
      proof (cases "succeed_run env run outcome s1")
        case (Pair r' s2)
        show ?thesis
        proof (cases r')
          case (Inr p')
          with assms Pair \<open>execute_run env run root_dir strict steps s = (r, s1)\<close> \<open>r = Inr outcome\<close>
          have "p' = p" "s2 = s'" by (auto simp: settle_run_def tbind_def)
          with succeeded b Pair Inr \<open>execute_run env run root_dir strict steps s = (r, s1)\<close> \<open>r = Inr outcome\<close>
          show ?thesis by blast
        next
          case (Inl e)
          with assms Pair \<open>execute_run env run root_dir strict steps s = (r, s1)\<close> \<open>r = Inr outcome\<close>
          have f: "fail_run env run steps e s2 = (Inr p, s')" by (auto simp: settle_run_def tbind_def)
          from end_run_Inl Pair Inl have "body_step (run_id run) s1 s2" by (auto simp: succeed_run_def)
          with b have b2: "body_step (run_id run) s s2" by (rule body.chain)
          have "\<exists>m. e = IntegrityError m"
            using Pair Inl
            by (auto simp: succeed_run_def end_run_def append_run_audit_event_def insert_audit_event_def tbind_def issue_id_def
                tchange_def tpure_def set_run_def tmodify_def tbl_add_def Let_def rbind_def split: prod.split_asm sum.split_asm if_split_asm)
          with failed [OF b2] f show ?thesis by (auto simp: fail_run_def tbind_Inr_iff)
        qed
      qed
    qed
  qed
qed

lemma ensure_steps_same: "(\<And>d ts. g (d\<lparr>run_steps := ts\<rparr>) = g d) \<Longrightarrow> tsame g (ensure_run_steps env run)"
proof -
  assume g: "\<And>d ts. g (d\<lparr>run_steps := ts\<rparr>) = g d"
  have "tsame g (add_steps env run sds)" for sds
    by (induction sds) (auto simp: add_step_def Let_def rbind_eq_Inr_iff g intro!: tsame_bind tsame_change)
  then show ?thesis by (auto simp: ensure_run_steps_def intro!: tsame_bind)
qed

lemma process_queued_run_Inr:
  assumes "process_queued_run env run root_dir strict s = (Inr p, s')"
  obtains steps s1 s2 s3 e where
    "ensure_run_steps (we_cp env) run s1 = (Inr steps, s2)" "run_steps (se_db s1) = run_steps (se_db s)"
    "audit_events (se_db s3) = audit_events (se_db s) @ [e]" "worker_event run ''run.started'' e"
    "runs (se_db s3) = map (\<lambda>r. if run_id r = run_id run then r\<lparr>run_status := ''running''\<rparr> else r) (runs (se_db s))"
    "run_steps (se_db s3) = run_steps (se_db s2)" "settle_run env run root_dir strict steps s3 = (Inr p, s')"
proof -
  from assms obtain steps s1 s2 s3 where
    set1: "set_run (run_id run) (\<lambda>r. r\<lparr>run_status := ''running''\<rparr>) s = (Inr (), s1)"
    and steps: "ensure_run_steps (we_cp env) run s1 = (Inr steps, s2)"
    and ev: "append_run_audit_event (we_cp env) run ''run.started'' (run_fields run) s2 = (Inr (), s3)"
    and settle: "settle_run env run root_dir strict steps s3 = (Inr p, s')"
    by (auto simp: process_queued_run_def tbind_Inr_iff)
  from set1 have s1: "se_db s1 = (se_db s)\<lparr>runs := map (\<lambda>r. if run_id r = run_id run then r\<lparr>run_status := ''running''\<rparr> else r) (runs (se_db s))\<rparr>"
    by (simp add: set_run_def)
  have kept: "runs (se_db s2) = runs (se_db s1)" "audit_events (se_db s2) = audit_events (se_db s1)"
    by (rule tsameD [OF ensure_steps_same steps], simp)+
  from append_event_Inr [OF ev] obtain e where e: "se_db s3 = (se_db s2)\<lparr>audit_events := audit_events (se_db s2) @ [e]\<rparr>"
    "worker_event run ''run.started'' e" by blast
  show thesis by (rule that [OF steps _ _ e(2) _ _ settle]) (simp_all add: s1 e(1) kept)
qed

definition run_settled :: "run_record \<Rightarrow> processed_run \<Rightarrow> db \<Rightarrow> db \<Rightarrow> bool" where
  "run_settled run p d d' \<longleftrightarrow>
     pc_run p = run_id run \<and> pc_workspace p = run_workspace run \<and> pc_type p = run_type run \<and> pc_status p \<in> {''succeeded'', ''failed''} \<and>
     (\<exists>e1 e2. audit_events d' = audit_events d @ [e1, e2] \<and> worker_event run ''run.started'' e1 \<and>
        worker_event run (''run.'' @ pc_status p) e2) \<and>
     outside (run_id run) d' = outside (run_id run) d \<and>
     list_all (\<lambda>r. run_id r = run_id run \<longrightarrow> run_status r = pc_status p \<and> run_output_refs r = pc_output p) (runs d')"

lemma ends_settled:
  assumes "process_queued_run env run root_dir strict s = (Inr p, s')"
  shows "run_settled run p (se_db s) (se_db s')"
proof -
  from assms obtain steps s1 s2 s3 e1 where
    runs3: "runs (se_db s3) = map (\<lambda>r. if run_id r = run_id run then r\<lparr>run_status := ''running''\<rparr> else r) (runs (se_db s))"
    and s3: "audit_events (se_db s3) = audit_events (se_db s) @ [e1]" "worker_event run ''run.started'' e1"
    and settle: "settle_run env run root_dir strict steps s3 = (Inr p, s')"
    by (rule process_queued_run_Inr)
  obtain status outcome js s4 where s4: "status \<in> {''succeeded'', ''failed''}" "body_step (run_id run) s3 s4"
    and "end": "end_run env run status outcome js s4 = (Inr p, s')"
  proof (cases rule: settle_run_Inr [OF settle, case_names succeeded failed])
    case (succeeded outcome s4)
    with that show ?thesis by (auto simp: succeed_run_def)
  next
    case (failed e s4 s5)
    from body.chain [OF failed(1) movesD [OF body.step_failed failed(2)]] failed(3) that show ?thesis by blast
  qed
  note fin = end_run_Inr [OF "end"]
  have o3: "outside (run_id run) (se_db s3) = outside (run_id run) (se_db s)"
    using runs3 by (auto simp: outside_def cleared_run_def)
  have o4: "outside (run_id run) (se_db s4) = outside (run_id run) (se_db s)"
    using s4(2) o3 by (simp add: body_step_def)
  have "outside (run_id run) (se_db s') = outside (run_id run) (se_db s4)"
    using fin by (auto simp: outside_def cleared_run_def)
  with o4 have o5: "outside (run_id run) (se_db s') = outside (run_id run) (se_db s)" by simp
  have "audit_events (se_db s4) = audit_events (se_db s) @ [e1]" using s4(2) s3(1) by (simp add: body_step_def)
  with fin s3(2) s4(1) o5 show ?thesis
    by (auto simp: run_settled_def processed_def list_all_iff)
qed

lemma process_returns:
  assumes "ids_unused (we_cp env) s"
  shows "\<exists>p s'. process_queued_run env run root_dir strict s = (Inr p, s') \<and> ids_unused (we_cp env) s'"
proof -
  obtain s1 where s1: "set_run (run_id run) (\<lambda>r. r\<lparr>run_status := ''running''\<rparr>) s = (Inr (), s1)"
    by (simp add: set_run_def tmodify_def)
  have "moves (body_step (run_id run)) (set_run (run_id run) (\<lambda>r. r\<lparr>run_status := ''running''\<rparr>))"
    by (rule set_run_outside) (simp add: cleared_run_def)
  from ids_unused_body [OF assms movesD [OF this s1]] have "ids_unused (we_cp env) s1" .
  from ensure_steps_returns [OF this] obtain steps s2 where s2: "ensure_run_steps (we_cp env) run s1 = (Inr steps, s2)"
    "ids_unused (we_cp env) s2" by blast
  from append_event_returns [OF s2(2)] obtain s3 where
    s3: "append_run_audit_event (we_cp env) run ''run.started'' (run_fields run) s2 = (Inr (), s3)" "ids_unused (we_cp env) s3" by blast
  have moved: "moves (body_step (run_id run)) (execute_run env run root_dir strict steps)" by (rule body.executed) simp
  obtain r s4 where x: "execute_run env run root_dir strict steps s3 = (r, s4)" by fastforce
  from ids_unused_body [OF s3(2) movesD [OF moved x]] have u4: "ids_unused (we_cp env) s4" .
  have "\<exists>p s'. settle_run env run root_dir strict steps s3 = (Inr p, s') \<and> ids_unused (we_cp env) s'"
  proof (cases r)
    case (Inr outcome)
    from end_run_returns [OF u4 refl] obtain s' where "succeed_run env run outcome s4 = (Inr (processed run ''succeeded'' outcome), s')"
      "ids_unused (we_cp env) s'"
      unfolding succeed_run_def by blast
    with x Inr show ?thesis by (simp add: settle_run_def tbind_def)
  next
    case (Inl e)
    obtain s5 where s5: "ensure_failed_run_step env steps (error_code_from_exception e)
         [(''error'', PStr (exc_str e)), (''run_id'', PStr (run_id run))] (failure_evidence e) s4 = (Inr (), s5)"
      using failed_step_returns by blast
    from ids_unused_body [OF u4 movesD [OF body.step_failed s5]] have "ids_unused (we_cp env) s5" .
    from end_run_returns [OF this refl] obtain s' where
      "end_run env run ''failed'' (failure_payload run e) (failure_payload run e) s5 =
        (Inr (processed run ''failed'' (failure_payload run e)), s')" "ids_unused (we_cp env) s'" by blast
    with s5 x Inl show ?thesis by (simp add: settle_run_def tbind_def fail_run_def)
  qed
  with s1 s2(1) s3(1) show ?thesis by (auto simp: process_queued_run_def tbind_def)
qed

text \<open>
  C3. A queued run always settles. Whatever its type and whatever fails on the way (a source, a
  file, a plugin, a quota, a review task), its processing returns: the run is then succeeded or
  failed with the outcome stored in its row, exactly two audit events of the worker have been
  appended for it, \<open>run.started\<close> and the one of its end, both under its identifier, and no other
  run has changed. The only assumption is that fresh identifiers are unused as keys.
\<close>

theorem queued_run_settles:
  assumes "ids_unused (we_cp env) s"
  shows "\<exists>p s'. process_queued_run env run root_dir strict s = (Inr p, s') \<and> run_settled run p (se_db s) (se_db s')"
  using process_returns [OF assms] ends_settled by blast

section \<open>The steps reflect the outcome\<close>

lemma add_steps_Inr:
  "add_steps env run sds s = (Inr rows, s') \<Longrightarrow> map st_key rows = map sd_key sds \<and>
     run_steps (se_db s') = run_steps (se_db s) @ rows \<and> distinct (map st_id rows) \<and>
     st_id ` set rows \<inter> st_id ` set (run_steps (se_db s)) = {} \<and> list_all (\<lambda>r. st_run r = run_id run) rows"
proof (induction sds arbitrary: s rows)
  case (Cons sd sds)
  let ?row = "queued_step run (ce_fresh env (se_next s)) sd"
  from Cons.prems obtain rest s1 where
    "add_step ?row (s\<lparr>se_next := Suc (se_next s)\<rparr>) = (Inr (), s1)"
    and rest: "add_steps env run sds s1 = (Inr rest, s')" and rows: "rows = ?row # rest"
    by (auto simp: tbind_Inr_iff Let_def tpure_def)
  then have "run_steps (se_db s1) = run_steps (se_db s) @ [?row]" "st_id ?row \<notin> st_id ` set (run_steps (se_db s))"
    by (auto simp: add_step_def rbind_eq_Inr_iff tbl_add_Inr_iff)
  with Cons.IH [OF rest] rows show ?case by (auto simp: queued_step_def)
qed (simp add: tpure_def)

lemma by_key_distinct: "distinct (map st_key rows) \<Longrightarrow> by_key rows = map (\<lambda>r. (st_key r, st_id r)) rows"
proof -
  have new: "k \<notin> fst ` set d \<Longrightarrow> dset d k v = d @ [(k, v)]" for d :: step_rows and k v
    by (induction d k v rule: dset.induct) auto
  have "distinct (map st_key rows) \<Longrightarrow> fst ` set acc \<inter> st_key ` set rows = {} \<Longrightarrow>
      foldl (\<lambda>m r. dset m (st_key r) (st_id r)) acc rows = acc @ map (\<lambda>r. (st_key r, st_id r)) rows" for acc
    by (induction rows arbitrary: acc) (auto simp: new)
  then show "distinct (map st_key rows) \<Longrightarrow> ?thesis" by (simp add: by_key_def)
qed

text \<open>The rows of a run and its table of steps name each other.\<close>

definition graph_rows :: "step_rows \<Rightarrow> string \<Rightarrow> db \<Rightarrow> bool" where
  "graph_rows steps k d \<longleftrightarrow> distinct (map fst steps) \<and> distinct (map snd steps) \<and>
     (\<forall>(i, owner, key) \<in> set (map step_name (run_steps d)). (owner = k \<longleftrightarrow> i \<in> snd ` set steps) \<and>
        (owner = k \<longrightarrow> (key, i) \<in> set steps)) \<and>
     snd ` set steps \<subseteq> st_id ` set (run_steps d)"

definition steps_done :: "string \<Rightarrow> string set \<Rightarrow> db \<Rightarrow> bool" where
  "steps_done k ks d \<longleftrightarrow> (\<forall>r \<in> set (run_steps d). st_run r = k \<longrightarrow> st_key r \<in> ks \<longrightarrow> st_status r = ''succeeded'')"

lemma graph_rows_names:
  "map step_name (run_steps d') = map step_name (run_steps d) \<Longrightarrow> graph_rows steps k d \<Longrightarrow> graph_rows steps k d'"
proof -
  assume names: "map step_name (run_steps d') = map step_name (run_steps d)"
  have ids: "st_id ` set (run_steps d) = fst ` set (map step_name (run_steps d))" for d by (simp add: step_name_def image_image)
  show "graph_rows steps k d \<Longrightarrow> graph_rows steps k d'" unfolding graph_rows_def ids names .
qed

lemma first_steps:
  assumes "ensure_run_steps env run s = (Inr steps, s')" "list_all (\<lambda>r. st_run r \<noteq> run_id run) (run_steps (se_db s))"
  shows "graph_rows steps (run_id run) (se_db s') \<and> map fst steps = map sd_key (RUN_STEP_DEFINITIONS (run_type run))"
proof -
  from assms(2) have "steps_of run (se_db s) = []" by (auto simp: steps_of_def filter_empty_conv list_all_iff)
  with assms(1) obtain rows where "add_steps env run (RUN_STEP_DEFINITIONS (run_type run)) s = (Inr rows, s')" "steps = by_key rows"
    by (auto simp: ensure_run_steps_def tbind_Inr_iff tpure_def)
  moreover note add_steps_Inr [OF this(1)]
  moreover from this have "distinct (map st_key rows)" using step_graph_ordered [of "run_type run"] by simp
  ultimately show ?thesis using assms(2)
    by (auto simp: graph_rows_def by_key_distinct step_name_def list_all_iff comp_def image_image; force)
qed

lemma graph_rows_get: "graph_rows steps k d \<Longrightarrow> r \<in> set (run_steps d) \<Longrightarrow> st_run r = k \<Longrightarrow> dget steps (st_key r) = Some (st_id r)"
  by (auto simp: graph_rows_def dget_def step_name_def)

text \<open>The progress of a run: which of its steps have succeeded.\<close>

definition progress :: "step_rows \<Rightarrow> string \<Rightarrow> string set \<Rightarrow> cp_session \<Rightarrow> bool" where
  "progress steps k ks s \<longleftrightarrow> graph_rows steps k (se_db s) \<and> steps_done k ks (se_db s)"

lemma progress_kept:
  "m s = (r, s') \<Longrightarrow> moves (\<lambda>s s'. run_steps (se_db s') = run_steps (se_db s)) m \<Longrightarrow> progress steps k ks s \<Longrightarrow>
     progress steps k ks s'"
  using movesD [of "\<lambda>s s'. run_steps (se_db s') = run_steps (se_db s)" m s r s']
  by (simp add: progress_def graph_rows_def steps_done_def)

lemma step_set_rows:
  "tbind (clock env) (\<lambda>now. set_step i (f now)) s = (r, s') \<Longrightarrow>
     run_steps (se_db s') = map (\<lambda>r. if st_id r = i then f (we_clock env (se_ticks s)) r else r) (run_steps (se_db s))"
  by (auto simp: tbind_def set_step_def tmodify_def clock_def)

lemma progress_done:
  assumes "succeed_step env steps key details ev s = (r, s')" "progress steps k ks s"
  shows "progress steps k (insert key ks) s'"
proof -
  have g: "graph_rows steps k (se_db s)" and d: "steps_done k ks (se_db s)" using assms(2) by (simp_all add: progress_def)
  note get = graph_rows_get [OF g]
  show ?thesis
  proof (cases "dget steps key")
    case None
    with assms(1) have "s' = s" by (simp add: succeed_step_def)
    moreover have "\<forall>r \<in> set (run_steps (se_db s)). st_run r = k \<longrightarrow> st_key r \<noteq> key" using get None by fastforce
    ultimately show ?thesis using g d by (auto simp: progress_def steps_done_def)
  next
    case (Some i)
    with assms(1) have rows: "run_steps (se_db s') = map (\<lambda>r. if st_id r = i then
        finished_step ''succeeded'' None details ev (we_clock env (se_ticks s)) r else r) (run_steps (se_db s))"
      by (auto simp: succeed_step_def dest: step_set_rows)
    have "graph_rows steps k (se_db s')" by (rule graph_rows_names [OF _ g]) (simp add: rows)
    moreover have "steps_done k (insert key ks) (se_db s')"
      using d get Some by (fastforce simp: steps_done_def rows finished_step_def)
    ultimately show ?thesis by (simp add: progress_def)
  qed
qed

lemma progress_begun:
  assumes "begin_step env steps key s = (r, s')" "progress steps k ks s"
  shows "progress steps k (ks - {key}) s'"
proof -
  have g: "graph_rows steps k (se_db s)" and d: "steps_done k ks (se_db s)" using assms(2) by (simp_all add: progress_def)
  note get = graph_rows_get [OF g]
  obtain s1 where s1: "start_step env steps key s = (Inr (), s1)"
    by (cases "dget steps key") (simp_all add: start_step_def tpure_def tbind_def clock_def set_step_def tmodify_def)
  with assms(1) have "enforce_worker_step_timeout env steps key s1 = (r, s')" by (simp add: begin_step_def tbind_def)
  moreover have "progress steps k (ks - {key}) s1"
  proof (cases "dget steps key")
    case None
    with s1 have "s1 = s" by (simp add: start_step_def)
    with g d show ?thesis by (auto simp: progress_def steps_done_def)
  next
    case (Some i)
    with s1 have rows: "run_steps (se_db s1) = map (\<lambda>r. if st_id r = i then started_step (we_clock env (se_ticks s)) r else r)
        (run_steps (se_db s))" by (auto simp: start_step_def dest: step_set_rows)
    have "graph_rows steps k (se_db s1)" by (rule graph_rows_names [OF _ g]) (simp add: rows)
    moreover have "steps_done k (ks - {key}) (se_db s1)"
      unfolding steps_done_def
    proof (intro ballI impI)
      fix r assume r: "r \<in> set (run_steps (se_db s1))" "st_run r = k" "st_key r \<in> ks - {key}"
      then obtain r0 where r0: "r0 \<in> set (run_steps (se_db s))"
        "r = (if st_id r0 = i then started_step (we_clock env (se_ticks s)) r0 else r0)" by (auto simp: rows)
      then have same: "st_run r0 = k" "st_key r0 = st_key r" using r by (auto simp: started_step_def split: if_splits)
      have "st_id r0 \<noteq> i"
      proof
        assume "st_id r0 = i"
        with get [OF r0(1) same(1)] Some have "(st_key r0, i) \<in> set steps" "(key, i) \<in> set steps"
          by (auto simp: dget_def map_of_SomeD)
        moreover have "inj_on snd (set steps)" using g by (simp add: graph_rows_def distinct_map)
        ultimately have "st_key r0 = key" using inj_onD [of snd "set steps" "(st_key r0, i)" "(key, i)"] by simp
        with same r(3) show False by simp
      qed
      with r0 same r(3) d show "st_status r = ''succeeded''" by (auto simp: steps_done_def)
    qed
    ultimately show ?thesis by (simp add: progress_def)
  qed
  ultimately show ?thesis by (auto intro: progress_kept steps_kept.time_checked)
qed

lemma set_run_steps: "moves (\<lambda>s s'. run_steps (se_db s') = run_steps (se_db s)) (set_run i f)"
  by (simp add: moves_def set_run_def)

lemma completeness_kept:
  "check_completeness env run strict steps ga s = (Inr w, s') \<Longrightarrow> run_steps (se_db s') = run_steps (se_db s)"
  by (auto simp: check_completeness_def tbind_Inr_iff split: if_split_asm dest!: store_bundle_db)

text \<open>What holds after a part of the work that returned.\<close>

definition leads :: "(cp_session \<Rightarrow> bool) \<Rightarrow> 'a tx \<Rightarrow> (cp_session \<Rightarrow> bool) \<Rightarrow> bool" where
  "leads P m Q \<longleftrightarrow> (\<forall>s r s'. m s = (Inr r, s') \<longrightarrow> P s \<longrightarrow> Q s')"

lemma leads_bind: "leads P m Q \<Longrightarrow> (\<And>x. leads Q (f x) U) \<Longrightarrow> leads P (tbind m f) U"
  unfolding leads_def tbind_Inr_iff by blast

lemma leads_if: "leads P m Q \<Longrightarrow> leads P n Q \<Longrightarrow> leads P (if b then m else n) Q"
  by simp

lemma leads_raise: "leads P (traise e) Q"
  by (simp add: leads_def)

lemma leads_kept:
  "moves (\<lambda>s s'. run_steps (se_db s') = run_steps (se_db s)) m \<Longrightarrow> leads (progress steps k ks) m (progress steps k ks)"
  by (auto simp: leads_def intro: progress_kept)

lemma leads_checked: "leads (progress steps k ks) (check_completeness env run strict steps ga) (progress steps k ks)"
  unfolding leads_def
proof (intro allI impI)
  fix s w s' assume "check_completeness env run strict steps ga s = (Inr w, s')" "progress steps k ks s"
  with completeness_kept [OF this(1)] show "progress steps k ks s'" by (simp add: progress_def graph_rows_def steps_done_def)
qed

lemma leads_begin: "leads (progress steps k ks) (begin_step env steps key) (progress steps k (ks - {key}))"
  by (auto simp: leads_def intro: progress_begun)

lemma leads_done: "leads (progress steps k ks) (succeed_step env steps key details ev) (progress steps k (insert key ks))"
  by (auto simp: leads_def intro: progress_done)

lemma leads_mono: "leads P m (progress steps k ks') \<Longrightarrow> ks \<subseteq> ks' \<Longrightarrow> leads P m (progress steps k ks)"
  by (fastforce simp: leads_def progress_def steps_done_def)

lemmas leads_steps = leads_begin leads_done leads_checked

lemma leads_final:
  "leads (progress steps k ks) (finalize_step env steps details ev outcome) (progress steps k (insert ''finalize_output'' (ks - {''finalize_output''})))"
  unfolding finalize_step_def by (rule leads_bind leads_steps | (rule leads_kept, simp))+

lemma refresh_progress:
  "leads (progress steps k {}) (process_materialized_refresh_run env run root_dir steps)
     (progress steps k {''collect_inputs'', ''refresh_materializations'', ''finalize_output''})"
  unfolding process_materialized_refresh_run_def Let_def
  by (intro leads_if leads_raise, rule leads_mono)
    ((rule leads_bind | rule leads_steps leads_final | (rule leads_kept, (rule set_run_steps | simp; fail)))+, auto)

lemma bootstrap_progress:
  "leads (progress steps k {}) (process_semantic_bootstrap_run env run steps)
     (progress steps k {''collect_catalog'', ''build_manifest_candidate'', ''finalize_output''})"
  unfolding process_semantic_bootstrap_run_def
  by (rule leads_mono)
    ((rule leads_bind | rule leads_steps leads_final | (rule leads_kept, (rule set_run_steps | simp; fail)))+, auto)

lemma discover_progress:
  "leads (progress steps k {}) (process_discover_run env run root_dir strict steps)
     (progress steps k {''discover_inventory'', ''ingest_profile_governance'', ''semantic_drift_gate'', ''finalize_output''})"
proof -
  have inventory: "leads (progress steps k {}) (take_inventory env run steps) (progress steps k {''discover_inventory''})"
    unfolding take_inventory_def
    by (rule leads_mono) ((rule leads_bind leads_if leads_raise | rule leads_steps
      | (rule leads_kept, (rule set_run_steps | simp; fail)))+, auto)
  have ingest: "leads (progress steps k {''discover_inventory''}) (ingest_sources env run root_dir strict steps srcs)
      (progress steps k {''discover_inventory'', ''ingest_profile_governance''})" for srcs
    unfolding ingest_sources_def
    by (rule leads_mono) ((rule leads_bind | rule leads_steps | (rule leads_kept, simp; fail))+, auto)
  have gate: "leads (progress steps k {''discover_inventory'', ''ingest_profile_governance''}) (semantic_drift_gate env run steps)
      (progress steps k {''discover_inventory'', ''ingest_profile_governance'', ''semantic_drift_gate''})"
    unfolding semantic_drift_gate_def
    by (rule leads_mono) ((rule leads_bind | rule leads_steps | (rule leads_kept, simp; fail))+, auto)
  show ?thesis
    unfolding process_discover_run_def case_prod_unfold
    by (rule leads_mono) (rule leads_bind, rule inventory, rule leads_bind, rule ingest, rule leads_bind, rule gate,
      rule leads_final, auto)
qed

lemma executed_progress:
  "leads (progress steps k {}) (execute_run env run root_dir strict steps)
     (progress steps k (set (map sd_key (RUN_STEP_DEFINITIONS (run_type run)))))"
  unfolding execute_run_def
  using discover_progress [of steps k env run root_dir strict] bootstrap_progress [of steps k env run]
    refresh_progress [of steps k env run root_dir]
  by (simp add: RUN_STEP_DEFINITIONS_def step_node_def leads_raise del: set_map)

lemma failed_row_left:
  assumes "ensure_failed_run_step env steps err details ev s = (Inr u, s')" "graph_rows steps k (se_db s)" "steps \<noteq> []"
  shows "\<exists>r \<in> set (run_steps (se_db s')). st_run r = k \<and> st_status r = ''failed''"
proof -
  let ?rows = "rows_of steps (se_db s)"
  have owned: "st_run r = k" if "r \<in> set (run_steps (se_db s))" "st_id r \<in> snd ` set steps" for r
  proof -
    have "\<forall>r \<in> set (run_steps (se_db s)). case step_name r of (i, owner, key) \<Rightarrow> owner = k \<longleftrightarrow> i \<in> snd ` set steps"
      using assms(2) by (simp add: graph_rows_def split_beta)
    with that show ?thesis by (simp add: step_name_def)
  qed
  have row: "r \<in> set (run_steps (se_db s)) \<and> st_run r = k" if r: "r \<in> set ?rows" for r
  proof -
    from r obtain key i where "(key, i) \<in> set steps" "tbl_get st_id i (run_steps (se_db s)) = Some r"
      by (auto simp: rows_of_def step_row_def split: option.split_asm)
    with tbl_get_SomeD [OF this(2)] owned show ?thesis by force
  qed
  have "?rows \<noteq> []"
  proof -
    from assms(3) obtain key i where ki: "(key, i) \<in> set steps" by (cases steps) auto
    with assms(2) have "i \<in> st_id ` set (run_steps (se_db s))" by (force simp: graph_rows_def)
    then obtain r where "tbl_get st_id i (run_steps (se_db s)) = Some r"
      using tbl_get_None [of st_id i "run_steps (se_db s)"] by (cases "tbl_get st_id i (run_steps (se_db s))") auto
    with ki have "r \<in> set ?rows" by (force simp: rows_of_def step_row_def)
    then show ?thesis by auto
  qed
  show ?thesis
  proof (cases "list_ex (\<lambda>r. st_status r = ''failed'') ?rows")
    case True
    with assms(1) have "s' = s" by (simp add: ensure_failed_run_step_def tbind_def tread_def tpure_def)
    with True row show ?thesis by (auto simp: list_ex_iff)
  next
    case False
    define r where "r = (case find (\<lambda>r. st_status r = ''running'') ?rows of
        Some r \<Rightarrow> r | None \<Rightarrow> hd (sort_key st_order (sort_key st_id ?rows)))"
    have "r \<in> set ?rows"
    proof (cases "find (\<lambda>r. st_status r = ''running'') ?rows")
      case None
      from \<open>?rows \<noteq> []\<close> have "sort_key st_order (sort_key st_id ?rows) \<noteq> []" by (metis set_empty set_sort)
      then have "hd (sort_key st_order (sort_key st_id ?rows)) \<in> set (sort_key st_order (sort_key st_id ?rows))" by (rule hd_in_set)
      with None show ?thesis by (simp add: r_def)
    next
      case (Some x)
      with find_in [OF Some] show ?thesis by (simp add: r_def)
    qed
    note r = row [OF this]
    then have key: "dget steps (st_key r) = Some (st_id r)" by (auto intro: graph_rows_get [OF assms(2)])
    from assms(1) False \<open>?rows \<noteq> []\<close> have "fail_step env steps (st_key r) err details ev s = (Inr u, s')"
      by (simp add: ensure_failed_run_step_def tbind_def tread_def Let_def r_def)
    with key have rows: "run_steps (se_db s') = map (\<lambda>r'. if st_id r' = st_id r then
        finished_step ''failed'' (Some err) details ev (we_clock env (se_ticks s)) r' else r') (run_steps (se_db s))"
      by (auto simp: fail_step_def dest: step_set_rows)
    let ?r = "finished_step ''failed'' (Some err) details ev (we_clock env (se_ticks s)) r"
    from rows r have "?r \<in> set (run_steps (se_db s'))" by (auto intro: rev_image_eqI)
    moreover have "st_run ?r = k" "st_status ?r = ''failed''" using r by (simp_all add: finished_step_def)
    ultimately show ?thesis by blast
  qed
qed

text \<open>
  C12. The steps of a run tell how it ended. When a run of a known type has been processed for the
  first time, all of its steps have succeeded if the run has succeeded, and if it has failed at
  least one of its steps is marked failed.
\<close>

theorem steps_reflect_outcome:
  assumes "process_queued_run env run root_dir strict s = (Inr p, s')"
    and "RUN_STEP_DEFINITIONS (run_type run) \<noteq> []"
    and "list_all (\<lambda>r. st_run r \<noteq> run_id run) (run_steps (se_db s))"
  shows "if pc_status p = ''succeeded''
     then list_all (\<lambda>r. st_run r = run_id run \<longrightarrow> st_status r = ''succeeded'') (run_steps (se_db s'))
     else list_ex (\<lambda>r. st_run r = run_id run \<and> st_status r = ''failed'') (run_steps (se_db s'))"
proof -
  let ?k = "run_id run"
  from assms(1) obtain steps s1 s2 s3 where steps: "ensure_run_steps (we_cp env) run s1 = (Inr steps, s2)"
    and rows: "run_steps (se_db s1) = run_steps (se_db s)" "run_steps (se_db s3) = run_steps (se_db s2)"
    and settle: "settle_run env run root_dir strict steps s3 = (Inr p, s')"
    by (rule process_queued_run_Inr)
  from first_steps [OF steps] assms(3) rows have g2: "graph_rows steps ?k (se_db s2)"
    and keys: "map fst steps = map sd_key (RUN_STEP_DEFINITIONS (run_type run))" by simp_all
  from g2 have g3: "graph_rows steps ?k (se_db s3)" by (rule graph_rows_names [rotated]) (simp add: rows)
  show ?thesis
  proof (cases rule: settle_run_Inr [OF settle, case_names succeeded failed])
    case (succeeded outcome s4)
    from g3 have "progress steps ?k {} s3" by (simp add: progress_def steps_done_def)
    with executed_progress [of steps ?k env run root_dir strict] succeeded(1)
    have p4: "progress steps ?k (set (map fst steps)) s4" unfolding leads_def keys by blast
    have "st_status r = ''succeeded''" if r: "r \<in> set (run_steps (se_db s4))" "st_run r = ?k" for r
    proof -
      from p4 r have "dget steps (st_key r) = Some (st_id r)" by (auto simp: progress_def intro: graph_rows_get)
      then have "st_key r \<in> set (map fst steps)" by (force simp: dget_def dest: map_of_SomeD)
      with p4 r show ?thesis by (auto simp: progress_def steps_done_def)
    qed
    moreover note end_run_Inr [OF succeeded(3) [unfolded succeed_run_def]]
    ultimately show ?thesis by (auto simp: list_all_iff processed_def)
  next
    case (failed e s4 s5)
    have "graph_rows steps ?k (se_db s4)"
      using failed(1) g3 by (auto simp: body_step_def intro: graph_rows_names)
    moreover have "steps \<noteq> []" using keys assms(2) by auto
    ultimately have "\<exists>r \<in> set (run_steps (se_db s5)). st_run r = ?k \<and> st_status r = ''failed''"
      by (rule failed_row_left [OF failed(2)])
    with end_run_Inr [OF failed(3)] show ?thesis by (auto simp: list_ex_iff processed_def)
  qed
qed

section \<open>Runs of a small workspace\<close>

definition demo_files_source :: "string \<Rightarrow> catalog_source" where
  "demo_files_source kind = \<lparr>src_id = ''s1'', src_workspace = ''w'', src_type = kind, src_scope = [(''root_path'', PStr ''/in'')],
     src_credentials = None, src_status = ''active'', src_display_name = ''Files''\<rparr>"

definition demo_run :: run_record where
  "demo_run = \<lparr>run_id = ''r1'', run_workspace = ''w'', run_type = ''discover'', run_status = ''queued'', run_input_refs = [],
     run_output_refs = []\<rparr>"

definition demo_queue :: "string \<Rightarrow> cp_session" where
  "demo_queue kind = demo_session\<lparr>se_db := empty_db\<lparr>workspaces := [demo_workspace],
     sources := [demo_files_source kind], runs := [demo_run]\<rparr>\<rparr>"

lemma demo_unused: "ids_unused (we_cp demo_worker_env) (demo_queue kind)"
proof -
  have "inj (ce_fresh (we_cp demo_worker_env))"
    unfolding inj_def by (auto simp: demo_worker_env_def demo_cp_env_def dest: arg_cong [of _ _ length])
  then show ?thesis by (simp add: ids_unused_def demo_queue_def demo_session_def empty_db_def)
qed

lemma demo_discovered:
  "map_sum id pc_status (fst (process_queued_run demo_worker_env demo_run ''/data'' True (demo_queue ''filesystem''))) = Inr ''succeeded''"
  by code_simp

lemma demo_outcome:
  assumes "map_sum id pc_status (fst m) = Inr st"
  obtains p s' where "m = (Inr p, s')" "pc_status p = st"
  using assms by (cases m; cases "fst m") auto

theorem queued_run_settles_witness:
  "\<exists>p s'. process_queued_run demo_worker_env demo_run ''/data'' True (demo_queue ''filesystem'') = (Inr p, s') \<and>
     run_settled demo_run p (se_db (demo_queue ''filesystem'')) (se_db s')"
  by (rule queued_run_settles [OF demo_unused])

theorem steps_reflect_outcome_witness:
  "\<exists>p s'. process_queued_run demo_worker_env demo_run ''/data'' True (demo_queue ''filesystem'') = (Inr p, s') \<and>
     \<not> list_ex (\<lambda>r. st_run r = ''r1'' \<and> st_status r \<noteq> ''succeeded'') (run_steps (se_db s'))"
proof -
  from demo_discovered obtain p s' where
    p: "process_queued_run demo_worker_env demo_run ''/data'' True (demo_queue ''filesystem'') = (Inr p, s')" "pc_status p = ''succeeded''"
    by (rule demo_outcome)
  have "RUN_STEP_DEFINITIONS (run_type demo_run) \<noteq> []" "run_id demo_run = ''r1''"
    "run_steps (se_db (demo_queue ''filesystem'')) = []"
    by (simp_all add: demo_run_def RUN_STEP_DEFINITIONS_def demo_queue_def empty_db_def)
  with steps_reflect_outcome [OF p(1)] p show ?thesis by (auto simp: list_all_iff list_ex_iff)
qed

end
