(* ===== verification/RunStrict.thy ===== *)
theory RunStrict
  imports RunProperties
begin

text \<open>
  Strict ingest: a discovery that succeeds has processed every item it expected, and one that
  fails for its items leaves the workspace blocked for publication.
\<close>

section \<open>What is counted\<close>

definition tallies :: "gathered \<Rightarrow> pydict list \<times> pydict list \<times> nat" where
  "tallies ga = (ga_expected ga, ga_failures ga, ga_successes ga)"

lemma tallies_simps [simp]:
  "tallies (ga\<lparr>ga_datasets := xs\<rparr>) = tallies ga" "tallies (ga\<lparr>ga_manifests := ys\<rparr>) = tallies ga"
  "tallies (ga\<lparr>ga_evidence := ys\<rparr>) = tallies ga" "tallies (ga\<lparr>ga_pii := n\<rparr>) = tallies ga"
  "tallies (ga\<lparr>ga_drift := n\<rparr>) = tallies ga" "tallies (ga\<lparr>ga_anomaly := n\<rparr>) = tallies ga"
  by (simp_all add: tallies_def)

definition keeps_tallies :: "gathered \<Rightarrow> (gathered \<times> exn option) tx \<Rightarrow> bool" where
  "keeps_tallies ga m \<longleftrightarrow> (\<forall>s r s'. m s = (r, s') \<longrightarrow> (\<exists>ga' e. r = Inr (ga', e) \<and> tallies ga' = tallies ga))"

lemma keeps_attempted:
  "tallies ga' = tallies ga \<Longrightarrow> (\<And>x. keeps_tallies ga (k x)) \<Longrightarrow> keeps_tallies ga (attempted m ga' k)"
  unfolding keeps_tallies_def by (fastforce simp: attempted_def split: prod.split_asm sum.split_asm)

lemma keeps_pure: "tallies ga' = tallies ga \<Longrightarrow> keeps_tallies ga (tpure (ga', e))"
  by (simp add: keeps_tallies_def)

lemma profile_tallies: "tallies ga' = tallies ga \<Longrightarrow> keeps_tallies ga (profile_item env ip ga')"
  unfolding profile_item_def Let_def by (intro keeps_attempted keeps_pure) simp_all

text \<open>An item never raises: what goes wrong in it is its outcome.\<close>

lemma ingest_tallies: "keeps_tallies ga (ingest_item env root_dir run source f loc ga)"
  unfolding ingest_item_def Let_def by (auto intro!: keeps_attempted keeps_pure profile_tallies)

definition tallied :: "gathered \<Rightarrow> bool" where
  "tallied ga \<longleftrightarrow> ga_successes ga \<le> length (ga_expected ga) \<and>
     length (ga_expected ga) \<le> ga_successes ga + length (ga_failures ga)"

lemma files_tallied:
  "files_loop env root_dir run steps source base files ga s = (Inr ga', s') \<Longrightarrow> tallied ga \<Longrightarrow> tallied ga'"
proof (induction files arbitrary: ga s)
  case (Cons f fs)
  let ?ga1 = "ga\<lparr>ga_expected := ga_expected ga @ [expected_item source f (relative_locator env base (df_path f))]\<rparr>"
  from Cons.prems(1) obtain s1 ga2 e s2 where
    item: "ingest_item env root_dir run source f (relative_locator env base (df_path f)) ?ga1 s1 = (Inr (ga2, e), s2)"
    and rest: "(case e of
          None \<Rightarrow>
            if int (Suc (ga_successes ga2)) > worker_step_max_items env then traise quota_exceeded
            else files_loop env root_dir run steps source base fs (ga2\<lparr>ga_successes := Suc (ga_successes ga2)\<rparr>)
        | Some e \<Rightarrow>
            if stops_the_run e then traise e
            else files_loop env root_dir run steps source base fs
                   (ga2\<lparr>ga_failures := ga_failures ga2 @ [item_failure source f (relative_locator env base (df_path f)) e]\<rparr>)) s2
      = (Inr ga', s')"
    by (auto simp: tbind_Inr_iff Let_def simp del: of_nat_Suc)
  from item ingest_tallies [of ?ga1 env root_dir run source f "relative_locator env base (df_path f)"]
  have "tallies ga2 = tallies ?ga1" unfolding keeps_tallies_def by fastforce
  with Cons.prems(2) have t: "tallied (ga2\<lparr>ga_successes := Suc (ga_successes ga2)\<rparr>)"
    "tallied (ga2\<lparr>ga_failures := ga_failures ga2 @ [x]\<rparr>)" for x
    by (auto simp: tallied_def tallies_def)
  with Cons.IH rest show ?case by (auto split: option.split_asm if_split_asm)
qed simp

lemma sources_tallied:
  "sources_loop env root_dir run steps plugins srcs ga s = (Inr ga', s') \<Longrightarrow> tallied ga \<Longrightarrow> tallied ga'"
proof (induction srcs arbitrary: ga s)
  case (Cons source rest)
  then show ?case
    by (fastforce simp: tbind_Inr_iff tallied_def split: sum.split_asm prod.split_asm if_split_asm
        dest: files_tallied [unfolded tallied_def])
qed simp

text \<open>
  C13. A discovery in strict mode that succeeds has processed every item it expected: no failure
  was counted, at a source or at a file. In every mode, the items processed are among those
  expected, and each expected item is processed or counted as a failure.
\<close>

theorem succeeded_discovery_is_complete:
  assumes "process_queued_run env run root_dir strict s = (Inr p, s')"
    and "run_type run = ''discover''" "pc_status p = ''succeeded''"
  shows "\<exists>expected processed failures.
     dget (pc_output p) ''expected_item_count'' = Some (PInt (int expected)) \<and>
     dget (pc_output p) ''processed_item_count'' = Some (PInt (int processed)) \<and>
     dget (pc_output p) ''completeness_failure_count'' = Some (PInt (int failures)) \<and>
     processed \<le> expected \<and> expected \<le> processed + failures \<and> (strict \<longrightarrow> failures = 0 \<and> processed = expected)"
proof -
  from assms(1) obtain steps s3 where settle: "settle_run env run root_dir strict steps s3 = (Inr p, s')"
    by (rule process_queued_run_Inr)
  show ?thesis
  proof (cases rule: settle_run_Inr [OF settle, case_names succeeded failed])
    case (succeeded outcome s4)
    from succeeded(1) assms(2) obtain srcs ga warning n s5 s6 plugins where
      loop: "sources_loop env root_dir run steps plugins srcs nothing_gathered s5 = (Inr ga, s6)"
      and checked: "\<exists>s7. check_completeness env run strict steps ga s6 = (Inr warning, s7)"
      and outcome: "outcome = discover_output srcs strict n warning ga"
      by (auto simp: execute_run_def process_discover_run_def ingest_sources_def finalize_step_def tbind_Inr_iff tpure_def)
    have "tallied ga" by (rule sources_tallied [OF loop]) (simp add: tallied_def nothing_gathered_def)
    moreover have "strict \<Longrightarrow> ga_failures ga = []"
      using checked by (auto simp: check_completeness_def tbind_Inr_iff split: if_split_asm)
    moreover have "pc_output p = discover_output srcs strict n warning ga"
      using end_run_Inr [OF succeeded(3) [unfolded succeed_run_def]] outcome by (simp add: processed_def)
    ultimately show ?thesis by (auto simp: tallied_def discover_output_def int_field_def dget_def Let_def)
  next
    case (failed e s4 s5)
    from end_run_Inr [OF failed(3)] assms(3) show ?thesis by (simp add: processed_def)
  qed
qed

section \<open>Where a strict failure comes from\<close>

definition other_errors :: "'a tx \<Rightarrow> bool" where
  "other_errors m \<longleftrightarrow> (\<forall>s e s'. m s = (Inl e, s') \<longrightarrow> (\<forall>u n p t. e \<noteq> StrictIngestCompletenessError u n p t))"

lemma other_bind: "other_errors m \<Longrightarrow> (\<And>x. other_errors (f x)) \<Longrightarrow> other_errors (tbind m f)"
  unfolding other_errors_def tbind_def by (auto split: prod.split_asm sum.split_asm) blast+

lemma other_basic [simp]:
  "other_errors (tpure x)" "other_errors (tread g)" "other_errors (tmodify h)" "other_errors (tsee v)"
  "other_errors (issue_id cenv)" "other_errors (clock env)" "other_errors (write_json path js)"
  "other_errors (traise (ValueError msg))" "other_errors (set_run k h')" "other_errors (set_step k h'')"
  by (auto simp: other_errors_def write_json_def tsee_def set_run_def set_step_def)

lemma other_stored [simp]: "other_errors (store_bundle cenv ws ty p)"
  by (auto simp: other_errors_def store_bundle_def store_evidence_bundle_def Let_def split: prod.split_asm option.split_asm if_split_asm)

lemma other_added [simp]:
  "other_errors (create_proposal cenv ws ty uri c)" "other_errors (create_review_task cenv ws sub pri b)"
  unfolding create_proposal_def create_review_task_def Let_def
  by (auto intro!: other_bind simp: other_errors_def [of "tchange f" for f] tchange_def tbl_add_def rbind_def
      split: sum.split_asm if_split_asm)

lemma other_findings [simp]:
  "other_errors (get_or_create_review_proposal cenv ws ty uri c)"
  "other_errors (create_blocking_review_task_if_missing cenv ws pid pri)"
  "other_errors (ensure_ingest_completeness_review_task cenv ws uri)"
  "other_errors (raise_finding env ws ty' p pt c' pri)" "other_errors (create_semantic_drift_review_task_if_needed env ws)"
  by (auto simp: get_or_create_review_proposal_def create_blocking_review_task_if_missing_def raise_finding_def
      ensure_ingest_completeness_review_task_def create_semantic_drift_review_task_if_needed_def
      intro!: other_bind split: option.split prod.split bool.split)

lemma other_steps [simp]:
  "other_errors (succeed_step env steps key details ev)" "other_errors (fail_step env steps key err details ev)"
  "other_errors (begin_step env steps key)" "other_errors (enforce_worker_step_timeout env steps key)"
  "other_errors (finalize_step env steps details ev js)"
  by (auto simp: succeed_step_def fail_step_def begin_step_def start_step_def enforce_worker_step_timeout_def
      finalize_step_def Let_def intro!: other_bind split: option.split)

lemma not_stopped_by_strict: "stops_the_run e \<Longrightarrow> e \<noteq> StrictIngestCompletenessError u n p t"
  by (auto simp: stops_the_run_def)

lemma other_files: "other_errors (files_loop env root_dir run steps source base files ga)"
proof (induction files arbitrary: ga)
  case (Cons f fs)
  have item: "other_errors (ingest_item env root_dir run source f loc ga')" for loc ga'
    using ingest_tallies [of ga' env root_dir run source f loc] unfolding keeps_tallies_def other_errors_def by blast
  have stop: "stops_the_run e \<Longrightarrow> other_errors (traise e)" for e
    using not_stopped_by_strict by (auto simp: other_errors_def)
  show ?case
    using Cons by (auto simp: Let_def quota_exceeded_def intro!: other_bind item stop split: option.split)
qed simp

lemma other_sources: "other_errors (sources_loop env root_dir run steps plugins srcs ga)"
proof (induction srcs arbitrary: ga)
  case (Cons source rest)
  then show ?case
    by (auto simp: quota_exceeded_def save_connector_state_def Let_def intro!: other_bind other_files split: sum.split)
qed simp

lemma review_task_blocks:
  "create_review_task env ws sub pri True s = (Inr t, s') \<Longrightarrow> 0 < unresolved_blocking_task_count (se_db s') ws"
  by (auto simp: blocked_iff blocks_def is_unresolved_def dest!: create_review_task_Inr)

lemma completeness_task_left:
  assumes "ensure_ingest_completeness_review_task env ws uri s = (Inr r, s')"
  shows "0 < unresolved_blocking_task_count (se_db s') ws"
proof -
  from assms obtain pid s1 where rest: "(case blocking_task ws pid ''quality_critical'' (se_db s1) of
        Some t \<Rightarrow> tpure (pid, tk_id t)
      | None \<Rightarrow> tbind (create_review_task env ws pid ''quality_critical'' True) (\<lambda>t. tpure (pid, tk_id t))) s1 = (Inr r, s')"
    by (auto simp: ensure_ingest_completeness_review_task_def tbind_Inr_iff)
  show ?thesis
  proof (cases "blocking_task ws pid ''quality_critical'' (se_db s1)")
    case None
    with rest show ?thesis by (auto simp: tbind_Inr_iff tpure_def intro: review_task_blocks)
  next
    case (Some t)
    with rest have "s' = s1" by (simp add: tpure_def)
    with Some [unfolded blocking_task_def] tbl_first_SomeD show ?thesis by (fastforce simp: blocked_iff blocks_def)
  qed
qed

lemma same_tasks: "tsame g m \<Longrightarrow> m s = (r, s') \<Longrightarrow> g = tasks \<Longrightarrow> tasks (se_db s') = tasks (se_db s)"
  using tsameD by blast

lemma tbind_raises: "tbind m f s = (Inl e, s') \<longleftrightarrow> m s = (Inl e, s') \<or> (\<exists>x s1. m s = (Inr x, s1) \<and> f x s1 = (Inl e, s'))"
  by (auto simp: tbind_def split: prod.split sum.split)

lemma never_strict: "other_errors m \<Longrightarrow> m s \<noteq> (Inl (StrictIngestCompletenessError u n p t), s')"
  unfolding other_errors_def by blast

lemma strict_check_blocks:
  assumes "check_completeness env run strict steps ga s = (Inl (StrictIngestCompletenessError u n p t), s')"
  shows "0 < unresolved_blocking_task_count (se_db s') (run_workspace run)"
proof -
  let ?p = "completeness_payload run strict ga"
  from assms have "ga_failures ga \<noteq> []" by (auto simp: check_completeness_def)
  have no: "store_bundle cenv ws ty js s0 \<noteq> (Inl (StrictIngestCompletenessError u n p t), s1)"
    "ensure_ingest_completeness_review_task cenv ws uri s0 \<noteq> (Inl (StrictIngestCompletenessError u n p t), s1)"
    "fail_step env steps key err d ev s0 \<noteq> (Inl (StrictIngestCompletenessError u n p t), s1)" for cenv ws ty js uri key err d ev s0 s1
    by (rule never_strict, simp)+
  have "strict" using assms no(1) \<open>ga_failures ga \<noteq> []\<close>
    by (cases strict) (simp_all add: check_completeness_def tbind_raises)
  let ?task = "ensure_ingest_completeness_review_task (we_cp env) (run_workspace run)"
  from \<open>strict\<close> assms \<open>ga_failures ga \<noteq> []\<close> no have "\<exists>uri s1 r s2. ?task uri s1 = (Inr r, s2) \<and>
      (\<exists>err d ev. fail_step env steps ''ingest_profile_governance'' err d ev s2 = (Inr (), s'))"
    by (simp add: check_completeness_def tbind_raises) (elim exE conjE, intro exI conjI, assumption+)
  then obtain uri s1 r s2 err d ev where task: "?task uri s1 = (Inr r, s2)"
    and f: "fail_step env steps ''ingest_profile_governance'' err d ev s2 = (Inr (), s')" by blast
  have "tsame tasks (fail_step env steps key err d ev)" for key err d ev
    by (rule step_ops_same(3)) simp
  from tsameD [OF this f] completeness_task_left [OF task] show ?thesis by (simp add: unresolved_blocking_task_count_def)
qed

lemma strict_error_blocks:
  assumes "execute_run env run root_dir strict steps s = (Inl (StrictIngestCompletenessError u n p t), s')"
    and "run_type run = ''discover''" "we_plugins env = Inr plugins"
  shows "0 < unresolved_blocking_task_count (se_db s') (run_workspace run)"
proof -
  let ?e = "StrictIngestCompletenessError u n p t"
  have inventory: "other_errors (take_inventory env run steps)"
    unfolding take_inventory_def by (auto intro!: other_bind)
  have gate: "other_errors (semantic_drift_gate env run steps)"
    unfolding semantic_drift_gate_def by (auto intro!: other_bind)
  from assms(1,2) have "process_discover_run env run root_dir strict steps s = (Inl ?e, s')" by (simp add: execute_run_def)
  then obtain srcs s1 where "ingest_sources env run root_dir strict steps srcs s1 = (Inl ?e, s')"
    unfolding process_discover_run_def case_prod_unfold
    by (auto simp: tbind_raises never_strict [OF inventory] never_strict [OF gate] never_strict [OF other_steps(5)])
  then obtain ga s2 where "check_completeness env run strict steps ga s2 = (Inl ?e, s')"
    unfolding ingest_sources_def using assms(3)
    by (auto simp: tbind_raises case_prod_unfold never_strict [OF other_steps(3)] never_strict [OF other_sources]
      never_strict [OF other_steps(1)])
  then show ?thesis by (rule strict_check_blocks)
qed

text \<open>
  C7. A strict discovery that failed for items it could not ingest leaves its workspace closed for
  publication: an unresolved blocking review task remains, so that no build of the workspace
  passes the publication gate, whatever its contract report says.
\<close>

theorem strict_failure_closes_the_gate:
  assumes "process_queued_run env run root_dir strict s = (Inr p, s')"
    and "run_type run = ''discover''" "we_plugins env = Inr plugins"
    and "dget (pc_output p) ''reason'' = Some (PStr ''strict_ingest_completeness_failed'')" "pc_status p = ''failed''"
  shows "\<not> gate_passed cfg (run_workspace run) build s'"
proof -
  from assms(1) obtain steps s3 where settle: "settle_run env run root_dir strict steps s3 = (Inr p, s')"
    by (rule process_queued_run_Inr)
  show ?thesis
  proof (cases rule: settle_run_Inr [OF settle, case_names succeeded failed])
    case (succeeded outcome s4)
    from end_run_Inr [OF succeeded(3) [unfolded succeed_run_def]] assms(5) show ?thesis by (simp add: processed_def)
  next
    case (failed e s4 s5)
    note fin = end_run_Inr [OF failed(3)]
    from fin assms(4) have "dget (failure_payload run e) ''reason'' = Some (PStr ''strict_ingest_completeness_failed'')"
      by (simp add: processed_def)
    then obtain u n pid tid where e: "e = StrictIngestCompletenessError u n pid tid"
      by (cases e) (simp_all add: failure_payload_def run_fields_def dget_def)
    with failed(4) have "execute_run env run root_dir strict steps s3 = (Inl (StrictIngestCompletenessError u n pid tid), s4)" by simp
    from strict_error_blocks [OF this assms(2,3)] have b: "0 < unresolved_blocking_task_count (se_db s4) (run_workspace run)" .
    have "tsame tasks (ensure_failed_run_step env steps err d ev)" for err d ev by (rule step_ops_same(4)) simp
    from tsameD [OF this failed(2)] fin b show ?thesis
      by (simp add: gate_passed_def unresolved_blocking_task_count_def)
  qed
qed

section \<open>A discovery that succeeds and one that fails\<close>

theorem succeeded_discovery_is_complete_witness:
  "\<exists>p s' n. process_queued_run demo_worker_env demo_run ''/data'' True (demo_queue ''filesystem'') = (Inr p, s') \<and>
     dget (pc_output p) ''expected_item_count'' = Some (PInt n) \<and> dget (pc_output p) ''processed_item_count'' = Some (PInt n)"
proof -
  from demo_discovered obtain p s' where
    p: "process_queued_run demo_worker_env demo_run ''/data'' True (demo_queue ''filesystem'') = (Inr p, s')" "pc_status p = ''succeeded''"
    by (rule demo_outcome)
  have "run_type demo_run = ''discover''" by (simp add: demo_run_def)
  from succeeded_discovery_is_complete [OF p(1) this p(2)] p(1) show ?thesis by auto
qed

text \<open>A source of a type that no connector serves.\<close>

lemma demo_failed:
  "map_sum id pc_status (fst (process_queued_run demo_worker_env demo_run ''/data'' True (demo_queue ''tape''))) = Inr ''failed''"
  "map_sum id (\<lambda>p. dget (pc_output p) ''reason'')
     (fst (process_queued_run demo_worker_env demo_run ''/data'' True (demo_queue ''tape''))) =
   Inr (Some (PStr ''strict_ingest_completeness_failed''))"
  by code_simp+

theorem strict_failure_closes_the_gate_witness:
  "\<exists>p s'. process_queued_run demo_worker_env demo_run ''/data'' True (demo_queue ''tape'') = (Inr p, s') \<and>
     \<not> gate_passed (ac_settings demo_app) ''w'' ''b1'' s'"
proof -
  from demo_failed(1) obtain p s' where
    p: "process_queued_run demo_worker_env demo_run ''/data'' True (demo_queue ''tape'') = (Inr p, s')" "pc_status p = ''failed''"
    by (rule demo_outcome)
  from demo_failed(2) p(1) have "dget (pc_output p) ''reason'' = Some (PStr ''strict_ingest_completeness_failed'')" by simp
  moreover have "run_type demo_run = ''discover''" "we_plugins demo_worker_env = Inr []" "run_workspace demo_run = ''w''"
    by (simp_all add: demo_run_def demo_worker_env_def)
  ultimately show ?thesis using strict_failure_closes_the_gate [OF p(1), of "[]" "ac_settings demo_app" "''b1''"] p by auto
qed

end
