(* ===== verification/WorkerService.thy ===== *)
theory WorkerService
  imports RunStrict
begin

text \<open>
  The worker service (\<open>backend/workers/service.py\<close>): one tick enqueues the scheduled runs that are
  due and processes queued runs up to a limit, in one transaction. The queue: which run is next,
  how a tick drains it, and that a settled run is left alone.
\<close>

fun tick_loop :: "worker_env \<Rightarrow> string \<Rightarrow> int \<Rightarrow> bool \<Rightarrow> nat \<Rightarrow> nat tx" where
  "tick_loop env storage_root max_active strict_ingest 0 = tpure 0"
| "tick_loop env storage_root max_active strict_ingest (Suc k) =
     tbind (process_next_queued_run env storage_root max_active strict_ingest) (\<lambda>outcome.
     case outcome of
       None \<Rightarrow> tpure 0
     | Some _ \<Rightarrow> tbind (tick_loop env storage_root max_active strict_ingest k) (\<lambda>n. tpure (Suc n)))"

definition process_queued_runs_once :: "worker_env \<Rightarrow> string \<Rightarrow> int \<Rightarrow> int \<Rightarrow> bool \<Rightarrow> nat tx" where
  "process_queued_runs_once env storage_root max_runs max_active strict_ingest =
     in_transaction (tbind (enqueue_due_scheduled_runs (we_cp env) None) (\<lambda>_.
       tick_loop env storage_root max_active strict_ingest (nat max_runs)))"

record worker_config =
  wk_database_url :: string
  wk_storage_root :: string
  wk_poll_interval_seconds :: pyfloat
  wk_max_runs_per_tick :: int
  wk_max_active_per_workspace :: int
  wk_strict_ingest :: bool

definition getenv_or :: "(string \<Rightarrow> string option) \<Rightarrow> string \<Rightarrow> string \<Rightarrow> string" where
  "getenv_or getenv k dflt = (case getenv k of None \<Rightarrow> dflt | Some v \<Rightarrow> v)"

definition strict_ingest_of :: "(string \<Rightarrow> string option) \<Rightarrow> bool" where
  "strict_ingest_of getenv =
     (case getenv ''SCHEMAPILOT_INGEST_STRICT'' of
        None \<Rightarrow> lower (strip (getenv_or getenv ''SCHEMAPILOT_PROFILE'' ''starter'')) \<in> set [''team'', ''enterprise'']
      | Some raw \<Rightarrow> lower (strip raw) \<in> set [''1'', ''true'', ''yes'', ''on''])"

text \<open>\<open>int(os.getenv(...))\<close>\<close>

definition int_setting :: "(string \<Rightarrow> string option) \<Rightarrow> string \<Rightarrow> string \<Rightarrow> int res" where
  "int_setting getenv k dflt = py_int (PStr (getenv_or getenv k dflt))"

definition load_worker_service_config :: "(string \<Rightarrow> string option) \<Rightarrow> worker_config res" where
  "load_worker_service_config getenv =
     rbind (py_float (PStr (getenv_or getenv ''SCHEMAPILOT_WORKER_POLL_SECONDS'' ''2''))) (\<lambda>poll.
     rbind (int_setting getenv ''SCHEMAPILOT_WORKER_MAX_RUNS_PER_TICK'' ''1'') (\<lambda>max_runs.
     rbind (int_setting getenv ''SCHEMAPILOT_WORKER_MAX_ACTIVE_PER_WORKSPACE'' ''1'') (\<lambda>max_active.
     Inr \<lparr>wk_database_url = getenv_or getenv ''SCHEMAPILOT_DATABASE_URL'' ''sqlite:///./runtime/schemapilot.db'',
       wk_storage_root = getenv_or getenv ''SCHEMAPILOT_STORAGE_ROOT'' ''./runtime/storage'', wk_poll_interval_seconds = poll,
       wk_max_runs_per_tick = max_runs, wk_max_active_per_workspace = max_active,
       wk_strict_ingest = strict_ingest_of getenv\<rparr>)))"

text \<open>One round of \<open>run_forever\<close>.\<close>

definition worker_round :: "worker_env \<Rightarrow> worker_config \<Rightarrow> nat tx" where
  "worker_round env config = process_queued_runs_once env (wk_storage_root config) (max (wk_max_runs_per_tick config) 1)
     (max (wk_max_active_per_workspace config) 1) (wk_strict_ingest config)"

section \<open>The next run\<close>

definition at_limit :: "int \<Rightarrow> db \<Rightarrow> run_record \<Rightarrow> bool" where
  "at_limit max_active d r \<longleftrightarrow> max max_active 1 \<le> int (running_count d (run_workspace r))"

lemma find_sorted_first:
  assumes "find P (sort_key f xs) = Some x" "y \<in> set xs" "P y"
  shows "f x \<le> (f y :: 'k :: linorder)"
proof -
  from assms(1) obtain i where i: "i < length xs" "sort_key f xs ! i = x" "\<And>j. j < i \<Longrightarrow> \<not> P (sort_key f xs ! j)"
    by (auto simp: find_Some_iff)
  from assms(2) obtain j where j: "j < length xs" "sort_key f xs ! j = y"
    by (metis in_set_conv_nth length_sort set_sort)
  with i(3) assms(3) have "i \<le> j" by (metis not_le)
  with i j sorted_nth_mono [of "map f (sort_key f xs)" i j] show ?thesis by simp
qed

text \<open>
  The next run is the oldest one that may run: it is queued, its workspace has fewer runs in
  progress than the limit, and every queued run with a smaller identifier is of a workspace at its
  limit. If there is none, every queued run is of a workspace at its limit.
\<close>

theorem next_run_is_oldest_runnable:
  "case next_run max_active d of
     None \<Rightarrow> list_all (at_limit max_active d) (filter (\<lambda>r. run_status r = ''queued'') (runs d))
   | Some r \<Rightarrow> r \<in> set (runs d) \<and> run_status r = ''queued'' \<and> \<not> at_limit max_active d r \<and>
       list_all (at_limit max_active d) (filter (\<lambda>r'. run_status r' = ''queued'' \<and> run_id r' < run_id r) (runs d))"
proof -
  have "(\<lambda>r. int (running_count d (run_workspace r)) < max max_active 1) = (\<lambda>r. \<not> at_limit max_active d r)"
    by (auto simp: at_limit_def not_le)
  then have found: "next_run max_active d = find (\<lambda>r. \<not> at_limit max_active d r)
      (sort_key run_id (filter (\<lambda>r. run_status r = ''queued'') (runs d)))"
    by (simp only: next_run_def)
  show ?thesis
  proof (cases "next_run max_active d")
    case None
    with found have "find (\<lambda>r. \<not> at_limit max_active d r)
        (sort_key run_id (filter (\<lambda>r. run_status r = ''queued'') (runs d))) = None" by simp
    with None show ?thesis by (auto simp: find_None_iff list_all_iff)
  next
    case (Some r)
    with found have r: "find (\<lambda>r. \<not> at_limit max_active d r)
        (sort_key run_id (filter (\<lambda>r. run_status r = ''queued'') (runs d))) = Some r" by simp
    from find_in [OF r] have "r \<in> set (runs d)" "run_status r = ''queued''" "\<not> at_limit max_active d r" by auto
    moreover have "at_limit max_active d r'" if "r' \<in> set (runs d)" "run_status r' = ''queued''" "run_id r' < run_id r" for r'
      using find_sorted_first [OF r, of r'] that by (auto simp: not_le [symmetric])
    ultimately show ?thesis using Some by (auto simp: list_all_iff)
  qed
qed

section \<open>A settled run\<close>

lemma get_outside: "tbl_get run_id k (outside k' d) = map_option (\<lambda>r. if run_id r = k' then cleared_run r else r) (tbl_get run_id k (runs d))"
proof -
  have "find (\<lambda>r. run_id r = k) (map (\<lambda>r. if run_id r = k' then cleared_run r else r) rs) =
      map_option (\<lambda>r. if run_id r = k' then cleared_run r else r) (find (\<lambda>r. run_id r = k) rs)" for rs
    by (induction rs) auto
  then show ?thesis by (simp add: tbl_get_def outside_def)
qed

lemma settled_row:
  assumes "run_settled run p d d'" "tbl_get run_id (run_id run) (runs d) = Some run"
  obtains r where "tbl_get run_id (run_id run) (runs d') = Some r" "run_status r = pc_status p" "run_output_refs r = pc_output p"
    "run_workspace r = run_workspace run" "run_type r = run_type run" "run_id r = run_id run"
proof -
  from assms(1) have "outside (run_id run) d' = outside (run_id run) d" by (simp add: run_settled_def)
  from arg_cong [OF this, of "tbl_get run_id (run_id run)"] assms(2)
  obtain r where r: "tbl_get run_id (run_id run) (runs d') = Some r" "cleared_run r = cleared_run run" "run_id r = run_id run"
    by (auto simp: get_outside split: if_split_asm dest: tbl_get_SomeD)
  from arg_cong [OF r(2), of run_workspace] arg_cong [OF r(2), of run_type]
  have "run_workspace r = run_workspace run" "run_type r = run_type run" by (simp_all add: cleared_run_def)
  moreover from assms(1) r tbl_get_SomeD [OF r(1)] have "run_status r = pc_status p" "run_output_refs r = pc_output p"
    by (auto simp: run_settled_def list_all_iff)
  ultimately show thesis using that r by blast
qed

text \<open>
  C15. A run is processed once. After a call for a run has returned, a second call for it, whatever
  its settings, changes nothing and reports the outcome that the first call reported.
\<close>

theorem run_processed_once:
  assumes "process_run_by_id env k root_dir strict s = (Inr (Some p), s')"
  shows "process_run_by_id env k root_dir' strict' s' = (Inr (Some p), s')"
proof -
  from assms obtain run where run: "tbl_get run_id k (runs (se_db s)) = Some run"
    by (auto simp: process_run_by_id_def tbind_Inr_iff split: option.split_asm)
  then have k: "run_id run = k" by (auto dest: tbl_get_SomeD)
  show ?thesis
  proof (cases "run_status run = ''queued''")
    case False
    with assms run have "s' = s" "p = processed run (run_status run) (run_output_refs run)"
      by (simp_all add: process_run_by_id_def tbind_def tread_def tpure_def)
    with assms run False show ?thesis by (simp add: process_run_by_id_def tbind_def tread_def tpure_def)
  next
    case True
    with assms run have go: "process_queued_run env run root_dir strict s = (Inr p, s')"
      by (auto simp: process_run_by_id_def tbind_Inr_iff tread_def tpure_def)
    note fin = ends_settled [OF go]
    from settled_row [OF fin] run k obtain r where r: "tbl_get run_id k (runs (se_db s')) = Some r"
      "run_status r = pc_status p" "run_output_refs r = pc_output p" "run_workspace r = run_workspace run"
      "run_type r = run_type run" "run_id r = run_id run" by metis
    from fin have "run_status r \<noteq> ''queued''" "pc_run p = run_id run" "pc_workspace p = run_workspace run" "pc_type p = run_type run"
      using r(2) by (auto simp: run_settled_def)
    with r show ?thesis by (simp add: process_run_by_id_def tbind_def tread_def tpure_def processed_def)
  qed
qed

theorem run_processed_once_witness:
  "\<exists>p s'. process_run_by_id demo_worker_env ''r1'' ''/data'' True (demo_queue ''filesystem'') = (Inr (Some p), s') \<and>
     process_run_by_id demo_worker_env ''r1'' ''/other'' False s' = (Inr (Some p), s')"
proof -
  obtain p s' where p: "process_queued_run demo_worker_env demo_run ''/data'' True (demo_queue ''filesystem'') = (Inr p, s')"
    using process_returns [OF demo_unused] by blast
  have "tbl_get run_id ''r1'' (runs (se_db (demo_queue ''filesystem''))) = Some demo_run" "run_status demo_run = ''queued''"
    by (simp_all add: demo_queue_def demo_run_def empty_db_def tbl_get_def)
  with p have "process_run_by_id demo_worker_env ''r1'' ''/data'' True (demo_queue ''filesystem'') = (Inr (Some p), s')"
    by (simp add: process_run_by_id_def tbind_def tread_def tpure_def)
  with run_processed_once [OF this] show ?thesis by blast
qed

section \<open>A tick\<close>

definition queued_count :: "db \<Rightarrow> nat" where
  "queued_count d = length (filter (\<lambda>r. run_status r = ''queued'') (runs d))"

lemma filter_key: "distinct (map f xs) \<Longrightarrow> x \<in> set xs \<Longrightarrow> filter (\<lambda>y. f y = f x) xs = [x]"
proof (induction xs)
  case (Cons a xs)
  show ?case
  proof (cases "x = a")
    case True
    with Cons.prems(1) have "\<forall>y \<in> set xs. f y \<noteq> f x" by (auto simp: image_iff)
    then have "filter (\<lambda>y. f y = f x) xs = []" by (simp add: filter_empty_conv)
    with True show ?thesis by simp
  next
    case False
    with Cons.prems have "x \<in> set xs" "f a \<noteq> f x" by (auto simp: image_iff)
    with Cons show ?thesis by simp
  qed
qed simp

lemma filter_apart: "length (filter P xs) = length (filter P (filter (\<lambda>x. f x = k) xs)) + length (filter P (filter (\<lambda>x. f x \<noteq> k) xs))"
  by (induction xs) auto

lemma others_kept:
  assumes "outside k d' = outside k d"
  shows "map run_id (runs d') = map run_id (runs d)" "filter (\<lambda>r. run_id r \<noteq> k) (runs d') = filter (\<lambda>r. run_id r \<noteq> k) (runs d)"
proof -
  have "map run_id (map (\<lambda>r. if run_id r = k then cleared_run r else r) rs) = map run_id rs" for rs by simp
  with arg_cong [OF assms, of "map run_id"] show "map run_id (runs d') = map run_id (runs d)"
    by (simp add: outside_def del: map_map)
  have "filter (\<lambda>r. run_id r \<noteq> k) (map (\<lambda>r. if run_id r = k then cleared_run r else r) rs) = filter (\<lambda>r. run_id r \<noteq> k) rs" for rs
    by (induction rs) auto
  with arg_cong [OF assms, of "filter (\<lambda>r. run_id r \<noteq> k)"]
  show "filter (\<lambda>r. run_id r \<noteq> k) (runs d') = filter (\<lambda>r. run_id r \<noteq> k) (runs d)" by (simp add: outside_def)
qed

lemma settled_counts:
  assumes "run_settled run p d d'" "run \<in> set (runs d)" "run_status run = ''queued''" "distinct (map run_id (runs d))"
  shows "Suc (queued_count d') = queued_count d" "running_count d' w = running_count d w" "distinct (map run_id (runs d'))"
proof -
  let ?k = "run_id run" and ?own = "\<lambda>d. filter (\<lambda>r. run_id r = run_id run) (runs d)"
  have out: "outside ?k d' = outside ?k d" using assms(1) by (simp add: run_settled_def)
  note same = others_kept [OF out]
  have own: "?own d = [run]" by (rule filter_key [OF assms(4,2)])
  have done': "list_all (\<lambda>r. run_status r \<noteq> ''queued'' \<and> run_status r \<noteq> ''running'') (?own d')"
    using assms(1) by (auto simp: run_settled_def list_all_iff)
  have none: "filter P (?own d') = []" if "\<And>r. P r \<Longrightarrow> run_status r \<in> {''queued'', ''running''}" for P
    using done' that by (fastforce simp: list_all_iff filter_empty_conv)
  show "Suc (queued_count d') = queued_count d"
    using filter_apart [of "\<lambda>r. run_status r = ''queued''" "runs d'" run_id ?k]
      filter_apart [of "\<lambda>r. run_status r = ''queued''" "runs d" run_id ?k] none [of "\<lambda>r. run_status r = ''queued''"] assms(3)
    unfolding queued_count_def own same(2) by simp
  let ?run = "\<lambda>r. run_workspace r = w \<and> run_status r = ''running''"
  show "running_count d' w = running_count d w"
    using filter_apart [of ?run "runs d'" run_id ?k] filter_apart [of ?run "runs d" run_id ?k] none [of ?run] assms(3)
    unfolding running_count_def own same(2) by simp
  show "distinct (map run_id (runs d'))" using assms(4) same(1) by simp
qed

lemma next_processed:
  assumes "ids_unused (we_cp env) s" "distinct (map run_id (runs (se_db s)))" "next_run max_active (se_db s) = Some run"
  shows "\<exists>p s'. process_next_queued_run env root_dir max_active strict s = (Inr (Some p), s') \<and> ids_unused (we_cp env) s' \<and>
    run_settled run p (se_db s) (se_db s')"
proof -
  from assms(3) find_in [of _ "sort_key run_id (filter (\<lambda>r. run_status r = ''queued'') (runs (se_db s)))" run]
  have run: "run \<in> set (runs (se_db s))" "run_status run = ''queued''" by (auto simp: next_run_def)
  then have "tbl_get run_id (run_id run) (runs (se_db s)) = Some run"
    using assms(2) tbl_get_distinct [of run_id] by (simp add: keys_distinct_def)
  moreover obtain p s' where "process_queued_run env run root_dir strict s = (Inr p, s')" "ids_unused (we_cp env) s'"
    using process_returns [OF assms(1)] by blast
  ultimately show ?thesis using run assms(3) ends_settled
    by (fastforce simp: process_next_queued_run_def process_run_by_id_def tbind_def tread_def tpure_def)
qed



end
