(* ===== verification/SqlAgent.thy ===== *)
theory SqlAgent
  imports SemanticService
begin

text \<open>
  The planner of the AI service (\<open>backend/ai_service/sql_agent.py\<close>): from a question and optional
  hints to a semantic query over a metric and dimensions of the manifest of the workspace. The
  planner writes no SQL: its plan is an identifier of a metric and a list of identifiers.
\<close>

section \<open>Operations\<close>

record sql_agent_plan =
  pl_workspace :: string
  pl_semantic_query :: pydict
  pl_confidence :: pyval
  pl_warnings :: "string list"

definition load_effective_semantic_manifest :: "db \<Rightarrow> string \<Rightarrow> pydict option" where
  "load_effective_semantic_manifest d workspace_id =
     (case active_policy ''semantic_manifest'' workspace_id d of
        None \<Rightarrow> None
      | Some row \<Rightarrow> (case gp_definition row of
            Some (PDict payload) \<Rightarrow>
              (case dget_or payload ''semantic_manifest'' (PDict []) of PDict m \<Rightarrow> Some m | _ \<Rightarrow> None)
          | _ \<Rightarrow> None))"

text \<open>The metrics by identifier: a later item with the same identifier replaces the earlier one.\<close>

fun add_metric :: "(string \<times> pydict) list \<Rightarrow> pyval \<Rightarrow> (string \<times> pydict) list" where
  "add_metric metrics (PDict item) =
     (let metric_id = strip (str_of item ''metric_id'' [])
      in if metric_id = [] then metrics else dset metrics metric_id item)"
| "add_metric metrics _ = metrics"

definition manifest_metrics :: "pydict option \<Rightarrow> (string \<times> pydict) list" where
  "manifest_metrics manifest = (case manifest of None \<Rightarrow> []
     | Some m \<Rightarrow> foldl add_metric [] (as_list (dget_or m ''metrics'' (PList []))))"

definition guess_metric_id :: "string \<Rightarrow> (string \<times> pydict) list \<Rightarrow> string" where
  "guess_metric_id question metrics =
     (let lowered = lower question; ids = sort (dkeys metrics)
      in case find (\<lambda>m. contains (lower m) lowered) ids of
           Some m \<Rightarrow> m
         | None \<Rightarrow> (case (if contains ''count'' lowered then find (\<lambda>m. contains ''count'' (lower m)) ids else None) of
               Some m \<Rightarrow> m
             | None \<Rightarrow> (case ids of [] \<Rightarrow> [] | m # _ \<Rightarrow> m)))"

definition guess_group_by :: "string \<Rightarrow> pydict option \<Rightarrow> string list" where
  "guess_group_by question manifest =
     (let lowered = lower question;
          dims = (case manifest of None \<Rightarrow> [] | Some m \<Rightarrow> as_list (dget_or m ''dimensions'' (PList [])));
          dim_ids = map (\<lambda>item. strip (str_of (as_dict item) ''dimension_id'' [])) (filter is_dict dims)
      in sorted_set (filter (\<lambda>dim. dim \<noteq> [] \<and> contains (lower dim) lowered \<and> is_ident dim) dim_ids))"

definition validate_sql_agent_plan :: "sql_agent_plan \<Rightarrow> unit res" where
  "validate_sql_agent_plan plan =
     (let q = pl_semantic_query plan; metric_id = strip (str_of q ''metric_id'' [])
      in if metric_id = [] \<or> \<not> is_ident metric_id then Inl (ValueError ''semantic_metric_invalid'')
         else case dget_or q ''group_by'' (PList []) of
                PList items \<Rightarrow>
                  if list_all (\<lambda>item. strip (py_str item) \<noteq> [] \<and> is_ident (strip (py_str item))) items then Inr ()
                  else Inl (ValueError ''semantic_group_by_invalid'')
              | _ \<Rightarrow> Inl (ValueError ''semantic_group_by_invalid''))"

definition semantic_query_of :: "string \<Rightarrow> string list \<Rightarrow> pydict" where
  "semantic_query_of metric_id group_by =
     [(''metric_id'', PStr metric_id), (''group_by'', str_py_list group_by), (''filters'', PDict [])]"

definition selected_metric :: "string \<Rightarrow> string option \<Rightarrow> (string \<times> pydict) list \<Rightarrow> string" where
  "selected_metric question metric_id metrics =
     (case given metric_id of None \<Rightarrow> guess_metric_id question metrics | Some m \<Rightarrow> strip m)"

definition requested_group_by :: "string \<Rightarrow> string list option \<Rightarrow> pydict option \<Rightarrow> string list" where
  "requested_group_by question group_by manifest =
     (case group_by of Some (g # gs) \<Rightarrow> g # gs | _ \<Rightarrow> guess_group_by question manifest)"

definition generate_sql_agent_plan ::
  "db \<Rightarrow> string \<Rightarrow> string \<Rightarrow> string option \<Rightarrow> string list option \<Rightarrow> sql_agent_plan res" where
  "generate_sql_agent_plan d workspace_id question metric_id group_by =
     (let manifest = load_effective_semantic_manifest d workspace_id; metrics = manifest_metrics manifest
      in if metrics = [] then Inl (ValueError ''semantic_manifest_missing'')
         else let metric = selected_metric question metric_id metrics
           in if metric = [] \<or> metric \<notin> set (dkeys metrics) then Inl (ValueError ''semantic_metric_not_found'')
              else let plan = \<lparr>pl_workspace = workspace_id,
                      pl_semantic_query = semantic_query_of metric (requested_group_by question group_by manifest),
                      pl_confidence = (if metric_id = None then PFloat ''0.7'' (Some 0) else PFloat ''0.8'' (Some 0)),
                      pl_warnings = (if metric_id = None then [''metric_inferred''] else [])\<rparr>
                in rbind (validate_sql_agent_plan plan) (\<lambda>_. Inr plan))"

section \<open>The metrics of a manifest\<close>

lemma add_metric_named: "[] \<notin> set (dkeys metrics) \<Longrightarrow> [] \<notin> set (dkeys (add_metric metrics v))"
  by (cases "(metrics, v)" rule: add_metric.cases) (auto simp: Let_def)

lemma manifest_metrics_named: "[] \<notin> set (dkeys (manifest_metrics manifest))"
proof -
  have "[] \<notin> set (dkeys (foldl add_metric [] items))" for items
    by (rule foldl_invariant) (auto simp: dkeys_def [of "[]"] dest: add_metric_named)
  then show ?thesis by (simp add: manifest_metrics_def dkeys_def [of "[]"] split: option.split)
qed

lemma guess_metric_known:
  assumes "metrics \<noteq> []"
  shows "guess_metric_id question metrics \<in> set (dkeys metrics)"
proof -
  from assms have "sort (dkeys metrics) \<noteq> []" by (metis dkeys_def length_0_conv length_map length_sort)
  then obtain m ms where ids: "sort (dkeys metrics) = m # ms" by (cases "sort (dkeys metrics)") auto
  have all: "set (dkeys metrics) = set (m # ms)" by (metis ids set_sort)
  have found: "find P (m # ms) = Some x \<Longrightarrow> x \<in> set (m # ms)" for P x using find_in [of P] by blast
  show ?thesis
    unfolding guess_metric_id_def Let_def ids all
    by (auto simp del: find.simps list.set split: option.split dest: found) (simp_all)
qed

lemma guess_group_by_idents: "list_all is_ident (guess_group_by question manifest)"
  by (auto simp: guess_group_by_def Let_def list_all_iff split: option.split)

lemma ident_nonempty: "is_ident s \<Longrightarrow> s \<noteq> []"
  by auto

section \<open>Plans\<close>

text \<open>What a plan may ask for: a metric of the manifest and identifiers.\<close>

definition plan_ok :: "db \<Rightarrow> sql_agent_plan \<Rightarrow> bool" where
  "plan_ok d plan \<longleftrightarrow> (\<exists>metric gs. pl_semantic_query plan = semantic_query_of metric gs \<and>
     metric \<in> set (dkeys (manifest_metrics (load_effective_semantic_manifest d (pl_workspace plan)))) \<and>
     is_ident (strip metric) \<and> list_all (\<lambda>g. is_ident (strip g)) gs)"

lemma validate_semantic_query:
  "pl_semantic_query plan = semantic_query_of metric gs \<Longrightarrow> validate_sql_agent_plan plan = Inr () \<Longrightarrow>
     is_ident (strip metric) \<and> list_all (\<lambda>g. is_ident (strip g)) gs"
  by (auto simp: validate_sql_agent_plan_def semantic_query_of_def dget_or_def str_py_list_def Let_def list_all_iff
      split: if_split_asm)

lemma generate_plan_ok:
  "generate_sql_agent_plan d workspace_id question metric_id group_by = Inr plan \<Longrightarrow>
     plan_ok d plan \<and> pl_workspace plan = workspace_id"
  unfolding plan_ok_def generate_sql_agent_plan_def Let_def
  by (force simp: rbind_eq_Inr_iff split: if_split_asm dest: validate_semantic_query [rotated])

lemma generate_raises_value_error:
  "generate_sql_agent_plan d workspace_id question metric_id group_by = Inl e \<Longrightarrow> is_value_error e"
  unfolding generate_sql_agent_plan_def Let_def validate_sql_agent_plan_def
  by (auto split: if_split_asm pyval.split_asm)

text \<open>
  Without hints the planner only misses when there is no metric: if the identifiers of the metrics
  are identifiers of the SQL, every question has a plan.
\<close>

lemma generate_plan_total:
  assumes "manifest_metrics (load_effective_semantic_manifest d workspace_id) = m # ms"
    and "list_all is_ident (map strip (dkeys (m # ms)))"
  shows "\<exists>plan. generate_sql_agent_plan d workspace_id question None None = Inr plan \<and>
           pl_warnings plan = [''metric_inferred'']"
proof -
  let ?manifest = "load_effective_semantic_manifest d workspace_id"
  let ?metric = "guess_metric_id question (m # ms)" and ?gs = "guess_group_by question ?manifest"
  have known: "?metric \<in> set (dkeys (m # ms))" using guess_metric_known [of "m # ms"] by simp
  with assms(2) have metric: "is_ident (strip ?metric)" by (auto simp: list_all_iff)
  from known manifest_metrics_named [of ?manifest] assms(1) have named: "?metric \<noteq> []" by metis
  have gs: "list_all (\<lambda>g. is_ident (strip g)) ?gs"
    using guess_group_by_idents [of question ?manifest]
    by (auto simp: list_all_iff guess_group_by_def Let_def strip_strip split: option.split_asm)
  have "validate_sql_agent_plan \<lparr>pl_workspace = workspace_id, pl_semantic_query = semantic_query_of ?metric ?gs,
      pl_confidence = c, pl_warnings = w\<rparr> = Inr ()" for c w
    using metric gs ident_nonempty by (auto simp: validate_sql_agent_plan_def semantic_query_of_def dget_or_def
        str_py_list_def Let_def list_all_iff)
  with assms(1) known named show ?thesis
    by (simp add: generate_sql_agent_plan_def Let_def selected_metric_def given_def requested_group_by_def)
qed

text \<open>
  The planner reads the manifest under another key than the one the manifest service stores it
  under: a state the service writes has no metric for the planner.
\<close>

lemma service_state_has_no_plan:
  assumes "active_policy ''semantic_manifest'' workspace_id d = Some row"
    and "gp_definition row = Some (PDict (next_manifest_state env workspace_id m version active))"
  shows "generate_sql_agent_plan d workspace_id question metric_id group_by = Inl (ValueError ''semantic_manifest_missing'')"
proof -
  from assms have "load_effective_semantic_manifest d workspace_id = Some []"
    by (simp add: load_effective_semantic_manifest_def next_manifest_state_def dget_or_def)
  then show ?thesis by (simp add: generate_sql_agent_plan_def manifest_metrics_def dget_or_def)
qed

text \<open>An empty metric identifier is inferred like a missing one, but not reported as inferred.\<close>

lemma empty_metric_inferred_silently:
  "generate_sql_agent_plan d workspace_id question (Some []) group_by = Inr plan \<Longrightarrow>
     pl_warnings plan = [] \<and> selected_metric question (Some []) metrics = guess_metric_id question metrics"
  by (auto simp: generate_sql_agent_plan_def selected_metric_def given_def Let_def rbind_eq_Inr_iff split: if_split_asm)

end
