(* ===== verification/AiService.thy ===== *)
theory AiService
  imports SqlAgent ControlPlane GatewayQuery
begin

text \<open>
  The AI service (\<open>backend/ai_service/app.py\<close>, with \<open>clients.py\<close> and \<open>shared_domain/llm_provider.py\<close>):
  assistants that plan over the manifest of a workspace and call the gateway or the control plane
  over HTTP. An exchange with another service is an argument of the model, and the requests sent
  are part of the state. Every assistant is behind one check: an authenticated actor and an enabled
  service.
\<close>

section \<open>Settings and state\<close>

datatype llm_provider = DisabledLLMProvider | MockLLMProvider string

record ai_settings =
  ai_enabled :: bool
  ai_provider :: string
  ai_gateway_url :: string
  ai_control_plane_url :: string
  ai_auth :: auth_settings
  ai_tokens :: token_table
  ai_llm :: llm_provider

record upstream_request =
  up_method :: string
  up_url :: string
  up_payload :: "pydict option"
  up_token :: string

text \<open>
  What \<open>urlopen\<close> and the reading of the body end with: an HTTP error with its body, no connection
  or a timeout, a body that is not UTF-8, or a status and a text.
\<close>

datatype upstream_reply = HttpFailure int string | Unreachable | Undecodable | Answered int string

text \<open>\<open>ie_urlopen n\<close> is the reply to the \<open>n\<close>-th request sent, \<open>ie_fresh n\<close> the \<open>n\<close>-th identifier.\<close>

record ai_env =
  ie_fresh :: "nat \<Rightarrow> string"
  ie_urlopen :: "nat \<Rightarrow> upstream_request \<Rightarrow> upstream_reply"
  ie_loads :: "string \<Rightarrow> json_text"

record ai_app =
  ai_db :: db
  ai_jwks :: jwks_cache
  ai_next :: nat
  ai_sent :: "upstream_request list"

type_synonym 'a ai = "ai_app \<Rightarrow> 'a res \<times> ai_app"

definition ibind :: "'a ai \<Rightarrow> ('a \<Rightarrow> 'b ai) \<Rightarrow> 'b ai" where
  "ibind m f a = (case m a of (Inl e, a') \<Rightarrow> (Inl e, a') | (Inr x, a') \<Rightarrow> f x a')"

definition ipure :: "'a \<Rightarrow> 'a ai" where
  "ipure x a = (Inr x, a)"

definition iraise :: "exn \<Rightarrow> 'a ai" where
  "iraise e a = (Inl e, a)"

section \<open>The language model provider\<close>

definition load_llm_provider :: "string \<Rightarrow> llm_provider res" where
  "load_llm_provider provider_name =
     (let normalized = lower (strip provider_name)
      in if normalized = ''disabled'' then Inr DisabledLLMProvider
         else if normalized = ''mock'' then Inr (MockLLMProvider ''mock'')
         else Inl (StartupConfigurationError ''Unsupported AI provider.''))"

text \<open>The characters \<open>splitlines\<close> cuts at.\<close>

definition line_break :: "char \<Rightarrow> bool" where
  "line_break c = (let n = code c in (10 \<le> n \<and> n \<le> 13) \<or> (28 \<le> n \<and> n \<le> 30) \<or> n = 133)"

fun llm_complete :: "llm_provider \<Rightarrow> string \<Rightarrow> string \<Rightarrow> string res" where
  "llm_complete DisabledLLMProvider system_prompt user_prompt =
     Inl (DisabledIntegrationError ''AI provider integration is disabled.'')"
| "llm_complete (MockLLMProvider pfx) system_prompt user_prompt =
     (let system_head = takeWhile (\<lambda>c. \<not> line_break c) (strip system_prompt)
      in Inr (pfx @ '':'' @ system_head @ '':'' @ take 180 (strip user_prompt)))"

section \<open>Calls of other services\<close>

datatype client_error = ServiceClientError string | Raised exn

definition parse_reply :: "ai_env \<Rightarrow> upstream_reply \<Rightarrow> client_error + pydict" where
  "parse_reply env r = (case r of
       HttpFailure status raw \<Rightarrow> Inl (ServiceClientError (''upstream_http_'' @ int_str status @ '':'' @ raw))
     | Unreachable \<Rightarrow> Inl (ServiceClientError ''upstream_unavailable'')
     | Undecodable \<Rightarrow> Inl (Raised (ValueError ''utf-8''))
     | Answered status raw \<Rightarrow>
         if status \<ge> 400 then Inl (ServiceClientError (''upstream_http_'' @ int_str status))
         else if strip raw = [] then Inr []
         else case ie_loads env raw of
             Some (PDict d) \<Rightarrow> Inr d
           | _ \<Rightarrow> Inl (ServiceClientError ''upstream_invalid_json''))"

definition request_json :: "ai_env \<Rightarrow> upstream_request \<Rightarrow> ai_app \<Rightarrow> (client_error + pydict) \<times> ai_app" where
  "request_json env rq a =
     (parse_reply env (ie_urlopen env (length (ai_sent a)) rq), a\<lparr>ai_sent := ai_sent a @ [rq]\<rparr>)"

definition refused :: "string \<Rightarrow> exn" where
  "refused reason = denied [(''reason'', PStr reason)]"

text \<open>A failed call is a denial with the reason of the caller.\<close>

definition call_service :: "ai_env \<Rightarrow> string \<Rightarrow> upstream_request \<Rightarrow> pydict ai" where
  "call_service env reason rq a =
     (case request_json env rq a of
        (Inl (ServiceClientError m), a') \<Rightarrow> (Inl (denied [(''reason'', PStr reason), (''error'', PStr m)]), a')
      | (Inl (Raised e), a') \<Rightarrow> (Inl e, a')
      | (Inr d, a') \<Rightarrow> (Inr d, a'))"

definition gateway_post :: "ai_settings \<Rightarrow> string \<Rightarrow> pydict \<Rightarrow> string \<Rightarrow> upstream_request" where
  "gateway_post cfg path body token =
     \<lparr>up_method = ''POST'', up_url = rstrip_slashes (ai_gateway_url cfg) @ path, up_payload = Some body, up_token = token\<rparr>"

section \<open>Answers to questions\<close>

definition stripped_arg :: "pydict \<Rightarrow> string \<Rightarrow> string" where
  "stripped_arg payload k = strip (str_of payload k [])"

definition group_by_arg :: "pydict \<Rightarrow> string list" where
  "group_by_arg payload = map py_str (as_list (dget_or payload ''group_by'' (PList [])))"

definition plan_query_body :: "string \<Rightarrow> sql_agent_plan \<Rightarrow> pydict" where
  "plan_query_body workspace_id plan =
     [(''workspace_id'', PStr workspace_id),
      (''query'', PDict [(''language'', PStr ''sql''), (''text'', PStr ''select 1 as one'')]),
      (''semantic_query'', PDict (pl_semantic_query plan)), (''resource_attributes'', PDict [])]"

text \<open>The number of rows of the answer of the gateway.\<close>

definition row_count_of :: "pydict \<Rightarrow> nat" where
  "row_count_of response = length (as_list (dget_or (as_dict (dget_or response ''result'' (PDict []))) ''rows'' (PList [])))"

definition plan_dict :: "sql_agent_plan \<Rightarrow> pydict" where
  "plan_dict plan = [(''semantic_query'', PDict (pl_semantic_query plan)), (''confidence'', pl_confidence plan),
     (''warnings'', str_py_list (pl_warnings plan))]"

definition answer_dict :: "nat \<Rightarrow> string \<Rightarrow> pydict" where
  "answer_dict n summary = [(''row_count'', PInt (int n)), (''summary'', PStr summary)]"

text \<open>A plan, and the query of the gateway that carries it.\<close>

definition planned_query ::
  "ai_settings \<Rightarrow> ai_env \<Rightarrow> pydict \<Rightarrow> string \<Rightarrow> string \<Rightarrow> string option \<Rightarrow> (exn \<Rightarrow> string) \<Rightarrow> (sql_agent_plan \<times> pydict) ai" where
  "planned_query cfg env payload workspace_id question metric_id reason a =
     (case generate_sql_agent_plan (ai_db a) workspace_id question metric_id (Some (group_by_arg payload)) of
        Inl e \<Rightarrow> iraise (if is_value_error e then refused (reason e) else e) a
      | Inr plan \<Rightarrow>
          ibind (call_service env ''gateway_unavailable''
                  (gateway_post cfg ''/api/v1/gateway/query'' (plan_query_body workspace_id plan)
                     (str_of payload ''gateway_token'' ''local-ai-reader-token'')))
            (\<lambda>response. ipure (plan, response)) a)"

definition ask_sql :: "ai_settings \<Rightarrow> ai_env \<Rightarrow> string \<Rightarrow> pydict \<Rightarrow> pydict \<Rightarrow> pydict ai" where
  "ask_sql cfg env request_id actor payload =
     (let question = stripped_arg payload ''question''; workspace_id = stripped_arg payload ''workspace_id'';
          metric_id = (case dget payload ''metric_id'' of Some (PStr s) \<Rightarrow> Some (strip s) | _ \<Rightarrow> None);
          reason = (\<lambda>e. if strip (exn_text e) = [] then ''sql_agent_plan_invalid'' else strip (exn_text e))
      in if question = [] \<or> workspace_id = [] then iraise (refused ''missing_question_or_workspace'')
         else ibind (planned_query cfg env payload workspace_id question metric_id reason) (\<lambda>(plan, response).
           let n = row_count_of response
           in ipure [(''workspace_id'', PStr workspace_id), (''question'', PStr question), (''plan'', PDict (plan_dict plan)),
                (''answer'', PDict (answer_dict n (''Returned '' @ int_str (int n) @ '' rows.''))),
                (''provenance'', dget_or response ''provenance'' (PDict [])), (''request_id'', PStr request_id),
                (''actor_id'', PStr (actor_id actor))]))"

definition metric_answer :: "ai_settings \<Rightarrow> ai_env \<Rightarrow> pydict \<Rightarrow> pydict ai" where
  "metric_answer cfg env payload =
     (let workspace_id = stripped_arg payload ''workspace_id''; metric_id = stripped_arg payload ''metric_id'';
          asked = stripped_arg payload ''question'';
          question = (if asked = [] then ''metric '' @ metric_id else asked);
          reason = (\<lambda>e. if exn_text e = [] then ''metric_plan_invalid'' else exn_text e)
      in if workspace_id = [] \<or> metric_id = [] then iraise (refused ''missing_workspace_or_metric'')
         else ibind (planned_query cfg env payload workspace_id question (Some metric_id) reason) (\<lambda>(plan, response).
           let n = row_count_of response
           in ipure [(''workspace_id'', PStr workspace_id), (''metric_id'', PStr metric_id), (''plan'', PDict (plan_dict plan)),
                (''answer'', PDict (answer_dict n (''Metric '' @ metric_id @ '' returned '' @ int_str (int n) @ '' rows.''))),
                (''provenance'', dget_or response ''provenance'' (PDict []))]))"

section \<open>Assistants\<close>

definition catalog_get :: "ai_settings \<Rightarrow> string \<Rightarrow> pydict \<Rightarrow> upstream_request" where
  "catalog_get cfg workspace_id payload =
     \<lparr>up_method = ''GET'',
      up_url = rstrip_slashes (ai_control_plane_url cfg) @ ''/api/v1/workspaces/'' @ workspace_id @ ''/datasets'',
      up_payload = None, up_token = str_of payload ''control_plane_token'' ''local-data-steward-token''\<rparr>"

definition names_concept :: "string \<Rightarrow> pyval \<Rightarrow> bool" where
  "names_concept concept item \<longleftrightarrow>
     is_dict item \<and> (concept = [] \<or> contains concept (lower (str_of (as_dict item) ''logical_name'' [])))"

definition catalog_assistant :: "ai_settings \<Rightarrow> ai_env \<Rightarrow> pydict \<Rightarrow> pydict ai" where
  "catalog_assistant cfg env payload =
     (let workspace_id = stripped_arg payload ''workspace_id''; concept = lower (stripped_arg payload ''concept'')
      in if workspace_id = [] then iraise (refused ''missing_workspace'')
         else ibind (call_service env ''control_plane_unavailable'' (catalog_get cfg workspace_id payload)) (\<lambda>response.
           let matches = filter (names_concept concept) (as_list (dget_or response ''datasets'' (PList [])))
           in ipure [(''workspace_id'', PStr workspace_id), (''concept'', PStr concept), (''matches'', PList matches),
                (''count'', PInt (int (length matches)))]))"

definition simulate_body :: "pydict \<Rightarrow> pydict" where
  "simulate_body payload =
     [(''workspace_id'', PStr (stripped_arg payload ''workspace_id'')), (''actor'', dget_or payload ''actor'' (PDict [])),
      (''resource_attributes'', dget_or payload ''resource_attributes'' (PDict [])),
      (''action'', PStr (str_of payload ''action'' ''query''))]"

definition policy_assistant :: "ai_settings \<Rightarrow> ai_env \<Rightarrow> pydict \<Rightarrow> pydict ai" where
  "policy_assistant cfg env payload =
     (let workspace_id = stripped_arg payload ''workspace_id''
      in if workspace_id = [] then iraise (refused ''missing_workspace'')
         else ibind (call_service env ''gateway_unavailable''
               (gateway_post cfg ''/api/v1/gateway/policy/simulate'' (simulate_body payload)
                  (str_of payload ''gateway_token'' ''local-data-steward-token''))) (\<lambda>simulation.
           ipure [(''workspace_id'', PStr workspace_id), (''simulation'', PDict simulation)]))"

definition retrieve_body :: "pydict \<Rightarrow> pydict" where
  "retrieve_body payload =
     [(''workspace_id'', PStr (stripped_arg payload ''workspace_id'')), (''query_text'', PStr (stripped_arg payload ''question''))]"

definition doc_qa :: "ai_settings \<Rightarrow> ai_env \<Rightarrow> pydict \<Rightarrow> pydict ai" where
  "doc_qa cfg env payload =
     (let workspace_id = stripped_arg payload ''workspace_id''; question = stripped_arg payload ''question''
      in if workspace_id = [] \<or> question = [] then iraise (refused ''missing_question_or_workspace'')
         else ibind (call_service env ''gateway_unavailable''
               (gateway_post cfg ''/api/v1/gateway/retrieve'' (retrieve_body payload)
                  (str_of payload ''gateway_token'' ''local-ai-reader-token''))) (\<lambda>retrieval.
           let n = length (as_list (dget_or retrieval ''results'' (PList [])));
               citations = as_list (dget_or (as_dict (dget_or retrieval ''provenance'' (PDict []))) ''citations'' (PList []))
           in case llm_complete (ai_llm cfg) ''Grounded Doc QA'' (question @ [char_of (10::nat)] @ ''Snippets:'' @ int_str (int n)) of
                Inl e \<Rightarrow> iraise (case e of
                    DisabledIntegrationError m \<Rightarrow> denied [(''reason'', PStr ''ai_provider_disabled''), (''error'', PStr m)]
                  | _ \<Rightarrow> e)
              | Inr completion \<Rightarrow>
                  ipure [(''workspace_id'', PStr workspace_id), (''question'', PStr question), (''answer'', PStr completion),
                    (''citations'', PList citations), (''result_count'', PInt (int n))]))"

definition query_debug :: "pydict \<Rightarrow> pydict" where
  "query_debug payload =
     (let error_payload = as_dict (dget_or payload ''gateway_error'' (PDict []));
          code' = str_of error_payload ''code'' ''unknown'';
          reason = (case dget error_payload ''details'' of
              Some (PDict details) \<Rightarrow> str_of details ''reason'' ''unknown'' | _ \<Rightarrow> ''unknown'')
      in [(''diagnosis'', PStr (''Gateway denied request with code='' @ code' @ '', reason='' @ reason @ ''.'')),
          (''next_steps'', str_py_list [''Verify actor auth token and roles.'',
             ''Verify semantic manifest is active for AI SQL flows.'', ''Check dataset entitlements and workspace isolation.''])])"

definition release_gate_assistant :: "pydict \<Rightarrow> pydict" where
  "release_gate_assistant payload =
     [(''summary'', PStr (if contains ''PASS'' (stripped_arg payload ''gate_output'')
         then ''Release gate passed.'' else ''Release gate failed.'')),
      (''actions'', str_py_list [''Run check_tooling_baseline and inspect first failing command.'',
         ''Regenerate MANIFEST.sha256 after edits.'', ''Re-run targeted tests before full baseline.''])]"

definition proposal_created :: "string \<Rightarrow> pydict \<Rightarrow> pydict" where
  "proposal_created proposal_type payload =
     [(''status'', PStr ''proposal_created''), (''proposal_type'', PStr proposal_type), (''input'', PDict payload)]"

definition task_created :: "string \<Rightarrow> pydict \<Rightarrow> pydict" where
  "task_created task_type payload =
     [(''status'', PStr ''task_created''), (''task_type'', PStr task_type), (''input'', PDict payload)]"

definition eval_generator :: "pydict \<Rightarrow> pydict" where
  "eval_generator payload =
     [(''status'', PStr ''generated''),
      (''question_count'', PInt (int (length (as_list (dget_or payload ''questions'' (PList [])))))), (''input'', PDict payload)]"

section \<open>The application\<close>

datatype ai_endpoint =
    AskSql | MetricAnswer | CatalogAssistant | PolicyAssistant | DocQa | QueryDebug | ReleaseGateAssistant
  | JoinSuggestion | ContractProposer | DriftExplainer | PiiExplainer | ErSuggestions | SemanticGenerator
  | QualityTriage | EvalGenerator

text \<open>The endpoint after the check; its payload is a JSON object.\<close>

definition assist :: "ai_settings \<Rightarrow> ai_env \<Rightarrow> string \<Rightarrow> pydict \<Rightarrow> ai_endpoint \<Rightarrow> pydict \<Rightarrow> pydict ai" where
  "assist cfg env request_id actor ep payload =
     (case ep of
        AskSql \<Rightarrow> ask_sql cfg env request_id actor payload
      | MetricAnswer \<Rightarrow> metric_answer cfg env payload
      | CatalogAssistant \<Rightarrow> catalog_assistant cfg env payload
      | PolicyAssistant \<Rightarrow> policy_assistant cfg env payload
      | DocQa \<Rightarrow> doc_qa cfg env payload
      | QueryDebug \<Rightarrow> ipure (query_debug payload)
      | ReleaseGateAssistant \<Rightarrow> ipure (release_gate_assistant payload)
      | JoinSuggestion \<Rightarrow> ipure (proposal_created ''relationship_proposal'' payload)
      | ContractProposer \<Rightarrow> ipure (proposal_created ''quality_contract_proposal'' payload)
      | DriftExplainer \<Rightarrow> ipure (task_created ''drift_investigation'' payload)
      | PiiExplainer \<Rightarrow> ipure (task_created ''pii_review'' payload)
      | ErSuggestions \<Rightarrow> ipure (proposal_created ''er_merge_proposal'' payload)
      | SemanticGenerator \<Rightarrow> ipure (proposal_created ''semantic_manifest_proposal'' payload)
      | QualityTriage \<Rightarrow> ipure (task_created ''quality_triage'' payload)
      | EvalGenerator \<Rightarrow> ipure (eval_generator payload))"

definition require_ai_enabled :: "ai_settings \<Rightarrow> pydict option res \<Rightarrow> pydict ai" where
  "require_ai_enabled cfg who a =
     (case who of
        Inl e \<Rightarrow> iraise e a
      | Inr None \<Rightarrow> iraise (refused ''missing_or_invalid_auth_token'') a
      | Inr (Some actor) \<Rightarrow> if ai_enabled cfg then ipure actor a else iraise (refused ''module_disabled'') a)"

definition ai_health :: "ai_settings \<Rightarrow> pydict" where
  "ai_health cfg = [(''status'', PStr ''ok''), (''service'', PStr ''ai_service''), (''enabled'', PBool (ai_enabled cfg)),
     (''provider'', PStr (ai_provider cfg))]"

text \<open>The handler of \<open>SchemaPilotError\<close>: 403 for a denial and 400 for the others.\<close>

fun ai_error_response :: "string \<Rightarrow> exn \<Rightarrow> http_response" where
  "ai_error_response request_id (NotFoundError message details) =
     \<lparr>hr_status = 400, hr_body = error_body request_id ''NOT_FOUND'' message details\<rparr>"
| "ai_error_response request_id e = error_response request_id e"

definition ai_process ::
  "ai_settings \<Rightarrow> ai_env \<Rightarrow> auth_env \<Rightarrow> ai_endpoint \<Rightarrow> pydict \<Rightarrow> ai_app \<Rightarrow> http_response \<times> ai_app" where
  "ai_process cfg env http ep payload a =
     (let request_id = (case ae_headers http ''x-request-id'' of Some given_id \<Rightarrow> given_id | None \<Rightarrow> ie_fresh env (ai_next a));
          (who, jwks) = authenticated_actor_from_request (ai_auth cfg) http (ai_tokens cfg) (ai_jwks a)
      in case ibind (require_ai_enabled cfg who) (\<lambda>actor. assist cfg env request_id actor ep payload)
                (a\<lparr>ai_jwks := jwks, ai_next := Suc (ai_next a)\<rparr>) of
           (Inl e, a') \<Rightarrow> (ai_error_response request_id e, a')
         | (Inr d, a') \<Rightarrow> (\<lparr>hr_status = 200, hr_body = PDict d\<rparr>, a'))"

text \<open>The provider of the application is the one its settings name.\<close>

definition create_ai_service :: "ai_settings \<Rightarrow> ai_settings res" where
  "create_ai_service settings = rbind (load_llm_provider (ai_provider settings)) (\<lambda>llm. Inr (settings\<lparr>ai_llm := llm\<rparr>))"

section \<open>What is sent\<close>

text \<open>
  \<open>still m\<close>: an action that leaves the application as it is; \<open>sends P m\<close>: one that sends at most one
  request, which satisfies \<open>P\<close>, and leaves the database as it is.
\<close>

definition still :: "'a ai \<Rightarrow> bool" where
  "still m \<longleftrightarrow> (\<forall>a. snd (m a) = a)"

definition sends :: "(db \<Rightarrow> upstream_request \<Rightarrow> bool) \<Rightarrow> 'a ai \<Rightarrow> bool" where
  "sends P m \<longleftrightarrow> (\<forall>a. ai_db (snd (m a)) = ai_db a \<and>
     (ai_sent (snd (m a)) = ai_sent a \<or> (\<exists>rq. ai_sent (snd (m a)) = ai_sent a @ [rq] \<and> P (ai_db a) rq)))"

lemma still_pure [simp]: "still (ipure x)" "still (iraise e)"
  by (simp_all add: still_def ipure_def iraise_def)

lemma still_sends: "still m \<Longrightarrow> sends P m"
  by (simp add: still_def sends_def)

lemma sends_pure [simp]: "sends P (ipure x)" "sends P (iraise e)"
  by (simp_all add: still_sends)

lemma ibind_still: "(\<And>x. still (f x)) \<Longrightarrow> snd (ibind m f a) = snd (m a)"
  by (auto simp: ibind_def still_def split: prod.split sum.split)

lemma sends_then: "sends P m \<Longrightarrow> (\<And>x. still (f x)) \<Longrightarrow> sends P (ibind m f)"
  by (simp add: sends_def ibind_still)

lemma sends_call: "(\<And>d. P d rq) \<Longrightarrow> sends P (call_service env reason rq)"
  by (auto simp: sends_def call_service_def request_json_def split: sum.split client_error.split)

text \<open>The requests an endpoint may send.\<close>

definition planned_call :: "ai_settings \<Rightarrow> db \<Rightarrow> pydict \<Rightarrow> upstream_request \<Rightarrow> bool" where
  "planned_call cfg d payload rq \<longleftrightarrow> (\<exists>plan. plan_ok d plan \<and> pl_workspace plan = stripped_arg payload ''workspace_id'' \<and>
     rq = gateway_post cfg ''/api/v1/gateway/query'' (plan_query_body (pl_workspace plan) plan)
       (str_of payload ''gateway_token'' ''local-ai-reader-token''))"

fun permitted_call :: "ai_settings \<Rightarrow> ai_endpoint \<Rightarrow> pydict \<Rightarrow> db \<Rightarrow> upstream_request \<Rightarrow> bool" where
  "permitted_call cfg AskSql payload d rq = planned_call cfg d payload rq"
| "permitted_call cfg MetricAnswer payload d rq = planned_call cfg d payload rq"
| "permitted_call cfg CatalogAssistant payload d rq = (rq = catalog_get cfg (stripped_arg payload ''workspace_id'') payload)"
| "permitted_call cfg PolicyAssistant payload d rq =
     (rq = gateway_post cfg ''/api/v1/gateway/policy/simulate'' (simulate_body payload) (str_of payload ''gateway_token'' ''local-data-steward-token''))"
| "permitted_call cfg DocQa payload d rq =
     (rq = gateway_post cfg ''/api/v1/gateway/retrieve'' (retrieve_body payload) (str_of payload ''gateway_token'' ''local-ai-reader-token''))"
| "permitted_call cfg ep payload d rq = False"

lemma sends_planned_query:
  assumes "workspace_id = stripped_arg payload ''workspace_id''"
  shows "sends (\<lambda>d. planned_call cfg d payload) (planned_query cfg env payload workspace_id question metric_id reason)"
  unfolding sends_def
proof
  fix a :: ai_app
  let ?plan = "generate_sql_agent_plan (ai_db a) workspace_id question metric_id (Some (group_by_arg payload))"
  let ?m = "planned_query cfg env payload workspace_id question metric_id reason"
  show "ai_db (snd (?m a)) = ai_db a \<and> (ai_sent (snd (?m a)) = ai_sent a \<or>
     (\<exists>rq. ai_sent (snd (?m a)) = ai_sent a @ [rq] \<and> planned_call cfg (ai_db a) payload rq))"
  proof (cases ?plan)
    case (Inl e)
    then show ?thesis by (simp add: planned_query_def iraise_def)
  next
    case (Inr plan)
    let ?rq = "gateway_post cfg ''/api/v1/gateway/query'' (plan_query_body workspace_id plan)
                 (str_of payload ''gateway_token'' ''local-ai-reader-token'')"
    from generate_plan_ok [OF Inr] assms have "planned_call cfg (ai_db a) payload ?rq"
      by (auto simp: planned_call_def)
    moreover have "snd (?m a) = snd (call_service env ''gateway_unavailable'' ?rq a)"
      using Inr by (simp add: planned_query_def ibind_still)
    moreover have "sends (\<lambda>d rq. rq = ?rq) (call_service env ''gateway_unavailable'' ?rq)" by (simp add: sends_call)
    ultimately show ?thesis unfolding sends_def by (elim allE [of _ a]) auto
  qed
qed

lemma permitted_calls:
  "permitted_call cfg AskSql payload = (\<lambda>d. planned_call cfg d payload)"
  "permitted_call cfg MetricAnswer payload = (\<lambda>d. planned_call cfg d payload)"
  by (simp_all add: fun_eq_iff)

lemma sends_assist: "sends (permitted_call cfg ep payload) (assist cfg env request_id actor ep payload)"
proof (cases ep)
  case AskSql
  then show ?thesis by (auto simp: assist_def ask_sql_def Let_def permitted_calls intro!: sends_then sends_planned_query)
next
  case MetricAnswer
  then show ?thesis by (auto simp: assist_def metric_answer_def Let_def permitted_calls intro!: sends_then sends_planned_query)
next
  case CatalogAssistant
  then show ?thesis by (auto simp: assist_def catalog_assistant_def Let_def intro!: sends_then sends_call)
next
  case PolicyAssistant
  then show ?thesis by (auto simp: assist_def policy_assistant_def Let_def dget_def intro!: sends_then sends_call)
next
  case DocQa
  then show ?thesis by (auto simp: assist_def doc_qa_def Let_def dget_def intro!: sends_then sends_call split: sum.split)
qed (simp_all add: assist_def)

section \<open>Properties\<close>

lemma error_status: "hr_status (ai_error_response request_id e) \<in> {400, 403, 500}"
  by (cases e) simp_all

lemma require_refuses:
  assumes "\<nexists>actor. who = Inr (Some actor) \<and> ai_enabled cfg"
  shows "\<exists>e. require_ai_enabled cfg who a = (Inl e, a)"
proof (cases who)
  case (Inr found)
  with assms show ?thesis by (cases found) (auto simp: require_ai_enabled_def iraise_def)
qed (simp add: require_ai_enabled_def iraise_def)

text \<open>
  C9. No assistant works without an authenticated actor and an enabled service: any other request is
  answered with an error and sends nothing. And an assistant changes no data and sends at most one
  request, the one its endpoint stands for: a question about data becomes a query of the gateway
  with a plan over the metrics of the manifest, in the workspace of the request.
\<close>

theorem ai_calls_confined:
  "case ai_process cfg env http ep payload a of (response, a') \<Rightarrow>
     ai_db a' = ai_db a \<and>
     (ai_sent a' = ai_sent a \<or>
      (\<exists>rq. ai_sent a' = ai_sent a @ [rq] \<and> permitted_call cfg ep payload (ai_db a) rq)) \<and>
     (hr_status response \<in> {400, 403, 500} \<and> ai_sent a' = ai_sent a \<or>
      ai_enabled cfg \<and> (\<exists>actor. fst (authenticated_actor_from_request (ai_auth cfg) http (ai_tokens cfg) (ai_jwks a)) = Inr (Some actor)))"
proof -
  obtain who jwks where auth: "authenticated_actor_from_request (ai_auth cfg) http (ai_tokens cfg) (ai_jwks a) = (who, jwks)"
    by fastforce
  let ?id = "case ae_headers http ''x-request-id'' of Some given_id \<Rightarrow> given_id | None \<Rightarrow> ie_fresh env (ai_next a)"
  let ?a0 = "a\<lparr>ai_jwks := jwks, ai_next := Suc (ai_next a)\<rparr>"
  show ?thesis
  proof (cases "\<exists>actor. who = Inr (Some actor) \<and> ai_enabled cfg")
    case True
    then obtain actor where actor: "who = Inr (Some actor)" and on: "ai_enabled cfg" by blast
    obtain r a1 where run: "assist cfg env ?id actor ep payload ?a0 = (r, a1)" by fastforce
    from sends_assist [of cfg ep payload env ?id actor] have sent: "ai_db a1 = ai_db a \<and>
        (ai_sent a1 = ai_sent a \<or> (\<exists>rq. ai_sent a1 = ai_sent a @ [rq] \<and> permitted_call cfg ep payload (ai_db a) rq))"
      unfolding sends_def by (elim allE [of _ ?a0]) (simp add: run)
    have "ai_process cfg env http ep payload a =
        ((case r of Inl e \<Rightarrow> ai_error_response ?id e | Inr d \<Rightarrow> \<lparr>hr_status = 200, hr_body = PDict d\<rparr>), a1)"
      using actor on run by (simp add: ai_process_def Let_def auth ibind_def require_ai_enabled_def ipure_def split: sum.split)
    with sent actor on show ?thesis by (simp add: auth)
  next
    case False
    from require_refuses [OF this] obtain e where "require_ai_enabled cfg who ?a0 = (Inl e, ?a0)" by blast
    then have "ai_process cfg env http ep payload a = (ai_error_response ?id e, ?a0)"
      by (simp add: ai_process_def Let_def auth ibind_def)
    then show ?thesis using error_status [of ?id e] by simp
  qed
qed

text \<open>A question that is answered: one query of the gateway, for the metric named in the question.\<close>

definition demo_ai_settings :: ai_settings where
  "demo_ai_settings = \<lparr>ai_enabled = True, ai_provider = ''mock'', ai_gateway_url = ''http://gw/'', ai_control_plane_url = ''http://cp'',
     ai_auth = demo_auth_settings\<lparr>as_mode := ''local''\<rparr>, ai_tokens = [(''t'', [(''actor_id'', PStr ''ann'')])],
     ai_llm = MockLLMProvider ''mock''\<rparr>"

definition demo_ai_env :: ai_env where
  "demo_ai_env = \<lparr>ie_fresh = (\<lambda>n. ''id''), ie_urlopen = (\<lambda>n rq. Answered 200 ''{}''),
     ie_loads = (\<lambda>text. Some (PDict [(''result'', PDict [(''rows'', PList [PList [PInt 7]])])]))\<rparr>"

definition demo_ai_app :: ai_app where
  "demo_ai_app = \<lparr>ai_db = empty_db\<lparr>policies := [\<lparr>gp_id = ''p'', gp_workspace = ''w'', gp_type = ''semantic_manifest'',
       gp_definition = Some (PDict [(''semantic_manifest'', PDict [(''metrics'', PList [PDict [(''metric_id'', PStr ''revenue'')]])])]),
       gp_status = ''active''\<rparr>]\<rparr>, ai_jwks = [], ai_next = 0, ai_sent = []\<rparr>"

definition demo_ai_http :: auth_env where
  "demo_ai_http = demo_auth_env\<lparr>ae_headers := (\<lambda>k. if k = ''authorization'' then Some ''Bearer t'' else None)\<rparr>"

theorem ai_question_answered:
  "case ai_process demo_ai_settings demo_ai_env demo_ai_http AskSql
          [(''question'', PStr ''What is the Revenue?''), (''workspace_id'', PStr ''w'')] demo_ai_app of
     (response, a') \<Rightarrow> hr_status response = 200 \<and> map up_url (ai_sent a') = [''http://gw/api/v1/gateway/query'']"
  by code_simp

text \<open>
  The catalog assistant reads the list of data sets of the control plane, which answers with a JSON
  array; the client accepts only objects. So the assistant never gets an answer from the control
  plane it is built for.
\<close>

lemma control_plane_answers_a_list: "\<exists>items. fst (api_list_datasets workspace_id s) = Inr (Reply (PList items))"
  by (simp add: api_list_datasets_def tread_def)

lemma catalog_list_refused:
  assumes "\<And>n rq. \<exists>raw items. ie_urlopen env n rq = Answered 200 raw \<and> strip raw \<noteq> [] \<and> ie_loads env raw = Some (PList items)"
  shows "\<exists>e. fst (catalog_assistant cfg env payload a) = Inl (PolicyDeniedError ''Access denied by policy'' e)"
proof -
  obtain raw items where "ie_urlopen env (length (ai_sent a)) (catalog_get cfg (stripped_arg payload ''workspace_id'') payload) = Answered 200 raw"
    "strip raw \<noteq> []" "ie_loads env raw = Some (PList items)" using assms by blast
  then show ?thesis
    by (auto simp: catalog_assistant_def Let_def iraise_def refused_def denied_def ibind_def call_service_def request_json_def parse_reply_def)
qed

text \<open>The workspace identifier is put into the path as it is: it can name another resource.\<close>

lemma catalog_path_unescaped:
  "up_url (catalog_get cfg (''w/catalog/export?x='') payload) =
     rstrip_slashes (ai_control_plane_url cfg) @ ''/api/v1/workspaces/w/catalog/export?x=/datasets''"
  by (simp add: catalog_get_def)

end
