(* ===== verification/Config.thy ===== *)
theory Config
  imports Auth Floats
begin

text \<open>
  The start-up configuration (\<open>backend/shared_domain/config.py\<close>): settings from the environment,
  overrides from a JSON or YAML file, the checks a service passes before it starts, and the redacted
  form for diagnostics. Settings are a dictionary with the fields of the dataclass in their order:
  an override may put any JSON value into a field of no special kind. Tuples are lists; the details
  of a configuration error are left out.
\<close>

section \<open>The fields\<close>

definition LOCAL_BIND_HOSTS :: "string list" where
  "LOCAL_BIND_HOSTS = [''127.0.0.1'', ''localhost'', ''::1'']"

definition SUPPORTED_AUTH_MODES :: "string list" where
  "SUPPORTED_AUTH_MODES = [''local'', ''oidc'', ''oidc_trusted_proxy'', ''oidc_jwt'']"

definition BOOL_FIELDS :: "string list" where
  "BOOL_FIELDS = [''require_auth_for_non_local'', ''oidc_trusted_proxy'', ''deletion_enabled'', ''opensearch_enabled'',
     ''qdrant_enabled'', ''ai_service_enabled'', ''gateway_query_cache_enabled'', ''tracing_enabled'',
     ''plugin_network_enabled'', ''artifact_encryption_enabled'', ''materialized_refresh_enabled'',
     ''policy_pack_canary_enabled'']"

definition INT_FIELDS :: "string list" where
  "INT_FIELDS = [''oidc_jwks_cache_ttl_seconds'', ''oidc_clock_skew_seconds'', ''opensearch_timeout_ms'',
     ''qdrant_timeout_ms'', ''embeddings_dimensions'', ''query_max_bytes'', ''retrieval_max_bytes'',
     ''audit_outbox_dispatch_batch_size'', ''audit_outbox_max_attempts'', ''worker_max_active_per_workspace'',
     ''gateway_query_cache_ttl_seconds'', ''gateway_query_cache_max_entries'', ''worker_step_timeout_seconds'',
     ''worker_step_max_items'', ''plugin_max_runtime_seconds'', ''artifact_rotation_keep_previous_keys'']"

definition CSV_TUPLE_FIELDS :: "string list" where
  "CSV_TUPLE_FIELDS = [''oidc_jwt_allowed_algs'']"

definition LOWERCASE_FIELDS :: "string list" where
  "LOWERCASE_FIELDS = [''auth_mode'', ''query_engine'', ''retrieval_backend'', ''embeddings_provider'',
     ''secrets_store_backend'', ''audit_sink_type'', ''audit_sink_mode'', ''ai_provider'']"

definition SECRET_FIELDS :: "string list" where
  "SECRET_FIELDS = [''secrets_master_key'', ''vault_token'', ''audit_sink_target'']"

section \<open>The environment\<close>

text \<open>
  \<open>cf_read\<close> is the file system: \<open>None\<close> where there is nothing, else the text of the file or the
  exception its reading raises.
\<close>

record config_env =
  cf_getenv :: "string \<Rightarrow> string option"
  cf_read :: "string \<Rightarrow> string res option"
  cf_loads :: "string \<Rightarrow> json_text"

definition parse_bool :: "string option \<Rightarrow> bool \<Rightarrow> bool" where
  "parse_bool value dflt = (case value of None \<Rightarrow> dflt
     | Some v \<Rightarrow> lower (strip v) \<in> set [''1'', ''true'', ''yes'', ''on''])"

definition parse_int_or :: "string option \<Rightarrow> int \<Rightarrow> int" where
  "parse_int_or value dflt = (case value of None \<Rightarrow> dflt
     | Some v \<Rightarrow> (case parse_int (strip v) of None \<Rightarrow> dflt | Some i \<Rightarrow> i))"

definition parse_csv :: "string option \<Rightarrow> string list \<Rightarrow> string list" where
  "parse_csv value dflt = (case value of None \<Rightarrow> dflt
     | Some v \<Rightarrow> (let parsed = filter (\<lambda>t. t \<noteq> []) (map strip (split_on (CHR '','') v))
                 in if parsed = [] then dflt else parsed))"

definition env_text :: "(string \<Rightarrow> string option) \<Rightarrow> string \<Rightarrow> string \<Rightarrow> pyval" where
  "env_text getenv k dflt = PStr (case getenv k of None \<Rightarrow> dflt | Some v \<Rightarrow> v)"

definition env_lower :: "(string \<Rightarrow> string option) \<Rightarrow> string \<Rightarrow> string \<Rightarrow> pyval" where
  "env_lower getenv k dflt = PStr (lower (strip (case getenv k of None \<Rightarrow> dflt | Some v \<Rightarrow> v)))"

definition env_opt :: "(string \<Rightarrow> string option) \<Rightarrow> string \<Rightarrow> pyval" where
  "env_opt getenv k = opt_str (getenv k)"

definition env_bool :: "(string \<Rightarrow> string option) \<Rightarrow> string \<Rightarrow> bool \<Rightarrow> pyval" where
  "env_bool getenv k dflt = PBool (parse_bool (getenv k) dflt)"

definition env_int_or :: "(string \<Rightarrow> string option) \<Rightarrow> string \<Rightarrow> int \<Rightarrow> pyval" where
  "env_int_or getenv k dflt = PInt (parse_int_or (getenv k) dflt)"

definition env_csv :: "(string \<Rightarrow> string option) \<Rightarrow> string \<Rightarrow> string list \<Rightarrow> pyval" where
  "env_csv getenv k dflt = str_py_list (parse_csv (getenv k) dflt)"

definition settings_data :: "(string \<Rightarrow> string option) \<Rightarrow> pydict" where
  "settings_data getenv =
     [(''profile'', env_text getenv ''SCHEMAPILOT_PROFILE'' ''starter''),
      (''bind_address'', env_text getenv ''SCHEMAPILOT_BIND_ADDRESS'' ''127.0.0.1''),
      (''auth_mode'', env_text getenv ''SCHEMAPILOT_AUTH_MODE'' ''local''),
      (''require_auth_for_non_local'', env_bool getenv ''SCHEMAPILOT_REQUIRE_AUTH_FOR_NON_LOCAL'' True),
      (''storage_root'', env_text getenv ''SCHEMAPILOT_STORAGE_ROOT'' ''./runtime/storage''),
      (''database_url'', env_text getenv ''SCHEMAPILOT_DATABASE_URL'' ''sqlite:///./runtime/schemapilot.db''),
      (''oidc_claims_header'', env_text getenv ''SCHEMAPILOT_OIDC_CLAIMS_HEADER'' ''x-schemapilot-oidc-claims''),
      (''oidc_actor_id_claim'', env_text getenv ''SCHEMAPILOT_OIDC_ACTOR_ID_CLAIM'' ''sub''),
      (''oidc_roles_claim'', env_text getenv ''SCHEMAPILOT_OIDC_ROLES_CLAIM'' ''roles''),
      (''oidc_attributes_claim'', env_text getenv ''SCHEMAPILOT_OIDC_ATTRIBUTES_CLAIM'' ''attributes''),
      (''oidc_trusted_proxy'', env_bool getenv ''SCHEMAPILOT_OIDC_TRUSTED_PROXY'' False),
      (''oidc_required_issuer'', env_opt getenv ''SCHEMAPILOT_OIDC_REQUIRED_ISSUER''),
      (''oidc_required_audience'', env_opt getenv ''SCHEMAPILOT_OIDC_REQUIRED_AUDIENCE''),
      (''oidc_jwks_url'', env_opt getenv ''SCHEMAPILOT_OIDC_JWKS_URL''),
      (''oidc_jwks_cache_ttl_seconds'', env_int_or getenv ''SCHEMAPILOT_OIDC_JWKS_CACHE_TTL_SECONDS'' 300),
      (''oidc_clock_skew_seconds'', env_int_or getenv ''SCHEMAPILOT_OIDC_CLOCK_SKEW_SECONDS'' 30),
      (''oidc_jwt_allowed_algs'', env_csv getenv ''SCHEMAPILOT_OIDC_JWT_ALLOWED_ALGS'' [''HS256'']),
      (''retention_purge_root'', env_opt getenv ''SCHEMAPILOT_RETENTION_PURGE_ROOT''),
      (''deletion_enabled'', env_bool getenv ''SCHEMAPILOT_DELETION_ENABLED'' False),
      (''query_engine'', env_lower getenv ''SCHEMAPILOT_QUERY_ENGINE'' ''duckdb''),
      (''trino_url'', env_text getenv ''SCHEMAPILOT_TRINO_URL'' ''http://trino:8080''),
      (''trino_user'', env_text getenv ''SCHEMAPILOT_TRINO_USER'' ''schemapilot''),
      (''trino_catalog'', env_text getenv ''SCHEMAPILOT_TRINO_CATALOG'' ''memory''),
      (''trino_schema'', env_text getenv ''SCHEMAPILOT_TRINO_SCHEMA'' ''default''),
      (''retrieval_backend'', env_lower getenv ''SCHEMAPILOT_RETRIEVAL_BACKEND'' ''filesystem''),
      (''opensearch_enabled'', env_bool getenv ''SCHEMAPILOT_OPENSEARCH_ENABLED'' False),
      (''opensearch_url'', env_text getenv ''SCHEMAPILOT_OPENSEARCH_URL'' ''http://opensearch:9200''),
      (''opensearch_index'', env_text getenv ''SCHEMAPILOT_OPENSEARCH_INDEX'' ''schemapilot_docs''),
      (''opensearch_timeout_ms'', env_int_or getenv ''SCHEMAPILOT_OPENSEARCH_TIMEOUT_MS'' 3000),
      (''qdrant_enabled'', env_bool getenv ''SCHEMAPILOT_QDRANT_ENABLED'' False),
      (''qdrant_url'', env_text getenv ''SCHEMAPILOT_QDRANT_URL'' ''http://qdrant:6333''),
      (''qdrant_collection'', env_text getenv ''SCHEMAPILOT_QDRANT_COLLECTION'' ''schemapilot_docs''),
      (''qdrant_timeout_ms'', env_int_or getenv ''SCHEMAPILOT_QDRANT_TIMEOUT_MS'' 3000),
      (''embeddings_provider'', env_lower getenv ''SCHEMAPILOT_EMBEDDINGS_PROVIDER'' ''disabled''),
      (''embeddings_dimensions'', env_int_or getenv ''SCHEMAPILOT_EMBEDDINGS_DIMENSIONS'' 16),
      (''query_max_bytes'', env_int_or getenv ''SCHEMAPILOT_QUERY_MAX_BYTES'' 5000000),
      (''retrieval_max_bytes'', env_int_or getenv ''SCHEMAPILOT_RETRIEVAL_MAX_BYTES'' 2000000),
      (''ai_service_enabled'', env_bool getenv ''SCHEMAPILOT_AI_SERVICE_ENABLED'' False),
      (''ai_provider'', env_lower getenv ''SCHEMAPILOT_AI_PROVIDER'' ''disabled''),
      (''ai_gateway_url'', env_text getenv ''SCHEMAPILOT_AI_GATEWAY_URL'' ''http://127.0.0.1:8001''),
      (''ai_control_plane_url'', env_text getenv ''SCHEMAPILOT_AI_CONTROL_PLANE_URL'' ''http://127.0.0.1:8000''),
      (''secrets_store_backend'', env_lower getenv ''SCHEMAPILOT_SECRETS_STORE_BACKEND'' ''local_encrypted''),
      (''secrets_store_root'', env_text getenv ''SCHEMAPILOT_SECRETS_STORE_ROOT'' ''./runtime/secrets''),
      (''secrets_master_key'', env_opt getenv ''SCHEMAPILOT_SECRETS_MASTER_KEY''),
      (''vault_url'', env_opt getenv ''SCHEMAPILOT_VAULT_URL''),
      (''vault_token'', env_opt getenv ''SCHEMAPILOT_VAULT_TOKEN''),
      (''audit_sink_type'', env_lower getenv ''SCHEMAPILOT_AUDIT_SINK_TYPE'' ''disabled''),
      (''audit_sink_target'', env_opt getenv ''SCHEMAPILOT_AUDIT_SINK_TARGET''),
      (''audit_sink_mode'', env_lower getenv ''SCHEMAPILOT_AUDIT_SINK_MODE'' ''outbox''),
      (''audit_outbox_dispatch_batch_size'', env_int_or getenv ''SCHEMAPILOT_AUDIT_OUTBOX_DISPATCH_BATCH_SIZE'' 100),
      (''audit_outbox_max_attempts'', env_int_or getenv ''SCHEMAPILOT_AUDIT_OUTBOX_MAX_ATTEMPTS'' 5),
      (''worker_max_active_per_workspace'', env_int_or getenv ''SCHEMAPILOT_WORKER_MAX_ACTIVE_PER_WORKSPACE'' 1),
      (''gateway_query_cache_enabled'', env_bool getenv ''SCHEMAPILOT_GATEWAY_QUERY_CACHE_ENABLED'' False),
      (''gateway_query_cache_ttl_seconds'', env_int_or getenv ''SCHEMAPILOT_GATEWAY_QUERY_CACHE_TTL_SECONDS'' 60),
      (''gateway_query_cache_max_entries'', env_int_or getenv ''SCHEMAPILOT_GATEWAY_QUERY_CACHE_MAX_ENTRIES'' 1024),
      (''materialized_refresh_enabled'', env_bool getenv ''SCHEMAPILOT_MATERIALIZED_REFRESH_ENABLED'' False),
      (''worker_step_timeout_seconds'', env_int_or getenv ''SCHEMAPILOT_WORKER_STEP_TIMEOUT_SECONDS'' 300),
      (''worker_step_max_items'', env_int_or getenv ''SCHEMAPILOT_WORKER_STEP_MAX_ITEMS'' 10000),
      (''tracing_enabled'', env_bool getenv ''SCHEMAPILOT_TRACING_ENABLED'' False),
      (''tracing_service_name'', env_text getenv ''SCHEMAPILOT_TRACING_SERVICE_NAME'' ''schemapilot''),
      (''plugin_network_enabled'', env_bool getenv ''SCHEMAPILOT_PLUGIN_NETWORK_ENABLED'' False),
      (''plugin_max_runtime_seconds'', env_int_or getenv ''SCHEMAPILOT_PLUGIN_MAX_RUNTIME_SECONDS'' 30),
      (''plugin_allowed_root'', env_opt getenv ''SCHEMAPILOT_PLUGIN_ALLOWED_ROOT''),
      (''artifact_encryption_enabled'', env_bool getenv ''SCHEMAPILOT_ARTIFACT_ENCRYPTION_ENABLED'' False),
      (''artifact_encryption_key_id'', env_text getenv ''SCHEMAPILOT_ARTIFACT_ENCRYPTION_KEY_ID'' ''v1''),
      (''artifact_rotation_keep_previous_keys'', env_int_or getenv ''SCHEMAPILOT_ARTIFACT_ROTATION_KEEP_PREVIOUS_KEYS'' 1),
      (''policy_pack_canary_enabled'', env_bool getenv ''SCHEMAPILOT_POLICY_PACK_CANARY_ENABLED'' False)]"

section \<open>Overrides from a file\<close>

definition path_suffix :: "py_path \<Rightarrow> string" where
  "path_suffix p =
     (if snd p = [] then []
      else let name = last (snd p); ext = rev (takeWhile (\<lambda>c. c \<noteq> CHR ''.'') (rev name))
        in if ext \<noteq> [] \<and> length ext + 1 < length name then CHR ''.'' # ext else [])"

text \<open>\<open>str.splitlines\<close>\<close>

definition line_boundary :: "char \<Rightarrow> bool" where
  "line_boundary c = (let n = code c in (10 \<le> n \<and> n \<le> 13) \<or> (28 \<le> n \<and> n \<le> 30) \<or> n = 133)"

definition after_boundary :: "char \<Rightarrow> string \<Rightarrow> string" where
  "after_boundary c s = (case s of d # r \<Rightarrow> if code c = 13 \<and> code d = 10 then r else s | [] \<Rightarrow> [])"

function split_lines :: "string \<Rightarrow> string list" where
  "split_lines [] = []"
| "split_lines (c # s) =
     (if line_boundary c then [] # split_lines (after_boundary c s)
      else case split_lines s of [] \<Rightarrow> [[c]] | l # ls \<Rightarrow> (c # l) # ls)"
  by pat_completeness auto
termination
  by (relation "measure length") (auto simp: after_boundary_def split: list.split)

definition strip_char :: "char \<Rightarrow> string \<Rightarrow> string" where
  "strip_char c s = rev (dropWhile (\<lambda>x. x = c) (rev (dropWhile (\<lambda>x. x = c) s)))"

definition quoted_by :: "char \<Rightarrow> string \<Rightarrow> bool" where
  "quoted_by c s = (s \<noteq> [] \<and> hd s = c \<and> last s = c)"

definition unsigned_part :: "string \<Rightarrow> string" where
  "unsigned_part s = (case s of c # r \<Rightarrow> if c = CHR ''-'' then r else s | [] \<Rightarrow> [])"

text \<open>The languages of \<open>-?\d+\<close> and \<open>-?\d+\.\d+\<close>.\<close>

definition integer_text :: "string \<Rightarrow> bool" where
  "integer_text s = (unsigned_part s \<noteq> [] \<and> list_all is_digit (unsigned_part s))"

definition decimal_text :: "string \<Rightarrow> bool" where
  "decimal_text s = (case split1 (CHR ''.'') (unsigned_part s) of
     (a, Some b) \<Rightarrow> a \<noteq> [] \<and> b \<noteq> [] \<and> list_all is_digit a \<and> list_all is_digit b | _ \<Rightarrow> False)"

text \<open>A negative text of zero is the float \<open>-0.0\<close>.\<close>

definition decimal_value :: "string \<Rightarrow> pyval res" where
  "decimal_value s = rbind (py_float (PStr s)) (\<lambda>x.
     Inr (if x = Fin 0 \<and> startswith s ''-'' then PFloat ''-0.0'' (Some 0) else of_float x))"

definition parse_yaml_scalar :: "string \<Rightarrow> pyval res" where
  "parse_yaml_scalar raw =
     (let lowered = lower raw
      in if raw = [] then Inr (PStr [])
         else if lowered \<in> set [''null'', ''~''] then Inr PNone
         else if lowered \<in> set [''true'', ''false''] then Inr (PBool (lowered = ''true''))
         else if quoted_by (CHR 0x22) raw \<or> quoted_by (CHR 0x27) raw then Inr (PStr (butlast (tl raw)))
         else if hd raw = CHR ''['' \<and> last raw = CHR '']'' then
           Inr (str_py_list (map (\<lambda>item. strip_char (CHR 0x27) (strip_char (CHR 0x22) item))
             (filter (\<lambda>t. t \<noteq> []) (map strip (split_on (CHR '','') (butlast (tl raw)))))))
         else if integer_text raw then rbind (py_int (PStr raw)) (\<lambda>i. Inr (PInt i))
         else if decimal_text raw then decimal_value raw
         else Inr (PStr raw))"

fun yaml_lines :: "pydict \<Rightarrow> string list \<Rightarrow> pydict res" where
  "yaml_lines payload [] = Inr payload"
| "yaml_lines payload (raw_line # rest) =
     (let line = strip (fst (split1 (CHR ''#'') raw_line))
      in if line = [] then yaml_lines payload rest
         else case split1 (CHR '':'') line of
             (_, None) \<Rightarrow> Inl (StartupConfigurationError ''Invalid YAML settings line.'')
           | (key, Some raw_value) \<Rightarrow>
               if strip key = [] then Inl (StartupConfigurationError ''Invalid YAML settings key.'')
               else rbind (parse_yaml_scalar (strip raw_value)) (\<lambda>v. yaml_lines (dset payload (strip key) v) rest))"

definition load_json_config_overrides :: "config_env \<Rightarrow> string \<Rightarrow> pydict res" where
  "load_json_config_overrides env text =
     (case cf_loads env text of
        None \<Rightarrow> Inl (StartupConfigurationError ''Invalid JSON settings file.'')
      | Some (PDict payload) \<Rightarrow> Inr payload
      | Some _ \<Rightarrow> Inl (StartupConfigurationError ''Settings file payload must be an object.''))"

definition load_yaml_config_overrides :: "string \<Rightarrow> pydict res" where
  "load_yaml_config_overrides text = yaml_lines [] (split_lines text)"

definition resolve_config_path :: "config_env \<Rightarrow> string option \<Rightarrow> py_path option" where
  "resolve_config_path env config_path =
     (let explicit = strip (case config_path of None \<Rightarrow> [] | Some p \<Rightarrow> p);
          configured = strip (case cf_getenv env ''SCHEMAPILOT_CONFIG_FILE'' of None \<Rightarrow> [] | Some p \<Rightarrow> p)
      in if explicit \<noteq> [] then Some (path_of explicit)
         else if configured \<noteq> [] then Some (path_of configured) else None)"

definition load_config_overrides :: "config_env \<Rightarrow> string option \<Rightarrow> pydict res" where
  "load_config_overrides env config_path =
     (case resolve_config_path env config_path of
        None \<Rightarrow> Inr []
      | Some path \<Rightarrow>
          (case cf_read env (as_posix path) of
             None \<Rightarrow> Inl (StartupConfigurationError ''Configured settings file does not exist.'')
           | Some contents \<Rightarrow>
               (let suffix = lower (path_suffix path)
                in if suffix = ''.json'' then rbind contents (load_json_config_overrides env)
                   else if suffix \<in> set [''.yaml'', ''.yml''] then rbind contents load_yaml_config_overrides
                   else Inl (StartupConfigurationError ''Unsupported settings file type.''))))"

definition coerce_config_override :: "string \<Rightarrow> pyval \<Rightarrow> pyval res" where
  "coerce_config_override field v =
     (if field \<in> set BOOL_FIELDS then
        (case v of PBool b \<Rightarrow> Inr v | PStr s \<Rightarrow> Inr (PBool (parse_bool (Some s) False))
         | _ \<Rightarrow> Inl (StartupConfigurationError ''Invalid boolean settings override.''))
      else if field \<in> set INT_FIELDS then
        (case v of PInt _ \<Rightarrow> Inr v | PBool _ \<Rightarrow> Inr v
         | PStr s \<Rightarrow> (let parsed = parse_int_or (Some s) (- 1)
             in if parsed = - 1 then Inl (StartupConfigurationError ''Invalid integer settings override.'')
                else Inr (PInt parsed))
         | _ \<Rightarrow> Inl (StartupConfigurationError ''Invalid integer settings override.''))
      else if field \<in> set CSV_TUPLE_FIELDS then
        (case v of PList items \<Rightarrow> Inr (str_py_list (filter (\<lambda>t. t \<noteq> []) (map (\<lambda>item. strip (py_str item)) items)))
         | PStr s \<Rightarrow> Inr (str_py_list (parse_csv (Some s) []))
         | _ \<Rightarrow> Inl (StartupConfigurationError ''Invalid tuple settings override.''))
      else if field \<in> set LOWERCASE_FIELDS then Inr (PStr (lower (strip (py_str v))))
      else Inr (case v of PInt _ \<Rightarrow> PStr (py_str v) | PFloat _ _ \<Rightarrow> PStr (py_str v) | PBool _ \<Rightarrow> PStr (py_str v) | _ \<Rightarrow> v))"

section \<open>The checks\<close>

definition fld :: "pydict \<Rightarrow> string \<Rightarrow> pyval" where
  "fld s k = dget_or s k PNone"

definition require_that :: "bool \<Rightarrow> string \<Rightarrow> unit res" where
  "require_that ok message = (if ok then Inr () else Inl (StartupConfigurationError message))"

text \<open>The checks in their order, up to the first that fails.\<close>

fun all_pass :: "unit res list \<Rightarrow> unit res" where
  "all_pass [] = Inr ()"
| "all_pass (r # rs) = rbind r (\<lambda>_. all_pass rs)"

text \<open>A field whose methods of \<open>str\<close> are called, and one that is compared with a number.\<close>

definition text_field :: "pyval \<Rightarrow> string res" where
  "text_field v = (case v of PStr t \<Rightarrow> Inr t | _ \<Rightarrow> Inl (OtherError ''AttributeError''))"

definition number_field :: "pyval \<Rightarrow> int res" where
  "number_field v = (case v of PInt i \<Rightarrow> Inr i | PBool b \<Rightarrow> Inr (if b then 1 else 0) | _ \<Rightarrow> Inl TypeError)"

text \<open>\<open>v in {...}\<close>: a list or a dictionary is not hashable.\<close>

definition is_member :: "string list \<Rightarrow> pyval \<Rightarrow> bool res" where
  "is_member texts v = (case v of PStr t \<Rightarrow> Inr (t \<in> set texts) | PList _ \<Rightarrow> Inl TypeError | PDict _ \<Rightarrow> Inl TypeError
     | _ \<Rightarrow> Inr False)"

definition is_local_bind :: "pydict \<Rightarrow> bool res" where
  "is_local_bind s = is_member LOCAL_BIND_HOSTS (fld s ''bind_address'')"

definition one_of :: "pydict \<Rightarrow> string \<Rightarrow> string list \<Rightarrow> string \<Rightarrow> unit res" where
  "one_of s k texts message = rbind (is_member texts (fld s k)) (\<lambda>ok. require_that ok message)"

definition at_least :: "int \<Rightarrow> pydict \<Rightarrow> string \<Rightarrow> string \<Rightarrow> unit res" where
  "at_least n s k message = rbind (number_field (fld s k)) (\<lambda>i. require_that (n \<le> i) message)"

definition proxy_mode :: "string \<Rightarrow> bool" where
  "proxy_mode mode \<longleftrightarrow> mode = ''oidc'' \<or> mode = ''oidc_trusted_proxy''"

definition auth_checks :: "pydict \<Rightarrow> string \<Rightarrow> bool \<Rightarrow> unit res list" where
  "auth_checks s mode local_bind =
     [if \<not> local_bind \<and> py_truth (fld s ''require_auth_for_non_local'')
      then all_pass
        [require_that (mode \<notin> set [[], ''none'', ''disabled''])
           ''Non-local bind requires explicit authentication configuration.'',
         require_that (\<not> (proxy_mode mode \<and> \<not> py_truth (fld s ''oidc_trusted_proxy'')))
           ''Trusted-proxy OIDC mode requires explicit trust configuration.'']
      else Inr (),
      if proxy_mode mode
      then rbind (text_field (fld s ''oidc_claims_header'')) (\<lambda>header.
        require_that (strip header \<noteq> []) ''OIDC mode requires a trusted claims header configuration.'')
      else Inr (),
      if mode = ''oidc_jwt''
      then all_pass
        [require_that (py_truth (fld s ''oidc_jwks_url'') \<or> py_truth (fld s ''oidc_required_issuer''))
           ''OIDC JWT mode requires issuer or JWKS URL configuration.'',
         at_least 1 s ''oidc_jwks_cache_ttl_seconds'' ''OIDC JWT mode requires positive JWKS cache TTL.'',
         at_least 0 s ''oidc_clock_skew_seconds'' ''OIDC JWT mode requires non-negative clock skew.'',
         require_that (py_truth (fld s ''oidc_jwt_allowed_algs''))
           ''OIDC JWT mode requires at least one allowed JWT algorithm.'']
      else Inr ()]"

definition service_checks :: "pydict \<Rightarrow> unit res list" where
  "service_checks s =
     [one_of s ''query_engine'' [''duckdb'', ''trino''] ''Unsupported query engine.'',
      one_of s ''retrieval_backend'' [''filesystem'', ''opensearch'', ''qdrant''] ''Unsupported retrieval backend.'',
      at_least 1 s ''opensearch_timeout_ms'' ''OpenSearch timeout must be positive.'',
      at_least 1 s ''qdrant_timeout_ms'' ''Qdrant timeout must be positive.'',
      at_least 1 s ''embeddings_dimensions'' ''Embeddings dimensions must be positive.'',
      at_least 1 s ''query_max_bytes'' ''Query max bytes must be positive.'',
      at_least 1 s ''retrieval_max_bytes'' ''Retrieval max bytes must be positive.'',
      one_of s ''secrets_store_backend'' [''local_encrypted'', ''vault''] ''Unsupported secrets store backend.'',
      one_of s ''audit_sink_type'' [''disabled'', ''jsonl'', ''webhook''] ''Unsupported audit sink type.'',
      one_of s ''audit_sink_mode'' [''outbox'', ''inline''] ''Unsupported audit sink mode.'',
      at_least 1 s ''audit_outbox_dispatch_batch_size'' ''Audit outbox dispatch batch size must be positive.'',
      at_least 1 s ''audit_outbox_max_attempts'' ''Audit outbox max attempts must be positive.'',
      one_of s ''ai_provider'' [''disabled'', ''mock''] ''Unsupported AI provider.'',
      at_least 1 s ''worker_max_active_per_workspace'' ''Worker per-workspace active limit must be positive.'',
      at_least 1 s ''gateway_query_cache_ttl_seconds'' ''Gateway query cache TTL must be positive.'',
      at_least 1 s ''gateway_query_cache_max_entries'' ''Gateway query cache max entries must be positive.'',
      at_least 1 s ''worker_step_timeout_seconds'' ''Worker step timeout must be positive.'',
      at_least 1 s ''worker_step_max_items'' ''Worker step max items must be positive.'',
      at_least 1 s ''plugin_max_runtime_seconds'' ''Plugin max runtime seconds must be positive.'',
      at_least 0 s ''artifact_rotation_keep_previous_keys'' ''Artifact rotation keep count must be non-negative.'']"

definition validate_settings :: "pydict \<Rightarrow> unit res" where
  "validate_settings s =
     rbind (text_field (fld s ''auth_mode'')) (\<lambda>mode_text.
     let mode = lower (strip mode_text)
     in rbind (require_that (mode \<in> set SUPPORTED_AUTH_MODES) ''Unsupported authentication mode.'') (\<lambda>_.
        rbind (is_local_bind s) (\<lambda>local_bind. all_pass (auth_checks s mode local_bind @ service_checks s))))"

section \<open>Loading\<close>

fun apply_overrides :: "pydict \<Rightarrow> pydict \<Rightarrow> pydict res" where
  "apply_overrides s [] = Inr s"
| "apply_overrides s ((k, v) # rest) =
     rbind (coerce_config_override k v) (\<lambda>v'. apply_overrides (dset s k v') rest)"

definition load_settings :: "config_env \<Rightarrow> string option \<Rightarrow> pydict res" where
  "load_settings env config_path =
     (let base = settings_data (cf_getenv env)
      in rbind (load_config_overrides env config_path) (\<lambda>overrides.
         rbind (require_that (list_all (\<lambda>k. k \<in> set (dkeys base)) (dkeys overrides))
                  ''Unknown settings keys are not allowed.'') (\<lambda>_.
         rbind (apply_overrides base overrides) (\<lambda>settings.
         rbind (validate_settings settings) (\<lambda>_. Inr settings)))))"

section \<open>Redaction\<close>

text \<open>\<open>s.split(sep, 1)\<close> where \<open>sep in s\<close>.\<close>

fun split_at :: "string \<Rightarrow> string \<Rightarrow> (string \<times> string) option" where
  "split_at sep [] = None"
| "split_at sep (c # s) =
     (if startswith (c # s) sep then Some ([], drop (length sep) (c # s))
      else map_option (\<lambda>(a, b). (c # a, b)) (split_at sep s))"

definition redact_url_credentials :: "string \<Rightarrow> string" where
  "redact_url_credentials value =
     (case split_at ''://'' value of
        None \<Rightarrow> value
      | Some (scheme, rest) \<Rightarrow>
          if CHR ''@'' \<notin> set rest then value
          else scheme @ ''://<redacted>@'' @ rev (takeWhile (\<lambda>c. c \<noteq> CHR ''@'') (rev rest)))"

definition redact_field :: "string \<times> pyval \<Rightarrow> string \<times> pyval" where
  "redact_field kv =
     (let (k, v) = kv
      in if k \<in> set SECRET_FIELDS \<and> v \<noteq> PNone \<and> strip (py_str v) \<noteq> [] then (k, PStr ''<redacted>'') else (k, v))"

definition redact_settings_payload :: "pydict \<Rightarrow> pydict" where
  "redact_settings_payload s =
     (let payload = map redact_field s
      in dset payload ''database_url'' (PStr (redact_url_credentials (str_of payload ''database_url'' []))))"

section \<open>Settings have their types\<close>

fun is_bool :: "pyval \<Rightarrow> bool" where
  "is_bool (PBool _) = True" | "is_bool _ = False"

fun is_whole :: "pyval \<Rightarrow> bool" where
  "is_whole (PInt _) = True" | "is_whole (PBool _) = True" | "is_whole _ = False"

fun is_str_list :: "pyval \<Rightarrow> bool" where
  "is_str_list (PList vs) = list_all is_str vs" | "is_str_list _ = False"

datatype field_kind = BoolField | IntField | CsvField | LowerField | OtherField

definition kind_of :: "string \<Rightarrow> field_kind" where
  "kind_of k = (if k \<in> set BOOL_FIELDS then BoolField else if k \<in> set INT_FIELDS then IntField
     else if k \<in> set CSV_TUPLE_FIELDS then CsvField else if k \<in> set LOWERCASE_FIELDS then LowerField else OtherField)"

fun of_kind :: "field_kind \<Rightarrow> pyval \<Rightarrow> bool" where
  "of_kind BoolField v = is_bool v"
| "of_kind IntField v = is_whole v"
| "of_kind CsvField v = is_str_list v"
| "of_kind LowerField v = is_str v"
| "of_kind OtherField v = True"

definition field_typed :: "string \<Rightarrow> pyval \<Rightarrow> bool" where
  "field_typed k v = of_kind (kind_of k) v"

definition settings_typed :: "pydict \<Rightarrow> bool" where
  "settings_typed s \<longleftrightarrow> dkeys s = dkeys (settings_data (\<lambda>_. None)) \<and> list_all (\<lambda>(k, v). field_typed k v) s"

lemma dkeys_settings_data: "dkeys (settings_data getenv) = dkeys (settings_data (\<lambda>_. None))"
  by (simp add: settings_data_def dkeys_def)

lemma str_py_list_typed [simp]: "is_str_list (str_py_list xs)"
  by (auto simp: str_py_list_def list_all_iff)

lemma env_typed [simp]:
  "is_str (env_text getenv k t)" "is_str (env_lower getenv k t)" "is_bool (env_bool getenv k b)"
  "is_whole (env_int_or getenv k i)" "is_str_list (env_csv getenv k ts)"
  by (simp_all add: env_text_def env_lower_def env_bool_def env_int_or_def env_csv_def)

lemma settings_kinds: "map kind_of (dkeys (settings_data (\<lambda>_. None))) =
    [OtherField, OtherField, LowerField, BoolField, OtherField, OtherField, OtherField, OtherField, OtherField,
     OtherField, BoolField, OtherField, OtherField, OtherField, IntField, IntField, CsvField, OtherField,
     BoolField, LowerField, OtherField, OtherField, OtherField, OtherField, LowerField, BoolField, OtherField,
     OtherField, IntField, BoolField, OtherField, OtherField, IntField, LowerField, IntField, IntField, IntField,
     BoolField, LowerField, OtherField, OtherField, LowerField, OtherField, OtherField, OtherField, OtherField,
     LowerField, OtherField, LowerField, IntField, IntField, IntField, BoolField, IntField, IntField, BoolField,
     IntField, IntField, BoolField, OtherField, BoolField, IntField, OtherField, BoolField, OtherField, IntField,
     BoolField]"
  by code_simp

lemma typed_by_kinds: "list_all2 of_kind (map kind_of (dkeys s)) (map snd s) \<Longrightarrow> list_all (\<lambda>(k, v). field_typed k v) s"
  by (induction s) (auto simp: dkeys_def field_typed_def)

lemma base_settings_typed: "settings_typed (settings_data getenv)"
proof -
  have "list_all2 of_kind (map kind_of (dkeys (settings_data getenv))) (map snd (settings_data getenv))"
    unfolding dkeys_settings_data [of getenv] settings_kinds
    unfolding settings_data_def list.map snd_conv
    by (simp only: list_all2_Cons list_all2_Nil of_kind.simps env_typed simp_thms)
  from typed_by_kinds [OF this] show ?thesis by (simp only: settings_typed_def dkeys_settings_data [of getenv] simp_thms)
qed

lemma coerced_typed: "coerce_config_override k v = Inr v' \<Longrightarrow> field_typed k v'"
  unfolding coerce_config_override_def field_typed_def kind_of_def
  by (auto simp: Let_def split: if_split_asm pyval.split_asm)

lemma dkeys_dset_mem: "k \<in> set (dkeys d) \<Longrightarrow> dkeys (dset d k v) = dkeys d"
  by (induction d k v rule: dset.induct) (auto simp: dkeys_def)

lemma list_all_dset: "list_all (\<lambda>(k, v). P k v) d \<Longrightarrow> P k v \<Longrightarrow> list_all (\<lambda>(k, v). P k v) (dset d k v)"
  by (induction d k v rule: dset.induct) auto

lemma apply_overrides_typed:
  "apply_overrides s overrides = Inr s' \<Longrightarrow> settings_typed s \<Longrightarrow> list_all (\<lambda>k. k \<in> set (dkeys s)) (dkeys overrides) \<Longrightarrow>
     settings_typed s'"
proof (induction s overrides rule: apply_overrides.induct)
  case (2 s k v rest)
  from "2.prems"(1) obtain v' where v': "coerce_config_override k v = Inr v'"
    and rest: "apply_overrides (dset s k v') rest = Inr s'" by (auto simp: rbind_eq_Inr_iff)
  from "2.prems"(3) have k: "k \<in> set (dkeys s)" and ks: "list_all (\<lambda>k. k \<in> set (dkeys s)) (dkeys rest)"
    by (simp_all add: dkeys_def [of "(k, v) # rest"], simp add: dkeys_def)
  from "2.prems"(2) have "settings_typed (dset s k v')"
    by (simp add: settings_typed_def dkeys_dset_mem [OF k] list_all_dset coerced_typed [OF v'])
  with "2.IH" [OF rest] ks show ?case by (simp add: dkeys_dset_mem [OF k])
qed simp

section \<open>What the checks establish\<close>

definition setting :: "pydict \<Rightarrow> string \<Rightarrow> int" where
  "setting s k = (case number_field (fld s k) of Inr i \<Rightarrow> i | Inl _ \<Rightarrow> 0)"

definition auth_mode_of :: "pydict \<Rightarrow> string" where
  "auth_mode_of s = lower (strip (py_str (fld s ''auth_mode'')))"

definition POSITIVE_FIELDS :: "string list" where
  "POSITIVE_FIELDS = [''opensearch_timeout_ms'', ''qdrant_timeout_ms'', ''embeddings_dimensions'', ''query_max_bytes'',
     ''retrieval_max_bytes'', ''audit_outbox_dispatch_batch_size'', ''audit_outbox_max_attempts'',
     ''worker_max_active_per_workspace'', ''gateway_query_cache_ttl_seconds'', ''gateway_query_cache_max_entries'',
     ''worker_step_timeout_seconds'', ''worker_step_max_items'', ''plugin_max_runtime_seconds'']"

definition CHOICES :: "(string \<times> string list) list" where
  "CHOICES = [(''query_engine'', [''duckdb'', ''trino'']), (''retrieval_backend'', [''filesystem'', ''opensearch'', ''qdrant'']),
     (''secrets_store_backend'', [''local_encrypted'', ''vault'']), (''audit_sink_type'', [''disabled'', ''jsonl'', ''webhook'']),
     (''audit_sink_mode'', [''outbox'', ''inline'']), (''ai_provider'', [''disabled'', ''mock''])]"

text \<open>
  Limits are positive, choices are supported ones, and authentication is configured for its mode:
  a proxy's claims are trusted on an open address only if that is said so, and a token mode has keys
  to check with and an algorithm.
\<close>

definition services_ok :: "pydict \<Rightarrow> bool" where
  "services_ok s \<longleftrightarrow> list_all (\<lambda>k. 0 < setting s k) POSITIVE_FIELDS \<and> 0 \<le> setting s ''artifact_rotation_keep_previous_keys'' \<and>
     list_all (\<lambda>(k, texts). py_str (fld s k) \<in> set texts) CHOICES"

definition auth_ok :: "pydict \<Rightarrow> bool" where
  "auth_ok s \<longleftrightarrow> auth_mode_of s \<in> set SUPPORTED_AUTH_MODES \<and>
     (if is_local_bind s = Inr False \<and> py_truth (fld s ''require_auth_for_non_local'') \<and> proxy_mode (auth_mode_of s)
      then py_truth (fld s ''oidc_trusted_proxy'') else True) \<and>
     (if proxy_mode (auth_mode_of s) then strip (py_str (fld s ''oidc_claims_header'')) \<noteq> [] else True) \<and>
     (if auth_mode_of s = ''oidc_jwt''
      then (py_truth (fld s ''oidc_jwks_url'') \<or> py_truth (fld s ''oidc_required_issuer'')) \<and>
        0 < setting s ''oidc_jwks_cache_ttl_seconds'' \<and> 0 \<le> setting s ''oidc_clock_skew_seconds'' \<and>
        py_truth (fld s ''oidc_jwt_allowed_algs'') else True)"

lemma require_that_Inr [simp]: "require_that ok message = Inr () \<longleftrightarrow> ok"
  by (simp add: require_that_def)

lemma all_pass_Inr: "all_pass rs = Inr () \<longleftrightarrow> list_all (\<lambda>r. r = Inr ()) rs"
  by (induction rs) (auto simp: rbind_eq_Inr_iff)

lemma at_least_Inr: "at_least n s k message = Inr () \<longleftrightarrow> (\<exists>i. number_field (fld s k) = Inr i \<and> n \<le> i)"
  by (auto simp: at_least_def rbind_eq_Inr_iff)

lemma at_least_setting: "at_least n s k message = Inr () \<Longrightarrow> n \<le> setting s k"
  by (auto simp: at_least_Inr setting_def)

lemma one_of_Inr: "one_of s k texts message = Inr () \<Longrightarrow> py_str (fld s k) \<in> set texts"
  by (auto simp: one_of_def rbind_eq_Inr_iff is_member_def split: pyval.split_asm)

lemma text_field_Inr: "text_field v = Inr t \<longleftrightarrow> v = PStr t"
  by (cases v) (simp_all add: text_field_def)

lemma service_checks_ok: "all_pass (service_checks s) = Inr () \<Longrightarrow> services_ok s"
  unfolding services_ok_def POSITIVE_FIELDS_def CHOICES_def all_pass_Inr service_checks_def
  by (simp only: list.pred_inject prod.case)
     (blast dest: at_least_setting one_of_Inr intro: order_less_le_trans [OF zero_less_one])

lemma validated_settings_ok:
  assumes "validate_settings s = Inr ()"
  shows "auth_ok s \<and> services_ok s"
proof -
  from assms obtain t open_bind where t: "fld s ''auth_mode'' = PStr t" and mode: "auth_mode_of s \<in> set SUPPORTED_AUTH_MODES"
    and bind: "is_local_bind s = Inr open_bind"
    and checks: "all_pass (auth_checks s (auth_mode_of s) open_bind @ service_checks s) = Inr ()"
    by (auto simp: validate_settings_def Let_def rbind_eq_Inr_iff text_field_Inr auth_mode_of_def)
  from checks have "services_ok s" by (simp add: all_pass_Inr service_checks_ok)
  moreover from checks mode bind have "auth_ok s"
    by (auto simp: auth_ok_def auth_checks_def all_pass_Inr rbind_eq_Inr_iff text_field_Inr
        intro: order_less_le_trans [OF zero_less_one] dest: at_least_setting split: if_split_asm)
  ultimately show ?thesis by blast
qed

section \<open>Properties\<close>

definition demo_config :: config_env where
  "demo_config = \<lparr>cf_getenv = (\<lambda>k. if k = ''SCHEMAPILOT_BIND_ADDRESS'' then Some ''0.0.0.0'' else None),
     cf_read = (\<lambda>path. if path = ''/etc/pilot.yaml'' then Some (Inr (''ai_provider: MOCK # on'' @ [char_of (10::nat)] @ ''query_max_bytes: 42''))
       else None), cf_loads = (\<lambda>_. None)\<rparr>"



text \<open>
  An open address with nothing else set is accepted: the mode \<open>local\<close>, whose tokens are known,
  passes. The guard that asks for an explicit mode never fires, since the modes it names are
  refused before.
\<close>

lemma open_bind_accepts_local_mode:
  "case load_settings demo_config None of Inr s \<Rightarrow> is_local_bind s = Inr False \<and> auth_mode_of s = ''local'' | Inl _ \<Rightarrow> False"
  by code_simp

lemma explicit_mode_guard_never_fires: "mode \<in> set SUPPORTED_AUTH_MODES \<Longrightarrow> mode \<notin> set [[], ''none'', ''disabled'']"
  by (auto simp: SUPPORTED_AUTH_MODES_def)

section \<open>Redaction hides the secrets\<close>

definition with_secrets :: "pydict \<Rightarrow> string \<Rightarrow> string \<Rightarrow> string \<Rightarrow> string \<Rightarrow> pydict" where
  "with_secrets s url key token target =
     dset (dset (dset (dset s ''database_url'' (PStr url)) ''secrets_master_key'' (PStr key)) ''vault_token'' (PStr token))
       ''audit_sink_target'' (PStr target)"

lemma dset_commute: "k \<in> set (dkeys d) \<Longrightarrow> k \<noteq> k' \<Longrightarrow> dset (dset d k' w) k v = dset (dset d k v) k' w"
proof (induction d)
  case (Cons p d)
  then show ?case by (cases p) (force simp: dkeys_def)
qed (simp add: dkeys_def)

lemma dset_twice: "dset (dset d k v) k w = dset d k w"
  by (induction d) auto

lemma map_redact_dset: "map redact_field (dset d k v) = dset (map redact_field d) k (snd (redact_field (k, v)))"
  by (induction d k v rule: dset.induct) (auto simp: redact_field_def Let_def)

lemma redacted_secret: "k \<in> set SECRET_FIELDS \<Longrightarrow> strip t \<noteq> [] \<Longrightarrow> redact_field (k, PStr t) = (k, PStr ''<redacted>'')"
  by (simp add: redact_field_def)

lemma split_at_scheme:
  "CHR '':'' \<notin> set scheme \<Longrightarrow> split_at ''://'' (scheme @ ''://'' @ rest) = Some (scheme, rest)"
  by (induction scheme) (auto simp: startswith_def)

lemma redact_url_host:
  assumes "CHR '':'' \<notin> set scheme" "CHR ''@'' \<notin> set host"
  shows "redact_url_credentials (scheme @ ''://'' @ cred @ ''@'' @ host) = scheme @ ''://<redacted>@'' @ host"
proof -
  have "takeWhile (\<lambda>c. c \<noteq> CHR ''@'') (rev host @ CHR ''@'' # rev cred) = rev host"
    using assms(2) by (subst takeWhile_append2) auto
  then have "takeWhile (\<lambda>c. c \<noteq> CHR ''@'') (rev (cred @ ''@'' @ host)) = rev host" by simp
  then show ?thesis unfolding redact_url_credentials_def split_at_scheme [OF assms(1)] by simp
qed

lemma redact_with_secrets:
  assumes "strip key \<noteq> []" "strip token \<noteq> []" "strip target \<noteq> []"
  shows "redact_settings_payload (with_secrets s url key token target) =
    dset (dset (dset (dset (map redact_field s) ''database_url'' (PStr (redact_url_credentials url)))
      ''secrets_master_key'' (PStr ''<redacted>'')) ''vault_token'' (PStr ''<redacted>'')) ''audit_sink_target'' (PStr ''<redacted>'')"
proof -
  have plain: "redact_field (''database_url'', v) = (''database_url'', v)" for v
    by (simp add: redact_field_def SECRET_FIELDS_def)
  have secret: "''secrets_master_key'' \<in> set SECRET_FIELDS" "''vault_token'' \<in> set SECRET_FIELDS"
    "''audit_sink_target'' \<in> set SECRET_FIELDS" by (simp_all add: SECRET_FIELDS_def)
  show ?thesis
    unfolding redact_settings_payload_def with_secrets_def map_redact_dset Let_def plain
      redacted_secret [OF secret(1) assms(1)] redacted_secret [OF secret(2) assms(2)] redacted_secret [OF secret(3) assms(3)]
    by (simp add: dset_commute dset_twice)
qed

text \<open>
  C30. The redacted settings do not depend on a secret: two settings that differ only in the master key,
  the token of the vault, the target of the audit sink and the credentials of the database URL have
  the same redacted form.
\<close>

theorem redaction_hides_secrets:
  assumes "CHR '':'' \<notin> set scheme" "CHR ''@'' \<notin> set host"
    and "strip key \<noteq> []" "strip token \<noteq> []" "strip target \<noteq> []"
    and "strip key' \<noteq> []" "strip token' \<noteq> []" "strip target' \<noteq> []"
  shows "redact_settings_payload (with_secrets s (scheme @ ''://'' @ cred @ ''@'' @ host) key token target) =
         redact_settings_payload (with_secrets s (scheme @ ''://'' @ cred' @ ''@'' @ host) key' token' target')"
  unfolding redact_with_secrets [OF assms(3-5)] redact_with_secrets [OF assms(6-8)] redact_url_host [OF assms(1,2)] ..

theorem redaction_hides_secrets_witness:
  "redact_settings_payload (with_secrets [] (''pg'' @ ''://'' @ ''ann:pw'' @ ''@'' @ ''db'') ''k1'' ''t1'' ''a1'') =
   redact_settings_payload (with_secrets [] (''pg'' @ ''://'' @ ''bob'' @ ''@'' @ ''db'') ''k2'' ''t2'' ''a2'')"
  by (rule redaction_hides_secrets) code_simp+

end
