(* ===== verification/Trino.thy ===== *)
theory Trino
  imports GatewayQuery Auth Floats "HOL-Library.Sublist"
begin

text \<open>
  The Trino adapter of the gateway (\<open>backend/gateway/executor_trino.py\<close>): one statement is posted,
  the pages of its result are followed up to a budget, each exchange is retried, and a query that
  runs over its deadline is cancelled. The exchange over HTTP and the clock are arguments; the
  requests sent and the clock readings taken are the state. The waits between attempts are left out.
\<close>

section \<open>Exchanges\<close>

record trino_request =
  tq_method :: string
  tq_url :: string
  tq_payload :: "string option"
  tq_headers :: "(string \<times> string) list"
  tq_timeout :: pyfloat

text \<open>
  \<open>te_urlopen n\<close> is what the \<open>n\<close>-th request ends with, an exception or the text of the body, and
  \<open>te_clock n\<close> the \<open>n\<close>-th reading of \<open>perf_counter\<close>.
\<close>

record trino_env =
  te_urlopen :: "nat \<Rightarrow> trino_request \<Rightarrow> string res"
  te_loads :: "string \<Rightarrow> json_text"
  te_clock :: "nat \<Rightarrow> pyfloat"

record trino_state =
  ts_sent :: "trino_request list"
  ts_ticks :: nat

type_synonym 'a trino = "trino_state \<Rightarrow> 'a res \<times> trino_state"

definition qbind :: "'a trino \<Rightarrow> ('a \<Rightarrow> 'b trino) \<Rightarrow> 'b trino" where
  "qbind m f s = (case m s of (Inl e, s') \<Rightarrow> (Inl e, s') | (Inr x, s') \<Rightarrow> f x s')"

definition qres :: "'a res \<Rightarrow> 'a trino" where
  "qres r s = (r, s)"

definition perf_counter :: "trino_env \<Rightarrow> pyfloat trino" where
  "perf_counter env s = (Inr (te_clock env (ts_ticks s)), s\<lparr>ts_ticks := Suc (ts_ticks s)\<rparr>)"

definition parse_body :: "trino_env \<Rightarrow> string \<Rightarrow> pydict res" where
  "parse_body env body =
     (if strip body = [] then Inr []
      else case te_loads env body of
          Some (PDict parsed) \<Rightarrow> Inr parsed
        | Some _ \<Rightarrow> Inl (ValueError ''Trino response must be a JSON object.'')
        | None \<Rightarrow> Inl (ValueError ''json''))"

definition trino_request_json :: "trino_env \<Rightarrow> trino_request \<Rightarrow> pydict trino" where
  "trino_request_json env rq s =
     (rbind (te_urlopen env (length (ts_sent s)) rq) (parse_body env), s\<lparr>ts_sent := ts_sent s @ [rq]\<rparr>)"

text \<open>The exceptions that are tried again.\<close>

definition retryable :: "exn \<Rightarrow> bool" where
  "retryable e = (is_value_error e \<or> e = TimeoutError \<or> (case e of OSError _ \<Rightarrow> True | _ \<Rightarrow> False))"

text \<open>At most \<open>n + 1\<close> attempts.\<close>

fun attempts :: "trino_env \<Rightarrow> trino_request \<Rightarrow> nat \<Rightarrow> pydict trino" where
  "attempts env rq n s =
     (case trino_request_json env rq s of
        (Inr d, s') \<Rightarrow> (Inr d, s')
      | (Inl e, s') \<Rightarrow>
          if \<not> retryable e then (Inl e, s')
          else case n of
              0 \<Rightarrow> (Inl (ValueError (''trino_request_failed:'' @ exn_text e)), s')
            | Suc k \<Rightarrow> attempts env rq k s')"

declare attempts.simps [simp del]

definition request_json_with_retries :: "trino_env \<Rightarrow> int \<Rightarrow> trino_request \<Rightarrow> pydict trino" where
  "request_json_with_retries env max_retries rq = attempts env rq (nat (max 1 (max_retries + 1)) - 1)"

section \<open>Reading a page\<close>

definition column_of :: "pydict \<Rightarrow> column" where
  "column_of item = (strip (str_of item ''name'' []), str_of item ''type'' ''unknown'')"

definition extract_columns :: "pydict \<Rightarrow> column list" where
  "extract_columns response =
     filter (\<lambda>c. fst c \<noteq> []) (map (\<lambda>item. column_of (as_dict item))
       (filter is_dict (as_list (dget_or response ''columns'' (PList [])))))"

text \<open>The loop of \<open>_extract_rows\<close>: a row is kept before the limit is checked.\<close>

fun keep_rows :: "int \<Rightarrow> row list \<Rightarrow> pyval list \<Rightarrow> row list" where
  "keep_rows max_rows kept [] = kept"
| "keep_rows max_rows kept (PList cells # rest) =
     (if int (length (kept @ [cells])) \<ge> max_rows then kept @ [cells] else keep_rows max_rows (kept @ [cells]) rest)"
| "keep_rows max_rows kept (_ # rest) = keep_rows max_rows kept rest"

definition page_data :: "pydict \<Rightarrow> pyval list" where
  "page_data response = as_list (dget_or response ''data'' (PList []))"

definition extract_rows :: "pydict \<Rightarrow> int \<Rightarrow> row list" where
  "extract_rows response max_rows = keep_rows max_rows [] (page_data response)"

definition extract_processed_bytes :: "pydict \<Rightarrow> int res" where
  "extract_processed_bytes response =
     (case dget_or response ''stats'' (PDict []) of
        PDict stats \<Rightarrow>
          (case dget_or stats ''processedBytes'' (PInt 0) of
             PStr t \<Rightarrow> Inr (case parse_int (strip t) of None \<Rightarrow> 0 | Some i \<Rightarrow> i)
           | PInt i \<Rightarrow> Inr i
           | PBool b \<Rightarrow> py_int (PBool b)
           | PFloat t i \<Rightarrow> py_int (PFloat t i)
           | _ \<Rightarrow> Inr 0)
      | _ \<Rightarrow> Inr 0)"

section \<open>Running a statement\<close>

record trino_config =
  tc_url :: string
  tc_user :: string
  tc_catalog :: string
  tc_schema :: string

text \<open>The variables of the loop over the pages.\<close>

record trino_loop =
  tl_query_id :: string
  tl_columns :: "column list"
  tl_rows :: "row list"
  tl_bytes :: int
  tl_next :: string

definition cancel_trino_query :: "trino_env \<Rightarrow> trino_config \<Rightarrow> string \<Rightarrow> pyfloat \<Rightarrow> int \<Rightarrow> trino_state \<Rightarrow> trino_state" where
  "cancel_trino_query env cfg query_id timeout max_retries s =
     (if strip query_id = [] then s
      else snd (request_json_with_retries env max_retries
        \<lparr>tq_method = ''DELETE'', tq_url = rstrip_slashes (tc_url cfg) @ ''/v1/query/'' @ strip query_id, tq_payload = None,
         tq_headers = [], tq_timeout = timeout\<rparr> s))"

definition mentions_timeout :: "exn \<Rightarrow> bool" where
  "mentions_timeout e = (is_value_error e \<and> contains ''timeout'' (lower (exn_text e)))"

definition first_page :: "pydict \<Rightarrow> int \<Rightarrow> trino_loop res" where
  "first_page response max_rows =
     rbind (extract_processed_bytes response) (\<lambda>bytes.
     Inr \<lparr>tl_query_id = strip (str_of response ''id'' []), tl_columns = extract_columns response,
       tl_rows = extract_rows response max_rows, tl_bytes = bytes, tl_next = strip (str_of response ''nextUri'' [])\<rparr>)"

definition next_page :: "trino_loop \<Rightarrow> pydict \<Rightarrow> int \<Rightarrow> trino_loop res" where
  "next_page l page max_rows =
     rbind (extract_processed_bytes page) (\<lambda>bytes.
     Inr \<lparr>tl_query_id = (if tl_query_id l = [] then strip (str_of page ''id'' []) else tl_query_id l),
       tl_columns = (if tl_columns l = [] then extract_columns page else tl_columns l),
       tl_rows = tl_rows l @ extract_rows page (max_rows - int (length (tl_rows l))), tl_bytes = max (tl_bytes l) bytes,
       tl_next = strip (str_of page ''nextUri'' [])\<rparr>)"

definition page_request :: "string \<Rightarrow> pyfloat \<Rightarrow> trino_request" where
  "page_request url timeout = \<lparr>tq_method = ''GET'', tq_url = url, tq_payload = None, tq_headers = [], tq_timeout = timeout\<rparr>"

text \<open>The loop, with the page budget as its fuel.\<close>

fun pages_loop :: "trino_env \<Rightarrow> trino_config \<Rightarrow> int \<Rightarrow> int \<Rightarrow> pyfloat \<Rightarrow> pyfloat \<Rightarrow> nat \<Rightarrow> trino_loop \<Rightarrow> trino_loop trino" where
  "pages_loop env cfg max_rows max_retries timeout deadline 0 l s = (Inr l, s)"
| "pages_loop env cfg max_rows max_retries timeout deadline (Suc budget) l s =
     (if tl_next l = [] \<or> max_rows \<le> int (length (tl_rows l)) then (Inr l, s)
      else case perf_counter env s of
        (Inl e, s1) \<Rightarrow> (Inl e, s1)
      | (Inr now, s1) \<Rightarrow>
        if fless deadline now
        then (Inl TimeoutError, cancel_trino_query env cfg (tl_query_id l) timeout max_retries s1)
        else case request_json_with_retries env max_retries (page_request (tl_next l) timeout) s1 of
          (Inl e, s2) \<Rightarrow>
            if mentions_timeout e then (Inl TimeoutError, cancel_trino_query env cfg (tl_query_id l) timeout max_retries s2)
            else (Inl e, s2)
        | (Inr page, s2) \<Rightarrow>
            (case next_page l page max_rows of
               Inl e \<Rightarrow> (Inl e, s2)
             | Inr l' \<Rightarrow> pages_loop env cfg max_rows max_retries timeout deadline budget l' s2))"

text \<open>\<open>xs[:n]\<close>\<close>

definition slice_to :: "'a list \<Rightarrow> int \<Rightarrow> 'a list" where
  "slice_to xs n = (if 0 \<le> n then take (nat n) xs else take (length xs - nat (- n)) xs)"

definition statement_request :: "trino_config \<Rightarrow> string \<Rightarrow> string option \<Rightarrow> pyfloat \<Rightarrow> trino_request" where
  "statement_request cfg query request_id timeout =
     \<lparr>tq_method = ''POST'', tq_url = rstrip_slashes (tc_url cfg) @ ''/v1/statement'', tq_payload = Some query,
      tq_headers = [(''Content-Type'', ''text/plain; charset=utf-8''), (''X-Trino-User'', tc_user cfg),
          (''X-Trino-Catalog'', tc_catalog cfg), (''X-Trino-Schema'', tc_schema cfg)] @
        (case given request_id of None \<Rightarrow> [] | Some i \<Rightarrow> [(''X-Trino-Client-Info'', ''schemapilot_request_id='' @ i)]),
      tq_timeout = timeout\<rparr>"

definition PAGE_BUDGET :: nat where
  "PAGE_BUDGET = 50"

definition execute_sql_trino_with_metadata ::
  "trino_env \<Rightarrow> trino_config \<Rightarrow> string \<Rightarrow> int \<Rightarrow> int \<Rightarrow> int \<Rightarrow> string option \<Rightarrow> (column list \<times> row list \<times> pydict) trino" where
  "execute_sql_trino_with_metadata env cfg query max_rows timeout_ms max_retries request_id =
     qbind (qres (rbind (py_float (PInt timeout_ms)) (\<lambda>ms. fdiv ms (Fin 1000)))) (\<lambda>seconds.
     let timeout = fmax (Fin 1) seconds
     in qbind (perf_counter env) (\<lambda>t0.
        qbind (perf_counter env) (\<lambda>started s.
        case request_json_with_retries env max_retries (statement_request cfg query request_id timeout) s of
          (Inl e, s1) \<Rightarrow> (Inl (if mentions_timeout e then TimeoutError else e), s1)
        | (Inr response, s1) \<Rightarrow>
            qbind (qres (first_page response max_rows)) (\<lambda>l.
            qbind (pages_loop env cfg max_rows max_retries timeout (fadd t0 timeout) PAGE_BUDGET l) (\<lambda>l'.
            qbind (perf_counter env) (\<lambda>now.
            qres (Inr (tl_columns l', slice_to (tl_rows l') max_rows,
              [(''query_id'', PStr (tl_query_id l')), (''bytes_scanned'', PInt (tl_bytes l')),
               (''elapsed_ms'', of_float (fround 3 (fmul (fsub now started) (Fin 1000))))]))))) s1)))"

definition execute_sql_trino ::
  "trino_env \<Rightarrow> trino_config \<Rightarrow> string \<Rightarrow> int \<Rightarrow> int \<Rightarrow> int \<Rightarrow> (column list \<times> row list) trino" where
  "execute_sql_trino env cfg query max_rows timeout_ms max_retries =
     qbind (execute_sql_trino_with_metadata env cfg query max_rows timeout_ms max_retries None)
       (\<lambda>(cols, rs, _). qres (Inr (cols, rs)))"

section \<open>Requests are bounded\<close>

definition attempts_of :: "int \<Rightarrow> nat" where
  "attempts_of max_retries = nat (max 1 (max_retries + 1))"

definition logged :: "trino_request \<Rightarrow> nat \<Rightarrow> trino_state \<Rightarrow> trino_state \<Rightarrow> bool" where
  "logged rq n s s' \<longleftrightarrow> (\<exists>k. 0 < k \<and> k \<le> n \<and> ts_sent s' = ts_sent s @ replicate k rq)"

lemma request_logs: "snd (trino_request_json env rq s) = s\<lparr>ts_sent := ts_sent s @ [rq]\<rparr>"
  by (simp add: trino_request_json_def)

lemma attempts_logged: "logged rq (Suc n) s (snd (attempts env rq n s))"
proof (induction n arbitrary: s)
  case 0
  then show ?case
    by (subst attempts.simps) (auto simp: logged_def trino_request_json_def split: sum.split intro!: exI [of _ 1])
next
  case (Suc n)
  let ?s1 = "s\<lparr>ts_sent := ts_sent s @ [rq]\<rparr>"
  from Suc [of ?s1] obtain k where k: "0 < k" "k \<le> Suc n" "ts_sent (snd (attempts env rq n ?s1)) = ts_sent s @ replicate (Suc k) rq"
    by (auto simp: logged_def)
  then have again: "logged rq (Suc (Suc n)) s (snd (attempts env rq n ?s1))" unfolding logged_def by (intro exI [of _ "Suc k"]) simp
  have once: "logged rq (Suc (Suc n)) s ?s1" unfolding logged_def by (intro exI [of _ 1]) simp
  show ?case using again once by (subst attempts.simps) (simp add: trino_request_json_def split: sum.split)
qed

lemma retries_logged: "logged rq (attempts_of max_retries) s (snd (request_json_with_retries env max_retries rq s))"
  using attempts_logged [of rq "attempts_of max_retries - 1" s env]
  by (simp add: request_json_with_retries_def attempts_of_def Suc_pred del: One_nat_def)

lemma logged_length: "logged rq n s s' \<Longrightarrow> length (ts_sent s') \<le> length (ts_sent s) + n"
  by (auto simp: logged_def)

lemma cancel_length: "length (ts_sent (cancel_trino_query env cfg i t r s)) \<le> length (ts_sent s) + attempts_of r"
  by (simp add: cancel_trino_query_def logged_length [OF retries_logged])

lemma perf_counter_sent [simp]: "ts_sent (snd (perf_counter env s)) = ts_sent s"
  by (simp add: perf_counter_def)

lemma pages_loop_length:
  "length (ts_sent (snd (pages_loop env cfg m r t d budget l s))) \<le> length (ts_sent s) + (budget + 1) * attempts_of r"
proof (induction budget arbitrary: l s)
  case (Suc budget)
  let ?s1 = "s\<lparr>ts_ticks := Suc (ts_ticks s)\<rparr>"
  obtain e s2 where call: "request_json_with_retries env r (page_request (tl_next l) t) ?s1 = (e, s2)" by fastforce
  from logged_length [OF retries_logged [of "page_request (tl_next l) t" r ?s1 env]] call
  have s2: "length (ts_sent s2) \<le> length (ts_sent s) + attempts_of r" by simp
  have cancel: "length (ts_sent (cancel_trino_query env cfg i t r s2)) \<le> length (ts_sent s) + (Suc budget + 1) * attempts_of r" for i
    using cancel_length [of env cfg i t r s2] s2 by (simp add: algebra_simps)
  have late: "length (ts_sent (cancel_trino_query env cfg i t r ?s1)) \<le> length (ts_sent s) + (Suc budget + 1) * attempts_of r" for i
    using cancel_length [of env cfg i t r ?s1] by (simp add: algebra_simps)
  have more: "length (ts_sent (snd (pages_loop env cfg m r t d budget l' s2))) \<le> length (ts_sent s) + (Suc budget + 1) * attempts_of r" for l'
    using Suc [of l' s2] s2 by (simp add: algebra_simps)
  show ?case using cancel late more s2 call by (simp add: perf_counter_def split: sum.split)
qed simp

section \<open>Rows\<close>

definition page_rows :: "pydict \<Rightarrow> row list" where
  "page_rows response = map as_list (filter is_list (page_data response))"

lemma keep_rows_take:
  "keep_rows n kept data = kept @ take (nat (max 1 (n - int (length kept)))) (map as_list (filter is_list data))"
proof (induction n kept data rule: keep_rows.induct)
  case (2 n kept cells rest)
  show ?case
  proof (cases "int (length (kept @ [cells])) \<ge> n")
    case True
    then have "nat (max 1 (n - int (length kept))) = 1" by simp
    with True show ?thesis by simp
  next
    case False
    then have "nat (max 1 (n - int (length kept))) = Suc (nat (max 1 (n - int (length (kept @ [cells])))))" by simp
    with "2.IH" [OF False] False show ?thesis by simp
  qed
qed simp_all

lemma extract_rows_take: "extract_rows response n = take (nat (max 1 n)) (page_rows response)"
  by (simp add: extract_rows_def keep_rows_take page_rows_def)

lemma take_take_append: "take n (take n xs @ ys) = take n (xs @ ys)"
  by (simp add: min_def)

text \<open>The replies to the requests sent, in their order.\<close>

definition replies :: "trino_env \<Rightarrow> trino_request list \<Rightarrow> pydict res list" where
  "replies env sent = map (\<lambda>i. rbind (te_urlopen env i (sent ! i)) (parse_body env)) [0..<length sent]"

lemma replies_snoc: "replies env (sent @ [rq]) = replies env sent @ [rbind (te_urlopen env (length sent) rq) (parse_body env)]"
  by (simp add: replies_def nth_append)

lemma attempts_reply:
  "attempts env rq n s = (Inr d, s') \<Longrightarrow> subseq (replies env (ts_sent s) @ [Inr d]) (replies env (ts_sent s'))"
proof (induction n arbitrary: s)
  case 0
  then show ?case by (subst (asm) attempts.simps) (auto simp: trino_request_json_def replies_snoc split: sum.split_asm if_split_asm)
next
  case (Suc n)
  let ?s1 = "s\<lparr>ts_sent := ts_sent s @ [rq]\<rparr>" and ?r = "rbind (te_urlopen env (length (ts_sent s)) rq) (parse_body env)"
  show ?case
  proof (cases ?r)
    case (Inr d')
    with Suc.prems show ?thesis by (subst (asm) attempts.simps) (auto simp: trino_request_json_def replies_snoc)
  next
    case (Inl e)
    with Suc.prems have "attempts env rq n ?s1 = (Inr d, s')"
      by (subst (asm) attempts.simps) (auto simp: trino_request_json_def split: if_split_asm)
    from Suc.IH [OF this] have "subseq (replies env (ts_sent s) @ [?r] @ [Inr d]) (replies env (ts_sent s'))"
      by (simp add: replies_snoc)
    moreover have "subseq (replies env (ts_sent s) @ [Inr d]) (replies env (ts_sent s) @ [?r] @ [Inr d])"
      by (intro list_emb_append_mono) (auto intro: list_emb_Cons)
    ultimately show ?thesis by (rule subseq_order.order_trans [rotated])
  qed
qed

lemma retries_reply:
  "request_json_with_retries env r rq s = (Inr d, s') \<Longrightarrow> subseq (replies env (ts_sent s) @ [Inr d]) (replies env (ts_sent s'))"
  by (simp add: request_json_with_retries_def attempts_reply)

lemma next_page_rows:
  assumes "next_page l page m = Inr l'" "int (length (tl_rows l)) < m"
  shows "tl_rows l' = take (nat m) (tl_rows l @ page_rows page)"
proof -
  from assms(2) have "max 1 (m - int (length (tl_rows l))) = m - int (length (tl_rows l))"
    "nat (m - int (length (tl_rows l))) = nat m - length (tl_rows l)" "length (tl_rows l) \<le> nat m" by auto
  with assms(1) show ?thesis by (auto simp: next_page_def rbind_eq_Inr_iff extract_rows_take)
qed

lemma pages_loop_rows:
  "pages_loop env cfg m r t d budget l s = (Inr l', s') \<Longrightarrow> \<exists>pages. length pages \<le> budget \<and>
     subseq (replies env (ts_sent s) @ map Inr pages) (replies env (ts_sent s')) \<and>
     take (nat m) (tl_rows l') = take (nat m) (tl_rows l @ concat (map page_rows pages))"
proof (induction budget arbitrary: l s)
  case 0
  then show ?case by (intro exI [of _ "[]"]) simp
next
  case (Suc budget)
  show ?case
  proof (cases "tl_next l = [] \<or> m \<le> int (length (tl_rows l))")
    case True
    with Suc.prems show ?thesis by (intro exI [of _ "[]"]) auto
  next
    case False
    let ?s1 = "s\<lparr>ts_ticks := Suc (ts_ticks s)\<rparr>"
    from False Suc.prems obtain page s2 l1 where call: "request_json_with_retries env r (page_request (tl_next l) t) ?s1 = (Inr page, s2)"
      and nxt: "next_page l page m = Inr l1" and rest: "pages_loop env cfg m r t d budget l1 s2 = (Inr l', s')"
      by (auto simp: perf_counter_def split: if_split_asm prod.split_asm sum.split_asm)
    from Suc.IH [OF rest] obtain pages where pages: "length pages \<le> budget"
      "subseq (replies env (ts_sent s2) @ map Inr pages) (replies env (ts_sent s'))"
      "take (nat m) (tl_rows l') = take (nat m) (tl_rows l1 @ concat (map page_rows pages))" by blast
    from retries_reply [OF call] have "subseq ((replies env (ts_sent s) @ [Inr page]) @ map Inr pages) (replies env (ts_sent s2) @ map Inr pages)"
      by (intro list_emb_append_mono) simp_all
    with pages(2) have "subseq (replies env (ts_sent s) @ map Inr (page # pages)) (replies env (ts_sent s'))"
      by (simp add: subseq_order.order_trans)
    moreover have "take (nat m) (tl_rows l1 @ concat (map page_rows pages)) = take (nat m) (tl_rows l @ concat (map page_rows (page # pages)))"
      using False by (simp only: next_page_rows [OF nxt] not_le de_Morgan_disj take_take_append append_assoc concat.simps list.map)
    ultimately show ?thesis using pages(1,3) by (intro exI [of _ "page # pages"]) simp
  qed
qed

section \<open>A timeout cancels the query\<close>

lemma attempts_not_timeout: "attempts env rq n s = (Inl e, s') \<Longrightarrow> e \<noteq> TimeoutError"
proof (induction n arbitrary: s)
  case 0
  then show ?case by (subst (asm) attempts.simps) (auto simp: retryable_def split: prod.split_asm sum.split_asm if_split_asm)
next
  case (Suc n)
  show ?case
  proof (cases "trino_request_json env rq s")
    case (Pair r s1)
    with Suc show ?thesis
      by (subst (asm) (2) attempts.simps) (auto simp: retryable_def split: sum.split_asm if_split_asm)
  qed
qed

lemma bytes_not_timeout: "extract_processed_bytes page = Inl e \<Longrightarrow> e \<noteq> TimeoutError"
  by (auto simp: extract_processed_bytes_def split: pyval.split_asm if_split_asm elim!: py_int.elims)

lemma next_page_not_timeout: "next_page l page m = Inl e \<Longrightarrow> e \<noteq> TimeoutError"
  by (cases "extract_processed_bytes page") (auto simp: next_page_def bytes_not_timeout)

lemma next_page_id: "next_page l page m = Inr l' \<Longrightarrow> tl_query_id l \<noteq> [] \<Longrightarrow> tl_query_id l' = tl_query_id l"
  by (auto simp: next_page_def rbind_eq_Inr_iff)

lemma cancel_logs:
  assumes "strip i \<noteq> []"
  shows "tq_method (last (ts_sent (cancel_trino_query env cfg i t r s))) = ''DELETE'' \<and>
         tq_url (last (ts_sent (cancel_trino_query env cfg i t r s))) = rstrip_slashes (tc_url cfg) @ ''/v1/query/'' @ strip i"
proof -
  let ?rq = "\<lparr>tq_method = ''DELETE'', tq_url = rstrip_slashes (tc_url cfg) @ ''/v1/query/'' @ strip i, tq_payload = None,
    tq_headers = [], tq_timeout = t\<rparr>"
  from retries_logged [of ?rq r s env] obtain k where "0 < k"
    "ts_sent (snd (request_json_with_retries env r ?rq s)) = ts_sent s @ replicate k ?rq" by (auto simp: logged_def)
  with assms show ?thesis by (simp add: cancel_trino_query_def)
qed

text \<open>
  A query that is running is never abandoned at a timeout: if the pages end in a timeout, the last
  request sent asks Trino to cancel the query.
\<close>

theorem trino_timeout_cancels:
  assumes "pages_loop env cfg max_rows max_retries timeout deadline budget l s = (Inl TimeoutError, s')"
    and "strip (tl_query_id l) \<noteq> []"
  shows "tq_method (last (ts_sent s')) = ''DELETE'' \<and>
         tq_url (last (ts_sent s')) = rstrip_slashes (tc_url cfg) @ ''/v1/query/'' @ strip (tl_query_id l)"
  using assms
proof (induction budget arbitrary: l s)
  case (Suc budget)
  let ?s1 = "s\<lparr>ts_ticks := Suc (ts_ticks s)\<rparr>"
  obtain e s2 where call: "request_json_with_retries env max_retries (page_request (tl_next l) timeout) ?s1 = (e, s2)" by fastforce
  from Suc.prems(1) have running: "\<not> (tl_next l = [] \<or> max_rows \<le> int (length (tl_rows l)))" by (auto split: if_split_asm)
  show ?case
  proof (cases e)
    case (Inl e')
    with call have "e' \<noteq> TimeoutError" using attempts_not_timeout by (auto simp: request_json_with_retries_def)
    with Suc.prems(1) running call Inl have "\<exists>s0. s' = cancel_trino_query env cfg (tl_query_id l) timeout max_retries s0"
      by (auto simp: perf_counter_def split: if_split_asm)
    then show ?thesis using cancel_logs [OF Suc.prems(2)] by blast
  next
    case (Inr page)
    show ?thesis
    proof (cases "fless deadline (te_clock env (ts_ticks s))")
      case True
      with Suc.prems(1) running have "s' = cancel_trino_query env cfg (tl_query_id l) timeout max_retries ?s1"
        by (simp add: perf_counter_def)
      then show ?thesis using cancel_logs [OF Suc.prems(2)] by blast
    next
      case False
      with Suc.prems(1) running call Inr obtain l1 where nxt: "next_page l page max_rows = Inr l1"
        and rest: "pages_loop env cfg max_rows max_retries timeout deadline budget l1 s2 = (Inl TimeoutError, s')"
        by (auto simp: perf_counter_def next_page_not_timeout split: sum.split_asm)
      have "tl_query_id l \<noteq> []" using Suc.prems(2) by (auto simp: strip_def lstrip_def rstrip_def)
      from next_page_id [OF nxt this] Suc.IH [OF rest] Suc.prems(2) show ?thesis by simp
    qed
  qed
qed simp

section \<open>The result of a statement\<close>

definition trino_start :: trino_state where
  "trino_start = \<lparr>ts_sent = [], ts_ticks = 0\<rparr>"

text \<open>How a statement runs: it is not sent, it fails, its first page is malformed, or its pages are read.\<close>

lemma trino_run_cases:
  assumes "execute_sql_trino_with_metadata env cfg query max_rows timeout_ms max_retries request_id trino_start = (r, s')"
  obtains (unsent) e where "r = Inl e" "ts_sent s' = []"
  | (failed) rq x e where "request_json_with_retries env max_retries rq \<lparr>ts_sent = [], ts_ticks = 2\<rparr> = (x, s')" "r = Inl e"
  | (paged) rq response s1 l t d x s2 where
      "request_json_with_retries env max_retries rq \<lparr>ts_sent = [], ts_ticks = 2\<rparr> = (Inr response, s1)"
      "first_page response max_rows = Inr l" "pages_loop env cfg max_rows max_retries t d PAGE_BUDGET l s1 = (x, s2)"
      "ts_sent s' = ts_sent s2" "case x of Inl e \<Rightarrow> r = Inl e | Inr l' \<Rightarrow> \<exists>m. r = Inr (tl_columns l', slice_to (tl_rows l') max_rows, m)"
proof (cases "rbind (py_float (PInt timeout_ms)) (\<lambda>ms. fdiv ms (Fin 1000))")
  case (Inl e)
  with assms unsent show thesis by (auto simp: execute_sql_trino_with_metadata_def qbind_def qres_def trino_start_def)
next
  case (Inr seconds)
  let ?t = "fmax (Fin 1) seconds" and ?s0 = "\<lparr>ts_sent = [], ts_ticks = 2\<rparr>"
  let ?rq = "statement_request cfg query request_id ?t" and ?d = "fadd (te_clock env 0) ?t"
  note unfold = execute_sql_trino_with_metadata_def qbind_def qres_def trino_start_def perf_counter_def Let_def numeral_2_eq_2
  obtain e s1 where call: "request_json_with_retries env max_retries ?rq ?s0 = (e, s1)" by fastforce
  show thesis
  proof (cases "\<exists>response l. e = Inr response \<and> first_page response max_rows = Inr l")
    case True
    then obtain response l where l: "e = Inr response" "first_page response max_rows = Inr l" by blast
    obtain x s2 where loop: "pages_loop env cfg max_rows max_retries ?t ?d PAGE_BUDGET l s1 = (x, s2)" by fastforce
    with assms Inr call l have "ts_sent s' = ts_sent s2"
      "case x of Inl e \<Rightarrow> r = Inl e | Inr l' \<Rightarrow> \<exists>m. r = Inr (tl_columns l', slice_to (tl_rows l') max_rows, m)"
      by (auto simp: unfold split: sum.split_asm sum.split)
    with call l loop paged show thesis by blast
  next
    case False
    with assms Inr call have "s' = s1" "\<exists>e'. r = Inl e'" by (auto simp: unfold split: sum.split_asm)
    with call failed show thesis by blast
  qed
qed


text \<open>A statement with two pages of which the second is cut.\<close>

definition demo_trino :: trino_env where
  "demo_trino = \<lparr>te_urlopen = (\<lambda>n rq. if n = 1 then Inl (OSError ''reset'') else Inr (if tq_method rq = ''POST'' then ''a'' else ''b'')),
     te_loads = (\<lambda>text. Some (PDict (if text = ''a''
       then [(''id'', PStr ''q1''), (''nextUri'', PStr ''http://t/1''), (''data'', PList [PList [PStr ''us'']]),
             (''columns'', PList [PDict [(''name'', PStr ''region'')]])]
       else [(''data'', PList [PList [PStr ''eu''], PList [PStr ''eu'']])]))),
     te_clock = (\<lambda>n. Fin (of_nat n / 1000))\<rparr>"

definition demo_trino_config :: trino_config where
  "demo_trino_config = \<lparr>tc_url = ''http://t/'', tc_user = ''u'', tc_catalog = ''c'', tc_schema = ''s''\<rparr>"

lemma demo_trino_rows:
  "case execute_sql_trino_with_metadata demo_trino demo_trino_config ''select region from t'' 2 5000 2 None trino_start of
     (Inr (cols, rws, m), s') \<Rightarrow> rws = [[PStr ''us''], [PStr ''eu'']] \<and> map tq_method (ts_sent s') = [''POST'', ''GET'', ''GET'']
   | _ \<Rightarrow> False"
  by code_simp


theorem trino_timeout_cancels_witness:
  "tq_method (last (ts_sent (snd (pages_loop demo_trino demo_trino_config 5 0 (Fin 1) (Fin 0) 50
      \<lparr>tl_query_id = ''q1'', tl_columns = [], tl_rows = [], tl_bytes = 0, tl_next = ''http://t/1''\<rparr> \<lparr>ts_sent = [], ts_ticks = 9\<rparr>)))) = ''DELETE''"
proof -
  let ?l = "\<lparr>tl_query_id = ''q1'', tl_columns = [], tl_rows = [], tl_bytes = 0, tl_next = ''http://t/1''\<rparr>"
  let ?run = "pages_loop demo_trino demo_trino_config 5 0 (Fin 1) (Fin 0) 50 ?l \<lparr>ts_sent = [], ts_ticks = 9\<rparr>"
  have "fst ?run = Inl TimeoutError" by code_simp
  then have run: "?run = (Inl TimeoutError, snd ?run)" by (metis prod.collapse)
  have "strip (tl_query_id ?l) \<noteq> []" by code_simp
  from trino_timeout_cancels [OF run this] show ?thesis by blast
qed

section \<open>The gateway over Trino\<close>

text \<open>The executor of the gateway with this adapter.\<close>

definition trino_run_of :: "trino_env \<Rightarrow> trino_config \<Rightarrow> string \<Rightarrow> int \<Rightarrow> int \<Rightarrow> (column list \<times> row list \<times> pydict) res" where
  "trino_run_of env cfg query max_rows timeout_ms =
     fst (execute_sql_trino_with_metadata env cfg query max_rows timeout_ms 2 None trino_start)"

text \<open>
  Over Trino the row filter sees only the rows within the limit, while over DuckDB it sees all of
  them: with a limit of one row, the row a reader may see is lost behind one he may not see.
\<close>

lemma trino_filter_after_limit:
  "(case execute_sql (demo_env\<lparr>trino_run := trino_run_of demo_trino demo_trino_config\<rparr>) ''select region from t'' 1
       (Some (''region'', ''eu'')) 5000 None ''x'' ''trino'' of Inr q \<Rightarrow> rows q = [] | Inl _ \<Rightarrow> False) \<and>
   (case execute_sql (demo_env\<lparr>duck_run := (\<lambda>_ _. Inr ([(''region'', None)], [[PStr ''us''], [PStr ''eu'']]))\<rparr>) ''select region from t'' 1
       (Some (''region'', ''eu'')) 5000 None ''x'' ''duckdb'' of Inr q \<Rightarrow> rows q = [[PStr ''eu'']] | Inl _ \<Rightarrow> False)"
  by code_simp

text \<open>A timeout of the connection is worded \<open>timed out\<close>, which the adapter does not take for a timeout.\<close>

lemma timed_out_not_recognised:
  "\<not> mentions_timeout (ValueError (''trino_request_failed:'' @ ''<urlopen error timed out>''))"
  by code_simp

end
