(* ===== verification/EntityResolution.thy ===== *)
theory EntityResolution
  imports Detectors Floats
begin

text \<open>
  Entity resolution: the deterministic matching of normalised names
  (\<open>backend/workers/entity_resolution.py\<close>) and the pairwise scoring with a threshold
  (\<open>entity_resolution_v2.py\<close>). A merge is a decision with the identifiers it merged, so that it can be
  rolled back. Records are rows of dynamic values; the scorer of the second algorithm is an argument,
  with the one of the code as its default.
\<close>

section \<open>Matching names\<close>

record merge_decision =
  md_cluster_id :: string
  md_canonical_id :: string
  md_member_ids :: "string list"
  md_confidence :: pyfloat
  md_payload :: pydict

text \<open>\<open>str.isalnum\<close> of a character below 256.\<close>

definition is_alnum :: "char \<Rightarrow> bool" where
  "is_alnum c = (let n = code c in is_alpha c \<or> is_digit c \<or> n \<in> set [170, 178, 179, 181, 185, 186, 188, 189, 190] \<or>
     (192 \<le> n \<and> n \<noteq> 215 \<and> n \<noteq> 247))"

definition normalize_name :: "string \<Rightarrow> string" where
  "normalize_name name = filter is_alnum (strip (lower name))"

type_synonym buckets = "(string \<times> pydict list) list"

definition add_to_bucket :: "string \<Rightarrow> buckets \<Rightarrow> pydict \<Rightarrow> buckets" where
  "add_to_bucket name_field buckets r =
     (let key = normalize_name (str_of r name_field [])
      in if key = [] then buckets else dset buckets key (dget_or buckets key [] @ [r]))"

definition merge_of :: "string \<Rightarrow> string \<times> pydict list \<Rightarrow> merge_decision" where
  "merge_of id_field bucket =
     (let sorted_members = sort_key (\<lambda>r. str_of r id_field []) (snd bucket);
          member_ids = map (\<lambda>r. str_of r id_field []) sorted_members
      in \<lparr>md_cluster_id = ''cluster_'' @ fst bucket, md_canonical_id = py_str (dget_or (hd sorted_members) id_field PNone),
         md_member_ids = member_ids, md_confidence = Fin 1,
         md_payload = [(''pre_merge_member_ids'', str_py_list member_ids)]\<rparr>)"

definition resolve_entities :: "pydict list \<Rightarrow> string \<Rightarrow> string \<Rightarrow> merge_decision list" where
  "resolve_entities records id_field name_field =
     map (merge_of id_field) (filter (\<lambda>b. 2 \<le> length (snd b))
       (sort_key fst (foldl (add_to_bucket name_field) [] records)))"

definition rollback_merge :: "merge_decision \<Rightarrow> string list" where
  "rollback_merge d = map py_str (as_list (dget_or (md_payload d) ''pre_merge_member_ids'' (PList [])))"

section \<open>Scoring pairs\<close>

record er_decision =
  ed_cluster_id :: string
  ed_canonical_id :: string
  ed_member_ids :: "string list"
  ed_score :: pyfloat
  ed_threshold :: pyfloat
  ed_payload :: pydict

type_synonym similarity = "pydict \<Rightarrow> pydict \<Rightarrow> pyfloat"

definition normalize_token :: "string \<Rightarrow> string" where
  "normalize_token value = map (\<lambda>c. if is_alnum c then c else CHR '' '') (strip (lower value))"

definition tokenize :: "string \<Rightarrow> string set" where
  "tokenize value = set (words value)"

definition default_similarity :: similarity where
  "default_similarity l r =
     (let left_tokens = tokenize (normalize_token (str_of l ''name'' []));
          right_tokens = tokenize (normalize_token (str_of r ''name'' []))
      in if left_tokens = {} \<or> right_tokens = {} then Fin 0
         else ratio (card (left_tokens \<inter> right_tokens)) (card (left_tokens \<union> right_tokens)))"

definition record_id :: "string \<Rightarrow> pydict \<Rightarrow> string" where
  "record_id id_field r = strip (str_of r id_field [])"

text \<open>The inner loop: the members found for one record and the lowest score among them.\<close>

fun gather :: "similarity \<Rightarrow> string \<Rightarrow> pyfloat \<Rightarrow> pydict \<Rightarrow> string list \<Rightarrow> string list \<times> pyfloat \<Rightarrow> pydict list \<Rightarrow> string list \<times> pyfloat" where
  "gather scorer id_field threshold l used acc [] = acc"
| "gather scorer id_field threshold l used (members, best) (r # rest) =
     (let right_id = record_id id_field r; score = scorer l r
      in gather scorer id_field threshold l used
           (if right_id = [] \<or> right_id \<in> set used \<or> \<not> fle threshold score then (members, best)
            else (members @ [right_id], fmin best score)) rest)"

definition er_decision_of :: "string \<Rightarrow> pyfloat \<Rightarrow> pydict \<Rightarrow> string list \<Rightarrow> pyfloat \<Rightarrow> er_decision" where
  "er_decision_of name_field threshold l members_sorted best =
     (let canonical = hd members_sorted; cluster = normalize_token (str_of l name_field [])
      in \<lparr>ed_cluster_id = ''erv2_'' @ (if cluster = [] then canonical else cluster), ed_canonical_id = canonical,
         ed_member_ids = members_sorted, ed_score = best, ed_threshold = threshold,
         ed_payload = [(''pre_merge_member_ids'', str_py_list members_sorted)]\<rparr>)"

fun er_loop :: "similarity \<Rightarrow> string \<Rightarrow> string \<Rightarrow> pyfloat \<Rightarrow> string list \<Rightarrow> pydict list \<Rightarrow> er_decision list" where
  "er_loop scorer id_field name_field threshold used [] = []"
| "er_loop scorer id_field name_field threshold used (l # rest) =
     (let left_id = record_id id_field l
      in if left_id = [] \<or> left_id \<in> set used then er_loop scorer id_field name_field threshold used rest
         else let (members, best) = gather scorer id_field threshold l used ([left_id], Fin 1) rest
           in if length members < 2 then er_loop scorer id_field name_field threshold used rest
              else er_decision_of name_field threshold l (sorted_set members) best #
                   er_loop scorer id_field name_field threshold (used @ sorted_set members) rest)"

definition resolve_entities_v2 :: "pydict list \<Rightarrow> string \<Rightarrow> string \<Rightarrow> pyfloat \<Rightarrow> similarity \<Rightarrow> er_decision list" where
  "resolve_entities_v2 records id_field name_field threshold scorer =
     er_loop scorer id_field name_field (fmax (Fin 0) (fmin (Fin 1) threshold)) []
       (sort_key (\<lambda>r. str_of r id_field []) records)"

definition rollback_er_v2 :: "er_decision \<Rightarrow> string list" where
  "rollback_er_v2 d = filter (\<lambda>t. strip t \<noteq> [])
     (map py_str (as_list (dget_or (ed_payload d) ''pre_merge_member_ids'' (PList []))))"

section \<open>Calibration\<close>

definition labelled_score :: "pydict \<Rightarrow> (bool \<times> pyfloat) res" where
  "labelled_score row = rbind (as_float (dget_or row ''score'' PNone) (Fin 0)) (\<lambda>score.
     Inr (py_truth (dget_or row ''is_match'' (PBool False)), score))"

text \<open>\<open>min(xs)\<close> and \<open>max(xs)\<close> of a list that is not empty.\<close>

definition list_min :: "pyfloat list \<Rightarrow> pyfloat" where
  "list_min xs = foldl fmin (hd xs) (tl xs)"

definition list_max :: "pyfloat list \<Rightarrow> pyfloat" where
  "list_max xs = foldl fmax (hd xs) (tl xs)"

definition calibrate_er_threshold :: "pyval list \<Rightarrow> pyfloat res" where
  "calibrate_er_threshold validation_pairs =
     rbind (rmap (\<lambda>row. labelled_score (as_dict row)) (filter is_dict validation_pairs)) (\<lambda>scores.
     let positives = map snd (filter fst scores); negatives = map snd (filter (\<lambda>s. \<not> fst s) scores)
     in if positives = [] then Inr (flit 9 1)
        else rbind (fdiv (fadd (list_min positives) (if negatives = [] then Fin 0 else list_max negatives)) (Fin 2)) (\<lambda>threshold.
             Inr (fmax (flit 5 1) (fmin (flit 99 2) threshold))))"

section \<open>Names are matched exactly\<close>

definition name_key :: "string \<Rightarrow> pydict \<Rightarrow> string" where
  "name_key name_field r = normalize_name (str_of r name_field [])"

definition named :: "string \<Rightarrow> pydict list \<Rightarrow> string \<Rightarrow> pydict list" where
  "named name_field records key = filter (\<lambda>r. name_key name_field r = key) records"

lemma buckets_step:
  assumes "distinct (dkeys b)" "\<And>k. k \<noteq> [] \<Longrightarrow> dget_or b k [] = named nf rs k" "set (dkeys b) = name_key nf ` set rs - {[]}"
  shows "distinct (dkeys (add_to_bucket nf b r)) \<and> (\<forall>k. k \<noteq> [] \<longrightarrow> dget_or (add_to_bucket nf b r) k [] = named nf (rs @ [r]) k) \<and>
         set (dkeys (add_to_bucket nf b r)) = name_key nf ` set (rs @ [r]) - {[]}"
  using assms by (auto simp: add_to_bucket_def Let_def name_key_def [symmetric] named_def)

lemma buckets_invariant:
  "distinct (dkeys (foldl (add_to_bucket nf) [] rs)) \<and>
   (\<forall>k. k \<noteq> [] \<longrightarrow> dget_or (foldl (add_to_bucket nf) [] rs) k [] = named nf rs k) \<and>
   set (dkeys (foldl (add_to_bucket nf) [] rs)) = name_key nf ` set rs - {[]}"
proof (induction rs rule: rev_induct)
  case Nil
  then show ?case by (simp add: dkeys_def dget_or_def named_def)
next
  case (snoc r rs)
  then show ?case using buckets_step [of "foldl (add_to_bucket nf) [] rs" nf rs r] by simp
qed

lemma map_insort_key: "map f (insort_key f x xs) = insort (f x) (map f xs)"
  by (induction xs) auto

lemma map_sort_key_self: "map f (sort_key f xs) = sort (map f xs)"
  by (induction xs) (simp_all add: map_insort_key)

lemma insort_pair: "insort_key fst (k, g k) (map (\<lambda>k. (k, g k)) ks) = map (\<lambda>k. (k, g k)) (insort k ks)"
  by (induction ks) auto

lemma sort_pairs: "sort_key fst (map (\<lambda>k. (k, g k)) ks) = map (\<lambda>k. (k, g k)) (sort ks)"
  by (induction ks) (simp_all add: insort_pair)

lemma assoc_pairs: "distinct (dkeys d) \<Longrightarrow> map (\<lambda>k. (k, dget_or d k v)) (dkeys d) = d"
  unfolding dkeys_def map_map by (rule map_idI) (auto simp: dget_or_def map_of_eq_Some_iff)

text \<open>
  The merges are exactly the names that occur at least twice, in order, each with the identifiers of
  all records of that name in order; and a rollback gives back the merged identifiers.
\<close>

theorem names_merged_exactly:
  "map (\<lambda>d. (md_cluster_id d, md_member_ids d)) (resolve_entities records id_field name_field) =
     map (\<lambda>key. (''cluster_'' @ key, sort (map (\<lambda>r. str_of r id_field []) (named name_field records key))))
       (filter (\<lambda>key. 2 \<le> length (named name_field records key))
          (sorted_set (filter (\<lambda>key. key \<noteq> []) (map (name_key name_field) records)))) \<and>
   map rollback_merge (resolve_entities records id_field name_field) =
     map md_member_ids (resolve_entities records id_field name_field)"
proof
  let ?b = "foldl (add_to_bucket name_field) [] records"
  let ?keys = "sorted_set (filter (\<lambda>key. key \<noteq> []) (map (name_key name_field) records))"
  note inv = buckets_invariant [of name_field records]
  have keys: "sort (dkeys ?b) = ?keys"
    using inv by (intro sorted_distinct_set_unique) auto
  have "sort_key fst ?b = map (\<lambda>k. (k, dget_or ?b k [])) (sort (dkeys ?b))"
    using sort_pairs [of "\<lambda>k. dget_or ?b k []" "dkeys ?b"] assoc_pairs [of ?b "[]"] inv by simp
  also have "\<dots> = map (\<lambda>k. (k, named name_field records k)) ?keys"
    unfolding keys using inv by (intro map_cong) auto
  finally have sorted: "sort_key fst ?b = map (\<lambda>k. (k, named name_field records k)) ?keys" .
  show "map (\<lambda>d. (md_cluster_id d, md_member_ids d)) (resolve_entities records id_field name_field) =
     map (\<lambda>key. (''cluster_'' @ key, sort (map (\<lambda>r. str_of r id_field []) (named name_field records key))))
       (filter (\<lambda>key. 2 \<le> length (named name_field records key)) ?keys)"
    unfolding resolve_entities_def sorted by (simp add: filter_map comp_def merge_of_def Let_def map_sort_key_self)
  show "map rollback_merge (resolve_entities records id_field name_field) =
     map md_member_ids (resolve_entities records id_field name_field)"
    by (simp add: resolve_entities_def rollback_merge_def merge_of_def Let_def str_py_list_def dget_or_def comp_def)
qed

section \<open>Clusters are disjoint\<close>

text \<open>An identifier that may still be merged.\<close>

definition mergeable :: "string list \<Rightarrow> string \<Rightarrow> bool" where
  "mergeable used t \<longleftrightarrow> t \<notin> set used \<and> strip t \<noteq> []"

lemma gather_members:
  assumes "gather scorer idf thr l used (members0, best0) rest = (members, best)"
    "list_all (mergeable used) members0" "fle thr best0"
  shows "list_all (mergeable used) members \<and> set members0 \<subseteq> set members \<and> fle thr best"
  using assms
proof (induction rest arbitrary: members0 best0)
  case (Cons r rest)
  let ?skip = "record_id idf r = [] \<or> record_id idf r \<in> set used \<or> \<not> fle thr (scorer l r)"
  show ?case
  proof (cases ?skip)
    case True
    with Cons.prems have "gather scorer idf thr l used (members0, best0) rest = (members, best)" by (simp add: Let_def)
    from Cons.IH [OF this Cons.prems(2,3)] show ?thesis .
  next
    case False
    with Cons.prems have run: "gather scorer idf thr l used (members0 @ [record_id idf r], fmin best0 (scorer l r)) rest = (members, best)"
      by (simp add: Let_def)
    moreover have "list_all (mergeable used) (members0 @ [record_id idf r])"
      using False Cons.prems(2) by (auto simp: list_all_iff mergeable_def record_id_def)
    moreover have "fle thr (fmin best0 (scorer l r))" using False Cons.prems(3) by (simp add: fmin_def)
    ultimately show ?thesis using Cons.IH by fastforce
  qed
qed simp

definition er_decision_ok :: "pyfloat \<Rightarrow> er_decision \<Rightarrow> bool" where
  "er_decision_ok threshold d \<longleftrightarrow> fle threshold (ed_score d) \<and> ed_canonical_id d \<in> set (ed_member_ids d) \<and>
     rollback_er_v2 d = ed_member_ids d"

lemma er_decision_of_ok:
  assumes "list_all (mergeable used) members" "members \<noteq> []" "fle threshold best"
  shows "er_decision_ok threshold (er_decision_of name_field threshold l (sorted_set members) best)"
proof -
  from assms(2) have "sorted_set members \<noteq> []" by simp
  then have "hd (sorted_set members) \<in> set (sorted_set members)" by (rule hd_in_set)
  moreover have "filter (\<lambda>t. strip t \<noteq> []) (sorted_set members) = sorted_set members"
    using assms(1) by (auto simp: filter_id_conv list_all_iff mergeable_def)
  ultimately show ?thesis using assms(3)
    by (simp add: er_decision_ok_def er_decision_of_def Let_def rollback_er_v2_def str_py_list_def dget_or_def comp_def)
qed

lemma er_loop_disjoint:
  assumes "fle thr (Fin 1)"
  shows "distinct (concat (map ed_member_ids (er_loop scorer idf nf thr used rs))) \<and>
    list_all (mergeable used) (concat (map ed_member_ids (er_loop scorer idf nf thr used rs))) \<and>
    list_all (er_decision_ok thr) (er_loop scorer idf nf thr used rs)"
proof (induction rs arbitrary: used)
  case (Cons l rest)
  show ?case
  proof (cases "record_id idf l = [] \<or> record_id idf l \<in> set used")
    case True
    then show ?thesis using Cons [of used] by (simp add: Let_def)
  next
    case False
    obtain members best where g: "gather scorer idf thr l used ([record_id idf l], Fin 1) rest = (members, best)" by fastforce
    have "list_all (mergeable used) [record_id idf l]" using False by (simp add: mergeable_def record_id_def)
    from gather_members [OF g this assms] have m: "list_all (mergeable used) members" "members \<noteq> []" "fle thr best" by auto
    show ?thesis
    proof (cases "length members < 2")
      case True
      then show ?thesis using Cons [of used] False g by (simp add: Let_def)
    next
      case merge: False
      let ?rest = "er_loop scorer idf nf thr (used @ sorted_set members) rest"
      from Cons [of "used @ sorted_set members"] have IH: "distinct (concat (map ed_member_ids ?rest))"
        "list_all (mergeable (used @ sorted_set members)) (concat (map ed_member_ids ?rest))" "list_all (er_decision_ok thr) ?rest" by auto
      have ids: "ed_member_ids (er_decision_of nf thr l (sorted_set members) best) = sorted_set members"
        by (simp add: er_decision_of_def Let_def)
      have "set (sorted_set members) \<inter> set (concat (map ed_member_ids ?rest)) = {}"
        using IH(2) by (fastforce simp: list_all_iff mergeable_def)
      moreover have "list_all (mergeable used) (concat (map ed_member_ids ?rest))"
        using IH(2) by (auto simp: list_all_iff mergeable_def)
      ultimately show ?thesis using IH m er_decision_of_ok [OF m] False merge g ids
        by (auto simp: Let_def list_all_iff)
    qed
  qed
qed simp

lemma clamped_threshold: "fle (fmax (Fin 0) (fmin (Fin 1) t)) (Fin 1)"
  by (cases t) (auto simp: fmax_def fmin_def fle_def)

text \<open>
  No record is merged twice: the clusters are disjoint. Each has a member as its canonical
  identifier, a score that reaches the threshold, and a rollback that gives back its members.
\<close>

theorem er_clusters_disjoint:
  "distinct (concat (map ed_member_ids (resolve_entities_v2 records id_field name_field threshold scorer))) \<and>
   list_all (er_decision_ok (fmax (Fin 0) (fmin (Fin 1) threshold))) (resolve_entities_v2 records id_field name_field threshold scorer)"
  using er_loop_disjoint [OF clamped_threshold] by (simp add: resolve_entities_v2_def)

text \<open>Two records with one identifier make a cluster of one member.\<close>

lemma duplicate_ids_merge_alone:
  "map ed_member_ids (resolve_entities_v2 [[(''canonical_id'', PStr ''c'')], [(''canonical_id'', PStr ''c'')]]
     ''canonical_id'' ''name'' (Fin 0) default_similarity) = [[''c'']]"
  by code_simp

lemma missing_id_is_named_none:
  "map md_canonical_id (resolve_entities [[(''name'', PStr ''Ann'')], [(''name'', PStr ''ann'')]] ''canonical_id'' ''name'') = [''None'']"
  by code_simp

section \<open>The calibrated threshold is in range\<close>

theorem calibrated_threshold_in_range:
  assumes "calibrate_er_threshold validation_pairs = Inr t"
  shows "fle (flit 5 1) t \<and> fle t (flit 99 2)"
proof -
  have half: "fle (flit 5 1) (flit 5 1)" "fle (flit 5 1) (flit 99 2)" "fle (flit 5 1) (flit 9 1)" "fle (flit 9 1) (flit 99 2)"
    "fle (flit 99 2) (flit 99 2)" by code_simp+
  have "fle (flit 5 1) (fmax (flit 5 1) (fmin (flit 99 2) x)) \<and> fle (fmax (flit 5 1) (fmin (flit 99 2) x)) (flit 99 2)" for x
    using half by (auto simp: fmax_def fmin_def fle_def)
  with assms half show ?thesis by (auto simp: calibrate_er_threshold_def rbind_eq_Inr_iff Let_def split: if_split_asm)
qed

theorem calibrated_threshold_in_range_witness:
  "\<exists>t. calibrate_er_threshold [PDict [(''score'', PStr ''0.75''), (''is_match'', PBool True)]] = Inr t \<and> fle t (flit 99 2)"
proof -
  have "\<not> isl (calibrate_er_threshold [PDict [(''score'', PStr ''0.75''), (''is_match'', PBool True)]])" by code_simp
  then obtain t where "calibrate_er_threshold [PDict [(''score'', PStr ''0.75''), (''is_match'', PBool True)]] = Inr t"
    by (metis sum.collapse(2))
  with calibrated_threshold_in_range [OF this] show ?thesis by blast
qed

end
