(* ===== verification/GoldTemplates.thy ===== *)
theory GoldTemplates
  imports SemanticService
begin

text \<open>
  The gold template packs (\<open>backend/shared_domain/gold_templates.py\<close>): the built-in packs as data, and
  the generator that fills in a workspace, validates the semantic manifest and writes one bundle per
  pack. Files are a map from path to the JSON value they hold.
\<close>

section \<open>The packs\<close>

definition invoices_pack :: pydict where
  "invoices_pack =
     [(''pack_id'', PStr ''invoices''), (''description'', PStr ''Starter invoice analytics pack''),
      (''required_columns'', PList [PStr ''invoice_id'', PStr ''customer_id'', PStr ''amount'', PStr ''invoice_date'']),
      (''gold_models'', PList [
       PDict [(''model_name'', PStr ''invoice_daily_revenue''),
          (''sql'', PStr ''select invoice_date, sum(amount) as gross_revenue from silver.invoice group by invoice_date'')]]),
      (''semantic_manifest'', PDict [(''manifest_version'', PStr ''1''), (''workspace_id'', PStr ''{workspace_id}''),
        (''entities'', PList [
         PDict [(''entity_id'', PStr ''invoice''), (''dataset_id'', PStr ''dataset-invoice''),
            (''primary_key'', PStr ''invoice_id''),
            (''attributes'', PList [PStr ''customer_id'', PStr ''amount'', PStr ''invoice_date''])],
         PDict [(''entity_id'', PStr ''customer''), (''dataset_id'', PStr ''dataset-customer''),
            (''primary_key'', PStr ''customer_id''),
            (''attributes'', PList [PStr ''customer_name'', PStr ''region''])]]),
        (''metrics'', PList [
         PDict [(''metric_id'', PStr ''gross_revenue''), (''entity_id'', PStr ''invoice''),
            (''aggregation'', PStr ''sum''), (''field'', PStr ''amount''),
            (''expression'', PStr ''sum(amount)'')],
         PDict [(''metric_id'', PStr ''invoice_count''), (''entity_id'', PStr ''invoice''),
            (''aggregation'', PStr ''count''), (''field'', PStr ''invoice_id''),
            (''expression'', PStr ''count(invoice_id)'')]]),
        (''joins'', PList [
         PDict [(''join_id'', PStr ''invoice_customer''), (''left_entity_id'', PStr ''invoice''),
            (''right_entity_id'', PStr ''customer''), (''left_key'', PStr ''customer_id''),
            (''right_key'', PStr ''customer_id''), (''join_type'', PStr ''left'')]])])]"

definition crm_pack :: pydict where
  "crm_pack =
     [(''pack_id'', PStr ''crm''),
      (''description'', PStr ''Starter CRM pipeline and conversion pack''),
      (''required_columns'', PList [PStr ''lead_id'', PStr ''stage'', PStr ''owner_id'', PStr ''created_at'']),
      (''gold_models'', PList [
       PDict [(''model_name'', PStr ''crm_pipeline_stage_counts''),
          (''sql'', PStr ''select stage, count(lead_id) as lead_count from silver.lead group by stage'')]]),
      (''semantic_manifest'', PDict [(''manifest_version'', PStr ''1''), (''workspace_id'', PStr ''{workspace_id}''),
        (''entities'', PList [
         PDict [(''entity_id'', PStr ''lead''), (''dataset_id'', PStr ''dataset-lead''),
            (''primary_key'', PStr ''lead_id''),
            (''attributes'', PList [PStr ''stage'', PStr ''owner_id'', PStr ''created_at''])],
         PDict [(''entity_id'', PStr ''owner''), (''dataset_id'', PStr ''dataset-owner''),
            (''primary_key'', PStr ''owner_id''),
            (''attributes'', PList [PStr ''owner_name'', PStr ''team''])]]),
        (''metrics'', PList [
         PDict [(''metric_id'', PStr ''lead_count''), (''entity_id'', PStr ''lead''),
            (''aggregation'', PStr ''count''), (''field'', PStr ''lead_id''),
            (''expression'', PStr ''count(lead_id)'')]]),
        (''joins'', PList [
         PDict [(''join_id'', PStr ''lead_owner''), (''left_entity_id'', PStr ''lead''),
            (''right_entity_id'', PStr ''owner''), (''left_key'', PStr ''owner_id''),
            (''right_key'', PStr ''owner_id''), (''join_type'', PStr ''left'')]])])]"

definition support_pack :: pydict where
  "support_pack =
     [(''pack_id'', PStr ''support''), (''description'', PStr ''Starter support ticket SLA pack''),
      (''required_columns'', PList [PStr ''ticket_id'', PStr ''status'', PStr ''priority'', PStr ''opened_at'', PStr ''closed_at'']),
      (''gold_models'', PList [
       PDict [(''model_name'', PStr ''support_ticket_backlog''),
          (''sql'', PStr ''select status, priority, count(ticket_id) as ticket_count from silver.ticket group by status, priority'')]]),
      (''semantic_manifest'', PDict [(''manifest_version'', PStr ''1''), (''workspace_id'', PStr ''{workspace_id}''),
        (''entities'', PList [
         PDict [(''entity_id'', PStr ''ticket''), (''dataset_id'', PStr ''dataset-ticket''),
            (''primary_key'', PStr ''ticket_id''),
            (''attributes'', PList [PStr ''status'', PStr ''priority'', PStr ''opened_at'', PStr ''closed_at''])]]),
        (''metrics'', PList [
         PDict [(''metric_id'', PStr ''ticket_count''), (''entity_id'', PStr ''ticket''),
            (''aggregation'', PStr ''count''), (''field'', PStr ''ticket_id''),
            (''expression'', PStr ''count(ticket_id)'')]]),
        (''joins'', PList [])])]"

definition GOLD_TEMPLATE_PACKS :: "(string \<times> pydict) list" where
  "GOLD_TEMPLATE_PACKS = [(''invoices'', invoices_pack), (''crm'', crm_pack), (''support'', support_pack)]"

definition list_gold_template_packs :: "string list" where
  "list_gold_template_packs = sort (dkeys GOLD_TEMPLATE_PACKS)"

definition load_gold_template_pack :: "string \<Rightarrow> pydict res" where
  "load_gold_template_pack pack_id =
     (let key = lower (strip pack_id)
      in case dget GOLD_TEMPLATE_PACKS key of
           None \<Rightarrow> Inl (ValueError (''unknown_template_pack:'' @ key))
         | Some pack \<Rightarrow> Inr pack)"

section \<open>The generator\<close>

type_synonym json_files = "(string \<times> pyval) list"

definition required_columns_of :: "pydict \<Rightarrow> string list" where
  "required_columns_of pack =
     sorted_set (filter (\<lambda>t. strip t \<noteq> []) (map py_str (filter is_str (as_list (dget_or pack ''required_columns'' (PList []))))))"

definition gold_models_of :: "pydict \<Rightarrow> pyval list" where
  "gold_models_of pack =
     map (\<lambda>model. PDict [(''model_name'', PStr (str_of (as_dict model) ''model_name'' [])), (''sql'', PStr (str_of (as_dict model) ''sql'' []))])
       (filter is_dict (as_list (dget_or pack ''gold_models'' (PList []))))"

definition bundle_of :: "cp_env \<Rightarrow> pydict \<Rightarrow> string \<Rightarrow> manifest \<Rightarrow> pydict" where
  "bundle_of env pack workspace_id m =
     [(''pack_id'', PStr (str_of pack ''pack_id'' [])), (''workspace_id'', PStr workspace_id),
      (''description'', PStr (str_of pack ''description'' [])), (''required_columns'', str_py_list (required_columns_of pack)),
      (''gold_models'', PList (gold_models_of pack)), (''semantic_manifest'', PDict (manifest_py m)),
      (''semantic_manifest_checksum'', PStr (semantic_manifest_checksum env m))]"

definition template_path :: "string \<Rightarrow> string \<Rightarrow> string \<Rightarrow> string" where
  "template_path output_root workspace_id pack_id =
     as_posix (path_join (path_join (path_of output_root) workspace_id) (lower (strip pack_id) @ ''.json''))"

definition generate_gold_template_bundle ::
  "cp_env \<Rightarrow> string \<Rightarrow> string \<Rightarrow> string \<Rightarrow> bool \<Rightarrow> json_files \<Rightarrow> pydict res \<times> json_files" where
  "generate_gold_template_bundle env pack_id workspace_id output_root overwrite files =
     (if strip workspace_id = [] then (Inl (ValueError ''workspace_id_required''), files)
      else case load_gold_template_pack pack_id of
        Inl e \<Rightarrow> (Inl e, files)
      | Inr pack \<Rightarrow>
          (case dget_or pack ''semantic_manifest'' (PDict []) of
             PDict raw \<Rightarrow>
               (case validate_semantic_manifest (dset raw ''workspace_id'' (PStr workspace_id)) (Some workspace_id) of
                  Inl e \<Rightarrow> (Inl e, files)
                | Inr m \<Rightarrow>
                    (let path = template_path output_root workspace_id pack_id
                     in if dget files path \<noteq> None \<and> \<not> overwrite then (Inl (ValueError ''template_bundle_exists''), files)
                        else (Inr [(''pack_id'', PStr (str_of pack ''pack_id'' [])), (''workspace_id'', PStr workspace_id),
                                (''output_path'', PStr path), (''semantic_manifest_checksum'', PStr (semantic_manifest_checksum env m)),
                                (''entity_count'', PInt (int (length (mf_entities m)))),
                                (''metric_count'', PInt (int (length (mf_metrics m)))),
                                (''join_count'', PInt (int (length (mf_joins m))))],
                              dset files path (PDict (bundle_of env pack workspace_id m)))))
           | _ \<Rightarrow> (Inl (ValueError ''template_manifest_invalid''), files)))"

section \<open>Every pack fits every workspace\<close>

definition template_ok :: "pydict \<Rightarrow> bool" where
  "template_ok pack = (case dget_or pack ''semantic_manifest'' PNone of
     PDict raw \<Rightarrow>
       strip (str_of raw ''manifest_version'' []) = ''1'' \<and> is_list (dget_or raw ''entities'' (PList [])) \<and>
       is_list (dget_or raw ''metrics'' (PList [])) \<and> is_list (dget_or raw ''joins'' (PList [])) \<and>
       (case normalize_entities (as_list (dget_or raw ''entities'' (PList []))) of
          Inl _ \<Rightarrow> False
        | Inr es \<Rightarrow> \<not> isl (normalize_metrics (map en_id es) (as_list (dget_or raw ''metrics'' (PList [])))) \<and>
            \<not> isl (normalize_joins (map en_id es) (as_list (dget_or raw ''joins'' (PList [])))))
   | _ \<Rightarrow> False)"

lemma not_isl_iff: "\<not> isl r \<longleftrightarrow> (\<exists>y. r = Inr y)"
  by (cases r) auto

lemma packs_ok: "list_all (\<lambda>(key, pack). template_ok pack) GOLD_TEMPLATE_PACKS"
  by code_simp

lemma template_valid:
  assumes "template_ok pack" "strip ws = ws" "ws \<noteq> []"
  obtains raw m where "dget_or pack ''semantic_manifest'' (PDict []) = PDict raw"
    "validate_semantic_manifest (dset raw ''workspace_id'' (PStr ws)) (Some ws) = Inr m"
proof -
  from assms(1) obtain raw es ms js where raw: "dget_or pack ''semantic_manifest'' PNone = PDict raw"
    and v: "strip (str_of raw ''manifest_version'' []) = ''1''" "is_list (dget_or raw ''entities'' (PList []))"
      "is_list (dget_or raw ''metrics'' (PList []))" "is_list (dget_or raw ''joins'' (PList []))"
      "normalize_entities (as_list (dget_or raw ''entities'' (PList []))) = Inr es"
      "normalize_metrics (map en_id es) (as_list (dget_or raw ''metrics'' (PList []))) = Inr ms"
      "normalize_joins (map en_id es) (as_list (dget_or raw ''joins'' (PList []))) = Inr js"
    unfolding template_ok_def by (auto simp: not_isl_iff split: pyval.split_asm sum.split_asm)
  from raw have "dget_or pack ''semantic_manifest'' (PDict []) = PDict raw" by (auto simp: dget_or_def split: option.split_asm)
  moreover have "validate_semantic_manifest (dset raw ''workspace_id'' (PStr ws)) (Some ws) =
      Inr \<lparr>mf_workspace = ws, mf_entities = es, mf_metrics = ms, mf_joins = js\<rparr>"
    using v assms(2,3) by (simp add: validate_semantic_manifest_def Let_def)
  ultimately show thesis by (rule that)
qed

text \<open>
  Each built-in pack gives a bundle for each workspace: the generator writes one file, and the
  manifest in it is one the gateway binds queries against, with the checksum that is reported.
\<close>

theorem template_bundle_generated:
  assumes "lower (strip pack_id) \<in> set list_gold_template_packs" "strip workspace_id = workspace_id" "workspace_id \<noteq> []"
    and "dget files (template_path output_root workspace_id pack_id) = None"
  shows "\<exists>result bundle m. generate_gold_template_bundle env pack_id workspace_id output_root overwrite files =
      (Inr result, dset files (template_path output_root workspace_id pack_id) (PDict bundle)) \<and>
    dget bundle ''semantic_manifest'' = Some (PDict (manifest_py m)) \<and> manifest_ok m \<and> mf_workspace m = workspace_id \<and>
    dget bundle ''semantic_manifest_checksum'' = dget result ''semantic_manifest_checksum''"
proof -
  from assms(1) obtain pack where pack: "dget GOLD_TEMPLATE_PACKS (lower (strip pack_id)) = Some pack"
    by (cases "dget GOLD_TEMPLATE_PACKS (lower (strip pack_id))") (auto simp: list_gold_template_packs_def dget_None_iff)
  then have "(lower (strip pack_id), pack) \<in> set GOLD_TEMPLATE_PACKS" by (auto simp: dget_def dest: map_of_SomeD)
  with packs_ok have "template_ok pack" by (auto simp: list_all_iff)
  from template_valid [OF this assms(2,3)] obtain raw m where m: "dget_or pack ''semantic_manifest'' (PDict []) = PDict raw"
    "validate_semantic_manifest (dset raw ''workspace_id'' (PStr workspace_id)) (Some workspace_id) = Inr m" by blast
  from validate_ok [OF m(2)] have ok: "manifest_ok m" "mf_workspace m = workspace_id" by auto
  from pack m assms(2-4) obtain result where
    "generate_gold_template_bundle env pack_id workspace_id output_root overwrite files =
       (Inr result, dset files (template_path output_root workspace_id pack_id) (PDict (bundle_of env pack workspace_id m)))"
    "dget result ''semantic_manifest_checksum'' = Some (PStr (semantic_manifest_checksum env m))"
    by (auto simp: generate_gold_template_bundle_def load_gold_template_pack_def Let_def dget_def [of "_ # _"])
  then show ?thesis using ok by (intro exI conjI) (assumption | simp add: bundle_of_def dget_def)+
qed

theorem template_bundle_generated_witness:
  "\<exists>result files'. generate_gold_template_bundle env '' CRM '' ''w1'' ''/out'' False [] = (Inr result, files') \<and>
     dkeys files' = [''/out/w1/crm.json'']"
proof -
  have path: "template_path ''/out'' ''w1'' '' CRM '' = ''/out/w1/crm.json''" by code_simp
  have ready: "lower (strip '' CRM '') \<in> set list_gold_template_packs" "strip ''w1'' = ''w1''" by code_simp+
  have "dget [] (template_path ''/out'' ''w1'' '' CRM '') = (None :: pyval option)" by (simp add: dget_def)
  from template_bundle_generated [OF ready(1,2) _ this, of env False] path show ?thesis by (auto simp: dkeys_def)
qed

text \<open>A workspace identifier with a space at its end is not accepted: the validation strips it.\<close>

lemma padded_workspace_rejected:
  "fst (generate_gold_template_bundle env ''crm'' ''w '' ''/out'' False []) = Inl (ValueError ''workspace_mismatch'')"
proof -
  have "dget GOLD_TEMPLATE_PACKS (lower (strip ''crm'')) = Some crm_pack" "strip ''w '' \<noteq> []" by code_simp+
  moreover obtain raw where "dget_or crm_pack ''semantic_manifest'' (PDict []) = PDict raw"
    "validate_semantic_manifest (dset raw ''workspace_id'' (PStr ''w '')) (Some ''w '') = Inl (ValueError ''workspace_mismatch'')"
    by (rule that [of "as_dict (dget_or crm_pack ''semantic_manifest'' (PDict []))"]) code_simp+
  ultimately show ?thesis by (simp add: generate_gold_template_bundle_def load_gold_template_pack_def)
qed

end
