(* ===== verification/DecisionEngine.thy ===== *)
theory DecisionEngine
  imports Floats "HOL-Library.Multiset"
begin

text \<open>
  The decision engine (\<open>backend/control_plane/decision_engine.py\<close>, with the fixed library of
  \<open>decision_templates.json\<close>): hard constraints decide which architecture templates may be ranked, a
  weighted score orders them, and a report says whether the recommendation needs an approval.
  Scores are floats with the rounding of the machine.
\<close>

section \<open>Templates and their gates\<close>

record decision_input =
  di_strict_security :: bool
  di_on_prem_required :: bool
  di_single_node_only :: bool
  di_needs_documents :: bool
  di_confidence_signal :: pyfloat
  di_evidence_completeness :: pyfloat

record gate =
  ga_pass :: bool
  ga_failures :: "string list"

definition template :: "string \<Rightarrow> string \<Rightarrow> string list \<Rightarrow> pydict" where
  "template tid name components =
     [(''id'', PStr tid), (''name'', PStr name), (''components'', str_py_list components)]"

definition load_templates :: "pydict list" where
  "load_templates =
     [template ''T1'' ''Postgres + DuckDB (Starter)'' [''postgres'', ''duckdb''],
      template ''T2'' ''Object Store + Iceberg + DuckDB'' [''object_store'', ''iceberg'', ''duckdb''],
      template ''T3'' ''Lakehouse (Iceberg) + Trino'' [''object_store'', ''iceberg'', ''trino''],
      template ''T4'' ''Lakehouse + Trino + Search'' [''object_store'', ''iceberg'', ''trino'', ''opensearch''],
      template ''T5'' ''Lakehouse + Trino + Vector'' [''object_store'', ''iceberg'', ''trino'', ''qdrant''],
      template ''T6'' ''OLTP + Lakehouse split'' [''oltp'', ''object_store'', ''iceberg'', ''trino''],
      template ''T7'' ''Lakehouse + Trino + ClickHouse mart'' [''object_store'', ''iceberg'', ''trino'', ''clickhouse''],
      template ''T8'' ''Streaming + Lakehouse'' [''stream'', ''object_store'', ''iceberg'', ''trino'']]"

definition components_of :: "pydict \<Rightarrow> string list" where
  "components_of t = remdups (map py_str (as_list (dget_or t ''components'' (PList []))))"

definition template_id :: "pydict \<Rightarrow> string res" where
  "template_id t = (case dget t ''id'' of None \<Rightarrow> Inl (KeyError ''id'') | Some v \<Rightarrow> Inr (py_str v))"

definition has_documents :: "string list \<Rightarrow> bool" where
  "has_documents components = (''opensearch'' \<in> set components \<or> ''qdrant'' \<in> set components)"

definition gate_failures :: "decision_input \<Rightarrow> string list \<Rightarrow> string list" where
  "gate_failures i components =
     (if di_single_node_only i \<and> ''trino'' \<in> set components then [''single_node_only''] else []) @
     (if di_needs_documents i \<and> \<not> has_documents components then [''documents_required''] else []) @
     (if di_strict_security i \<and> ''qdrant'' \<in> set components then [''strict_security_vector_review''] else [])"

definition gate_of :: "decision_input \<Rightarrow> pydict \<Rightarrow> gate" where
  "gate_of i t = (let failures = gate_failures i (components_of t) in \<lparr>ga_pass = (failures = []), ga_failures = failures\<rparr>)"

fun gates_loop :: "decision_input \<Rightarrow> (string \<times> gate) list \<Rightarrow> pydict list \<Rightarrow> (string \<times> gate) list res" where
  "gates_loop i gates [] = Inr gates"
| "gates_loop i gates (t # rest) = rbind (template_id t) (\<lambda>tid. gates_loop i (dset gates tid (gate_of i t)) rest)"

definition evaluate_hard_constraints :: "pydict list \<Rightarrow> decision_input \<Rightarrow> (string \<times> gate) list res" where
  "evaluate_hard_constraints templates i = gates_loop i [] templates"

section \<open>Scores\<close>

record weights =
  we_complexity :: pyfloat
  we_governance :: pyfloat
  we_documents :: pyfloat

record scored =
  sc_template_id :: string
  sc_score :: pyfloat
  sc_complexity :: pyfloat
  sc_governance :: pyfloat
  sc_documents :: pyfloat

definition score_of :: "weights \<Rightarrow> string \<Rightarrow> string list \<Rightarrow> scored" where
  "score_of w tid components =
     (let complexity_score = ratio 1 (max (length components) 1);
          governance_score = (if ''trino'' \<in> set components then Fin 1 else flit 6 1);
          docs_score = (if has_documents components then Fin 1 else flit 2 1);
          total = fadd (fadd (fmul (we_complexity w) complexity_score) (fmul (we_governance w) governance_score))
                    (fmul (we_documents w) docs_score)
      in \<lparr>sc_template_id = tid, sc_score = fround 4 total, sc_complexity = fround 4 complexity_score,
          sc_governance = fround 4 governance_score, sc_documents = fround 4 docs_score\<rparr>)"

text \<open>
  \<open>sorted(..., reverse=True)\<close> of floats: greatest first, equal ones in their order. A score that is
  not a number is comparable to nothing; the order the code gives it is left open by the language.
\<close>

fun insert_desc :: "scored \<Rightarrow> scored list \<Rightarrow> scored list" where
  "insert_desc x [] = [x]"
| "insert_desc x (y # ys) = (if fless (sc_score x) (sc_score y) then y # insert_desc x ys else x # y # ys)"

definition sort_desc :: "scored list \<Rightarrow> scored list" where
  "sort_desc xs = foldr insert_desc xs []"

fun scores_loop :: "weights \<Rightarrow> (string \<times> gate) list \<Rightarrow> pydict list \<Rightarrow> scored list res" where
  "scores_loop w gates [] = Inr []"
| "scores_loop w gates (t # rest) =
     rbind (template_id t) (\<lambda>tid.
     case dget gates tid of
       None \<Rightarrow> Inl (KeyError tid)
     | Some g \<Rightarrow> rbind (scores_loop w gates rest) (\<lambda>ranked.
         Inr (if ga_pass g then score_of w tid (components_of t) # ranked else ranked)))"

definition score_templates :: "pydict list \<Rightarrow> (string \<times> gate) list \<Rightarrow> weights \<Rightarrow> scored list res" where
  "score_templates templates gates w = rbind (scores_loop w gates templates) (\<lambda>ranked. Inr (sort_desc ranked))"

section \<open>The report\<close>

text \<open>\<open>_parse_float\<close>: numbers and texts are read, anything else is the default.\<close>

definition parse_float :: "pyval \<Rightarrow> pyfloat \<Rightarrow> pyfloat res" where
  "parse_float v dflt = (case v of PInt _ \<Rightarrow> py_float v | PBool _ \<Rightarrow> py_float v | PFloat _ _ \<Rightarrow> py_float v
     | PStr _ \<Rightarrow> py_float v | _ \<Rightarrow> Inr dflt)"

definition float_arg :: "pydict \<Rightarrow> string \<Rightarrow> pyfloat \<Rightarrow> pyfloat res" where
  "float_arg intent k dflt = (case dget intent k of None \<Rightarrow> Inr dflt | Some v \<Rightarrow> parse_float v dflt)"

definition flag_arg :: "pydict \<Rightarrow> string \<Rightarrow> bool" where
  "flag_arg intent k = py_truth (dget_or intent k (PBool False))"

definition decision_input_of :: "pydict \<Rightarrow> decision_input res" where
  "decision_input_of intent =
     rbind (float_arg intent ''confidence_signal'' (flit 5 1)) (\<lambda>signal.
     rbind (float_arg intent ''evidence_completeness'' (flit 5 1)) (\<lambda>completeness.
     Inr \<lparr>di_strict_security = flag_arg intent ''strict_security'', di_on_prem_required = flag_arg intent ''on_prem_required'',
       di_single_node_only = flag_arg intent ''single_node_only'', di_needs_documents = flag_arg intent ''needs_documents'',
       di_confidence_signal = signal, di_evidence_completeness = completeness\<rparr>))"

definition weights_of :: "pydict \<Rightarrow> weights res" where
  "weights_of intent =
     rbind (float_arg intent ''weight_complexity'' (flit 5 1)) (\<lambda>c.
     rbind (float_arg intent ''weight_governance'' (flit 3 1)) (\<lambda>g.
     rbind (float_arg intent ''weight_documents'' (flit 2 1)) (\<lambda>d.
     Inr \<lparr>we_complexity = c, we_governance = g, we_documents = d\<rparr>)))"

record recommendation =
  rc_ranked :: "scored list"
  rc_gates :: "(string \<times> gate) list"
  rc_confidence :: pyfloat
  rc_missing_evidence :: "string list"
  rc_approval_reasons :: "string list"

definition rc_approval_required :: "recommendation \<Rightarrow> bool" where
  "rc_approval_required r = (rc_approval_reasons r \<noteq> [])"

definition confidence_of :: "decision_input \<Rightarrow> pyfloat res" where
  "confidence_of i = rbind (fdiv (fadd (di_confidence_signal i) (di_evidence_completeness i)) (Fin 2)) (\<lambda>c.
     Inr (fmax (Fin 0) (fmin (Fin 1) c)))"

definition missing_evidence_of :: "decision_input \<Rightarrow> string list" where
  "missing_evidence_of i =
     (if fless (di_evidence_completeness i) (flit 8 1) then [''query_workload_evidence''] else []) @
     (if \<not> di_on_prem_required i then [''deployment_constraints_confirmation''] else [])"

definition top_components :: "pydict list \<Rightarrow> scored list \<Rightarrow> string list res" where
  "top_components templates ranked = (case ranked of
       [] \<Rightarrow> Inr []
     | best # _ \<Rightarrow> (case find (\<lambda>t. dget t ''id'' = Some (PStr (sc_template_id best))) templates of
           None \<Rightarrow> Inl (OtherError ''StopIteration'') | Some t \<Rightarrow> Inr (sort (components_of t))))"

definition approval_reasons_of :: "decision_input \<Rightarrow> pyfloat \<Rightarrow> string list \<Rightarrow> string list" where
  "approval_reasons_of i confidence components =
     (if fless confidence (flit 75 2) then [''confidence_below_threshold''] else []) @
     (if 3 < length components then [''adds_store_complexity''] else []) @
     (if di_strict_security i \<and> has_documents components then [''strict_security_new_exposure''] else [])"

definition recommend :: "pydict list \<Rightarrow> decision_input \<Rightarrow> weights \<Rightarrow> recommendation res" where
  "recommend templates i w =
     rbind (evaluate_hard_constraints templates i) (\<lambda>gates.
     rbind (score_templates templates gates w) (\<lambda>ranked.
     rbind (confidence_of i) (\<lambda>confidence.
     rbind (top_components templates ranked) (\<lambda>components.
     Inr \<lparr>rc_ranked = ranked, rc_gates = gates, rc_confidence = fround 4 confidence,
       rc_missing_evidence = missing_evidence_of i, rc_approval_reasons = approval_reasons_of i confidence components\<rparr>))))"

definition build_recommendation_report :: "pydict \<Rightarrow> recommendation res" where
  "build_recommendation_report intent =
     rbind (decision_input_of intent) (\<lambda>i. rbind (weights_of intent) (\<lambda>w. recommend load_templates i w))"

section \<open>What is ranked\<close>

definition ids_of :: "pydict list \<Rightarrow> string list" where
  "ids_of templates = map (\<lambda>t. str_of t ''id'' []) templates"

definition identified :: "pydict list \<Rightarrow> bool" where
  "identified templates \<longleftrightarrow> list_all (\<lambda>t. dget t ''id'' = Some (PStr (str_of t ''id'' []))) templates \<and> distinct (ids_of templates)"

definition passing :: "decision_input \<Rightarrow> pydict list \<Rightarrow> pydict list" where
  "passing i templates = filter (\<lambda>t. gate_failures i (components_of t) = []) templates"

lemma template_id_of: "dget t ''id'' = Some (PStr (str_of t ''id'' [])) \<Longrightarrow> template_id t = Inr (str_of t ''id'' [])"
  by (simp add: template_id_def)

lemma gates_loop_result:
  assumes "list_all (\<lambda>t. dget t ''id'' = Some (PStr (str_of t ''id'' []))) ts" "distinct (ids_of ts)"
  shows "\<exists>gates'. gates_loop i gates ts = Inr gates' \<and>
    (\<forall>k. dget gates' k = (case find (\<lambda>t. str_of t ''id'' [] = k) ts of Some t \<Rightarrow> Some (gate_of i t) | None \<Rightarrow> dget gates k))"
  using assms
proof (induction ts arbitrary: gates)
  case (Cons t ts)
  then have t: "template_id t = Inr (str_of t ''id'' [])" by (simp add: template_id_of)
  from Cons obtain gates' where g: "gates_loop i (dset gates (str_of t ''id'' []) (gate_of i t)) ts = Inr gates'"
    "\<And>k. dget gates' k = (case find (\<lambda>t. str_of t ''id'' [] = k) ts of Some t \<Rightarrow> Some (gate_of i t)
       | None \<Rightarrow> dget (dset gates (str_of t ''id'' []) (gate_of i t)) k)" by (fastforce simp: ids_of_def)
  from Cons.prems(2) have "str_of t ''id'' [] \<notin> set (ids_of ts)" by (simp add: ids_of_def)
  then have "find (\<lambda>t'. str_of t' ''id'' [] = str_of t ''id'' []) ts = None"
    unfolding find_None_iff ids_of_def set_map image_iff by metis
  with g t show ?case by (auto split: option.split)
qed simp

lemma scores_loop_result:
  assumes "list_all (\<lambda>t. dget t ''id'' = Some (PStr (str_of t ''id'' [])) \<and> dget gates (str_of t ''id'' []) = Some (gate_of i t)) ts"
  shows "scores_loop w gates ts = Inr (map (\<lambda>t. score_of w (str_of t ''id'' []) (components_of t)) (passing i ts))"
  using assms by (induction ts) (auto simp: template_id_of passing_def gate_of_def Let_def)

lemma mset_insert_desc: "mset (insert_desc x ys) = add_mset x (mset ys)"
  by (induction ys) auto

lemma mset_sort_desc: "mset (sort_desc xs) = mset xs"
  by (induction xs) (auto simp: sort_desc_def mset_insert_desc)

lemma set_sort_desc [simp]: "set (sort_desc xs) = set xs"
  by (metis mset_sort_desc set_mset_mset)

lemma find_by_id: "distinct (ids_of ts) \<Longrightarrow> t \<in> set ts \<Longrightarrow> find (\<lambda>t'. str_of t' ''id'' [] = str_of t ''id'' []) ts = Some t"
  by (induction ts) (auto simp: ids_of_def)

lemma score_templates_result:
  assumes "identified ts"
  obtains gates where "evaluate_hard_constraints ts i = Inr gates"
    "score_templates ts gates w = Inr (sort_desc (map (\<lambda>t. score_of w (str_of t ''id'' []) (components_of t)) (passing i ts)))"
proof -
  from assms gates_loop_result [of ts i "[]"] obtain gates where gates: "evaluate_hard_constraints ts i = Inr gates"
    "\<And>k. dget gates k = (case find (\<lambda>t. str_of t ''id'' [] = k) ts of Some t \<Rightarrow> Some (gate_of i t) | None \<Rightarrow> dget [] k)"
    by (auto simp: identified_def evaluate_hard_constraints_def)
  have "list_all (\<lambda>t. dget t ''id'' = Some (PStr (str_of t ''id'' [])) \<and> dget gates (str_of t ''id'' []) = Some (gate_of i t)) ts"
    using assms gates(2) find_by_id [of ts] by (auto simp: list_all_iff identified_def)
  then have "scores_loop w gates ts = Inr (map (\<lambda>t. score_of w (str_of t ''id'' []) (components_of t)) (passing i ts))"
    by (rule scores_loop_result)
  then have "score_templates ts gates w = Inr (sort_desc (map (\<lambda>t. score_of w (str_of t ''id'' []) (components_of t)) (passing i ts)))"
    unfolding score_templates_def by (simp only: rbind_Inr)
  with gates(1) show thesis by (rule that)
qed

lemma templates_identified: "identified load_templates"
  by code_simp

section \<open>The order\<close>

lemma not_fless_trans: "y \<noteq> NaN \<Longrightarrow> \<not> fless x y \<Longrightarrow> \<not> fless y z \<Longrightarrow> z \<noteq> NaN \<Longrightarrow> x \<noteq> NaN \<Longrightarrow> \<not> fless x z"
  by (cases x; cases y; cases z) auto

lemma fless_asym: "fless x y \<Longrightarrow> \<not> fless y x"
  by (cases x; cases y) auto

definition descending :: "scored list \<Rightarrow> bool" where
  "descending ss \<longleftrightarrow> sorted_wrt (\<lambda>x y. \<not> fless (sc_score x) (sc_score y)) ss"

definition is_number :: "scored \<Rightarrow> bool" where
  "is_number s \<longleftrightarrow> sc_score s \<noteq> NaN"

lemma set_insert_desc [simp]: "set (insert_desc x ys) = insert x (set ys)"
  using mset_insert_desc [of x ys] by (metis set_mset_add_mset_insert set_mset_mset)

lemma insert_desc_descending:
  "descending ys \<Longrightarrow> is_number x \<Longrightarrow> list_all is_number ys \<Longrightarrow> descending (insert_desc x ys)"
proof (induction ys)
  case (Cons y ys)
  then show ?case
    by (auto simp: descending_def is_number_def list_all_iff dest: fless_asym not_fless_trans [of "sc_score y" "sc_score x"])
qed (simp add: descending_def)

lemma sort_desc_descending: "list_all is_number xs \<Longrightarrow> descending (sort_desc xs)"
proof (induction xs)
  case (Cons x xs)
  have "list_all is_number (sort_desc xs)" using Cons.prems by (simp add: list_all_iff)
  with Cons show ?case by (simp add: sort_desc_def insert_desc_descending)
qed (simp add: sort_desc_def descending_def)

section \<open>The top of the ranking\<close>

definition score_all :: "weights \<Rightarrow> decision_input \<Rightarrow> pydict list \<Rightarrow> scored list" where
  "score_all w i templates = map (\<lambda>t. score_of w (str_of t ''id'' []) (components_of t)) (passing i templates)"

lemma top_components_result:
  assumes "identified ts" "sort_desc (score_all w i ts) = best # rest"
  obtains t where "t \<in> set (passing i ts)" "top_components ts (best # rest) = Inr (sort (components_of t))"
proof -
  from assms(2) have "best \<in> set (score_all w i ts)" by (metis list.set_intros(1) set_sort_desc)
  then obtain t where t: "t \<in> set (passing i ts)" "sc_template_id best = str_of t ''id'' []"
    by (auto simp: score_all_def score_of_def Let_def)
  then have lib: "t \<in> set ts" by (simp add: passing_def)
  with assms(1) have "dget t ''id'' = Some (PStr (sc_template_id best))" by (simp add: identified_def list_all_iff t(2))
  with lib obtain t' where t': "find (\<lambda>t. dget t ''id'' = Some (PStr (sc_template_id best))) ts = Some t'"
    by (cases "find (\<lambda>t. dget t ''id'' = Some (PStr (sc_template_id best))) ts") (auto simp: find_None_iff)
  from find_in [OF this] have "t' \<in> set ts" "str_of t' ''id'' [] = str_of t ''id'' []"
    using t(2) by (auto simp: dget_or_def dget_def)
  with lib assms(1) have "t' = t" using find_by_id [of ts t] find_by_id [of ts t'] by (auto simp: identified_def)
  with t(1) t' show thesis by (intro that) (simp_all add: top_components_def)
qed

lemma confidence_total: "\<exists>c. confidence_of i = Inr c"
  by (cases "fadd (di_confidence_signal i) (di_evidence_completeness i)") (simp_all add: confidence_of_def)

text \<open>A report whose arguments can be read is always made.\<close>

lemma recommend_result:
  assumes "identified ts"
  obtains gates c components where
    "evaluate_hard_constraints ts i = Inr gates" "confidence_of i = Inr c"
    "top_components ts (sort_desc (score_all w i ts)) = Inr components"
    "recommend ts i w = Inr \<lparr>rc_ranked = sort_desc (score_all w i ts), rc_gates = gates, rc_confidence = fround 4 c,
       rc_missing_evidence = missing_evidence_of i, rc_approval_reasons = approval_reasons_of i c components\<rparr>"
proof -
  from confidence_total obtain c where c: "confidence_of i = Inr c" by blast
  from score_templates_result [OF assms, of i w] obtain gates where gates: "evaluate_hard_constraints ts i = Inr gates"
    "score_templates ts gates w = Inr (sort_desc (score_all w i ts))" unfolding score_all_def by blast
  obtain components where top: "top_components ts (sort_desc (score_all w i ts)) = Inr components"
  proof (cases "sort_desc (score_all w i ts)")
    case Nil
    then show thesis using that by (simp add: top_components_def)
  next
    case (Cons best rest)
    from top_components_result [OF assms Cons] that Cons show thesis by metis
  qed
  show thesis using that [OF gates(1) c top] by (simp add: recommend_def gates c top)
qed

section \<open>Properties\<close>

text \<open>
  Once the intent can be read, there is a report. Its ranking is exactly the templates of the library
  that meet every hard constraint, best score first. And where a strict security posture meets a need
  for documents, whatever is on top needs an approval.
\<close>

theorem recommendation_respects_constraints:
  assumes "decision_input_of intent = Inr i" "weights_of intent = Inr w"
  shows "\<exists>r. build_recommendation_report intent = Inr r \<and>
    mset (map sc_template_id (rc_ranked r)) = mset (ids_of (passing i load_templates)) \<and>
    (list_all is_number (rc_ranked r) \<longrightarrow> descending (rc_ranked r)) \<and>
    (rc_ranked r \<noteq> [] \<and> di_strict_security i \<and> di_needs_documents i \<longrightarrow> rc_approval_required r)"
proof -
  let ?ss = "score_all w i load_templates"
  from recommend_result [OF templates_identified, of i w] obtain gates c components where
    top: "top_components load_templates (sort_desc ?ss) = Inr components" and
    r: "recommend load_templates i w = Inr \<lparr>rc_ranked = sort_desc ?ss, rc_gates = gates, rc_confidence = fround 4 c,
       rc_missing_evidence = missing_evidence_of i, rc_approval_reasons = approval_reasons_of i c components\<rparr>"
    by blast
  have "map sc_template_id ?ss = ids_of (passing i load_templates)" by (simp add: score_all_def score_of_def ids_of_def Let_def)
  then have "mset (map sc_template_id (sort_desc ?ss)) = mset (ids_of (passing i load_templates))"
    unfolding mset_map mset_sort_desc by (metis mset_map)
  moreover have "list_all is_number (sort_desc ?ss) \<longrightarrow> descending (sort_desc ?ss)"
    by (intro impI sort_desc_descending) (simp only: list.pred_set set_sort_desc)
  moreover have "has_documents components" if "sort_desc ?ss \<noteq> []" "di_needs_documents i"
  proof -
    from that(1) obtain best rest where best: "sort_desc ?ss = best # rest" by (cases "sort_desc ?ss") auto
    from top_components_result [OF templates_identified best] top best obtain t where
      t: "t \<in> set (passing i load_templates)" "components = sort (components_of t)" by (metis Inr_inject)
    from t(1) that(2) have "has_documents (components_of t)" by (auto simp: passing_def gate_failures_def split: if_split_asm)
    with t(2) show ?thesis by (simp add: has_documents_def)
  qed
  ultimately show ?thesis using assms r
    by (simp add: build_recommendation_report_def rc_approval_required_def approval_reasons_of_def)
qed

definition demo_intent :: pydict where
  "demo_intent = [(''strict_security'', PBool True), (''needs_documents'', PBool True)]"

definition demo_decision :: decision_input where
  "demo_decision = \<lparr>di_strict_security = True, di_on_prem_required = False, di_single_node_only = False,
     di_needs_documents = True, di_confidence_signal = flit 5 1, di_evidence_completeness = flit 5 1\<rparr>"

lemma demo_decision_input: "decision_input_of demo_intent = Inr demo_decision"
  by (simp add: decision_input_of_def demo_intent_def demo_decision_def float_arg_def flag_arg_def dget_def dget_or_def)

lemma demo_passing: "ids_of (passing demo_decision load_templates) = [''T4'']"
  by (simp add: passing_def demo_decision_def gate_failures_def) code_simp

theorem recommendation_respects_constraints_witness:
  "\<exists>r. build_recommendation_report demo_intent = Inr r \<and> mset (map sc_template_id (rc_ranked r)) = {#''T4''#}"
proof -
  have "\<exists>w. weights_of demo_intent = Inr w"
    by (simp add: weights_of_def demo_intent_def float_arg_def dget_def)
  then obtain w where "weights_of demo_intent = Inr w" ..
  from recommendation_respects_constraints [OF demo_decision_input this] show ?thesis by (auto simp: demo_passing)
qed

text \<open>
  When no template meets the constraints, the report recommends nothing; and with a high confidence
  it asks for no approval either. A single node that needs documents is such a case.
\<close>

lemma documents_need_trino: "list_all (\<lambda>t. ''trino'' \<in> set (components_of t) \<or> \<not> has_documents (components_of t)) load_templates"
  by code_simp

lemma unsatisfiable_needs_no_approval:
  assumes "di_single_node_only i" "di_needs_documents i" "confidence_of i = Inr c" "\<not> fless c (flit 75 2)"
  shows "\<exists>r. recommend load_templates i w = Inr r \<and> rc_ranked r = [] \<and> \<not> rc_approval_required r"
proof -
  have "\<forall>t \<in> set load_templates. gate_failures i (components_of t) \<noteq> []"
    using documents_need_trino assms(1,2) unfolding list_all_iff gate_failures_def by auto
  then have "passing i load_templates = []" unfolding passing_def by (simp add: filter_empty_conv)
  then have none: "sort_desc (score_all w i load_templates) = []" by (simp add: score_all_def sort_desc_def)
  from recommend_result [OF templates_identified, of i w] obtain gates c' components where
    "confidence_of i = Inr c'" "top_components load_templates [] = Inr components"
    "recommend load_templates i w = Inr \<lparr>rc_ranked = [], rc_gates = gates, rc_confidence = fround 4 c',
       rc_missing_evidence = missing_evidence_of i, rc_approval_reasons = approval_reasons_of i c' components\<rparr>"
    unfolding none by blast
  with assms(3,4) show ?thesis
    by (simp add: top_components_def rc_approval_required_def approval_reasons_of_def has_documents_def)
qed

end
