(* ===== verification/Zones.thy ===== *)
theory Zones
  imports Floats
begin

text \<open>
  The silver and gold zones: normalised records with stable identifiers and their crosswalk
  (\<open>backend/workers/silver.py\<close>), the aggregate of a model with its published pointer
  (\<open>gold.py\<close>, with the maintenance report of \<open>iceberg_ops.py\<close>), and the compaction of small files
  (\<open>compaction.py\<close>). Files are a map from path to the JSON text they hold; the digest is an argument.
\<close>

type_synonym json_store = "(string \<times> json_text) list"

definition put_json :: "py_path \<Rightarrow> pyval \<Rightarrow> json_store \<Rightarrow> json_store" where
  "put_json path v files = dset files (as_posix path) (Some v)"

definition sub_path :: "py_path \<Rightarrow> string list \<Rightarrow> py_path" where
  "sub_path base names = foldl path_join base names"

section \<open>Silver\<close>

text \<open>\<open>str.isdigit\<close> holds for the superscripts 1, 2 and 3 too, which \<open>int\<close> does not read.\<close>

definition is_digit_text :: "string \<Rightarrow> bool" where
  "is_digit_text s = (s \<noteq> [] \<and> list_all (\<lambda>c. is_digit c \<or> code c \<in> set [178, 179, 185]) s)"

definition normalize_value :: "pyval \<Rightarrow> pyval res" where
  "normalize_value v = (case v of
       PStr raw \<Rightarrow>
         (let value = strip raw
          in if is_digit_text value then rbind (py_int (PStr value)) (\<lambda>i. Inr (PInt i))
             else case read_float (map (\<lambda>c. if c = CHR '','' then CHR ''.'' else c) value) of
                 Some x \<Rightarrow> Inr (of_float x)
               | None \<Rightarrow> Inr (PStr value))
     | _ \<Rightarrow> Inr v)"

definition normalize_record :: "pydict \<Rightarrow> pydict res" where
  "normalize_record r = rmap (\<lambda>(k, v). rbind (normalize_value v) (\<lambda>v'. Inr (k, v'))) r"

definition stable_id :: "(string \<Rightarrow> string) \<Rightarrow> string \<Rightarrow> string \<Rightarrow> string" where
  "stable_id hexdigest entity_name natural_key = ''sid_'' @ take 16 (hexdigest (entity_name @ ''::'' @ natural_key))"

definition key_part :: "pydict \<Rightarrow> nat \<Rightarrow> string \<Rightarrow> string res" where
  "key_part r index field =
     (let raw = dget_or r field PNone; normalized = (if raw = PNone then [] else strip (py_str raw))
      in if normalized = []
         then Inl (ValueError (''Missing natural key component: field='' @ field @ '' source_record_index='' @ int_str (int index)))
         else Inr normalized)"

definition build_natural_key :: "pydict \<Rightarrow> string list \<Rightarrow> nat \<Rightarrow> string res" where
  "build_natural_key r natural_key_fields index =
     rbind (rmap (key_part r index) natural_key_fields) (\<lambda>parts. Inr (join ''|'' parts))"

text \<open>The columns of a record override the identifier put in front of them.\<close>

definition with_id :: "string \<Rightarrow> pydict \<Rightarrow> pydict" where
  "with_id canonical_id r = foldl (\<lambda>d (k, v). dset d k v) [(''canonical_id'', PStr canonical_id)] r"

definition crosswalk_row :: "nat \<Rightarrow> string \<Rightarrow> string \<Rightarrow> pydict" where
  "crosswalk_row index canonical_id natural_key =
     [(''source_record_index'', PInt (int index)), (''canonical_id'', PStr canonical_id), (''natural_key'', PStr natural_key)]"

definition silver_row :: "(string \<Rightarrow> string) \<Rightarrow> string \<Rightarrow> string list \<Rightarrow> nat \<times> pydict \<Rightarrow> (pydict \<times> pydict) res" where
  "silver_row hexdigest entity_name natural_key_fields indexed =
     (let (index, r) = indexed
      in rbind (build_natural_key r natural_key_fields index) (\<lambda>key.
         let canonical_id = stable_id hexdigest entity_name key
         in Inr (with_id canonical_id r, crosswalk_row index canonical_id key)))"

record silver_result =
  sr_snapshot_id :: string
  sr_data_path :: string
  sr_crosswalk_path :: string

definition build_silver_snapshot ::
  "(string \<Rightarrow> string) \<Rightarrow> string \<Rightarrow> string \<Rightarrow> pydict list \<Rightarrow> string list \<Rightarrow> string \<Rightarrow> string \<Rightarrow> json_store \<Rightarrow>
     silver_result res \<times> json_store" where
  "build_silver_snapshot hexdigest workspace_id entity_name source_records natural_key_fields output_root snapshot_id files =
     (if natural_key_fields = [] then (Inl (ValueError ''natural_key_fields must not be empty''), files)
      else case rbind (rmap normalize_record source_records) (\<lambda>normalized.
             rmap (silver_row hexdigest entity_name natural_key_fields) (List.enumerate 0 normalized)) of
        Inl e \<Rightarrow> (Inl e, files)
      | Inr rows \<Rightarrow>
          (let base = sub_path (path_of output_root) [''silver'', workspace_id, entity_name, ''snapshots'', snapshot_id];
               data_path = path_join base ''data.json''; crosswalk_path = path_join base ''crosswalk.json''
           in (Inr \<lparr>sr_snapshot_id = snapshot_id, sr_data_path = as_posix data_path, sr_crosswalk_path = as_posix crosswalk_path\<rparr>,
               put_json crosswalk_path (PList (map (\<lambda>p. PDict (snd p)) rows))
                 (put_json data_path (PList (map (\<lambda>p. PDict (fst p)) rows)) files))))"

section \<open>Gold\<close>

fun add_metric_value :: "string \<Rightarrow> pyfloat \<Rightarrow> pydict list \<Rightarrow> pyfloat res" where
  "add_metric_value field acc [] = Inr acc"
| "add_metric_value field acc (row # rest) =
     (let v = dget_or row field (PInt 0)
      in case v of
           PInt _ \<Rightarrow> rbind (py_float v) (\<lambda>x. add_metric_value field (fadd acc x) rest)
         | PBool _ \<Rightarrow> rbind (py_float v) (\<lambda>x. add_metric_value field (fadd acc x) rest)
         | PFloat _ _ \<Rightarrow> rbind (py_float v) (\<lambda>x. add_metric_value field (fadd acc x) rest)
         | _ \<Rightarrow> add_metric_value field acc rest)"

definition run_iceberg_maintenance_hooks ::
  "string \<Rightarrow> string \<Rightarrow> string \<Rightarrow> bool \<Rightarrow> json_store \<Rightarrow> string option \<times> json_store" where
  "run_iceberg_maintenance_hooks workspace_id snapshot_id output_root enabled files =
     (if \<not> enabled then (None, files)
      else let path = sub_path (path_of output_root) [''gold'', workspace_id, ''_maintenance'', snapshot_id @ ''.json''];
             operation = (\<lambda>name. PDict [(''name'', PStr name), (''status'', PStr ''simulated'')])
        in (Some (as_posix path), put_json path (PDict
             [(''workspace_id'', PStr workspace_id), (''snapshot_id'', PStr snapshot_id),
              (''operations'', PList [operation ''expire_snapshots'', operation ''rewrite_manifests'']),
              (''status'', PStr ''applied'')]) files))"

record gold_result =
  go_snapshot_id :: string
  go_data_path :: string
  go_manifest_path :: string
  go_pointer_path :: string
  go_report_path :: "string option"

definition gold_pointer_path :: "string \<Rightarrow> string \<Rightarrow> py_path" where
  "gold_pointer_path output_root workspace_id = sub_path (path_of output_root) [''gold'', workspace_id, ''_published'', ''latest.json'']"

definition pointer_json :: "pyval \<Rightarrow> string \<Rightarrow> pyval" where
  "pointer_json snapshot model_name = PDict [(''snapshot_id'', snapshot), (''model_name'', PStr model_name)]"

text \<open>The pointer moves only with the permission to publish; without one it is only made, empty.\<close>

definition write_pointer :: "py_path \<Rightarrow> string \<Rightarrow> string \<Rightarrow> bool \<Rightarrow> json_store \<Rightarrow> json_store" where
  "write_pointer path snapshot_id model_name allow_publish files =
     (if allow_publish then put_json path (pointer_json (PStr snapshot_id) model_name) files
      else if dget files (as_posix path) = None then put_json path (pointer_json PNone model_name) files
      else files)"

definition gold_manifest :: "string \<Rightarrow> string \<Rightarrow> string \<Rightarrow> pyval" where
  "gold_manifest model_name snapshot_id metric_field =
     PDict [(''manifest_version'', PStr ''1.0.0''), (''model_name'', PStr model_name), (''snapshot_id'', PStr snapshot_id),
       (''metrics'', PList [PDict [(''name'', PStr (''sum_'' @ metric_field)), (''grain'', PStr ''global'')]])]"

definition build_gold_snapshot ::
  "string \<Rightarrow> string \<Rightarrow> pydict list \<Rightarrow> string \<Rightarrow> string \<Rightarrow> string \<Rightarrow> bool \<Rightarrow> bool \<Rightarrow> json_store \<Rightarrow> gold_result res \<times> json_store" where
  "build_gold_snapshot workspace_id model_name silver_rows metric_field output_root snapshot_id allow_publish hooks_enabled files =
     (case add_metric_value metric_field (Fin 0) silver_rows of
        Inl e \<Rightarrow> (Inl e, files)
      | Inr acc \<Rightarrow>
          (let base = path_of output_root;
               data_path = sub_path base [''gold'', workspace_id, model_name, ''snapshots'', snapshot_id, ''metrics.json''];
               manifest_path = sub_path base [''gold'', workspace_id, ''semantic_manifest'', ''v1'', ''manifest.json''];
               pointer_path = gold_pointer_path output_root workspace_id;
               files1 = put_json data_path (PList [PDict [(''metric'', PStr (''sum_'' @ metric_field)), (''value'', of_float acc)]]) files;
               files2 = put_json manifest_path (gold_manifest model_name snapshot_id metric_field) files1;
               files3 = write_pointer pointer_path snapshot_id model_name allow_publish files2;
               (report, files4) = run_iceberg_maintenance_hooks workspace_id snapshot_id output_root hooks_enabled files3
           in (Inr \<lparr>go_snapshot_id = snapshot_id, go_data_path = as_posix data_path, go_manifest_path = as_posix manifest_path,
                 go_pointer_path = as_posix pointer_path, go_report_path = report\<rparr>, files4)))"

section \<open>Compaction\<close>

definition compaction_input :: "json_store \<Rightarrow> string \<Rightarrow> pyval list res" where
  "compaction_input files path = (case dget files path of
       None \<Rightarrow> Inl (ValueError (''missing_compaction_input:'' @ path))
     | Some None \<Rightarrow> Inl (ValueError ''json'')
     | Some (Some (PList rows)) \<Rightarrow> Inr rows
     | Some (Some _) \<Rightarrow> Inl (ValueError (''invalid_compaction_payload:'' @ path)))"

definition compact_json_files :: "string list \<Rightarrow> string \<Rightarrow> json_store \<Rightarrow> pydict res \<times> json_store" where
  "compact_json_files input_files output_file files =
     (let unique_inputs = sorted_set (map (\<lambda>p. as_posix (path_of p)) input_files)
      in case rmap (compaction_input files) unique_inputs of
           Inl e \<Rightarrow> (Inl e, files)
         | Inr parts \<Rightarrow>
             (Inr [(''input_count'', PInt (int (length unique_inputs))), (''output_path'', PStr (as_posix (path_of output_file))),
                (''row_count'', PInt (int (length (concat parts))))],
              put_json (path_of output_file) (PList (concat parts)) files))"

section \<open>Silver rows and their crosswalk\<close>

text \<open>
  What a snapshot holds: for each source record, in order, its normalised columns with the stable
  identifier of its natural key, and a row of the crosswalk that says which record has which key.
\<close>

definition silver_pair :: "(string \<Rightarrow> string) \<Rightarrow> string \<Rightarrow> string list \<Rightarrow> nat \<Rightarrow> pydict \<Rightarrow> pydict \<Rightarrow> pydict \<Rightarrow> bool" where
  "silver_pair hexdigest entity_name key_fields index source data crosswalk \<longleftrightarrow>
     (\<exists>r key. normalize_record source = Inr r \<and> build_natural_key r key_fields index = Inr key \<and>
        data = with_id (stable_id hexdigest entity_name key) r \<and>
        crosswalk = crosswalk_row index (stable_id hexdigest entity_name key) key)"

lemma join_ends: "\<exists>y. join sep (xs @ [x]) = y @ x"
  by (induction xs rule: induct_list012) (auto simp flip: append_assoc)

lemma snapshot_paths_differ: "as_posix (path_join b ''data.json'') \<noteq> as_posix (path_join b ''crosswalk.json'')"
proof
  have p: "path_of ''data.json'' = ([], [''data.json''])" "path_of ''crosswalk.json'' = ([], [''crosswalk.json''])" by code_simp+
  obtain y z where "join ''/'' (snd b @ [''data.json'']) = y @ ''data.json''" "join ''/'' (snd b @ [''crosswalk.json'']) = z @ ''crosswalk.json''"
    using join_ends by metis
  moreover assume "as_posix (path_join b ''data.json'') = as_posix (path_join b ''crosswalk.json'')"
  ultimately have "rev (fst b @ y @ ''data.json'') = rev (fst b @ z @ ''crosswalk.json'')"
    by (simp add: as_posix_def path_join_def p)
  then show False by simp
qed

lemma silver_rows_pairs:
  assumes "rmap normalize_record source = Inr normalized" "rmap (silver_row hexdigest entity key_fields) (List.enumerate k normalized) = Inr rows"
  shows "length rows = length source \<and> (\<forall>i < length source. silver_pair hexdigest entity key_fields (k + i) (source ! i) (fst (rows ! i)) (snd (rows ! i)))"
proof -
  from rmap_all2 [OF assms(1)] rmap_all2 [OF assms(2)] have len: "length rows = length source" "length normalized = length source"
    by (auto dest!: list_all2_lengthD)
  have "silver_pair hexdigest entity key_fields (k + i) (source ! i) (fst (rows ! i)) (snd (rows ! i))" if "i < length source" for i
  proof -
    from rmap_all2 [OF assms(1)] that have n: "normalize_record (source ! i) = Inr (normalized ! i)" by (simp add: list_all2_conv_all_nth)
    from rmap_all2 [OF assms(2)] that len have "silver_row hexdigest entity key_fields (k + i, normalized ! i) = Inr (rows ! i)"
      by (auto simp: list_all2_conv_all_nth nth_enumerate_eq)
    with n show ?thesis by (cases "rows ! i") (auto simp: silver_pair_def silver_row_def rbind_eq_Inr_iff Let_def)
  qed
  with len show ?thesis by blast
qed


definition demo_digest :: "string \<Rightarrow> string" where
  "demo_digest s = rev s @ ''0123456789abcdef''"


text \<open>Different natural keys that are joined to one text get one identifier, and leading zeros are lost.\<close>

lemma natural_key_ambiguous:
  "build_natural_key [(''a'', PStr ''x|y''), (''b'', PStr ''z'')] [''a'', ''b''] i = Inr ''x|y|z'' \<and>
   build_natural_key [(''a'', PStr ''x''), (''b'', PStr ''y|z'')] [''a'', ''b''] i = Inr ''x|y|z''"
  by code_simp

lemma leading_zeros_conflated:
  "rbind (normalize_record [(''id'', PStr ''007'')]) (\<lambda>r. build_natural_key r [''id''] i) = Inr ''7'' \<and>
   rbind (normalize_record [(''id'', PStr ''7'')]) (\<lambda>r. build_natural_key r [''id''] i) = Inr ''7''"
  by code_simp

text \<open>A superscript digit stops the whole build.\<close>

lemma superscript_stops_silver: "normalize_record [(''area'', PStr [char_of (178::nat)])] = Inl (ValueError ''int'')"
  by code_simp

section \<open>The published pointer of gold\<close>

text \<open>
  Without the permission to publish a build leaves the pointer as it is, or makes an empty one where
  there is none; with it, the pointer names the snapshot just built, whose metrics are on disk.
\<close>

theorem gold_pointer_fail_closed:
  assumes "build_gold_snapshot ws model rows field output snapshot allow hooks files = (Inr g, files')"
    and "distinct [go_data_path g, go_manifest_path g, go_pointer_path g]"
    and "go_report_path g = None \<or> the (go_report_path g) \<notin> set [go_data_path g, go_pointer_path g]"
  shows "dget files' (go_pointer_path g) =
      (if allow then Some (Some (pointer_json (PStr snapshot) model))
       else if dget files (go_pointer_path g) = None then Some (Some (pointer_json PNone model))
       else dget files (go_pointer_path g)) \<and>
    dget files' (go_data_path g) \<noteq> None"
proof -
  obtain v report where g: "run_iceberg_maintenance_hooks ws snapshot output hooks
      (write_pointer (gold_pointer_path output ws) snapshot model allow (dset (dset files (go_data_path g) (Some v))
        (go_manifest_path g) (Some (gold_manifest model snapshot field)))) = (report, files')"
    "go_pointer_path g = as_posix (gold_pointer_path output ws)" "go_report_path g = report"
    using assms(1) by (auto simp: build_gold_snapshot_def Let_def put_json_def split: sum.split_asm prod.split_asm)
  have hooks: "dget files' p = dget (write_pointer (gold_pointer_path output ws) snapshot model allow
      (dset (dset files (go_data_path g) (Some v)) (go_manifest_path g) (Some (gold_manifest model snapshot field)))) p"
    if "p \<in> set [go_data_path g, go_pointer_path g]" for p
    using g(1) assms(3) that unfolding g(3)
    by (auto simp: run_iceberg_maintenance_hooks_def Let_def put_json_def split: if_split_asm)
  show ?thesis
    using hooks [of "go_data_path g"] hooks [of "go_pointer_path g"] assms(2)
    by (auto simp: write_pointer_def put_json_def g(2))
qed

section \<open>Compaction does not depend on the order of its inputs\<close>

lemma sorted_set_cong: "set xs = set ys \<Longrightarrow> sorted_set xs = sorted_set ys"
  by (intro sorted_distinct_set_unique) simp_all

theorem compaction_order_free:
  assumes "set inputs = set inputs'"
  shows "compact_json_files inputs output files = compact_json_files inputs' output files"
proof -
  from assms have "sorted_set (map (\<lambda>p. as_posix (path_of p)) inputs) = sorted_set (map (\<lambda>p. as_posix (path_of p)) inputs')"
    by (intro sorted_set_cong) simp
  then show ?thesis by (simp add: compact_json_files_def)
qed

end
