(* ===== verification/SecretHygiene.thy ===== *)
theory SecretHygiene
  imports Json "HOL-Library.Sublist"
begin

text \<open>
  Secrets hygiene (\<open>backend/shared_domain/secrets.py\<close>) and the structured log lines that pass
  through it (\<open>backend/shared_domain/observability.py\<close>). A pattern is a function from the rest of a
  text to the length of its greedy match there; substitution takes leftmost matches, as \<open>re.sub\<close>.
\<close>

section \<open>The patterns\<close>

type_synonym pattern = "string \<Rightarrow> nat option"

definition alnum :: "char \<Rightarrow> bool" where
  "alnum c = (is_alpha c \<or> is_digit c)"

definition upper_or_digit :: "char \<Rightarrow> bool" where
  "upper_or_digit c = (let n = code c in (65 \<le> n \<and> n \<le> 90) \<or> is_digit c)"

text \<open>\<open>sk-[A-Za-z0-9]{10,}\<close>\<close>

definition secret_key :: pattern where
  "secret_key s =
     (if startswith s ''sk-'' \<and> 10 \<le> length (takeWhile alnum (drop 3 s))
      then Some (3 + length (takeWhile alnum (drop 3 s))) else None)"

text \<open>\<open>AKIA[0-9A-Z]{16}\<close>\<close>

definition access_key :: pattern where
  "access_key s =
     (if startswith s ''AKIA'' \<and> 16 \<le> length (takeWhile upper_or_digit (drop 4 s)) then Some 20 else None)"

text \<open>
  \<open>(?i)password\s*=\s*[^,\s]+\<close>: what follows the white space after the equals sign is not white
  space, so giving back some of it would not help.
\<close>

definition value_char :: "char \<Rightarrow> bool" where
  "value_char c = (c \<noteq> CHR '','' \<and> \<not> is_space c)"

definition after_equals :: "string \<Rightarrow> string option" where
  "after_equals s = (case dropWhile is_space s of
       c # r \<Rightarrow> if c = CHR ''='' then Some (dropWhile is_space r) else None
     | [] \<Rightarrow> None)"

definition password :: pattern where
  "password s =
     (if lower (take 8 s) \<noteq> ''password'' then None
      else case after_equals (drop 8 s) of
          None \<Rightarrow> None
        | Some v \<Rightarrow>
            if takeWhile value_char v = [] then None
            else Some (length s - length v + length (takeWhile value_char v)))"

definition SECRET_PATTERNS :: "pattern list" where
  "SECRET_PATTERNS = [secret_key, access_key, password]"

section \<open>Redaction\<close>

definition REDACTED :: string where
  "REDACTED = ''[REDACTED]''"

text \<open>\<open>pattern.sub("[REDACTED]", text)\<close> for a pattern that does not match the empty text.\<close>

function sub_all :: "pattern \<Rightarrow> string \<Rightarrow> string" where
  "sub_all p [] = []"
| "sub_all p (c # s) =
     (case p (c # s) of None \<Rightarrow> c # sub_all p s
      | Some n \<Rightarrow> REDACTED @ sub_all p (drop (n - 1) s))"
  by pat_completeness auto
termination
  by (relation "measure (\<lambda>(p, s). length s)") auto

fun search :: "pattern \<Rightarrow> string \<Rightarrow> bool" where
  "search p [] = (p [] \<noteq> None)"
| "search p (c # s) = (p (c # s) \<noteq> None \<or> search p s)"

definition redact_secrets :: "string \<Rightarrow> string" where
  "redact_secrets text = foldl (\<lambda>t p. sub_all p t) text SECRET_PATTERNS"

definition contains_secret :: "string \<Rightarrow> bool" where
  "contains_secret text = list_ex (\<lambda>p. search p text) SECRET_PATTERNS"

section \<open>Rotation of a reference\<close>

text \<open>A configuration file is its JSON value; the result is the previous reference and the new one.\<close>

definition rotate_secret_reference :: "json_text \<Rightarrow> string \<Rightarrow> string \<Rightarrow> ((string option \<times> string) \<times> pyval) res" where
  "rotate_secret_reference config key new_reference =
     (if contains_secret new_reference then Inl (ValueError ''new_reference_looks_like_secret'')
      else case config of
          None \<Rightarrow> Inl (ValueError ''json'')
        | Some (PDict payload) \<Rightarrow>
            Inr ((case dget_or payload key PNone of PNone \<Rightarrow> None | previous \<Rightarrow> Some (py_str previous), new_reference),
              PDict (dset payload key (PStr new_reference)))
        | Some _ \<Rightarrow> Inl (OtherError ''AttributeError''))"

section \<open>Log lines\<close>

record log_event =
  le_level :: string
  le_msg :: string
  le_service :: string
  le_correlation_id :: string
  le_workspace_id :: "string option"
  le_actor_id :: "string option"
  le_event_type :: "string option"
  le_extra :: "pydict option"

definition build_structured_log :: "log_event \<Rightarrow> pydict" where
  "build_structured_log e =
     foldl (\<lambda>d (k, v). dset d k v)
       [(''level'', PStr (le_level e)), (''msg'', PStr (le_msg e)), (''service'', PStr (le_service e)),
        (''correlation_id'', PStr (le_correlation_id e)), (''workspace_id'', opt_str (le_workspace_id e)),
        (''actor_id'', opt_str (le_actor_id e)), (''event_type'', opt_str (le_event_type e))]
       (case le_extra e of None \<Rightarrow> [] | Some extra \<Rightarrow> extra)"

text \<open>\<open>json.dumps(v, sort_keys=True)\<close>\<close>

fun json_spaced :: "pyval \<Rightarrow> string" where
  "json_spaced (PList xs) = CHR ''['' # join '', '' (map json_spaced xs) @ '']''"
| "json_spaced (PDict kvs) =
     CHR ''{'' # join '', ''
       (map (\<lambda>p. json_str (fst p) @ '': '' @ snd p) (sort_key fst (map (\<lambda>p. (fst p, json_spaced (snd p))) kvs))) @ ''}''"
| "json_spaced v = json_dumps v"

definition upper_char :: "char \<Rightarrow> char" where
  "upper_char c = (let n = code c in if 97 \<le> n \<and> n \<le> 122 then char_of (n - 32) else c)"

text \<open>\<open>getattr(logging, level.upper(), logging.INFO)\<close>: the upper-case names of the module.\<close>

definition level_value :: "string \<Rightarrow> int res" where
  "level_value level =
     (let name = map upper_char level
      in if name \<in> set [''BASIC_FORMAT'', ''_STYLES''] then Inl TypeError
         else Inr (case dget [(''CRITICAL'', 50), (''FATAL'', 50), (''ERROR'', 40), (''WARNING'', 30), (''WARN'', 30),
             (''INFO'', 20), (''DEBUG'', 10), (''NOTSET'', 0)] name of None \<Rightarrow> 20 | Some n \<Rightarrow> n))"

text \<open>The logger keeps lines from the level \<open>INFO\<close> on; the lines are those of the handler.\<close>

definition log_structured_event :: "log_event \<Rightarrow> string list \<Rightarrow> pydict res \<times> string list" where
  "log_structured_event e lines =
     (let payload = build_structured_log e
      in case level_value (le_level e) of
           Inl err \<Rightarrow> (Inl err, lines)
         | Inr n \<Rightarrow> (Inr payload, if 20 \<le> n then lines @ [redact_secrets (json_spaced (PDict payload))] else lines))"

section \<open>Nothing is left of a secret\<close>

lemma search_suffix: "search p s \<longleftrightarrow> (\<exists>t. suffix t s \<and> p t \<noteq> None)"
proof (induction s)
  case (Cons c s)
  then show ?case by (auto simp: suffix_Cons)
qed simp

text \<open>The rest of a redacted text is the redaction of a rest, or starts inside of a mark.\<close>

lemma suffix_of_drop: "suffix u (drop n s) \<Longrightarrow> suffix u (c # s)"
  by (metis suffix_ConsI suffix_drop suffix_order.trans)

lemma suffix_sub_all:
  "suffix u (sub_all m t) \<Longrightarrow>
     (\<exists>s. suffix s t \<and> u = sub_all m s) \<or> (\<exists>r s. r \<in> set (suffixes (tl REDACTED)) \<and> r \<noteq> [] \<and> u = r @ sub_all m s)"
proof (induction m t rule: sub_all.induct)
  case (2 m c s)
  show ?case
  proof (cases "m (c # s)")
    case None
    with "2.prems" consider "u = sub_all m (c # s)" | "suffix u (sub_all m s)" by (auto simp: suffix_Cons)
    then show ?thesis
    proof cases
      case 2
      from "2.IH"(1) [OF None this] show ?thesis by (auto intro: suffix_ConsI)
    qed blast
  next
    case (Some n)
    with "2.prems" have "suffix u (REDACTED @ sub_all m (drop (n - 1) s))" by simp
    then consider "suffix u (sub_all m (drop (n - 1) s))" | r where "suffix r REDACTED" "r \<noteq> []" "u = r @ sub_all m (drop (n - 1) s)"
      unfolding suffix_append by (cases "suffix u (sub_all m (drop (n - 1) s))") auto
    then show ?thesis
    proof cases
      case 1
      from "2.IH"(2) [OF Some this] show ?thesis using suffix_of_drop [of _ "n - 1" s c] by blast
    next
      case 2
      show ?thesis
      proof (cases "r = REDACTED")
        case True
        with 2 Some show ?thesis by (intro disjI1 exI [of _ "c # s"]) simp
      next
        case False
        with 2(1) have "suffix r (tl REDACTED)" by (simp add: REDACTED_def suffix_Cons)
        with 2 show ?thesis by auto
      qed
    qed
  qed
qed simp

text \<open>A pattern whose matches begin with a character of a word or a key.\<close>

definition heads_word :: "pattern \<Rightarrow> bool" where
  "heads_word m \<longleftrightarrow> (\<forall>s. m s \<noteq> None \<longrightarrow> s \<noteq> [] \<and> value_char (hd s) \<and> hd s \<notin> {CHR ''['', CHR ''=''})"

lemma heads_wordD: "heads_word m \<Longrightarrow> m (c # s) = Some n \<Longrightarrow> value_char c \<and> c \<noteq> CHR ''['' \<and> c \<noteq> CHR ''=''"
  unfolding heads_word_def by (metis insertCI list.sel(1) option.distinct(1))

lemma unmarked_prefix:
  "CHR ''['' \<notin> set (take n (sub_all m s)) \<Longrightarrow> take n (sub_all m s) = take n s \<and> drop n (sub_all m s) = sub_all m (drop n s)"
proof (induction n arbitrary: s)
  case (Suc n)
  show ?case
  proof (cases s)
    case (Cons c r)
    with Suc.prems have "m (c # r) = None" by (auto simp: REDACTED_def split: option.split_asm)
    with Suc Cons show ?thesis by simp
  qed simp
qed simp

lemma unmarked_run:
  assumes "\<not> P (CHR ''['')"
  shows "length (takeWhile P (sub_all m s)) \<le> length (takeWhile P s)"
proof (induction s)
  case (Cons c s)
  with assms show ?case by (auto simp: REDACTED_def split: option.split)
qed simp

lemma skip_spaces:
  assumes "heads_word m"
  shows "dropWhile is_space (sub_all m s) = sub_all m (dropWhile is_space s)"
proof (induction s)
  case (Cons c s)
  have "\<not> is_space (CHR ''['')" by code_simp
  with Cons heads_wordD [OF assms, of c s] show ?case by (auto simp: REDACTED_def value_char_def split: option.split)
qed simp

lemma value_begins:
  assumes "heads_word m" "takeWhile value_char (sub_all m v) \<noteq> []"
  shows "takeWhile value_char v \<noteq> []"
proof (cases v)
  case (Cons c r)
  with assms heads_wordD [OF assms(1), of c r] show ?thesis by (auto split: option.split_asm if_split_asm)
qed (use assms in simp)

lemma after_equals_sub:
  assumes "heads_word m" "after_equals (sub_all m s) = Some v"
  shows "\<exists>v'. after_equals s = Some v' \<and> v = sub_all m v'"
proof (cases "dropWhile is_space s")
  case Nil
  with assms(2) show ?thesis by (simp add: after_equals_def skip_spaces [OF assms(1)])
next
  case (Cons c r)
  with assms(2) have "m (c # r) = None" by (auto simp: after_equals_def skip_spaces [OF assms(1)] REDACTED_def split: option.split_asm)
  with Cons assms(2) show ?thesis by (auto simp: after_equals_def skip_spaces [OF assms(1)] split: if_split_asm)
qed

text \<open>What matches at a place of a redacted text matched there before.\<close>

definition survives :: "pattern \<Rightarrow> bool" where
  "survives p \<longleftrightarrow> (\<forall>m s. heads_word m \<longrightarrow> p (sub_all m s) \<noteq> None \<longrightarrow> p s \<noteq> None) \<and>
     (\<forall>r \<in> set (suffixes (tl REDACTED)). \<forall>s. r \<noteq> [] \<longrightarrow> p (r @ s) = None) \<and> heads_word p"

lemma survivesD:
  assumes "survives p"
  shows "heads_word m \<Longrightarrow> p (sub_all m s) \<noteq> None \<Longrightarrow> p s \<noteq> None"
    and "r \<in> set (suffixes (tl REDACTED)) \<Longrightarrow> r \<noteq> [] \<Longrightarrow> p (r @ s) = None" and "heads_word p"
  using assms unfolding survives_def by blast+

lemma sub_all_clean:
  assumes p: "survives p" and m: "heads_word m" and t: "\<not> search p t \<or> m = p"
  shows "\<not> search p (sub_all m t)"
proof
  assume "search p (sub_all m t)"
  then obtain u where u: "suffix u (sub_all m t)" "p u \<noteq> None" unfolding search_suffix by blast
  from suffix_sub_all [OF u(1)] obtain s where s: "suffix s t" "u = sub_all m s"
    using survivesD(2) [OF p] u(2) by (elim disjE exE conjE) auto
  with u(2) survivesD(1) [OF p m] have match: "p s \<noteq> None" by blast
  with s(1) t have "m = p" unfolding search_suffix by blast
  with match obtain c r where "s = c # r" "m s \<noteq> None" using heads_word_def m by (metis neq_Nil_conv)
  then have "hd u = CHR ''[''" by (auto simp: s(2) REDACTED_def)
  with u(2) survivesD(3) [OF p] show False unfolding heads_word_def by blast
qed

lemma startswith_sub_all:
  assumes "startswith (sub_all m s) w" "CHR ''['' \<notin> set w" "n = length w"
  shows "startswith s w \<and> drop n (sub_all m s) = sub_all m (drop n s)"
  using assms unmarked_prefix [of n m s] by (simp add: startswith_def)

lemma startswith_hd: "startswith s (c # w) \<Longrightarrow> s \<noteq> [] \<and> hd s = c"
  by (cases s) (auto simp: startswith_def)

lemma mark_tails: "set (suffixes (tl REDACTED)) =
    {[], '']'', ''D]'', ''ED]'', ''TED]'', ''CTED]'', ''ACTED]'', ''DACTED]'', ''EDACTED]'', ''REDACTED]''}"
  by (auto simp: REDACTED_def)

lemma survives_secret_key: "survives secret_key"
  unfolding survives_def
proof (intro conjI allI impI)
  fix m s assume "heads_word m" and match: "secret_key (sub_all m s) \<noteq> None"
  from match have "startswith (sub_all m s) ''sk-''" by (simp add: secret_key_def split: if_split_asm)
  from startswith_sub_all [OF this, of 3] match unmarked_run [of alnum m "drop 3 s"]
  show "secret_key s \<noteq> None" by (auto simp: secret_key_def alnum_def is_alpha_def is_digit_def code_def split: if_split_asm)
next
  show "\<forall>r \<in> set (suffixes (tl REDACTED)). \<forall>s. r \<noteq> [] \<longrightarrow> secret_key (r @ s) = None"
    by (simp add: mark_tails secret_key_def startswith_def)
next
  show "heads_word secret_key"
    unfolding heads_word_def
    by (auto simp: secret_key_def value_char_def is_space_def code_def dest!: startswith_hd split: if_split_asm)
qed

lemma survives_access_key: "survives access_key"
  unfolding survives_def
proof (intro conjI allI impI)
  fix m s assume "heads_word m" and match: "access_key (sub_all m s) \<noteq> None"
  from match have "startswith (sub_all m s) ''AKIA''" by (simp add: access_key_def split: if_split_asm)
  from startswith_sub_all [OF this, of 4] match unmarked_run [of upper_or_digit m "drop 4 s"]
  show "access_key s \<noteq> None" by (auto simp: access_key_def upper_or_digit_def is_digit_def code_def split: if_split_asm)
next
  show "\<forall>r \<in> set (suffixes (tl REDACTED)). \<forall>s. r \<noteq> [] \<longrightarrow> access_key (r @ s) = None"
    by (simp add: mark_tails access_key_def startswith_def)
next
  show "heads_word access_key"
    unfolding heads_word_def
    by (auto simp: access_key_def value_char_def is_space_def code_def dest!: startswith_hd split: if_split_asm)
qed


lemma password_iff:
  "password s \<noteq> None \<longleftrightarrow> lower (take 8 s) = ''password'' \<and> (\<exists>v. after_equals (drop 8 s) = Some v \<and> takeWhile value_char v \<noteq> [])"
  by (auto simp: password_def split: option.split)

lemma lower_open: "CHR ''['' \<in> set s \<Longrightarrow> CHR ''['' \<in> set (lower s)"
proof -
  have "lower_char (CHR ''['') = CHR ''[''" by code_simp
  then show "CHR ''['' \<in> set s \<Longrightarrow> CHR ''['' \<in> set (lower s)" unfolding lower_def set_map by (metis imageI)
qed

lemma lower_password_hd: "lower (take 8 s) = ''password'' \<Longrightarrow> s \<noteq> [] \<and> lower_char (hd s) = CHR ''p''"
  by (cases s) (auto simp: lower_def)

lemma password_letter: "lower_char c = CHR ''p'' \<Longrightarrow> value_char c \<and> c \<noteq> CHR ''['' \<and> c \<noteq> CHR ''=''"
  by (auto simp: value_char_def lower_char_def is_space_def code_def Let_def split: if_split_asm)

lemma survives_password: "survives password"
  unfolding survives_def
proof (intro conjI allI impI)
  fix m s assume m: "heads_word m" and match: "password (sub_all m s) \<noteq> None"
  from match obtain v where v: "lower (take 8 (sub_all m s)) = ''password''" "after_equals (drop 8 (sub_all m s)) = Some v"
    "takeWhile value_char v \<noteq> []" unfolding password_iff by blast
  from v(1) have "CHR ''['' \<notin> set (take 8 (sub_all m s))" using lower_open [of "take 8 (sub_all m s)"] by auto
  from unmarked_prefix [OF this] have s: "take 8 (sub_all m s) = take 8 s" "drop 8 (sub_all m s) = sub_all m (drop 8 s)" by auto
  with after_equals_sub [OF m] v(2) obtain v' where "after_equals (drop 8 s) = Some v'" "v = sub_all m v'" by metis
  with value_begins [OF m] v s show "password s \<noteq> None" unfolding password_iff by metis
next
  show "\<forall>r \<in> set (suffixes (tl REDACTED)). \<forall>s. r \<noteq> [] \<longrightarrow> password (r @ s) = None"
  proof (intro ballI allI impI)
    fix r s :: string assume r: "r \<in> set (suffixes (tl REDACTED))" "r \<noteq> []"
    have "list_all (\<lambda>r. r = [] \<or> lower_char (hd r) \<noteq> CHR ''p'') (suffixes (tl REDACTED))" by code_simp
    with r have "lower_char (hd (r @ s)) \<noteq> CHR ''p''" by (auto simp: list_all_iff)
    then show "password (r @ s) = None" using lower_password_hd [of "r @ s"] by (auto simp: password_def)
  qed
next
  show "heads_word password"
    unfolding heads_word_def password_iff using lower_password_hd password_letter by blast
qed

lemmas pattern_survives = survives_secret_key survives_access_key survives_password

text \<open>
  C31. A redacted text contains no secret that the patterns describe, whatever text it was.\<close>

theorem redaction_leaves_no_secret: "\<not> contains_secret (redact_secrets text)"
proof -
  have word: "heads_word secret_key" "heads_word access_key" "heads_word password"
    using pattern_survives by (auto simp: survives_def)
  show ?thesis
    using word by (simp add: contains_secret_def redact_secrets_def SECRET_PATTERNS_def sub_all_clean pattern_survives)
qed

text \<open>A text without a secret is left as it is.\<close>

lemma sub_all_id: "\<not> search p t \<Longrightarrow> sub_all p t = t"
  by (induction t) (auto split: option.split)

lemma redact_id: "\<not> contains_secret t \<Longrightarrow> redact_secrets t = t"
  by (simp add: contains_secret_def redact_secrets_def SECRET_PATTERNS_def sub_all_id)

text \<open>And so for every line of the log.\<close>

lemma log_lines_clean:
  "list_all (\<lambda>l. \<not> contains_secret l) lines \<Longrightarrow> list_all (\<lambda>l. \<not> contains_secret l) (snd (log_structured_event e lines))"
  by (auto simp: log_structured_event_def Let_def redaction_leaves_no_secret split: sum.split)

lemma rotation_stores_reference:
  "rotate_secret_reference config key new_reference = Inr (r, PDict d) \<Longrightarrow>
     \<not> contains_secret new_reference \<and> snd r = new_reference \<and> dget d key = Some (PStr new_reference)"
  by (auto simp: rotate_secret_reference_def split: if_split_asm option.split_asm pyval.split_asm)

text \<open>A password that is a value of the JSON line is not a text the pattern describes.\<close>

lemma json_password_logged:
  "list_ex (contains ''hunter2'') (snd (log_structured_event \<lparr>le_level = ''info'', le_msg = ''login'', le_service = ''gateway'',
      le_correlation_id = ''c'', le_workspace_id = None, le_actor_id = None, le_event_type = None,
      le_extra = Some [(''password'', PStr ''hunter2'')]\<rparr> []))"
  by code_simp

end
