(* ===== verification/PackTools.thy ===== *)
theory PackTools
  imports Json
begin

text \<open>
  The pack registry (\<open>tools/pack_lint.py\<close> and \<open>tools/pack_migrate.py\<close>): validation of its entries
  against the compatibility matrix, signatures over the packs they name, and the migration of packs
  to the current schema. Files are regular UTF-8 files by path; a file has its bytes and the value
  \<open>json.loads\<close> gives for them, if any.
\<close>

section \<open>Files\<close>

record pack_file =
  pf_bytes :: string
  pf_json :: json_text

type_synonym pack_files = "(string \<times> pack_file) list"

text \<open>
  \<open>hashlib.sha256(\<dots>).hexdigest()\<close>, \<open>hmac.new(key, \<dots>, hashlib.sha256).hexdigest()\<close> and the text of the
  error \<open>json.loads\<close> raises for a text.
\<close>

record pack_env =
  pk_sha256 :: "string \<Rightarrow> string"
  pk_hmac :: "string \<Rightarrow> string \<Rightarrow> string"
  pk_json_error :: "string \<Rightarrow> string"

definition file_at :: "py_path \<Rightarrow> string \<Rightarrow> string" where
  "file_at base name = as_posix (path_join base name)"

text \<open>\<open>json.dumps(v, indent=2, sort_keys=True) + newline\<close>\<close>

definition new_line :: "nat \<Rightarrow> string" where
  "new_line depth = char_of (10::nat) # replicate (2 * depth) (CHR '' '')"

fun json_indented :: "nat \<Rightarrow> pyval \<Rightarrow> string" where
  "json_indented depth (PList xs) =
     (if xs = [] then ''[]''
      else CHR ''['' # new_line (Suc depth) @ join (CHR '','' # new_line (Suc depth)) (map (json_indented (Suc depth)) xs) @
        new_line depth @ '']'')"
| "json_indented depth (PDict kvs) =
     (if kvs = [] then ''{}''
      else CHR ''{'' # new_line (Suc depth) @ join (CHR '','' # new_line (Suc depth))
        (map (\<lambda>p. json_str (fst p) @ '': '' @ snd p)
          (sort_key fst (map (\<lambda>p. (fst p, json_indented (Suc depth) (snd p))) kvs))) @ new_line depth @ ''}'')"
| "json_indented depth v = json_dumps v"

definition canonical_json :: "pyval \<Rightarrow> string" where
  "canonical_json v = json_indented 0 v @ [char_of (10::nat)]"

text \<open>What is read back from such a text: the same value with its keys in order.\<close>

fun sorted_json :: "pyval \<Rightarrow> pyval" where
  "sorted_json (PList xs) = PList (map sorted_json xs)"
| "sorted_json (PDict kvs) = PDict (sort_key fst (map (\<lambda>p. (fst p, sorted_json (snd p))) kvs))"
| "sorted_json v = v"

definition json_file :: "pyval \<Rightarrow> pack_file" where
  "json_file v = \<lparr>pf_bytes = canonical_json v, pf_json = Some (sorted_json v)\<rparr>"

section \<open>The compatibility matrix\<close>

definition SIGNED_SECTIONS :: "string list" where
  "SIGNED_SECTIONS = [''policy_packs'', ''semantic_packs'', ''template_packs'']"

definition SIGNATURE_ALGORITHM :: string where
  "SIGNATURE_ALGORITHM = ''hmac-sha256''"

text \<open>\<open>^v[0-9]+$\<close> on a stripped text\<close>

definition version_text :: "string \<Rightarrow> bool" where
  "version_text s = (case s of c # ds \<Rightarrow> c = CHR ''v'' \<and> ds \<noteq> [] \<and> list_all is_digit ds | [] \<Rightarrow> False)"

definition text_at :: "pydict \<Rightarrow> string \<Rightarrow> string" where
  "text_at d k = strip (str_of d k [])"

definition section_errors :: "string \<times> pyval \<Rightarrow> string list" where
  "section_errors kv = (let (name, payload) = kv
     in case payload of
          PDict p \<Rightarrow>
            (let current = text_at p ''current_schema_version''
             in (if version_text current then [] else [''sections.'' @ name @ ''.current_schema_version must match v<integer>'']) @
                (case dget_or p ''supported_schema_versions'' PNone of
                   PList (v # vs) \<Rightarrow>
                     (let supported = map (\<lambda>item. strip (py_str item)) (v # vs)
                      in (if list_all version_text supported then []
                          else [''sections.'' @ name @ ''.supported_schema_versions contains invalid schema versions'']) @
                         (if current \<noteq> [] \<and> current \<notin> set supported
                          then [''sections.'' @ name @ ''.current_schema_version must appear in supported_schema_versions''] else []))
                 | _ \<Rightarrow> [''sections.'' @ name @ ''.supported_schema_versions must be a non-empty list'']))
        | _ \<Rightarrow> [''sections.'' @ name @ '' must be an object''])"

definition migration_errors :: "nat \<times> pyval \<Rightarrow> string list" where
  "migration_errors im = (let (i, m) = im; label = ''migrations['' @ int_str (int i) @ '']''
     in case m of
          PDict d \<Rightarrow>
            (if text_at d ''section'' = [] then [label @ ''.section is required''] else []) @
            (if version_text (text_at d ''from_schema_version'') then [] else [label @ ''.from_schema_version must match v<integer>'']) @
            (if version_text (text_at d ''to_schema_version'') then [] else [label @ ''.to_schema_version must match v<integer>''])
        | _ \<Rightarrow> [label @ '' must be an object''])"

definition matrix_errors :: "pydict \<Rightarrow> string list" where
  "matrix_errors payload =
     (if text_at payload ''matrix_version'' = ''v1'' then []
      else [''matrix_version must be v1, got '' @ str_repr (text_at payload ''matrix_version'')]) @
     (case dget_or payload ''sections'' PNone of
        PDict sections \<Rightarrow> concat (map section_errors sections) | _ \<Rightarrow> [''sections must be an object'']) @
     (case dget_or payload ''migrations'' PNone of
        PList ms \<Rightarrow> concat (map migration_errors (List.enumerate 0 ms)) | _ \<Rightarrow> [''migrations must be a list''])"

definition load_compatibility_matrix :: "pack_env \<Rightarrow> pack_files \<Rightarrow> py_path \<Rightarrow> string \<Rightarrow> pydict option \<times> string list" where
  "load_compatibility_matrix env files base matrix_path =
     (let path = file_at base matrix_path
      in case dget files path of
           None \<Rightarrow> (None, [''missing compatibility matrix file: '' @ path])
         | Some f \<Rightarrow>
             (case pf_json f of
                None \<Rightarrow> (None, [''invalid compatibility matrix json: '' @ pk_json_error env (pf_bytes f)])
              | Some (PDict payload) \<Rightarrow> (Some payload, matrix_errors payload)
              | Some _ \<Rightarrow> (None, [''compatibility matrix payload must be an object''])))"

text \<open>\<open>matrix.get("sections", {}).get(section, {})\<close>\<close>

definition section_payload :: "pydict \<Rightarrow> string \<Rightarrow> pyval res" where
  "section_payload matrix name = (case dget_or matrix ''sections'' (PDict []) of
       PDict sections \<Rightarrow> Inr (dget_or sections name (PDict [])) | _ \<Rightarrow> Inl (OtherError ''AttributeError''))"

definition section_current_version :: "pydict \<Rightarrow> string \<Rightarrow> string res" where
  "section_current_version matrix name = rbind (section_payload matrix name) (\<lambda>p.
     Inr (let current = text_at (as_dict p) ''current_schema_version'' in if current = [] then ''v1'' else current))"

definition version_supported :: "pydict \<Rightarrow> string \<Rightarrow> string \<Rightarrow> bool res" where
  "version_supported matrix name schema_version = rbind (section_payload matrix name) (\<lambda>p.
     Inr (schema_version \<in> set (map (\<lambda>item. strip (py_str item))
       (as_list (dget_or (as_dict p) ''supported_schema_versions'' (PList []))))))"

definition has_migration_path :: "pydict \<Rightarrow> string \<Rightarrow> string \<Rightarrow> string \<Rightarrow> bool" where
  "has_migration_path matrix name from_version to_version =
     list_ex (\<lambda>m. is_dict m \<and> text_at (as_dict m) ''section'' = name \<and>
         text_at (as_dict m) ''from_schema_version'' = from_version \<and> text_at (as_dict m) ''to_schema_version'' = to_version)
       (as_list (dget_or matrix ''migrations'' (PList [])))"

section \<open>Entries and signatures\<close>

definition load_registry :: "pack_env \<Rightarrow> pack_files \<Rightarrow> py_path \<Rightarrow> string \<Rightarrow> pydict option \<times> string list" where
  "load_registry env files base registry_path =
     (let path = file_at base registry_path
      in case dget files path of
           None \<Rightarrow> (None, [''missing registry file: '' @ path])
         | Some f \<Rightarrow>
             (case pf_json f of
                None \<Rightarrow> (None, [''invalid registry json: '' @ pk_json_error env (pf_bytes f)])
              | Some (PDict payload) \<Rightarrow>
                  (let version = dget_or payload ''registry_version'' PNone
                   in (Some payload, if version = PStr ''v1'' then [] else [''registry_version must be v1, got '' @ py_repr version]))
              | Some _ \<Rightarrow> (None, [''registry payload must be an object''])))"

definition endswith :: "string \<Rightarrow> string \<Rightarrow> bool" where
  "endswith s t = startswith (rev s) (rev t)"

definition extract_sections :: "pydict \<Rightarrow> pydict" where
  "extract_sections payload = filter (\<lambda>kv. endswith (fst kv) ''_packs'' \<or> endswith (fst kv) ''_examples'') payload"

definition known_id :: "string \<Rightarrow> string" where
  "known_id pack_id = (if pack_id = [] then ''<unknown>'' else pack_id)"

record entry_fields =
  ef_errors :: "string list"
  ef_pack_id :: string
  ef_version :: string
  ef_path :: string

definition extract_entry_fields :: "pydict \<Rightarrow> entry_fields" where
  "extract_entry_fields entry =
     (let pack_id = text_at entry ''pack_id''; version = text_at entry ''version''; path = text_at entry ''path''
      in \<lparr>ef_errors = (if pack_id = [] then [''missing pack_id''] else []) @
              (if version = [] then [''missing version for '' @ known_id pack_id] else []) @
              (if path = [] then [''missing path for '' @ known_id pack_id] else []),
          ef_pack_id = pack_id, ef_version = version, ef_path = path\<rparr>)"

definition json_suffix :: "string \<Rightarrow> bool" where
  "json_suffix path = (case snd (path_of path) of [] \<Rightarrow> False
     | ps \<Rightarrow> 5 < length (last ps) \<and> endswith (lower (last ps)) ''.json'')"

definition infer_schema_version :: "pack_files \<Rightarrow> pydict \<Rightarrow> string \<Rightarrow> string \<Rightarrow> string" where
  "infer_schema_version files entry target default_version =
     (let from_entry = text_at entry ''schema_version''
      in if from_entry \<noteq> [] then from_entry
         else case (if json_suffix target then Option.bind (dget files target) pf_json else None) of
             Some (PDict payload) \<Rightarrow>
               (let from_payload = text_at payload ''schema_version''
                in if from_payload \<noteq> [] then from_payload else default_version)
           | _ \<Rightarrow> default_version)"

text \<open>The canonical bytes of a pack: those of its JSON value, or the bytes of the file.\<close>

definition artifact_canonical_bytes :: "string \<Rightarrow> pack_file \<Rightarrow> string" where
  "artifact_canonical_bytes target f =
     (if \<not> json_suffix target then pf_bytes f
      else case pf_json f of None \<Rightarrow> pf_bytes f | Some v \<Rightarrow> json_dumps v)"

definition artifact_checksum :: "pack_env \<Rightarrow> pack_files \<Rightarrow> string \<Rightarrow> string res" where
  "artifact_checksum env files target = (case dget files target of
       None \<Rightarrow> Inl (OSError ''no such file'')
     | Some f \<Rightarrow> Inr (pk_sha256 env (artifact_canonical_bytes target f)))"

definition signature_input :: "string \<Rightarrow> string \<Rightarrow> pydict \<Rightarrow> string" where
  "signature_input checksum name entry = json_dumps (PDict
     [(''artifact_checksum'', PStr checksum), (''pack_id'', PStr (text_at entry ''pack_id'')), (''path'', PStr (text_at entry ''path'')),
      (''schema_version'', PStr (let v = text_at entry ''schema_version'' in if v = [] then ''v1'' else v)),
      (''section'', PStr name), (''version'', PStr (text_at entry ''version''))])"

definition compute_signature :: "pack_env \<Rightarrow> pack_files \<Rightarrow> py_path \<Rightarrow> string \<Rightarrow> pydict \<Rightarrow> string \<Rightarrow> string res" where
  "compute_signature env files base name entry signing_key =
     rbind (artifact_checksum env files (file_at base (text_at entry ''path''))) (\<lambda>checksum.
     Inr (pk_hmac env signing_key (signature_input checksum name entry)))"

section \<open>Validation\<close>

definition version_errors :: "pydict \<Rightarrow> string \<Rightarrow> string \<Rightarrow> string \<Rightarrow> string list res" where
  "version_errors matrix name pack_id schema_version =
     rbind (section_current_version matrix name) (\<lambda>current.
     rbind (version_supported matrix name schema_version) (\<lambda>supported.
     Inr (if \<not> supported
          then [name @ '': schema_version '' @ str_repr schema_version @ '' is not supported for '' @ known_id pack_id]
          else if schema_version \<noteq> current \<and> \<not> has_migration_path matrix name schema_version current
          then [name @ '': missing migration path '' @ schema_version @ ''->'' @ current @ '' for '' @ known_id pack_id]
          else [])))"

text \<open>\<open>hmac.compare_digest\<close> refuses a text that is not ASCII.\<close>

definition signature_errors :: "pack_env \<Rightarrow> pack_files \<Rightarrow> py_path \<Rightarrow> string \<Rightarrow> pydict \<Rightarrow> string \<Rightarrow> string \<Rightarrow> string list res" where
  "signature_errors env files base name entry schema_version signing_key =
     (let pack_id = text_at entry ''pack_id''
      in case dget_or entry ''signature'' PNone of
           PDict signature \<Rightarrow>
             (let algorithm = text_at signature ''algorithm''; v = text_at signature ''value'';
                  shape = (if algorithm \<noteq> SIGNATURE_ALGORITHM
                        then [name @ '': unsupported signature algorithm '' @ str_repr algorithm @ '' for '' @ known_id pack_id] else []) @
                    (if text_at signature ''key_id'' = [] then [name @ '': missing signature key_id for '' @ known_id pack_id] else []) @
                    (if v = [] then [name @ '': missing signature value for '' @ known_id pack_id] else [])
              in if algorithm = SIGNATURE_ALGORITHM \<and> v \<noteq> []
                 then if list_ex (\<lambda>c. 128 \<le> code c) v then Inl TypeError
                 else rbind (compute_signature env files base name (dset entry ''schema_version'' (PStr schema_version)) signing_key)
                   (\<lambda>expected. Inr (shape @ (if v = expected then [] else [name @ '': signature verification failed for '' @ pack_id])))
                 else Inr shape)
         | _ \<Rightarrow> Inr [name @ '': missing signature for '' @ known_id pack_id])"

definition validate_registry_entry :: "pack_env \<Rightarrow> pack_files \<Rightarrow> py_path \<Rightarrow> pydict \<Rightarrow> string \<Rightarrow> pydict \<Rightarrow> string \<Rightarrow> string list res" where
  "validate_registry_entry env files base matrix name entry signing_key =
     (let ef = extract_entry_fields entry; field_errors = map (\<lambda>m. name @ '': '' @ m) (ef_errors ef);
          target = file_at base (ef_path ef)
      in if ef_path ef = [] then Inr field_errors
         else if dget files target = None then Inr (field_errors @ [name @ '': missing artifact '' @ target])
         else rbind (section_current_version matrix name) (\<lambda>current.
           let schema_version = infer_schema_version files entry target current
           in rbind (version_errors matrix name (ef_pack_id ef) schema_version) (\<lambda>verr.
              rbind (if name \<in> set SIGNED_SECTIONS then signature_errors env files base name entry schema_version signing_key else Inr [])
                (\<lambda>serr. Inr (field_errors @ verr @ serr)))))"

definition validate_item :: "pack_env \<Rightarrow> pack_files \<Rightarrow> py_path \<Rightarrow> pydict \<Rightarrow> string \<Rightarrow> string \<Rightarrow> nat \<times> pyval \<Rightarrow> string list res" where
  "validate_item env files base matrix signing_key name ie = (let (i, e) = ie
     in case e of PDict entry \<Rightarrow> validate_registry_entry env files base matrix name entry signing_key
        | _ \<Rightarrow> Inr [name @ ''['' @ int_str (int i) @ ''] must be an object''])"

definition validate_section :: "pack_env \<Rightarrow> pack_files \<Rightarrow> py_path \<Rightarrow> pydict \<Rightarrow> string \<Rightarrow> string \<times> pyval \<Rightarrow> string list res" where
  "validate_section env files base matrix signing_key kv = (let (name, entries) = kv
     in case entries of
          PList es \<Rightarrow> rbind (rmap (validate_item env files base matrix signing_key name) (List.enumerate 0 es)) (\<lambda>r. Inr (concat r))
        | _ \<Rightarrow> Inr [name @ '' must be a list''])"

definition validate_pack_registry :: "pack_env \<Rightarrow> pack_files \<Rightarrow> py_path \<Rightarrow> string \<Rightarrow> string \<Rightarrow> string \<Rightarrow> string list res" where
  "validate_pack_registry env files base registry_path matrix_path signing_key =
     (case (load_registry env files base registry_path, load_compatibility_matrix env files base matrix_path) of
        ((Some payload, errs), (Some matrix, merrs)) \<Rightarrow>
          rbind (rmap (validate_section env files base matrix signing_key) (extract_sections payload)) (\<lambda>r. Inr (errs @ merrs @ concat r))
      | ((_, errs), (_, merrs)) \<Rightarrow> Inr (errs @ merrs))"

section \<open>Signing\<close>

definition signature_dict :: "string \<Rightarrow> string \<Rightarrow> pydict" where
  "signature_dict key_id v = [(''algorithm'', PStr SIGNATURE_ALGORITHM), (''key_id'', PStr key_id), (''value'', PStr v)]"

text \<open>An entry after signing, with the errors; an entry with an error is left as it was.\<close>

definition sign_entry :: "pack_env \<Rightarrow> pack_files \<Rightarrow> py_path \<Rightarrow> pydict \<Rightarrow> string \<Rightarrow> string \<Rightarrow> string \<Rightarrow> pydict \<Rightarrow> (pydict \<times> string list) res" where
  "sign_entry env files base matrix signing_key key_id name entry =
     (let ef = extract_entry_fields entry; target = file_at base (ef_path ef)
      in if ef_errors ef \<noteq> [] then Inr (entry, map (\<lambda>m. name @ '': '' @ m) (ef_errors ef))
         else if dget files target = None then Inr (entry, [name @ '': missing artifact '' @ target])
         else rbind (section_current_version matrix name) (\<lambda>current.
           let schema_version = infer_schema_version files entry target current;
               entry1 = dset entry ''schema_version'' (PStr schema_version)
           in rbind (version_supported matrix name schema_version) (\<lambda>supported.
              if \<not> supported
              then Inr (entry, [name @ '': schema_version '' @ str_repr schema_version @ '' is not supported for '' @ ef_pack_id ef])
              else rbind (compute_signature env files base name entry1 signing_key) (\<lambda>v.
                Inr (dset entry1 ''signature'' (PDict (signature_dict key_id v)), [])))))"

definition sign_item :: "pack_env \<Rightarrow> pack_files \<Rightarrow> py_path \<Rightarrow> pydict \<Rightarrow> string \<Rightarrow> string \<Rightarrow> string \<Rightarrow> pyval \<Rightarrow> (pyval \<times> string list) res" where
  "sign_item env files base matrix signing_key key_id name e = (case e of
       PDict entry \<Rightarrow> rbind (sign_entry env files base matrix signing_key key_id name entry) (\<lambda>(entry', errs). Inr (PDict entry', errs))
     | _ \<Rightarrow> Inr (e, [name @ '': entry must be an object'']))"

definition sign_section :: "pack_env \<Rightarrow> pack_files \<Rightarrow> py_path \<Rightarrow> pydict \<Rightarrow> string \<Rightarrow> string \<Rightarrow> string \<Rightarrow> pydict \<Rightarrow> (pydict \<times> string list) res" where
  "sign_section env files base matrix signing_key key_id name payload = (case dget payload name of
       None \<Rightarrow> Inr (payload, [])
     | Some (PList es) \<Rightarrow>
         rbind (rmap (sign_item env files base matrix signing_key key_id name) es) (\<lambda>r.
         Inr (dset payload name (PList (map fst r)), concat (map snd r)))
     | Some _ \<Rightarrow> Inr (payload, [name @ '' must be a list'']))"

fun sign_sections :: "pack_env \<Rightarrow> pack_files \<Rightarrow> py_path \<Rightarrow> pydict \<Rightarrow> string \<Rightarrow> string \<Rightarrow> string list \<Rightarrow> pydict \<Rightarrow> (pydict \<times> string list) res" where
  "sign_sections env files base matrix signing_key key_id [] payload = Inr (payload, [])"
| "sign_sections env files base matrix signing_key key_id (name # names) payload =
     rbind (sign_section env files base matrix signing_key key_id name payload) (\<lambda>(payload1, errs).
     rbind (sign_sections env files base matrix signing_key key_id names payload1) (\<lambda>(payload2, errs').
     Inr (payload2, errs @ errs')))"

definition sign_pack_registry :: "pack_env \<Rightarrow> py_path \<Rightarrow> string \<Rightarrow> string \<Rightarrow> string \<Rightarrow> string \<Rightarrow> pack_files \<Rightarrow> string list res \<times> pack_files" where
  "sign_pack_registry env base registry_path matrix_path signing_key key_id files =
     (case (load_registry env files base registry_path, load_compatibility_matrix env files base matrix_path) of
        ((Some payload, errs), (Some matrix, merrs)) \<Rightarrow>
          (case sign_sections env files base matrix signing_key key_id SIGNED_SECTIONS payload of
             Inl e \<Rightarrow> (Inl e, files)
           | Inr (signed, serrs) \<Rightarrow>
               if errs @ merrs @ serrs \<noteq> [] then (Inr (errs @ merrs @ serrs), files)
               else (Inr [], dset files (file_at base registry_path) (json_file (PDict signed))))
      | ((_, errs), (_, merrs)) \<Rightarrow> (Inr (errs @ merrs), files))"

section \<open>Migration\<close>

definition setdefault :: "string \<Rightarrow> pyval \<Rightarrow> pydict \<Rightarrow> pydict" where
  "setdefault k v d = (if dget d k = None then dset d k v else d)"

definition migrate_pack_payload :: "pydict \<Rightarrow> string \<Rightarrow> string \<Rightarrow> string \<Rightarrow> pydict res" where
  "migrate_pack_payload payload name source target =
     (if source = target then Inr payload
      else if source = ''v1'' \<and> target = ''v2'' then
        (let migrated = dset payload ''schema_version'' (PStr ''v2'');
             compatibility = setdefault ''max_runtime_version'' (PStr ''0.x'')
               (setdefault ''min_runtime_version'' (PStr ''0.1.0'') (as_dict (dget_or migrated ''compatibility'' PNone)));
             compatibility' = (if name \<in> set [''semantic_packs'', ''template_packs'']
               then setdefault ''semantic_manifest_version'' (PStr ''1'') compatibility else compatibility)
         in Inr (dset migrated ''compatibility'' (PDict compatibility')))
      else Inl (ValueError (''unsupported_migration:'' @ name @ '':'' @ source @ ''->'' @ target)))"

record migration_line =
  ml_pack_id :: string
  ml_section :: string
  ml_status :: string
  ml_from :: string
  ml_to :: string

text \<open>The variables of the loop over the entries of a section.\<close>

record migration_state =
  ms_files :: pack_files
  ms_report :: "migration_line list"
  ms_errors :: "string list"

definition failing :: "string \<Rightarrow> migration_state \<Rightarrow> migration_state" where
  "failing message st = st\<lparr>ms_errors := ms_errors st @ [message]\<rparr>"

definition reporting :: "migration_line \<Rightarrow> migration_state \<Rightarrow> migration_state" where
  "reporting line st = st\<lparr>ms_report := ms_report st @ [line]\<rparr>"

definition source_version :: "pydict \<Rightarrow> pydict \<Rightarrow> string" where
  "source_version entry payload =
     (let v = strip (py_str (dget_or entry ''schema_version'' (dget_or payload ''schema_version'' (PStr ''v1''))))
      in if v = [] then ''v1'' else v)"

text \<open>An entry whose pack can be read, whose version is supported: what becomes of it.\<close>

definition migrate_pack ::
  "py_path \<Rightarrow> pydict \<Rightarrow> string \<Rightarrow> string \<Rightarrow> bool \<Rightarrow> pydict \<Rightarrow> pydict \<Rightarrow> string \<Rightarrow> migration_state \<Rightarrow> pydict \<times> migration_state" where
  "migrate_pack base matrix name target write entry payload source st =
     (let pack_id = known_id (text_at entry ''pack_id''); artifact = file_at base (text_at entry ''path'');
          line = (\<lambda>status. \<lparr>ml_pack_id = pack_id, ml_section = name, ml_status = status, ml_from = source, ml_to = target\<rparr>)
      in if source = target
         then (dset entry ''schema_version'' (PStr source), reporting (line ''up_to_date'') st)
         else if \<not> has_migration_path matrix name source target
         then (entry, failing (name @ '': no migration path '' @ source @ ''->'' @ target @ '' for '' @ pack_id) st)
         else case migrate_pack_payload payload name source target of
             Inl e \<Rightarrow> (entry, failing (name @ '': '' @ (case e of ValueError m \<Rightarrow> m | _ \<Rightarrow> [])) st)
           | Inr migrated \<Rightarrow>
               if write
               then (dset entry ''schema_version'' (PStr target),
                 (reporting (line ''migrated'') st)\<lparr>ms_files := dset (ms_files st) artifact (json_file (PDict migrated))\<rparr>)
               else (entry, reporting (line ''migration_available'') st))"

definition migrate_entry ::
  "pack_env \<Rightarrow> py_path \<Rightarrow> pydict \<Rightarrow> string \<Rightarrow> string \<Rightarrow> bool \<Rightarrow> pydict \<Rightarrow> migration_state \<Rightarrow> pydict res \<times> migration_state" where
  "migrate_entry env base matrix name target write entry st =
     (let pack_id = known_id (text_at entry ''pack_id''); path = text_at entry ''path''; artifact = file_at base path
      in if path = [] then (Inr entry, failing (name @ '': missing path for '' @ pack_id) st)
         else case dget (ms_files st) artifact of
             None \<Rightarrow> (Inr entry, failing (name @ '': missing artifact '' @ artifact) st)
           | Some f \<Rightarrow>
               (case pf_json f of
                  None \<Rightarrow> (Inr entry, failing (name @ '': invalid json payload for '' @ pack_id @ '': '' @ pk_json_error env (pf_bytes f)) st)
                | Some (PDict payload) \<Rightarrow>
                    (let source = source_version entry payload
                     in case version_supported matrix name source of
                          Inl e \<Rightarrow> (Inl e, st)
                        | Inr False \<Rightarrow>
                            (Inr entry, failing (name @ '': schema_version '' @ str_repr source @ '' is not supported for '' @ pack_id) st)
                        | Inr True \<Rightarrow>
                            (let (entry', st') = migrate_pack base matrix name target write entry payload source st in (Inr entry', st')))
                | Some _ \<Rightarrow> (Inr entry, failing (name @ '': payload must be an object for '' @ pack_id) st)))"

fun migrate_entries ::
  "pack_env \<Rightarrow> py_path \<Rightarrow> pydict \<Rightarrow> string \<Rightarrow> string \<Rightarrow> bool \<Rightarrow> pyval list \<Rightarrow> migration_state \<Rightarrow> pyval list res \<times> migration_state" where
  "migrate_entries env base matrix name target write [] st = (Inr [], st)"
| "migrate_entries env base matrix name target write (e # es) st =
     (case (case e of
         PDict entry \<Rightarrow> (case migrate_entry env base matrix name target write entry st of
             (Inl err, st1) \<Rightarrow> (Inl err, st1) | (Inr entry', st1) \<Rightarrow> (Inr (PDict entry'), st1))
       | _ \<Rightarrow> (Inr e, failing (name @ '': entry must be an object'') st)) of
        (Inl err, st1) \<Rightarrow> (Inl err, st1)
      | (Inr e', st1) \<Rightarrow>
          (case migrate_entries env base matrix name target write es st1 of
             (Inl err, st2) \<Rightarrow> (Inl err, st2) | (Inr es', st2) \<Rightarrow> (Inr (e' # es'), st2)))"

fun migrate_sections ::
  "pack_env \<Rightarrow> py_path \<Rightarrow> pydict \<Rightarrow> bool \<Rightarrow> string list \<Rightarrow> pydict \<Rightarrow> migration_state \<Rightarrow> pydict res \<times> migration_state" where
  "migrate_sections env base matrix write [] registry st = (Inr registry, st)"
| "migrate_sections env base matrix write (name # names) registry st =
     (case dget_or registry name (PList []) of
        PList es \<Rightarrow>
          (case section_current_version matrix name of
             Inl e \<Rightarrow> (Inl e, st)
           | Inr target \<Rightarrow>
               (case migrate_entries env base matrix name target write es st of
                  (Inl e, st1) \<Rightarrow> (Inl e, st1)
                | (Inr es', st1) \<Rightarrow> migrate_sections env base matrix write names
                    (if dget registry name = None then registry else dset registry name (PList es')) st1))
      | _ \<Rightarrow> migrate_sections env base matrix write names registry (failing (name @ '' must be a list'') st))"

definition migrate_registry_packs ::
  "pack_env \<Rightarrow> py_path \<Rightarrow> string \<Rightarrow> string \<Rightarrow> string \<Rightarrow> string \<Rightarrow> bool \<Rightarrow> pack_files \<Rightarrow> (migration_line list \<times> string list) res \<times> pack_files" where
  "migrate_registry_packs env base registry_path matrix_path signing_key key_id write files =
     (case load_compatibility_matrix env files base matrix_path of
        (None, merrs) \<Rightarrow> (Inr ([], merrs), files)
      | (Some matrix, merrs) \<Rightarrow>
          (let path = file_at base registry_path
           in case dget files path of
                None \<Rightarrow> (Inr ([], merrs @ [''missing registry file: '' @ path]), files)
              | Some f \<Rightarrow>
                  (case pf_json f of
                     None \<Rightarrow> (Inr ([], merrs @ [''invalid registry json: '' @ pk_json_error env (pf_bytes f)]), files)
                   | Some (PDict registry) \<Rightarrow>
                       (case migrate_sections env base matrix write SIGNED_SECTIONS registry
                               \<lparr>ms_files = files, ms_report = [], ms_errors = merrs\<rparr> of
                          (Inl e, st) \<Rightarrow> (Inl e, ms_files st)
                        | (Inr registry', st) \<Rightarrow>
                            if ms_errors st \<noteq> [] \<or> \<not> write then (Inr (ms_report st, ms_errors st), ms_files st)
                            else case sign_pack_registry env base registry_path matrix_path signing_key key_id
                                (dset (ms_files st) path (json_file (PDict registry'))) of
                                (Inl e, files') \<Rightarrow> (Inl e, files')
                              | (Inr errs, files') \<Rightarrow> (Inr (ms_report st, errs), files'))
                   | Some _ \<Rightarrow> (Inr ([], merrs @ [''registry payload must be an object'']), files))))"

section \<open>Reading back what was written\<close>

lemma map_of_filter: "map_of xs k = (case filter (\<lambda>p. fst p = k) xs of [] \<Rightarrow> None | p # _ \<Rightarrow> Some (snd p))"
  by (induction xs) (auto split: list.split)

lemma map_of_sort_key [simp]: "map_of (sort_key fst xs) k = map_of xs k"
  by (simp add: map_of_filter sort_key_stable)

lemma map_of_map_snd: "map_of (map (\<lambda>p. (fst p, f (snd p))) xs) k = map_option f (map_of xs k)"
  by (induction xs) auto

definition sorted_dict :: "pydict \<Rightarrow> pydict" where
  "sorted_dict d = sort_key fst (map (\<lambda>p. (fst p, sorted_json (snd p))) d)"

lemma sorted_json_dict: "sorted_json (PDict d) = PDict (sorted_dict d)"
  by (simp add: sorted_dict_def)

lemma dget_sorted [simp]: "dget (sorted_dict d) k = map_option sorted_json (dget d k)"
  by (simp add: dget_def sorted_dict_def map_of_map_snd)

lemma dget_or_dget: "dget_or d k v = (case dget d k of None \<Rightarrow> v | Some x \<Rightarrow> x)"
  by (simp add: dget_or_def dget_def)

text \<open>A value that is written as it is: no list, no dictionary.\<close>

fun plain_value :: "pyval \<Rightarrow> bool" where
  "plain_value (PList _) = False"
| "plain_value (PDict _) = False"
| "plain_value _ = True"

lemma sorted_json_str [simp]: "sorted_json (PStr t) = PStr t"
  by simp

lemma sorted_plain: "plain_value v \<Longrightarrow> sorted_json v = v"
  by (cases v) auto

definition ENTRY_KEYS :: "string list" where
  "ENTRY_KEYS = [''pack_id'', ''version'', ''path'', ''schema_version'']"

definition plain_entry :: "pydict \<Rightarrow> bool" where
  "plain_entry entry = list_all (\<lambda>k. plain_value (dget_or entry k PNone)) ENTRY_KEYS"

lemma text_at_sorted:
  assumes "plain_entry entry" "k \<in> set ENTRY_KEYS"
  shows "text_at (sorted_dict entry) k = text_at entry k"
  using assms by (auto simp: plain_entry_def list_all_iff text_at_def dget_or_dget sorted_plain split: option.split_asm option.split)

lemma text_at_dset [simp]: "text_at (dset d k v) k' = (if k' = k then strip (py_str v) else text_at d k')"
  by (simp add: text_at_def)

lemma plain_dset: "plain_entry entry \<Longrightarrow> plain_value v \<or> k \<notin> set ENTRY_KEYS \<Longrightarrow> plain_entry (dset entry k v)"
  by (auto simp: plain_entry_def list_all_iff)

section \<open>Signing and validating\<close>

lemma strip_text_at [simp]: "strip (text_at d k) = text_at d k"
  by (simp add: text_at_def strip_strip)

lemma infer_stripped:
  assumes "strip default_version = default_version" "default_version \<noteq> []"
  shows "strip (infer_schema_version files entry target default_version) = infer_schema_version files entry target default_version \<and>
    infer_schema_version files entry target default_version \<noteq> []"
  using assms by (auto simp: infer_schema_version_def Let_def split: option.split pyval.split)

lemma current_stripped:
  "section_current_version matrix name = Inr current \<Longrightarrow> strip current = current \<and> current \<noteq> []"
proof -
  have "strip ''v1'' = ''v1''" by code_simp
  then show "section_current_version matrix name = Inr current \<Longrightarrow> strip current = current \<and> current \<noteq> []"
    by (auto simp: section_current_version_def rbind_eq_Inr_iff Let_def split: if_split_asm)
qed

lemma version_supported_current: "version_supported matrix name v = Inr b \<Longrightarrow> \<exists>current. section_current_version matrix name = Inr current"
  by (auto simp: version_supported_def section_current_version_def rbind_eq_Inr_iff)

text \<open>Every supported version of a signed section leads to its current version.\<close>

definition complete_matrix :: "pydict \<Rightarrow> bool" where
  "complete_matrix matrix = list_all (\<lambda>name. case section_current_version matrix name of
       Inl _ \<Rightarrow> False
     | Inr current \<Rightarrow> list_all (\<lambda>v. if v = current then True else has_migration_path matrix name v current)
         (map (\<lambda>item. strip (py_str item)) (as_list (dget_or (as_dict (projr (section_payload matrix name)))
            ''supported_schema_versions'' (PList []))))) SIGNED_SECTIONS"

lemma complete_no_version_errors:
  assumes "complete_matrix matrix" "name \<in> set SIGNED_SECTIONS" "version_supported matrix name v = Inr True"
  shows "version_errors matrix name pack_id v = Inr []"
proof -
  from version_supported_current [OF assms(3)] obtain current where current: "section_current_version matrix name = Inr current" by blast
  from assms(3) obtain p where p: "section_payload matrix name = Inr p"
    and mem: "v \<in> set (map (\<lambda>item. strip (py_str item)) (as_list (dget_or (as_dict p) ''supported_schema_versions'' (PList []))))"
    by (auto simp: version_supported_def rbind_eq_Inr_iff)
  from assms(1,2) current p have "list_all (\<lambda>v. if v = current then True else has_migration_path matrix name v current)
      (map (\<lambda>item. strip (py_str item)) (as_list (dget_or (as_dict p) ''supported_schema_versions'' (PList []))))"
    unfolding complete_matrix_def list_all_iff by fastforce
  with mem have "v = current \<or> has_migration_path matrix name v current" unfolding list_all_iff by meson
  with assms(3) current show ?thesis by (auto simp: version_errors_def)
qed

definition hex_hmac :: "pack_env \<Rightarrow> bool" where
  "hex_hmac env \<longleftrightarrow> (\<forall>k m. pk_hmac env k m \<noteq> [] \<and> (\<forall>c \<in> set (pk_hmac env k m). is_digit c \<or> is_alpha c))"

lemma hex_text:
  assumes "hex_hmac env"
  shows "strip (pk_hmac env k m) = pk_hmac env k m \<and> pk_hmac env k m \<noteq> [] \<and> \<not> list_ex (\<lambda>c. 128 \<le> code c) (pk_hmac env k m)"
proof -
  have ok: "\<not> is_space c \<and> \<not> 128 \<le> code c" if "is_digit c \<or> is_alpha c" for c
    using that by (auto simp: is_digit_def is_alpha_def is_space_def Let_def)
  let ?h = "pk_hmac env k m"
  from assms ok have all: "\<forall>c \<in> set ?h. \<not> is_space c \<and> \<not> 128 \<le> code c" and ne: "?h \<noteq> []" by (auto simp: hex_hmac_def)
  from all have "dropWhile is_space ?h = ?h" "dropWhile is_space (rev ?h) = rev ?h"
    by (simp_all add: dropWhile_eq_self_iff hd_rev ne)
  then have "strip ?h = ?h" by (simp add: strip_def lstrip_def rstrip_def)
  with all ne show ?thesis by (auto simp: list_ex_iff)
qed

text \<open>What an entry is after it was signed without an error.\<close>

lemma sign_entry_done:
  assumes "sign_entry env files base matrix key key_id name entry = Inr (entry', [])"
  obtains v h where "extract_entry_fields entry = \<lparr>ef_errors = [], ef_pack_id = text_at entry ''pack_id'',
      ef_version = text_at entry ''version'', ef_path = text_at entry ''path''\<rparr>"
    "dget files (file_at base (text_at entry ''path'')) \<noteq> None" "text_at entry ''path'' \<noteq> []"
    "version_supported matrix name v = Inr True" "strip v = v" "v \<noteq> []"
    "compute_signature env files base name (dset entry ''schema_version'' (PStr v)) key = Inr h"
    "entry' = dset (dset entry ''schema_version'' (PStr v)) ''signature'' (PDict (signature_dict key_id h))"
proof -
  from assms have fields_ok: "ef_errors (extract_entry_fields entry) = []"
    by (auto simp: sign_entry_def Let_def split: if_split_asm)
  have parts: "extract_entry_fields entry = \<lparr>ef_errors = [], ef_pack_id = text_at entry ''pack_id'',
      ef_version = text_at entry ''version'', ef_path = text_at entry ''path''\<rparr>" "text_at entry ''path'' \<noteq> []"
    using fields_ok by (auto simp: extract_entry_fields_def Let_def split: if_split_asm)
  from assms obtain current where c: "section_current_version matrix name = Inr current"
    and present: "dget files (file_at base (text_at entry ''path'')) \<noteq> None"
    by (auto simp: sign_entry_def Let_def parts rbind_eq_Inr_iff split: if_split_asm)
  let ?v = "infer_schema_version files entry (file_at base (text_at entry ''path'')) current"
  from infer_stripped current_stripped [OF c] have v: "strip ?v = ?v" "?v \<noteq> []" by blast+
  from assms parts c present obtain h where
    "version_supported matrix name ?v = Inr True"
    "compute_signature env files base name (dset entry ''schema_version'' (PStr ?v)) key = Inr h"
    "entry' = dset (dset entry ''schema_version'' (PStr ?v)) ''signature'' (PDict (signature_dict key_id h))"
    by (auto simp: sign_entry_def Let_def rbind_eq_Inr_iff split: if_split_asm)
  with that [OF parts(1) present parts(2) _ v] show thesis by blast
qed

lemma compute_signature_cong:
  assumes "\<And>k. k \<in> set ENTRY_KEYS \<Longrightarrow> text_at entry k = text_at entry' k"
    and "dget files (file_at base (text_at entry ''path'')) = dget files' (file_at base (text_at entry ''path''))"
  shows "compute_signature env files base name entry key = compute_signature env files' base name entry' key"
  using assms by (simp add: compute_signature_def signature_input_def artifact_checksum_def ENTRY_KEYS_def)

lemma signed_entry_validates:
  assumes "sign_entry env files base matrix key key_id name entry = Inr (entry', [])"
    and "hex_hmac env" "strip key_id \<noteq> []" "plain_entry entry" "complete_matrix matrix" "name \<in> set SIGNED_SECTIONS"
    and same: "dget files' (file_at base (text_at entry ''path'')) = dget files (file_at base (text_at entry ''path''))"
  shows "validate_registry_entry env files' base matrix name (sorted_dict entry') key = Inr []"
proof -
  from assms(1) obtain v h where e: "extract_entry_fields entry = \<lparr>ef_errors = [], ef_pack_id = text_at entry ''pack_id'',
      ef_version = text_at entry ''version'', ef_path = text_at entry ''path''\<rparr>"
    "dget files (file_at base (text_at entry ''path'')) \<noteq> None" "text_at entry ''path'' \<noteq> []"
    and v: "version_supported matrix name v = Inr True" "strip v = v" "v \<noteq> []"
    and h: "compute_signature env files base name (dset entry ''schema_version'' (PStr v)) key = Inr h"
    and e': "entry' = dset (dset entry ''schema_version'' (PStr v)) ''signature'' (PDict (signature_dict key_id h))"
    by (rule sign_entry_done)
  have plain: "plain_entry entry'" unfolding e' by (intro plain_dset assms(4)) (simp_all add: ENTRY_KEYS_def)
  have at: "text_at (sorted_dict entry') k = (if k = ''schema_version'' then v else text_at entry k)" if "k \<in> set ENTRY_KEYS" for k
    using text_at_sorted [OF plain that] that v(2) by (auto simp: e' ENTRY_KEYS_def)
  have keys: "text_at (sorted_dict entry') ''pack_id'' = text_at entry ''pack_id''" "text_at (sorted_dict entry') ''version'' = text_at entry ''version''"
    "text_at (sorted_dict entry') ''path'' = text_at entry ''path''" "text_at (sorted_dict entry') ''schema_version'' = v"
    by (simp_all add: at ENTRY_KEYS_def)
  have fields: "extract_entry_fields (sorted_dict entry') = extract_entry_fields entry"
    by (simp add: extract_entry_fields_def keys)
  from version_supported_current [OF v(1)] obtain current where current: "section_current_version matrix name = Inr current" by blast
  have infer: "infer_schema_version files' (sorted_dict entry') target current = v" for target
    by (simp add: infer_schema_version_def keys v(3) Let_def)
  have "compute_signature env files' base name (dset (sorted_dict entry') ''schema_version'' (PStr v)) key = Inr h"
    unfolding h [symmetric]
    by (rule compute_signature_cong) (auto simp: ENTRY_KEYS_def keys same v(2))
  moreover have "h = pk_hmac env key (signature_input (projr (artifact_checksum env files (file_at base (text_at entry ''path'')))) name
      (dset entry ''schema_version'' (PStr v)))"
    using h by (auto simp: compute_signature_def rbind_eq_Inr_iff)
  then have "strip h = h" "h \<noteq> []" "\<not> list_ex (\<lambda>c. 128 \<le> code c) h" using hex_text [OF assms(2)] by metis+
  moreover have "dget_or (sorted_dict entry') ''signature'' PNone = PDict (sorted_dict (signature_dict key_id h))"
    by (simp add: dget_or_dget e' sorted_json_dict del: sorted_json.simps)
  moreover have "strip ''hmac-sha256'' = ''hmac-sha256''" by code_simp
  ultimately have "signature_errors env files' base name (sorted_dict entry') v key = Inr []"
    using assms(3) by (simp add: signature_errors_def Let_def text_at_def dget_or_dget dget_def [of "signature_dict key_id h"]
        signature_dict_def SIGNATURE_ALGORITHM_def sorted_dict_def map_of_map_snd dget_def)
  with complete_no_version_errors [OF assms(5,6) v(1)] e same assms(6) show ?thesis
    by (simp add: validate_registry_entry_def fields Let_def current infer)
qed

lemma rmap_nothing: "(\<And>x. x \<in> set xs \<Longrightarrow> f x = Inr []) \<Longrightarrow> rbind (rmap f xs) (\<lambda>r. Inr (concat r)) = Inr []"
proof -
  assume all: "\<And>x. x \<in> set xs \<Longrightarrow> f x = Inr []"
  then have "rmap f xs = Inr (map (\<lambda>_. []) xs)" by (induction xs) auto
  then show ?thesis by simp
qed

definition signed_from :: "pack_env \<Rightarrow> pack_files \<Rightarrow> py_path \<Rightarrow> pydict \<Rightarrow> string \<Rightarrow> string \<Rightarrow> string \<Rightarrow> pyval option \<Rightarrow> pyval option \<Rightarrow> bool" where
  "signed_from env files base matrix key key_id name before after \<longleftrightarrow> (case before of
       None \<Rightarrow> after = None
     | Some v \<Rightarrow> \<exists>es r. v = PList es \<and> rmap (sign_item env files base matrix key key_id name) es = Inr r \<and>
         list_all (\<lambda>x. snd x = []) r \<and> after = Some (PList (map fst r)))"

lemma sign_section_done:
  assumes "sign_section env files base matrix key key_id name payload = Inr (signed, [])"
  shows "(\<forall>k. k \<noteq> name \<longrightarrow> dget signed k = dget payload k) \<and>
    signed_from env files base matrix key key_id name (dget payload name) (dget signed name)"
  using assms by (auto simp: sign_section_def signed_from_def rbind_eq_Inr_iff list_all_iff split: option.split_asm pyval.split_asm)

lemma sign_sections_done:
  "sign_sections env files base matrix key key_id names payload = Inr (signed, []) \<Longrightarrow> distinct names \<Longrightarrow>
     (\<forall>k. k \<notin> set names \<longrightarrow> dget signed k = dget payload k) \<and>
     (\<forall>name \<in> set names. signed_from env files base matrix key key_id name (dget payload name) (dget signed name))"
proof (induction names arbitrary: payload)
  case (Cons name names)
  from Cons.prems(1) obtain payload1 where first: "sign_section env files base matrix key key_id name payload = Inr (payload1, [])"
    and rest: "sign_sections env files base matrix key key_id names payload1 = Inr (signed, [])"
    by (auto simp: rbind_eq_Inr_iff)
  from sign_section_done [OF first] Cons.IH [OF rest] Cons.prems(2) show ?case by (auto 0 3)
qed simp

text \<open>
  The registries that can be signed: the fields a signature covers are texts, and no pack is the
  registry itself.
\<close>

definition signable :: "py_path \<Rightarrow> string \<Rightarrow> pydict \<Rightarrow> bool" where
  "signable base registry_path registry = list_all (\<lambda>name. list_all (\<lambda>e. plain_entry (as_dict e) \<and>
       file_at base (text_at (as_dict e) ''path'') \<noteq> file_at base registry_path) (as_list (dget_or registry name (PList [])))) SIGNED_SECTIONS"

lemma signed_section_validates:
  assumes "signed_from env files base matrix key key_id name (dget registry name) (dget signed name)"
    and "hex_hmac env" "strip key_id \<noteq> []" "signable base registry_path registry" "complete_matrix matrix" "name \<in> set SIGNED_SECTIONS"
    and "dget signed name = Some v"
  shows "validate_section env (dset files (file_at base registry_path) f) base matrix key (name, sorted_json v) = Inr []"
proof -
  from assms(1,7) obtain es r where es: "dget registry name = Some (PList es)"
    and r: "rmap (sign_item env files base matrix key key_id name) es = Inr r" "list_all (\<lambda>x. snd x = []) r" "v = PList (map fst r)"
    by (auto simp: signed_from_def split: option.split_asm)
  let ?files = "dset files (file_at base registry_path) f"
  have item: "validate_item env ?files base matrix key name (i, sorted_json e) = Inr []" if "e \<in> set (map fst r)" for i e
  proof -
    from that r(2) obtain x where "(e, []) \<in> set r" by (auto simp: list_all_iff)
    with rmap_Inr_set [OF r(1)] obtain e0 where e0: "e0 \<in> set es" "sign_item env files base matrix key key_id name e0 = Inr (e, [])" by blast
    then obtain entry entry' where entry: "e0 = PDict entry" "e = PDict entry'"
      "sign_entry env files base matrix key key_id name entry = Inr (entry', [])"
      by (auto simp: sign_item_def rbind_eq_Inr_iff split: pyval.split_asm)
    from assms(4,6) es e0(1) entry(1) have "plain_entry entry" "file_at base (text_at entry ''path'') \<noteq> file_at base registry_path"
      by (auto simp: signable_def list_all_iff dget_or_dget dest!: bspec)
    with signed_entry_validates [OF entry(3) assms(2,3) _ assms(5,6), of ?files] show ?thesis
      by (simp add: validate_item_def entry(2) sorted_json_dict del: sorted_json.simps)
  qed
  have "validate_item env ?files base matrix key name x = Inr []" if "x \<in> set (List.enumerate 0 (map sorted_json (map fst r)))" for x
  proof -
    from that have "snd x \<in> set (map snd (List.enumerate 0 (map sorted_json (map fst r))))" unfolding set_map by (rule imageI)
    then obtain e where "e \<in> set (map fst r)" "snd x = sorted_json e" unfolding map_snd_enumerate by auto
    then show ?thesis using item [of e "fst x"] by (metis prod.collapse)
  qed
  from rmap_nothing [OF this] show ?thesis by (simp add: validate_section_def r(3))
qed


section \<open>What a validated registry guarantees\<close>

definition authentic :: "pack_env \<Rightarrow> pack_files \<Rightarrow> py_path \<Rightarrow> pydict \<Rightarrow> string \<Rightarrow> string \<Rightarrow> pyval \<Rightarrow> bool" where
  "authentic env files base matrix key name e \<longleftrightarrow> (\<exists>entry f v signature. e = PDict entry \<and>
     dget files (file_at base (text_at entry ''path'')) = Some f \<and> version_supported matrix name v = Inr True \<and>
     dget entry ''signature'' = Some (PDict signature) \<and>
     text_at signature ''value'' = pk_hmac env key (signature_input
       (pk_sha256 env (artifact_canonical_bytes (file_at base (text_at entry ''path'')) f)) name (dset entry ''schema_version'' (PStr v))))"

lemma rbind_rmap_nothing:
  assumes "rbind (rmap f xs) (\<lambda>r. Inr (g @ concat r)) = Inr []" "x \<in> set xs"
  shows "f x = Inr []"
proof -
  from assms(1) obtain r where r: "rmap f xs = Inr r" "concat r = []" by (auto simp: rbind_eq_Inr_iff)
  from assms(2) obtain i where i: "i < length xs" "x = xs ! i" by (metis in_set_conv_nth)
  with rmap_all2 [OF r(1)] have "f x = Inr (r ! i)" "i < length r" by (auto simp: list_all2_conv_all_nth)
  with r(2) show ?thesis by (auto simp: concat_eq_Nil_conv)
qed

lemma validated_entry_authentic:
  assumes "validate_registry_entry env files base matrix name entry key = Inr []" "name \<in> set SIGNED_SECTIONS"
  shows "authentic env files base matrix key name (PDict entry)"
proof -
  from assms(1) have no_errors: "ef_errors (extract_entry_fields entry) = []"
    by (auto simp: validate_registry_entry_def Let_def rbind_eq_Inr_iff split: if_split_asm)
  then have path: "ef_path (extract_entry_fields entry) = text_at entry ''path''" "text_at entry ''path'' \<noteq> []"
    by (auto simp: extract_entry_fields_def Let_def split: if_split_asm)
  from assms obtain current v f where f: "dget files (file_at base (text_at entry ''path'')) = Some f"
    and v: "version_errors matrix name (ef_pack_id (extract_entry_fields entry)) v = Inr []"
    and s: "signature_errors env files base name entry v key = Inr []"
    by (auto simp: validate_registry_entry_def Let_def path rbind_eq_Inr_iff split: if_split_asm)
  from v have supported: "version_supported matrix name v = Inr True"
    by (auto simp: version_errors_def rbind_eq_Inr_iff split: if_split_asm)
  from s obtain signature where sg: "dget_or entry ''signature'' PNone = PDict signature"
    by (auto simp: signature_errors_def Let_def split: pyval.split_asm)
  then have sg': "dget entry ''signature'' = Some (PDict signature)" by (auto simp: dget_or_dget split: option.split_asm)
  from s sg have "compute_signature env files base name (dset entry ''schema_version'' (PStr v)) key = Inr (text_at signature ''value'')"
    by (auto simp: signature_errors_def Let_def rbind_eq_Inr_iff split: if_split_asm)
  then have "text_at signature ''value'' = pk_hmac env key (signature_input
       (pk_sha256 env (artifact_canonical_bytes (file_at base (text_at entry ''path'')) f)) name (dset entry ''schema_version'' (PStr v)))"
    by (auto simp: compute_signature_def artifact_checksum_def f rbind_eq_Inr_iff)
  with supported f sg' show ?thesis by (auto simp: authentic_def)
qed

lemma load_failed:
  "load_registry env files base registry_path = (None, errs) \<Longrightarrow> errs \<noteq> []"
  "load_compatibility_matrix env files base matrix_path = (None, errs) \<Longrightarrow> errs \<noteq> []"
  by (auto simp: load_registry_def load_compatibility_matrix_def Let_def split: option.split_asm pyval.split_asm)

text \<open>
  C34. A registry that validates holds in its signed sections only packs that are there, whose schema is
  supported, and whose signature is the one of their present content under the key.
\<close>

theorem validated_packs_authentic:
  assumes "validate_pack_registry env files base registry_path matrix_path key = Inr []"
  shows "\<exists>registry matrix. load_registry env files base registry_path = (Some registry, []) \<and>
    load_compatibility_matrix env files base matrix_path = (Some matrix, []) \<and>
    list_all (\<lambda>name. case dget registry name of None \<Rightarrow> True
      | Some v \<Rightarrow> is_list v \<and> list_all (authentic env files base matrix key name) (as_list v)) SIGNED_SECTIONS"
proof -
  obtain x errs y merrs where both: "load_registry env files base registry_path = (x, errs)"
    "load_compatibility_matrix env files base matrix_path = (y, merrs)" by fastforce
  with load_failed assms have "x \<noteq> None" "y \<noteq> None" by (auto simp: validate_pack_registry_def split: option.split_asm)
  then obtain registry matrix where "x = Some registry" "y = Some matrix" by auto
  with both assms have loaded: "load_registry env files base registry_path = (Some registry, [])"
      "load_compatibility_matrix env files base matrix_path = (Some matrix, [])"
    and sections: "rbind (rmap (validate_section env files base matrix key) (extract_sections registry)) (\<lambda>r. Inr ([] @ concat r)) = Inr []"
    by (auto simp: validate_pack_registry_def rbind_eq_Inr_iff)
  have "is_list v \<and> list_all (authentic env files base matrix key name) (as_list v)"
    if name: "name \<in> set SIGNED_SECTIONS" and v: "dget registry name = Some v" for name v
  proof -
    have "list_all (\<lambda>n. endswith n ''_packs'') SIGNED_SECTIONS" by code_simp
    with name have "endswith name ''_packs''" by (simp add: list_all_iff)
    with v have "(name, v) \<in> set (extract_sections registry)" by (auto simp: extract_sections_def dget_def dest: map_of_SomeD)
    from rbind_rmap_nothing [OF sections this] have valid: "validate_section env files base matrix key (name, v) = Inr []" .
    then obtain es where es: "v = PList es" by (auto simp: validate_section_def split: pyval.split_asm)
    with valid have items: "rbind (rmap (validate_item env files base matrix key name) (List.enumerate 0 es)) (\<lambda>r. Inr ([] @ concat r)) = Inr []"
      by (simp add: validate_section_def)
    have "authentic env files base matrix key name e" if e: "e \<in> set es" for e
    proof -
      from e have "e \<in> snd ` set (List.enumerate 0 es)" by (metis map_snd_enumerate list.set_map)
      then obtain i where "(i, e) \<in> set (List.enumerate 0 es)" by auto
      from rbind_rmap_nothing [OF items this] obtain entry where "e = PDict entry"
        "validate_registry_entry env files base matrix name entry key = Inr []" by (auto simp: validate_item_def split: pyval.split_asm)
      with validated_entry_authentic [OF _ name] show ?thesis by blast
    qed
    with es show ?thesis by (simp add: list_all_iff)
  qed
  with loaded show ?thesis by (auto simp: list_all_iff split: option.split)
qed

section \<open>Migration\<close>

lemma migrate_entry_dry: "migrate_entry env base matrix name target False entry st = (r, st') \<Longrightarrow> ms_files st' = ms_files st"
  by (auto simp: migrate_entry_def migrate_pack_def failing_def reporting_def Let_def
      split: option.split_asm sum.split_asm pyval.split_asm bool.split_asm if_split_asm)

lemma migrate_entries_dry: "migrate_entries env base matrix name target False es st = (r, st') \<Longrightarrow> ms_files st' = ms_files st"
proof (induction es arbitrary: st r st')
  case (Cons e es)
  obtain x st1 where one: "(case e of
         PDict entry \<Rightarrow> (case migrate_entry env base matrix name target False entry st of
             (Inl err, st1) \<Rightarrow> (Inl err, st1) | (Inr entry', st1) \<Rightarrow> (Inr (PDict entry'), st1))
       | _ \<Rightarrow> (Inr e, failing (name @ '': entry must be an object'') st)) = (x, st1)" by fastforce
  then have "ms_files st1 = ms_files st"
    by (auto simp: failing_def dest: migrate_entry_dry split: pyval.split_asm prod.split_asm sum.split_asm)
  moreover from Cons.prems one have "st' = st1 \<or> (\<exists>r'. migrate_entries env base matrix name target False es st1 = (r', st'))"
    by (auto split: sum.split_asm prod.split_asm)
  ultimately show ?case using Cons.IH by metis
qed simp

lemma migrate_sections_dry: "migrate_sections env base matrix False names registry st = (r, st') \<Longrightarrow> ms_files st' = ms_files st"
proof (induction names arbitrary: registry st)
  case (Cons name names)
  show ?case
  proof (cases "dget_or registry name (PList [])")
    case (PList es)
    with Cons.prems consider "st' = st" | st1 r1 where "ms_files st1 = ms_files st" "st' = st1"
      | st1 registry1 where "ms_files st1 = ms_files st" "migrate_sections env base matrix False names registry1 st1 = (r, st')"
      by (auto dest: migrate_entries_dry split: sum.split_asm prod.split_asm)
    then show ?thesis using Cons.IH by cases metis+
  qed (use Cons in \<open>auto simp: failing_def\<close>)
qed simp

text \<open>A dry run changes no file.\<close>

lemma migration_dry_run: "snd (migrate_registry_packs env base registry_path matrix_path key key_id False files) = files"
  by (auto simp: migrate_registry_packs_def Let_def dest: migrate_sections_dry
      split: option.split prod.split sum.split pyval.split)

lemma migrated_pack:
  "migrate_pack_payload payload name ''v1'' ''v2'' = Inr d \<Longrightarrow>
     dget d ''schema_version'' = Some (PStr ''v2'') \<and> is_dict (dget_or d ''compatibility'' PNone) \<and>
     (k \<notin> set [''schema_version'', ''compatibility''] \<longrightarrow> dget d k = dget payload k)"
  by (auto simp: migrate_pack_payload_def Let_def)


section \<open>A registry and its packs\<close>

text \<open>A registry of one policy pack, at the old schema, with a matrix that knows two.\<close>

definition demo_pack_env :: pack_env where
  "demo_pack_env = \<lparr>pk_sha256 = (\<lambda>m. m), pk_hmac = (\<lambda>k m. if contains ''v2'' m then ''a2'' else ''a1''),
     pk_json_error = (\<lambda>_. ''Expecting value'')\<rparr>"

definition demo_matrix :: "string \<Rightarrow> pydict" where
  "demo_matrix version = [(''matrix_version'', PStr version),
      (''sections'', PDict [(''policy_packs'', PDict [(''current_schema_version'', PStr ''v2''),
        (''supported_schema_versions'', str_py_list [''v1'', ''v2''])])]),
      (''migrations'', PList [PDict [(''section'', PStr ''policy_packs''), (''from_schema_version'', PStr ''v1''),
        (''to_schema_version'', PStr ''v2'')]])]"

definition demo_entry :: pydict where
  "demo_entry = [(''pack_id'', PStr ''base''), (''version'', PStr ''1.0.0''), (''path'', PStr ''base.json''), (''schema_version'', PStr ''v1'')]"

definition parsed :: "pydict \<Rightarrow> pack_file" where
  "parsed d = \<lparr>pf_bytes = [], pf_json = Some (PDict d)\<rparr>"

definition demo_packs :: "string \<Rightarrow> pydict \<Rightarrow> pack_files" where
  "demo_packs version entry = [(''repo/matrix.json'', parsed (demo_matrix version)),
     (''repo/registry.json'', parsed [(''registry_version'', PStr ''v1''), (''policy_packs'', PList [PDict entry])]),
     (''repo/base.json'', parsed [(''pack_id'', PStr ''base'')])]"

definition demo_base :: py_path where
  "demo_base = path_of ''repo''"

definition demo_signed_entry :: pydict where
  "demo_signed_entry = demo_entry @ [(''signature'', PDict (signature_dict ''dev'' ''a1''))]"

lemma demo_hmac: "hex_hmac demo_pack_env"
  by (simp add: hex_hmac_def demo_pack_env_def is_alpha_def is_digit_def code_def)


lemma demo_registry_validates:
  "validate_pack_registry demo_pack_env (demo_packs ''v1'' demo_signed_entry) demo_base ''registry.json'' ''matrix.json'' ''key'' = Inr []"
  by code_simp

theorem validated_packs_authentic_witness:
  "\<exists>registry matrix. load_registry demo_pack_env (demo_packs ''v1'' demo_signed_entry) demo_base ''registry.json'' = (Some registry, []) \<and>
     load_compatibility_matrix demo_pack_env (demo_packs ''v1'' demo_signed_entry) demo_base ''matrix.json'' = (Some matrix, [])"
  using validated_packs_authentic [OF demo_registry_validates] by blast

text \<open>
  A migration that ends with an error (here of the matrix) has already rewritten the packs, but not
  the registry: the signature of the untouched entry no longer verifies.
\<close>

lemma failed_migration_breaks_signatures:
  "case migrate_registry_packs demo_pack_env demo_base ''registry.json'' ''matrix.json'' ''key'' ''dev'' True (demo_packs ''v9'' demo_signed_entry) of
     (Inr (report, errs), files') \<Rightarrow> map ml_status report = [''migrated''] \<and> errs \<noteq> [] \<and>
       map_option pf_json (dget files' ''repo/registry.json'') = map_option pf_json (dget (demo_packs ''v9'' demo_signed_entry) ''repo/registry.json'') \<and>
       validate_registry_entry demo_pack_env files' demo_base (demo_matrix ''v1'') ''policy_packs'' demo_signed_entry ''key'' =
         Inr [''policy_packs: signature verification failed for base'']
   | _ \<Rightarrow> False"
  by code_simp

end
